(* ===== verification/QC_Prelude.thy ===== *)
theory QC_Prelude
  imports Main "HOL-Library.Word" "HOL-Library.Product_Lexorder" "HOL-Library.Multiset"
begin

text \<open>
  Shared vocabulary of the development: the machine integer types of the C++ code, the
  ordered containers \<^verbatim>\<open>std::set\<close> and \<^verbatim>\<open>std::map\<close> as sorted lists with a user-supplied
  comparator, and the theorem collections the component theories fill.

  A container is a list in iteration order. A comparator is \<^verbatim>\<open>operator<\<close> of the key type; two
  keys are the same key of the container when neither is less than the other, which is what
  the C++ containers test. The projection argument is the identity for a set and the first
  component for a map. The locale \<open>strict_weak_order\<close> is the requirement the C++ standard
  puts on a comparator; the component theories interpret it on the \<^verbatim>\<open>operator<\<close> of each key.
\<close>

named_theorems op_defs \<open>definitions of the operations of a component\<close>
named_theorems inv_defs \<open>definitions of the invariants of a component\<close>

type_synonym u8 = "8 word"
type_synonym u32 = "32 word"
type_synonym u64 = "64 word"

subsection \<open>Ordered containers\<close>

definition key_equiv :: "('k \<Rightarrow> 'k \<Rightarrow> bool) \<Rightarrow> 'k \<Rightarrow> 'k \<Rightarrow> bool" where
  "key_equiv lt a b \<longleftrightarrow> \<not> lt a b \<and> \<not> lt b a"

fun std_find :: "('k \<Rightarrow> 'k \<Rightarrow> bool) \<Rightarrow> ('a \<Rightarrow> 'k) \<Rightarrow> 'k \<Rightarrow> 'a list \<Rightarrow> 'a option" where
  "std_find lt pr k [] = None"
| "std_find lt pr k (x # xs) = (if key_equiv lt (pr x) k then Some x else std_find lt pr k xs)"

fun std_insert :: "('k \<Rightarrow> 'k \<Rightarrow> bool) \<Rightarrow> ('a \<Rightarrow> 'k) \<Rightarrow> 'a \<Rightarrow> 'a list \<Rightarrow> 'a list" where
  "std_insert lt pr x [] = [x]"
| "std_insert lt pr x (y # ys) =
     (if lt (pr x) (pr y) then x # y # ys
      else if lt (pr y) (pr x) then y # std_insert lt pr x ys
      else y # ys)"

definition std_erase :: "('k \<Rightarrow> 'k \<Rightarrow> bool) \<Rightarrow> ('a \<Rightarrow> 'k) \<Rightarrow> 'k \<Rightarrow> 'a list \<Rightarrow> 'a list" where
  "std_erase lt pr k xs = filter (\<lambda>x. \<not> key_equiv lt (pr x) k) xs"

definition std_sorted :: "('k \<Rightarrow> 'k \<Rightarrow> bool) \<Rightarrow> ('a \<Rightarrow> 'k) \<Rightarrow> 'a list \<Rightarrow> bool" where
  "std_sorted lt pr xs \<longleftrightarrow> sorted_wrt (\<lambda>a b. lt (pr a) (pr b)) xs"

lemma std_find_SomeD:
  "std_find lt pr k xs = Some x \<Longrightarrow> x \<in> set xs \<and> key_equiv lt (pr x) k"
  by (induction xs) (auto split: if_splits)

lemma std_find_None_iff:
  "std_find lt pr k xs = None \<longleftrightarrow> (\<forall>x \<in> set xs. \<not> key_equiv lt (pr x) k)"
  by (induction xs) auto

lemma set_std_insert_subset: "set (std_insert lt pr x xs) \<subseteq> insert x (set xs)"
  by (induction xs) auto

lemma std_insert_set_mono: "set xs \<subseteq> set (std_insert lt pr x xs)"
  by (induction xs) auto

lemma set_std_insert_fresh:
  "std_find lt pr (pr x) xs = None \<Longrightarrow> set (std_insert lt pr x xs) = insert x (set xs)"
  by (induction xs) (auto simp: key_equiv_def split: if_splits)

lemma mset_std_insert_fresh:
  "std_find lt pr (pr x) xs = None \<Longrightarrow> mset (std_insert lt pr x xs) = add_mset x (mset xs)"
  by (induction xs) (auto simp: key_equiv_def split: if_splits)

lemma length_std_insert_fresh:
  "std_find lt pr (pr x) xs = None \<Longrightarrow> length (std_insert lt pr x xs) = Suc (length xs)"
  by (induction xs) (auto simp: key_equiv_def split: if_splits)

lemma set_std_erase [simp]:
  "set (std_erase lt pr k xs) = {x \<in> set xs. \<not> key_equiv lt (pr x) k}"
  by (auto simp: std_erase_def)

lemma length_std_erase_le: "length (std_erase lt pr k xs) \<le> length xs"
  by (simp add: std_erase_def)

lemma std_erase_Nil [simp]: "std_erase lt pr k [] = []"
  by (simp add: std_erase_def)

lemma std_sorted_Nil [simp]: "std_sorted lt pr []"
  by (simp add: std_sorted_def)

lemma std_sorted_Cons [simp]:
  "std_sorted lt pr (x # xs) \<longleftrightarrow> (\<forall>y \<in> set xs. lt (pr x) (pr y)) \<and> std_sorted lt pr xs"
  by (simp add: std_sorted_def)

lemma std_sorted_erase: "std_sorted lt pr xs \<Longrightarrow> std_sorted lt pr (std_erase lt pr k xs)"
  by (simp add: std_sorted_def std_erase_def sorted_wrt_filter)

lemma set_fold_erase:
  "set (fold (std_erase lt pr) ks xs) = {x \<in> set xs. \<forall>k \<in> set ks. \<not> key_equiv lt (pr x) k}"
  by (induction ks arbitrary: xs) auto

locale strict_weak_order =
  fixes lt :: "'k \<Rightarrow> 'k \<Rightarrow> bool"
  assumes irrefl: "\<not> lt x x"
    and trans: "lt x y \<Longrightarrow> lt y z \<Longrightarrow> lt x z"
    and equiv_trans: "key_equiv lt x y \<Longrightarrow> key_equiv lt y z \<Longrightarrow> key_equiv lt x z"
begin

lemma asym: "lt x y \<Longrightarrow> \<not> lt y x"
  using irrefl trans by blast

lemma equiv_refl: "key_equiv lt x x"
  by (simp add: key_equiv_def irrefl)

lemma equiv_sym: "key_equiv lt x y \<Longrightarrow> key_equiv lt y x"
  by (simp add: key_equiv_def)

lemma lt_equiv_right: "lt x y \<Longrightarrow> key_equiv lt y z \<Longrightarrow> lt x z"
  using equiv_trans trans unfolding key_equiv_def by metis

lemma lt_equiv_left: "key_equiv lt x y \<Longrightarrow> lt y z \<Longrightarrow> lt x z"
  using equiv_trans trans unfolding key_equiv_def by metis

lemma sorted_insert: "std_sorted lt pr xs \<Longrightarrow> std_sorted lt pr (std_insert lt pr x xs)"
proof (induction xs)
  case Nil
  then show ?case by simp
next
  case (Cons y ys)
  then show ?case
    using set_std_insert_subset [of lt pr x ys] by (auto intro: trans)
qed

lemma find_insert_same: "std_find lt pr (pr x) (std_insert lt pr x xs) \<noteq> None"
  by (induction xs) (auto simp: key_equiv_def irrefl)

lemma find_insert_other:
  "\<not> key_equiv lt (pr x) k \<Longrightarrow> std_find lt pr k (std_insert lt pr x xs) = std_find lt pr k xs"
  by (induction xs) auto

lemma find_insert_fresh:
  assumes "std_find lt pr (pr x) xs = None"
  shows "std_find lt pr (pr x) (std_insert lt pr x xs) = Some x"
  using assms by (induction xs) (auto simp: key_equiv_def irrefl split: if_splits)

lemma find_erase_same: "std_find lt pr k (std_erase lt pr k xs) = None"
  by (auto simp: std_find_None_iff)

lemma find_erase_other:
  assumes "\<not> key_equiv lt k' k"
  shows "std_find lt pr k (std_erase lt pr k' xs) = std_find lt pr k xs"
proof (induction xs)
  case Nil
  then show ?case by simp
next
  case (Cons y ys)
  have "\<not> (key_equiv lt (pr y) k \<and> key_equiv lt (pr y) k')"
    using assms equiv_trans equiv_sym by blast
  with Cons show ?case by (auto simp: std_erase_def)
qed

lemma sorted_member_unique:
  assumes "std_sorted lt pr xs" "x \<in> set xs" "y \<in> set xs" "key_equiv lt (pr x) (pr y)"
  shows "x = y"
  using assms by (induction xs) (auto simp: key_equiv_def)

lemma find_member:
  assumes "std_sorted lt pr xs" "x \<in> set xs"
  shows "std_find lt pr (pr x) xs = Some x"
proof (cases "std_find lt pr (pr x) xs")
  case None
  with assms(2) show ?thesis by (auto simp: std_find_None_iff equiv_refl)
next
  case (Some y)
  then have "y \<in> set xs" "key_equiv lt (pr y) (pr x)" by (auto dest: std_find_SomeD)
  then have "y = x" using sorted_member_unique [OF assms(1) _ assms(2)] by simp
  with Some show ?thesis by simp
qed

lemma sorted_distinct: "std_sorted lt pr xs \<Longrightarrow> distinct (map pr xs)"
proof (induction xs)
  case Nil
  then show ?case by simp
next
  case (Cons y ys)
  have "pr y \<noteq> pr z" if "z \<in> set ys" for z
    using Cons.prems that irrefl by (metis std_sorted_Cons)
  with Cons show ?case by auto
qed

lemma length_erase_member:
  assumes "std_sorted lt pr xs" "x \<in> set xs"
  shows "Suc (length (std_erase lt pr (pr x) xs)) = length xs"
  using assms
proof (induction xs)
  case Nil
  then show ?case by simp
next
  case (Cons y ys)
  have rest: "\<And>z. \<forall>u \<in> set ys. lt (pr y) (pr u) \<Longrightarrow> z \<in> set ys \<Longrightarrow> \<not> key_equiv lt (pr y) (pr z)"
    by (auto simp: key_equiv_def)
  have keep: "\<forall>u \<in> set ys. lt (pr y) (pr u) \<Longrightarrow>
      filter (\<lambda>z. \<not> key_equiv lt (pr z) (pr y)) ys = ys"
    by (auto simp: filter_id_conv key_equiv_def)
  show ?case
  proof (cases "x = y")
    case True
    with Cons.prems keep show ?thesis by (simp add: std_erase_def equiv_refl)
  next
    case False
    with Cons.prems have "x \<in> set ys" and "\<not> key_equiv lt (pr y) (pr x)" using rest by auto
    with Cons show ?thesis by (simp add: std_erase_def)
  qed
qed

text \<open>Erasing every key of a container empties it.\<close>

lemma fold_erase_all: "fold (std_erase lt pr) (map pr xs) xs = []"
proof -
  have "set (fold (std_erase lt pr) (map pr xs) xs) = {}"
    unfolding set_fold_erase using equiv_refl by auto
  then show ?thesis by simp
qed

end

text \<open>A comparator under which distinct keys are always ordered: then the container is a
  finite map on the keys themselves.\<close>

locale total_key_order = strict_weak_order +
  assumes equiv_eq: "key_equiv lt x y \<Longrightarrow> x = y"
begin

lemma equiv_iff_eq: "key_equiv lt x y \<longleftrightarrow> x = y"
  using equiv_eq equiv_refl by blast

lemma find_insert:
  "std_find lt pr (pr x) xs = None \<Longrightarrow>
   std_find lt pr k (std_insert lt pr x xs) = (if k = pr x then Some x else std_find lt pr k xs)"
  using find_insert_fresh find_insert_other equiv_eq by metis

lemma find_erase:
  "std_find lt pr k (std_erase lt pr k' xs) = (if k = k' then None else std_find lt pr k xs)"
  using find_erase_same find_erase_other equiv_eq by metis

lemma set_erase: "set (std_erase lt pr k xs) = {x \<in> set xs. pr x \<noteq> k}"
  by (auto simp: equiv_iff_eq)

lemma find_None_iff: "std_find lt pr k xs = None \<longleftrightarrow> k \<notin> pr ` set xs"
  by (auto simp: std_find_None_iff equiv_iff_eq)

lemma find_Some_iff:
  assumes "std_sorted lt pr xs"
  shows "std_find lt pr k xs = Some x \<longleftrightarrow> x \<in> set xs \<and> pr x = k"
proof
  assume "std_find lt pr k xs = Some x"
  then show "x \<in> set xs \<and> pr x = k" by (auto dest!: std_find_SomeD simp: equiv_iff_eq)
next
  assume "x \<in> set xs \<and> pr x = k"
  then show "std_find lt pr k xs = Some x" using find_member [OF assms] by auto
qed

end

text \<open>Every comparator that compares an image in a linear order satisfies the requirement.\<close>

lemma strict_weak_order_image:
  fixes f :: "'a \<Rightarrow> 'b::linorder"
  assumes "\<And>a b. lt a b \<longleftrightarrow> f a < f b"
  shows "strict_weak_order lt"
  by unfold_locales (auto simp: assms key_equiv_def)

lemma total_key_order_image:
  fixes f :: "'a \<Rightarrow> 'b::linorder"
  assumes "\<And>a b. lt a b \<longleftrightarrow> f a < f b" and "inj f"
  shows "total_key_order lt"
proof (intro total_key_order.intro total_key_order_axioms.intro)
  show "strict_weak_order lt" by (rule strict_weak_order_image) (rule assms(1))
  show "x = y" if "key_equiv lt x y" for x y
    using that assms by (auto simp: key_equiv_def dest: injD)
qed

lemma tagged_image_iff: "(t, x) \<in> (\<lambda>y. (t, f y)) ` S \<longleftrightarrow> x \<in> f ` S"
  by auto

subsection \<open>Lists updated by index\<close>

lemma nth_list_update_if:
  "i < length xs \<Longrightarrow> xs[j := x] ! i = (if i = j then x else xs ! i)"
  by (simp add: nth_list_update)

lemma std_sorted_fst: "std_sorted lt fst ys = sorted_wrt lt (map fst ys)"
  by (simp add: std_sorted_def sorted_wrt_map)

lemma map_fst_map_value: "map fst (map (\<lambda>e. if fst e = k then (fst e, p) else e) xs) = map fst xs"
  by auto

lemma std_sorted_map_value:
  "std_sorted lt fst (map (\<lambda>e. if fst e = k then (fst e, p) else e) xs) = std_sorted lt fst xs"
  unfolding std_sorted_fst map_fst_map_value ..

lemma list_all_update: "list_all P xs \<Longrightarrow> P x \<Longrightarrow> list_all P (xs[i := x])"
  by (auto simp: list_all_iff dest!: set_update_subset_insert [THEN subsetD])

lemma list_all_nthD: "list_all P xs \<Longrightarrow> i < length xs \<Longrightarrow> P (xs ! i)"
  by (simp add: list_all_length)

end
