(* ===== verification/QC_Types.thy ===== *)
theory QC_Types
  imports QC_Prelude
begin

text \<open>
  The data every component shares: \<^verbatim>\<open>include/QC/Common/QCDefs.hpp\<close>,
  \<^verbatim>\<open>include/QC/Common/Types.hpp\<close>, \<^verbatim>\<open>include/QC/Infras/Memory/Ifs/QCMemoryDefs.hpp\<close>,
  \<^verbatim>\<open>QCBufferDescriptorBase.hpp\<close>, \<^verbatim>\<open>QCMemoryManagerIfs.hpp\<close> (the two handle types) and
  \<^verbatim>\<open>include/QC/Node/Ifs/QCNodeDefs.hpp\<close>.

  A status or an object state is only ever compared for equality, so it is a datatype. The
  enumerations the code checks for a range (\<^verbatim>\<open>type >= QC_NODE_TYPE_LAST\<close>) may hold any value of
  their unsigned underlying type, so they are numbers with one abbreviation per enumerator.
  A pointer is its 64-bit address with 0 for \<^verbatim>\<open>nullptr\<close>.
\<close>

datatype QCStatus_e =
    QC_STATUS_OK
  | QC_STATUS_BAD_ARGUMENTS
  | QC_STATUS_BAD_STATE
  | QC_STATUS_NOMEM
  | QC_STATUS_INVALID_BUF
  | QC_STATUS_UNSUPPORTED
  | QC_STATUS_ALREADY
  | QC_STATUS_TIMEOUT
  | QC_STATUS_OUT_OF_BOUND
  | QC_STATUS_FAIL
  | QC_STATUS_NULL_PTR
  | QC_STATUS_NO_RESOURCE
  | QC_STATUS_LAST
  | QC_STATUS_MAX

text \<open>The shape of most of the code: a step that is taken when the status so far is OK, and the
  same for steps that may run into undefined behaviour, the result \<open>None\<close>.\<close>

definition if_ok :: "QCStatus_e \<times> 's \<Rightarrow> ('s \<Rightarrow> QCStatus_e \<times> 's) \<Rightarrow> QCStatus_e \<times> 's" where
  "if_ok r f = (case r of (ret, s) \<Rightarrow> if ret = QC_STATUS_OK then f s else (ret, s))"

definition if_ok_opt ::
  "(QCStatus_e \<times> 's) option \<Rightarrow> ('s \<Rightarrow> (QCStatus_e \<times> 's) option) \<Rightarrow> (QCStatus_e \<times> 's) option" where
  "if_ok_opt r f =
     (case r of None \<Rightarrow> None
      | Some (ret, s) \<Rightarrow> if ret = QC_STATUS_OK then f s else Some (ret, s))"

datatype QCObjectState_e =
    QC_OBJECT_STATE_INITIAL
  | QC_OBJECT_STATE_INITIALIZING
  | QC_OBJECT_STATE_READY
  | QC_OBJECT_STATE_STARTING
  | QC_OBJECT_STATE_RUNNING
  | QC_OBJECT_STATE_STOPING
  | QC_OBJECT_STATE_ERROR
  | QC_OBJECT_STATE_PAUSING
  | QC_OBJECT_STATE_PAUSE
  | QC_OBJECT_STATE_RESUMING
  | QC_OBJECT_STATE_DEINITIALIZING
  | QC_OBJECT_STATE_LAST
  | QC_OBJECT_STATE_MAX

datatype QCProcessorType_e =
    QC_PROCESSOR_HTP0
  | QC_PROCESSOR_HTP1
  | QC_PROCESSOR_HTP2
  | QC_PROCESSOR_HTP3
  | QC_PROCESSOR_CPU
  | QC_PROCESSOR_GPU
  | QC_PROCESSOR_MAX

subsection \<open>Enumerations with a checked range\<close>

type_synonym QCNodeType_e = nat
abbreviation (input) QC_NODE_TYPE_RESERVED :: QCNodeType_e where "QC_NODE_TYPE_RESERVED \<equiv> 0"
abbreviation (input) QC_NODE_TYPE_QNN :: QCNodeType_e where "QC_NODE_TYPE_QNN \<equiv> 1"
abbreviation (input) QC_NODE_TYPE_QCX :: QCNodeType_e where "QC_NODE_TYPE_QCX \<equiv> 2"
abbreviation (input) QC_NODE_TYPE_FADAS_REMAP :: QCNodeType_e where "QC_NODE_TYPE_FADAS_REMAP \<equiv> 3"
abbreviation (input) QC_NODE_TYPE_CL_2D_FLEX :: QCNodeType_e where "QC_NODE_TYPE_CL_2D_FLEX \<equiv> 4"
abbreviation (input) QC_NODE_TYPE_GL_2D_FLEX :: QCNodeType_e where "QC_NODE_TYPE_GL_2D_FLEX \<equiv> 5"
abbreviation (input) QC_NODE_TYPE_EVA_DFS :: QCNodeType_e where "QC_NODE_TYPE_EVA_DFS \<equiv> 6"
abbreviation (input) QC_NODE_TYPE_EVA_OPTICAL_FLOW :: QCNodeType_e where
  "QC_NODE_TYPE_EVA_OPTICAL_FLOW \<equiv> 7"
abbreviation (input) QC_NODE_TYPE_VENC :: QCNodeType_e where "QC_NODE_TYPE_VENC \<equiv> 8"
abbreviation (input) QC_NODE_TYPE_VDEC :: QCNodeType_e where "QC_NODE_TYPE_VDEC \<equiv> 9"
abbreviation (input) QC_NODE_TYPE_RADAR :: QCNodeType_e where "QC_NODE_TYPE_RADAR \<equiv> 10"
abbreviation (input) QC_NODE_TYPE_VOXEL :: QCNodeType_e where "QC_NODE_TYPE_VOXEL \<equiv> 11"
abbreviation (input) QC_NODE_TYPE_CUSTOM_0 :: QCNodeType_e where "QC_NODE_TYPE_CUSTOM_0 \<equiv> 12"
abbreviation (input) QC_NODE_TYPE_CUSTOM_1 :: QCNodeType_e where "QC_NODE_TYPE_CUSTOM_1 \<equiv> 13"
abbreviation (input) QC_NODE_TYPE_CUSTOM_2 :: QCNodeType_e where "QC_NODE_TYPE_CUSTOM_2 \<equiv> 14"
abbreviation (input) QC_NODE_TYPE_CUSTOM_3 :: QCNodeType_e where "QC_NODE_TYPE_CUSTOM_3 \<equiv> 15"
abbreviation (input) QC_NODE_TYPE_CUSTOM_4 :: QCNodeType_e where "QC_NODE_TYPE_CUSTOM_4 \<equiv> 16"
abbreviation (input) QC_NODE_TYPE_LAST :: QCNodeType_e where "QC_NODE_TYPE_LAST \<equiv> 17"
abbreviation (input) QC_NODE_TYPE_MAX :: QCNodeType_e where "QC_NODE_TYPE_MAX \<equiv> 255"

type_synonym QCBufferType_e = nat
abbreviation (input) QC_BUFFER_TYPE_TXT :: QCBufferType_e where "QC_BUFFER_TYPE_TXT \<equiv> 0"
abbreviation (input) QC_BUFFER_TYPE_RAW :: QCBufferType_e where "QC_BUFFER_TYPE_RAW \<equiv> 1"
abbreviation (input) QC_BUFFER_TYPE_IMAGE :: QCBufferType_e where "QC_BUFFER_TYPE_IMAGE \<equiv> 2"
abbreviation (input) QC_BUFFER_TYPE_TENSOR :: QCBufferType_e where "QC_BUFFER_TYPE_TENSOR \<equiv> 3"
abbreviation (input) QC_BUFFER_TYPE_CUSTOM_0 :: QCBufferType_e where "QC_BUFFER_TYPE_CUSTOM_0 \<equiv> 4"
abbreviation (input) QC_BUFFER_TYPE_CUSTOM_1 :: QCBufferType_e where "QC_BUFFER_TYPE_CUSTOM_1 \<equiv> 5"
abbreviation (input) QC_BUFFER_TYPE_CUSTOM_2 :: QCBufferType_e where "QC_BUFFER_TYPE_CUSTOM_2 \<equiv> 6"
abbreviation (input) QC_BUFFER_TYPE_CUSTOM_3 :: QCBufferType_e where "QC_BUFFER_TYPE_CUSTOM_3 \<equiv> 7"
abbreviation (input) QC_BUFFER_TYPE_CUSTOM_4 :: QCBufferType_e where "QC_BUFFER_TYPE_CUSTOM_4 \<equiv> 8"
abbreviation (input) QC_BUFFER_TYPE_LAST :: QCBufferType_e where "QC_BUFFER_TYPE_LAST \<equiv> 9"
abbreviation (input) QC_BUFFER_TYPE_MAX :: QCBufferType_e where "QC_BUFFER_TYPE_MAX \<equiv> 255"

type_synonym QCMemoryAllocator_e = nat
abbreviation (input) QC_MEMORY_ALLOCATOR_HEAP :: QCMemoryAllocator_e where
  "QC_MEMORY_ALLOCATOR_HEAP \<equiv> 0"
abbreviation (input) QC_MEMORY_ALLOCATOR_DMA :: QCMemoryAllocator_e where
  "QC_MEMORY_ALLOCATOR_DMA \<equiv> 1"
abbreviation (input) QC_MEMORY_ALLOCATOR_DMA_CAMERA :: QCMemoryAllocator_e where
  "QC_MEMORY_ALLOCATOR_DMA_CAMERA \<equiv> 2"
abbreviation (input) QC_MEMORY_ALLOCATOR_DMA_GPU :: QCMemoryAllocator_e where
  "QC_MEMORY_ALLOCATOR_DMA_GPU \<equiv> 3"
abbreviation (input) QC_MEMORY_ALLOCATOR_DMA_VPU :: QCMemoryAllocator_e where
  "QC_MEMORY_ALLOCATOR_DMA_VPU \<equiv> 4"
abbreviation (input) QC_MEMORY_ALLOCATOR_DMA_EVA :: QCMemoryAllocator_e where
  "QC_MEMORY_ALLOCATOR_DMA_EVA \<equiv> 5"
abbreviation (input) QC_MEMORY_ALLOCATOR_DMA_HTP :: QCMemoryAllocator_e where
  "QC_MEMORY_ALLOCATOR_DMA_HTP \<equiv> 6"
abbreviation (input) QC_MEMORY_ALLOCATOR_LAST :: QCMemoryAllocator_e where
  "QC_MEMORY_ALLOCATOR_LAST \<equiv> 7"

type_synonym QCAllocationCache_e = nat
abbreviation (input) QC_CACHEABLE_NON :: QCAllocationCache_e where "QC_CACHEABLE_NON \<equiv> 0"
abbreviation (input) QC_CACHEABLE :: QCAllocationCache_e where "QC_CACHEABLE \<equiv> 1"
abbreviation (input) QC_CACHEABLE_WRITE_THROUGH :: QCAllocationCache_e where
  "QC_CACHEABLE_WRITE_THROUGH \<equiv> 2"
abbreviation (input) QC_CACHEABLE_WRITE_BACK :: QCAllocationCache_e where
  "QC_CACHEABLE_WRITE_BACK \<equiv> 3"
abbreviation (input) QC_CACHEABLE_LAST :: QCAllocationCache_e where "QC_CACHEABLE_LAST \<equiv> 4"

type_synonym QCMemoryManagerType_e = nat
abbreviation (input) QC_MEMORY_MANAGER_LOCAL :: QCMemoryManagerType_e where
  "QC_MEMORY_MANAGER_LOCAL \<equiv> 0"
abbreviation (input) QC_MEMORY_MANAGER_LAST :: QCMemoryManagerType_e where
  "QC_MEMORY_MANAGER_LAST \<equiv> 1"

type_synonym QCImageFormat_e = nat
abbreviation (input) QC_IMAGE_FORMAT_RGB888 :: QCImageFormat_e where "QC_IMAGE_FORMAT_RGB888 \<equiv> 0"
abbreviation (input) QC_IMAGE_FORMAT_BGR888 :: QCImageFormat_e where "QC_IMAGE_FORMAT_BGR888 \<equiv> 1"
abbreviation (input) QC_IMAGE_FORMAT_UYVY :: QCImageFormat_e where "QC_IMAGE_FORMAT_UYVY \<equiv> 2"
abbreviation (input) QC_IMAGE_FORMAT_NV12 :: QCImageFormat_e where "QC_IMAGE_FORMAT_NV12 \<equiv> 3"
abbreviation (input) QC_IMAGE_FORMAT_P010 :: QCImageFormat_e where "QC_IMAGE_FORMAT_P010 \<equiv> 4"
abbreviation (input) QC_IMAGE_FORMAT_NV12_UBWC :: QCImageFormat_e where
  "QC_IMAGE_FORMAT_NV12_UBWC \<equiv> 5"
abbreviation (input) QC_IMAGE_FORMAT_TP10_UBWC :: QCImageFormat_e where
  "QC_IMAGE_FORMAT_TP10_UBWC \<equiv> 6"
abbreviation (input) QC_IMAGE_FORMAT_MAX :: QCImageFormat_e where "QC_IMAGE_FORMAT_MAX \<equiv> 7"
abbreviation (input) QC_IMAGE_FORMAT_COMPRESSED_MIN :: QCImageFormat_e where
  "QC_IMAGE_FORMAT_COMPRESSED_MIN \<equiv> 100"
abbreviation (input) QC_IMAGE_FORMAT_COMPRESSED_H264 :: QCImageFormat_e where
  "QC_IMAGE_FORMAT_COMPRESSED_H264 \<equiv> 100"
abbreviation (input) QC_IMAGE_FORMAT_COMPRESSED_H265 :: QCImageFormat_e where
  "QC_IMAGE_FORMAT_COMPRESSED_H265 \<equiv> 101"
abbreviation (input) QC_IMAGE_FORMAT_COMPRESSED_MAX :: QCImageFormat_e where
  "QC_IMAGE_FORMAT_COMPRESSED_MAX \<equiv> 102"

type_synonym QCTensorType_e = nat
abbreviation (input) QC_TENSOR_TYPE_INT_8 :: QCTensorType_e where "QC_TENSOR_TYPE_INT_8 \<equiv> 0"
abbreviation (input) QC_TENSOR_TYPE_INT_16 :: QCTensorType_e where "QC_TENSOR_TYPE_INT_16 \<equiv> 1"
abbreviation (input) QC_TENSOR_TYPE_INT_32 :: QCTensorType_e where "QC_TENSOR_TYPE_INT_32 \<equiv> 2"
abbreviation (input) QC_TENSOR_TYPE_INT_64 :: QCTensorType_e where "QC_TENSOR_TYPE_INT_64 \<equiv> 3"
abbreviation (input) QC_TENSOR_TYPE_UINT_8 :: QCTensorType_e where "QC_TENSOR_TYPE_UINT_8 \<equiv> 4"
abbreviation (input) QC_TENSOR_TYPE_UINT_16 :: QCTensorType_e where "QC_TENSOR_TYPE_UINT_16 \<equiv> 5"
abbreviation (input) QC_TENSOR_TYPE_UINT_32 :: QCTensorType_e where "QC_TENSOR_TYPE_UINT_32 \<equiv> 6"
abbreviation (input) QC_TENSOR_TYPE_UINT_64 :: QCTensorType_e where "QC_TENSOR_TYPE_UINT_64 \<equiv> 7"
abbreviation (input) QC_TENSOR_TYPE_FLOAT_16 :: QCTensorType_e where "QC_TENSOR_TYPE_FLOAT_16 \<equiv> 8"
abbreviation (input) QC_TENSOR_TYPE_FLOAT_32 :: QCTensorType_e where "QC_TENSOR_TYPE_FLOAT_32 \<equiv> 9"
abbreviation (input) QC_TENSOR_TYPE_FLOAT_64 :: QCTensorType_e where "QC_TENSOR_TYPE_FLOAT_64 \<equiv> 10"
abbreviation (input) QC_TENSOR_TYPE_SFIXED_POINT_8 :: QCTensorType_e where
  "QC_TENSOR_TYPE_SFIXED_POINT_8 \<equiv> 11"
abbreviation (input) QC_TENSOR_TYPE_SFIXED_POINT_16 :: QCTensorType_e where
  "QC_TENSOR_TYPE_SFIXED_POINT_16 \<equiv> 12"
abbreviation (input) QC_TENSOR_TYPE_SFIXED_POINT_32 :: QCTensorType_e where
  "QC_TENSOR_TYPE_SFIXED_POINT_32 \<equiv> 13"
abbreviation (input) QC_TENSOR_TYPE_UFIXED_POINT_8 :: QCTensorType_e where
  "QC_TENSOR_TYPE_UFIXED_POINT_8 \<equiv> 14"
abbreviation (input) QC_TENSOR_TYPE_UFIXED_POINT_16 :: QCTensorType_e where
  "QC_TENSOR_TYPE_UFIXED_POINT_16 \<equiv> 15"
abbreviation (input) QC_TENSOR_TYPE_UFIXED_POINT_32 :: QCTensorType_e where
  "QC_TENSOR_TYPE_UFIXED_POINT_32 \<equiv> 16"
abbreviation (input) QC_TENSOR_TYPE_MAX :: QCTensorType_e where "QC_TENSOR_TYPE_MAX \<equiv> 17"

abbreviation (input) QC_NUM_IMAGE_PLANES :: nat where "QC_NUM_IMAGE_PLANES \<equiv> 4"
abbreviation (input) QC_NUM_TENSOR_DIMS :: nat where "QC_NUM_TENSOR_DIMS \<equiv> 8"
abbreviation (input) QC_MEMORY_MAX_POOLS_PER_NODE :: nat where "QC_MEMORY_MAX_POOLS_PER_NODE \<equiv> 255"

abbreviation (input) nullptr :: u64 where "nullptr \<equiv> 0"

subsection \<open>Buffers: request and descriptor\<close>

abbreviation (input) QC_MEMORY_HEAP_MINIMAL_ALLIGNMENT :: u64 where
  "QC_MEMORY_HEAP_MINIMAL_ALLIGNMENT \<equiv> 16"
abbreviation (input) QC_MEMORY_DEFAULT_ALLIGNMENT :: u64 where
  "QC_MEMORY_DEFAULT_ALLIGNMENT \<equiv> 4 * 1024"
abbreviation (input) QC_MEMORY_DEFAULT_CACHE_ATTRIBUTES :: QCAllocationCache_e where
  "QC_MEMORY_DEFAULT_CACHE_ATTRIBUTES \<equiv> QC_CACHEABLE"

definition QC_ALIGN_SIZE :: "u64 \<Rightarrow> u64 \<Rightarrow> u64" where
  "QC_ALIGN_SIZE sz alg = ((sz + alg - 1) div alg) * alg"

record QCBufferPropBase =
  p_size :: u64
  p_alignment :: u64
  p_cache :: QCAllocationCache_e

definition QCBufferPropBase_init :: QCBufferPropBase where
  "QCBufferPropBase_init =
     \<lparr>p_size = 0, p_alignment = QC_MEMORY_DEFAULT_ALLIGNMENT,
      p_cache = QC_MEMORY_DEFAULT_CACHE_ATTRIBUTES\<rparr>"

record QCBufferDescriptorBase =
  b_name :: string
  pBuf :: u64
  b_size :: u64
  b_alignment :: u64
  b_cache :: QCAllocationCache_e
  allocatorType :: QCMemoryAllocator_e
  b_type :: QCBufferType_e
  dmaHandle :: u64
  b_pid :: int

definition QCBufferDescriptorBase_init :: QCBufferDescriptorBase where
  "QCBufferDescriptorBase_init =
     \<lparr>b_name = '''', pBuf = nullptr, b_size = 0,
      b_alignment = QC_MEMORY_DEFAULT_ALLIGNMENT,
      b_cache = QC_MEMORY_DEFAULT_CACHE_ATTRIBUTES,
      allocatorType = QC_MEMORY_ALLOCATOR_LAST, b_type = QC_BUFFER_TYPE_LAST,
      dmaHandle = 0, b_pid = 0\<rparr>"

text \<open>\<^verbatim>\<open>QCBufferDescriptorBase::operator<\<close>: the key of the allocation sets. It reads neither the
  name nor the buffer type.\<close>

definition buffer_less :: "QCBufferDescriptorBase \<Rightarrow> QCBufferDescriptorBase \<Rightarrow> bool" where
  "buffer_less a b =
     (if pBuf a \<noteq> pBuf b then pBuf a < pBuf b
      else if b_size a \<noteq> b_size b then b_size a < b_size b
      else if dmaHandle a \<noteq> dmaHandle b then dmaHandle a < dmaHandle b
      else if b_pid a \<noteq> b_pid b then b_pid a < b_pid b
      else if b_alignment a \<noteq> b_alignment b then b_alignment a < b_alignment b
      else if b_cache a \<noteq> b_cache b then b_cache a < b_cache b
      else if allocatorType a \<noteq> allocatorType b then allocatorType a < allocatorType b
      else False)"

definition buffer_key ::
  "QCBufferDescriptorBase \<Rightarrow> u64 \<times> u64 \<times> u64 \<times> int \<times> u64 \<times> nat \<times> nat" where
  "buffer_key b = (pBuf b, b_size b, dmaHandle b, b_pid b, b_alignment b, b_cache b,
                   allocatorType b)"

lemma buffer_less_key: "buffer_less a b \<longleftrightarrow> buffer_key a < buffer_key b"
  by (auto simp: buffer_less_def buffer_key_def)

interpretation buffer_order: strict_weak_order buffer_less
  by (rule strict_weak_order_image) (rule buffer_less_key)

lemma buffer_equiv_key: "key_equiv buffer_less a b \<longleftrightarrow> buffer_key a = buffer_key b"
  by (auto simp: key_equiv_def buffer_less_key)

lemma buffer_equivD:
  "key_equiv buffer_less a b \<Longrightarrow>
     pBuf a = pBuf b \<and> b_size a = b_size b \<and> dmaHandle a = dmaHandle b \<and>
     allocatorType a = allocatorType b"
  by (simp add: buffer_equiv_key buffer_key_def)

subsection \<open>Handles\<close>

datatype QCMemoryHandle =
  QCMemoryHandle (GetNodeType: QCNodeType_e) (GetNodeCount: u8) (GetRandomNumber: u32)
    (GetProcessId: int)

definition QCMemoryHandle_init :: QCMemoryHandle where
  "QCMemoryHandle_init = QCMemoryHandle QC_NODE_TYPE_RESERVED 0 0 0"

definition SetNodeType :: "QCMemoryHandle \<Rightarrow> QCNodeType_e \<Rightarrow> QCMemoryHandle" where
  "SetNodeType h t = QCMemoryHandle t (GetNodeCount h) (GetRandomNumber h) (GetProcessId h)"

definition SetNodeCount :: "QCMemoryHandle \<Rightarrow> u8 \<Rightarrow> QCMemoryHandle" where
  "SetNodeCount h c = QCMemoryHandle (GetNodeType h) c (GetRandomNumber h) (GetProcessId h)"

definition SetRandomNumber :: "QCMemoryHandle \<Rightarrow> u32 \<Rightarrow> QCMemoryHandle" where
  "SetRandomNumber h r = QCMemoryHandle (GetNodeType h) (GetNodeCount h) r (GetProcessId h)"

definition SetProcessId :: "QCMemoryHandle \<Rightarrow> int \<Rightarrow> QCMemoryHandle" where
  "SetProcessId h p = QCMemoryHandle (GetNodeType h) (GetNodeCount h) (GetRandomNumber h) p"

lemma handle_set_get [simp]:
  "GetNodeType (SetNodeType h t) = t" "GetNodeCount (SetNodeType h t) = GetNodeCount h"
  "GetRandomNumber (SetNodeType h t) = GetRandomNumber h"
  "GetProcessId (SetNodeType h t) = GetProcessId h"
  "GetNodeType (SetNodeCount h c) = GetNodeType h" "GetNodeCount (SetNodeCount h c) = c"
  "GetRandomNumber (SetNodeCount h c) = GetRandomNumber h"
  "GetProcessId (SetNodeCount h c) = GetProcessId h"
  "GetNodeType (SetRandomNumber h r) = GetNodeType h"
  "GetNodeCount (SetRandomNumber h r) = GetNodeCount h"
  "GetRandomNumber (SetRandomNumber h r) = r"
  "GetProcessId (SetRandomNumber h r) = GetProcessId h"
  by (simp_all add: SetNodeType_def SetNodeCount_def SetRandomNumber_def)

text \<open>\<^verbatim>\<open>QCMemoryHandle::operator<\<close> and \<^verbatim>\<open>operator==\<close>.\<close>

definition handle_less :: "QCMemoryHandle \<Rightarrow> QCMemoryHandle \<Rightarrow> bool" where
  "handle_less a b =
     (if GetNodeType a \<noteq> GetNodeType b then GetNodeType a < GetNodeType b
      else if GetNodeCount a \<noteq> GetNodeCount b then GetNodeCount a < GetNodeCount b
      else if GetRandomNumber a \<noteq> GetRandomNumber b then GetRandomNumber a < GetRandomNumber b
      else GetProcessId a < GetProcessId b)"

instantiation QCMemoryHandle :: linorder
begin

definition less_QCMemoryHandle :: "QCMemoryHandle \<Rightarrow> QCMemoryHandle \<Rightarrow> bool" where
  "less_QCMemoryHandle a b = handle_less a b"

definition less_eq_QCMemoryHandle :: "QCMemoryHandle \<Rightarrow> QCMemoryHandle \<Rightarrow> bool" where
  "less_eq_QCMemoryHandle a b \<longleftrightarrow> a < b \<or> a = b"

instance
proof
  fix x y z :: QCMemoryHandle
  show "(x < y) = (x \<le> y \<and> \<not> y \<le> x)"
    by (cases x; cases y) (auto simp: less_eq_QCMemoryHandle_def less_QCMemoryHandle_def handle_less_def)
  show "x \<le> x"
    by (simp add: less_eq_QCMemoryHandle_def)
  show "x \<le> y \<Longrightarrow> y \<le> z \<Longrightarrow> x \<le> z"
    by (cases x; cases y; cases z)
      (auto simp: less_eq_QCMemoryHandle_def less_QCMemoryHandle_def handle_less_def split: if_splits)
  show "x \<le> y \<Longrightarrow> y \<le> x \<Longrightarrow> x = y"
    by (cases x; cases y)
      (auto simp: less_eq_QCMemoryHandle_def less_QCMemoryHandle_def handle_less_def split: if_splits)
  show "x \<le> y \<or> y \<le> x"
    by (cases x; cases y) (auto simp: less_eq_QCMemoryHandle_def less_QCMemoryHandle_def handle_less_def)
qed

end

lemma handle_less_iff: "handle_less a b \<longleftrightarrow> a < b"
  by (simp add: less_QCMemoryHandle_def)

interpretation handle_order: total_key_order handle_less
  by (rule total_key_order_image [where f = id]) (simp_all add: handle_less_iff)

datatype QCMemoryPoolHandle =
  QCMemoryPoolHandle (GetPoolCount: u8) (GetPoolRandomNumber: u32)
    (GetMemoryHandle: QCMemoryHandle)

definition QCMemoryPoolHandle_init :: QCMemoryPoolHandle where
  "QCMemoryPoolHandle_init = QCMemoryPoolHandle 0 0 QCMemoryHandle_init"

definition SetPoolCount :: "QCMemoryPoolHandle \<Rightarrow> u8 \<Rightarrow> QCMemoryPoolHandle" where
  "SetPoolCount h c = QCMemoryPoolHandle c (GetPoolRandomNumber h) (GetMemoryHandle h)"

definition SetPoolRandomNumber :: "QCMemoryPoolHandle \<Rightarrow> u32 \<Rightarrow> QCMemoryPoolHandle" where
  "SetPoolRandomNumber h r = QCMemoryPoolHandle (GetPoolCount h) r (GetMemoryHandle h)"

definition SetMemoryHandle :: "QCMemoryPoolHandle \<Rightarrow> QCMemoryHandle \<Rightarrow> QCMemoryPoolHandle" where
  "SetMemoryHandle h m = QCMemoryPoolHandle (GetPoolCount h) (GetPoolRandomNumber h) m"

lemma pool_handle_set_get [simp]:
  "GetMemoryHandle (SetPoolCount h c) = GetMemoryHandle h"
  "GetMemoryHandle (SetPoolRandomNumber h r) = GetMemoryHandle h"
  "GetMemoryHandle (SetMemoryHandle h m) = m"
  by (simp_all add: SetPoolCount_def SetPoolRandomNumber_def SetMemoryHandle_def)

text \<open>\<^verbatim>\<open>QCMemoryPoolHandle::operator<\<close>.\<close>

definition pool_handle_less :: "QCMemoryPoolHandle \<Rightarrow> QCMemoryPoolHandle \<Rightarrow> bool" where
  "pool_handle_less a b =
     (if GetMemoryHandle a \<noteq> GetMemoryHandle b then GetMemoryHandle a < GetMemoryHandle b
      else if GetPoolCount a \<noteq> GetPoolCount b then GetPoolCount a < GetPoolCount b
      else GetPoolRandomNumber a < GetPoolRandomNumber b)"

instantiation QCMemoryPoolHandle :: linorder
begin

definition less_QCMemoryPoolHandle :: "QCMemoryPoolHandle \<Rightarrow> QCMemoryPoolHandle \<Rightarrow> bool" where
  "less_QCMemoryPoolHandle a b = pool_handle_less a b"

definition less_eq_QCMemoryPoolHandle ::
  "QCMemoryPoolHandle \<Rightarrow> QCMemoryPoolHandle \<Rightarrow> bool" where
  "less_eq_QCMemoryPoolHandle a b \<longleftrightarrow> a < b \<or> a = b"

instance
proof
  fix x y z :: QCMemoryPoolHandle
  show "(x < y) = (x \<le> y \<and> \<not> y \<le> x)"
    by (cases x; cases y) (auto simp: less_eq_QCMemoryPoolHandle_def less_QCMemoryPoolHandle_def pool_handle_less_def)
  show "x \<le> x"
    by (simp add: less_eq_QCMemoryPoolHandle_def)
  show "x \<le> y \<Longrightarrow> y \<le> z \<Longrightarrow> x \<le> z"
    by (cases x; cases y; cases z)
      (auto simp: less_eq_QCMemoryPoolHandle_def less_QCMemoryPoolHandle_def pool_handle_less_def split: if_splits)
  show "x \<le> y \<Longrightarrow> y \<le> x \<Longrightarrow> x = y"
    by (cases x; cases y)
      (auto simp: less_eq_QCMemoryPoolHandle_def less_QCMemoryPoolHandle_def pool_handle_less_def split: if_splits)
  show "x \<le> y \<or> y \<le> x"
    by (cases x; cases y) (auto simp: less_eq_QCMemoryPoolHandle_def less_QCMemoryPoolHandle_def pool_handle_less_def)
qed

end

lemma pool_handle_less_iff: "pool_handle_less a b \<longleftrightarrow> a < b"
  by (simp add: less_QCMemoryPoolHandle_def)

interpretation pool_handle_order: total_key_order pool_handle_less
  by (rule total_key_order_image [where f = id]) (simp_all add: pool_handle_less_iff)

subsection \<open>Node identity\<close>

record QCNodeID =
  n_name :: string
  n_type :: QCNodeType_e
  n_id :: u8

definition QCNodeID_eq :: "QCNodeID \<Rightarrow> QCNodeID \<Rightarrow> bool" where
  "QCNodeID_eq a b \<longleftrightarrow> n_type a = n_type b \<and> n_name a = n_name b \<and> n_id a = n_id b"

subsection \<open>Rounding up to an alignment\<close>

lemma unat_mult_div_less: "unat ((x::u64) div y * y) = unat x div unat y * unat y"
proof -
  have "unat x div unat y * unat y \<le> unat x"
    by (rule div_times_less_eq_dividend)
  also have "\<dots> < 2 ^ 64"
    using unsigned_less [of x, where 'a = nat] by simp
  finally have "unat x div unat y * unat y < 2 ^ 64" .
  then show ?thesis
    by (simp add: unat_word_ariths(2) unat_div_distrib mod_mult_left_eq)
qed

text \<open>\<^verbatim>\<open>QC_ALIGN_SIZE\<close> returns the least multiple of the alignment that is not below the size,
  as long as the sum it forms does not wrap around.\<close>

lemma QC_ALIGN_SIZE_spec:
  assumes "0 < alg" and "unat sz + unat alg - 1 < 2 ^ 64"
  shows "sz \<le> QC_ALIGN_SIZE sz alg" "unat alg dvd unat (QC_ALIGN_SIZE sz alg)"
    "unat (QC_ALIGN_SIZE sz alg) < unat sz + unat alg"
proof -
  let ?s = "unat sz" and ?a = "unat alg"
  have a: "0 < ?a" using assms(1) by (simp add: unat_gt_0)
  have "unat (sz + alg - 1) = ?s + ?a - 1"
  proof -
    have "sz + alg - 1 = of_nat (?s + ?a - 1)"
      using a by (simp add: of_nat_diff)
    then show ?thesis using assms(2) by (simp add: unat_of_nat)
  qed
  then have eq: "unat (QC_ALIGN_SIZE sz alg) = (?s + ?a - 1) div ?a * ?a"
    by (simp add: QC_ALIGN_SIZE_def unat_mult_div_less)
  have m: "(?s + ?a - 1) div ?a * ?a + (?s + ?a - 1) mod ?a = ?s + ?a - 1"
    by simp
  have r: "(?s + ?a - 1) mod ?a < ?a" using a by simp
  show "unat alg dvd unat (QC_ALIGN_SIZE sz alg)" by (simp add: eq)
  have "?s \<le> (?s + ?a - 1) div ?a * ?a" using m r a by linarith
  then show "sz \<le> QC_ALIGN_SIZE sz alg" by (simp add: word_le_nat_alt eq)
  show "unat (QC_ALIGN_SIZE sz alg) < unat sz + unat alg" using m a unfolding eq by linarith
qed

end
