(* ===== verification/QC_Allocator.thy ===== *)
theory QC_Allocator
  imports QC_Types
begin

text \<open>
  The allocator interface \<^verbatim>\<open>QCMemoryAllocatorIfs\<close> as a record of its two virtual operations over
  a world, its two implementations that need no driver (\<^verbatim>\<open>DummyAllocator\<close> and
  \<^verbatim>\<open>source/Infras/Memory/HeapAllocator.cpp\<close>), and the contract \<open>allocator_contract\<close> the pool and
  the memory manager rely on.

  The heap allocator calls the C library: \<open>posix_memalign\<close> and \<open>libc_free\<close> below are what the
  POSIX standard says of them, over a list of live blocks. The address handed out next is read
  from a supply that is part of the state, so a theorem over every heap is a theorem over every
  sequence of addresses the library may choose; an exhausted supply, or an address that does not
  meet the request, is \<^verbatim>\<open>ENOMEM\<close>. Freeing an address that is not a live block is undefined in C
  and sets \<open>bad_free\<close>.
\<close>

record 'w QCMemoryAllocatorIfs =
  a_name :: string
  a_type :: QCMemoryAllocator_e
  Allocate :: "QCBufferPropBase \<Rightarrow> QCBufferDescriptorBase \<Rightarrow> 'w \<Rightarrow>
                 QCStatus_e \<times> QCBufferDescriptorBase \<times> 'w"
  Free :: "QCBufferDescriptorBase \<Rightarrow> 'w \<Rightarrow> QCStatus_e \<times> 'w"

definition DummyAllocator :: "'w QCMemoryAllocatorIfs" where
  "DummyAllocator =
     \<lparr>a_name = ''Dummy Allocator'', a_type = QC_MEMORY_ALLOCATOR_LAST,
      Allocate = (\<lambda>request response w. (QC_STATUS_UNSUPPORTED, response, w)),
      Free = (\<lambda>buff w. (QC_STATUS_UNSUPPORTED, w))\<rparr>"

subsection \<open>The C library heap\<close>

record libc_heap =
  blocks :: "(u64 \<times> u64) list"
  addr_supply :: "u64 list"
  bad_free :: bool

definition memalign_valid :: "u64 \<Rightarrow> bool" where
  "memalign_valid alg \<longleftrightarrow> alg \<noteq> 0 \<and> alg mod 8 = 0 \<and> and alg (alg - 1) = 0"

definition block_fits :: "u64 \<Rightarrow> u64 \<Rightarrow> u64 \<Rightarrow> (u64 \<times> u64) list \<Rightarrow> bool" where
  "block_fits a alg sz bs \<longleftrightarrow>
     a \<noteq> nullptr \<and> a mod alg = 0 \<and> unat a + unat sz \<le> 2 ^ 64 \<and>
     list_all (\<lambda>(b, n). a \<noteq> b \<and> (unat a + unat sz \<le> unat b \<or> unat b + unat n \<le> unat a)) bs"

definition posix_memalign ::
  "u64 \<Rightarrow> u64 \<Rightarrow> 'z libc_heap_scheme \<Rightarrow> nat \<times> u64 option \<times> 'z libc_heap_scheme" where
  "posix_memalign alg sz h =
     (if \<not> memalign_valid alg then (22, None, h)
      else case addr_supply h of
        [] \<Rightarrow> (12, None, h)
      | a # as \<Rightarrow>
          if block_fits a alg sz (blocks h)
          then (0, Some a, h\<lparr>blocks := (a, sz) # blocks h, addr_supply := as\<rparr>)
          else (12, None, h\<lparr>addr_supply := as\<rparr>))"

definition libc_free :: "u64 \<Rightarrow> 'z libc_heap_scheme \<Rightarrow> 'z libc_heap_scheme" where
  "libc_free p h =
     (if p = nullptr then h
      else if p \<in> fst ` set (blocks h) then h\<lparr>blocks := filter (\<lambda>b. fst b \<noteq> p) (blocks h)\<rparr>
      else h\<lparr>bad_free := True\<rparr>)"

definition heap_live :: "'z libc_heap_scheme \<Rightarrow> u64 set" where
  "heap_live h = fst ` set (blocks h)"

definition heap_ok :: "'z libc_heap_scheme \<Rightarrow> bool" where
  "heap_ok h \<longleftrightarrow> distinct (map fst (blocks h)) \<and> nullptr \<notin> heap_live h \<and> \<not> bad_free h"

lemma posix_memalign_cases:
  assumes "posix_memalign alg sz h = (ret, p, h')" and "heap_ok h"
  obtains (ok) a where "ret = 0" "p = Some a" "a \<noteq> nullptr" "a \<notin> heap_live h"
      "heap_live h' = insert a (heap_live h)" "heap_ok h'"
    | (err) "ret \<noteq> 0" "p = None" "heap_live h' = heap_live h" "heap_ok h'"
proof (cases "memalign_valid alg")
  case False
  with assms show ?thesis by (intro err) (auto simp: posix_memalign_def)
next
  case valid: True
  show ?thesis
  proof (cases "addr_supply h")
    case Nil
    with valid assms show ?thesis by (intro err) (auto simp: posix_memalign_def)
  next
    case (Cons a as)
    show ?thesis
    proof (cases "block_fits a alg sz (blocks h)")
      case True
      then have "a \<notin> heap_live h" "a \<noteq> nullptr"
        by (auto simp: block_fits_def heap_live_def list_all_iff)
      with True Cons valid assms show ?thesis
        by (intro ok [of a]) (auto simp: posix_memalign_def heap_live_def heap_ok_def)
    next
      case False
      with Cons valid assms show ?thesis
        by (intro err) (auto simp: posix_memalign_def heap_live_def heap_ok_def)
    qed
  qed
qed

lemma heap_live_free: "heap_live (libc_free p h) = heap_live h - {p}" if "nullptr \<notin> heap_live h"
  using that by (auto simp: libc_free_def heap_live_def)

lemma heap_ok_free: "heap_ok h \<Longrightarrow> p \<in> heap_live h \<Longrightarrow> heap_ok (libc_free p h)"
  by (auto simp: libc_free_def heap_ok_def heap_live_def distinct_map_filter)

lemma heap_ok_null: "heap_ok h \<Longrightarrow> nullptr \<notin> heap_live h"
  by (simp add: heap_ok_def)

subsection \<open>HeapAllocator\<close>

definition HeapAllocator_Allocate ::
  "QCBufferPropBase \<Rightarrow> QCBufferDescriptorBase \<Rightarrow> 'z libc_heap_scheme \<Rightarrow>
     QCStatus_e \<times> QCBufferDescriptorBase \<times> 'z libc_heap_scheme" where
  "HeapAllocator_Allocate request response h =
     (if p_size request = 0 then (QC_STATUS_BAD_ARGUMENTS, response, h)
      else if p_cache request \<noteq> QC_CACHEABLE then (QC_STATUS_BAD_ARGUMENTS, response, h)
      else if p_alignment request < QC_MEMORY_HEAP_MINIMAL_ALLIGNMENT
        then (QC_STATUS_BAD_ARGUMENTS, response, h)
      else
        let (ret, p, h') = posix_memalign (p_alignment request) (p_size request) h;
            response' = (case p of None \<Rightarrow> response | Some a \<Rightarrow> response\<lparr>pBuf := a\<rparr>)
        in if ret \<noteq> 0 then (QC_STATUS_FAIL, response', h')
           else if pBuf response' = nullptr then (QC_STATUS_NULL_PTR, response', h')
           else (QC_STATUS_OK,
                 response'\<lparr>b_alignment := p_alignment request, b_cache := p_cache request,
                   allocatorType := QC_MEMORY_ALLOCATOR_HEAP, b_size := p_size request,
                   b_name := ''Heap Allocator''\<rparr>, h'))"

definition HeapAllocator_Free ::
  "QCBufferDescriptorBase \<Rightarrow> 'z libc_heap_scheme \<Rightarrow> QCStatus_e \<times> 'z libc_heap_scheme" where
  "HeapAllocator_Free buff h =
     (if allocatorType buff \<noteq> QC_MEMORY_ALLOCATOR_HEAP then (QC_STATUS_BAD_ARGUMENTS, h)
      else if b_size buff = 0 then (QC_STATUS_BAD_ARGUMENTS, h)
      else if pBuf buff = nullptr then (QC_STATUS_NULL_PTR, h)
      else (QC_STATUS_OK, libc_free (pBuf buff) h))"

definition HeapAllocator :: "'z libc_heap_scheme QCMemoryAllocatorIfs" where
  "HeapAllocator =
     \<lparr>a_name = ''Heap Allocator'', a_type = QC_MEMORY_ALLOCATOR_HEAP,
      Allocate = HeapAllocator_Allocate, Free = HeapAllocator_Free\<rparr>"

lemma HeapAllocator_simps [simp]:
  "a_type HeapAllocator = QC_MEMORY_ALLOCATOR_HEAP"
  "Allocate HeapAllocator = HeapAllocator_Allocate" "Free HeapAllocator = HeapAllocator_Free"
  by (simp_all add: HeapAllocator_def)

subsection \<open>The allocator contract\<close>

text \<open>
  What a client of \<^verbatim>\<open>QCMemoryAllocatorIfs\<close> may rely on. \<open>live\<close> is the set of live blocks of
  the world, each the type of the allocator that owns it and its address; \<open>wok\<close> is the
  well-formedness of the world (no undefined behaviour so far). An allocation that succeeds hands
  out a fresh block with the requested size and this allocator's type, one that fails leaves the
  live blocks alone, and so for \<^verbatim>\<open>Free\<close>.
\<close>

type_synonym block = "QCMemoryAllocator_e \<times> u64"

definition block_of :: "QCBufferDescriptorBase \<Rightarrow> block" where
  "block_of d = (allocatorType d, pBuf d)"

locale allocator_contract =
  fixes A :: "'w QCMemoryAllocatorIfs"
    and live :: "'w \<Rightarrow> block set"
    and wok :: "'w \<Rightarrow> bool"
  assumes alloc_ok: "wok w \<Longrightarrow> Allocate A req resp w = (QC_STATUS_OK, d, w') \<Longrightarrow>
      wok w' \<and> pBuf d \<noteq> nullptr \<and> allocatorType d = a_type A \<and> block_of d \<notin> live w \<and>
      live w' = insert (block_of d) (live w) \<and> b_size d = p_size req \<and> p_size req \<noteq> 0"
    and alloc_fail: "wok w \<Longrightarrow> Allocate A req resp w = (s, d, w') \<Longrightarrow> s \<noteq> QC_STATUS_OK \<Longrightarrow>
      wok w' \<and> live w' = live w"
    and free_ok: "wok w \<Longrightarrow> block_of d \<in> live w \<Longrightarrow> allocatorType d = a_type A \<Longrightarrow>
      Free A d w = (QC_STATUS_OK, w') \<Longrightarrow> wok w' \<and> live w' = live w - {block_of d}"
    and free_fail: "wok w \<Longrightarrow> Free A d w = (s, w') \<Longrightarrow> s \<noteq> QC_STATUS_OK \<Longrightarrow>
      wok w' \<and> live w' = live w"
    and free_succeeds: "wok w \<Longrightarrow> block_of d \<in> live w \<Longrightarrow> allocatorType d = a_type A \<Longrightarrow>
      b_size d \<noteq> 0 \<Longrightarrow> fst (Free A d w) = QC_STATUS_OK"
begin

text \<open>A block of this allocator, freed with a descriptor that names it, is gone and nothing
  else is.\<close>

lemma free_live:
  assumes "wok w" "block_of d \<in> live w" "allocatorType d = a_type A" "b_size d \<noteq> 0"
  obtains w' where "Free A d w = (QC_STATUS_OK, w')" "wok w'" "live w' = live w - {block_of d}"
proof -
  obtain s w' where eq: "Free A d w = (s, w')" by fastforce
  with free_succeeds [OF assms] have "s = QC_STATUS_OK" by simp
  with eq free_ok [OF assms(1-3)] that show ?thesis by simp
qed

lemma alloc_wok: "wok w \<Longrightarrow> Allocate A req resp w = (s, d, w') \<Longrightarrow> wok w'"
  using alloc_ok alloc_fail by (cases "s = QC_STATUS_OK") blast+

end

lemma HeapAllocator_Allocate_cases:
  assumes "HeapAllocator_Allocate req resp h = (s, d, h')" and "heap_ok h"
  shows "heap_ok h' \<and>
    (if s = QC_STATUS_OK
     then pBuf d \<noteq> nullptr \<and> pBuf d \<notin> heap_live h \<and>
          heap_live h' = insert (pBuf d) (heap_live h) \<and> b_size d = p_size req \<and>
          p_size req \<noteq> 0 \<and> allocatorType d = QC_MEMORY_ALLOCATOR_HEAP
     else heap_live h' = heap_live h)"
proof (cases "p_size req = 0 \<or> p_cache req \<noteq> QC_CACHEABLE \<or>
              p_alignment req < QC_MEMORY_HEAP_MINIMAL_ALLIGNMENT")
  case True
  then have "HeapAllocator_Allocate req resp h = (QC_STATUS_BAD_ARGUMENTS, resp, h)"
    by (auto simp: HeapAllocator_Allocate_def)
  with assms show ?thesis by auto
next
  case False
  obtain ret p h2 where pm: "posix_memalign (p_alignment req) (p_size req) h = (ret, p, h2)"
    by (metis prod_cases3)
  from pm assms(2) show ?thesis
  proof (cases rule: posix_memalign_cases)
    case (ok a)
    with False pm have "HeapAllocator_Allocate req resp h =
        (QC_STATUS_OK, resp\<lparr>pBuf := a, b_alignment := p_alignment req, b_cache := p_cache req,
           allocatorType := QC_MEMORY_ALLOCATOR_HEAP, b_size := p_size req,
           b_name := ''Heap Allocator''\<rparr>, h2)"
      by (simp add: HeapAllocator_Allocate_def)
    with assms(1) have "s = QC_STATUS_OK" "h' = h2"
      and "d = resp\<lparr>pBuf := a, b_alignment := p_alignment req, b_cache := p_cache req,
           allocatorType := QC_MEMORY_ALLOCATOR_HEAP, b_size := p_size req,
           b_name := ''Heap Allocator''\<rparr>"
      by simp_all
    with False ok show ?thesis by simp
  next
    case err
    with False pm have "HeapAllocator_Allocate req resp h = (QC_STATUS_FAIL, resp, h2)"
      by (simp add: HeapAllocator_Allocate_def)
    with assms(1) err show ?thesis by simp
  qed
qed

text \<open>The blocks of the heap, owned by the heap allocator.\<close>

definition heap_blocks :: "'z libc_heap_scheme \<Rightarrow> block set" where
  "heap_blocks h = Pair QC_MEMORY_ALLOCATOR_HEAP ` heap_live h"

interpretation heap: allocator_contract HeapAllocator heap_blocks heap_ok
proof unfold_locales
  fix w w' :: "'z libc_heap_scheme" and req resp d s
  show "heap_ok w' \<and> pBuf d \<noteq> nullptr \<and> allocatorType d = a_type HeapAllocator \<and>
      block_of d \<notin> heap_blocks w \<and> heap_blocks w' = insert (block_of d) (heap_blocks w) \<and>
      b_size d = p_size req \<and> p_size req \<noteq> 0"
    if "heap_ok w" "Allocate HeapAllocator req resp w = (QC_STATUS_OK, d, w')"
    using HeapAllocator_Allocate_cases [of req resp w QC_STATUS_OK d w'] that
    by (auto simp: heap_blocks_def block_of_def)
  show "heap_ok w' \<and> heap_blocks w' = heap_blocks w"
    if "heap_ok w" "Allocate HeapAllocator req resp w = (s, d, w')" "s \<noteq> QC_STATUS_OK"
    using HeapAllocator_Allocate_cases [of req resp w s d w'] that by (simp add: heap_blocks_def)
  show "heap_ok w' \<and> heap_blocks w' = heap_blocks w - {block_of d}"
    if "heap_ok w" "block_of d \<in> heap_blocks w" "allocatorType d = a_type HeapAllocator"
      "Free HeapAllocator d w = (QC_STATUS_OK, w')"
    using that by (auto simp: HeapAllocator_Free_def heap_ok_free heap_live_free heap_ok_null
        heap_blocks_def block_of_def split: if_splits)
  show "heap_ok w' \<and> heap_blocks w' = heap_blocks w"
    if "heap_ok w" "Free HeapAllocator d w = (s, w')" "s \<noteq> QC_STATUS_OK"
    using that by (auto simp: HeapAllocator_Free_def split: if_splits)
  show "fst (Free HeapAllocator d w) = QC_STATUS_OK"
    if "heap_ok w" "block_of d \<in> heap_blocks w" "allocatorType d = a_type HeapAllocator"
      "b_size d \<noteq> 0"
    using that by (auto simp: HeapAllocator_Free_def heap_ok_def heap_blocks_def block_of_def)
qed

text \<open>The placeholder allocator meets the contract by refusing everything, in any world that
  holds no block of its type; the heap is one.\<close>

interpretation dummy: allocator_contract DummyAllocator heap_blocks heap_ok
  by unfold_locales (auto simp: DummyAllocator_def heap_blocks_def block_of_def)

end
