(* ===== verification/QC_Pool.thy ===== *)
theory QC_Pool
  imports QC_Allocator "HOL-Library.Multiset"
begin

text \<open>
  The buffer pool, \<^verbatim>\<open>include/QC/Infras/Memory/Pool.hpp\<close>: a fixed number of buffers allocated at
  initialisation, kept in a free queue and a list of buffers handed out. The allocator it was
  configured with is a field, as the C++ keeps a reference; the allocator's own state is the
  world every operation threads. The list removals and the checks that follow them
  (\<^verbatim>\<open>std::find\<close> after the move) are kept, and the lemmas show when the checks can fail.

  The contract of the pool as a client sees it is a queue of free buffers and a multiset of the
  ones handed out: \<open>pool_abs\<close>. The lemmas that need the allocator to behave are proved once in the context
  \<open>allocator_contract\<close>.
\<close>

record poolObjectDB =
  o_pBuf :: u64
  o_dmaHandle :: u64

definition poolObject_of :: "QCBufferDescriptorBase \<Rightarrow> poolObjectDB" where
  "poolObject_of d = \<lparr>o_pBuf = pBuf d, o_dmaHandle = dmaHandle d\<rparr>"

definition poolObject_eq_buffer :: "poolObjectDB \<Rightarrow> QCBufferDescriptorBase \<Rightarrow> bool" where
  "poolObject_eq_buffer p d \<longleftrightarrow> o_pBuf p = pBuf d \<and> o_dmaHandle p = dmaHandle d"

record 'w QCMemoryPoolConfig =
  cfg_buff :: QCBufferPropBase
  cfg_maxElements :: u64
  cfg_name :: string
  cfg_allocator :: "'w QCMemoryAllocatorIfs"

record 'w Pool =
  pool_config :: "'w QCMemoryPoolConfig"
  m_freeObjects :: "poolObjectDB list"
  m_allocatedObjects :: "poolObjectDB list"

definition Pool_new :: "'w QCMemoryPoolConfig \<Rightarrow> 'w Pool" where
  "Pool_new cfg = \<lparr>pool_config = cfg, m_freeObjects = [], m_allocatedObjects = []\<rparr>"

definition MakeDescriptorBase :: "'w Pool \<Rightarrow> QCBufferDescriptorBase" where
  "MakeDescriptorBase p =
     QCBufferDescriptorBase_init
       \<lparr>b_alignment := p_alignment (cfg_buff (pool_config p)),
        b_cache := p_cache (cfg_buff (pool_config p)),
        b_size := p_size (cfg_buff (pool_config p)),
        allocatorType := a_type (cfg_allocator (pool_config p))\<rparr>"

subsection \<open>Construction and destruction\<close>

fun Pool_Init_loop ::
  "nat \<Rightarrow> QCBufferPropBase \<Rightarrow> 'w Pool \<Rightarrow> 'w \<Rightarrow> QCStatus_e \<times> 'w Pool \<times> 'w" where
  "Pool_Init_loop 0 request p w = (QC_STATUS_OK, p, w)"
| "Pool_Init_loop (Suc n) request p w =
     (let (loopStatus, response, w') =
            Allocate (cfg_allocator (pool_config p)) request QCBufferDescriptorBase_init w
      in if loopStatus \<noteq> QC_STATUS_OK then (loopStatus, p, w')
         else
           let poolObj = poolObject_of response;
               p' = p\<lparr>m_freeObjects := m_freeObjects p @ [poolObj]\<rparr>
           in if last (m_freeObjects p') \<noteq> poolObj then (QC_STATUS_FAIL, p', w')
              else Pool_Init_loop n request p' w')"

definition Pool_Init :: "'w Pool \<Rightarrow> 'w \<Rightarrow> QCStatus_e \<times> 'w Pool \<times> 'w" where
  "Pool_Init p w =
     (if cfg_maxElements (pool_config p) = 0 then (QC_STATUS_BAD_ARGUMENTS, p, w)
      else
        let request = QCBufferPropBase_init
              \<lparr>p_alignment := p_alignment (cfg_buff (pool_config p)),
               p_cache := p_cache (cfg_buff (pool_config p)),
               p_size := p_size (cfg_buff (pool_config p))\<rparr>
        in Pool_Init_loop (unat (cfg_maxElements (pool_config p))) request p w)"

fun Pool_free_objects :: "'w Pool \<Rightarrow> poolObjectDB list \<Rightarrow> 'w \<Rightarrow> 'w" where
  "Pool_free_objects p [] w = w"
| "Pool_free_objects p (obj # objs) w =
     (let descriptor = (MakeDescriptorBase p)\<lparr>pBuf := o_pBuf obj, dmaHandle := o_dmaHandle obj\<rparr>;
          (_, w') = Free (cfg_allocator (pool_config p)) descriptor w
      in Pool_free_objects p objs w')"

definition Pool_destroy :: "'w Pool \<Rightarrow> 'w \<Rightarrow> 'w" where
  "Pool_destroy p w =
     Pool_free_objects p (m_allocatedObjects p) (Pool_free_objects p (m_freeObjects p) w)"

subsection \<open>Taking and returning an element\<close>

definition Pool_GetElement ::
  "'w Pool \<Rightarrow> QCBufferDescriptorBase \<Rightarrow> QCStatus_e \<times> QCBufferDescriptorBase \<times> 'w Pool" where
  "Pool_GetElement p buffer =
     (case m_freeObjects p of
        [] \<Rightarrow> (QC_STATUS_NO_RESOURCE, buffer, p)
      | poolObj # rest \<Rightarrow>
          if o_pBuf poolObj = nullptr then (QC_STATUS_NULL_PTR, buffer, p)
          else
            let p' = p\<lparr>m_freeObjects := rest,
                       m_allocatedObjects := m_allocatedObjects p @ [poolObj]\<rparr>;
                buffer' = (MakeDescriptorBase p)
                            \<lparr>pBuf := o_pBuf poolObj, dmaHandle := o_dmaHandle poolObj\<rparr>
            in if poolObj \<in> set rest then (QC_STATUS_FAIL, buffer', p')
               else if \<not> poolObject_eq_buffer (last (m_allocatedObjects p')) buffer'
                 then (QC_STATUS_FAIL, buffer', p')
               else (QC_STATUS_OK, buffer', p'))"

fun remove_first_match ::
  "QCBufferDescriptorBase \<Rightarrow> poolObjectDB list \<Rightarrow> (poolObjectDB \<times> poolObjectDB list) option" where
  "remove_first_match buffer [] = None"
| "remove_first_match buffer (obj # objs) =
     (if poolObject_eq_buffer obj buffer then Some (obj, objs)
      else case remove_first_match buffer objs of
             None \<Rightarrow> None
           | Some (found, rest) \<Rightarrow> Some (found, obj # rest))"

definition Pool_PutElement ::
  "'w Pool \<Rightarrow> QCBufferDescriptorBase \<Rightarrow> QCStatus_e \<times> 'w Pool" where
  "Pool_PutElement p buffer =
     (if a_type (cfg_allocator (pool_config p)) \<noteq> allocatorType buffer
        then (QC_STATUS_BAD_ARGUMENTS, p)
      else if pBuf buffer = nullptr then (QC_STATUS_NULL_PTR, p)
      else case remove_first_match buffer (m_allocatedObjects p) of
             None \<Rightarrow> (QC_STATUS_BAD_ARGUMENTS, p)
           | Some (poolObj, rest) \<Rightarrow>
               let p' = p\<lparr>m_allocatedObjects := rest,
                          m_freeObjects := m_freeObjects p @ [poolObj]\<rparr>
               in if poolObj \<in> set rest then (QC_STATUS_FAIL, p')
                  else if last (m_freeObjects p') \<noteq> poolObj then (QC_STATUS_FAIL, p')
                  else (QC_STATUS_OK, p'))"

subsection \<open>The abstract pool\<close>

type_synonym pool_view = "poolObjectDB list \<times> poolObjectDB multiset"

definition pool_abs :: "'w Pool \<Rightarrow> pool_view" where
  "pool_abs p = (m_freeObjects p, mset (m_allocatedObjects p))"

definition pool_objects :: "'w Pool \<Rightarrow> poolObjectDB list" where
  "pool_objects p = m_freeObjects p @ m_allocatedObjects p"

definition pool_addrs :: "'w Pool \<Rightarrow> u64 set" where
  "pool_addrs p = o_pBuf ` set (pool_objects p)"

definition pool_blocks :: "'w Pool \<Rightarrow> block set" where
  "pool_blocks p = Pair (a_type (cfg_allocator (pool_config p))) ` pool_addrs p"

text \<open>No buffer is in the pool twice and none is null.\<close>

definition pool_inv :: "'w Pool \<Rightarrow> bool" where
  "pool_inv p \<longleftrightarrow> distinct (map o_pBuf (pool_objects p)) \<and> nullptr \<notin> pool_addrs p"

lemmas pool_view_defs = pool_abs_def pool_objects_def pool_addrs_def pool_inv_def

lemma remove_first_match_Some:
  "remove_first_match b xs = Some (x, ys) \<Longrightarrow>
     poolObject_eq_buffer x b \<and> mset xs = add_mset x (mset ys) \<and>
     (\<exists>us vs. xs = us @ x # vs \<and> ys = us @ vs)"
proof (induction xs arbitrary: ys)
  case Nil
  then show ?case by simp
next
  case (Cons a xs)
  show ?case
  proof (cases "poolObject_eq_buffer a b")
    case True
    with Cons.prems show ?thesis by auto
  next
    case False
    with Cons.prems obtain zs where z: "remove_first_match b xs = Some (x, zs)" "ys = a # zs"
      by (auto split: option.splits)
    from Cons.IH [OF z(1)] obtain us vs where "xs = us @ x # vs" "zs = us @ vs"
      "poolObject_eq_buffer x b" "mset xs = add_mset x (mset zs)" by blast
    with z(2) show ?thesis by (intro conjI exI [of _ "a # us"] exI [of _ vs]) auto
  qed
qed

lemma remove_first_match_None:
  "remove_first_match b xs = None \<longleftrightarrow> (\<forall>x \<in> set xs. \<not> poolObject_eq_buffer x b)"
  by (induction xs) (auto split: option.splits)

lemma GetElement_cases:
  assumes "pool_inv p"
  obtains (empty) "m_freeObjects p = []" "Pool_GetElement p b = (QC_STATUS_NO_RESOURCE, b, p)"
    | (taken) obj rest where "m_freeObjects p = obj # rest"
        "Pool_GetElement p b =
           (QC_STATUS_OK, (MakeDescriptorBase p)\<lparr>pBuf := o_pBuf obj, dmaHandle := o_dmaHandle obj\<rparr>,
            p\<lparr>m_freeObjects := rest, m_allocatedObjects := m_allocatedObjects p @ [obj]\<rparr>)"
proof (cases "m_freeObjects p")
  case Nil
  then show ?thesis by (intro empty) (simp_all add: Pool_GetElement_def)
next
  case (Cons obj rest)
  with assms have "o_pBuf obj \<noteq> nullptr" "obj \<notin> set rest"
    by (auto simp: pool_view_defs)
  with Cons show ?thesis
    by (intro taken [of obj rest])
      (simp_all add: Pool_GetElement_def poolObject_eq_buffer_def Let_def)
qed

lemma PutElement_cases:
  assumes "pool_inv p"
  obtains (type) "a_type (cfg_allocator (pool_config p)) \<noteq> allocatorType b"
        "Pool_PutElement p b = (QC_STATUS_BAD_ARGUMENTS, p)"
    | (null) "a_type (cfg_allocator (pool_config p)) = allocatorType b" "pBuf b = nullptr"
        "Pool_PutElement p b = (QC_STATUS_NULL_PTR, p)"
    | (foreign) "a_type (cfg_allocator (pool_config p)) = allocatorType b" "pBuf b \<noteq> nullptr"
        "\<forall>x \<in> set (m_allocatedObjects p). \<not> poolObject_eq_buffer x b"
        "Pool_PutElement p b = (QC_STATUS_BAD_ARGUMENTS, p)"
    | (returned) obj us vs where "a_type (cfg_allocator (pool_config p)) = allocatorType b"
        "m_allocatedObjects p = us @ obj # vs" "poolObject_eq_buffer obj b"
        "Pool_PutElement p b =
           (QC_STATUS_OK,
            p\<lparr>m_allocatedObjects := us @ vs, m_freeObjects := m_freeObjects p @ [obj]\<rparr>)"
proof (cases "a_type (cfg_allocator (pool_config p)) = allocatorType b \<and> pBuf b \<noteq> nullptr")
  case False
  then show ?thesis
    by (cases "a_type (cfg_allocator (pool_config p)) = allocatorType b")
      (auto intro: type null simp: Pool_PutElement_def)
next
  case True
  show ?thesis
  proof (cases "remove_first_match b (m_allocatedObjects p)")
    case None
    with True show ?thesis
      by (intro foreign)
        (simp_all add: Pool_PutElement_def remove_first_match_None [THEN iffD1, OF None])
  next
    case (Some r)
    obtain obj rest where r: "r = (obj, rest)" by fastforce
    from remove_first_match_Some [OF Some [unfolded r]] obtain us vs
      where split: "poolObject_eq_buffer obj b" "m_allocatedObjects p = us @ obj # vs"
        "rest = us @ vs" by blast
    with assms have "obj \<notin> set rest" by (auto simp: pool_view_defs)
    with True Some r split show ?thesis
      by (intro returned [of us obj vs]) (simp_all add: Pool_PutElement_def Let_def)
  qed
qed

lemma pool_inv_GetElement:
  assumes "pool_inv p"
  shows "pool_inv (snd (snd (Pool_GetElement p b)))"
  using assms
proof (cases rule: GetElement_cases [where b = b])
  case empty
  with assms show ?thesis by simp
next
  case (taken obj rest)
  with assms show ?thesis by (auto simp: pool_view_defs)
qed

lemma pool_inv_PutElement:
  assumes "pool_inv p"
  shows "pool_inv (snd (Pool_PutElement p b))"
  using assms
proof (cases rule: PutElement_cases [where b = b])
  case (returned obj us vs)
  with assms show ?thesis by (auto simp: pool_view_defs)
qed (use assms in simp_all)

lemma pool_addrs_GetElement:
  "pool_inv p \<Longrightarrow> pool_addrs (snd (snd (Pool_GetElement p b))) = pool_addrs p"
  by (erule GetElement_cases [where b = b]) (auto simp: pool_view_defs)

lemma pool_addrs_PutElement:
  "pool_inv p \<Longrightarrow> pool_addrs (snd (Pool_PutElement p b)) = pool_addrs p"
  by (erule PutElement_cases [where b = b]) (auto simp: pool_view_defs)

lemma pool_config_GetElement [simp]:
  "pool_config (snd (snd (Pool_GetElement p b))) = pool_config p"
  by (simp add: Pool_GetElement_def Let_def split: list.splits)

lemma pool_config_PutElement [simp]:
  "pool_config (snd (Pool_PutElement p b)) = pool_config p"
  by (simp add: Pool_PutElement_def Let_def split: option.splits)

subsection \<open>Over an allocator that keeps its contract\<close>

text \<open>What the pool owns in the world: its buffers are live blocks of its allocator.\<close>

definition pool_owned ::
  "'w QCMemoryAllocatorIfs \<Rightarrow> ('w \<Rightarrow> block set) \<Rightarrow> 'w Pool \<Rightarrow> 'w \<Rightarrow> bool" where
  "pool_owned A live p w \<longleftrightarrow>
     cfg_allocator (pool_config p) = A \<and> pool_inv p \<and> pool_blocks p \<subseteq> live w \<and>
     (pool_addrs p \<noteq> {} \<longrightarrow> p_size (cfg_buff (pool_config p)) \<noteq> 0)"

context allocator_contract
begin

abbreviation (input) obj_blocks :: "poolObjectDB list \<Rightarrow> block set" where
  "obj_blocks objs \<equiv> (\<lambda>obj. (a_type A, o_pBuf obj)) ` set objs"

lemma Pool_Init_loop_spec:
  assumes "wok w" "cfg_allocator (pool_config p) = A"
    and "Pool_Init_loop n req p w = (s, p', w')"
  shows "\<exists>news. wok w' \<and> p' = p\<lparr>m_freeObjects := m_freeObjects p @ news\<rparr> \<and>
           distinct (map o_pBuf news) \<and> nullptr \<notin> o_pBuf ` set news \<and>
           obj_blocks news \<inter> live w = {} \<and> live w' = live w \<union> obj_blocks news \<and>
           (if s = QC_STATUS_OK then length news = n else length news < n) \<and>
           (news \<noteq> [] \<longrightarrow> p_size req \<noteq> 0)"
  using assms
proof (induction n arbitrary: p w)
  case 0
  then show ?case by (intro exI [of _ "[]"]) simp
next
  case (Suc n)
  obtain ls d w1 where alloc: "Allocate A req QCBufferDescriptorBase_init w = (ls, d, w1)"
    by (metis prod_cases3)
  show ?case
  proof (cases "ls = QC_STATUS_OK")
    case False
    with Suc.prems alloc have "s = ls" "p' = p" "w' = w1" by simp_all
    with False alloc_fail [OF Suc.prems(1) alloc False] show ?thesis
      by (intro exI [of _ "[]"]) simp
  next
    case True
    let ?o = "poolObject_of d"
    let ?p = "p\<lparr>m_freeObjects := m_freeObjects p @ [?o]\<rparr>"
    note ok = alloc_ok [OF Suc.prems(1) alloc [unfolded True]]
    from Suc.prems alloc True have "Pool_Init_loop n req ?p w1 = (s, p', w')"
      by (simp add: Let_def)
    from Suc.IH [OF _ _ this] ok Suc.prems(2) obtain news where
      n: "wok w'" "p' = ?p\<lparr>m_freeObjects := m_freeObjects ?p @ news\<rparr>"
        "distinct (map o_pBuf news)" "nullptr \<notin> o_pBuf ` set news"
        "obj_blocks news \<inter> live w1 = {}" "live w' = live w1 \<union> obj_blocks news"
        "if s = QC_STATUS_OK then length news = n else length news < n"
      by auto
    have o: "(a_type A, o_pBuf ?o) = block_of d" "o_pBuf ?o = pBuf d"
      using ok by (simp_all add: poolObject_of_def block_of_def)
    have "block_of d \<notin> obj_blocks news" using n(5) ok by blast
    then have fresh: "o_pBuf ?o \<notin> o_pBuf ` set news"
      by (simp add: o(1) [symmetric] tagged_image_iff)
    have blocks: "obj_blocks (?o # news) = insert (block_of d) (obj_blocks news)"
      by (simp add: o(1))
    show ?thesis
    proof (intro exI [of _ "?o # news"] conjI)
      show "obj_blocks (?o # news) \<inter> live w = {}" using n(5) ok unfolding blocks by blast
      show "live w' = live w \<union> obj_blocks (?o # news)" using n(6) ok unfolding blocks by blast
    qed (use n ok o fresh in auto)
  qed
qed

lemma Pool_free_objects_spec:
  assumes "wok w" "cfg_allocator (pool_config p) = A" "p_size (cfg_buff (pool_config p)) \<noteq> 0"
    and "distinct (map o_pBuf objs)" "obj_blocks objs \<subseteq> live w"
  shows "wok (Pool_free_objects p objs w) \<and>
         live (Pool_free_objects p objs w) = live w - obj_blocks objs"
  using assms
proof (induction objs arbitrary: w)
  case Nil
  then show ?case by simp
next
  case (Cons obj objs)
  let ?d = "(MakeDescriptorBase p)\<lparr>pBuf := o_pBuf obj, dmaHandle := o_dmaHandle obj\<rparr>"
  have d: "block_of ?d = (a_type A, o_pBuf obj)"
    using Cons.prems(2) by (simp add: block_of_def MakeDescriptorBase_def)
  from Cons.prems have "block_of ?d \<in> live w" "allocatorType ?d = a_type A" "b_size ?d \<noteq> 0"
    unfolding d by (simp_all add: MakeDescriptorBase_def)
  from free_live [OF Cons.prems(1) this] obtain w1 where
    w1: "Free A ?d w = (QC_STATUS_OK, w1)" "wok w1" "live w1 = live w - {(a_type A, o_pBuf obj)}"
    unfolding d by auto
  have "(a_type A, o_pBuf obj) \<notin> obj_blocks objs"
    using Cons.prems(4) by (simp add: tagged_image_iff)
  moreover have "obj_blocks objs \<subseteq> live w" using Cons.prems(5) by simp
  ultimately have "obj_blocks objs \<subseteq> live w1"
    unfolding w1(3) by (simp only: subset_Diff_insert Diff_empty) simp
  with Cons.IH [of w1] Cons.prems w1(2) have
    "wok (Pool_free_objects p objs w1) \<and>
     live (Pool_free_objects p objs w1) = live w1 - obj_blocks objs" by auto
  with w1 Cons.prems(2) show ?case by (auto simp: Let_def)
qed

lemma pool_owned_new: "cfg_allocator cfg = A \<Longrightarrow> pool_owned A live (Pool_new cfg) w"
  by (simp add: pool_owned_def Pool_new_def pool_view_defs pool_blocks_def)

text \<open>Initialisation either fills the pool with as many fresh buffers as configured, or keeps
  the ones it got and reports the status of the allocation that failed.\<close>

lemma Pool_Init_spec:
  assumes "wok w" "cfg_allocator cfg = A" "Pool_Init (Pool_new cfg) w = (s, p', w')"
  shows "wok w' \<and> pool_config p' = cfg \<and> m_allocatedObjects p' = [] \<and> pool_owned A live p' w' \<and>
     pool_blocks p' \<inter> live w = {} \<and> live w' = live w \<union> pool_blocks p' \<and>
     (s = QC_STATUS_OK \<longrightarrow>
        cfg_maxElements cfg \<noteq> 0 \<and> length (m_freeObjects p') = unat (cfg_maxElements cfg))"
proof (cases "cfg_maxElements cfg = 0")
  case True
  with assms show ?thesis
    by (auto simp: Pool_Init_def Pool_new_def pool_owned_def pool_view_defs pool_blocks_def)
next
  case False
  let ?req = "QCBufferPropBase_init
    \<lparr>p_alignment := p_alignment (cfg_buff cfg), p_cache := p_cache (cfg_buff cfg),
     p_size := p_size (cfg_buff cfg)\<rparr>"
  have "Pool_Init_loop (unat (cfg_maxElements cfg)) ?req (Pool_new cfg) w = (s, p', w')"
    using assms(3) False by (simp add: Pool_Init_def Pool_new_def)
  from Pool_Init_loop_spec [OF assms(1) _ this] assms(2) obtain news where
    n: "wok w'" "p' = (Pool_new cfg)\<lparr>m_freeObjects := news\<rparr>"
      "distinct (map o_pBuf news)" "nullptr \<notin> o_pBuf ` set news"
      "obj_blocks news \<inter> live w = {}" "live w' = live w \<union> obj_blocks news"
      "s = QC_STATUS_OK \<longrightarrow> length news = unat (cfg_maxElements cfg)"
      "news \<noteq> [] \<longrightarrow> p_size (cfg_buff cfg) \<noteq> 0"
    by (auto simp: Pool_new_def split: if_splits)
  have fields: "pool_config p' = cfg" "m_freeObjects p' = news" "m_allocatedObjects p' = []"
    by (simp_all add: n(2) Pool_new_def)
  then have addrs: "pool_blocks p' = obj_blocks news" and inv: "pool_inv p'"
    and addrs': "pool_addrs p' = o_pBuf ` set news"
    using n(3,4) assms(2) by (simp_all add: pool_view_defs pool_blocks_def image_image)
  then have "pool_owned A live p' w'"
    using n(6,8) assms(2) fields(1) by (simp add: pool_owned_def)
  with n fields addrs False show ?thesis by simp
qed

text \<open>Destruction gives every buffer back, the free ones and the ones still handed out.\<close>

lemma Pool_destroy_spec:
  assumes "wok w" "pool_owned A live p w"
  shows "wok (Pool_destroy p w) \<and> live (Pool_destroy p w) = live w - pool_blocks p"
proof (cases "pool_addrs p = {}")
  case True
  then have "m_freeObjects p = []" "m_allocatedObjects p = []"
    by (auto simp: pool_view_defs)
  with assms True show ?thesis by (simp add: Pool_destroy_def pool_blocks_def)
next
  case False
  with assms(2) have o: "cfg_allocator (pool_config p) = A"
      "p_size (cfg_buff (pool_config p)) \<noteq> 0" "pool_inv p" "pool_blocks p \<subseteq> live w"
    by (auto simp: pool_owned_def)
  have pb: "pool_blocks p = obj_blocks (m_freeObjects p) \<union> obj_blocks (m_allocatedObjects p)"
    using o(1) by (simp add: pool_blocks_def pool_addrs_def pool_objects_def image_Un image_image)
  from o(3,4) have d: "distinct (map o_pBuf (m_freeObjects p))"
      "distinct (map o_pBuf (m_allocatedObjects p))"
      "obj_blocks (m_freeObjects p) \<subseteq> live w" "obj_blocks (m_allocatedObjects p) \<subseteq> live w"
      "obj_blocks (m_freeObjects p) \<inter> obj_blocks (m_allocatedObjects p) = {}"
    unfolding pb by (auto simp: pool_view_defs)
  let ?w1 = "Pool_free_objects p (m_freeObjects p) w"
  have w1: "wok ?w1" "live ?w1 = live w - obj_blocks (m_freeObjects p)"
    using Pool_free_objects_spec [OF assms(1) o(1,2) d(1,3)] by simp_all
  with d(4,5) have "obj_blocks (m_allocatedObjects p) \<subseteq> live ?w1" by blast
  with Pool_free_objects_spec [OF w1(1) o(1,2) d(2)] w1(2)
  have "wok (Pool_destroy p w)" "live (Pool_destroy p w) =
      live w - obj_blocks (m_freeObjects p) - obj_blocks (m_allocatedObjects p)"
    by (simp_all add: Pool_destroy_def)
  then show ?thesis unfolding pb by blast
qed

lemma pool_owned_GetElement:
  "pool_owned A live p w \<Longrightarrow> pool_owned A live (snd (snd (Pool_GetElement p b))) w"
  by (auto simp: pool_owned_def pool_inv_GetElement pool_addrs_GetElement pool_blocks_def)

lemma pool_owned_PutElement:
  "pool_owned A live p w \<Longrightarrow> pool_owned A live (snd (Pool_PutElement p b)) w"
  by (auto simp: pool_owned_def pool_inv_PutElement pool_addrs_PutElement pool_blocks_def)

end

end
