(* ===== verification/QC_PoolProps.thy ===== *)
theory QC_PoolProps
  imports QC_Pool
begin

text \<open>
  The properties of the buffer pool. \<open>spec_get\<close> and \<open>spec_put\<close> are the contract a client sees, on the
  view \<open>pool_abs\<close>: a queue of free buffers and the multiset of buffers handed out. The code keeps a
  list for the second and searches it after every move; none of those checks can fail.
\<close>

subsection \<open>The contract of taking and returning an element\<close>

definition spec_get :: "pool_view \<Rightarrow> QCStatus_e \<times> poolObjectDB option \<times> pool_view" where
  "spec_get v =
     (case v of
        ([], out) \<Rightarrow> (QC_STATUS_NO_RESOURCE, None, ([], out))
      | (obj # free, out) \<Rightarrow> (QC_STATUS_OK, Some obj, (free, add_mset obj out)))"

definition spec_put :: "poolObjectDB \<Rightarrow> pool_view \<Rightarrow> QCStatus_e \<times> pool_view" where
  "spec_put obj v =
     (case v of (free, out) \<Rightarrow>
        if obj \<in># out then (QC_STATUS_OK, (free @ [obj], out - {#obj#}))
        else (QC_STATUS_BAD_ARGUMENTS, (free, out)))"

lemma poolObject_eq_iff: "poolObject_eq_buffer x b \<longleftrightarrow> x = poolObject_of b"
  by (cases x) (simp add: poolObject_eq_buffer_def poolObject_of_def)

lemma GetElement_refines:
  assumes "pool_inv p"
  shows "case Pool_GetElement p b of (s, b', p') \<Rightarrow>
    spec_get (pool_abs p) =
      (s, if s = QC_STATUS_OK then Some (poolObject_of b') else None, pool_abs p') \<and>
    (s = QC_STATUS_OK \<longrightarrow> b_size b' = p_size (cfg_buff (pool_config p)) \<and>
       b_alignment b' = p_alignment (cfg_buff (pool_config p)) \<and>
       b_cache b' = p_cache (cfg_buff (pool_config p)) \<and>
       allocatorType b' = a_type (cfg_allocator (pool_config p)) \<and> pBuf b' \<noteq> nullptr) \<and>
    (s \<noteq> QC_STATUS_OK \<longrightarrow> b' = b \<and> p' = p)"
  using assms
proof (cases rule: GetElement_cases [where b = b])
  case empty
  then show ?thesis by (simp add: spec_get_def pool_abs_def)
next
  case (taken obj rest)
  have "o_pBuf obj \<noteq> nullptr" using assms taken(1) by (auto simp: pool_view_defs)
  with taken show ?thesis
    by (cases obj) (simp add: spec_get_def pool_abs_def poolObject_of_def MakeDescriptorBase_def)
qed

lemma PutElement_refines:
  assumes "pool_inv p"
  shows "case Pool_PutElement p b of (s, p') \<Rightarrow>
    if a_type (cfg_allocator (pool_config p)) \<noteq> allocatorType b
      then s = QC_STATUS_BAD_ARGUMENTS \<and> p' = p
    else if pBuf b = nullptr then s = QC_STATUS_NULL_PTR \<and> p' = p
    else spec_put (poolObject_of b) (pool_abs p) = (s, pool_abs p')"
  using assms
proof (cases rule: PutElement_cases [where b = b])
  case foreign
  then show ?thesis by (simp add: spec_put_def pool_abs_def poolObject_eq_iff) blast
next
  case (returned obj us vs)
  have "obj = poolObject_of b" using returned(3) by (simp add: poolObject_eq_iff)
  moreover have "pBuf b \<noteq> nullptr"
    using returned(2,3) assms by (auto simp: pool_view_defs poolObject_eq_buffer_def)
  ultimately show ?thesis using returned by (simp add: spec_put_def pool_abs_def)
qed auto

subsection \<open>Runs of a pool\<close>

datatype pool_op = GetOp QCBufferDescriptorBase | PutOp QCBufferDescriptorBase

fun pool_exec :: "pool_op list \<Rightarrow> 'w Pool \<Rightarrow> 'w Pool" where
  "pool_exec [] p = p"
| "pool_exec (GetOp b # ops) p = pool_exec ops (snd (snd (Pool_GetElement p b)))"
| "pool_exec (PutOp b # ops) p = pool_exec ops (snd (Pool_PutElement p b))"

lemma mset_GetElement:
  "pool_inv p \<Longrightarrow> mset (pool_objects (snd (snd (Pool_GetElement p b)))) = mset (pool_objects p)"
  by (erule GetElement_cases [where b = b]) (simp_all add: pool_objects_def)

lemma mset_PutElement:
  "pool_inv p \<Longrightarrow> mset (pool_objects (snd (Pool_PutElement p b))) = mset (pool_objects p)"
  by (erule PutElement_cases [where b = b]) (simp_all add: pool_objects_def)

lemma pool_exec_keeps:
  "pool_inv p \<Longrightarrow> pool_inv (pool_exec ops p) \<and>
     mset (pool_objects (pool_exec ops p)) = mset (pool_objects p) \<and>
     pool_config (pool_exec ops p) = pool_config p"
  by (induction ops p rule: pool_exec.induct)
    (simp_all add: pool_inv_GetElement pool_inv_PutElement mset_GetElement mset_PutElement)

lemma GetElement_OK_iff:
  "pool_inv p \<Longrightarrow> fst (Pool_GetElement p b) = QC_STATUS_OK \<longleftrightarrow> m_freeObjects p \<noteq> []"
  by (erule GetElement_cases [where b = b]) simp_all

subsection \<open>Properties\<close>

definition demo_pool :: "libc_heap Pool" where
  "demo_pool = \<lparr>pool_config = \<lparr>cfg_buff = \<lparr>p_size = 64, p_alignment = 4096, p_cache = QC_CACHEABLE\<rparr>,
       cfg_maxElements = 2, cfg_name = ''demo'', cfg_allocator = HeapAllocator\<rparr>,
     m_freeObjects = [\<lparr>o_pBuf = 4096, o_dmaHandle = 0\<rparr>, \<lparr>o_pBuf = 8192, o_dmaHandle = 0\<rparr>],
     m_allocatedObjects = []\<rparr>"

lemma demo_pool_inv: "pool_inv demo_pool"
  by (simp add: demo_pool_def pool_view_defs)

text \<open>C11: taking and returning an element refine the abstract pool. On a pool with distinct non-null
  buffers, taking one returns the head of the free queue under the configured properties and moves
  it to the buffers handed out, or reports that none is free; returning one puts it at the end of
  the queue exactly when it was handed out, and every refusal leaves the pool as it was.\<close>

theorem pool_refines_spec:
  assumes "pool_inv p"
  shows "(case Pool_GetElement p b of (s, b', p') \<Rightarrow>
      spec_get (pool_abs p) =
        (s, if s = QC_STATUS_OK then Some (poolObject_of b') else None, pool_abs p') \<and>
      (s = QC_STATUS_OK \<longrightarrow> b_size b' = p_size (cfg_buff (pool_config p)) \<and>
         b_alignment b' = p_alignment (cfg_buff (pool_config p)) \<and>
         b_cache b' = p_cache (cfg_buff (pool_config p)) \<and>
         allocatorType b' = a_type (cfg_allocator (pool_config p)) \<and> pBuf b' \<noteq> nullptr) \<and>
      (s \<noteq> QC_STATUS_OK \<longrightarrow> b' = b \<and> p' = p)) \<and>
    (case Pool_PutElement p b of (s, p') \<Rightarrow>
      if a_type (cfg_allocator (pool_config p)) \<noteq> allocatorType b
        then s = QC_STATUS_BAD_ARGUMENTS \<and> p' = p
      else if pBuf b = nullptr then s = QC_STATUS_NULL_PTR \<and> p' = p
      else spec_put (poolObject_of b) (pool_abs p) = (s, pool_abs p'))"
  by (rule conjI [OF GetElement_refines [OF assms] PutElement_refines [OF assms]])

theorem pool_refines_spec_witness:
  "fst (Pool_GetElement demo_pool QCBufferDescriptorBase_init) = QC_STATUS_OK"
  using pool_refines_spec [OF demo_pool_inv, of QCBufferDescriptorBase_init]
  by (auto simp: demo_pool_def spec_get_def pool_abs_def split: prod.splits)

text \<open>C12: a pool never gains or loses a buffer. A pool whose initialisation over the heap succeeded
  holds as many buffers as configured, fresh blocks of the heap at distinct addresses. After any
  sequence of takes and returns, with any arguments, its free and handed-out buffers together are
  still those, and a take succeeds exactly when fewer than the configured number are out.\<close>

theorem pool_conserves_buffers:
  assumes "heap_ok w" "cfg_allocator cfg = HeapAllocator"
    and "Pool_Init (Pool_new cfg) w = (QC_STATUS_OK, p, w')"
  shows "length (pool_objects p) = unat (cfg_maxElements cfg) \<and>
    distinct (map o_pBuf (pool_objects p)) \<and> pool_blocks p \<inter> heap_blocks w = {} \<and>
    heap_blocks w' = heap_blocks w \<union> pool_blocks p \<and>
    mset (m_freeObjects (pool_exec ops p)) + mset (m_allocatedObjects (pool_exec ops p)) =
      mset (pool_objects p) \<and>
    (fst (Pool_GetElement (pool_exec ops p) b) = QC_STATUS_OK \<longleftrightarrow>
      length (m_allocatedObjects (pool_exec ops p)) < unat (cfg_maxElements cfg))"
proof -
  from heap.Pool_Init_spec [OF assms] have i: "pool_inv p" "m_allocatedObjects p = []"
    "pool_blocks p \<inter> heap_blocks w = {}" "heap_blocks w' = heap_blocks w \<union> pool_blocks p"
    "length (m_freeObjects p) = unat (cfg_maxElements cfg)"
    by (simp_all add: pool_owned_def)
  then have len: "length (pool_objects p) = unat (cfg_maxElements cfg)"
    by (simp add: pool_objects_def)
  let ?q = "pool_exec ops p"
  have q: "pool_inv ?q" "mset (m_freeObjects ?q) + mset (m_allocatedObjects ?q) =
      mset (pool_objects p)"
    using pool_exec_keeps [OF i(1), of ops] by (simp_all add: pool_objects_def)
  from arg_cong [OF q(2), of size] len
  have "length (m_freeObjects ?q) + length (m_allocatedObjects ?q) = unat (cfg_maxElements cfg)"
    by simp
  then have "fst (Pool_GetElement ?q b) = QC_STATUS_OK \<longleftrightarrow>
      length (m_allocatedObjects ?q) < unat (cfg_maxElements cfg)"
    using GetElement_OK_iff [OF q(1), of b] by (cases "m_freeObjects ?q") auto
  with i len q(2) show ?thesis by (simp add: pool_inv_def)
qed

definition demo_pool_heap :: libc_heap where
  "demo_pool_heap = \<lparr>blocks = [], addr_supply = [4096, 8192, 12288], bad_free = False\<rparr>"

definition demo_pool_heap2 :: libc_heap where
  "demo_pool_heap2 = \<lparr>blocks = [(8192, 64), (4096, 64)], addr_supply = [12288], bad_free = False\<rparr>"

lemma demo_pool_Init:
  "Pool_Init (Pool_new (pool_config demo_pool)) demo_pool_heap = (QC_STATUS_OK, demo_pool, demo_pool_heap2)"
proof -
  let ?req = "\<lparr>p_size = 64, p_alignment = 4096, p_cache = QC_CACHEABLE\<rparr>"
  let ?h = "\<lparr>blocks = [(4096, 64)], addr_supply = [8192, 12288], bad_free = False\<rparr> :: libc_heap"
  let ?d = "\<lambda>a. QCBufferDescriptorBase_init\<lparr>pBuf := a, b_alignment := 4096, b_cache := QC_CACHEABLE,
    allocatorType := QC_MEMORY_ALLOCATOR_HEAP, b_size := 64, b_name := ''Heap Allocator''\<rparr>"
  have loop: "Pool_Init_loop 2 r p w = Pool_Init_loop (Suc (Suc 0)) r p w"
    for r and p :: "libc_heap Pool" and w by (simp only: numeral_2_eq_2)
  have valid: "memalign_valid 4096" by (simp add: memalign_valid_def)
  have one: "HeapAllocator_Allocate ?req QCBufferDescriptorBase_init demo_pool_heap =
      (QC_STATUS_OK, ?d 4096, ?h)"
    using valid by (simp add: HeapAllocator_Allocate_def posix_memalign_def demo_pool_heap_def
        block_fits_def word_less_nat_alt)
  have two: "HeapAllocator_Allocate ?req QCBufferDescriptorBase_init ?h =
      (QC_STATUS_OK, ?d 8192, demo_pool_heap2)"
    using valid by (simp add: HeapAllocator_Allocate_def posix_memalign_def demo_pool_heap2_def
        block_fits_def word_less_nat_alt)
  have obj: "poolObject_of (?d a) = \<lparr>o_pBuf = a, o_dmaHandle = 0\<rparr>" for a
    by (simp add: poolObject_of_def QCBufferDescriptorBase_init_def)
  show ?thesis
    using one two
    by (simp add: Pool_Init_def Pool_new_def demo_pool_def loop obj Let_def
        QCBufferPropBase_init_def del: One_nat_def)
qed

theorem pool_conserves_buffers_witness:
  "length (pool_objects demo_pool) = 2 \<and>
   fst (Pool_GetElement (pool_exec [GetOp QCBufferDescriptorBase_init, GetOp QCBufferDescriptorBase_init]
     demo_pool) QCBufferDescriptorBase_init) \<noteq> QC_STATUS_OK"
proof -
  have c: "cfg_allocator (pool_config demo_pool) = HeapAllocator" by (simp add: demo_pool_def)
  have ok: "heap_ok demo_pool_heap" by (simp add: heap_ok_def demo_pool_heap_def heap_live_def)
  note p = pool_conserves_buffers [OF ok c demo_pool_Init]
  have "unat (cfg_maxElements (pool_config demo_pool)) = 2" by (simp add: demo_pool_def)
  moreover have "length (m_allocatedObjects (pool_exec [GetOp QCBufferDescriptorBase_init,
      GetOp QCBufferDescriptorBase_init] demo_pool)) = 2"
    by (simp add: demo_pool_def Pool_GetElement_def Let_def poolObject_eq_buffer_def)
  ultimately show ?thesis using p by (metis less_irrefl)
qed

text \<open>Destroying a pool returns all its buffers, those handed out as well, and frees nothing
  else: over a sound heap in which they are live, the heap stays sound and the live blocks are the
  ones that were live less the buffers of the pool.\<close>

theorem pool_destroy_returns_all:
  assumes "heap_ok w" "cfg_allocator (pool_config p) = HeapAllocator"
    and "p_size (cfg_buff (pool_config p)) \<noteq> 0" "pool_inv p" "pool_blocks p \<subseteq> heap_blocks w"
  shows "heap_ok (Pool_destroy p w) \<and>
    heap_blocks (Pool_destroy p w) = heap_blocks w - pool_blocks p"
  by (rule heap.Pool_destroy_spec) (simp_all add: assms pool_owned_def)

theorem pool_destroy_returns_all_witness:
  "heap_blocks (Pool_destroy demo_pool demo_pool_heap2) = {}"
proof -
  have "heap_ok demo_pool_heap2"
    by (simp add: heap_ok_def demo_pool_heap2_def heap_live_def)
  moreover have "pool_blocks demo_pool = heap_blocks demo_pool_heap2"
    by (auto simp: pool_blocks_def pool_addrs_def pool_objects_def demo_pool_def heap_blocks_def
        heap_live_def demo_pool_heap2_def)
  ultimately show ?thesis
    using pool_destroy_returns_all [of demo_pool_heap2 demo_pool] demo_pool_inv
    by (simp add: demo_pool_def)
qed

end
