(* ===== verification/QC_Dma.thy ===== *)
theory QC_Dma
  imports QC_Allocator
begin

text \<open>
  The DMA allocators and the mapping utilities of the two platforms:
  \<^verbatim>\<open>source/Infras/Memory/DMABUFFAllocator.cpp\<close>, \<^verbatim>\<open>DMABUFFUtils.cpp\<close> (Linux), \<^verbatim>\<open>PMEMAllocator.cpp\<close> and
  \<^verbatim>\<open>PMEMUtils.cpp\<close> (QNX). The driver libraries they call (\<^verbatim>\<open>dmabufheap_*\<close>, \<^verbatim>\<open>pmem_*\<close>) are not part of
  the repository: each is a field of a record the operations take, over a world of its own, and so
  are \<^verbatim>\<open>mmap\<close>, \<^verbatim>\<open>munmap\<close> and \<^verbatim>\<open>close\<close>. What the code relies on is stated once, in \<open>dma_os_laws\<close> and
  \<open>pmem_os_laws\<close>, over the open file descriptors and mapped ranges of the world.

  A file descriptor is a C \<^verbatim>\<open>int\<close>; it travels through the descriptor as the 64-bit \<^verbatim>\<open>dmaHandle\<close>.
\<close>

subsection \<open>Numbers as text and as C ints\<close>

fun to_string :: "nat \<Rightarrow> string" where
  "to_string n = (if n < 10 then [char_of (48 + n)]
                  else to_string (n div 10) @ [char_of (48 + n mod 10)])"

declare to_string.simps [simp del]

text \<open>\<^verbatim>\<open>static_cast<uint64_t>( fd )\<close> and \<^verbatim>\<open>static_cast<int>( dmaHandle )\<close>.\<close>

definition handle_of_fd :: "int \<Rightarrow> u64" where
  "handle_of_fd fd = word_of_int fd"

definition fd_of_handle :: "u64 \<Rightarrow> int" where
  "fd_of_handle h = sint (ucast h :: u32)"

lemma fd_of_handle_of_fd: "0 \<le> fd \<Longrightarrow> fd < 2 ^ 31 \<Longrightarrow> fd_of_handle (handle_of_fd fd) = fd"
  by (simp add: fd_of_handle_def handle_of_fd_def sint_uint unsigned_ucast_eq uint_word_of_int
      take_bit_eq_mod signed_take_bit_eq_if_positive bit_iff_odd)

subsection \<open>The dma-buf platform\<close>

record 'w dma_os =
  dmabufheap_init :: "'w \<Rightarrow> int \<times> 'w"
  dmabufheap_release :: "int \<Rightarrow> 'w \<Rightarrow> 'w"
  dmabufheap_alloc :: "int \<Rightarrow> u64 \<Rightarrow> 'w \<Rightarrow> int \<times> int \<times> 'w"
  dmabufheap_free :: "int \<Rightarrow> 'w \<Rightarrow> int \<times> 'w"
  dmabufheap_import :: "int \<Rightarrow> int \<Rightarrow> 'w \<Rightarrow> int \<times> 'w"
  os_mmap :: "u64 \<Rightarrow> int \<Rightarrow> 'w \<Rightarrow> u64 \<times> 'w"
  os_munmap :: "u64 \<Rightarrow> u64 \<Rightarrow> 'w \<Rightarrow> int \<times> 'w"
  os_close :: "int \<Rightarrow> 'w \<Rightarrow> int \<times> 'w"
  os_getpid :: int

abbreviation (input) MAP_FAILED :: u64 where "MAP_FAILED \<equiv> - 1"

record DMABUFFAllocator =
  d_name :: string
  d_type :: QCMemoryAllocator_e
  m_dmaBufDevFdCached :: int

definition DMABUFFAllocator_new ::
  "'w dma_os \<Rightarrow> string \<Rightarrow> QCMemoryAllocator_e \<Rightarrow> 'w \<Rightarrow> DMABUFFAllocator \<times> 'w" where
  "DMABUFFAllocator_new os name allocator w =
     (let (fd, w') = dmabufheap_init os w
      in (\<lparr>d_name = name, d_type = allocator, m_dmaBufDevFdCached = fd\<rparr>, w'))"

definition DMABUFFAllocator_destroy ::
  "'w dma_os \<Rightarrow> DMABUFFAllocator \<Rightarrow> 'w \<Rightarrow> DMABUFFAllocator \<times> 'w" where
  "DMABUFFAllocator_destroy os a w =
     (a\<lparr>m_dmaBufDevFdCached := -1\<rparr>, dmabufheap_release os (m_dmaBufDevFdCached a) w)"

definition DMABUFF_Allocate ::
  "'w dma_os \<Rightarrow> DMABUFFAllocator \<Rightarrow> QCBufferPropBase \<Rightarrow> QCBufferDescriptorBase \<Rightarrow> 'w \<Rightarrow>
     QCStatus_e \<times> QCBufferDescriptorBase \<times> 'w" where
  "DMABUFF_Allocate os a request response w =
     (let response1 = response\<lparr>pBuf := nullptr\<rparr>;
          (status, fd, w1) =
            (if p_cache request \<noteq> QC_CACHEABLE then (QC_STATUS_UNSUPPORTED, -1, w)
             else if m_dmaBufDevFdCached a < 0 then (QC_STATUS_FAIL, -1, w)
             else if p_size request = 0 then (QC_STATUS_BAD_ARGUMENTS, -1, w)
             else if QC_MEMORY_DEFAULT_ALLIGNMENT < p_alignment request
               then (QC_STATUS_UNSUPPORTED, -1, w)
             else
               let (rc, fd, w1) = dmabufheap_alloc os (m_dmaBufDevFdCached a) (p_size request) w
               in (if rc < 0 then QC_STATUS_NOMEM else QC_STATUS_OK, fd, w1))
      in if status = QC_STATUS_OK then
           let (pAddr, w2) = os_mmap os (p_size request) fd w1
           in if pAddr \<noteq> nullptr \<and> pAddr \<noteq> MAP_FAILED
              then (QC_STATUS_OK,
                    response1\<lparr>pBuf := pAddr, dmaHandle := handle_of_fd fd,
                      b_size := p_size request, b_cache := QC_CACHEABLE, allocatorType := d_type a,
                      b_pid := os_getpid os,
                      b_name := d_name a @ ''-'' @ to_string (unat (handle_of_fd fd))\<rparr>, w2)
              else (QC_STATUS_FAIL, response1, snd (dmabufheap_free os fd w2))
         else (status, response1, w1))"

definition DMABUFF_Free ::
  "'w dma_os \<Rightarrow> DMABUFFAllocator \<Rightarrow> QCBufferDescriptorBase \<Rightarrow> 'w \<Rightarrow> QCStatus_e \<times> 'w" where
  "DMABUFF_Free os a buff w =
     (let fd = fd_of_handle (dmaHandle buff)
      in if pBuf buff = nullptr then (QC_STATUS_BAD_ARGUMENTS, w)
         else if m_dmaBufDevFdCached a < 0 then (QC_STATUS_FAIL, w)
         else if fd < 0 then (QC_STATUS_BAD_ARGUMENTS, w)
         else if b_size buff = 0 then (QC_STATUS_BAD_ARGUMENTS, w)
         else
           let (rc, w1) = os_munmap os (pBuf buff) (b_size buff) w;
               status1 = (if rc \<noteq> 0 then QC_STATUS_FAIL else QC_STATUS_OK);
               (rc2, w2) = dmabufheap_free os fd w1
           in (if rc2 \<noteq> 0 then QC_STATUS_FAIL else status1, w2))"

definition DMABUFFAllocator_ifs ::
  "'w dma_os \<Rightarrow> DMABUFFAllocator \<Rightarrow> 'w QCMemoryAllocatorIfs" where
  "DMABUFFAllocator_ifs os a =
     \<lparr>a_name = d_name a, a_type = d_type a, Allocate = DMABUFF_Allocate os a,
      Free = DMABUFF_Free os a\<rparr>"

definition DMABUFFUtils_MemoryMap ::
  "'w dma_os \<Rightarrow> QCBufferDescriptorBase \<Rightarrow> 'w \<Rightarrow> QCStatus_e \<times> QCBufferDescriptorBase \<times> 'w" where
  "DMABUFFUtils_MemoryMap os orig w =
     (let mapped = orig\<lparr>pBuf := nullptr, b_size := 0\<rparr>
      in if b_size orig = 0 then (QC_STATUS_BAD_ARGUMENTS, mapped, w)
         else
           let (status, mapped1, w1) =
                 (if b_pid orig \<noteq> 0 then
                    let (newFd, w1) =
                          dmabufheap_import os (b_pid orig) (fd_of_handle (dmaHandle orig)) w
                    in if newFd < 0 then (QC_STATUS_FAIL, mapped, w1)
                       else (QC_STATUS_OK, mapped\<lparr>dmaHandle := handle_of_fd newFd\<rparr>, w1)
                  else (QC_STATUS_OK, mapped, w))
           in if status = QC_STATUS_OK then
                let (pAddr, w2) = os_mmap os (b_size orig) (fd_of_handle (dmaHandle mapped1)) w1
                in if pAddr = nullptr \<or> pAddr = MAP_FAILED then (QC_STATUS_FAIL, mapped1, w2)
                   else (QC_STATUS_OK, mapped1\<lparr>pBuf := pAddr, b_size := b_size orig\<rparr>, w2)
              else (status, mapped1, w1))"

definition DMABUFFUtils_MemoryUnMap ::
  "'w dma_os \<Rightarrow> QCBufferDescriptorBase \<Rightarrow> 'w \<Rightarrow> QCStatus_e \<times> 'w" where
  "DMABUFFUtils_MemoryUnMap os buff w =
     (let fd = fd_of_handle (dmaHandle buff)
      in if pBuf buff = nullptr then (QC_STATUS_BAD_ARGUMENTS, w)
         else if fd < 0 then (QC_STATUS_BAD_ARGUMENTS, w)
         else if b_size buff = 0 then (QC_STATUS_BAD_ARGUMENTS, w)
         else
           let (rc, w1) = os_munmap os (pBuf buff) (b_size buff) w;
               status1 = (if rc \<noteq> 0 then QC_STATUS_FAIL else QC_STATUS_OK);
               (rc2, w2) = os_close os fd w1
           in (if rc2 \<noteq> 0 then QC_STATUS_FAIL else status1, w2))"

text \<open>
  What the code relies on: \<open>fds\<close> are the open descriptors and \<open>maps\<close> the mapped ranges of the world.
  An allocation or import that succeeds opens a new descriptor, a mapping that succeeds adds one
  range, releasing an open descriptor or an existing range succeeds and removes it, and a call that
  reports failure changes neither.
\<close>

definition dma_os_laws ::
  "'w dma_os \<Rightarrow> ('w \<Rightarrow> int set) \<Rightarrow> ('w \<Rightarrow> (u64 \<times> u64) set) \<Rightarrow> bool" where
  "dma_os_laws os fds maps \<longleftrightarrow>
     (\<forall>dev n w rc fd w'. dmabufheap_alloc os dev n w = (rc, fd, w') \<longrightarrow> maps w' = maps w \<and>
        (if rc < 0 then fds w' = fds w
         else 0 \<le> fd \<and> fd < 2 ^ 31 \<and> fd \<notin> fds w \<and> fds w' = insert fd (fds w))) \<and>
     (\<forall>pid fd w fd' w'. dmabufheap_import os pid fd w = (fd', w') \<longrightarrow> maps w' = maps w \<and>
        (if fd' < 0 then fds w' = fds w
         else fd' < 2 ^ 31 \<and> fd' \<notin> fds w \<and> fds w' = insert fd' (fds w))) \<and>
     (\<forall>fd w rc w'. fd \<in> fds w \<longrightarrow> dmabufheap_free os fd w = (rc, w') \<longrightarrow>
        rc = 0 \<and> fds w' = fds w - {fd} \<and> maps w' = maps w) \<and>
     (\<forall>fd w rc w'. fd \<in> fds w \<longrightarrow> os_close os fd w = (rc, w') \<longrightarrow>
        rc = 0 \<and> fds w' = fds w - {fd} \<and> maps w' = maps w) \<and>
     (\<forall>n fd w p w'. fd \<in> fds w \<longrightarrow> os_mmap os n fd w = (p, w') \<longrightarrow> fds w' = fds w \<and>
        (if p = nullptr \<or> p = MAP_FAILED then maps w' = maps w
         else (p, n) \<notin> maps w \<and> maps w' = insert (p, n) (maps w))) \<and>
     (\<forall>p n w rc w'. (p, n) \<in> maps w \<longrightarrow> os_munmap os p n w = (rc, w') \<longrightarrow>
        rc = 0 \<and> maps w' = maps w - {(p, n)} \<and> fds w' = fds w)"

lemma dma_os_lawsD:
  assumes "dma_os_laws os fds maps"
  shows "dmabufheap_alloc os dev n w = (rc, fd, w') \<Longrightarrow> maps w' = maps w \<and>
      (if rc < 0 then fds w' = fds w
       else 0 \<le> fd \<and> fd < 2 ^ 31 \<and> fd \<notin> fds w \<and> fds w' = insert fd (fds w))"
    "dmabufheap_import os pid fd0 w = (fd', w') \<Longrightarrow> maps w' = maps w \<and>
      (if fd' < 0 then fds w' = fds w
       else fd' < 2 ^ 31 \<and> fd' \<notin> fds w \<and> fds w' = insert fd' (fds w))"
    "fd \<in> fds w \<Longrightarrow> dmabufheap_free os fd w = (rc, w') \<Longrightarrow>
      rc = 0 \<and> fds w' = fds w - {fd} \<and> maps w' = maps w"
    "fd \<in> fds w \<Longrightarrow> os_close os fd w = (rc, w') \<Longrightarrow>
      rc = 0 \<and> fds w' = fds w - {fd} \<and> maps w' = maps w"
    "fd \<in> fds w \<Longrightarrow> os_mmap os n fd w = (p, w') \<Longrightarrow> fds w' = fds w \<and>
      (if p = nullptr \<or> p = MAP_FAILED then maps w' = maps w
       else (p, n) \<notin> maps w \<and> maps w' = insert (p, n) (maps w))"
    "(p, n) \<in> maps w \<Longrightarrow> os_munmap os p n w = (rc, w') \<Longrightarrow>
      rc = 0 \<and> maps w' = maps w - {(p, n)} \<and> fds w' = fds w"
  using assms unfolding dma_os_laws_def by metis+

subsection \<open>Allocation and release\<close>

text \<open>What an allocation leaves behind, on every branch.\<close>

lemma DMABUFF_Allocate_cases:
  assumes "dma_os_laws os fds maps" "DMABUFF_Allocate os a req resp w = (s, d, w')"
  obtains (ok) fd p where "s = QC_STATUS_OK" "0 \<le> fd" "fd < 2 ^ 31" "fd \<notin> fds w"
        "fds w' = insert fd (fds w)" "p \<noteq> nullptr" "(p, p_size req) \<notin> maps w"
        "maps w' = insert (p, p_size req) (maps w)" "pBuf d = p" "dmaHandle d = handle_of_fd fd"
        "b_size d = p_size req" "allocatorType d = d_type a" "b_alignment d = b_alignment resp"
        "p_size req \<noteq> 0" "0 \<le> m_dmaBufDevFdCached a" "b_pid d = os_getpid os"
    | (failed) "s \<noteq> QC_STATUS_OK" "fds w' = fds w" "maps w' = maps w" "pBuf d = nullptr"
proof (cases "p_cache req \<noteq> QC_CACHEABLE \<or> m_dmaBufDevFdCached a < 0 \<or> p_size req = 0 \<or>
    QC_MEMORY_DEFAULT_ALLIGNMENT < p_alignment req")
  case True
  with assms(2) show ?thesis
    by (intro failed) (auto simp: DMABUFF_Allocate_def Let_def split: if_splits)
next
  case False
  obtain rc fd w1 where al: "dmabufheap_alloc os (m_dmaBufDevFdCached a) (p_size req) w = (rc, fd, w1)"
    by (metis prod_cases3)
  note l1 = dma_os_lawsD(1) [OF assms(1) al]
  show ?thesis
  proof (cases "rc < 0")
    case True
    with assms(2) False al l1 show ?thesis
      by (intro failed) (auto simp: DMABUFF_Allocate_def Let_def)
  next
    case rc: False
    with l1 have l: "maps w1 = maps w" "0 \<le> fd" "fd < 2 ^ 31" "fd \<notin> fds w"
      "fds w1 = insert fd (fds w)" by simp_all
    then have "fd \<in> fds w1" by simp
    obtain p w2 where mm: "os_mmap os (p_size req) fd w1 = (p, w2)" by fastforce
    note l2 = dma_os_lawsD(5) [OF assms(1) \<open>fd \<in> fds w1\<close> mm]
    show ?thesis
    proof (cases "p = nullptr \<or> p = MAP_FAILED")
      case True
      obtain rc2 w3 where fr: "dmabufheap_free os fd w2 = (rc2, w3)" by fastforce
      have "fd \<in> fds w2" using l2 l(5) by simp
      from dma_os_lawsD(3) [OF assms(1) this fr] l2 True l have
        "fds w3 = fds w" "maps w3 = maps w" by auto
      moreover have "s = QC_STATUS_FAIL" "w' = w3" "pBuf d = nullptr"
        using assms(2) False al rc mm True fr by (auto simp: DMABUFF_Allocate_def Let_def)
      ultimately show ?thesis by (intro failed) simp_all
    next
      case p: False
      let ?d = "resp\<lparr>pBuf := p, dmaHandle := handle_of_fd fd, b_size := p_size req,
        b_cache := QC_CACHEABLE, allocatorType := d_type a, b_pid := os_getpid os,
        b_name := d_name a @ ''-'' @ to_string (unat (handle_of_fd fd))\<rparr>"
      from p have "p \<noteq> nullptr" "p \<noteq> MAP_FAILED" by auto
      with assms(2) False al rc mm have e: "s = QC_STATUS_OK" "d = ?d" "w' = w2"
        by (simp_all add: DMABUFF_Allocate_def Let_def)
      with l l2 p False show ?thesis by (intro ok [of fd p]) simp_all
    qed
  qed
qed

lemma DMABUFF_Free_releases:
  assumes "dma_os_laws os fds maps" "0 \<le> fd" "fd < 2 ^ 31" "fd \<in> fds w" "(p, n) \<in> maps w"
    and "p \<noteq> nullptr" "n \<noteq> 0" "0 \<le> m_dmaBufDevFdCached a"
    and "pBuf d = p" "b_size d = n" "dmaHandle d = handle_of_fd fd"
  shows "\<exists>w'. DMABUFF_Free os a d w = (QC_STATUS_OK, w') \<and> fds w' = fds w - {fd} \<and>
    maps w' = maps w - {(p, n)}"
proof -
  obtain rc w1 where u: "os_munmap os p n w = (rc, w1)" by fastforce
  note l1 = dma_os_lawsD(6) [OF assms(1,5) u]
  obtain rc2 w2 where f: "dmabufheap_free os fd w1 = (rc2, w2)" by fastforce
  have "fd \<in> fds w1" using l1 assms(4) by simp
  note l2 = dma_os_lawsD(3) [OF assms(1) this f]
  from l1 l2 u f assms show ?thesis
    by (simp add: DMABUFF_Free_def Let_def fd_of_handle_of_fd)
qed

lemma MemoryUnMap_releases:
  assumes "dma_os_laws os fds maps" "0 \<le> fd" "fd < 2 ^ 31" "fd \<in> fds w" "(p, n) \<in> maps w"
    and "p \<noteq> nullptr" "n \<noteq> 0" "pBuf d = p" "b_size d = n" "dmaHandle d = handle_of_fd fd"
  shows "\<exists>w'. DMABUFFUtils_MemoryUnMap os d w = (QC_STATUS_OK, w') \<and> fds w' = fds w - {fd} \<and>
    maps w' = maps w - {(p, n)}"
proof -
  obtain rc w1 where u: "os_munmap os p n w = (rc, w1)" by fastforce
  note l1 = dma_os_lawsD(6) [OF assms(1,5) u]
  obtain rc2 w2 where f: "os_close os fd w1 = (rc2, w2)" by fastforce
  have "fd \<in> fds w1" using l1 assms(4) by simp
  note l2 = dma_os_lawsD(4) [OF assms(1) this f]
  from l1 l2 u f assms show ?thesis
    by (simp add: DMABUFFUtils_MemoryUnMap_def Let_def fd_of_handle_of_fd)
qed

text \<open>A kernel with room for two descriptors, to run the properties on.\<close>

record demo_kernel =
  k_fds :: "int list"
  k_maps :: "(u64 \<times> u64) list"

definition demo_open :: "demo_kernel \<Rightarrow> int \<times> demo_kernel" where
  "demo_open w =
     (if 3 \<notin> set (k_fds w) then (3, w\<lparr>k_fds := 3 # k_fds w\<rparr>)
      else if 4 \<notin> set (k_fds w) then (4, w\<lparr>k_fds := 4 # k_fds w\<rparr>) else (-1, w))"

definition demo_close :: "int \<Rightarrow> demo_kernel \<Rightarrow> int \<times> demo_kernel" where
  "demo_close fd w =
     (if fd \<in> set (k_fds w) then (0, w\<lparr>k_fds := filter (\<lambda>x. x \<noteq> fd) (k_fds w)\<rparr>) else (-1, w))"

definition demo_mmap :: "u64 \<Rightarrow> u64 \<Rightarrow> int \<Rightarrow> demo_kernel \<Rightarrow> u64 \<times> demo_kernel" where
  "demo_mmap base n fd w =
     (if base = nullptr \<or> base = MAP_FAILED \<or> (base, n) \<in> set (k_maps w) then (MAP_FAILED, w)
      else (base, w\<lparr>k_maps := (base, n) # k_maps w\<rparr>))"

definition demo_munmap :: "u64 \<Rightarrow> u64 \<Rightarrow> demo_kernel \<Rightarrow> int \<times> demo_kernel" where
  "demo_munmap p n w = (0, w\<lparr>k_maps := filter (\<lambda>x. x \<noteq> (p, n)) (k_maps w)\<rparr>)"

definition demo_dma_os :: "u64 \<Rightarrow> demo_kernel dma_os" where
  "demo_dma_os base =
     \<lparr>dmabufheap_init = (\<lambda>w. (9, w)), dmabufheap_release = (\<lambda>_ w. w),
      dmabufheap_alloc = (\<lambda>_ _ w. (let (fd, w') = demo_open w in (fd, fd, w'))),
      dmabufheap_free = demo_close, dmabufheap_import = (\<lambda>_ _. demo_open),
      os_mmap = demo_mmap base, os_munmap = demo_munmap, os_close = demo_close, os_getpid = 77\<rparr>"

lemma demo_dma_os_laws: "dma_os_laws (demo_dma_os base) (\<lambda>w. set (k_fds w)) (\<lambda>w. set (k_maps w))"
  unfolding dma_os_laws_def
  by (auto simp: demo_dma_os_def demo_open_def demo_close_def demo_mmap_def demo_munmap_def Let_def
      split: if_splits)

subsection \<open>Properties on the dma-buf platform\<close>

text \<open>C14: a dma-buf allocation is all or nothing, and freeing it undoes it. When it succeeds it has
  opened one file descriptor and mapped one range of the requested size, which its descriptor names,
  and freeing with that descriptor succeeds and closes and unmaps exactly those. When it fails, on
  any branch, no file descriptor and no mapping is left behind.\<close>

theorem dmabuff_allocate_free_roundtrip:
  assumes "dma_os_laws os fds maps" "DMABUFF_Allocate os a req resp w = (s, d, w')"
  shows "if s = QC_STATUS_OK
    then fds w' = insert (fd_of_handle (dmaHandle d)) (fds w) \<and> fd_of_handle (dmaHandle d) \<notin> fds w \<and>
      maps w' = insert (pBuf d, p_size req) (maps w) \<and> (pBuf d, p_size req) \<notin> maps w \<and>
      b_size d = p_size req \<and> allocatorType d = d_type a \<and>
      (\<exists>w2. DMABUFF_Free os a d w' = (QC_STATUS_OK, w2) \<and> fds w2 = fds w \<and> maps w2 = maps w)
    else fds w' = fds w \<and> maps w' = maps w \<and> pBuf d = nullptr"
  using assms
proof (cases rule: DMABUFF_Allocate_cases)
  case (ok fd p)
  have "fd \<in> fds w'" "(p, p_size req) \<in> maps w'" using ok by simp_all
  from DMABUFF_Free_releases [OF assms(1) ok(2,3) this ok(6,14,15,9,11,10)] ok show ?thesis
    by (auto simp: fd_of_handle_of_fd)
qed simp

theorem dmabuff_allocate_free_roundtrip_witness:
  "fst (DMABUFF_Allocate (demo_dma_os 4096) \<lparr>d_name = ''dma'', d_type = 1, m_dmaBufDevFdCached = 9\<rparr>
     \<lparr>p_size = 64, p_alignment = 16, p_cache = QC_CACHEABLE\<rparr> QCBufferDescriptorBase_init
     \<lparr>k_fds = [], k_maps = []\<rparr>) = QC_STATUS_OK \<and>
   (\<exists>d w' w2. DMABUFF_Allocate (demo_dma_os 4096) \<lparr>d_name = ''dma'', d_type = 1, m_dmaBufDevFdCached = 9\<rparr>
     \<lparr>p_size = 64, p_alignment = 16, p_cache = QC_CACHEABLE\<rparr> QCBufferDescriptorBase_init
     \<lparr>k_fds = [], k_maps = []\<rparr> = (QC_STATUS_OK, d, w') \<and>
     DMABUFF_Free (demo_dma_os 4096) \<lparr>d_name = ''dma'', d_type = 1, m_dmaBufDevFdCached = 9\<rparr> d w' =
       (QC_STATUS_OK, w2) \<and> k_fds w2 = [])"
proof -
  let ?a = "\<lparr>d_name = ''dma'', d_type = 1, m_dmaBufDevFdCached = 9\<rparr>"
  let ?req = "\<lparr>p_size = 64, p_alignment = 16, p_cache = QC_CACHEABLE\<rparr>"
  let ?w = "\<lparr>k_fds = [], k_maps = []\<rparr>"
  obtain s d w' where r: "DMABUFF_Allocate (demo_dma_os 4096) ?a ?req QCBufferDescriptorBase_init ?w =
      (s, d, w')" by (metis prod_cases3)
  have ok: "fst (DMABUFF_Allocate (demo_dma_os 4096) ?a ?req QCBufferDescriptorBase_init ?w) =
      QC_STATUS_OK"
    by (simp add: DMABUFF_Allocate_def demo_dma_os_def demo_open_def demo_mmap_def Let_def
        word_less_nat_alt)
  with r have s: "s = QC_STATUS_OK" by simp
  from dmabuff_allocate_free_roundtrip [OF demo_dma_os_laws r] s obtain w2 where
    "DMABUFF_Free (demo_dma_os 4096) ?a d w' = (QC_STATUS_OK, w2)" "set (k_fds w2) = set (k_fds ?w)"
    by auto
  with ok r s show ?thesis by fastforce
qed

text \<open>mapping another process's buffer and unmapping it undoes it. Importing and mapping opens
  one new file descriptor and maps one range of the size of the original, leaving the original's
  descriptor open; unmapping the result succeeds and closes and unmaps exactly those.\<close>

theorem dmabuff_map_unmap_roundtrip:
  assumes "dma_os_laws os fds maps" "b_pid orig \<noteq> 0"
    and "DMABUFFUtils_MemoryMap os orig w = (QC_STATUS_OK, d, w')"
  shows "b_size d = b_size orig \<and> fd_of_handle (dmaHandle d) \<notin> fds w \<and>
    fds w' = insert (fd_of_handle (dmaHandle d)) (fds w) \<and>
    maps w' = insert (pBuf d, b_size orig) (maps w) \<and>
    (\<exists>w2. DMABUFFUtils_MemoryUnMap os d w' = (QC_STATUS_OK, w2) \<and> fds w2 = fds w \<and> maps w2 = maps w)"
proof -
  obtain fd w1 where im: "dmabufheap_import os (b_pid orig) (fd_of_handle (dmaHandle orig)) w = (fd, w1)"
    by fastforce
  note l1 = dma_os_lawsD(2) [OF assms(1) im]
  from assms(2,3) im have fd: "0 \<le> fd" and n: "b_size orig \<noteq> 0"
    by (auto simp: DMABUFFUtils_MemoryMap_def Let_def split: if_splits)
  with l1 have l: "maps w1 = maps w" "fd < 2 ^ 31" "fd \<notin> fds w" "fds w1 = insert fd (fds w)"
    by simp_all
  then have in1: "fd \<in> fds w1" by simp
  obtain p w2 where mm: "os_mmap os (b_size orig) fd w1 = (p, w2)" by fastforce
  note l2 = dma_os_lawsD(5) [OF assms(1) in1 mm]
  from assms(2,3) im fd n mm l(2) have p: "p \<noteq> nullptr" "p \<noteq> MAP_FAILED"
    and d: "d = orig\<lparr>pBuf := p, b_size := b_size orig, dmaHandle := handle_of_fd fd\<rparr>" "w' = w2"
    by (auto simp: DMABUFFUtils_MemoryMap_def Let_def fd_of_handle_of_fd split: if_splits)
  have "fd \<in> fds w'" "(p, b_size orig) \<in> maps w'" using l2 p in1 d(2) by simp_all
  from MemoryUnMap_releases [OF assms(1) fd l(2) this p(1) n, of d] l l2 p d fd show ?thesis
    by (auto simp: fd_of_handle_of_fd)
qed

theorem dmabuff_map_unmap_roundtrip_witness:
  "\<exists>d w' w2. DMABUFFUtils_MemoryMap (demo_dma_os 4096)
       (QCBufferDescriptorBase_init\<lparr>b_pid := 5, b_size := 64, dmaHandle := 3\<rparr>)
       \<lparr>k_fds = [3], k_maps = []\<rparr> = (QC_STATUS_OK, d, w') \<and> k_fds w' = [4, 3] \<and>
     DMABUFFUtils_MemoryUnMap (demo_dma_os 4096) d w' = (QC_STATUS_OK, w2) \<and> 3 \<in> set (k_fds w2)"
proof -
  let ?o = "QCBufferDescriptorBase_init\<lparr>b_pid := 5, b_size := 64, dmaHandle := 3\<rparr>"
  let ?w = "\<lparr>k_fds = [3], k_maps = []\<rparr>"
  obtain s d w' where r: "DMABUFFUtils_MemoryMap (demo_dma_os 4096) ?o ?w = (s, d, w')"
    by (metis prod_cases3)
  then have s: "s = QC_STATUS_OK" "k_fds w' = [4, 3]"
    by (auto simp: DMABUFFUtils_MemoryMap_def demo_dma_os_def demo_open_def demo_mmap_def Let_def)
  from dmabuff_map_unmap_roundtrip [OF demo_dma_os_laws _ r [unfolded s(1)]] obtain w2 where
    "DMABUFFUtils_MemoryUnMap (demo_dma_os 4096) d w' = (QC_STATUS_OK, w2)"
    "set (k_fds w2) = set (k_fds ?w)" by auto
  with r s show ?thesis by auto
qed

text \<open>A mapping that fails after the import leaks the file descriptor. \<open>MemoryMap\<close> does not close
  the descriptor it has imported when \<open>mmap\<close> fails, and the result cannot be given to \<open>MemoryUnMap\<close>,
  which refuses a null buffer before it would close anything.\<close>

theorem dmabuff_map_failure_leaks_fd:
  assumes "dma_os_laws os fds maps" "b_pid orig \<noteq> 0" "b_size orig \<noteq> 0"
    and "dmabufheap_import os (b_pid orig) (fd_of_handle (dmaHandle orig)) w = (fd, w1)" "0 \<le> fd"
    and "os_mmap os (b_size orig) fd w1 = (MAP_FAILED, w2)"
  shows "\<exists>d. DMABUFFUtils_MemoryMap os orig w = (QC_STATUS_FAIL, d, w2) \<and>
    fd \<notin> fds w \<and> fds w2 = insert fd (fds w) \<and>
    DMABUFFUtils_MemoryUnMap os d w2 = (QC_STATUS_BAD_ARGUMENTS, w2)"
proof -
  from dma_os_lawsD(2) [OF assms(1,4)] assms(5) have l: "fd < 2 ^ 31" "fd \<notin> fds w"
    "fds w1 = insert fd (fds w)" by simp_all
  then have "fd \<in> fds w1" by simp
  from dma_os_lawsD(5) [OF assms(1) this assms(6)] l have "fds w2 = insert fd (fds w)" by simp
  with assms(2-6) l show ?thesis
    by (simp add: DMABUFFUtils_MemoryMap_def DMABUFFUtils_MemoryUnMap_def fd_of_handle_of_fd Let_def)
qed

theorem dmabuff_map_failure_leaks_fd_witness:
  "\<exists>d. DMABUFFUtils_MemoryMap (demo_dma_os nullptr)
       (QCBufferDescriptorBase_init\<lparr>b_pid := 5, b_size := 64, dmaHandle := 3\<rparr>)
       \<lparr>k_fds = [3], k_maps = []\<rparr> = (QC_STATUS_FAIL, d, \<lparr>k_fds = [4, 3], k_maps = []\<rparr>)"
proof -
  let ?o = "QCBufferDescriptorBase_init\<lparr>b_pid := 5, b_size := 64, dmaHandle := 3\<rparr>"
  have "dmabufheap_import (demo_dma_os nullptr) (b_pid ?o) (fd_of_handle (dmaHandle ?o))
      \<lparr>k_fds = [3], k_maps = []\<rparr> = (4, \<lparr>k_fds = [4, 3], k_maps = []\<rparr>)"
    "os_mmap (demo_dma_os nullptr) (b_size ?o) 4 \<lparr>k_fds = [4, 3], k_maps = []\<rparr> =
      (MAP_FAILED, \<lparr>k_fds = [4, 3], k_maps = []\<rparr>)"
    by (simp_all add: demo_dma_os_def demo_open_def demo_mmap_def)
  from dmabuff_map_failure_leaks_fd [OF demo_dma_os_laws _ _ this(1) _ this(2)] show ?thesis by auto
qed

end
