(* ===== verification/QC_Pmem.thy ===== *)
theory QC_Pmem
  imports QC_Dma
begin

text \<open>
  The QNX platform: \<^verbatim>\<open>source/Infras/Memory/PMEMAllocator.cpp\<close> and \<^verbatim>\<open>PMEMUtils.cpp\<close> over the pmem
  driver library, whose functions and constants are the fields of \<open>pmem_os\<close>. The driver takes sizes
  and alignments as 32-bit numbers, and the code casts to them.
\<close>

unbundle bit_operations_syntax

record 'w pmem_os =
  pmem_init :: "'w \<Rightarrow> 'w"
  pmem_deinit :: "'w \<Rightarrow> 'w"
  pmem_malloc_ext_v2 :: "u32 \<Rightarrow> u32 \<Rightarrow> u32 \<Rightarrow> u32 \<Rightarrow> 'w \<Rightarrow> u64 \<times> u64 \<times> 'w"
  pmem_free :: "u64 \<Rightarrow> 'w \<Rightarrow> int \<times> 'w"
  pmem_map_handle_v2 :: "u64 \<Rightarrow> u32 \<Rightarrow> u32 \<Rightarrow> 'w \<Rightarrow> u64 \<times> u32 \<times> 'w"
  pmem_unmap_handle :: "u64 \<Rightarrow> u64 \<Rightarrow> 'w \<Rightarrow> int \<times> 'w"
  pmem_getpid :: int
  PMEM_FLAGS_CACHE_NONE :: u32
  PMEM_FLAGS_PHYS_NON_CONTIG :: u32
  PMEM_FLAGS_SHMEM :: u32
  PMEM_FLAGS_CACHE_WB_WA :: u32
  PMEM_DMA_ID :: u32
  PMEM_CAMERA_ID :: u32
  PMEM_GRAPHICS_FRAMEBUFFER_ID :: u32
  PMEM_VIDEO_ID :: u32
  PMEM_EVA_ID :: u32
  PMEM_DSP_ID :: u32

record PMEMAllocator =
  m_name :: string
  m_type :: QCMemoryAllocator_e

definition PMEMAllocator_new ::
  "'w pmem_os \<Rightarrow> string \<Rightarrow> QCMemoryAllocator_e \<Rightarrow> 'w \<Rightarrow> PMEMAllocator \<times> 'w" where
  "PMEMAllocator_new os name allocator w = (\<lparr>m_name = name, m_type = allocator\<rparr>, pmem_init os w)"

definition PMEMAllocator_destroy :: "'w pmem_os \<Rightarrow> 'w \<Rightarrow> 'w" where
  "PMEMAllocator_destroy os w = pmem_deinit os w"

definition AllocaotrorToPMEM_ID :: "'w pmem_os \<Rightarrow> QCMemoryAllocator_e \<Rightarrow> QCStatus_e \<times> u32 option" where
  "AllocaotrorToPMEM_ID os ty =
     (if ty = QC_MEMORY_ALLOCATOR_DMA then (QC_STATUS_OK, Some (PMEM_DMA_ID os))
      else if ty = QC_MEMORY_ALLOCATOR_DMA_CAMERA
        then (QC_STATUS_OK, Some (PMEM_CAMERA_ID os))
      else if ty = QC_MEMORY_ALLOCATOR_DMA_GPU
        then (QC_STATUS_OK, Some (PMEM_GRAPHICS_FRAMEBUFFER_ID os))
      else if ty = QC_MEMORY_ALLOCATOR_DMA_VPU
        then (QC_STATUS_OK, Some (PMEM_VIDEO_ID os))
      else if ty = QC_MEMORY_ALLOCATOR_DMA_EVA
        then (QC_STATUS_OK, Some (PMEM_EVA_ID os))
      else if ty = QC_MEMORY_ALLOCATOR_DMA_HTP
        then (QC_STATUS_OK, Some (PMEM_DSP_ID os))
      else (QC_STATUS_BAD_ARGUMENTS, None))"

definition pmem_base_flags :: "'w pmem_os \<Rightarrow> u32" where
  "pmem_base_flags os =
     PMEM_FLAGS_CACHE_NONE os OR PMEM_FLAGS_PHYS_NON_CONTIG os OR PMEM_FLAGS_SHMEM os"

text \<open>The two ways the code derives the cache flags: the allocator from any cacheable request, the
  mapping utility from the three cacheable values only.\<close>

definition pmem_alloc_flags :: "'w pmem_os \<Rightarrow> QCAllocationCache_e \<Rightarrow> u32" where
  "pmem_alloc_flags os c =
     (if c \<noteq> QC_CACHEABLE_NON then pmem_base_flags os OR PMEM_FLAGS_CACHE_WB_WA os
      else pmem_base_flags os)"

definition pmem_map_flags :: "'w pmem_os \<Rightarrow> QCAllocationCache_e \<Rightarrow> u32" where
  "pmem_map_flags os c =
     (if c = QC_CACHEABLE \<or> c = QC_CACHEABLE_WRITE_THROUGH \<or> c = QC_CACHEABLE_WRITE_BACK
      then pmem_base_flags os OR PMEM_FLAGS_CACHE_WB_WA os else pmem_base_flags os)"

definition PMEM_Allocate ::
  "'w pmem_os \<Rightarrow> PMEMAllocator \<Rightarrow> QCBufferPropBase \<Rightarrow> QCBufferDescriptorBase \<Rightarrow> 'w \<Rightarrow>
     QCStatus_e \<times> QCBufferDescriptorBase \<times> 'w" where
  "PMEM_Allocate os a request response w =
     (let pmemFlags = pmem_alloc_flags os (p_cache request)
      in if p_size request = 0 then (QC_STATUS_BAD_ARGUMENTS, response, w)
         else case AllocaotrorToPMEM_ID os (m_type a) of
           (idStatus, pid) \<Rightarrow>
             if idStatus \<noteq> QC_STATUS_OK then (QC_STATUS_BAD_ARGUMENTS, response, w)
             else
               let pmemId = (case pid of Some i \<Rightarrow> i | None \<Rightarrow> 0);
                   (pBuf', pmemHandle, w') =
                     pmem_malloc_ext_v2 os (ucast (p_size request)) pmemId pmemFlags
                       (ucast (p_alignment request)) w;
                   response1 = response\<lparr>pBuf := pBuf'\<rparr>
               in if pBuf' = nullptr then (QC_STATUS_NOMEM, response1, w')
                  else (QC_STATUS_OK,
                        response1\<lparr>dmaHandle := pmemHandle, b_size := p_size request,
                          allocatorType := m_type a, b_alignment := p_alignment request,
                          b_cache := p_cache request, b_pid := pmem_getpid os,
                          b_name := m_name a @ ''-'' @ to_string (unat pmemHandle)\<rparr>, w'))"

definition PMEM_Free ::
  "'w pmem_os \<Rightarrow> PMEMAllocator \<Rightarrow> QCBufferDescriptorBase \<Rightarrow> 'w \<Rightarrow> QCStatus_e \<times> 'w" where
  "PMEM_Free os a buff w =
     (if pBuf buff = nullptr then (QC_STATUS_NULL_PTR, w)
      else if dmaHandle buff = 0 then (QC_STATUS_BAD_ARGUMENTS, w)
      else if b_size buff = 0 then (QC_STATUS_BAD_ARGUMENTS, w)
      else if allocatorType buff \<noteq> m_type a then (QC_STATUS_BAD_ARGUMENTS, w)
      else
        let (rc, w') = pmem_free os (pBuf buff) w
        in (if rc \<noteq> 0 then QC_STATUS_FAIL else QC_STATUS_OK, w'))"

definition PMEMUtils_pmemID :: "QCMemoryAllocator_e \<Rightarrow> QCStatus_e \<times> u32 option" where
  "PMEMUtils_pmemID ty =
     (if ty < QC_MEMORY_ALLOCATOR_LAST \<and> QC_MEMORY_ALLOCATOR_DMA \<le> ty
      then (QC_STATUS_OK, Some (of_nat (ty - QC_MEMORY_ALLOCATOR_DMA)))
      else (QC_STATUS_BAD_ARGUMENTS, None))"

definition PMEMUtils_MemoryMap ::
  "'w pmem_os \<Rightarrow> QCBufferDescriptorBase \<Rightarrow> 'w \<Rightarrow> QCStatus_e \<times> QCBufferDescriptorBase \<times> 'w" where
  "PMEMUtils_MemoryMap os orig w =
     (let mapped = orig\<lparr>pBuf := nullptr, b_size := 0\<rparr>
      in if dmaHandle orig = 0 \<or> b_size orig = 0 then (QC_STATUS_BAD_ARGUMENTS, mapped, w)
         else
           let pmemFlags = pmem_map_flags os (b_cache orig)
           in case PMEMUtils_pmemID (allocatorType orig) of
                (_, None) \<Rightarrow> (QC_STATUS_BAD_ARGUMENTS, mapped, w)
              | (_, Some pmemID) \<Rightarrow>
                  let (pAddr, pemeSize, w1) =
                        pmem_map_handle_v2 os (dmaHandle orig) pmemFlags pmemID w
                  in if pAddr = nullptr then (QC_STATUS_FAIL, mapped, w1)
                     else if (ucast pemeSize :: u64) < b_size orig
                       then (QC_STATUS_FAIL, mapped,
                             snd (pmem_unmap_handle os (dmaHandle orig) pAddr w1))
                     else (QC_STATUS_OK,
                           mapped\<lparr>pBuf := pAddr, b_size := ucast pemeSize,
                                  dmaHandle := dmaHandle orig\<rparr>, w1))"

definition PMEMUtils_MemoryUnMap ::
  "'w pmem_os \<Rightarrow> QCBufferDescriptorBase \<Rightarrow> 'w \<Rightarrow> QCStatus_e \<times> 'w" where
  "PMEMUtils_MemoryUnMap os buff w =
     (if pBuf buff = nullptr then (QC_STATUS_BAD_ARGUMENTS, w)
      else if dmaHandle buff = 0 then (QC_STATUS_BAD_ARGUMENTS, w)
      else
        let (rc, w') = pmem_unmap_handle os (dmaHandle buff) (pBuf buff) w
        in (if rc \<noteq> 0 then QC_STATUS_FAIL else QC_STATUS_OK, w'))"

text \<open>
  What the code relies on: \<open>pblocks\<close> are the blocks the driver has handed out with the sizes it was
  asked for, \<open>pmaps\<close> the mapped handles. A successful call hands out a fresh block under a non-null
  handle, or a fresh mapping; releasing one succeeds and removes it; a null result changes nothing.
\<close>

definition pmem_os_laws ::
  "'w pmem_os \<Rightarrow> ('w \<Rightarrow> (u64 \<times> u32) set) \<Rightarrow> ('w \<Rightarrow> (u64 \<times> u64) set) \<Rightarrow> bool" where
  "pmem_os_laws os pblocks pmaps \<longleftrightarrow>
     (\<forall>n pid fl al w p h w'. pmem_malloc_ext_v2 os n pid fl al w = (p, h, w') \<longrightarrow>
        pmaps w' = pmaps w \<and>
        (if p = nullptr then pblocks w' = pblocks w
         else h \<noteq> 0 \<and> p \<notin> fst ` pblocks w \<and> pblocks w' = insert (p, n) (pblocks w))) \<and>
     (\<forall>p w rc w'. p \<in> fst ` pblocks w \<longrightarrow> pmem_free os p w = (rc, w') \<longrightarrow>
        rc = 0 \<and> pmaps w' = pmaps w \<and> pblocks w' = {b \<in> pblocks w. fst b \<noteq> p}) \<and>
     (\<forall>h fl pid w p n w'. pmem_map_handle_v2 os h fl pid w = (p, n, w') \<longrightarrow>
        pblocks w' = pblocks w \<and>
        (if p = nullptr then pmaps w' = pmaps w
         else (h, p) \<notin> pmaps w \<and> pmaps w' = insert (h, p) (pmaps w))) \<and>
     (\<forall>h p w rc w'. (h, p) \<in> pmaps w \<longrightarrow> pmem_unmap_handle os h p w = (rc, w') \<longrightarrow>
        rc = 0 \<and> pblocks w' = pblocks w \<and> pmaps w' = pmaps w - {(h, p)})"

lemma pmem_os_lawsD:
  assumes "pmem_os_laws os pblocks pmaps"
  shows "pmem_malloc_ext_v2 os n pid fl al w = (p, h, w') \<Longrightarrow> pmaps w' = pmaps w \<and>
      (if p = nullptr then pblocks w' = pblocks w
       else h \<noteq> 0 \<and> p \<notin> fst ` pblocks w \<and> pblocks w' = insert (p, n) (pblocks w))"
    "p \<in> fst ` pblocks w \<Longrightarrow> pmem_free os p w = (rc, w') \<Longrightarrow>
      rc = 0 \<and> pmaps w' = pmaps w \<and> pblocks w' = {b \<in> pblocks w. fst b \<noteq> p}"
    "pmem_map_handle_v2 os h fl pid w = (p, n, w') \<Longrightarrow> pblocks w' = pblocks w \<and>
      (if p = nullptr then pmaps w' = pmaps w
       else (h, p) \<notin> pmaps w \<and> pmaps w' = insert (h, p) (pmaps w))"
    "(h, p) \<in> pmaps w \<Longrightarrow> pmem_unmap_handle os h p w = (rc, w') \<Longrightarrow>
      rc = 0 \<and> pblocks w' = pblocks w \<and> pmaps w' = pmaps w - {(h, p)}"
proof -
  note l = assms [unfolded pmem_os_laws_def]
  note l1 = l [THEN conjunct1] and l2 = l [THEN conjunct2, THEN conjunct1]
    and l3 = l [THEN conjunct2, THEN conjunct2, THEN conjunct1]
    and l4 = l [THEN conjunct2, THEN conjunct2, THEN conjunct2]
  show "pmem_malloc_ext_v2 os n pid fl al w = (p, h, w') \<Longrightarrow> pmaps w' = pmaps w \<and>
      (if p = nullptr then pblocks w' = pblocks w
       else h \<noteq> 0 \<and> p \<notin> fst ` pblocks w \<and> pblocks w' = insert (p, n) (pblocks w))"
    by (rule l1 [rule_format])
  show "p \<in> fst ` pblocks w \<Longrightarrow> pmem_free os p w = (rc, w') \<Longrightarrow>
      rc = 0 \<and> pmaps w' = pmaps w \<and> pblocks w' = {b \<in> pblocks w. fst b \<noteq> p}"
    by (rule l2 [rule_format])
  show "pmem_map_handle_v2 os h fl pid w = (p, n, w') \<Longrightarrow> pblocks w' = pblocks w \<and>
      (if p = nullptr then pmaps w' = pmaps w
       else (h, p) \<notin> pmaps w \<and> pmaps w' = insert (h, p) (pmaps w))"
    by (rule l3 [rule_format])
  show "(h, p) \<in> pmaps w \<Longrightarrow> pmem_unmap_handle os h p w = (rc, w') \<Longrightarrow>
      rc = 0 \<and> pblocks w' = pblocks w \<and> pmaps w' = pmaps w - {(h, p)}"
    by (rule l4 [rule_format])
qed

lemma PMEM_Allocate_refused:
  "p_size req = 0 \<Longrightarrow> PMEM_Allocate os a req resp w = (QC_STATUS_BAD_ARGUMENTS, resp, w)"
  "fst (AllocaotrorToPMEM_ID os (m_type a)) \<noteq> QC_STATUS_OK \<Longrightarrow>
     PMEM_Allocate os a req resp w = (QC_STATUS_BAD_ARGUMENTS, resp, w)"
  by (simp_all add: PMEM_Allocate_def split_beta)

lemma PMEM_Allocate_eq:
  assumes "p_size req \<noteq> 0" "AllocaotrorToPMEM_ID os (m_type a) = (QC_STATUS_OK, Some pid)"
    and "pmem_malloc_ext_v2 os (ucast (p_size req)) pid (pmem_alloc_flags os (p_cache req))
          (ucast (p_alignment req)) w = (p, h, w1)"
  shows "PMEM_Allocate os a req resp w =
    (if p = nullptr then (QC_STATUS_NOMEM, resp\<lparr>pBuf := p\<rparr>, w1)
     else (QC_STATUS_OK, resp\<lparr>pBuf := p, dmaHandle := h, b_size := p_size req,
             allocatorType := m_type a, b_alignment := p_alignment req, b_cache := p_cache req,
             b_pid := pmem_getpid os, b_name := m_name a @ ''-'' @ to_string (unat h)\<rparr>, w1))"
  using assms by (simp add: PMEM_Allocate_def)

lemma AllocaotrorToPMEM_ID_cases:
  obtains pid where "AllocaotrorToPMEM_ID os ty = (QC_STATUS_OK, Some pid)"
  | "AllocaotrorToPMEM_ID os ty = (QC_STATUS_BAD_ARGUMENTS, None)"
proof -
  have "(\<exists>pid. AllocaotrorToPMEM_ID os ty = (QC_STATUS_OK, Some pid)) \<or>
      AllocaotrorToPMEM_ID os ty = (QC_STATUS_BAD_ARGUMENTS, None)"
    by (simp add: AllocaotrorToPMEM_ID_def)
  then show ?thesis using that by blast
qed

text \<open>An allocation is refused before the driver is asked, or it returns what the driver did.\<close>

lemma PMEM_Allocate_cases:
  assumes "PMEM_Allocate os a req resp w = (s, d, w')"
  obtains "s = QC_STATUS_BAD_ARGUMENTS" "w' = w"
  | (asked) pid p h where "p_size req \<noteq> 0"
    "pmem_malloc_ext_v2 os (ucast (p_size req)) pid (pmem_alloc_flags os (p_cache req))
       (ucast (p_alignment req)) w = (p, h, w')"
    "s = (if p = nullptr then QC_STATUS_NOMEM else QC_STATUS_OK)" "pBuf d = p"
    "p \<noteq> nullptr \<Longrightarrow> dmaHandle d = h \<and> b_size d = p_size req \<and> allocatorType d = m_type a \<and>
       b_alignment d = p_alignment req"
proof (cases "p_size req = 0 \<or> fst (AllocaotrorToPMEM_ID os (m_type a)) \<noteq> QC_STATUS_OK")
  case True
  with assms that(1) show ?thesis by (auto simp: PMEM_Allocate_refused)
next
  case False
  then obtain pid where ids: "AllocaotrorToPMEM_ID os (m_type a) = (QC_STATUS_OK, Some pid)"
    by (cases rule: AllocaotrorToPMEM_ID_cases [of os "m_type a"]) auto
  obtain p h w1 where m: "pmem_malloc_ext_v2 os (ucast (p_size req)) pid
      (pmem_alloc_flags os (p_cache req)) (ucast (p_alignment req)) w = (p, h, w1)"
    by (metis prod_cases3)
  have eq: "PMEM_Allocate os a req resp w = (s, d, w')" by (rule assms)
  have n: "p_size req \<noteq> 0" using False by simp
  note e = assms [unfolded PMEM_Allocate_eq [OF n ids m]]
  from e have w: "w1 = w'" by (simp split: if_splits)
  show ?thesis
    by (rule that(2) [OF n m [unfolded w]]) (use e in \<open>auto split: if_splits\<close>)
qed

lemma PMEM_Allocate_OK:
  assumes "PMEM_Allocate os a req resp w = (QC_STATUS_OK, d, w')"
  obtains pid p h where "p_size req \<noteq> 0" "p \<noteq> nullptr"
    "pmem_malloc_ext_v2 os (ucast (p_size req)) pid (pmem_alloc_flags os (p_cache req))
       (ucast (p_alignment req)) w = (p, h, w')"
    "pBuf d = p" "dmaHandle d = h" "b_size d = p_size req" "allocatorType d = m_type a"
    "b_alignment d = p_alignment req"
  using assms by (cases rule: PMEM_Allocate_cases) (auto split: if_splits)

text \<open>A driver with one address to hand out and one to map at, to run the properties on.\<close>

record demo_driver =
  v_blocks :: "(u64 \<times> u32) list"
  v_maps :: "(u64 \<times> u64) list"

definition demo_pmem_os :: "demo_driver pmem_os" where
  "demo_pmem_os =
     \<lparr>pmem_init = (\<lambda>w. w), pmem_deinit = (\<lambda>w. w),
      pmem_malloc_ext_v2 = (\<lambda>n _ _ _ w.
        if 4096 \<in> fst ` set (v_blocks w) then (nullptr, 0, w)
        else (4096, 7, w\<lparr>v_blocks := (4096, n) # v_blocks w\<rparr>)),
      pmem_free = (\<lambda>p w. (0, w\<lparr>v_blocks := filter (\<lambda>b. fst b \<noteq> p) (v_blocks w)\<rparr>)),
      pmem_map_handle_v2 = (\<lambda>h _ _ w.
        if (h, 8192) \<in> set (v_maps w) then (nullptr, 0, w)
        else (8192, 64, w\<lparr>v_maps := (h, 8192) # v_maps w\<rparr>)),
      pmem_unmap_handle = (\<lambda>h p w. (0, w\<lparr>v_maps := filter (\<lambda>x. x \<noteq> (h, p)) (v_maps w)\<rparr>)),
      pmem_getpid = 77, PMEM_FLAGS_CACHE_NONE = 0, PMEM_FLAGS_PHYS_NON_CONTIG = 0,
      PMEM_FLAGS_SHMEM = 0, PMEM_FLAGS_CACHE_WB_WA = 0, PMEM_DMA_ID = 0, PMEM_CAMERA_ID = 1,
      PMEM_GRAPHICS_FRAMEBUFFER_ID = 2, PMEM_VIDEO_ID = 3, PMEM_EVA_ID = 4, PMEM_DSP_ID = 5\<rparr>"

lemma demo_pmem_os_laws: "pmem_os_laws demo_pmem_os (\<lambda>w. set (v_blocks w)) (\<lambda>w. set (v_maps w))"
  unfolding pmem_os_laws_def
  by (auto simp: demo_pmem_os_def split: if_splits)

subsection \<open>Properties on the pmem platform\<close>

text \<open>a pmem allocation is all or nothing, and freeing it undoes it. When it succeeds the driver
  has handed out one block, which freeing with the returned descriptor releases; when it fails no
  block is left behind.\<close>

theorem pmem_allocate_free_roundtrip:
  assumes "pmem_os_laws os pblocks pmaps" "PMEM_Allocate os a req resp w = (s, d, w')"
  shows "if s = QC_STATUS_OK
    then pblocks w' = insert (pBuf d, ucast (p_size req)) (pblocks w) \<and>
      pBuf d \<notin> fst ` pblocks w \<and> pmaps w' = pmaps w \<and>
      (\<exists>w2. PMEM_Free os a d w' = (QC_STATUS_OK, w2) \<and> pblocks w2 = pblocks w \<and> pmaps w2 = pmaps w)
    else pblocks w' = pblocks w \<and> pmaps w' = pmaps w"
  using assms(2)
proof (cases rule: PMEM_Allocate_cases)
  case 1
  then show ?thesis by simp
next
  case (asked pid p h)
  note l = pmem_os_lawsD(1) [OF assms(1) asked(2)]
  show ?thesis
  proof (cases "p = nullptr")
    case True
    with l asked show ?thesis by simp
  next
    case False
    obtain rc w2 where f: "pmem_free os p w' = (rc, w2)" by fastforce
    have "p \<in> fst ` pblocks w'" using l False by simp
    note l2 = pmem_os_lawsD(2) [OF assms(1) this f]
    have "{b \<in> pblocks w'. fst b \<noteq> p} = pblocks w" using l False by force
    with asked False l l2 f show ?thesis by (simp add: PMEM_Free_def)
  qed
qed

theorem pmem_allocate_free_roundtrip_witness:
  "\<exists>d w' w2. PMEM_Allocate demo_pmem_os \<lparr>m_name = ''pmem'', m_type = QC_MEMORY_ALLOCATOR_DMA\<rparr>
       \<lparr>p_size = 64, p_alignment = 16, p_cache = QC_CACHEABLE\<rparr> QCBufferDescriptorBase_init
       \<lparr>v_blocks = [], v_maps = []\<rparr> = (QC_STATUS_OK, d, w') \<and> v_blocks w' = [(4096, 64)] \<and>
     PMEM_Free demo_pmem_os \<lparr>m_name = ''pmem'', m_type = QC_MEMORY_ALLOCATOR_DMA\<rparr> d w' =
       (QC_STATUS_OK, w2) \<and> v_blocks w2 = []"
proof -
  let ?a = "\<lparr>m_name = ''pmem'', m_type = QC_MEMORY_ALLOCATOR_DMA\<rparr>"
  let ?req = "\<lparr>p_size = 64, p_alignment = 16, p_cache = QC_CACHEABLE\<rparr>"
  let ?w = "\<lparr>v_blocks = [], v_maps = []\<rparr>"
  obtain s d w' where r: "PMEM_Allocate demo_pmem_os ?a ?req QCBufferDescriptorBase_init ?w = (s, d, w')"
    by (metis prod_cases3)
  then have s: "s = QC_STATUS_OK" "v_blocks w' = [(4096, 64)]"
    by (auto simp: PMEM_Allocate_def demo_pmem_os_def AllocaotrorToPMEM_ID_def Let_def)
  from pmem_allocate_free_roundtrip [OF demo_pmem_os_laws r] s obtain w2 where
    "PMEM_Free demo_pmem_os ?a d w' = (QC_STATUS_OK, w2)" "v_blocks w2 = []" by auto
  with r s show ?thesis by blast
qed

text \<open>A request of 4 GiB or more is truncated. The allocator casts the size to the driver's 32
  bits, so an allocation that succeeds is only as large as the size modulo \<open>2 ^ 32\<close>, while the
  descriptor it returns claims the size that was asked for.\<close>

theorem pmem_size_truncated:
  assumes "pmem_os_laws os pblocks pmaps" "2 ^ 32 \<le> unat (p_size req)"
    and "PMEM_Allocate os a req resp w = (QC_STATUS_OK, d, w')"
  shows "\<exists>n. pblocks w' = insert (pBuf d, n) (pblocks w) \<and> pBuf d \<notin> fst ` pblocks w \<and>
    unat n = unat (p_size req) mod 2 ^ 32 \<and> unat n < unat (b_size d)"
  using assms(3)
proof (cases rule: PMEM_Allocate_OK)
  case (1 pid p h)
  note l = pmem_os_lawsD(1) [OF assms(1) 1(3)]
  have n: "unat (ucast (p_size req) :: u32) = unat (p_size req) mod 2 ^ 32"
    by (simp add: unsigned_ucast_eq take_bit_eq_mod)
  then have "unat (ucast (p_size req) :: u32) < 2 ^ 32" by simp
  with l 1 n assms(2) show ?thesis by auto
qed

theorem pmem_size_truncated_witness:
  "\<exists>d w'. PMEM_Allocate demo_pmem_os \<lparr>m_name = ''pmem'', m_type = QC_MEMORY_ALLOCATOR_DMA\<rparr>
       \<lparr>p_size = 0x100000040, p_alignment = 16, p_cache = QC_CACHEABLE\<rparr> QCBufferDescriptorBase_init
       \<lparr>v_blocks = [], v_maps = []\<rparr> = (QC_STATUS_OK, d, w') \<and> b_size d = 0x100000040 \<and>
     (\<exists>n. (pBuf d, n) \<in> set (v_blocks w') \<and> unat n = 64)"
proof -
  let ?a = "\<lparr>m_name = ''pmem'', m_type = QC_MEMORY_ALLOCATOR_DMA\<rparr>"
  let ?req = "\<lparr>p_size = 0x100000040, p_alignment = 16, p_cache = QC_CACHEABLE\<rparr>"
  let ?w = "\<lparr>v_blocks = [], v_maps = []\<rparr>"
  obtain s d w' where r: "PMEM_Allocate demo_pmem_os ?a ?req QCBufferDescriptorBase_init ?w = (s, d, w')"
    by (metis prod_cases3)
  then have s: "s = QC_STATUS_OK" "b_size d = 0x100000040"
    by (auto simp: PMEM_Allocate_def demo_pmem_os_def AllocaotrorToPMEM_ID_def Let_def)
  have "2 ^ 32 \<le> unat (p_size ?req)" by simp
  from pmem_size_truncated [OF demo_pmem_os_laws this r [unfolded s(1)]] obtain n where
    "set (v_blocks w') = insert (pBuf d, n) (set (v_blocks ?w))"
    "unat n = unat (p_size ?req) mod 2 ^ 32" by blast
  then have "(pBuf d, n) \<in> set (v_blocks w')" "unat n = 64" by simp_all
  with r s show ?thesis by blast
qed

text \<open>Mapping a pmem handle. A mapping that succeeds covers at least the size of the original and
  unmapping it restores the mappings; one that fails, because the driver refuses or the mapped size
  is too small, leaves none behind.\<close>

theorem pmem_map_unmap:
  assumes "pmem_os_laws os pblocks pmaps" "PMEMUtils_MemoryMap os orig w = (s, d, w')"
  shows "if s = QC_STATUS_OK
    then b_size orig \<le> b_size d \<and> pmaps w' = insert (dmaHandle orig, pBuf d) (pmaps w) \<and>
      (\<exists>w2. PMEMUtils_MemoryUnMap os d w' = (QC_STATUS_OK, w2) \<and> pmaps w2 = pmaps w)
    else pmaps w' = pmaps w"
proof (cases "dmaHandle orig = 0 \<or> b_size orig = 0 \<or>
    snd (PMEMUtils_pmemID (allocatorType orig)) = None")
  case True
  with assms(2) have "s \<noteq> QC_STATUS_OK \<and> w' = w"
    by (auto simp: PMEMUtils_MemoryMap_def PMEMUtils_pmemID_def Let_def split: if_splits)
  then show ?thesis by simp
next
  case False
  then obtain pid where pid: "PMEMUtils_pmemID (allocatorType orig) = (QC_STATUS_OK, Some pid)"
    by (auto simp: PMEMUtils_pmemID_def split: if_splits)
  let ?fl = "pmem_map_flags os (b_cache orig)"
  let ?mapped = "orig\<lparr>pBuf := nullptr, b_size := 0\<rparr>"
  obtain p n w1 where m: "pmem_map_handle_v2 os (dmaHandle orig) ?fl pid w = (p, n, w1)"
    by (metis prod_cases3)
  note l = pmem_os_lawsD(3) [OF assms(1) m]
  obtain rc w2 where u: "pmem_unmap_handle os (dmaHandle orig) p w1 = (rc, w2)" by fastforce
  have eq: "PMEMUtils_MemoryMap os orig w =
      (if p = nullptr then (QC_STATUS_FAIL, ?mapped, w1)
       else if (ucast n :: u64) < b_size orig then (QC_STATUS_FAIL, ?mapped, w2)
       else (QC_STATUS_OK, ?mapped\<lparr>pBuf := p, b_size := ucast n, dmaHandle := dmaHandle orig\<rparr>, w1))"
    using False pid m u unfolding PMEMUtils_MemoryMap_def by (simp only: Let_def split_def) simp
  show ?thesis
  proof (cases "p = nullptr")
    case True
    with eq assms(2) l show ?thesis by auto
  next
    case p: False
    with l have l1: "(dmaHandle orig, p) \<notin> pmaps w" "pmaps w1 = insert (dmaHandle orig, p) (pmaps w)"
      by simp_all
    then have "(dmaHandle orig, p) \<in> pmaps w1" by simp
    note l2 = pmem_os_lawsD(4) [OF assms(1) this u]
    have r: "pmaps w2 = pmaps w" using l1 l2 by auto
    show ?thesis
    proof (cases "(ucast n :: u64) < b_size orig")
      case True
      with eq p assms(2) r show ?thesis by simp
    next
      case big: False
      with eq p assms(2) have e: "s = QC_STATUS_OK" "w' = w1"
        "d = ?mapped\<lparr>pBuf := p, b_size := ucast n, dmaHandle := dmaHandle orig\<rparr>" by simp_all
      have "PMEMUtils_MemoryUnMap os d w' = (QC_STATUS_OK, w2)"
        using False p u l2 by (simp add: PMEMUtils_MemoryUnMap_def e(2,3))
      with big l1 r show ?thesis by (simp add: e not_less)
    qed
  qed
qed

theorem pmem_map_unmap_witness:
  "\<exists>d w' w2. PMEMUtils_MemoryMap demo_pmem_os
       (QCBufferDescriptorBase_init\<lparr>dmaHandle := 7, b_size := 64, allocatorType := QC_MEMORY_ALLOCATOR_DMA\<rparr>)
       \<lparr>v_blocks = [], v_maps = []\<rparr> = (QC_STATUS_OK, d, w') \<and> set (v_maps w') = {(7, 8192)} \<and>
     PMEMUtils_MemoryUnMap demo_pmem_os d w' = (QC_STATUS_OK, w2) \<and> set (v_maps w2) = {}"
proof -
  let ?o = "QCBufferDescriptorBase_init\<lparr>dmaHandle := 7, b_size := 64,
    allocatorType := QC_MEMORY_ALLOCATOR_DMA\<rparr>"
  obtain s d w' where r: "PMEMUtils_MemoryMap demo_pmem_os ?o \<lparr>v_blocks = [], v_maps = []\<rparr> = (s, d, w')"
    by (metis prod_cases3)
  then have s: "s = QC_STATUS_OK" "set (v_maps w') = {(7, 8192)}"
    by (auto simp: PMEMUtils_MemoryMap_def PMEMUtils_pmemID_def demo_pmem_os_def Let_def
        QCBufferDescriptorBase_init_def)
  from pmem_map_unmap [OF demo_pmem_os_laws r] s obtain w2 where
    "PMEMUtils_MemoryUnMap demo_pmem_os d w' = (QC_STATUS_OK, w2)" "set (v_maps w2) = {}" by auto
  with r s show ?thesis by blast
qed

end
