(* ===== verification/QC_ManagerLocal.thy ===== *)
theory QC_ManagerLocal
  imports QC_Pool
begin

text \<open>
  The memory manager, \<^verbatim>\<open>source/Infras/Memory/ManagerLocal.cpp\<close>. The state record has the fields
  of the class; \<open>world\<close> is the state of the allocators it was given references to. The C++
  takes a lock around each access to a shared table; an operation here is one atomic step, and the
  mutexes themselves are not part of the state.

  \<^verbatim>\<open>m_pools\<close> and \<^verbatim>\<open>m_allocations\<close> are vectors indexed by the node id the registry maps a handle to.
  The code indexes them without a check, so an operation returns \<open>None\<close> where C++ indexes past the
  end (or pops an empty vector): the behaviour is undefined there. When it happens is in \<open>QC_ManagerInv\<close>
  and \<open>QC_ManagerSession\<close>: only with a handle kept across a de-initialisation.

  The random numbers of the handles are arguments.
\<close>

record 'w QCMemoryManagerInit =
  numOfNodes :: u8
  allocators :: "QCMemoryAllocator_e \<Rightarrow> 'w QCMemoryAllocatorIfs"

definition QCMemoryManagerInit_default :: "'w QCMemoryManagerInit" where
  "QCMemoryManagerInit_default = \<lparr>numOfNodes = 0, allocators = (\<lambda>_. DummyAllocator)\<rparr>"

record QCMemoryPoolInitConfig =
  pic_buff :: QCBufferPropBase
  pic_maxElements :: u64
  pic_name :: string
  pic_allocator :: QCMemoryAllocator_e

record 'w PoolMapWithMutex =
  poolMap :: "(QCMemoryPoolHandle \<times> 'w Pool) list"
  poolSequenceCounter :: u8

definition PoolMapWithMutex_init :: "'w PoolMapWithMutex" where
  "PoolMapWithMutex_init = \<lparr>poolMap = [], poolSequenceCounter = 0\<rparr>"

record 'w ManagerLocal =
  m_state :: QCObjectState_e
  m_handleToNodeIdInVector :: "(QCMemoryHandle \<times> u32) list"
  m_pools :: "'w PoolMapWithMutex list"
  m_allocations :: "QCBufferDescriptorBase list list"
  m_config :: "'w QCMemoryManagerInit"
  world :: 'w

definition ManagerLocal_new :: "'w \<Rightarrow> 'w ManagerLocal" where
  "ManagerLocal_new w =
     \<lparr>m_state = QC_OBJECT_STATE_INITIAL, m_handleToNodeIdInVector = [], m_pools = [],
      m_allocations = [], m_config = QCMemoryManagerInit_default, world = w\<rparr>"

subsection \<open>Registry lookups\<close>

abbreviation IS_IN_DB_STATUS :: "'a option \<Rightarrow> QCStatus_e" where
  "IS_IN_DB_STATUS r \<equiv> (if r \<noteq> None then QC_STATUS_OK else QC_STATUS_FAIL)"

abbreviation IS_NOT_IN_DB_STATUS :: "'a option \<Rightarrow> QCStatus_e" where
  "IS_NOT_IN_DB_STATUS r \<equiv> (if r = None then QC_STATUS_OK else QC_STATUS_FAIL)"

definition IsMemoryHandleRegistered :: "'w ManagerLocal \<Rightarrow> QCMemoryHandle \<Rightarrow> u8 option" where
  "IsMemoryHandleRegistered m handle =
     (case std_find handle_less fst handle (m_handleToNodeIdInVector m) of
        None \<Rightarrow> None
      | Some it \<Rightarrow> Some (ucast (snd it)))"

definition IsNodeIdUnique :: "'w ManagerLocal \<Rightarrow> QCNodeID \<Rightarrow> bool" where
  "IsNodeIdUnique m node \<longleftrightarrow>
     list_all (\<lambda>i. ucast (n_id node) \<noteq> snd i) (m_handleToNodeIdInVector m)"

text \<open>The tail of most operations: \<^verbatim>\<open>if ( QC_STATUS_FAIL == status ) SetState( ERROR )\<close>.\<close>

definition fail_to_error :: "QCStatus_e \<Rightarrow> 'w ManagerLocal \<Rightarrow> QCStatus_e \<times> 'w ManagerLocal" where
  "fail_to_error status m =
     (status, if status = QC_STATUS_FAIL then m\<lparr>m_state := QC_OBJECT_STATE_ERROR\<rparr> else m)"

subsection \<open>Initialize\<close>

definition ML_Initialize ::
  "'w QCMemoryManagerInit \<Rightarrow> 'w ManagerLocal \<Rightarrow> QCStatus_e \<times> 'w ManagerLocal" where
  "ML_Initialize init m =
     (let state = m_state m;
          (status, m1) =
            (if state \<noteq> QC_OBJECT_STATE_INITIAL then (QC_STATUS_BAD_STATE, m)
             else if numOfNodes init = 0 then (QC_STATUS_BAD_ARGUMENTS, m)
             else (QC_STATUS_OK, m\<lparr>m_config := init, m_state := QC_OBJECT_STATE_INITIALIZING\<rparr>));
          n = unat (numOfNodes (m_config m1));
          (state', m2) =
            (if m_state m1 = QC_OBJECT_STATE_INITIALIZING
             then (QC_OBJECT_STATE_READY,
                   m1\<lparr>m_pools := m_pools m1 @ replicate n PoolMapWithMutex_init,
                      m_allocations := m_allocations m1 @ replicate n []\<rparr>)
             else (state, m1))
      in (status, m2\<lparr>m_state := state'\<rparr>))"

subsection \<open>Register\<close>

definition ML_Register ::
  "QCNodeID \<Rightarrow> QCMemoryHandle \<Rightarrow> u32 \<Rightarrow> 'w ManagerLocal \<Rightarrow>
     QCStatus_e \<times> QCMemoryHandle \<times> 'w ManagerLocal" where
  "ML_Register node handle rnd m =
     (let (status, handle', m1) =
        (if m_state m \<noteq> QC_OBJECT_STATE_READY then (QC_STATUS_BAD_STATE, handle, m)
         else if QC_NODE_TYPE_LAST \<le> n_type node \<or> n_type node = QC_NODE_TYPE_RESERVED
           then (QC_STATUS_BAD_ARGUMENTS, handle, m)
         else if numOfNodes (m_config m) \<le> n_id node then (QC_STATUS_BAD_ARGUMENTS, handle, m)
         else
           let h1 = SetNodeType handle (n_type node);
               registry = m_handleToNodeIdInVector m
           in if unat (numOfNodes (m_config m)) \<le> length registry
                then (QC_STATUS_BAD_ARGUMENTS, h1, m)
              else if \<not> IsNodeIdUnique m node then (QC_STATUS_BAD_ARGUMENTS, h1, m)
              else
                let h2 = SetRandomNumber (SetNodeCount h1 (of_nat (length registry + 1))) rnd
                in if IsMemoryHandleRegistered m h2 \<noteq> None then (QC_STATUS_FAIL, h2, m)
                   else
                     let m1 = m\<lparr>m_handleToNodeIdInVector :=
                                  std_insert handle_less fst (h2, ucast (n_id node)) registry\<rparr>
                     in if IsMemoryHandleRegistered m1 h2 = None then (QC_STATUS_FAIL, h2, m1)
                        else (QC_STATUS_OK, h2, m1));
        (status', m2) = fail_to_error status m1
      in (status', handle', m2))"

subsection \<open>Pools\<close>

definition set_poolMap ::
  "nat \<Rightarrow> 'w PoolMapWithMutex \<Rightarrow> 'w ManagerLocal \<Rightarrow> 'w ManagerLocal" where
  "set_poolMap ni pm m = m\<lparr>m_pools := (m_pools m)[ni := pm]\<rparr>"

definition ML_CreatePool ::
  "QCMemoryHandle \<Rightarrow> QCMemoryPoolInitConfig \<Rightarrow> QCMemoryPoolHandle \<Rightarrow> u32 \<Rightarrow> 'w ManagerLocal \<Rightarrow>
     (QCStatus_e \<times> QCMemoryPoolHandle \<times> 'w ManagerLocal) option" where
  "ML_CreatePool handle poolCfg poolHandle rnd m =
     (if m_state m \<noteq> QC_OBJECT_STATE_READY then Some (QC_STATUS_BAD_STATE, poolHandle, m)
      else case IsMemoryHandleRegistered m handle of
        None \<Rightarrow> Some (QC_STATUS_BAD_ARGUMENTS, poolHandle, m)
      | Some nodeIndex \<Rightarrow>
          if QC_MEMORY_ALLOCATOR_LAST \<le> pic_allocator poolCfg
            then Some (QC_STATUS_BAD_ARGUMENTS, poolHandle, m)
          else if length (m_pools m) \<le> unat nodeIndex then None
          else
            let ni = unat nodeIndex; pm = m_pools m ! ni
            in if length (poolMap pm) = QC_MEMORY_MAX_POOLS_PER_NODE
                 then Some (QC_STATUS_OUT_OF_BOUND, poolHandle, m)
               else
                 let ph = SetPoolCount (SetPoolRandomNumber (SetMemoryHandle poolHandle handle) rnd)
                            (poolSequenceCounter pm);
                     pm1 = pm\<lparr>poolSequenceCounter := poolSequenceCounter pm + 1\<rparr>;
                     m1 = set_poolMap ni pm1 m
                 in if std_find pool_handle_less fst ph (poolMap pm1) \<noteq> None
                      then Some (QC_STATUS_FAIL, ph, m1\<lparr>m_state := QC_OBJECT_STATE_ERROR\<rparr>)
                    else
                      let config = \<lparr>cfg_buff = pic_buff poolCfg,
                            cfg_maxElements = pic_maxElements poolCfg, cfg_name = pic_name poolCfg,
                            cfg_allocator = allocators (m_config m1) (pic_allocator poolCfg)\<rparr>;
                          (status, pool, w') = Pool_Init (Pool_new config) (world m1);
                          m2 = m1\<lparr>world := w'\<rparr>
                      in if status = QC_STATUS_OK then
                           let pm2 = pm1\<lparr>poolMap :=
                                 std_insert pool_handle_less fst (ph, pool) (poolMap pm1)\<rparr>
                           in Some (IS_IN_DB_STATUS (std_find pool_handle_less fst ph (poolMap pm2)),
                                ph, (set_poolMap ni pm2 m2)\<lparr>m_state := QC_OBJECT_STATE_READY\<rparr>)
                         else if status = QC_STATUS_FAIL then
                           Some (status, ph, m2\<lparr>m_state := QC_OBJECT_STATE_ERROR\<rparr>)
                         else
                           Some (status, ph, m2\<lparr>world := Pool_destroy pool w',
                                                m_state := QC_OBJECT_STATE_READY\<rparr>))"

definition ML_DestroyPool ::
  "QCMemoryPoolHandle \<Rightarrow> 'w ManagerLocal \<Rightarrow> (QCStatus_e \<times> 'w ManagerLocal) option" where
  "ML_DestroyPool poolHandle m =
     (if m_state m \<noteq> QC_OBJECT_STATE_READY then Some (fail_to_error QC_STATUS_BAD_STATE m)
      else case IsMemoryHandleRegistered m (GetMemoryHandle poolHandle) of
        None \<Rightarrow> Some (fail_to_error QC_STATUS_BAD_ARGUMENTS m)
      | Some nodeIndex \<Rightarrow>
          if length (m_pools m) \<le> unat nodeIndex then None
          else
            let ni = unat nodeIndex; pm = m_pools m ! ni
            in case std_find pool_handle_less fst poolHandle (poolMap pm) of
                 None \<Rightarrow> Some (fail_to_error QC_STATUS_BAD_ARGUMENTS m)
               | Some it \<Rightarrow>
                   let poolMap' = std_erase pool_handle_less fst poolHandle (poolMap pm);
                       m1 = (set_poolMap ni (pm\<lparr>poolMap := poolMap'\<rparr>) m)
                              \<lparr>world := Pool_destroy (snd it) (world m)\<rparr>;
                       status = (if length (poolMap pm) - length poolMap' \<noteq> 1 then QC_STATUS_FAIL
                                 else QC_STATUS_OK)
                   in Some (fail_to_error status m1))"

definition ML_AllocateBufferFromPool ::
  "QCMemoryPoolHandle \<Rightarrow> QCBufferDescriptorBase \<Rightarrow> 'w ManagerLocal \<Rightarrow>
     (QCStatus_e \<times> QCBufferDescriptorBase \<times> 'w ManagerLocal) option" where
  "ML_AllocateBufferFromPool poolHandle buff m =
     (if m_state m \<noteq> QC_OBJECT_STATE_READY then Some (QC_STATUS_BAD_STATE, buff, m)
      else case IsMemoryHandleRegistered m (GetMemoryHandle poolHandle) of
        None \<Rightarrow> Some (QC_STATUS_BAD_ARGUMENTS, buff, m)
      | Some nodeIndex \<Rightarrow>
          if length (m_pools m) \<le> unat nodeIndex then None
          else
            let ni = unat nodeIndex; pm = m_pools m ! ni
            in case std_find pool_handle_less fst poolHandle (poolMap pm) of
                 None \<Rightarrow> Some (QC_STATUS_BAD_ARGUMENTS, buff, m)
               | Some it \<Rightarrow>
                   let (status, buff', pool') = Pool_GetElement (snd it) buff;
                       pm' = pm\<lparr>poolMap := map (\<lambda>e. if fst e = fst it then (fst e, pool') else e)
                                            (poolMap pm)\<rparr>;
                       (status', m1) = fail_to_error status (set_poolMap ni pm' m)
                   in Some (status', buff', m1))"

definition ML_PutBufferToPool ::
  "QCMemoryPoolHandle \<Rightarrow> QCBufferDescriptorBase \<Rightarrow> 'w ManagerLocal \<Rightarrow>
     (QCStatus_e \<times> 'w ManagerLocal) option" where
  "ML_PutBufferToPool poolHandle buff m =
     (if m_state m \<noteq> QC_OBJECT_STATE_READY then Some (QC_STATUS_BAD_STATE, m)
      else case IsMemoryHandleRegistered m (GetMemoryHandle poolHandle) of
        None \<Rightarrow> Some (QC_STATUS_BAD_ARGUMENTS, m)
      | Some nodeIndex \<Rightarrow>
          if length (m_pools m) \<le> unat nodeIndex then None
          else
            let ni = unat nodeIndex; pm = m_pools m ! ni
            in case std_find pool_handle_less fst poolHandle (poolMap pm) of
                 None \<Rightarrow> Some (QC_STATUS_BAD_ARGUMENTS, m)
               | Some it \<Rightarrow>
                   let (status, pool') = Pool_PutElement (snd it) buff;
                       pm' = pm\<lparr>poolMap := map (\<lambda>e. if fst e = fst it then (fst e, pool') else e)
                                            (poolMap pm)\<rparr>
                   in Some (fail_to_error status (set_poolMap ni pm' m)))"

subsection \<open>Stand-alone buffers\<close>

definition set_allocationSet ::
  "nat \<Rightarrow> QCBufferDescriptorBase list \<Rightarrow> 'w ManagerLocal \<Rightarrow> 'w ManagerLocal" where
  "set_allocationSet ni bs m = m\<lparr>m_allocations := (m_allocations m)[ni := bs]\<rparr>"

definition ML_AllocateBuffer ::
  "QCMemoryHandle \<Rightarrow> QCMemoryAllocator_e \<Rightarrow> QCBufferPropBase \<Rightarrow> QCBufferDescriptorBase \<Rightarrow>
     'w ManagerLocal \<Rightarrow> (QCStatus_e \<times> QCBufferDescriptorBase \<times> 'w ManagerLocal) option" where
  "ML_AllocateBuffer handle allocator request buff m =
     (if m_state m \<noteq> QC_OBJECT_STATE_READY then Some (QC_STATUS_BAD_STATE, buff, m)
      else if p_size request = 0 then Some (QC_STATUS_BAD_ARGUMENTS, buff, m)
      else case IsMemoryHandleRegistered m handle of
        None \<Rightarrow> Some (QC_STATUS_BAD_ARGUMENTS, buff, m)
      | Some nodeIndex \<Rightarrow>
          if QC_MEMORY_ALLOCATOR_LAST \<le> allocator then Some (QC_STATUS_BAD_ARGUMENTS, buff, m)
          else if length (m_allocations m) \<le> unat nodeIndex then None
          else
            let ni = unat nodeIndex;
                allocatorRef = allocators (m_config m) allocator;
                (status, buff', w') = Allocate allocatorRef request buff (world m);
                m1 = m\<lparr>world := w'\<rparr>
            in if status = QC_STATUS_FAIL
                 then Some (status, buff', m1\<lparr>m_state := QC_OBJECT_STATE_ERROR\<rparr>)
               else if status = QC_STATUS_OK then
                 let bufferSet = std_insert buffer_less id buff' (m_allocations m ! ni);
                     status' = IS_IN_DB_STATUS (std_find buffer_less id buff' bufferSet);
                     m2 = set_allocationSet ni bufferSet m1
                 in if status' \<noteq> QC_STATUS_OK
                      then Some (status', buff',
                             m2\<lparr>m_state := QC_OBJECT_STATE_ERROR,
                                world := snd (Free allocatorRef buff' w')\<rparr>)
                    else Some (status', buff', m2)
               else Some (status, buff', m1))"

definition ML_FreeBuffer ::
  "QCMemoryHandle \<Rightarrow> QCBufferDescriptorBase \<Rightarrow> 'w ManagerLocal \<Rightarrow>
     (QCStatus_e \<times> 'w ManagerLocal) option" where
  "ML_FreeBuffer handle buff m =
     (if m_state m \<noteq> QC_OBJECT_STATE_READY then Some (fail_to_error QC_STATUS_BAD_STATE m)
      else case IsMemoryHandleRegistered m handle of
        None \<Rightarrow> Some (fail_to_error QC_STATUS_BAD_ARGUMENTS m)
      | Some nodeIndex \<Rightarrow>
          if QC_MEMORY_ALLOCATOR_LAST \<le> allocatorType buff
            then Some (fail_to_error QC_STATUS_BAD_ARGUMENTS m)
          else if length (m_allocations m) \<le> unat nodeIndex then None
          else
            let ni = unat nodeIndex; bufferSet = m_allocations m ! ni
            in if std_find buffer_less id buff bufferSet \<noteq> None then
                 let (status, w') =
                       Free (allocators (m_config m) (allocatorType buff)) buff (world m);
                     m1 = m\<lparr>world := w'\<rparr>
                 in if status = QC_STATUS_OK then
                      let bufferSet' = std_erase buffer_less id buff bufferSet
                      in Some (fail_to_error
                           (IS_NOT_IN_DB_STATUS (std_find buffer_less id buff bufferSet'))
                           (set_allocationSet ni bufferSet' m1))
                    else Some (fail_to_error status m1)
               else Some (fail_to_error QC_STATUS_BAD_ARGUMENTS m))"

subsection \<open>Reclaiming the resources of a handle\<close>

type_synonym 'w reclaim = "QCStatus_e \<times> QCObjectState_e \<times> 'w ManagerLocal"

fun reclaim_buffers ::
  "QCMemoryHandle \<Rightarrow> QCBufferDescriptorBase list \<Rightarrow> 'w reclaim \<Rightarrow> 'w reclaim option" where
  "reclaim_buffers handle [] acc = Some acc"
| "reclaim_buffers handle (buffDescriptor # rest) (status, state, m) =
     (case ML_FreeBuffer handle buffDescriptor m of
        None \<Rightarrow> None
      | Some (localStatus, m') \<Rightarrow>
          if localStatus \<noteq> QC_STATUS_OK
          then reclaim_buffers handle rest (localStatus, QC_OBJECT_STATE_ERROR, m')
          else reclaim_buffers handle rest (status, state, m'))"

fun reclaim_pools :: "QCMemoryPoolHandle list \<Rightarrow> 'w reclaim \<Rightarrow> 'w reclaim option" where
  "reclaim_pools [] acc = Some acc"
| "reclaim_pools (poolHandle # rest) (status, state, m) =
     (case ML_DestroyPool poolHandle m of
        None \<Rightarrow> None
      | Some (localStatus, m') \<Rightarrow>
          if localStatus \<noteq> QC_STATUS_OK
          then reclaim_pools rest (localStatus, QC_OBJECT_STATE_ERROR, m')
          else reclaim_pools rest (status, state, m'))"

definition ML_ReclaimResources ::
  "QCMemoryHandle \<Rightarrow> 'w ManagerLocal \<Rightarrow> (QCStatus_e \<times> 'w ManagerLocal) option" where
  "ML_ReclaimResources handle m =
     (let state = m_state m;
          m0 = (if state \<noteq> QC_OBJECT_STATE_READY then m\<lparr>m_state := QC_OBJECT_STATE_READY\<rparr> else m)
      in case IsMemoryHandleRegistered m0 handle of
           None \<Rightarrow> Some (QC_STATUS_BAD_ARGUMENTS, m0\<lparr>m_state := state\<rparr>)
         | Some nodeIndex \<Rightarrow>
             let ni = unat nodeIndex
             in if length (m_allocations m0) \<le> ni then None
                else case reclaim_buffers handle (m_allocations m0 ! ni) (QC_STATUS_OK, state, m0) of
                  None \<Rightarrow> None
                | Some (status1, state1, m1) \<Rightarrow>
                    if length (m_pools m1) \<le> ni then None
                    else case reclaim_pools (map fst (poolMap (m_pools m1 ! ni)))
                                (status1, state1, m1) of
                      None \<Rightarrow> None
                    | Some (status2, state2, m2) \<Rightarrow>
                        Some (status2, m2\<lparr>m_state := state2\<rparr>))"

subsection \<open>UnRegister\<close>

definition ML_UnRegister ::
  "QCMemoryHandle \<Rightarrow> 'w ManagerLocal \<Rightarrow> (QCStatus_e \<times> 'w ManagerLocal) option" where
  "ML_UnRegister memHandle m =
     (let startState = m_state m
      in if startState \<noteq> QC_OBJECT_STATE_READY then Some (QC_STATUS_BAD_STATE, m)
         else if IsMemoryHandleRegistered m memHandle = None then Some (QC_STATUS_BAD_ARGUMENTS, m)
         else case ML_ReclaimResources memHandle m of
           None \<Rightarrow> None
         | Some (status, m1) \<Rightarrow>
             if status = QC_STATUS_OK then
               let m2 = m1\<lparr>m_handleToNodeIdInVector :=
                             std_erase handle_less fst memHandle (m_handleToNodeIdInVector m1)\<rparr>
               in if IsMemoryHandleRegistered m2 memHandle \<noteq> None
                  then Some (QC_STATUS_FAIL, m2\<lparr>m_state := QC_OBJECT_STATE_ERROR\<rparr>)
                  else Some (status, m2\<lparr>m_state := startState\<rparr>)
             else Some (status, m1\<lparr>m_state := QC_OBJECT_STATE_ERROR\<rparr>))"

subsection \<open>DeInitialize and the destructor\<close>

fun reclaim_handles :: "QCMemoryHandle list \<Rightarrow> 'w reclaim \<Rightarrow> 'w reclaim option" where
  "reclaim_handles [] acc = Some acc"
| "reclaim_handles (handle # rest) (status, state, m) =
     (case ML_ReclaimResources handle m of
        None \<Rightarrow> None
      | Some (statusLocal, m') \<Rightarrow>
          if statusLocal \<noteq> QC_STATUS_OK
          then reclaim_handles rest (statusLocal, QC_OBJECT_STATE_ERROR, m')
          else reclaim_handles rest (status, state, m'))"

definition ML_DeInitialize :: "'w ManagerLocal \<Rightarrow> (QCStatus_e \<times> 'w ManagerLocal) option" where
  "ML_DeInitialize m =
     (if m_state m = QC_OBJECT_STATE_INITIAL then Some (QC_STATUS_BAD_STATE, m)
      else
        case reclaim_handles (map fst (m_handleToNodeIdInVector m))
               (QC_STATUS_OK, QC_OBJECT_STATE_INITIAL,
                m\<lparr>m_state := QC_OBJECT_STATE_DEINITIALIZING\<rparr>) of
          None \<Rightarrow> None
        | Some (status, state, m1) \<Rightarrow>
            let n = unat (numOfNodes (m_config m1))
            in if length (m_pools m1) < n \<or> length (m_allocations m1) < n then None
               else Some (status,
                      m1\<lparr>m_pools := take (length (m_pools m1) - n) (m_pools m1),
                         m_allocations := take (length (m_allocations m1) - n) (m_allocations m1),
                         m_config := QCMemoryManagerInit_default,
                         m_state := state\<rparr>))"

definition ML_destroy :: "'w ManagerLocal \<Rightarrow> 'w ManagerLocal option" where
  "ML_destroy m =
     (if m_state m = QC_OBJECT_STATE_READY then map_option snd (ML_DeInitialize m) else Some m)"

end
