(* ===== verification/QC_ManagerInv.thy ===== *)
theory QC_ManagerInv
  imports QC_ManagerLocal
begin

text \<open>
  The tables of the memory manager stay well formed, over any number of sessions. \<open>mgr_tables\<close> says
  what the registry, the pool maps and the allocation sets keep true of each other, \<open>mgr_inv\<close> adds
  the object state. De-initialising does not clear the registry, so a handle may be registered to a
  node id the tables of the present session do not have: it is stale. \<open>node_of\<close> is the node a handle
  stands for when it is not. Each operation has one lemma that it keeps the tables and one that says
  when it indexes past the end of a vector, which only stale handles can make it do.
\<close>

definition nodes_of :: "'w ManagerLocal \<Rightarrow> nat" where
  "nodes_of m = unat (numOfNodes (m_config m))"

text \<open>The node ids that have a handle.\<close>

definition node_ids :: "'w ManagerLocal \<Rightarrow> nat set" where
  "node_ids m = (\<lambda>e. unat (snd e)) ` set (m_handleToNodeIdInVector m)"

text \<open>The node a handle stands for in the present session, and the handles that are registered but
  stand for none.\<close>

definition node_of :: "'w ManagerLocal \<Rightarrow> QCMemoryHandle \<Rightarrow> u8 option" where
  "node_of m h = (case IsMemoryHandleRegistered m h of None \<Rightarrow> None
     | Some i \<Rightarrow> if i < numOfNodes (m_config m) then Some i else None)"

definition stale_handle :: "'w ManagerLocal \<Rightarrow> QCMemoryHandle \<Rightarrow> bool" where
  "stale_handle m h \<longleftrightarrow> (case IsMemoryHandleRegistered m h of None \<Rightarrow> False
     | Some i \<Rightarrow> numOfNodes (m_config m) \<le> i)"

lemma node_of_Some:
  "node_of m h = Some i \<longleftrightarrow> IsMemoryHandleRegistered m h = Some i \<and> unat i < nodes_of m"
  by (auto simp: node_of_def nodes_of_def word_less_nat_alt split: option.splits if_splits)

lemma node_of_None:
  "node_of m h = None \<longleftrightarrow> IsMemoryHandleRegistered m h = None \<or> stale_handle m h"
  by (auto simp: node_of_def stale_handle_def not_less split: option.splits if_splits)

lemma registered_node: "IsMemoryHandleRegistered m h = None \<Longrightarrow> node_of m h = None"
  by (simp add: node_of_None)

lemma stale_iff:
  "stale_handle m h \<longleftrightarrow> (\<exists>i. IsMemoryHandleRegistered m h = Some i \<and> nodes_of m \<le> unat i)"
  by (auto simp: stale_handle_def nodes_of_def word_le_nat_alt split: option.splits)

lemma node_of_not_stale: "node_of m h = Some i \<Longrightarrow> \<not> stale_handle m h"
  by (auto simp: node_of_Some stale_iff)

lemma handle_cases:
  obtains (unregistered) "IsMemoryHandleRegistered m h = None" "\<not> stale_handle m h"
    | (stale) i where "stale_handle m h" "IsMemoryHandleRegistered m h = Some i" "nodes_of m \<le> unat i"
    | (node) i where "node_of m h = Some i"
  by (cases "node_of m h"; cases "stale_handle m h") (auto simp: node_of_None stale_iff)

definition pools_ok :: "'w ManagerLocal \<Rightarrow> nat \<Rightarrow> 'w PoolMapWithMutex \<Rightarrow> bool" where
  "pools_ok m i pm \<longleftrightarrow>
     std_sorted pool_handle_less fst (poolMap pm) \<and>
     length (poolMap pm) \<le> QC_MEMORY_MAX_POOLS_PER_NODE \<and>
     (\<forall>e \<in> set (poolMap pm).
        map_option unat (node_of m (GetMemoryHandle (fst e))) = Some i)"

definition mgr_tables :: "'w ManagerLocal \<Rightarrow> bool" where
  "mgr_tables m \<longleftrightarrow>
     length (m_pools m) = nodes_of m \<and> length (m_allocations m) = nodes_of m \<and>
     std_sorted handle_less fst (m_handleToNodeIdInVector m) \<and>
     (\<forall>i \<in> node_ids m. i < 256) \<and>
     distinct (map snd (m_handleToNodeIdInVector m)) \<and>
     (\<forall>i < nodes_of m. pools_ok m i (m_pools m ! i)) \<and>
     (\<forall>i < nodes_of m. std_sorted buffer_less id (m_allocations m ! i) \<and>
        (m_allocations m ! i \<noteq> [] \<longrightarrow> i \<in> node_ids m))"

definition mgr_inv :: "'w ManagerLocal \<Rightarrow> bool" where
  "mgr_inv m \<longleftrightarrow> mgr_tables m \<and>
     (m_state m = QC_OBJECT_STATE_INITIAL \<and> nodes_of m = 0 \<or>
      m_state m = QC_OBJECT_STATE_READY \<or> m_state m = QC_OBJECT_STATE_ERROR)"

text \<open>None of this looks at the world, and the tables not at the object state.\<close>

lemma registered_frame [simp]:
  "IsMemoryHandleRegistered (m\<lparr>m_state := s\<rparr>) h = IsMemoryHandleRegistered m h"
  "IsMemoryHandleRegistered (m\<lparr>world := w\<rparr>) h = IsMemoryHandleRegistered m h"
  "IsMemoryHandleRegistered (set_poolMap i pm m) h = IsMemoryHandleRegistered m h"
  "IsMemoryHandleRegistered (set_allocationSet i bs m) h = IsMemoryHandleRegistered m h"
  by (simp_all add: IsMemoryHandleRegistered_def set_poolMap_def set_allocationSet_def)

lemma node_of_frame [simp]:
  "node_of (m\<lparr>m_state := s\<rparr>) h = node_of m h" "node_of (m\<lparr>world := w\<rparr>) h = node_of m h"
  "node_of (set_poolMap i pm m) h = node_of m h" "node_of (set_allocationSet i bs m) h = node_of m h"
  "stale_handle (m\<lparr>m_state := s\<rparr>) h = stale_handle m h"
  by (simp_all add: node_of_def stale_handle_def split: option.split)
    (simp_all add: set_poolMap_def set_allocationSet_def)

lemma nodes_of_frame [simp]:
  "nodes_of (m\<lparr>m_state := s\<rparr>) = nodes_of m" "nodes_of (m\<lparr>world := w\<rparr>) = nodes_of m"
  "nodes_of (set_poolMap i pm m) = nodes_of m" "nodes_of (set_allocationSet i bs m) = nodes_of m"
  "nodes_of (m\<lparr>m_handleToNodeIdInVector := r\<rparr>) = nodes_of m"
  by (simp_all add: nodes_of_def set_poolMap_def set_allocationSet_def)

lemma node_ids_frame [simp]:
  "node_ids (m\<lparr>m_state := s\<rparr>) = node_ids m" "node_ids (m\<lparr>world := w\<rparr>) = node_ids m"
  "node_ids (set_poolMap i pm m) = node_ids m" "node_ids (set_allocationSet i bs m) = node_ids m"
  by (simp_all add: node_ids_def set_poolMap_def set_allocationSet_def)

lemma mgr_tables_frame [simp]:
  "mgr_tables (m\<lparr>m_state := s\<rparr>) = mgr_tables m" "mgr_tables (m\<lparr>world := w\<rparr>) = mgr_tables m"
  by (simp_all add: mgr_tables_def pools_ok_def)

lemma set_poolMap_select [simp]:
  "m_state (set_poolMap i pm m) = m_state m" "m_config (set_poolMap i pm m) = m_config m"
  "m_handleToNodeIdInVector (set_poolMap i pm m) = m_handleToNodeIdInVector m"
  "m_allocations (set_poolMap i pm m) = m_allocations m"
  "m_pools (set_poolMap i pm m) = (m_pools m)[i := pm]" "world (set_poolMap i pm m) = world m"
  by (simp_all add: set_poolMap_def)

lemma set_allocationSet_select [simp]:
  "m_state (set_allocationSet i bs m) = m_state m"
  "m_config (set_allocationSet i bs m) = m_config m"
  "m_handleToNodeIdInVector (set_allocationSet i bs m) = m_handleToNodeIdInVector m"
  "m_allocations (set_allocationSet i bs m) = (m_allocations m)[i := bs]"
  "m_pools (set_allocationSet i bs m) = m_pools m"
  "world (set_allocationSet i bs m) = world m"
  by (simp_all add: set_allocationSet_def)

lemma fail_to_error_select [simp]:
  "fst (fail_to_error s m) = s" "world (snd (fail_to_error s m)) = world m"
  "m_pools (snd (fail_to_error s m)) = m_pools m"
  "m_allocations (snd (fail_to_error s m)) = m_allocations m"
  "m_config (snd (fail_to_error s m)) = m_config m"
  "m_handleToNodeIdInVector (snd (fail_to_error s m)) = m_handleToNodeIdInVector m"
  "mgr_tables (snd (fail_to_error s m)) = mgr_tables m"
  "nodes_of (snd (fail_to_error s m)) = nodes_of m"
  by (simp_all add: fail_to_error_def)

lemma fail_to_error_OK [simp]: "s \<noteq> QC_STATUS_FAIL \<Longrightarrow> fail_to_error s m = (s, m)"
  by (simp add: fail_to_error_def)

lemma fail_to_error_FAIL [simp]:
  "fail_to_error QC_STATUS_FAIL m = (QC_STATUS_FAIL, m\<lparr>m_state := QC_OBJECT_STATE_ERROR\<rparr>)"
  by (simp add: fail_to_error_def)

text \<open>Registry lookups in well-formed tables.\<close>

lemma registered_iff:
  assumes "mgr_tables m"
  shows "IsMemoryHandleRegistered m h = Some i \<longleftrightarrow>
           (\<exists>nid. (h, nid) \<in> set (m_handleToNodeIdInVector m) \<and> i = ucast nid)"
proof -
  let ?reg = "m_handleToNodeIdInVector m"
  have sorted: "std_sorted handle_less fst ?reg"
    using assms by (simp add: mgr_tables_def)
  show ?thesis
  proof (cases "std_find handle_less fst h ?reg")
    case None
    then have "h \<notin> fst ` set ?reg" by (simp add: handle_order.find_None_iff)
    with None show ?thesis by (force simp: IsMemoryHandleRegistered_def)
  next
    case (Some e)
    with handle_order.find_Some_iff [OF sorted] obtain n where e: "e = (h, n)" "(h, n) \<in> set ?reg"
      by (cases e) auto
    have "(h, nid) \<in> set ?reg \<longleftrightarrow> nid = n" for nid
      using Some e handle_order.find_Some_iff [OF sorted, of h "(h, nid)"] by auto
    with Some e(1) show ?thesis by (auto simp: IsMemoryHandleRegistered_def)
  qed
qed

lemma registered_None_iff:
  "IsMemoryHandleRegistered m h = None \<longleftrightarrow> h \<notin> fst ` set (m_handleToNodeIdInVector m)"
  by (simp add: IsMemoryHandleRegistered_def handle_order.find_None_iff [symmetric]
      split: option.split)

lemma nodes_of_less: "nodes_of m < 256"
  unfolding nodes_of_def
  using unsigned_less [of "numOfNodes (m_config m)", where 'a = nat] by simp

lemma registered_id:
  assumes "mgr_tables m" "(h, nid) \<in> set (m_handleToNodeIdInVector m)"
  shows "IsMemoryHandleRegistered m h = Some (ucast nid)" "unat (ucast nid :: u8) = unat nid"
    "unat nid \<in> node_ids m"
proof -
  show "IsMemoryHandleRegistered m h = Some (ucast nid)" using registered_iff assms by blast
  show id: "unat nid \<in> node_ids m" using assms(2) by (force simp: node_ids_def)
  with assms(1) have "unat nid < 256" by (simp add: mgr_tables_def)
  then show "unat (ucast nid :: u8) = unat nid"
    by (simp add: unsigned_ucast_eq take_bit_eq_mod)
qed

lemma registered_entry:
  assumes "mgr_tables m" "IsMemoryHandleRegistered m h = Some i"
  obtains nid where "(h, nid) \<in> set (m_handleToNodeIdInVector m)" "unat i = unat nid"
    "unat nid \<in> node_ids m"
proof -
  from assms obtain nid where "(h, nid) \<in> set (m_handleToNodeIdInVector m)" "i = ucast nid"
    using registered_iff by blast
  with registered_id [OF assms(1)] that show ?thesis by simp
qed

lemma node_bound:
  assumes "mgr_tables m" "node_of m h = Some i"
  shows "unat i < nodes_of m" "unat i < length (m_pools m)" "unat i < length (m_allocations m)"
    "unat i \<in> node_ids m" "IsMemoryHandleRegistered m h = Some i"
proof -
  from assms(2) show i: "unat i < nodes_of m" "IsMemoryHandleRegistered m h = Some i"
    by (simp_all add: node_of_Some)
  with assms(1) show "unat i < length (m_pools m)" "unat i < length (m_allocations m)"
    by (simp_all add: mgr_tables_def)
  from registered_entry [OF assms(1) i(2)] show "unat i \<in> node_ids m" by metis
qed

text \<open>Two handles never share a node.\<close>

lemma registered_inj:
  assumes "mgr_tables m" "IsMemoryHandleRegistered m h = Some i"
    "IsMemoryHandleRegistered m k = Some j" "unat i = unat j"
  shows "h = k"
proof -
  from assms obtain a b where ab: "(h, a) \<in> set (m_handleToNodeIdInVector m)"
      "(k, b) \<in> set (m_handleToNodeIdInVector m)" "unat a = unat b"
    by (metis registered_entry)
  moreover have "inj_on snd (set (m_handleToNodeIdInVector m))"
    using assms(1) by (simp add: mgr_tables_def distinct_map)
  ultimately show ?thesis unfolding inj_on_def word_unat_eq_iff [symmetric] by fastforce
qed

subsection \<open>Writing one entry of a table\<close>

lemma pools_ok_frame [simp]:
  "pools_ok (set_poolMap i pm m) = pools_ok m" "pools_ok (set_allocationSet i bs m) = pools_ok m"
  "pools_ok (m\<lparr>m_state := s\<rparr>) = pools_ok m" "pools_ok (m\<lparr>world := w\<rparr>) = pools_ok m"
  by (simp_all add: pools_ok_def fun_eq_iff)

lemma tables_set_allocationSet:
  assumes "mgr_tables m" "std_sorted buffer_less id bs" "bs \<noteq> [] \<Longrightarrow> i \<in> node_ids m"
  shows "mgr_tables (set_allocationSet i bs m)"
  using assms by (auto simp: mgr_tables_def nth_list_update_if)

lemma tables_set_poolMap:
  assumes "mgr_tables m" "pools_ok m i pm"
  shows "mgr_tables (set_poolMap i pm m)"
  using assms by (auto simp: mgr_tables_def nth_list_update_if)

lemma tables_pools_ok: "mgr_tables m \<Longrightarrow> i < length (m_pools m) \<Longrightarrow> pools_ok m i (m_pools m ! i)"
  by (simp add: mgr_tables_def)

lemma tables_alloc_sorted:
  "mgr_tables m \<Longrightarrow> i < length (m_allocations m) \<Longrightarrow>
     std_sorted buffer_less id (m_allocations m ! i)"
  by (simp add: mgr_tables_def)

lemma pools_ok_erase:
  "pools_ok m i pm \<Longrightarrow> pools_ok m i (pm\<lparr>poolMap := std_erase pool_handle_less fst ph (poolMap pm)\<rparr>)"
  by (auto simp: pools_ok_def std_sorted_erase intro: le_trans [OF length_std_erase_le])

lemma pools_ok_update:
  assumes "pools_ok m i pm"
  shows "pools_ok m i
    (pm\<lparr>poolMap := map (\<lambda>e. if fst e = k then (fst e, p) else e) (poolMap pm)\<rparr>)"
  using assms by (auto simp: pools_ok_def std_sorted_map_value)

subsection \<open>What each operation does, by cases\<close>

lemma Initialize_cases:
  obtains (state) "m_state m \<noteq> QC_OBJECT_STATE_INITIAL" "m_state m \<noteq> QC_OBJECT_STATE_INITIALIZING"
        "ML_Initialize ini m = (QC_STATUS_BAD_STATE, m)"
    | (midway) "m_state m = QC_OBJECT_STATE_INITIALIZING"
    | (nodes) "m_state m = QC_OBJECT_STATE_INITIAL" "numOfNodes ini = 0"
        "ML_Initialize ini m = (QC_STATUS_BAD_ARGUMENTS, m)"
    | (started) "m_state m = QC_OBJECT_STATE_INITIAL" "numOfNodes ini \<noteq> 0"
        "ML_Initialize ini m = (QC_STATUS_OK,
           m\<lparr>m_config := ini,
             m_pools := m_pools m @ replicate (unat (numOfNodes ini)) PoolMapWithMutex_init,
             m_allocations := m_allocations m @ replicate (unat (numOfNodes ini)) [],
             m_state := QC_OBJECT_STATE_READY\<rparr>)"
  by (cases "m_state m = QC_OBJECT_STATE_INITIAL"; cases "numOfNodes ini = 0";
      cases "m_state m = QC_OBJECT_STATE_INITIALIZING") (simp_all add: ML_Initialize_def Let_def)

text \<open>Neither check after an insertion can fail.\<close>

lemma Register_cases:
  obtains (refused) s h' where "s \<notin> {QC_STATUS_OK, QC_STATUS_FAIL}"
        "ML_Register node h rnd m = (s, h', m)"
        "m_state m \<noteq> QC_OBJECT_STATE_READY \<or> QC_NODE_TYPE_LAST \<le> n_type node \<or>
         n_type node = QC_NODE_TYPE_RESERVED \<or> \<not> n_id node < numOfNodes (m_config m) \<or>
         nodes_of m \<le> length (m_handleToNodeIdInVector m) \<or> \<not> IsNodeIdUnique m node"
    | (clash) h' where "m_state m = QC_OBJECT_STATE_READY"
        "IsMemoryHandleRegistered m h' \<noteq> None"
        "h' = SetRandomNumber (SetNodeCount (SetNodeType h (n_type node))
                (of_nat (length (m_handleToNodeIdInVector m) + 1))) rnd"
        "ML_Register node h rnd m = (QC_STATUS_FAIL, h', m\<lparr>m_state := QC_OBJECT_STATE_ERROR\<rparr>)"
    | (added) h' where "m_state m = QC_OBJECT_STATE_READY"
        "n_id node < numOfNodes (m_config m)" "IsNodeIdUnique m node"
        "length (m_handleToNodeIdInVector m) < nodes_of m"
        "IsMemoryHandleRegistered m h' = None"
        "h' = SetRandomNumber (SetNodeCount (SetNodeType h (n_type node))
                (of_nat (length (m_handleToNodeIdInVector m) + 1))) rnd"
        "ML_Register node h rnd m = (QC_STATUS_OK, h',
           m\<lparr>m_handleToNodeIdInVector := std_insert handle_less fst (h', ucast (n_id node))
                                         (m_handleToNodeIdInVector m)\<rparr>)"
        "n_type node < QC_NODE_TYPE_LAST" "n_type node \<noteq> QC_NODE_TYPE_RESERVED"
proof -
  define h1 where "h1 = SetNodeType h (n_type node)"
  define h' where "h' = SetRandomNumber (SetNodeCount h1
                (of_nat (length (m_handleToNodeIdInVector m) + 1))) rnd"
  let ?ins = "std_insert handle_less fst (h', ucast (n_id node)) (m_handleToNodeIdInVector m)"
  have ins: "IsMemoryHandleRegistered (m\<lparr>m_handleToNodeIdInVector := ?ins\<rparr>) h' \<noteq> None"
    using handle_order.find_insert_same [of fst "(h', ucast (n_id node))"]
    by (auto simp: IsMemoryHandleRegistered_def split: option.split)
  show ?thesis
  proof (cases "m_state m \<noteq> QC_OBJECT_STATE_READY \<or>
      QC_NODE_TYPE_LAST \<le> n_type node \<or> n_type node = QC_NODE_TYPE_RESERVED \<or>
      numOfNodes (m_config m) \<le> n_id node \<or>
      unat (numOfNodes (m_config m)) \<le> length (m_handleToNodeIdInVector m) \<or>
      \<not> IsNodeIdUnique m node")
    case True
    then show ?thesis
      by (intro refused [of "fst (ML_Register node h rnd m)"
            "fst (snd (ML_Register node h rnd m))"])
        (auto simp: ML_Register_def Let_def nodes_of_def not_less)
  next
    case ok: False
    show ?thesis
    proof (cases "IsMemoryHandleRegistered m h' = None")
      case True
      with ok ins show ?thesis
        by (intro added [of h'])
          (simp_all add: ML_Register_def Let_def nodes_of_def h1_def h'_def not_le
            del: of_nat_add of_nat_Suc)
    next
      case False
      with ok show ?thesis
        by (intro clash [of h'])
          (simp_all add: ML_Register_def Let_def h1_def h'_def del: of_nat_add of_nat_Suc)
    qed
  qed
qed

text \<open>With well-formed tables, every operation that takes a handle refuses, or runs on the entry of
  a node, or is given a stale handle and indexes past the end of a table.\<close>

lemma tables_length:
  "mgr_tables m \<Longrightarrow> length (m_pools m) = nodes_of m"
  "mgr_tables m \<Longrightarrow> length (m_allocations m) = nodes_of m"
  by (simp_all add: mgr_tables_def)

lemma AllocateBuffer_undefined:
  assumes "mgr_tables m"
  shows "ML_AllocateBuffer h a req b m = None \<longleftrightarrow> m_state m = QC_OBJECT_STATE_READY \<and>
    p_size req \<noteq> 0 \<and> a < QC_MEMORY_ALLOCATOR_LAST \<and> stale_handle m h"
  using tables_length [OF assms]
  by (cases rule: handle_cases [of m h])
    (auto simp: ML_AllocateBuffer_def Let_def node_of_Some node_of_not_stale split: prod.split)

lemma FreeBuffer_undefined:
  assumes "mgr_tables m"
  shows "ML_FreeBuffer h b m = None \<longleftrightarrow> m_state m = QC_OBJECT_STATE_READY \<and>
    allocatorType b < QC_MEMORY_ALLOCATOR_LAST \<and> stale_handle m h"
  using tables_length [OF assms]
  by (cases rule: handle_cases [of m h])
    (auto simp: ML_FreeBuffer_def Let_def node_of_Some node_of_not_stale split: prod.split)

lemma DestroyPool_undefined:
  assumes "mgr_tables m"
  shows "ML_DestroyPool ph m = None \<longleftrightarrow>
    m_state m = QC_OBJECT_STATE_READY \<and> stale_handle m (GetMemoryHandle ph)"
  using tables_length [OF assms]
  by (cases rule: handle_cases [of m "GetMemoryHandle ph"])
    (auto simp: ML_DestroyPool_def Let_def node_of_Some node_of_not_stale split: option.split)

lemma AllocateBufferFromPool_undefined:
  assumes "mgr_tables m"
  shows "ML_AllocateBufferFromPool ph b m = None \<longleftrightarrow>
    m_state m = QC_OBJECT_STATE_READY \<and> stale_handle m (GetMemoryHandle ph)"
  using tables_length [OF assms]
  by (cases rule: handle_cases [of m "GetMemoryHandle ph"])
    (auto simp: ML_AllocateBufferFromPool_def Let_def node_of_Some node_of_not_stale
      split: option.split prod.split)

lemma PutBufferToPool_undefined:
  assumes "mgr_tables m"
  shows "ML_PutBufferToPool ph b m = None \<longleftrightarrow>
    m_state m = QC_OBJECT_STATE_READY \<and> stale_handle m (GetMemoryHandle ph)"
  using tables_length [OF assms]
  by (cases rule: handle_cases [of m "GetMemoryHandle ph"])
    (auto simp: ML_PutBufferToPool_def Let_def node_of_Some node_of_not_stale
      split: option.split prod.split)

lemma CreatePool_undefined:
  assumes "mgr_tables m"
  shows "ML_CreatePool h cfg ph rnd m = None \<longleftrightarrow> m_state m = QC_OBJECT_STATE_READY \<and>
    pic_allocator cfg < QC_MEMORY_ALLOCATOR_LAST \<and> stale_handle m h"
  using tables_length [OF assms]
  by (cases rule: handle_cases [of m h])
    (auto simp: ML_CreatePool_def Let_def node_of_Some node_of_not_stale split: prod.split)

definition soft :: "QCStatus_e \<Rightarrow> bool" where
  "soft s \<longleftrightarrow> s \<noteq> QC_STATUS_OK \<and> s \<noteq> QC_STATUS_FAIL"

lemma soft_simps [simp]:
  "soft QC_STATUS_BAD_STATE" "soft QC_STATUS_BAD_ARGUMENTS" "soft QC_STATUS_OUT_OF_BOUND"
  "soft QC_STATUS_NULL_PTR" "soft QC_STATUS_NO_RESOURCE" "\<not> soft QC_STATUS_OK"
  "\<not> soft QC_STATUS_FAIL"
  by (simp_all add: soft_def)

lemma AllocateBuffer_cases:
  assumes "mgr_tables m"
  obtains (undef) "stale_handle m h" "ML_AllocateBuffer h a req b m = None"
    | (refused) s where "soft s" "ML_AllocateBuffer h a req b m = Some (s, b, m)"
    | (failed) i s b' w' where "m_state m = QC_OBJECT_STATE_READY" "a < QC_MEMORY_ALLOCATOR_LAST"
        "node_of m h = Some i"
        "Allocate (allocators (m_config m) a) req b (world m) = (s, b', w')" "s \<noteq> QC_STATUS_OK"
        "ML_AllocateBuffer h a req b m =
           Some (s, b', snd (fail_to_error s (m\<lparr>world := w'\<rparr>)))"
    | (allocated) i b' w' where "m_state m = QC_OBJECT_STATE_READY" "a < QC_MEMORY_ALLOCATOR_LAST"
        "p_size req \<noteq> 0" "node_of m h = Some i"
        "Allocate (allocators (m_config m) a) req b (world m) = (QC_STATUS_OK, b', w')"
        "ML_AllocateBuffer h a req b m = Some (QC_STATUS_OK, b',
           set_allocationSet (unat i) (std_insert buffer_less id b' (m_allocations m ! unat i))
             (m\<lparr>world := w'\<rparr>))"
proof (cases "m_state m \<noteq> QC_OBJECT_STATE_READY \<or> p_size req = 0 \<or>
    node_of m h = None \<or> QC_MEMORY_ALLOCATOR_LAST \<le> a")
  case True
  show ?thesis
  proof (cases "ML_AllocateBuffer h a req b m = None")
    case None: True
    with AllocateBuffer_undefined [OF assms] show ?thesis by (intro undef) auto
  next
    case defined: False
    note this [unfolded AllocateBuffer_undefined [OF assms]]
    with True show ?thesis
      by (intro refused [of "if m_state m \<noteq> QC_OBJECT_STATE_READY then QC_STATUS_BAD_STATE
            else QC_STATUS_BAD_ARGUMENTS"]) (auto simp: ML_AllocateBuffer_def node_of_None split: option.split)
  qed
next
  case False
  then obtain i where i: "node_of m h = Some i" by auto
  obtain s b' w' where alloc: "Allocate (allocators (m_config m) a) req b (world m) = (s, b', w')"
    by (metis prod_cases3)
  note b = node_bound [OF assms i]
  show ?thesis
  proof (cases "s = QC_STATUS_OK")
    case True
    with False i alloc b show ?thesis
      using buffer_order.find_insert_same [of id b' "m_allocations m ! unat i"]
      by (intro allocated [of i b' w']) (simp_all add: ML_AllocateBuffer_def Let_def)
  next
    case notok: False
    with False i alloc b show ?thesis
      by (intro failed [of i s b' w'])
        (simp_all add: ML_AllocateBuffer_def Let_def fail_to_error_def)
  qed
qed

lemma FreeBuffer_cases:
  assumes "mgr_tables m"
  obtains (undef) "stale_handle m h" "ML_FreeBuffer h b m = None"
    | (refused) s where "soft s" "ML_FreeBuffer h b m = Some (s, m)"
        "m_state m \<noteq> QC_OBJECT_STATE_READY \<or> QC_MEMORY_ALLOCATOR_LAST \<le> allocatorType b \<or>
         (\<forall>i. node_of m h = Some i \<longrightarrow>
            std_find buffer_less id b (m_allocations m ! unat i) = None)"
    | (failed) i s w' where "m_state m = QC_OBJECT_STATE_READY"
        "node_of m h = Some i" "allocatorType b < QC_MEMORY_ALLOCATOR_LAST"
        "std_find buffer_less id b (m_allocations m ! unat i) \<noteq> None"
        "Free (allocators (m_config m) (allocatorType b)) b (world m) = (s, w')"
        "s \<noteq> QC_STATUS_OK"
        "ML_FreeBuffer h b m = Some (s, snd (fail_to_error s (m\<lparr>world := w'\<rparr>)))"
    | (freed) i w' where "m_state m = QC_OBJECT_STATE_READY"
        "node_of m h = Some i" "allocatorType b < QC_MEMORY_ALLOCATOR_LAST"
        "std_find buffer_less id b (m_allocations m ! unat i) \<noteq> None"
        "Free (allocators (m_config m) (allocatorType b)) b (world m) = (QC_STATUS_OK, w')"
        "ML_FreeBuffer h b m = Some (QC_STATUS_OK,
           set_allocationSet (unat i) (std_erase buffer_less id b (m_allocations m ! unat i))
             (m\<lparr>world := w'\<rparr>))"
proof (cases "m_state m \<noteq> QC_OBJECT_STATE_READY \<or> node_of m h = None \<or>
    QC_MEMORY_ALLOCATOR_LAST \<le> allocatorType b")
  case True
  show ?thesis
  proof (cases "ML_FreeBuffer h b m = None")
    case None: True
    with FreeBuffer_undefined [OF assms] show ?thesis by (intro undef) auto
  next
    case defined: False
    note this [unfolded FreeBuffer_undefined [OF assms]]
    with True show ?thesis
      by (intro refused [of "if m_state m \<noteq> QC_OBJECT_STATE_READY then QC_STATUS_BAD_STATE
            else QC_STATUS_BAD_ARGUMENTS"]) (auto simp: ML_FreeBuffer_def node_of_None node_of_Some split: option.split)
  qed
next
  case False
  then obtain i where i: "node_of m h = Some i" by auto
  note bd = node_bound [OF assms i]
  let ?f = "std_find buffer_less id b (m_allocations m ! unat i)"
  obtain s w' where free: "Free (allocators (m_config m) (allocatorType b)) b (world m) = (s, w')"
    by fastforce
  show ?thesis
  proof (cases "?f = None")
    case True
    with False i bd show ?thesis
      by (intro refused [of QC_STATUS_BAD_ARGUMENTS]) (simp_all add: ML_FreeBuffer_def Let_def)
  next
    case found: False
    show ?thesis
    proof (cases "s = QC_STATUS_OK")
      case True
      with False i free bd found show ?thesis
        using buffer_order.find_erase_same [of id b "m_allocations m ! unat i"]
        by (intro freed [of i w']) (simp_all add: ML_FreeBuffer_def Let_def)
    next
      case notok: False
      with False i free bd found show ?thesis
        by (intro failed [of i s w']) (simp_all add: ML_FreeBuffer_def Let_def fail_to_error_def)
    qed
  qed
qed

abbreviation (input) pool_at ::
  "'w ManagerLocal \<Rightarrow> u8 \<Rightarrow> QCMemoryPoolHandle \<Rightarrow> 'w Pool \<Rightarrow> bool" where
  "pool_at m i ph p \<equiv>
     std_find pool_handle_less fst ph (poolMap (m_pools m ! unat i)) = Some (ph, p)"

abbreviation (input) write_pool ::
  "u8 \<Rightarrow> QCMemoryPoolHandle \<Rightarrow> 'w Pool \<Rightarrow> 'w ManagerLocal \<Rightarrow> 'w ManagerLocal" where
  "write_pool i ph p m \<equiv>
     set_poolMap (unat i) ((m_pools m ! unat i)
       \<lparr>poolMap := map (\<lambda>e. if fst e = ph then (fst e, p) else e) (poolMap (m_pools m ! unat i))\<rparr>) m"

lemma find_pool_key:
  "std_find pool_handle_less fst ph xs = Some e \<Longrightarrow> \<exists>p. e = (ph, p) \<and> (ph, p) \<in> set xs"
  by (cases e) (auto dest!: std_find_SomeD simp: pool_handle_order.equiv_iff_eq)

lemma DestroyPool_cases:
  assumes "mgr_tables m"
  obtains (undef) "stale_handle m (GetMemoryHandle ph)" "ML_DestroyPool ph m = None"
    | (refused) s where "soft s" "ML_DestroyPool ph m = Some (s, m)"
        "m_state m \<noteq> QC_OBJECT_STATE_READY \<or>
         (\<forall>i. node_of m (GetMemoryHandle ph) = Some i \<longrightarrow>
            std_find pool_handle_less fst ph (poolMap (m_pools m ! unat i)) = None)"
    | (destroyed) i p where "m_state m = QC_OBJECT_STATE_READY"
        "node_of m (GetMemoryHandle ph) = Some i" "pool_at m i ph p"
        "ML_DestroyPool ph m = Some (QC_STATUS_OK,
           (set_poolMap (unat i) ((m_pools m ! unat i)
              \<lparr>poolMap := std_erase pool_handle_less fst ph (poolMap (m_pools m ! unat i))\<rparr>) m)
             \<lparr>world := Pool_destroy p (world m)\<rparr>)"
proof (cases "m_state m \<noteq> QC_OBJECT_STATE_READY \<or>
    node_of m (GetMemoryHandle ph) = None")
  case True
  show ?thesis
  proof (cases "ML_DestroyPool ph m = None")
    case None: True
    with DestroyPool_undefined [OF assms] show ?thesis by (intro undef) auto
  next
    case defined: False
    note this [unfolded DestroyPool_undefined [OF assms]]
    with True show ?thesis
      by (intro refused [of "if m_state m \<noteq> QC_OBJECT_STATE_READY then QC_STATUS_BAD_STATE
            else QC_STATUS_BAD_ARGUMENTS"]) (auto simp: ML_DestroyPool_def node_of_None node_of_Some split: option.split)
  qed
next
  case False
  then obtain i where i: "node_of m (GetMemoryHandle ph) = Some i" by auto
  note bd = node_bound [OF assms i]
  let ?pm = "poolMap (m_pools m ! unat i)"
  show ?thesis
  proof (cases "std_find pool_handle_less fst ph ?pm")
    case None
    with False i bd show ?thesis
      by (intro refused [of QC_STATUS_BAD_ARGUMENTS]) (simp_all add: ML_DestroyPool_def Let_def)
  next
    case (Some e)
    then obtain p where e: "e = (ph, p)" "(ph, p) \<in> set ?pm" by (auto dest: find_pool_key)
    have "std_sorted pool_handle_less fst ?pm"
      using tables_pools_ok [OF assms bd(2)] by (simp add: pools_ok_def)
    from pool_handle_order.length_erase_member [OF this e(2)]
    have "length ?pm - length (std_erase pool_handle_less fst ph ?pm) = 1" by simp
    with False i bd Some e(1) show ?thesis
      by (intro destroyed [of i p]) (simp_all add: ML_DestroyPool_def Let_def)
  qed
qed

lemma AllocateBufferFromPool_cases:
  assumes "mgr_tables m"
  obtains (undef) "stale_handle m (GetMemoryHandle ph)" "ML_AllocateBufferFromPool ph b m = None"
    | (refused) s where "soft s" "ML_AllocateBufferFromPool ph b m = Some (s, b, m)"
    | (asked) i p s b' p' where "m_state m = QC_OBJECT_STATE_READY"
        "node_of m (GetMemoryHandle ph) = Some i" "pool_at m i ph p"
        "Pool_GetElement p b = (s, b', p')"
        "ML_AllocateBufferFromPool ph b m =
           Some (s, b', snd (fail_to_error s (write_pool i ph p' m)))"
proof (cases "m_state m \<noteq> QC_OBJECT_STATE_READY \<or>
    node_of m (GetMemoryHandle ph) = None")
  case True
  show ?thesis
  proof (cases "ML_AllocateBufferFromPool ph b m = None")
    case None: True
    with AllocateBufferFromPool_undefined [OF assms] show ?thesis by (intro undef) auto
  next
    case defined: False
    note this [unfolded AllocateBufferFromPool_undefined [OF assms]]
    with True show ?thesis
      by (intro refused [of "if m_state m \<noteq> QC_OBJECT_STATE_READY then QC_STATUS_BAD_STATE
            else QC_STATUS_BAD_ARGUMENTS"])
        (auto simp: ML_AllocateBufferFromPool_def node_of_None split: option.split)
  qed
next
  case False
  then obtain i where i: "node_of m (GetMemoryHandle ph) = Some i" by auto
  note bd = node_bound [OF assms i]
  show ?thesis
  proof (cases "std_find pool_handle_less fst ph (poolMap (m_pools m ! unat i))")
    case None
    with False i bd show ?thesis
      by (intro refused [of QC_STATUS_BAD_ARGUMENTS])
        (simp_all add: ML_AllocateBufferFromPool_def Let_def)
  next
    case (Some e)
    then obtain p where e: "e = (ph, p)" by (auto dest: find_pool_key)
    obtain s b' p' where "Pool_GetElement p b = (s, b', p')" by (metis prod_cases3)
    with False i bd Some e show ?thesis
      by (intro asked [of i p s b' p'])
        (simp_all add: ML_AllocateBufferFromPool_def Let_def fail_to_error_def)
  qed
qed

lemma PutBufferToPool_cases:
  assumes "mgr_tables m"
  obtains (undef) "stale_handle m (GetMemoryHandle ph)" "ML_PutBufferToPool ph b m = None"
    | (refused) s where "soft s" "ML_PutBufferToPool ph b m = Some (s, m)"
    | (asked) i p s p' where "m_state m = QC_OBJECT_STATE_READY"
        "node_of m (GetMemoryHandle ph) = Some i" "pool_at m i ph p"
        "Pool_PutElement p b = (s, p')"
        "ML_PutBufferToPool ph b m = Some (s, snd (fail_to_error s (write_pool i ph p' m)))"
proof (cases "m_state m \<noteq> QC_OBJECT_STATE_READY \<or>
    node_of m (GetMemoryHandle ph) = None")
  case True
  show ?thesis
  proof (cases "ML_PutBufferToPool ph b m = None")
    case None: True
    with PutBufferToPool_undefined [OF assms] show ?thesis by (intro undef) auto
  next
    case defined: False
    note this [unfolded PutBufferToPool_undefined [OF assms]]
    with True show ?thesis
      by (intro refused [of "if m_state m \<noteq> QC_OBJECT_STATE_READY then QC_STATUS_BAD_STATE
            else QC_STATUS_BAD_ARGUMENTS"])
        (auto simp: ML_PutBufferToPool_def node_of_None split: option.split)
  qed
next
  case False
  then obtain i where i: "node_of m (GetMemoryHandle ph) = Some i" by auto
  note bd = node_bound [OF assms i]
  show ?thesis
  proof (cases "std_find pool_handle_less fst ph (poolMap (m_pools m ! unat i))")
    case None
    with False i bd show ?thesis
      by (intro refused [of QC_STATUS_BAD_ARGUMENTS])
        (simp_all add: ML_PutBufferToPool_def Let_def)
  next
    case (Some e)
    then obtain p where e: "e = (ph, p)" by (auto dest: find_pool_key)
    obtain s p' where "Pool_PutElement p b = (s, p')" by fastforce
    with False i bd Some e show ?thesis
      by (intro asked [of i p s p'])
        (simp_all add: ML_PutBufferToPool_def Let_def fail_to_error_def)
  qed
qed

text \<open>Creating a pool: the handle that clashes and the counter advance are visible, and a pool
  whose initialisation fails is either destroyed or, for \<^verbatim>\<open>QC_STATUS_FAIL\<close>, abandoned.\<close>

definition pool_config_of ::
  "QCMemoryPoolInitConfig \<Rightarrow> 'w ManagerLocal \<Rightarrow> 'w QCMemoryPoolConfig" where
  "pool_config_of poolCfg m =
     \<lparr>cfg_buff = pic_buff poolCfg, cfg_maxElements = pic_maxElements poolCfg,
      cfg_name = pic_name poolCfg,
      cfg_allocator = allocators (m_config m) (pic_allocator poolCfg)\<rparr>"

definition next_pool_map :: "u8 \<Rightarrow> 'w ManagerLocal \<Rightarrow> 'w PoolMapWithMutex" where
  "next_pool_map i m = (m_pools m ! unat i)
     \<lparr>poolSequenceCounter := poolSequenceCounter (m_pools m ! unat i) + 1\<rparr>"

lemma poolMap_next [simp]: "poolMap (next_pool_map i m) = poolMap (m_pools m ! unat i)"
  by (simp add: next_pool_map_def)

lemma set_poolMap_twice [simp]:
  "set_poolMap i a ((set_poolMap i b m)\<lparr>world := w\<rparr>) = set_poolMap i a (m\<lparr>world := w\<rparr>)"
  by (simp add: set_poolMap_def)

lemma set_poolMap_state:
  "m_state m = s \<Longrightarrow> (set_poolMap i a (m\<lparr>world := w\<rparr>))\<lparr>m_state := s\<rparr> = set_poolMap i a (m\<lparr>world := w\<rparr>)"
  by (cases m) (simp add: set_poolMap_def)

lemma CreatePool_cases:
  assumes "mgr_tables m"
  obtains (undef) "stale_handle m h" "ML_CreatePool h cfg ph rnd m = None"
    | (refused) s where "soft s" "ML_CreatePool h cfg ph rnd m = Some (s, ph, m)"
    | (clash) i ph' where "node_of m h = Some i"
        "std_find pool_handle_less fst ph' (poolMap (m_pools m ! unat i)) \<noteq> None"
        "ML_CreatePool h cfg ph rnd m = Some (QC_STATUS_FAIL, ph',
           (set_poolMap (unat i) (next_pool_map i m) m)\<lparr>m_state := QC_OBJECT_STATE_ERROR\<rparr>)"
    | (failed) i ph' s p w' where "node_of m h = Some i"
        "m_state m = QC_OBJECT_STATE_READY" "pic_allocator cfg < QC_MEMORY_ALLOCATOR_LAST"
        "Pool_Init (Pool_new (pool_config_of cfg m)) (world m) = (s, p, w')" "s \<noteq> QC_STATUS_OK"
        "ML_CreatePool h cfg ph rnd m = Some (s, ph',
           if s = QC_STATUS_FAIL
           then (set_poolMap (unat i) (next_pool_map i m) m)
                  \<lparr>world := w', m_state := QC_OBJECT_STATE_ERROR\<rparr>
           else (set_poolMap (unat i) (next_pool_map i m) m)
                  \<lparr>world := Pool_destroy p w', m_state := QC_OBJECT_STATE_READY\<rparr>)"
    | (created) i ph' p w' where "node_of m h = Some i"
        "m_state m = QC_OBJECT_STATE_READY" "pic_allocator cfg < QC_MEMORY_ALLOCATOR_LAST"
        "length (poolMap (m_pools m ! unat i)) < QC_MEMORY_MAX_POOLS_PER_NODE"
        "GetMemoryHandle ph' = h"
        "std_find pool_handle_less fst ph' (poolMap (m_pools m ! unat i)) = None"
        "Pool_Init (Pool_new (pool_config_of cfg m)) (world m) = (QC_STATUS_OK, p, w')"
        "ML_CreatePool h cfg ph rnd m = Some (QC_STATUS_OK, ph',
           set_poolMap (unat i) ((next_pool_map i m)
             \<lparr>poolMap := std_insert pool_handle_less fst (ph', p) (poolMap (m_pools m ! unat i))\<rparr>)
             (m\<lparr>world := w'\<rparr>))"
proof (cases "m_state m \<noteq> QC_OBJECT_STATE_READY \<or> node_of m h = None \<or>
    QC_MEMORY_ALLOCATOR_LAST \<le> pic_allocator cfg")
  case True
  show ?thesis
  proof (cases "ML_CreatePool h cfg ph rnd m = None")
    case None: True
    with CreatePool_undefined [OF assms] show ?thesis by (intro undef) auto
  next
    case defined: False
    note this [unfolded CreatePool_undefined [OF assms]]
    with True show ?thesis
      by (intro refused [of "if m_state m \<noteq> QC_OBJECT_STATE_READY then QC_STATUS_BAD_STATE
            else QC_STATUS_BAD_ARGUMENTS"]) (auto simp: ML_CreatePool_def node_of_None split: option.split)
  qed
next
  case False
  then obtain i where i: "node_of m h = Some i" by auto
  note bd = node_bound [OF assms i]
  let ?pm = "m_pools m ! unat i"
  have len: "length (poolMap ?pm) \<le> QC_MEMORY_MAX_POOLS_PER_NODE"
    using tables_pools_ok [OF assms bd(2)] by (simp add: pools_ok_def)
  define ph' where "ph' = SetPoolCount (SetPoolRandomNumber (SetMemoryHandle ph h) rnd)
                            (poolSequenceCounter ?pm)"
  have ph'_handle: "GetMemoryHandle ph' = h" by (simp add: ph'_def)
  obtain s p w' where init: "Pool_Init (Pool_new (pool_config_of cfg m)) (world m) = (s, p, w')"
    by (metis prod_cases3)
  show ?thesis
  proof (cases "length (poolMap ?pm) = QC_MEMORY_MAX_POOLS_PER_NODE")
    case True
    with False i bd show ?thesis
      by (intro refused [of QC_STATUS_OUT_OF_BOUND]) (simp_all add: ML_CreatePool_def Let_def)
  next
    case room: False
    show ?thesis
    proof (cases "std_find pool_handle_less fst ph' (poolMap ?pm) = None")
      case nofind: False
      with False i bd room show ?thesis
        by (intro clash [of i ph'])
          (simp_all add: ML_CreatePool_def Let_def next_pool_map_def ph'_def [symmetric])
    next
      case fresh: True
      note unfolded = ML_CreatePool_def Let_def next_pool_map_def [symmetric]
        ph'_def [symmetric] pool_config_of_def [symmetric]
      show ?thesis
      proof (cases "s = QC_STATUS_OK")
        case True
        have "std_find pool_handle_less fst ph'
            (std_insert pool_handle_less fst (ph', p) (poolMap ?pm)) \<noteq> None"
          using pool_handle_order.find_insert_same [of fst "(ph', p)"] by simp
        with False i bd room fresh init True len show ?thesis
          by (intro created [of i ph' p w'])
            (simp_all add: unfolded ph'_handle set_poolMap_state)
      next
        case notok: False
        with False i bd room fresh init show ?thesis
          by (intro failed [of i s p w' ph']) (auto simp: unfolded)
      qed
    qed
  qed
qed

subsection \<open>Each operation keeps the tables\<close>

lemma tables_Initialize:
  assumes "mgr_inv m"
  shows "mgr_inv (snd (ML_Initialize ini m))"
  using Initialize_cases [of m ini]
proof cases
  case started
  with assms have n0: "m_pools m = []" "m_allocations m = []" "mgr_tables m"
    by (auto simp: mgr_inv_def mgr_tables_def)
  with started show ?thesis
    by (simp add: mgr_inv_def mgr_tables_def nodes_of_def node_ids_def pools_ok_def
        PoolMapWithMutex_init_def)
qed (use assms in \<open>auto simp: mgr_inv_def\<close>)

text \<open>A node id that passes \<open>IsNodeIdUnique\<close> is not in the registry.\<close>

lemma unique_fresh_id:
  "IsNodeIdUnique m node \<longleftrightarrow> (ucast (n_id node) :: u32) \<notin> snd ` set (m_handleToNodeIdInVector m)"
  by (auto simp: IsNodeIdUnique_def list_all_iff)

lemma registered_insert:
  assumes "IsMemoryHandleRegistered m h' = None"
  shows "IsMemoryHandleRegistered (m\<lparr>m_handleToNodeIdInVector :=
           std_insert handle_less fst (h', nid) (m_handleToNodeIdInVector m)\<rparr>) k =
         (if k = h' then Some (ucast nid) else IsMemoryHandleRegistered m k)"
proof -
  from assms have "std_find handle_less fst (fst (h', nid)) (m_handleToNodeIdInVector m) = None"
    by (simp add: IsMemoryHandleRegistered_def split: option.splits)
  from handle_order.find_insert [OF this, of k] show ?thesis
    by (simp add: IsMemoryHandleRegistered_def)
qed

lemma unat_ucast_u8: "unat (ucast (x :: u8) :: u32) = unat x"
  using unsigned_less [of x, where 'a = nat] by (simp add: unsigned_ucast_eq take_bit_eq_mod)

lemma ucast_u8_u32_u8 [simp]: "(ucast (ucast (x :: u8) :: u32) :: u8) = x"
  by transfer simp

lemma tables_insert:
  assumes tables: "mgr_tables m" and fresh: "IsMemoryHandleRegistered m h' = None"
    and id: "(ucast x :: u32) \<notin> snd ` set (m_handleToNodeIdInVector m)"
      "x < numOfNodes (m_config m)"
  shows "mgr_tables (m\<lparr>m_handleToNodeIdInVector :=
           std_insert handle_less fst (h', ucast x) (m_handleToNodeIdInVector m)\<rparr>)"
    (is "mgr_tables ?m")
proof -
  let ?reg = "m_handleToNodeIdInVector m"
  let ?ins = "std_insert handle_less fst (h', ucast x :: u32) ?reg"
  from fresh have nf: "std_find handle_less fst (fst (h', ucast x :: u32)) ?reg = None"
    by (simp add: IsMemoryHandleRegistered_def split: option.splits)
  have set: "set ?ins = insert (h', ucast x) (set ?reg)"
    by (rule set_std_insert_fresh [OF nf])
  have node: "node_of ?m k = (if k = h' then Some x else node_of m k)" for k
    using id(2) by (simp add: node_of_def registered_insert [OF fresh] split: option.split)
  have len: "length ?ins = Suc (length ?reg)" by (rule length_std_insert_fresh [OF nf])
  have sorted: "std_sorted handle_less fst ?ins"
    using tables by (simp add: mgr_tables_def handle_order.sorted_insert)
  have "card (snd ` set ?ins) = Suc (card (snd ` set ?reg))"
    using id(1) by (simp add: set)
  moreover have "card (snd ` set ?reg) = length ?reg"
    using tables distinct_card [of "map snd ?reg"] by (simp add: mgr_tables_def)
  ultimately have dist: "distinct (map snd ?ins)"
    using len by (intro card_distinct) simp
  have ids: "node_ids ?m = insert (unat x) (node_ids m)"
    by (simp add: node_ids_def set unat_ucast_u8)
  have x: "unat x < 256" using unsigned_less [of x, where 'a = nat] by simp
  have pools: "pools_ok m i pm \<Longrightarrow> pools_ok ?m i pm" for i pm
    using registered_node [OF fresh] by (auto simp: pools_ok_def node)
  show ?thesis
    using tables sorted dist len x pools
    by (auto simp: mgr_tables_def ids)
qed

lemma tables_Register:
  "mgr_tables m \<Longrightarrow> mgr_tables (snd (snd (ML_Register node h rnd m)))"
  by (cases rule: Register_cases [of node h rnd m])
    (simp_all add: tables_insert unique_fresh_id)

lemma tables_AllocateBuffer:
  assumes t: "mgr_tables m" and r: "ML_AllocateBuffer h a req b m = Some (s, b', m')"
  shows "mgr_tables m'"
  using t
proof (cases rule: AllocateBuffer_cases [where h = h and a = a and req = req and b = b])
  case (allocated i b' w')
  note bd = node_bound [OF t allocated(4)]
  have "mgr_tables (set_allocationSet (unat i)
      (std_insert buffer_less id b' (m_allocations m ! unat i)) (m\<lparr>world := w'\<rparr>))"
    using t bd(3,4)
    by (intro tables_set_allocationSet buffer_order.sorted_insert tables_alloc_sorted) simp_all
  with allocated(6) show ?thesis using r by simp
qed (use assms in auto)

lemma tables_FreeBuffer:
  assumes t: "mgr_tables m" and r: "ML_FreeBuffer h b m = Some (s, m')"
  shows "mgr_tables m'"
  using t
proof (cases rule: FreeBuffer_cases [where h = h and b = b])
  case (freed i w')
  note bd = node_bound [OF t freed(2)]
  have "mgr_tables (set_allocationSet (unat i)
      (std_erase buffer_less id b (m_allocations m ! unat i)) (m\<lparr>world := w'\<rparr>))"
    using t bd(3,4)
    by (intro tables_set_allocationSet std_sorted_erase tables_alloc_sorted) simp_all
  with freed(6) show ?thesis using r by simp
qed (use assms in auto)

lemma tables_DestroyPool:
  assumes t: "mgr_tables m" and r: "ML_DestroyPool ph m = Some (s, m')"
  shows "mgr_tables m'"
  using t
proof (cases rule: DestroyPool_cases [where ph = ph])
  case (destroyed i p)
  note bd = node_bound [OF t destroyed(2)]
  from destroyed t bd r show ?thesis
    by (auto intro!: tables_set_poolMap pools_ok_erase tables_pools_ok)
qed (use assms in auto)

lemma tables_write_pool:
  "mgr_tables m \<Longrightarrow> node_of m h = Some i \<Longrightarrow> mgr_tables (write_pool i ph p m)"
  by (intro tables_set_poolMap pools_ok_update tables_pools_ok node_bound)

lemma tables_AllocateBufferFromPool:
  assumes t: "mgr_tables m" and r: "ML_AllocateBufferFromPool ph b m = Some (s, b', m')"
  shows "mgr_tables m'"
  using t
  by (cases rule: AllocateBufferFromPool_cases [where ph = ph and b = b])
    (use assms tables_write_pool in auto)

lemma tables_PutBufferToPool:
  assumes t: "mgr_tables m" and r: "ML_PutBufferToPool ph b m = Some (s, m')"
  shows "mgr_tables m'"
  using t
  by (cases rule: PutBufferToPool_cases [where ph = ph and b = b])
    (use assms tables_write_pool in auto)

lemma tables_CreatePool:
  assumes t: "mgr_tables m" and r: "ML_CreatePool h cfg ph rnd m = Some (s, ph', m')"
  shows "mgr_tables m'"
proof -
  have next_ok: "pools_ok m (unat i) (next_pool_map i m)"
    if "node_of m h = Some i" for i
    using tables_pools_ok [OF t node_bound(2) [OF t that]]
    by (simp add: pools_ok_def)
  from assms show ?thesis
  proof (cases rule: CreatePool_cases [where h = h and cfg = cfg and ph = ph and rnd = rnd])
    case (created i ph' p w')
    let ?pm = "(next_pool_map i m)\<lparr>poolMap :=
      std_insert pool_handle_less fst (ph', p) (poolMap (m_pools m ! unat i))\<rparr>"
    from next_ok [OF created(1)] created(1,4-6) have "pools_ok m (unat i) ?pm"
      by (auto simp: pools_ok_def pool_handle_order.sorted_insert
          set_std_insert_fresh length_std_insert_fresh)
    then have "mgr_tables (set_poolMap (unat i) ?pm (m\<lparr>world := w'\<rparr>))"
      using assms by (intro tables_set_poolMap) simp_all
    with created(8) show ?thesis using r by simp
  qed (use assms next_ok in \<open>auto intro: tables_set_poolMap\<close>)
qed

subsection \<open>Reclaiming, un-registering and de-initialising\<close>

text \<open>What a reclaim never changes. A status that is not OK is never reset, so a reclaim that
  ends OK went through without a failure and has emptied the entry of the node.\<close>

definition same_registry :: "'w ManagerLocal \<Rightarrow> 'w ManagerLocal \<Rightarrow> bool" where
  "same_registry m m' \<longleftrightarrow> m_config m' = m_config m \<and>
     m_handleToNodeIdInVector m' = m_handleToNodeIdInVector m"

lemma same_registry_registered:
  "same_registry m m' \<Longrightarrow> IsMemoryHandleRegistered m' h = IsMemoryHandleRegistered m h"
  by (simp add: same_registry_def IsMemoryHandleRegistered_def)

lemma same_registry_node:
  "same_registry m m' \<Longrightarrow> node_of m' h = node_of m h"
  "same_registry m m' \<Longrightarrow> stale_handle m' h = stale_handle m h"
  by (simp_all add: node_of_def stale_handle_def IsMemoryHandleRegistered_def same_registry_def
      split: option.split)

lemma same_registry_nodes: "same_registry m m' \<Longrightarrow> nodes_of m' = nodes_of m"
  by (simp add: same_registry_def nodes_of_def)

lemma same_registry_trans: "same_registry m m1 \<Longrightarrow> same_registry m1 m2 \<Longrightarrow> same_registry m m2"
  by (simp add: same_registry_def)

lemma same_registry_refl [simp]: "same_registry m m"
  by (simp add: same_registry_def)

lemma FreeBuffer_frame:
  assumes "mgr_tables m" "node_of m h = Some i"
  shows "\<exists>s m'. ML_FreeBuffer h b m = Some (s, m') \<and> mgr_tables m' \<and> same_registry m m' \<and>
     m_pools m' = m_pools m \<and>
     (s = QC_STATUS_OK \<longrightarrow> m_state m' = m_state m \<and>
        m_allocations m' = (m_allocations m)
          [unat i := std_erase buffer_less id b (m_allocations m ! unat i)])"
proof -
  have "ML_FreeBuffer h b m \<noteq> None"
    using assms node_of_not_stale [of m h] by (auto simp: FreeBuffer_undefined)
  then obtain s m' where r: "ML_FreeBuffer h b m = Some (s, m')" "mgr_tables m'"
    using tables_FreeBuffer [OF assms(1)] by (cases "ML_FreeBuffer h b m") auto
  from assms(1) show ?thesis
  proof (cases rule: FreeBuffer_cases [where h = h and b = b])
    case (refused s')
    with assms(1) show ?thesis by (intro exI [of _ s'] exI [of _ m]) (auto simp: soft_def)
  qed (use r assms in \<open>auto simp: same_registry_def\<close>)
qed

lemma DestroyPool_frame:
  assumes "mgr_tables m" "map_option unat (node_of m (GetMemoryHandle ph)) = Some ni"
  shows "\<exists>s m'. ML_DestroyPool ph m = Some (s, m') \<and> mgr_tables m' \<and> same_registry m m' \<and>
     m_allocations m' = m_allocations m \<and>
     (s = QC_STATUS_OK \<longrightarrow> m_state m' = m_state m \<and>
        m_pools m' = (m_pools m) [ni := (m_pools m ! ni)
          \<lparr>poolMap := std_erase pool_handle_less fst ph (poolMap (m_pools m ! ni))\<rparr>])"
proof -
  have "ML_DestroyPool ph m \<noteq> None"
    using assms node_of_not_stale [of m "GetMemoryHandle ph"] by (auto simp: DestroyPool_undefined)
  then obtain s m' where r: "ML_DestroyPool ph m = Some (s, m')" "mgr_tables m'"
    using tables_DestroyPool [OF assms(1)] by (cases "ML_DestroyPool ph m") auto
  from assms(1) show ?thesis
  proof (cases rule: DestroyPool_cases [where ph = ph])
    case (refused s')
    with assms(1) show ?thesis by (intro exI [of _ s'] exI [of _ m]) (auto simp: soft_def)
  qed (use r assms in \<open>auto simp: same_registry_def\<close>)
qed

lemma reclaim_buffers_spec:
  assumes "mgr_tables m" "node_of m h = Some i"
    and "s \<noteq> QC_STATUS_OK \<Longrightarrow> st = QC_OBJECT_STATE_ERROR"
  shows "\<exists>s' st' m'. reclaim_buffers h bs (s, st, m) = Some (s', st', m') \<and> mgr_tables m' \<and>
     same_registry m m' \<and> m_pools m' = m_pools m \<and>
     (if s' = QC_STATUS_OK
      then s = QC_STATUS_OK \<and> st' = st \<and> m_state m' = m_state m \<and>
        m_allocations m' = (m_allocations m)
          [unat i := fold (std_erase buffer_less id) bs (m_allocations m ! unat i)]
      else st' = QC_OBJECT_STATE_ERROR)"
  using assms
proof (induction bs arbitrary: s st m)
  case Nil
  then show ?case by auto
next
  case (Cons b bs)
  note bd = node_bound [OF Cons.prems(1,2)]
  from FreeBuffer_frame [OF Cons.prems(1,2), of b] obtain ls m1 where
    f: "ML_FreeBuffer h b m = Some (ls, m1)" "mgr_tables m1" "same_registry m m1"
      "m_pools m1 = m_pools m"
      "ls = QC_STATUS_OK \<Longrightarrow> m_state m1 = m_state m \<and> m_allocations m1 = (m_allocations m)
          [unat i := std_erase buffer_less id b (m_allocations m ! unat i)]" by blast
  have reg: "node_of m1 h = Some i"
    using f(3) Cons.prems(2) by (simp add: same_registry_node)
  show ?case
  proof (cases "ls = QC_STATUS_OK")
    case True
    from Cons.IH [OF f(2) reg Cons.prems(3)] obtain s' st' m' where
      "reclaim_buffers h bs (s, st, m1) = Some (s', st', m')" "mgr_tables m'"
      "same_registry m1 m'" "m_pools m' = m_pools m1"
      "if s' = QC_STATUS_OK
       then s = QC_STATUS_OK \<and> st' = st \<and> m_state m' = m_state m1 \<and>
         m_allocations m' = (m_allocations m1)
           [unat i := fold (std_erase buffer_less id) bs (m_allocations m1 ! unat i)]
       else st' = QC_OBJECT_STATE_ERROR" by blast
    with True f bd show ?thesis
      by (intro exI [of _ s'] exI [of _ st'] exI [of _ m'])
        (auto split: if_splits intro: same_registry_trans)
  next
    case False
    from Cons.IH [OF f(2) reg, of ls QC_OBJECT_STATE_ERROR] False obtain s' st' m' where
      "reclaim_buffers h bs (ls, QC_OBJECT_STATE_ERROR, m1) = Some (s', st', m')" "mgr_tables m'"
      "same_registry m1 m'" "m_pools m' = m_pools m1"
      "s' \<noteq> QC_STATUS_OK" "st' = QC_OBJECT_STATE_ERROR" by (auto split: if_splits)
    with False f show ?thesis
      by (intro exI [of _ s'] exI [of _ st'] exI [of _ m']) (auto intro: same_registry_trans)
  qed
qed

lemma reclaim_pools_spec:
  assumes "mgr_tables m" "ni < length (m_pools m)"
    and "\<forall>ph \<in> set phs. map_option unat (node_of m (GetMemoryHandle ph)) = Some ni"
    and "s \<noteq> QC_STATUS_OK \<Longrightarrow> st = QC_OBJECT_STATE_ERROR"
  shows "\<exists>s' st' m'. reclaim_pools phs (s, st, m) = Some (s', st', m') \<and> mgr_tables m' \<and>
     same_registry m m' \<and> m_allocations m' = m_allocations m \<and>
     (if s' = QC_STATUS_OK
      then s = QC_STATUS_OK \<and> st' = st \<and> m_state m' = m_state m \<and>
        m_pools m' = (m_pools m) [ni := (m_pools m ! ni)
          \<lparr>poolMap := fold (std_erase pool_handle_less fst) phs (poolMap (m_pools m ! ni))\<rparr>]
      else st' = QC_OBJECT_STATE_ERROR)"
  using assms
proof (induction phs arbitrary: s st m)
  case Nil
  then show ?case by auto
next
  case (Cons ph phs)
  have "map_option unat (node_of m (GetMemoryHandle ph)) = Some ni"
    using Cons.prems(3) by simp
  from DestroyPool_frame [OF Cons.prems(1) this] obtain ls m1 where
    f: "ML_DestroyPool ph m = Some (ls, m1)" "mgr_tables m1" "same_registry m m1"
      "m_allocations m1 = m_allocations m"
      "ls = QC_STATUS_OK \<Longrightarrow> m_state m1 = m_state m \<and> m_pools m1 = (m_pools m) [ni :=
        (m_pools m ! ni)
          \<lparr>poolMap := std_erase pool_handle_less fst ph (poolMap (m_pools m ! ni))\<rparr>]" by blast
  have n: "ni < length (m_pools m1)"
    using Cons.prems(1,2) f(2,3) by (simp add: tables_length same_registry_nodes)
  have reg: "\<forall>ph \<in> set phs.
      map_option unat (node_of m1 (GetMemoryHandle ph)) = Some ni"
    using Cons.prems(3) f(3) by (simp add: same_registry_node)
  show ?case
  proof (cases "ls = QC_STATUS_OK")
    case True
    from Cons.IH [OF f(2) n reg Cons.prems(4)] obtain s' st' m' where
      "reclaim_pools phs (s, st, m1) = Some (s', st', m')" "mgr_tables m'"
      "same_registry m1 m'" "m_allocations m' = m_allocations m1"
      "if s' = QC_STATUS_OK
       then s = QC_STATUS_OK \<and> st' = st \<and> m_state m' = m_state m1 \<and>
         m_pools m' = (m_pools m1) [ni := (m_pools m1 ! ni)
           \<lparr>poolMap := fold (std_erase pool_handle_less fst) phs (poolMap (m_pools m1 ! ni))\<rparr>]
       else st' = QC_OBJECT_STATE_ERROR" by blast
    moreover have "same_registry m m'" using calculation f(3) by (blast intro: same_registry_trans)
    moreover note f(5) [OF True]
    ultimately show ?thesis using True f(1,4) Cons.prems(2)
      by (simp split: if_splits)
  next
    case False
    from Cons.IH [OF f(2) n reg, of ls QC_OBJECT_STATE_ERROR] False obtain s' st' m' where
      "reclaim_pools phs (ls, QC_OBJECT_STATE_ERROR, m1) = Some (s', st', m')" "mgr_tables m'"
      "same_registry m1 m'" "m_allocations m' = m_allocations m1"
      "s' \<noteq> QC_STATUS_OK" "st' = QC_OBJECT_STATE_ERROR" by (auto split: if_splits)
    with False f show ?thesis
      by (intro exI [of _ s'] exI [of _ st'] exI [of _ m']) (auto intro: same_registry_trans)
  qed
qed

lemma ReclaimResources_unregistered:
  "IsMemoryHandleRegistered m h = None \<Longrightarrow>
     ML_ReclaimResources h m = Some (QC_STATUS_BAD_ARGUMENTS, m)"
  by (simp add: ML_ReclaimResources_def Let_def)

lemma ReclaimResources_spec:
  assumes "mgr_tables m" "node_of m h = Some i"
  shows "\<exists>s m'. ML_ReclaimResources h m = Some (s, m') \<and> mgr_tables m' \<and> same_registry m m' \<and>
     (if s = QC_STATUS_OK
      then m_state m' = m_state m \<and> m_allocations m' = (m_allocations m)[unat i := []] \<and>
        m_pools m' = (m_pools m)[unat i := (m_pools m ! unat i)\<lparr>poolMap := []\<rparr>]
      else m_state m' = QC_OBJECT_STATE_ERROR)"
proof -
  define m0 where "m0 =
    (if m_state m \<noteq> QC_OBJECT_STATE_READY then m\<lparr>m_state := QC_OBJECT_STATE_READY\<rparr> else m)"
  let ?bs = "m_allocations m ! unat i"
  note bd = node_bound [OF assms]
  have m0: "mgr_tables m0" "node_of m0 h = Some i" "same_registry m m0"
      "m_pools m0 = m_pools m" "m_allocations m0 = m_allocations m"
    using assms by (simp_all add: same_registry_def m0_def)
  from reclaim_buffers_spec [OF m0(1,2), of QC_STATUS_OK "m_state m" ?bs] obtain s1 st1 m1 where
    b: "reclaim_buffers h ?bs (QC_STATUS_OK, m_state m, m0) = Some (s1, st1, m1)"
      "mgr_tables m1" "same_registry m0 m1" "m_pools m1 = m_pools m"
      "if s1 = QC_STATUS_OK
       then st1 = m_state m \<and> m_allocations m1 = (m_allocations m)[unat i := []]
       else st1 = QC_OBJECT_STATE_ERROR"
    using buffer_order.fold_erase_all [of id ?bs] m0(4,5) by auto
  let ?pm = "m_pools m ! unat i"
  have len: "unat i < length (m_pools m1)" using b(4) bd(2) by simp
  have keys: "\<forall>ph \<in> set (map fst (poolMap ?pm)).
      map_option unat (node_of m1 (GetMemoryHandle ph)) = Some (unat i)"
    using tables_pools_ok [OF assms(1) bd(2)] b(3) m0(3)
    by (auto simp: pools_ok_def same_registry_node)
  from reclaim_pools_spec [OF b(2) len keys, of s1 st1] b(5) obtain s2 st2 m2 where
    p: "reclaim_pools (map fst (poolMap ?pm)) (s1, st1, m1) = Some (s2, st2, m2)"
      "mgr_tables m2" "same_registry m1 m2" "m_allocations m2 = m_allocations m1"
      "if s2 = QC_STATUS_OK
       then s1 = QC_STATUS_OK \<and> st2 = st1 \<and>
         m_pools m2 = (m_pools m)[unat i := ?pm\<lparr>poolMap := []\<rparr>]
       else st2 = QC_OBJECT_STATE_ERROR"
    using pool_handle_order.fold_erase_all [of fst "poolMap ?pm"] b(4)
    by (auto split: if_splits)
  have "ML_ReclaimResources h m = Some (s2, m2\<lparr>m_state := st2\<rparr>)"
    using bd b(1,4) p(1) len node_bound(5) [OF m0(1,2)] m0(5)
    by (simp add: ML_ReclaimResources_def Let_def m0_def [symmetric])
  moreover have "same_registry m (m2\<lparr>m_state := st2\<rparr>)"
    using same_registry_trans [OF same_registry_trans [OF m0(3) b(3)] p(3)]
    by (simp add: same_registry_def)
  ultimately show ?thesis
    using p(2,4,5) b(5) by (auto split: if_splits)
qed

lemma ReclaimResources_undefined:
  assumes "mgr_tables m"
  shows "ML_ReclaimResources h m = None \<longleftrightarrow> stale_handle m h"
proof (cases rule: handle_cases [of m h])
  case unregistered
  then show ?thesis by (simp add: ReclaimResources_unregistered)
next
  case (stale i)
  with tables_length [OF assms] show ?thesis by (simp add: ML_ReclaimResources_def Let_def)
next
  case (node i)
  with ReclaimResources_spec [OF assms node] show ?thesis by (auto simp: node_of_not_stale)
qed

lemma registered_erase:
  "IsMemoryHandleRegistered (m\<lparr>m_handleToNodeIdInVector :=
     std_erase handle_less fst h (m_handleToNodeIdInVector m)\<rparr>) k =
   (if k = h then None else IsMemoryHandleRegistered m k)"
  by (simp add: IsMemoryHandleRegistered_def handle_order.find_erase)

lemma tables_erase:
  assumes tables: "mgr_tables m" and i: "node_of m h = Some i"
    and empty: "m_allocations m ! unat i = []" "poolMap (m_pools m ! unat i) = []"
  shows "mgr_tables (m\<lparr>m_handleToNodeIdInVector :=
           std_erase handle_less fst h (m_handleToNodeIdInVector m)\<rparr>)" (is "mgr_tables ?m")
proof -
  let ?reg = "m_handleToNodeIdInVector m" and ?er = "std_erase handle_less fst h"
  have sub: "node_ids ?m \<subseteq> node_ids m" by (auto simp: node_ids_def)
  have sup: "j \<in> node_ids ?m" if j: "j \<in> node_ids m" "j \<noteq> unat i" for j
  proof -
    from j(1) obtain k nid where e: "(k, nid) \<in> set ?reg" "j = unat nid"
      by (auto simp: node_ids_def)
    with registered_id [OF tables e(1)] i j(2) have "k \<noteq> h" by (auto simp: node_of_Some)
    with e(1) have "(k, nid) \<in> set (?er ?reg)" by (simp add: handle_order.equiv_iff_eq)
    with e(2) show ?thesis unfolding node_ids_def by (intro image_eqI [of _ _ "(k, nid)"]) simp_all
  qed
  have pools: "pools_ok ?m j (m_pools m ! j)" if j: "j < nodes_of m" for j
  proof (cases "j = unat i")
    case True
    with empty show ?thesis by (simp add: pools_ok_def)
  next
    case False
    have "pools_ok m j (m_pools m ! j)" using j tables by (simp add: mgr_tables_def)
    moreover have "GetMemoryHandle (fst e) \<noteq> h"
      if "map_option unat (node_of m (GetMemoryHandle (fst e))) = Some j" for e
      :: "QCMemoryPoolHandle \<times> 'a Pool"
      using that i False by auto
    moreover have "node_of ?m k = (if k = h then None else node_of m k)" for k
      by (simp add: node_of_def registered_erase split: option.split)
    ultimately show ?thesis by (auto simp: pools_ok_def)
  qed
  have allocs: "std_sorted buffer_less id (m_allocations m ! j) \<and>
      (m_allocations m ! j \<noteq> [] \<longrightarrow> j \<in> node_ids ?m)" if "j < nodes_of m" for j
    using that tables empty sup by (cases "j = unat i") (auto simp: mgr_tables_def)
  have "distinct (map snd (?er ?reg))"
    using tables by (simp add: mgr_tables_def std_erase_def distinct_map_filter)
  moreover have "std_sorted handle_less fst (?er ?reg)"
    using tables std_sorted_erase by (auto simp: mgr_tables_def)
  ultimately show ?thesis using tables sub pools allocs by (auto simp: mgr_tables_def)
qed

lemma UnRegister_spec:
  assumes "mgr_tables m" "m_state m = QC_OBJECT_STATE_READY"
    and i: "node_of m h = Some i"
    and r: "ML_ReclaimResources h m = Some (s, m1)"
  shows "\<exists>m'. ML_UnRegister h m = Some (s, m') \<and> mgr_tables m' \<and>
     (if s = QC_STATUS_OK
      then m' = m1\<lparr>m_handleToNodeIdInVector :=
                  std_erase handle_less fst h (m_handleToNodeIdInVector m),
                  m_state := QC_OBJECT_STATE_READY\<rparr>
      else m_state m' = QC_OBJECT_STATE_ERROR)"
proof -
  from ReclaimResources_spec [OF assms(1) i] r have m1: "mgr_tables m1" "same_registry m m1"
    "if s = QC_STATUS_OK
     then m_state m1 = m_state m \<and> m_allocations m1 = (m_allocations m)[unat i := []] \<and>
       m_pools m1 = (m_pools m)[unat i := (m_pools m ! unat i)\<lparr>poolMap := []\<rparr>]
     else m_state m1 = QC_OBJECT_STATE_ERROR" by auto
  note bd = node_bound [OF assms(1) i]
  show ?thesis
  proof (cases "s = QC_STATUS_OK")
    case True
    have "mgr_tables (m1\<lparr>m_handleToNodeIdInVector :=
        std_erase handle_less fst h (m_handleToNodeIdInVector m1)\<rparr>)"
      using m1 True bd i
      by (intro tables_erase [OF m1(1), where i = i]) (simp_all add: same_registry_node)
    with True assms(2) bd(5) r m1(2) show ?thesis
      by (simp add: ML_UnRegister_def registered_erase same_registry_def)
  next
    case False
    with assms(2) bd(5) r m1 show ?thesis by (simp add: ML_UnRegister_def)
  qed
qed

lemma UnRegister_undefined:
  assumes "mgr_tables m"
  shows "ML_UnRegister h m = None \<longleftrightarrow> m_state m = QC_OBJECT_STATE_READY \<and> stale_handle m h"
  using ReclaimResources_undefined [OF assms, of h]
  by (auto simp: ML_UnRegister_def Let_def stale_iff split: option.split)

lemma inv_UnRegister:
  assumes "mgr_inv m" "ML_UnRegister h m = Some (s, m')"
  shows "mgr_inv m'"
proof (cases "m_state m = QC_OBJECT_STATE_READY \<and> IsMemoryHandleRegistered m h \<noteq> None")
  case True
  have tables: "mgr_tables m" using assms by (simp add: mgr_inv_def)
  with UnRegister_undefined [of m h] assms(2) True obtain i where i: "node_of m h = Some i"
    by (cases rule: handle_cases [of m h]) auto
  from ReclaimResources_spec [OF tables i] obtain s m1
    where r: "ML_ReclaimResources h m = Some (s, m1)" by blast
  from UnRegister_spec [OF tables _ i r] True assms(2) have
    "mgr_tables m'" "m_state m' \<in> {QC_OBJECT_STATE_READY, QC_OBJECT_STATE_ERROR}"
    by (auto split: if_splits)
  then show ?thesis by (auto simp: mgr_inv_def)
next
  case False
  with assms(2) have "m' = m" by (auto simp: ML_UnRegister_def Let_def split: if_splits)
  with assms(1) show ?thesis by simp
qed

text \<open>A node entry that holds nothing.\<close>

definition vacated :: "'w ManagerLocal \<Rightarrow> nat \<Rightarrow> bool" where
  "vacated m i \<longleftrightarrow> m_allocations m ! i = [] \<and> poolMap (m_pools m ! i) = []"

lemma reclaim_handles_spec:
  assumes "mgr_tables m" "\<forall>h \<in> set hs. node_of m h \<noteq> None"
    and "s \<noteq> QC_STATUS_OK \<Longrightarrow> st = QC_OBJECT_STATE_ERROR"
  shows "\<exists>s' st' m'. reclaim_handles hs (s, st, m) = Some (s', st', m') \<and> mgr_tables m' \<and>
     same_registry m m' \<and>
     (if s' = QC_STATUS_OK
      then s = QC_STATUS_OK \<and> st' = st \<and>
        (\<forall>j < nodes_of m. vacated m j \<longrightarrow> vacated m' j) \<and>
        (\<forall>h \<in> set hs. \<forall>i. node_of m h = Some i \<longrightarrow> vacated m' (unat i))
      else st' = QC_OBJECT_STATE_ERROR)"
  using assms
proof (induction hs arbitrary: s st m)
  case Nil
  then show ?case by auto
next
  case (Cons h hs)
  then obtain i where i: "node_of m h = Some i" by auto
  note bd = node_bound [OF Cons.prems(1) i]
  from ReclaimResources_spec [OF Cons.prems(1) i] obtain ls m1 where
    f: "ML_ReclaimResources h m = Some (ls, m1)" "mgr_tables m1" "same_registry m m1"
      "ls = QC_STATUS_OK \<Longrightarrow> m_allocations m1 = (m_allocations m)[unat i := []] \<and>
        m_pools m1 = (m_pools m)[unat i := (m_pools m ! unat i)\<lparr>poolMap := []\<rparr>]"
    by (auto split: if_splits)
  have hs: "\<forall>h \<in> set hs. node_of m1 h \<noteq> None"
    using Cons.prems(2) f(3) by (simp add: same_registry_node)
  show ?case
  proof (cases "ls = QC_STATUS_OK")
    case True
    have v: "vacated m1 (unat i)" "\<And>j. j < nodes_of m \<Longrightarrow> vacated m j \<Longrightarrow> vacated m1 j"
      using f(4) [OF True] bd tables_length [OF Cons.prems(1)]
      by (simp_all add: vacated_def nth_list_update_if)
    from Cons.IH [OF f(2) hs Cons.prems(3)] obtain s' st' m' where
      g: "reclaim_handles hs (s, st, m1) = Some (s', st', m')" "mgr_tables m'"
      "same_registry m1 m'"
      "if s' = QC_STATUS_OK
       then s = QC_STATUS_OK \<and> st' = st \<and>
         (\<forall>j < nodes_of m1. vacated m1 j \<longrightarrow> vacated m' j) \<and>
         (\<forall>h \<in> set hs. \<forall>i. node_of m1 h = Some i \<longrightarrow> vacated m' (unat i))
       else st' = QC_OBJECT_STATE_ERROR" by blast
    have "same_registry m m'" using f(3) g(3) by (rule same_registry_trans)
    with g f(1,3) True v i bd(1) show ?thesis
      by (simp add: same_registry_nodes [OF f(3)] same_registry_node [OF f(3)] split: if_splits)
  next
    case False
    from Cons.IH [OF f(2) hs, of ls QC_OBJECT_STATE_ERROR] False obtain s' st' m' where
      "reclaim_handles hs (ls, QC_OBJECT_STATE_ERROR, m1) = Some (s', st', m')" "mgr_tables m'"
      "same_registry m1 m'" "s' \<noteq> QC_STATUS_OK" "st' = QC_OBJECT_STATE_ERROR"
      by (auto split: if_splits)
    with False f show ?thesis
      by (intro exI [of _ s'] exI [of _ st'] exI [of _ m']) (auto intro: same_registry_trans)
  qed
qed

lemma ReclaimResources_registry:
  assumes "mgr_tables m" "ML_ReclaimResources h m = Some (s, m')"
  shows "mgr_tables m'" "same_registry m m'"
proof -
  have "mgr_tables m' \<and> same_registry m m'"
  proof (cases rule: handle_cases [of m h])
    case unregistered
    with assms show ?thesis by (simp add: ReclaimResources_unregistered)
  next
    case (stale i)
    with assms ReclaimResources_undefined [OF assms(1), of h] show ?thesis by simp
  next
    case (node i)
    with ReclaimResources_spec [OF assms(1) node] assms(2) show ?thesis by auto
  qed
  then show "mgr_tables m'" "same_registry m m'" by simp_all
qed

lemma reclaim_handles_tables:
  "mgr_tables m \<Longrightarrow> reclaim_handles hs (s, st, m) = Some (s', st', m') \<Longrightarrow> mgr_tables m'"
  by (induction hs arbitrary: s st m)
    (auto split: option.splits if_splits dest: ReclaimResources_registry(1))

lemma reclaim_handles_undefined:
  assumes "mgr_tables m"
  shows "reclaim_handles hs (s, st, m) = None \<longleftrightarrow> (\<exists>h \<in> set hs. stale_handle m h)"
  using assms
proof (induction hs arbitrary: s st m)
  case Nil
  then show ?case by simp
next
  case (Cons h hs)
  show ?case
  proof (cases "ML_ReclaimResources h m")
    case None
    with ReclaimResources_undefined [OF Cons.prems, of h] show ?thesis by simp
  next
    case (Some r)
    then obtain ls m1 where r: "ML_ReclaimResources h m = Some (ls, m1)" by (cases r) auto
    note k = ReclaimResources_registry [OF Cons.prems r]
    from r ReclaimResources_undefined [OF Cons.prems, of h] have "\<not> stale_handle m h" by simp
    with r Cons.IH [OF k(1)] show ?thesis by (simp add: same_registry_node [OF k(2)])
  qed
qed

end
