(* ===== verification/QC_ManagerSession.thy ===== *)
theory QC_ManagerSession
  imports QC_ManagerInv
begin

text \<open>
  Sessions of the memory manager. \<open>ml_step\<close> has one rule for each public operation, with any
  arguments; \<open>cfg_ok\<close> says which configurations \<open>ML_Initialize\<close> may be given. \<open>ml_reach\<close> is what
  a client can reach from the constructor with any number of initialisations and de-initialisations,
  in any order with the other operations; a run ends where an operation is undefined. The tables are
  well formed in all of it. De-initialising leaves the handle registry behind, so the later sessions
  of a manager may have stale handles; an operation is undefined exactly when it gets to one.
  \<open>ml_session\<close> are the runs without a de-initialisation: no handle is stale in them.
\<close>

inductive ml_step ::
  "('w QCMemoryManagerInit \<Rightarrow> bool) \<Rightarrow> 'w ManagerLocal \<Rightarrow> 'w ManagerLocal \<Rightarrow> bool"
  for cfg_ok :: "'w QCMemoryManagerInit \<Rightarrow> bool" where
  step_Initialize: "cfg_ok ini \<Longrightarrow> ml_step cfg_ok m (snd (ML_Initialize ini m))"
| step_Register: "ml_step cfg_ok m (snd (snd (ML_Register node h rnd m)))"
| step_UnRegister: "ML_UnRegister h m = Some (s, m') \<Longrightarrow> ml_step cfg_ok m m'"
| step_CreatePool: "ML_CreatePool h cfg ph rnd m = Some (s, ph', m') \<Longrightarrow> ml_step cfg_ok m m'"
| step_DestroyPool: "ML_DestroyPool ph m = Some (s, m') \<Longrightarrow> ml_step cfg_ok m m'"
| step_AllocateBufferFromPool:
    "ML_AllocateBufferFromPool ph b m = Some (s, b', m') \<Longrightarrow> ml_step cfg_ok m m'"
| step_PutBufferToPool: "ML_PutBufferToPool ph b m = Some (s, m') \<Longrightarrow> ml_step cfg_ok m m'"
| step_AllocateBuffer:
    "ML_AllocateBuffer h a req b m = Some (s, b', m') \<Longrightarrow> ml_step cfg_ok m m'"
| step_FreeBuffer: "ML_FreeBuffer h b m = Some (s, m') \<Longrightarrow> ml_step cfg_ok m m'"
| step_ReclaimResources: "ML_ReclaimResources h m = Some (s, m') \<Longrightarrow> ml_step cfg_ok m m'"
| step_DeInitialize: "ML_DeInitialize m = Some (s, m') \<Longrightarrow> ml_step cfg_ok m m'"

inductive ml_reach ::
  "('w QCMemoryManagerInit \<Rightarrow> bool) \<Rightarrow> 'w \<Rightarrow> 'w ManagerLocal \<Rightarrow> bool"
  for cfg_ok :: "'w QCMemoryManagerInit \<Rightarrow> bool" and w0 :: 'w where
  reach_new: "ml_reach cfg_ok w0 (ManagerLocal_new w0)"
| reach_step: "ml_reach cfg_ok w0 m \<Longrightarrow> ml_step cfg_ok m m' \<Longrightarrow> ml_reach cfg_ok w0 m'"

inductive_cases ml_stepE: "ml_step cfg_ok m m'"

subsection \<open>The invariant of all sessions\<close>

text \<open>In the initial state no operation but \<open>ML_Initialize\<close> does anything, and only
  \<open>ML_DeInitialize\<close> returns to it, so another step keeps the second half of \<open>mgr_inv\<close> when it keeps
  the state or leaves for READY or ERROR.\<close>

lemma mgr_inv_new: "mgr_inv (ManagerLocal_new w)"
  by (simp add: mgr_inv_def mgr_tables_def ManagerLocal_new_def nodes_of_def node_ids_def
      QCMemoryManagerInit_default_def)

lemma mgr_inv_keep:
  "mgr_inv m \<Longrightarrow> mgr_tables m' \<Longrightarrow> nodes_of m' = nodes_of m \<Longrightarrow>
   m_state m' \<in> {m_state m, QC_OBJECT_STATE_READY, QC_OBJECT_STATE_ERROR} \<Longrightarrow> mgr_inv m'"
  by (auto simp: mgr_inv_def)

lemma fail_to_error_state:
  "m_state (snd (fail_to_error s m)) \<in> {m_state m, QC_OBJECT_STATE_ERROR}"
  by (simp add: fail_to_error_def)

lemma mgr_inv_tables: "mgr_inv m \<Longrightarrow> mgr_tables m"
  by (simp add: mgr_inv_def)

lemma inv_Register: "mgr_inv m \<Longrightarrow> mgr_inv (snd (snd (ML_Register node h rnd m)))"
  by (rule mgr_inv_keep, assumption, rule tables_Register, erule mgr_inv_tables)
    (cases rule: Register_cases [of node h rnd m]; simp)+

lemma inv_AllocateBuffer:
  assumes "mgr_inv m" "ML_AllocateBuffer h a req b m = Some (s, b', m')"
  shows "mgr_inv m'"
proof -
  note t = mgr_inv_tables [OF assms(1)]
  have "mgr_tables m'" by (rule tables_AllocateBuffer [OF t assms(2)])
  moreover have "nodes_of m' = nodes_of m \<and>
      m_state m' \<in> {m_state m, QC_OBJECT_STATE_READY, QC_OBJECT_STATE_ERROR}"
    using t by (cases rule: AllocateBuffer_cases [where h = h and a = a and req = req and b = b])
      (use assms(2) in \<open>auto simp: fail_to_error_def split: if_splits\<close>)
  ultimately show ?thesis using assms(1) by (blast intro: mgr_inv_keep)
qed

lemma inv_FreeBuffer:
  assumes "mgr_inv m" "ML_FreeBuffer h b m = Some (s, m')"
  shows "mgr_inv m'"
proof -
  note t = mgr_inv_tables [OF assms(1)]
  have "mgr_tables m'" by (rule tables_FreeBuffer [OF t assms(2)])
  moreover have "nodes_of m' = nodes_of m \<and>
      m_state m' \<in> {m_state m, QC_OBJECT_STATE_READY, QC_OBJECT_STATE_ERROR}"
    using t by (cases rule: FreeBuffer_cases [where h = h and b = b])
      (use assms(2) in \<open>auto simp: fail_to_error_def split: if_splits\<close>)
  ultimately show ?thesis using assms(1) by (blast intro: mgr_inv_keep)
qed

lemma inv_DestroyPool:
  assumes "mgr_inv m" "ML_DestroyPool ph m = Some (s, m')"
  shows "mgr_inv m'"
proof -
  note t = mgr_inv_tables [OF assms(1)]
  have "mgr_tables m'" by (rule tables_DestroyPool [OF t assms(2)])
  moreover have "nodes_of m' = nodes_of m \<and>
      m_state m' \<in> {m_state m, QC_OBJECT_STATE_READY, QC_OBJECT_STATE_ERROR}"
    using t by (cases rule: DestroyPool_cases [where ph = ph]) (use assms(2) in auto)
  ultimately show ?thesis using assms(1) by (blast intro: mgr_inv_keep)
qed

lemma inv_AllocateBufferFromPool:
  assumes "mgr_inv m" "ML_AllocateBufferFromPool ph b m = Some (s, b', m')"
  shows "mgr_inv m'"
proof -
  note t = mgr_inv_tables [OF assms(1)]
  have "mgr_tables m'" by (rule tables_AllocateBufferFromPool [OF t assms(2)])
  moreover have "nodes_of m' = nodes_of m \<and>
      m_state m' \<in> {m_state m, QC_OBJECT_STATE_READY, QC_OBJECT_STATE_ERROR}"
    using t by (cases rule: AllocateBufferFromPool_cases [where ph = ph and b = b])
      (use assms(2) in \<open>auto simp: fail_to_error_def split: if_splits\<close>)
  ultimately show ?thesis using assms(1) by (blast intro: mgr_inv_keep)
qed

lemma inv_PutBufferToPool:
  assumes "mgr_inv m" "ML_PutBufferToPool ph b m = Some (s, m')"
  shows "mgr_inv m'"
proof -
  note t = mgr_inv_tables [OF assms(1)]
  have "mgr_tables m'" by (rule tables_PutBufferToPool [OF t assms(2)])
  moreover have "nodes_of m' = nodes_of m \<and>
      m_state m' \<in> {m_state m, QC_OBJECT_STATE_READY, QC_OBJECT_STATE_ERROR}"
    using t by (cases rule: PutBufferToPool_cases [where ph = ph and b = b])
      (use assms(2) in \<open>auto simp: fail_to_error_def split: if_splits\<close>)
  ultimately show ?thesis using assms(1) by (blast intro: mgr_inv_keep)
qed

lemma inv_CreatePool:
  assumes "mgr_inv m" "ML_CreatePool h cfg ph rnd m = Some (s, ph', m')"
  shows "mgr_inv m'"
proof -
  note t = mgr_inv_tables [OF assms(1)]
  have "mgr_tables m'" by (rule tables_CreatePool [OF t assms(2)])
  moreover have "nodes_of m' = nodes_of m \<and>
      m_state m' \<in> {m_state m, QC_OBJECT_STATE_READY, QC_OBJECT_STATE_ERROR}"
    using t by (cases rule: CreatePool_cases [where h = h and cfg = cfg and ph = ph and rnd = rnd])
      (use assms(2) in \<open>auto split: if_splits\<close>)
  ultimately show ?thesis using assms(1) by (blast intro: mgr_inv_keep)
qed

lemma inv_ReclaimResources:
  assumes "mgr_inv m" "ML_ReclaimResources h m = Some (s, m')"
  shows "mgr_inv m'"
proof -
  note t = mgr_inv_tables [OF assms(1)]
  have "m_state m' \<in> {m_state m, QC_OBJECT_STATE_READY, QC_OBJECT_STATE_ERROR}"
  proof (cases rule: handle_cases [of m h])
    case unregistered
    with assms(2) show ?thesis by (simp add: ReclaimResources_unregistered)
  next
    case (stale i)
    with assms(2) ReclaimResources_undefined [OF t, of h] show ?thesis by simp
  next
    case (node i)
    with ReclaimResources_spec [OF t node] assms(2) show ?thesis by (auto split: if_splits)
  qed
  with ReclaimResources_registry [OF t assms(2)] assms(1) show ?thesis
    by (blast intro: mgr_inv_keep same_registry_nodes)
qed

subsection \<open>De-initialisation\<close>

lemma stale_registered: "stale_handle m h \<Longrightarrow> h \<in> fst ` set (m_handleToNodeIdInVector m)"
  using registered_None_iff [of m h] by (auto simp: stale_iff)

lemma DeInitialize_undefined:
  assumes "mgr_tables m"
  shows "ML_DeInitialize m = None \<longleftrightarrow>
    m_state m \<noteq> QC_OBJECT_STATE_INITIAL \<and> (\<exists>h. stale_handle m h)"
proof -
  let ?m = "m\<lparr>m_state := QC_OBJECT_STATE_DEINITIALIZING\<rparr>"
  let ?r = "reclaim_handles (map fst (m_handleToNodeIdInVector m)) (QC_STATUS_OK, QC_OBJECT_STATE_INITIAL, ?m)"
  have t: "mgr_tables ?m" using assms by simp
  have "?r = None \<longleftrightarrow> (\<exists>h. stale_handle m h)"
    using reclaim_handles_undefined [OF t] stale_registered [of m] by (simp only: set_map) fastforce
  moreover have "unat (numOfNodes (m_config m1)) = length (m_pools m1)"
    "unat (numOfNodes (m_config m1)) = length (m_allocations m1)" if "?r = Some (s, st, m1)" for s st m1
    using reclaim_handles_tables [OF t that] by (simp_all add: tables_length nodes_of_def)
  ultimately show ?thesis by (cases ?r) (auto simp: ML_DeInitialize_def Let_def)
qed

lemma DeInitialize_spec:
  assumes "mgr_tables m" "m_state m \<noteq> QC_OBJECT_STATE_INITIAL" "ML_DeInitialize m = Some (s, m')"
  obtains st m1 where
    "reclaim_handles (map fst (m_handleToNodeIdInVector m))
       (QC_STATUS_OK, QC_OBJECT_STATE_INITIAL, m\<lparr>m_state := QC_OBJECT_STATE_DEINITIALIZING\<rparr>) =
     Some (s, st, m1)"
    "m' = m1\<lparr>m_pools := [], m_allocations := [], m_config := QCMemoryManagerInit_default, m_state := st\<rparr>"
    "m_handleToNodeIdInVector m1 = m_handleToNodeIdInVector m" "mgr_tables m1"
    "nodes_of m1 = nodes_of m"
    "st = (if s = QC_STATUS_OK then QC_OBJECT_STATE_INITIAL else QC_OBJECT_STATE_ERROR)"
    "\<And>i. s = QC_STATUS_OK \<Longrightarrow> i < nodes_of m \<Longrightarrow> vacated m1 i"
proof -
  let ?m = "m\<lparr>m_state := QC_OBJECT_STATE_DEINITIALIZING\<rparr>"
  let ?hs = "map fst (m_handleToNodeIdInVector m)"
  from assms(2,3) obtain st m1 where
    r: "reclaim_handles ?hs (QC_STATUS_OK, QC_OBJECT_STATE_INITIAL, ?m) = Some (s, st, m1)"
    and m': "m' = m1\<lparr>m_pools := take (length (m_pools m1) - nodes_of m1) (m_pools m1),
      m_allocations := take (length (m_allocations m1) - nodes_of m1) (m_allocations m1),
      m_config := QCMemoryManagerInit_default, m_state := st\<rparr>"
    by (auto simp: ML_DeInitialize_def Let_def nodes_of_def split: option.splits if_splits)
  have t: "mgr_tables ?m" using assms(1) by simp
  have fresh: "\<not> stale_handle m h" for h
    using DeInitialize_undefined [OF assms(1)] assms(2,3) by auto
  have nodes: "node_of m h \<noteq> None" if "(h, nid) \<in> set (m_handleToNodeIdInVector m)" for h nid
    using fresh registered_id(1) [OF assms(1) that] by (simp add: node_of_None)
  then have "\<forall>h \<in> set ?hs. node_of ?m h \<noteq> None" by auto
  from reclaim_handles_spec [OF t this, of QC_STATUS_OK QC_OBJECT_STATE_INITIAL] r
  have k: "mgr_tables m1" "same_registry m m1"
    "st = (if s = QC_STATUS_OK then QC_OBJECT_STATE_INITIAL else QC_OBJECT_STATE_ERROR)"
    "s = QC_STATUS_OK \<Longrightarrow> \<forall>h \<in> fst ` set (m_handleToNodeIdInVector m).
       \<forall>i. node_of m h = Some i \<longrightarrow> vacated m1 (unat i)"
    by (auto simp: same_registry_def split: if_splits)
  have n: "nodes_of m1 = nodes_of m" by (rule same_registry_nodes [OF k(2)])
  have v: "vacated m1 i" if "s = QC_STATUS_OK" "i < nodes_of m" for i
  proof (cases "i \<in> node_ids m")
    case True
    then obtain h nid where e: "(h, nid) \<in> set (m_handleToNodeIdInVector m)" "i = unat nid"
      by (auto simp: node_ids_def)
    from nodes [OF e(1)] registered_id(1) [OF assms(1) e(1)] have "node_of m h = Some (ucast nid)"
      by (auto simp: node_of_Some)
    with k(4) [OF that(1)] e registered_id(2) [OF assms(1) e(1)] show ?thesis by force
  next
    case False
    then have out: "i \<notin> node_ids m1" using k(2) by (simp add: node_ids_def same_registry_def)
    then have "m_allocations m1 ! i = []" using k(1) that(2) n by (auto simp: mgr_tables_def)
    moreover have "poolMap (m_pools m1 ! i) = []"
    proof (rule ccontr)
      assume "poolMap (m_pools m1 ! i) \<noteq> []"
      then obtain e where "e \<in> set (poolMap (m_pools m1 ! i))" by (cases "poolMap (m_pools m1 ! i)") auto
      with tables_pools_ok [OF k(1)] that(2) n tables_length [OF k(1)] obtain j where
        "node_of m1 (GetMemoryHandle (fst e)) = Some j" "unat j = i"
        by (auto simp: pools_ok_def)
      with node_bound(4) [OF k(1)] out show False by blast
    qed
    ultimately show ?thesis by (simp add: vacated_def)
  qed
  have m1: "m' = m1\<lparr>m_pools := [], m_allocations := [], m_config := QCMemoryManagerInit_default,
      m_state := st\<rparr>"
    using m' tables_length [OF k(1)] by simp
  from k(2) have "m_handleToNodeIdInVector m1 = m_handleToNodeIdInVector m"
    by (simp add: same_registry_def)
  from that [OF r m1 this k(1) n k(3)] v show ?thesis by blast
qed

lemma inv_DeInitialize:
  assumes "mgr_inv m" "ML_DeInitialize m = Some (s, m')"
  shows "mgr_inv m'"
proof (cases "m_state m = QC_OBJECT_STATE_INITIAL")
  case True
  with assms show ?thesis by (simp add: ML_DeInitialize_def)
next
  case False
  from DeInitialize_spec [OF mgr_inv_tables [OF assms(1)] this assms(2)] obtain st m1 where
    "m' = m1\<lparr>m_pools := [], m_allocations := [], m_config := QCMemoryManagerInit_default, m_state := st\<rparr>"
    "mgr_tables m1" "st \<in> {QC_OBJECT_STATE_INITIAL, QC_OBJECT_STATE_ERROR}" by (metis insertCI)
  then show ?thesis
    by (auto simp: mgr_inv_def mgr_tables_def nodes_of_def node_ids_def QCMemoryManagerInit_default_def)
qed

subsection \<open>Every reachable state\<close>

lemma mgr_inv_step: "ml_step cfg_ok m m' \<Longrightarrow> mgr_inv m \<Longrightarrow> mgr_inv m'"
proof (induction rule: ml_step.induct)
  case (step_DeInitialize m s m')
  then show ?case using inv_DeInitialize by blast
qed (auto intro: tables_Initialize inv_Register inv_CreatePool inv_DestroyPool
    inv_UnRegister inv_ReclaimResources inv_AllocateBufferFromPool inv_PutBufferToPool inv_AllocateBuffer inv_FreeBuffer)

lemma mgr_inv_reach: "ml_reach cfg_ok w0 m \<Longrightarrow> mgr_inv m"
  by (induction rule: ml_reach.induct) (auto intro: mgr_inv_new mgr_inv_step)

subsection \<open>Registration\<close>

lemma unique_iff_unregistered:
  assumes "mgr_tables m"
  shows "IsNodeIdUnique m node \<longleftrightarrow> (\<forall>k. IsMemoryHandleRegistered m k \<noteq> Some (n_id node))"
proof
  assume u: "IsNodeIdUnique m node"
  show "\<forall>k. IsMemoryHandleRegistered m k \<noteq> Some (n_id node)"
  proof (intro allI notI)
    fix k assume "IsMemoryHandleRegistered m k = Some (n_id node)"
    from registered_entry [OF assms this] obtain nid where
      e: "(k, nid) \<in> set (m_handleToNodeIdInVector m)" "unat (n_id node) = unat nid" by blast
    then have "nid = ucast (n_id node)" by (metis unat_ucast_u8 word_unat_eq_iff)
    with e(1) u show False by (force simp: unique_fresh_id)
  qed
next
  assume n: "\<forall>k. IsMemoryHandleRegistered m k \<noteq> Some (n_id node)"
  have "(ucast (n_id node) :: u32) \<noteq> snd e" if "e \<in> set (m_handleToNodeIdInVector m)" for e
  proof
    assume "ucast (n_id node) = snd e"
    with that have "(fst e, ucast (n_id node)) \<in> set (m_handleToNodeIdInVector m)"
      by (metis prod.collapse)
    from registered_id(1,2) [OF assms this] have
      "IsMemoryHandleRegistered m (fst e) = Some (ucast (ucast (n_id node) :: u32))"
      "unat (ucast (ucast (n_id node) :: u32) :: u8) = unat (n_id node)"
      by (simp_all only: unat_ucast_u8)
    with n show False by (metis word_unat_eq_iff)
  qed
  then show "IsNodeIdUnique m node" by (auto simp: IsNodeIdUnique_def list_all_iff)
qed

text \<open>When no handle is stale the registry has no more entries than nodes, and a node id that is free
  leaves room in it, so the capacity check of \<open>ML_Register\<close> is implied by the others.\<close>

lemma registry_room:
  assumes t: "mgr_tables m" and f: "\<forall>k. \<not> stale_handle m k"
  shows "\<forall>e \<in> set (m_handleToNodeIdInVector m). unat (snd e) < nodes_of m"
    and "length (m_handleToNodeIdInVector m) \<le> nodes_of m"
    and "IsNodeIdUnique m node \<Longrightarrow> n_id node < numOfNodes (m_config m) \<Longrightarrow>
      length (m_handleToNodeIdInVector m) < nodes_of m"
proof -
  let ?ids = "map snd (m_handleToNodeIdInVector m)"
  have "distinct (map unat ?ids)"
    unfolding distinct_map [of unat] using t by (auto simp: mgr_tables_def inj_on_def word_unat_eq_iff)
  then have c: "card (set (map unat ?ids)) = length (m_handleToNodeIdInVector m)"
    using distinct_card by fastforce
  have lt: "unat nid < nodes_of m" if "(k, nid) \<in> set (m_handleToNodeIdInVector m)" for k nid
    using registered_id(1,2) [OF t that] f [rule_format, of k] by (auto simp: stale_iff)
  then show "\<forall>e \<in> set (m_handleToNodeIdInVector m). unat (snd e) < nodes_of m" by auto
  from lt have sub: "set (map unat ?ids) \<subseteq> {..<nodes_of m}" by auto
  from card_mono [OF _ this] c show "length (m_handleToNodeIdInVector m) \<le> nodes_of m" by simp
  assume u: "IsNodeIdUnique m node" and n: "n_id node < numOfNodes (m_config m)"
  have out: "unat (n_id node) \<notin> set (map unat ?ids)"
  proof
    assume "unat (n_id node) \<in> set (map unat ?ids)"
    then obtain nid where "nid \<in> snd ` set (m_handleToNodeIdInVector m)" "unat (n_id node) = unat nid"
      by auto
    then have "(ucast (n_id node) :: u32) \<in> snd ` set (m_handleToNodeIdInVector m)"
      by (metis unat_ucast_u8 word_unat_eq_iff)
    with u show False by (simp add: unique_fresh_id)
  qed
  have "unat (n_id node) < nodes_of m" using n by (simp add: nodes_of_def word_less_nat_alt)
  with sub have "insert (unat (n_id node)) (set (map unat ?ids)) \<subseteq> {..<nodes_of m}" by blast
  from card_mono [OF _ this] have "card (insert (unat (n_id node)) (set (map unat ?ids))) \<le> nodes_of m"
    by simp
  moreover have "card (insert (unat (n_id node)) (set (map unat ?ids))) = Suc (card (set (map unat ?ids)))"
    by (rule card_insert_disjoint [OF _ out]) simp
  ultimately show "length (m_handleToNodeIdInVector m) < nodes_of m" using c by linarith
qed

subsection \<open>The first session\<close>

text \<open>Handles go stale only across a de-initialisation: a run without one has none.\<close>

lemma no_stale_iff:
  "(\<forall>k. \<not> stale_handle m k) \<longleftrightarrow>
     (\<forall>k i. IsMemoryHandleRegistered m k = Some i \<longrightarrow> i < numOfNodes (m_config m))"
  by (auto simp: stale_handle_def not_le split: option.split)

lemma no_stale_same: "same_registry m m' \<Longrightarrow> \<forall>k. \<not> stale_handle m k \<Longrightarrow> \<forall>k. \<not> stale_handle m' k"
  by (simp add: same_registry_node)

lemma fail_to_error_registry [simp]: "same_registry m (snd (fail_to_error s m')) = same_registry m m'"
  by (simp add: same_registry_def)

lemma registry_AllocateBuffer:
  assumes "mgr_tables m" "ML_AllocateBuffer h a req b m = Some (s, b', m')"
  shows "same_registry m m'"
  using assms(1)
  by (cases rule: AllocateBuffer_cases [where h = h and a = a and req = req and b = b])
    (use assms(2) in \<open>auto simp: same_registry_def\<close>)

lemma registry_FreeBuffer:
  assumes "mgr_tables m" "ML_FreeBuffer h b m = Some (s, m')"
  shows "same_registry m m'"
  using assms(1) by (cases rule: FreeBuffer_cases [where h = h and b = b])
    (use assms(2) in \<open>auto simp: same_registry_def\<close>)

lemma registry_DestroyPool:
  assumes "mgr_tables m" "ML_DestroyPool ph m = Some (s, m')"
  shows "same_registry m m'"
  using assms(1) by (cases rule: DestroyPool_cases [where ph = ph])
    (use assms(2) in \<open>auto simp: same_registry_def\<close>)

lemma registry_AllocateBufferFromPool:
  assumes "mgr_tables m" "ML_AllocateBufferFromPool ph b m = Some (s, b', m')"
  shows "same_registry m m'"
  using assms(1) by (cases rule: AllocateBufferFromPool_cases [where ph = ph and b = b])
    (use assms(2) in \<open>auto simp: same_registry_def\<close>)

lemma registry_PutBufferToPool:
  assumes "mgr_tables m" "ML_PutBufferToPool ph b m = Some (s, m')"
  shows "same_registry m m'"
  using assms(1) by (cases rule: PutBufferToPool_cases [where ph = ph and b = b])
    (use assms(2) in \<open>auto simp: same_registry_def\<close>)

lemma registry_CreatePool:
  assumes "mgr_tables m" "ML_CreatePool h cfg ph rnd m = Some (s, ph', m')"
  shows "same_registry m m'"
  using assms(1)
  by (cases rule: CreatePool_cases [where h = h and cfg = cfg and ph = ph and rnd = rnd])
    (use assms(2) in \<open>auto simp: same_registry_def split: if_splits\<close>)

lemma no_stale_Register:
  assumes "\<forall>k. \<not> stale_handle m k"
  shows "\<forall>k. \<not> stale_handle (snd (snd (ML_Register node h rnd m))) k"
proof (cases rule: Register_cases [of node h rnd m])
  case (added h')
  let ?m = "m\<lparr>m_handleToNodeIdInVector :=
    std_insert handle_less fst (h', ucast (n_id node)) (m_handleToNodeIdInVector m)\<rparr>"
  have "\<forall>k. \<not> stale_handle ?m k"
    using assms added(2) unfolding no_stale_iff by (simp add: registered_insert [OF added(5)])
  with added(7) show ?thesis by simp
qed (use assms in simp_all)

lemma no_stale_UnRegister:
  assumes "mgr_tables m" "ML_UnRegister h m = Some (s, m')" "\<forall>k. \<not> stale_handle m k"
  shows "\<forall>k. \<not> stale_handle m' k"
proof -
  from assms(2) consider "m' = m"
    | s1 m1 where "ML_ReclaimResources h m = Some (s1, m1)"
        "m_config m' = m_config m1" "m_handleToNodeIdInVector m' \<in> {m_handleToNodeIdInVector m1,
          std_erase handle_less fst h (m_handleToNodeIdInVector m1)}"
    by (auto simp: ML_UnRegister_def Let_def split: if_splits option.splits)
  then show ?thesis
  proof cases
    case 1
    with assms(3) show ?thesis by simp
  next
    case 2
    from ReclaimResources_registry(2) [OF assms(1) 2(1)] assms(3)
    have "\<forall>k. \<not> stale_handle m1 k" by (rule no_stale_same)
    moreover have "IsMemoryHandleRegistered m' k \<in> {None, IsMemoryHandleRegistered m1 k}" for k
      using 2(3) by (auto simp: IsMemoryHandleRegistered_def handle_order.find_erase)
    ultimately show ?thesis using 2(2) unfolding no_stale_iff by (metis insertE option.distinct(1) singletonD)
  qed
qed

lemma no_stale_Initialize:
  assumes "mgr_inv m" "\<forall>k. \<not> stale_handle m k"
  shows "\<forall>k. \<not> stale_handle (snd (ML_Initialize ini m)) k"
  using Initialize_cases [of m ini]
proof cases
  case started
  with assms(1) have "nodes_of m = 0" by (auto simp: mgr_inv_def)
  with assms(2) have "IsMemoryHandleRegistered m k = None" for k
    by (cases "IsMemoryHandleRegistered m k") (auto simp: stale_iff)
  with started show ?thesis by (simp add: stale_handle_def IsMemoryHandleRegistered_def)
qed (use assms in \<open>auto simp: mgr_inv_def\<close>)

lemma no_stale_step:
  assumes "ml_step cfg_ok m m'" "\<forall>s. ML_DeInitialize m \<noteq> Some (s, m')" "mgr_inv m"
    "\<forall>k. \<not> stale_handle m k"
  shows "\<forall>k. \<not> stale_handle m' k"
proof -
  note t = mgr_inv_tables [OF assms(3)]
  have keep: "same_registry m m' \<Longrightarrow> ?thesis" using no_stale_same assms(4) by blast
  from assms(1) show ?thesis
  proof cases
    case (step_Initialize ini)
    then show ?thesis using no_stale_Initialize [OF assms(3,4)] by simp
  next
    case (step_Register node h rnd)
    then show ?thesis using no_stale_Register [OF assms(4)] by simp
  next
    case (step_UnRegister h s)
    then show ?thesis using no_stale_UnRegister [OF t _ assms(4)] by blast
  next
    case (step_DeInitialize s)
    with assms(2) show ?thesis by simp
  qed (rule keep, erule registry_CreatePool [OF t] registry_DestroyPool [OF t]
      registry_AllocateBufferFromPool [OF t] registry_PutBufferToPool [OF t]
      registry_AllocateBuffer [OF t] registry_FreeBuffer [OF t] ReclaimResources_registry(2) [OF t])+
qed

inductive ml_session ::
  "('w QCMemoryManagerInit \<Rightarrow> bool) \<Rightarrow> 'w \<Rightarrow> 'w ManagerLocal \<Rightarrow> bool"
  for cfg_ok :: "'w QCMemoryManagerInit \<Rightarrow> bool" and w0 :: 'w where
  session_new: "ml_session cfg_ok w0 (ManagerLocal_new w0)"
| session_step: "ml_session cfg_ok w0 m \<Longrightarrow> ml_step cfg_ok m m' \<Longrightarrow>
    \<forall>s. ML_DeInitialize m \<noteq> Some (s, m') \<Longrightarrow> ml_session cfg_ok w0 m'"

lemma session_reach: "ml_session cfg_ok w0 m \<Longrightarrow> ml_reach cfg_ok w0 m"
  by (induction rule: ml_session.induct) (auto intro: reach_new reach_step)

lemma session_no_stale: "ml_session cfg_ok w0 m \<Longrightarrow> \<not> stale_handle m k"
proof (induction arbitrary: k rule: ml_session.induct)
  case session_new
  show ?case by (simp add: ManagerLocal_new_def stale_handle_def IsMemoryHandleRegistered_def)
next
  case (session_step m m')
  have "\<forall>k. \<not> stale_handle m' k"
  proof (rule no_stale_step [OF session_step(2,3)])
    show "mgr_inv m" by (rule mgr_inv_reach [OF session_reach [OF session_step(1)]])
    show "\<forall>k. \<not> stale_handle m k" using session_step(4) by blast
  qed
  then show ?case by blast
qed

subsection \<open>Reclaiming once the manager has left the ready state\<close>

lemma reclaim_buffers_refused:
  "m_state m \<noteq> QC_OBJECT_STATE_READY \<Longrightarrow> reclaim_buffers h bs (s, st, m) =
     Some (if bs = [] then s else QC_STATUS_BAD_STATE, if bs = [] then st else QC_OBJECT_STATE_ERROR, m)"
  by (induction bs arbitrary: s st) (simp_all add: ML_FreeBuffer_def)

lemma reclaim_pools_refused:
  "m_state m \<noteq> QC_OBJECT_STATE_READY \<Longrightarrow> reclaim_pools phs (s, st, m) =
     Some (if phs = [] then s else QC_STATUS_BAD_STATE, if phs = [] then st else QC_OBJECT_STATE_ERROR, m)"
  by (induction phs arbitrary: s st) (simp_all add: ML_DestroyPool_def)

end
