(* ===== verification/QC_ManagerOwn.thy ===== *)
theory QC_ManagerOwn
  imports QC_ManagerSession
begin

text \<open>
  Memory safety of the manager. \<open>owned\<close> is the multiset of blocks the manager keeps track of: the
  stand-alone buffers of every node and the buffers of every pool. Over allocators that keep their
  contract (locale \<open>allocator_array\<close>) every owned block is a live block and is owned once, so no
  block is freed twice or handed out twice, and the live blocks the manager does not own
  (\<open>foreign\<close>) are the same before and after every operation but one: a pool whose initialisation
  fails with \<^verbatim>\<open>QC_STATUS_FAIL\<close> is abandoned without being destroyed.
\<close>

subsection \<open>Multisets of blocks against sets of blocks\<close>

definition counted :: "'b multiset \<Rightarrow> 'b set \<Rightarrow> bool" where
  "counted M L \<longleftrightarrow> set_mset M \<subseteq> L \<and> (\<forall>b. count M b \<le> 1)"

lemma counted_empty [simp]: "counted {#} L"
  by (simp add: counted_def)

lemma counted_subset: "counted M L \<Longrightarrow> set_mset M \<subseteq> L"
  by (simp add: counted_def)

lemma counted_mono: "counted M L \<Longrightarrow> L \<subseteq> L' \<Longrightarrow> counted M L'"
  by (auto simp: counted_def)

lemma counted_add:
  assumes "counted M L" "x \<notin> L"
  shows "counted (add_mset x M) (insert x L)" "insert x L - set_mset (add_mset x M) = L - set_mset M"
proof -
  have "x \<notin># M" using assms by (auto simp: counted_def)
  then have "count M x = 0" by (simp add: not_in_iff)
  with assms show "counted (add_mset x M) (insert x L)" by (auto simp: counted_def)
  show "insert x L - set_mset (add_mset x M) = L - set_mset M" using assms by auto
qed

lemma counted_remove:
  assumes "counted (add_mset x M) L"
  shows "x \<in> L" "counted M (L - {x})" "L - {x} - set_mset M = L - set_mset (add_mset x M)"
proof -
  have c: "count (add_mset x M) b \<le> 1" for b using assms unfolding counted_def by blast
  from c [of x] have "x \<notin># M" by (simp add: not_in_iff)
  moreover have "count M b \<le> 1" for b using c [of b] by (simp split: if_splits)
  ultimately show "counted M (L - {x})" using assms by (auto simp: counted_def)
  show "x \<in> L" "L - {x} - set_mset M = L - set_mset (add_mset x M)"
    using assms by (auto simp: counted_def)
qed

lemma counted_add_set:
  assumes "counted M L" "counted P B" "B \<inter> L = {}" "set_mset P = B"
  shows "counted (P + M) (L \<union> B)" "(L \<union> B) - set_mset (P + M) = L - set_mset M"
proof -
  have "count (P + M) b \<le> 1" for b
  proof (cases "b \<in># P")
    case True
    with assms have "b \<notin># M" by (auto simp: counted_def)
    with assms(2) show ?thesis by (simp add: counted_def not_in_iff)
  next
    case False
    with assms(1) show ?thesis by (simp add: counted_def not_in_iff)
  qed
  with assms show "counted (P + M) (L \<union> B)" by (auto simp: counted_def)
  show "(L \<union> B) - set_mset (P + M) = L - set_mset M" using assms by auto
qed

lemma counted_remove_set:
  assumes "counted (P + M) L" "set_mset P = B"
  shows "B \<subseteq> L" "counted M (L - B)" "(L - B) - set_mset M = L - set_mset (P + M)"
proof -
  have c: "count P b + count M b \<le> 1" for b using assms(1) unfolding counted_def by simp
  have "b \<notin># M" if "b \<in> B" for b
  proof -
    have "0 < count P b" using that assms(2) by simp
    with c [of b] have "count M b = 0" by linarith
    then show ?thesis by (simp add: not_in_iff)
  qed
  moreover have "count M b \<le> 1" for b using c [of b] by simp
  ultimately show "counted M (L - B)" using assms by (auto simp: counted_def)
  show "B \<subseteq> L" "(L - B) - set_mset M = L - set_mset (P + M)"
    using assms by (auto simp: counted_def)
qed

lemma counted_distinct: "distinct xs \<Longrightarrow> counted (mset xs) (set xs)"
  by (auto simp: counted_def distinct_count_atmost_1)

subsection \<open>What the manager owns\<close>

definition alloc_mset :: "QCBufferDescriptorBase list \<Rightarrow> block multiset" where
  "alloc_mset bs = image_mset block_of (mset bs)"

definition pool_mset :: "'w Pool \<Rightarrow> block multiset" where
  "pool_mset p =
     image_mset (\<lambda>obj. (a_type (cfg_allocator (pool_config p)), o_pBuf obj)) (mset (pool_objects p))"

definition pools_mset :: "'w PoolMapWithMutex \<Rightarrow> block multiset" where
  "pools_mset pm = (\<Sum>e \<in># mset (poolMap pm). pool_mset (snd e))"

definition owned :: "'w ManagerLocal \<Rightarrow> block multiset" where
  "owned m = sum_list (map alloc_mset (m_allocations m)) + sum_list (map pools_mset (m_pools m))"

definition foreign :: "('w \<Rightarrow> block set) \<Rightarrow> 'w ManagerLocal \<Rightarrow> block set" where
  "foreign live m = live (world m) - set_mset (owned m)"

lemma set_pool_mset [simp]: "set_mset (pool_mset p) = pool_blocks p"
  by (simp add: pool_mset_def pool_blocks_def pool_addrs_def image_image)

lemma counted_pool: "pool_inv p \<Longrightarrow> counted (pool_mset p) (pool_blocks p)"
proof -
  assume "pool_inv p"
  let ?t = "a_type (cfg_allocator (pool_config p))"
  have "pool_mset p = mset (map (Pair ?t) (map o_pBuf (pool_objects p)))"
    by (simp add: pool_mset_def image_mset.compositionality comp_def)
  moreover have "set (map (Pair ?t) (map o_pBuf (pool_objects p))) = pool_blocks p"
    by (simp add: pool_blocks_def pool_addrs_def image_image)
  moreover have "distinct (map (Pair ?t) (map o_pBuf (pool_objects p)))"
    using \<open>pool_inv p\<close> unfolding pool_inv_def by (subst distinct_map) (simp add: inj_on_def)
  ultimately show ?thesis using counted_distinct by metis
qed

lemma pool_mset_GetElement:
  "pool_inv p \<Longrightarrow> pool_mset (snd (snd (Pool_GetElement p b))) = pool_mset p"
  by (erule GetElement_cases [where b = b]) (simp_all add: pool_mset_def pool_objects_def)

lemma pool_mset_PutElement:
  "pool_inv p \<Longrightarrow> pool_mset (snd (Pool_PutElement p b)) = pool_mset p"
  by (erule PutElement_cases [where b = b]) (simp_all add: pool_mset_def pool_objects_def)

lemma sum_list_map_update:
  fixes f :: "'a \<Rightarrow> 'b::cancel_comm_monoid_add"
  shows "i < length xs \<Longrightarrow> f (xs ! i) + sum_list (map f (xs[i := x])) = f x + sum_list (map f xs)"
proof (induction xs arbitrary: i)
  case Nil
  then show ?case by simp
next
  case (Cons a xs)
  then show ?case by (cases i) (simp_all add: add.left_commute add.commute)
qed

context strict_weak_order
begin

lemma erase_hit:
  assumes "std_sorted lt pr xs" "x \<in> set xs" "key_equiv lt (pr x) k"
  shows "mset xs = add_mset x (mset (std_erase lt pr k xs))"
  using assms
proof (induction xs)
  case Nil
  then show ?case by simp
next
  case (Cons y ys)
  have keep: "filter (\<lambda>z. \<not> key_equiv lt (pr z) k) ys = ys" if "key_equiv lt (pr y) k"
  proof -
    have "\<not> key_equiv lt (pr z) k" if "z \<in> set ys" for z
    proof
      assume "key_equiv lt (pr z) k"
      with \<open>key_equiv lt (pr y) k\<close> have "key_equiv lt (pr y) (pr z)"
        using equiv_trans equiv_sym by blast
      with that Cons.prems(1) show False by (simp add: key_equiv_def)
    qed
    then show ?thesis by (simp add: filter_id_conv)
  qed
  show ?case
  proof (cases "x = y")
    case True
    with Cons.prems keep show ?thesis by (simp add: std_erase_def)
  next
    case False
    with Cons.prems have "x \<in> set ys" "\<not> key_equiv lt (pr y) (pr x)"
      by (auto simp: key_equiv_def)
    with Cons.prems(3) equiv_trans equiv_sym have "\<not> key_equiv lt (pr y) k" by blast
    with Cons \<open>x \<in> set ys\<close> show ?thesis by (simp add: std_erase_def)
  qed
qed

lemma erase_insert:
  "std_find lt pr (pr x) xs = None \<Longrightarrow> std_erase lt pr (pr x) (std_insert lt pr x xs) = xs"
proof (induction xs)
  case Nil
  then show ?case by (simp add: std_erase_def equiv_refl)
next
  case (Cons y ys)
  then have y: "\<not> key_equiv lt (pr y) (pr x)" "std_find lt pr (pr x) ys = None"
    by (auto split: if_splits)
  then have "filter (\<lambda>z. \<not> key_equiv lt (pr z) (pr x)) ys = ys"
    by (simp add: std_find_None_iff filter_id_conv)
  with y Cons.IH show ?case
    by (simp add: std_erase_def equiv_refl)
qed

lemma erase_head: "std_sorted lt pr (x # xs) \<Longrightarrow> std_erase lt pr (pr x) (x # xs) = xs"
  by (auto simp: std_erase_def key_equiv_def irrefl filter_id_conv)

end

lemma sum_list_empty: "(\<And>x. x \<in> set xs \<Longrightarrow> f x = {#}) \<Longrightarrow> sum_list (map f xs) = {#}"
  by (induction xs) auto

definition node_mset :: "'w ManagerLocal \<Rightarrow> nat \<Rightarrow> block multiset" where
  "node_mset m i = alloc_mset (m_allocations m ! i) + pools_mset (m_pools m ! i)"

lemma owned_vacate:
  assumes "i < length (m_allocations m)" "i < length (m_pools m)"
    and "m_allocations m' = (m_allocations m)[i := []]"
    and "m_pools m' = (m_pools m)[i := (m_pools m ! i)\<lparr>poolMap := []\<rparr>]"
  shows "owned m = node_mset m i + owned m'"
  using sum_list_map_update [OF assms(1), of alloc_mset "[]"]
    sum_list_map_update [OF assms(2), of pools_mset "(m_pools m ! i)\<lparr>poolMap := []\<rparr>"]
  by (simp add: owned_def node_mset_def assms(3,4) alloc_mset_def pools_mset_def add_ac)

text \<open>How one entry of a table changes what is owned.\<close>

lemma owned_frame [simp]:
  "owned (m\<lparr>m_state := st\<rparr>) = owned m" "owned (m\<lparr>world := w\<rparr>) = owned m"
  "owned (m\<lparr>m_handleToNodeIdInVector := r\<rparr>) = owned m"
  "owned (snd (fail_to_error s m)) = owned m"
  by (simp_all add: owned_def)

lemma owned_set_allocationSet:
  "i < length (m_allocations m) \<Longrightarrow>
     alloc_mset (m_allocations m ! i) + owned (set_allocationSet i bs m) = alloc_mset bs + owned m"
  using sum_list_map_update [of i "m_allocations m" alloc_mset bs]
  by (simp add: owned_def add.assoc [symmetric])

lemma alloc_in_owned:
  assumes "i < length (m_allocations m)" "d \<in> set (m_allocations m ! i)"
  shows "block_of d \<in># owned m"
proof -
  have "owned m = alloc_mset (m_allocations m ! i) + owned (set_allocationSet i [] m)"
    using owned_set_allocationSet [OF assms(1), of "[]"] by (simp add: alloc_mset_def)
  with assms(2) show ?thesis by (auto simp: alloc_mset_def)
qed

lemma owned_set_poolMap:
  "i < length (m_pools m) \<Longrightarrow>
     pools_mset (m_pools m ! i) + owned (set_poolMap i pm m) = pools_mset pm + owned m"
  using sum_list_map_update [of i "m_pools m" pools_mset pm]
  by (simp add: owned_def add.left_commute [of "pools_mset _"])

lemma pools_mset_cong: "poolMap pm = poolMap pm' \<Longrightarrow> pools_mset pm = pools_mset pm'"
  by (simp add: pools_mset_def)

subsection \<open>The ownership invariant over an array of allocators\<close>

definition desc_ok :: "(QCMemoryAllocator_e \<Rightarrow> 'w QCMemoryAllocatorIfs) \<Rightarrow> QCBufferDescriptorBase \<Rightarrow> bool"
  where
  "desc_ok allocs d \<longleftrightarrow> allocatorType d < QC_MEMORY_ALLOCATOR_LAST \<and>
     a_type (allocs (allocatorType d)) = allocatorType d \<and> b_size d \<noteq> 0"

definition pool_ok :: "(QCMemoryAllocator_e \<Rightarrow> 'w QCMemoryAllocatorIfs) \<Rightarrow> 'w Pool \<Rightarrow> bool" where
  "pool_ok allocs p \<longleftrightarrow>
     (\<exists>a < QC_MEMORY_ALLOCATOR_LAST. cfg_allocator (pool_config p) = allocs a) \<and> pool_inv p \<and>
     (pool_addrs p \<noteq> {} \<longrightarrow> p_size (cfg_buff (pool_config p)) \<noteq> 0)"

definition contents_ok ::
  "(QCMemoryAllocator_e \<Rightarrow> 'w QCMemoryAllocatorIfs) \<Rightarrow> 'w ManagerLocal \<Rightarrow> bool" where
  "contents_ok allocs m \<longleftrightarrow>
     (nodes_of m \<noteq> 0 \<longrightarrow> allocators (m_config m) = allocs) \<and>
     (\<forall>bs \<in> set (m_allocations m). \<forall>d \<in> set bs. desc_ok allocs d) \<and>
     (\<forall>pm \<in> set (m_pools m). \<forall>e \<in> set (poolMap pm). pool_ok allocs (snd e))"

definition mgr_owns ::
  "(QCMemoryAllocator_e \<Rightarrow> 'w QCMemoryAllocatorIfs) \<Rightarrow> ('w \<Rightarrow> block set) \<Rightarrow> ('w \<Rightarrow> bool) \<Rightarrow>
     'w ManagerLocal \<Rightarrow> bool" where
  "mgr_owns allocs live wok m \<longleftrightarrow>
     wok (world m) \<and> contents_ok allocs m \<and> counted (owned m) (live (world m))"

lemma contents_ok_frame [simp]:
  "contents_ok allocs (m\<lparr>m_state := s\<rparr>) = contents_ok allocs m"
  "contents_ok allocs (m\<lparr>world := w\<rparr>) = contents_ok allocs m"
  "contents_ok allocs (m\<lparr>m_handleToNodeIdInVector := r\<rparr>) = contents_ok allocs m"
  by (simp_all add: contents_ok_def nodes_of_def)

lemma contents_fail_to_error [simp]:
  "contents_ok allocs (snd (fail_to_error s m)) = contents_ok allocs m"
  by (simp add: fail_to_error_def)

lemma contents_set_allocationSet:
  "contents_ok allocs m \<Longrightarrow> (\<And>d. d \<in> set bs \<Longrightarrow> desc_ok allocs d) \<Longrightarrow>
     contents_ok allocs (set_allocationSet i bs m)"
  by (auto simp: contents_ok_def dest!: set_update_subset_insert [THEN subsetD])

lemma contents_set_poolMap:
  "contents_ok allocs m \<Longrightarrow> (\<And>e. e \<in> set (poolMap pm) \<Longrightarrow> pool_ok allocs (snd e)) \<Longrightarrow>
     contents_ok allocs (set_poolMap i pm m)"
  by (auto simp: contents_ok_def dest!: set_update_subset_insert [THEN subsetD])

text \<open>An entry removed from, or put in, a pool map.\<close>

lemma pools_mset_insert:
  "std_find pool_handle_less fst ph (poolMap pm) = None \<Longrightarrow>
     pools_mset (pm\<lparr>poolMap := std_insert pool_handle_less fst (ph, p) (poolMap pm)\<rparr>) =
     pool_mset p + pools_mset pm"
  by (simp add: pools_mset_def mset_std_insert_fresh)

lemma pools_mset_erase:
  assumes "std_sorted pool_handle_less fst (poolMap pm)"
    and "std_find pool_handle_less fst ph (poolMap pm) = Some (ph, p)"
  shows "pools_mset pm =
    pool_mset p + pools_mset (pm\<lparr>poolMap := std_erase pool_handle_less fst ph (poolMap pm)\<rparr>)"
proof -
  have "(ph, p) \<in> set (poolMap pm)" using assms by (auto dest: std_find_SomeD)
  with assms(1) have "mset (poolMap pm) =
      add_mset (ph, p) (mset (std_erase pool_handle_less fst ph (poolMap pm)))"
    by (rule pool_handle_order.erase_hit) (simp add: pool_handle_order.equiv_refl)
  then show ?thesis by (simp add: pools_mset_def)
qed

lemma pools_mset_alt: "pools_mset pm = sum_list (map (\<lambda>e. pool_mset (snd e)) (poolMap pm))"
  by (simp only: pools_mset_def mset_map [symmetric] sum_mset_sum_list)

lemma pools_mset_update:
  assumes "std_sorted pool_handle_less fst (poolMap pm)"
    and "std_find pool_handle_less fst ph (poolMap pm) = Some (ph, p)" "pool_mset p' = pool_mset p"
  shows "pools_mset (pm\<lparr>poolMap :=
      map (\<lambda>e. if fst e = ph then (fst e, p') else e) (poolMap pm)\<rparr>) = pools_mset pm"
proof -
  have "pool_mset (snd (if fst e = ph then (fst e, p') else e)) = pool_mset (snd e)"
    if "e \<in> set (poolMap pm)" for e
  proof (cases "fst e = ph")
    case True
    with that assms(2) pool_handle_order.find_Some_iff [OF assms(1), of ph e] have "e = (ph, p)"
      by simp
    with assms(3) show ?thesis by simp
  qed simp
  then have "map (\<lambda>e. pool_mset (snd (if fst e = ph then (fst e, p') else e))) (poolMap pm) =
      map (\<lambda>e. pool_mset (snd e)) (poolMap pm)" by (rule map_cong [OF refl])
  then show ?thesis by (simp add: pools_mset_alt comp_def del: map_eq_conv)
qed

text \<open>
  The interface between the manager and its allocators: one allocator per slot, each keeping its
  contract over the same world; what is allocated through a slot carries the number of the slot.
\<close>

locale allocator_array =
  fixes allocs :: "QCMemoryAllocator_e \<Rightarrow> 'w QCMemoryAllocatorIfs"
    and live :: "'w \<Rightarrow> block set"
    and wok :: "'w \<Rightarrow> bool"
  assumes contract: "a < QC_MEMORY_ALLOCATOR_LAST \<Longrightarrow> allocator_contract (allocs a) live wok"
    and slot: "a < QC_MEMORY_ALLOCATOR_LAST \<Longrightarrow>
      Allocate (allocs a) req resp w = (QC_STATUS_OK, d, w') \<Longrightarrow> a_type (allocs a) = a"
begin

abbreviation (input) owns :: "'w ManagerLocal \<Rightarrow> bool" where
  "owns m \<equiv> mgr_inv m \<and> mgr_owns allocs live wok m"

abbreviation (input) keeps :: "'w ManagerLocal \<Rightarrow> 'w ManagerLocal \<Rightarrow> bool" where
  "keeps m m' \<equiv> mgr_owns allocs live wok m' \<and> foreign live m' = foreign live m"

lemma owns_config:
  "mgr_tables m \<Longrightarrow> mgr_owns allocs live wok m \<Longrightarrow> node_of m h = Some i \<Longrightarrow>
     allocators (m_config m) = allocs"
  using node_bound(1) by (fastforce simp: mgr_owns_def contents_ok_def)

lemma keeps_world:
  "mgr_owns allocs live wok m \<Longrightarrow> wok w' \<Longrightarrow> live w' = live (world m) \<Longrightarrow>
     keeps m (snd (fail_to_error s (m\<lparr>world := w'\<rparr>)))"
  by (simp add: mgr_owns_def foreign_def)

lemma fresh_not_found:
  assumes "mgr_owns allocs live wok m" "i < length (m_allocations m)"
    and "block_of d \<notin> live (world m)"
  shows "std_find buffer_less id (id d) (m_allocations m ! i) = None"
proof (rule ccontr)
  assume "std_find buffer_less id (id d) (m_allocations m ! i) \<noteq> None"
  then obtain e where "e \<in> set (m_allocations m ! i)" "key_equiv buffer_less e d"
    by (auto dest: std_find_SomeD)
  with alloc_in_owned [OF assms(2)] have "block_of d \<in># owned m"
    by (metis block_of_def buffer_equivD)
  with assms show False by (auto simp: mgr_owns_def dest: counted_subset)
qed

lemma live_split: "mgr_owns allocs live wok m \<Longrightarrow>
    live (world m) = foreign live m \<union> set_mset (owned m)"
  by (auto simp: mgr_owns_def foreign_def dest: counted_subset)

lemma keeps_AllocateBuffer:
  assumes t: "mgr_tables m" and o: "mgr_owns allocs live wok m"
    and r: "ML_AllocateBuffer h a req b m = Some (s, b', m')"
  shows "keeps m m'"
  using t
proof (cases rule: AllocateBuffer_cases [where h = h and a = a and req = req and b = b])
  case undef
  with r show ?thesis by simp
next
  case (refused s)
  with r o show ?thesis by simp
next
  case (failed i s' d w')
  then have c: "allocator_contract (allocs a) live wok" using contract by simp
  have al: "allocators (m_config m) = allocs" by (rule owns_config [OF t o failed(3)])
  with o failed(4,5) allocator_contract.alloc_fail [OF c] have "wok w'" "live w' = live (world m)"
    by (auto simp: mgr_owns_def)
  with keeps_world [OF o] have "keeps m (snd (fail_to_error s' (m\<lparr>world := w'\<rparr>)))" by blast
  with r failed(6) show ?thesis by auto
next
  case (allocated i d w')
  note bd = node_bound [OF t allocated(4)]
  let ?set = "m_allocations m ! unat i"
  have al: "allocators (m_config m) = allocs" by (rule owns_config [OF t o allocated(4)])
  have c: "allocator_contract (allocs a) live wok" using contract allocated(2) .
  have o': "wok (world m)" "contents_ok allocs m" "counted (owned m) (live (world m))"
    using o by (simp_all add: mgr_owns_def)
  from allocator_contract.alloc_ok [OF c o'(1)] allocated(5) al
  have a: "wok w'" "allocatorType d = a_type (allocs a)" "block_of d \<notin> live (world m)"
    "live w' = insert (block_of d) (live (world m))" "b_size d \<noteq> 0" by auto
  with slot [OF allocated(2)] allocated(2,5) al have d: "desc_ok allocs d"
    by (simp add: desc_ok_def)
  have "std_find buffer_less id (id d) ?set = None"
    by (rule fresh_not_found [OF o bd(3) a(3)])
  note fresh = mset_std_insert_fresh [OF this] set_std_insert_fresh [OF this]
  let ?m = "set_allocationSet (unat i) (std_insert buffer_less id d ?set) (m\<lparr>world := w'\<rparr>)"
  have "alloc_mset ?set + owned ?m = alloc_mset ?set + add_mset (block_of d) (owned m)"
    using owned_set_allocationSet [of "unat i" "m\<lparr>world := w'\<rparr>"] bd(3) fresh(1)
    by (simp add: alloc_mset_def)
  then have ow: "owned ?m = add_mset (block_of d) (owned m)" by simp
  have "contents_ok allocs ?m"
    using o'(2) d fresh(2) bd(3)
    by (intro contents_set_allocationSet) (auto simp: contents_ok_def)
  with counted_add [OF o'(3) a(3)] a(1,4) ow have "keeps m ?m"
    by (simp add: mgr_owns_def foreign_def)
  with r allocated(6) show ?thesis by auto
qed

lemma FreeBuffer_desc:
  assumes t: "mgr_tables m" and o: "mgr_owns allocs live wok m"
    and i: "node_of m h = Some i"
    and f: "std_find buffer_less id b (m_allocations m ! unat i) \<noteq> None"
  obtains e where "e \<in> set (m_allocations m ! unat i)" "key_equiv buffer_less e b"
    "block_of e = block_of b" "desc_ok allocs b"
    "mset (m_allocations m ! unat i) =
       add_mset e (mset (std_erase buffer_less id b (m_allocations m ! unat i)))"
proof -
  note bd = node_bound [OF t i]
  from f obtain e where e: "e \<in> set (m_allocations m ! unat i)" "key_equiv buffer_less e b"
    by (auto dest: std_find_SomeD)
  from o bd(3) e(1) have "desc_ok allocs e" by (auto simp: mgr_owns_def contents_ok_def)
  with buffer_equivD [OF e(2)] have "desc_ok allocs b" "block_of e = block_of b"
    by (simp_all add: desc_ok_def block_of_def)
  moreover have "mset (m_allocations m ! unat i) =
      add_mset e (mset (std_erase buffer_less id b (m_allocations m ! unat i)))"
    using buffer_order.erase_hit [OF tables_alloc_sorted [OF t bd(3)] e(1), of b] e(2) by simp
  ultimately show ?thesis using that e by blast
qed

lemma keeps_FreeBuffer:
  assumes t: "mgr_tables m" and o: "mgr_owns allocs live wok m"
    and r: "ML_FreeBuffer h b m = Some (s, m')"
  shows "keeps m m'"
  using t
proof (cases rule: FreeBuffer_cases [where h = h and b = b])
  case undef
  with r show ?thesis by simp
next
  case (refused s)
  with r o show ?thesis by simp
next
  case (failed i s' w')
  then have c: "allocator_contract (allocs (allocatorType b)) live wok" using contract by simp
  have al: "allocators (m_config m) = allocs" by (rule owns_config [OF t o failed(2)])
  with o failed(5,6) allocator_contract.free_fail [OF c] have "wok w'" "live w' = live (world m)"
    by (auto simp: mgr_owns_def)
  with keeps_world [OF o] have "keeps m (snd (fail_to_error s' (m\<lparr>world := w'\<rparr>)))" by blast
  with r failed(7) show ?thesis by auto
next
  case (freed i w')
  note bd = node_bound [OF t freed(2)]
  let ?set = "m_allocations m ! unat i" and ?er = "std_erase buffer_less id b"
  from FreeBuffer_desc [OF t o freed(2,4)] obtain e where
    e: "e \<in> set ?set" "block_of e = block_of b" "desc_ok allocs b"
      "mset ?set = add_mset e (mset (?er ?set))" by blast
  have al: "allocators (m_config m) = allocs" by (rule owns_config [OF t o freed(2)])
  have c: "allocator_contract (allocs (allocatorType b)) live wok" using contract freed(3) .
  have o': "wok (world m)" "contents_ok allocs m" "counted (owned m) (live (world m))"
    using o by (simp_all add: mgr_owns_def)
  let ?m = "set_allocationSet (unat i) (?er ?set) (m\<lparr>world := w'\<rparr>)"
  have "alloc_mset (?er ?set) + owned m =
      alloc_mset (?er ?set) + add_mset (block_of b) (owned ?m)"
    using owned_set_allocationSet [of "unat i" "m\<lparr>world := w'\<rparr>" "?er ?set"] bd(3) e(2,4)
    by (simp add: alloc_mset_def)
  then have ow: "owned m = add_mset (block_of b) (owned ?m)" by simp
  note cr = counted_remove [OF o'(3) [unfolded ow]]
  from allocator_contract.free_ok [OF c o'(1) cr(1)] freed(5) al e(3)
  have w': "wok w'" "live w' = live (world m) - {block_of b}" by (auto simp: desc_ok_def)
  have "contents_ok allocs ?m"
    using o'(2) bd(3) by (intro contents_set_allocationSet) (auto simp: contents_ok_def)
  with cr(2,3) w' have "keeps m ?m" by (simp add: mgr_owns_def foreign_def ow)
  with r freed(6) show ?thesis by auto
qed

lemma pool_at_ok:
  assumes "mgr_tables m" "mgr_owns allocs live wok m" "node_of m h = Some i"
    "pool_at m i ph p"
  shows "pool_ok allocs p" "std_sorted pool_handle_less fst (poolMap (m_pools m ! unat i))"
    "unat i < length (m_pools m)"
proof -
  show len: "unat i < length (m_pools m)" by (rule node_bound [OF assms(1,3)])
  show "std_sorted pool_handle_less fst (poolMap (m_pools m ! unat i))"
    using tables_pools_ok [OF assms(1) len] by (simp add: pools_ok_def)
  have "(ph, p) \<in> set (poolMap (m_pools m ! unat i))"
    using assms(4) by (auto dest: std_find_SomeD)
  moreover have "m_pools m ! unat i \<in> set (m_pools m)" using len by simp
  ultimately show "pool_ok allocs p"
    using assms(2) unfolding mgr_owns_def contents_ok_def by fastforce
qed

lemma keeps_write_pool:
  assumes t: "mgr_tables m" and o: "mgr_owns allocs live wok m"
    and i: "node_of m h = Some i" and p: "pool_at m i ph p"
    and p': "pool_mset p' = pool_mset p" "pool_ok allocs p'"
  shows "keeps m (snd (fail_to_error s (write_pool i ph p' m)))"
proof -
  note at = pool_at_ok [OF t o i p]
  let ?pm = "(m_pools m ! unat i)\<lparr>poolMap :=
    map (\<lambda>e. if fst e = ph then (fst e, p') else e) (poolMap (m_pools m ! unat i))\<rparr>"
  have "pools_mset ?pm = pools_mset (m_pools m ! unat i)"
    by (rule pools_mset_update [OF at(2) p p'(1)])
  with owned_set_poolMap [OF at(3), of ?pm] have ow: "owned (set_poolMap (unat i) ?pm m) = owned m"
    by simp
  have "contents_ok allocs (set_poolMap (unat i) ?pm m)"
    using o at(3) p'(2) by (intro contents_set_poolMap) (auto simp: mgr_owns_def contents_ok_def)
  with o ow show ?thesis by (simp add: mgr_owns_def foreign_def)
qed

lemma keeps_AllocateBufferFromPool:
  assumes t: "mgr_tables m" and o: "mgr_owns allocs live wok m"
    and r: "ML_AllocateBufferFromPool ph b m = Some (s, b', m')"
  shows "keeps m m'"
  using t
proof (cases rule: AllocateBufferFromPool_cases [where ph = ph and b = b])
  case undef
  with r show ?thesis by simp
next
  case (refused s)
  with r o show ?thesis by simp
next
  case (asked i p s' d p')
  note at = pool_at_ok [OF t o asked(2,3)]
  have p': "p' = snd (snd (Pool_GetElement p b))" by (simp add: asked(4))
  have "pool_inv p" using at(1) by (simp add: pool_ok_def)
  with at(1) have "pool_mset p' = pool_mset p" "pool_ok allocs p'"
    unfolding p' by (simp_all add: pool_mset_GetElement pool_ok_def pool_inv_GetElement
        pool_addrs_GetElement)
  from keeps_write_pool [OF t o asked(2,3) this] have
    "keeps m (snd (fail_to_error s' (write_pool i ph p' m)))" .
  with r asked(5) show ?thesis by auto
qed

lemma keeps_PutBufferToPool:
  assumes t: "mgr_tables m" and o: "mgr_owns allocs live wok m"
    and r: "ML_PutBufferToPool ph b m = Some (s, m')"
  shows "keeps m m'"
  using t
proof (cases rule: PutBufferToPool_cases [where ph = ph and b = b])
  case undef
  with r show ?thesis by simp
next
  case (refused s)
  with r o show ?thesis by simp
next
  case (asked i p s' p')
  note at = pool_at_ok [OF t o asked(2,3)]
  have p': "p' = snd (Pool_PutElement p b)" by (simp add: asked(4))
  have "pool_inv p" using at(1) by (simp add: pool_ok_def)
  with at(1) have "pool_mset p' = pool_mset p" "pool_ok allocs p'"
    unfolding p' by (simp_all add: pool_mset_PutElement pool_ok_def pool_inv_PutElement
        pool_addrs_PutElement)
  from keeps_write_pool [OF t o asked(2,3) this] have
    "keeps m (snd (fail_to_error s' (write_pool i ph p' m)))" .
  with r asked(5) show ?thesis by auto
qed

lemma keeps_DestroyPool:
  assumes t: "mgr_tables m" and o: "mgr_owns allocs live wok m"
    and r: "ML_DestroyPool ph m = Some (s, m')"
  shows "keeps m m'"
  using t
proof (cases rule: DestroyPool_cases [where ph = ph])
  case undef
  with r show ?thesis by simp
next
  case (refused s)
  with r o show ?thesis by simp
next
  case (destroyed i p)
  note at = pool_at_ok [OF t o destroyed(2,3)]
  have o': "wok (world m)" "contents_ok allocs m" "counted (owned m) (live (world m))"
    using o by (simp_all add: mgr_owns_def)
  let ?pm = "(m_pools m ! unat i)
    \<lparr>poolMap := std_erase pool_handle_less fst ph (poolMap (m_pools m ! unat i))\<rparr>"
  let ?m = "set_poolMap (unat i) ?pm m" and ?w = "Pool_destroy p (world m)"
  have "pools_mset ?pm + owned m = pools_mset ?pm + (pool_mset p + owned ?m)"
    using owned_set_poolMap [OF at(3), of ?pm] pools_mset_erase [OF at(2) destroyed(3)]
    by (simp add: add_ac)
  then have ow: "owned m = pool_mset p + owned ?m" by simp
  note cr = counted_remove_set [OF o'(3) [unfolded ow] set_pool_mset]
  from at(1) obtain a where a: "a < QC_MEMORY_ALLOCATOR_LAST"
    "cfg_allocator (pool_config p) = allocs a" by (auto simp: pool_ok_def)
  have "pool_owned (allocs a) live p (world m)"
    using at(1) a(2) cr(1) by (simp add: pool_owned_def pool_ok_def)
  from allocator_contract.Pool_destroy_spec [OF contract [OF a(1)] o'(1) this]
  have w: "wok ?w" "live ?w = live (world m) - pool_blocks p" by simp_all
  have "contents_ok allocs ?m"
    using o'(2) at(3) by (intro contents_set_poolMap) (auto simp: contents_ok_def)
  with cr(2,3) w have "keeps m (?m\<lparr>world := ?w\<rparr>)" by (simp add: mgr_owns_def foreign_def ow)
  with r destroyed(4) show ?thesis by auto
qed

lemma pools_mset_next [simp]: "pools_mset (next_pool_map i m) = pools_mset (m_pools m ! unat i)"
  by (rule pools_mset_cong) simp

lemma owned_next_pool_map:
  "unat i < length (m_pools m) \<Longrightarrow> owned (set_poolMap (unat i) (next_pool_map i m) m) = owned m"
  using owned_set_poolMap [of "unat i" m "next_pool_map i m"] by simp

lemma contents_next_pool_map:
  "contents_ok allocs m \<Longrightarrow> unat i < length (m_pools m) \<Longrightarrow>
     contents_ok allocs (set_poolMap (unat i) (next_pool_map i m) m)"
  by (intro contents_set_poolMap) (auto simp: contents_ok_def)

lemma owns_CreatePool:
  assumes t: "mgr_tables m" and o: "mgr_owns allocs live wok m"
    and r: "ML_CreatePool h cfg ph rnd m = Some (s, ph', m')"
  shows "mgr_owns allocs live wok m' \<and> foreign live m \<subseteq> foreign live m' \<and>
    (s \<noteq> QC_STATUS_FAIL \<longrightarrow> foreign live m' = foreign live m)"
proof -
  have o': "wok (world m)" "contents_ok allocs m" "counted (owned m) (live (world m))"
    using o by (simp_all add: mgr_owns_def)
  have init: "\<exists>a < QC_MEMORY_ALLOCATOR_LAST. cfg_allocator (pool_config p) = allocs a \<and>
      wok w' \<and> pool_owned (allocs a) live p w' \<and>
      pool_blocks p \<inter> live (world m) = {} \<and> live w' = live (world m) \<union> pool_blocks p"
    if "node_of m h = Some i" "pic_allocator cfg < QC_MEMORY_ALLOCATOR_LAST"
      "Pool_Init (Pool_new (pool_config_of cfg m)) (world m) = (s', p, w')" for i s' p w'
  proof (intro exI [of _ "pic_allocator cfg"] conjI)
    let ?a = "pic_allocator cfg"
    have "cfg_allocator (pool_config_of cfg m) = allocs ?a"
      using owns_config [OF t o that(1)] by (simp add: pool_config_of_def)
    from allocator_contract.Pool_Init_spec [OF contract [OF that(2)] o'(1) this that(3)] this
    show "cfg_allocator (pool_config p) = allocs ?a" "wok w'" "pool_owned (allocs ?a) live p w'"
      "pool_blocks p \<inter> live (world m) = {}" "live w' = live (world m) \<union> pool_blocks p"
      by auto
  qed (rule that(2))
  from t show ?thesis
  proof (cases rule: CreatePool_cases [where h = h and cfg = cfg and ph = ph and rnd = rnd])
    case undef
    with r show ?thesis by simp
  next
    case (refused s)
    with r o show ?thesis by simp
  next
    case (clash i k)
    note bd = node_bound [OF t clash(1)]
    let ?m = "(set_poolMap (unat i) (next_pool_map i m) m)\<lparr>m_state := QC_OBJECT_STATE_ERROR\<rparr>"
    have "keeps m ?m"
      using o' bd by (simp add: mgr_owns_def foreign_def owned_next_pool_map contents_next_pool_map)
    with r clash(3) show ?thesis by auto
  next
    case (failed i k s' p w')
    note bd = node_bound [OF t failed(1)]
    let ?m = "set_poolMap (unat i) (next_pool_map i m) m"
    have ow: "owned ?m = owned m" "contents_ok allocs ?m"
      using o' bd by (simp_all add: owned_next_pool_map contents_next_pool_map)
    from init [OF failed(1,3,4)] obtain a where a: "a < QC_MEMORY_ALLOCATOR_LAST"
      "wok w'" "pool_owned (allocs a) live p w'" "pool_blocks p \<inter> live (world m) = {}"
      "live w' = live (world m) \<union> pool_blocks p" by blast
    show ?thesis
    proof (cases "s' = QC_STATUS_FAIL")
      case True
      let ?m' = "?m\<lparr>world := w', m_state := QC_OBJECT_STATE_ERROR\<rparr>"
      have "counted (owned m) (live w')" by (rule counted_mono [OF o'(3)]) (simp add: a(5))
      then have "mgr_owns allocs live wok ?m' \<and> foreign live m \<subseteq> foreign live ?m'"
        using a(2,5) ow by (auto simp: mgr_owns_def foreign_def)
      with r failed(6) True show ?thesis by auto
    next
      case False
      let ?w = "Pool_destroy p w'"
      let ?m' = "?m\<lparr>world := ?w, m_state := QC_OBJECT_STATE_READY\<rparr>"
      from allocator_contract.Pool_destroy_spec [OF contract [OF a(1)] a(2,3)] a(4,5)
      have "wok ?w" "live ?w = live (world m)" by auto
      with o' ow have "keeps m ?m'" by (simp add: mgr_owns_def foreign_def)
      with r failed(6) False show ?thesis by auto
    qed
  next
    case (created i k p w')
    note bd = node_bound [OF t created(1)]
    let ?pm = "(next_pool_map i m)\<lparr>poolMap :=
      std_insert pool_handle_less fst (k, p) (poolMap (m_pools m ! unat i))\<rparr>"
    let ?m = "set_poolMap (unat i) ?pm (m\<lparr>world := w'\<rparr>)"
    from init [OF created(1,3,7)] obtain a where a: "a < QC_MEMORY_ALLOCATOR_LAST"
      "cfg_allocator (pool_config p) = allocs a" "wok w'" "pool_owned (allocs a) live p w'"
      "pool_blocks p \<inter> live (world m) = {}" "live w' = live (world m) \<union> pool_blocks p" by blast
    then have p: "pool_inv p" "pool_ok allocs p" by (auto simp: pool_owned_def pool_ok_def)
    have "pools_mset ?pm = pool_mset p + pools_mset (m_pools m ! unat i)"
      using pools_mset_insert [of k "next_pool_map i m" p] created(6) by simp
    with owned_set_poolMap [of "unat i" "m\<lparr>world := w'\<rparr>" ?pm] bd(2)
    have "pools_mset (m_pools m ! unat i) + owned ?m =
        pools_mset (m_pools m ! unat i) + (pool_mset p + owned m)" by (simp add: add_ac)
    then have ow: "owned ?m = pool_mset p + owned m" by simp
    have "set (poolMap ?pm) = insert (k, p) (set (poolMap (m_pools m ! unat i)))"
      using created(6) by (simp add: set_std_insert_fresh)
    then have "contents_ok allocs ?m"
      using o'(2) bd(2) p(2) by (intro contents_set_poolMap) (auto simp: contents_ok_def)
    with counted_add_set [OF o'(3) counted_pool [OF p(1)] a(5) set_pool_mset] a(3,6) ow
    have "keeps m ?m" by (simp add: mgr_owns_def foreign_def)
    with r created(8) show ?thesis by auto
  qed
qed

text \<open>Reclaiming: nothing is lost whatever the outcome, and in a sound state the outcome is
  \<^verbatim>\<open>QC_STATUS_OK\<close>.\<close>

lemma FreeBuffer_succeeds:
  assumes t: "mgr_tables m" and o: "mgr_owns allocs live wok m"
    and i: "node_of m h = Some i" and ready: "m_state m = QC_OBJECT_STATE_READY"
    and b: "std_find buffer_less id b (m_allocations m ! unat i) \<noteq> None"
  shows "\<exists>m'. ML_FreeBuffer h b m = Some (QC_STATUS_OK, m')"
proof -
  note bd = node_bound [OF t i]
  from FreeBuffer_desc [OF t o i b] obtain e where
    e: "e \<in> set (m_allocations m ! unat i)" "block_of e = block_of b" "desc_ok allocs b" by blast
  have c: "allocator_contract (allocs (allocatorType b)) live wok"
    using contract e(3) by (simp add: desc_ok_def)
  have "block_of b \<in> live (world m)"
    using o alloc_in_owned [OF bd(3) e(1)] e(2) by (auto simp: mgr_owns_def dest: counted_subset)
  with allocator_contract.free_succeeds [OF c _ this] o e(3) have
    ok: "fst (Free (allocs (allocatorType b)) b (world m)) = QC_STATUS_OK"
    by (simp add: mgr_owns_def desc_ok_def)
  have al: "allocators (m_config m) = allocs" by (rule owns_config [OF t o i])
  from t show ?thesis
  proof (cases rule: FreeBuffer_cases [where h = h and b = b])
    case (refused s)
    with ready i b e(3) show ?thesis by (auto simp: desc_ok_def)
  qed (use ok al node_of_not_stale [OF i] in auto)
qed

lemma DestroyPool_succeeds:
  assumes "mgr_tables m" "m_state m = QC_OBJECT_STATE_READY"
    "node_of m (GetMemoryHandle ph) = Some i" "pool_at m i ph p"
  shows "\<exists>m'. ML_DestroyPool ph m = Some (QC_STATUS_OK, m')"
  using assms(1)
  by (cases rule: DestroyPool_cases [where ph = ph]) (use assms node_of_not_stale in auto)

lemma keeps_reclaim_buffers:
  assumes "mgr_tables m" "mgr_owns allocs live wok m" "node_of m h = Some i"
    and "reclaim_buffers h bs (s, st, m) = Some (s', st', m')"
  shows "keeps m m' \<and> (m_state m = QC_OBJECT_STATE_READY \<longrightarrow> m_allocations m ! unat i = bs \<longrightarrow> s' = s)"
  using assms
proof (induction bs arbitrary: s st m)
  case Nil
  then show ?case by simp
next
  case (Cons b bs)
  note bd = node_bound [OF Cons.prems(1,3)]
  from FreeBuffer_frame [OF Cons.prems(1,3), of b] obtain ls m1 where
    f: "ML_FreeBuffer h b m = Some (ls, m1)" "mgr_tables m1" "same_registry m m1"
      "ls = QC_STATUS_OK \<Longrightarrow> m_state m1 = m_state m \<and> m_allocations m1 = (m_allocations m)
          [unat i := std_erase buffer_less id b (m_allocations m ! unat i)]" by blast
  have k: "keeps m m1" by (rule keeps_FreeBuffer [OF Cons.prems(1,2) f(1)])
  have reg: "node_of m1 h = Some i"
    using f(3) Cons.prems(3) by (simp add: same_registry_node)
  let ?s = "if ls = QC_STATUS_OK then s else ls"
  let ?st = "if ls = QC_STATUS_OK then st else QC_OBJECT_STATE_ERROR"
  have "reclaim_buffers h bs (?s, ?st, m1) = Some (s', st', m')"
    using Cons.prems(4) f(1) by (auto split: if_splits)
  from Cons.IH [OF f(2) _ reg this] k have IH: "keeps m1 m'"
    "m_state m1 = QC_OBJECT_STATE_READY \<Longrightarrow> m_allocations m1 ! unat i = bs \<Longrightarrow> s' = ?s" by auto
  have "s' = s" if ready: "m_state m = QC_OBJECT_STATE_READY"
    and all: "m_allocations m ! unat i = b # bs"
  proof -
    have sorted: "std_sorted buffer_less id (b # bs)"
      using tables_alloc_sorted [OF Cons.prems(1) bd(3)] all by simp
    have "std_find buffer_less id b (m_allocations m ! unat i) \<noteq> None"
      by (simp add: all buffer_order.equiv_refl)
    from FreeBuffer_succeeds [OF Cons.prems(1-3) ready this] f(1) have ok: "ls = QC_STATUS_OK" by auto
    have "m_allocations m1 ! unat i = bs"
      using f(4) [OF ok] bd(3) all buffer_order.erase_head [OF sorted] by simp
    with IH(2) f(4) [OF ok] ready ok show ?thesis by simp
  qed
  with k IH(1) show ?case by simp
qed

lemma keeps_reclaim_pools:
  assumes "mgr_tables m" "mgr_owns allocs live wok m" "ni < length (m_pools m)"
    and "\<forall>ph \<in> set phs. map_option unat (node_of m (GetMemoryHandle ph)) = Some ni"
    and "reclaim_pools phs (s, st, m) = Some (s', st', m')"
  shows "keeps m m' \<and> (m_state m = QC_OBJECT_STATE_READY \<longrightarrow>
           map fst (poolMap (m_pools m ! ni)) = phs \<longrightarrow> s' = s)"
  using assms
proof (induction phs arbitrary: s st m)
  case Nil
  then show ?case by simp
next
  case (Cons ph phs)
  have reg: "map_option unat (node_of m (GetMemoryHandle ph)) = Some ni"
    using Cons.prems(4) by simp
  from DestroyPool_frame [OF Cons.prems(1) reg] obtain ls m1 where
    f: "ML_DestroyPool ph m = Some (ls, m1)" "mgr_tables m1" "same_registry m m1"
      "ls = QC_STATUS_OK \<Longrightarrow> m_state m1 = m_state m \<and> m_pools m1 = (m_pools m) [ni :=
        (m_pools m ! ni)
          \<lparr>poolMap := std_erase pool_handle_less fst ph (poolMap (m_pools m ! ni))\<rparr>]" by blast
  have k: "keeps m m1" by (rule keeps_DestroyPool [OF Cons.prems(1,2) f(1)])
  have n: "ni < length (m_pools m1)"
    using Cons.prems(1,3) f(2,3) by (simp add: tables_length same_registry_nodes)
  have regs: "\<forall>ph \<in> set phs.
      map_option unat (node_of m1 (GetMemoryHandle ph)) = Some ni"
    using Cons.prems(4) f(3) by (simp add: same_registry_node)
  let ?s = "if ls = QC_STATUS_OK then s else ls"
  let ?st = "if ls = QC_STATUS_OK then st else QC_OBJECT_STATE_ERROR"
  have "reclaim_pools phs (?s, ?st, m1) = Some (s', st', m')"
    using Cons.prems(5) f(1) by (auto split: if_splits)
  from Cons.IH [OF f(2) _ n regs this] k have IH: "keeps m1 m'"
    "m_state m1 = QC_OBJECT_STATE_READY \<Longrightarrow> map fst (poolMap (m_pools m1 ! ni)) = phs \<Longrightarrow> s' = ?s"
    by auto
  have "s' = s" if ready: "m_state m = QC_OBJECT_STATE_READY"
    and all: "map fst (poolMap (m_pools m ! ni)) = ph # phs"
  proof -
    from all obtain p es where es: "poolMap (m_pools m ! ni) = (ph, p) # es" "map fst es = phs"
      by auto
    have sorted: "std_sorted pool_handle_less fst ((ph, p) # es)"
      using tables_pools_ok [OF Cons.prems(1,3)] es(1) by (simp add: pools_ok_def)
    from reg obtain i where i: "node_of m (GetMemoryHandle ph) = Some i"
      "unat i = ni" by auto
    have "pool_at m i ph p" by (simp add: i(2) es(1) pool_handle_order.equiv_refl)
    from DestroyPool_succeeds [OF Cons.prems(1) ready i(1) this] f(1)
    have ok: "ls = QC_STATUS_OK" by auto
    have "poolMap (m_pools m1 ! ni) = es"
      using f(4) [OF ok] Cons.prems(3) es(1) pool_handle_order.erase_head [OF sorted] by simp
    with IH(2) f(4) [OF ok] ready ok es(2) show ?thesis by simp
  qed
  with k IH(1) show ?case by simp
qed

lemma keeps_ReclaimResources:
  assumes t: "mgr_tables m" and o: "mgr_owns allocs live wok m"
    and r: "ML_ReclaimResources h m = Some (s, m')"
  shows "keeps m m' \<and> (IsMemoryHandleRegistered m h \<noteq> None \<longrightarrow> s = QC_STATUS_OK)"
proof (cases rule: handle_cases [of m h])
  case unregistered
  with r o show ?thesis by (simp add: ReclaimResources_unregistered)
next
  case (stale i)
  with r ReclaimResources_undefined [OF t, of h] show ?thesis by simp
next
  case (node i)
  note bd = node_bound [OF t node]
  define m0 where "m0 =
    (if m_state m \<noteq> QC_OBJECT_STATE_READY then m\<lparr>m_state := QC_OBJECT_STATE_READY\<rparr> else m)"
  let ?bs = "m_allocations m ! unat i" and ?phs = "map fst (poolMap (m_pools m ! unat i))"
  have m0: "mgr_tables m0" "node_of m0 h = Some i" "same_registry m m0"
      "m_pools m0 = m_pools m" "m_allocations m0 = m_allocations m"
      "m_state m0 = QC_OBJECT_STATE_READY" "mgr_owns allocs live wok m0"
      "foreign live m0 = foreign live m"
    using t o node by (simp_all add: same_registry_def m0_def mgr_owns_def foreign_def)
  from reclaim_buffers_spec [OF m0(1,2), of QC_STATUS_OK "m_state m" ?bs] obtain s1 st1 m1 where
    b: "reclaim_buffers h ?bs (QC_STATUS_OK, m_state m, m0) = Some (s1, st1, m1)"
      "mgr_tables m1" "same_registry m0 m1" "m_pools m1 = m_pools m"
      "s1 = QC_STATUS_OK \<Longrightarrow> m_state m1 = m_state m0"
    using m0(4) by (auto split: if_splits)
  from keeps_reclaim_buffers [OF m0(1,7,2) b(1)] m0(5,6)
  have k1: "keeps m0 m1" "s1 = QC_STATUS_OK" by simp_all
  have len: "unat i < length (m_pools m1)" using b(4) bd(2) by simp
  have keys: "\<forall>ph \<in> set ?phs.
      map_option unat (node_of m1 (GetMemoryHandle ph)) = Some (unat i)"
    using tables_pools_ok [OF t bd(2)] b(3) m0(3)
    by (auto simp: pools_ok_def same_registry_node)
  from reclaim_pools_spec [OF b(2) len keys, of s1 st1] k1(2) obtain s2 st2 m2 where
    p: "reclaim_pools ?phs (s1, st1, m1) = Some (s2, st2, m2)" by auto
  from keeps_reclaim_pools [OF b(2) _ len keys p] k1 b(4,5) m0(6)
  have k2: "keeps m1 m2" "s2 = s1" by simp_all
  have "ML_ReclaimResources h m = Some (s2, m2\<lparr>m_state := st2\<rparr>)"
    using bd b(1,4) p len node_bound(5) [OF m0(1,2)] m0(5)
    by (simp add: ML_ReclaimResources_def Let_def m0_def [symmetric])
  with r k1 k2 m0(8) show ?thesis by (auto simp: mgr_owns_def foreign_def)
qed

lemma keeps_registry:
  "mgr_owns allocs live wok m \<Longrightarrow>
     keeps m (m\<lparr>m_handleToNodeIdInVector := r, m_state := st\<rparr>)"
  "mgr_owns allocs live wok m \<Longrightarrow> keeps m (m\<lparr>m_handleToNodeIdInVector := r\<rparr>)"
  "mgr_owns allocs live wok m \<Longrightarrow> keeps m (m\<lparr>m_state := st\<rparr>)"
  by (simp_all add: mgr_owns_def foreign_def)

lemma keeps_Register:
  assumes "mgr_owns allocs live wok m"
  shows "keeps m (snd (snd (ML_Register node h rnd m)))"
  by (cases rule: Register_cases [of node h rnd m]) (use assms keeps_registry in auto)

lemma keeps_UnRegister:
  assumes t: "mgr_tables m" and o: "mgr_owns allocs live wok m"
    and r: "ML_UnRegister h m = Some (s, m')"
  shows "keeps m m' \<and> (m_state m = QC_OBJECT_STATE_READY \<longrightarrow>
           IsMemoryHandleRegistered m h \<noteq> None \<longrightarrow> s = QC_STATUS_OK)"
proof (cases "m_state m = QC_OBJECT_STATE_READY \<and> IsMemoryHandleRegistered m h \<noteq> None")
  case False
  with r o show ?thesis by (auto simp: ML_UnRegister_def Let_def split: if_splits)
next
  case True
  with r UnRegister_undefined [OF t, of h] obtain i where i: "node_of m h = Some i"
    by (cases rule: handle_cases [of m h]) auto
  note reg = node_bound(5) [OF t i]
  from ReclaimResources_spec [OF t i] obtain s1 m1
    where rr: "ML_ReclaimResources h m = Some (s1, m1)" by blast
  with keeps_ReclaimResources [OF t o rr] reg have k: "keeps m m1" "s1 = QC_STATUS_OK" by simp_all
  from UnRegister_spec [OF t _ i rr] True k(2) r have "s = QC_STATUS_OK"
    "m' = m1\<lparr>m_handleToNodeIdInVector :=
       std_erase handle_less fst h (m_handleToNodeIdInVector m), m_state := QC_OBJECT_STATE_READY\<rparr>"
    by auto
  with keeps_registry(1) k(1) show ?thesis by simp
qed

lemma owns_Initialize:
  assumes "mgr_inv m" "mgr_owns allocs live wok m" "allocators ini = allocs"
  shows "keeps m (snd (ML_Initialize ini m))"
  using Initialize_cases [of m ini]
proof cases
  case started
  with assms(1) have e: "m_pools m = []" "m_allocations m = []"
    by (auto simp: mgr_inv_def mgr_tables_def)
  let ?m = "snd (ML_Initialize ini m)"
  have "owned ?m = {#}"
    by (auto simp: started(3) e owned_def alloc_mset_def pools_mset_def
        PoolMapWithMutex_init_def intro!: sum_list_empty simp del: map_replicate)
  moreover have "owned m = {#}" "world ?m = world m"
    by (simp_all add: started(3) e owned_def)
  moreover have "contents_ok allocs ?m"
    using assms(3) by (auto simp: started(3) e contents_ok_def PoolMapWithMutex_init_def)
  ultimately show ?thesis using assms(2) by (simp add: mgr_owns_def foreign_def)
qed (use assms in \<open>auto simp: mgr_inv_def\<close>)

lemma mgr_owns_new: "wok w \<Longrightarrow> mgr_owns allocs live wok (ManagerLocal_new w)"
  by (simp add: mgr_owns_def contents_ok_def owned_def ManagerLocal_new_def nodes_of_def
      QCMemoryManagerInit_default_def)

lemma keeps_reclaim_handles:
  assumes "mgr_tables m" "mgr_owns allocs live wok m"
    "set hs \<subseteq> fst ` set (m_handleToNodeIdInVector m)"
    and "reclaim_handles hs (s, st, m) = Some (s', st', m')"
  shows "keeps m m' \<and> s' = s"
  using assms
proof (induction hs arbitrary: m)
  case Nil
  then show ?case by simp
next
  case (Cons h hs)
  then have reg: "IsMemoryHandleRegistered m h \<noteq> None" by (auto simp: registered_None_iff)
  from Cons.prems(4) obtain ls m1 where f: "ML_ReclaimResources h m = Some (ls, m1)"
    by (auto split: option.splits)
  note k1 = ReclaimResources_registry [OF Cons.prems(1) f]
  from keeps_ReclaimResources [OF Cons.prems(1,2) f] reg
  have k: "keeps m m1" "ls = QC_STATUS_OK" by simp_all
  have hs: "set hs \<subseteq> fst ` set (m_handleToNodeIdInVector m1)"
    using Cons.prems(3) k1(2) by (simp add: same_registry_def)
  have "reclaim_handles hs (s, st, m1) = Some (s', st', m')" using Cons.prems(4) f k(2) by simp
  from Cons.IH [OF k1(1) _ hs this] k show ?case by simp
qed

text \<open>De-initialising a sound manager succeeds, unless a stale handle makes it undefined, and returns
  exactly the blocks it owned.\<close>

lemma DeInitialize_releases:
  assumes "owns m" "m_state m \<noteq> QC_OBJECT_STATE_INITIAL" "ML_DeInitialize m = Some (s, m')"
  shows "s = QC_STATUS_OK" "m_state m' = QC_OBJECT_STATE_INITIAL" "wok (world m')"
    "live (world m') = live (world m) - set_mset (owned m)"
    "m_handleToNodeIdInVector m' = m_handleToNodeIdInVector m"
    "m_pools m' = []" "m_allocations m' = []" "m_config m' = QCMemoryManagerInit_default"
proof -
  let ?q = "QC_OBJECT_STATE_DEINITIALIZING"
  have t: "mgr_tables m" and o: "mgr_owns allocs live wok m"
    using assms(1) by (simp_all add: mgr_inv_def)
  from DeInitialize_spec [OF t assms(2,3)] obtain st m1 where
    r: "reclaim_handles (map fst (m_handleToNodeIdInVector m))
          (QC_STATUS_OK, QC_OBJECT_STATE_INITIAL, m\<lparr>m_state := ?q\<rparr>) = Some (s, st, m1)"
    and m': "m' = m1\<lparr>m_pools := [], m_allocations := [], m_config := QCMemoryManagerInit_default,
      m_state := st\<rparr>"
    and reg: "m_handleToNodeIdInVector m1 = m_handleToNodeIdInVector m"
    and t1: "mgr_tables m1" and n: "nodes_of m1 = nodes_of m"
    and st: "st = (if s = QC_STATUS_OK then QC_OBJECT_STATE_INITIAL else QC_OBJECT_STATE_ERROR)"
    and v: "\<And>i. s = QC_STATUS_OK \<Longrightarrow> i < nodes_of m \<Longrightarrow> vacated m1 i" by blast
  have q: "keeps m (m\<lparr>m_state := ?q\<rparr>)" using keeps_registry(3) [OF o] .
  with keeps_reclaim_handles [OF _ _ _ r] t
  have k: "keeps (m\<lparr>m_state := ?q\<rparr>) m1" "s = QC_STATUS_OK" by simp_all
  note len = tables_length [OF t1, unfolded n]
  have "alloc_mset bs = {#}" if "bs \<in> set (m_allocations m1)" for bs
  proof -
    from that len(2) obtain i where "i < nodes_of m" "bs = m_allocations m1 ! i"
      by (auto simp: in_set_conv_nth)
    with v [OF k(2), of i] show ?thesis by (simp add: vacated_def alloc_mset_def)
  qed
  moreover have "pools_mset pm = {#}" if "pm \<in> set (m_pools m1)" for pm
  proof -
    from that len(1) obtain i where "i < nodes_of m" "pm = m_pools m1 ! i"
      by (auto simp: in_set_conv_nth)
    with v [OF k(2), of i] show ?thesis by (simp add: vacated_def pools_mset_def)
  qed
  ultimately have "owned m1 = {#}"
    by (simp add: owned_def sum_list_empty)
  moreover have "foreign live m1 = foreign live m" using k(1) q by simp
  ultimately show "live (world m') = live (world m) - set_mset (owned m)"
    by (simp add: foreign_def m')
  show "s = QC_STATUS_OK" "m_state m' = QC_OBJECT_STATE_INITIAL" "wok (world m')"
    "m_handleToNodeIdInVector m' = m_handleToNodeIdInVector m"
    "m_pools m' = []" "m_allocations m' = []" "m_config m' = QCMemoryManagerInit_default"
    using k st reg by (simp_all add: m' mgr_owns_def)
qed

lemma owns_DeInitialize:
  assumes "owns m" "ML_DeInitialize m = Some (s, m')"
  shows "mgr_owns allocs live wok m' \<and> foreign live m \<subseteq> foreign live m'"
proof (cases "m_state m = QC_OBJECT_STATE_INITIAL")
  case True
  with assms show ?thesis by (simp add: ML_DeInitialize_def)
next
  case False
  note d = DeInitialize_releases [OF assms(1) False assms(2)]
  have "owned m' = {#}" "contents_ok allocs m'"
    by (simp_all add: d owned_def contents_ok_def nodes_of_def QCMemoryManagerInit_default_def)
  then show ?thesis using d(3,4) by (simp add: mgr_owns_def foreign_def)
qed

lemma owns_step:
  "ml_step (\<lambda>ini. allocators ini = allocs) m m' \<Longrightarrow> owns m \<Longrightarrow>
     mgr_owns allocs live wok m' \<and> foreign live m \<subseteq> foreign live m'"
proof (induction rule: ml_step.induct)
  case (step_CreatePool h cfg ph rnd m s ph' m')
  then show ?case using owns_CreatePool [OF _ _ step_CreatePool(1)] by (auto simp: mgr_inv_def)
next
  case (step_Initialize ini m)
  then show ?case using owns_Initialize [of m ini] by auto
next
  case (step_Register m node h rnd)
  then show ?case using keeps_Register [of m node h rnd] by auto
next
  case (step_UnRegister h m s m')
  then show ?case using keeps_UnRegister [OF _ _ step_UnRegister(1)] by (auto simp: mgr_inv_def)
next
  case (step_DestroyPool ph m s m')
  then show ?case using keeps_DestroyPool [OF _ _ step_DestroyPool(1)] by (auto simp: mgr_inv_def)
next
  case (step_AllocateBufferFromPool ph b m s b' m')
  then show ?case using keeps_AllocateBufferFromPool [OF _ _ step_AllocateBufferFromPool(1)]
    by (auto simp: mgr_inv_def)
next
  case (step_PutBufferToPool ph b m s m')
  then show ?case using keeps_PutBufferToPool [OF _ _ step_PutBufferToPool(1)]
    by (auto simp: mgr_inv_def)
next
  case (step_AllocateBuffer h a req b m s b' m')
  then show ?case using keeps_AllocateBuffer [OF _ _ step_AllocateBuffer(1)]
    by (auto simp: mgr_inv_def)
next
  case (step_FreeBuffer h b m s m')
  then show ?case using keeps_FreeBuffer [OF _ _ step_FreeBuffer(1)] by (auto simp: mgr_inv_def)
next
  case (step_DeInitialize m s m')
  then show ?case using owns_DeInitialize [OF _ step_DeInitialize(1)] by blast
next
  case (step_ReclaimResources h m s m')
  then show ?case using keeps_ReclaimResources [OF _ _ step_ReclaimResources(1)]
    by (auto simp: mgr_inv_def)
qed

lemma owns_reach:
  "ml_reach (\<lambda>ini. allocators ini = allocs) w0 m \<Longrightarrow> wok w0 \<Longrightarrow> owns m \<and> live w0 \<subseteq> foreign live m"
proof (induction rule: ml_reach.induct)
  case reach_new
  then show ?case
    using mgr_owns_new [of w0] mgr_inv_new [of w0]
    by (simp add: foreign_def owned_def ManagerLocal_new_def)
next
  case (reach_step m m')
  then show ?case using owns_step [OF reach_step(2)] mgr_inv_step [OF reach_step(2)] by auto
qed

end

subsection \<open>The heap as the allocator array of the model\<close>

definition heap_slots :: "QCMemoryAllocator_e \<Rightarrow> 'z libc_heap_scheme QCMemoryAllocatorIfs" where
  "heap_slots a = (if a = QC_MEMORY_ALLOCATOR_HEAP then HeapAllocator else DummyAllocator)"

lemma heap_slots_type:
  "a < QC_MEMORY_ALLOCATOR_LAST \<Longrightarrow> Allocate (heap_slots a) req resp w = (QC_STATUS_OK, d, w') \<Longrightarrow>
     a_type (heap_slots a) = a"
  by (auto simp: heap_slots_def DummyAllocator_def split: if_splits)

lemma heap_slots_contract: "allocator_contract (heap_slots a) heap_blocks heap_ok"
  by (simp add: heap_slots_def heap.allocator_contract_axioms dummy.allocator_contract_axioms)

interpretation heap_array: allocator_array heap_slots heap_blocks heap_ok
  by (intro allocator_array.intro heap_slots_contract heap_slots_type)

end
