(* ===== verification/QC_ManagerProps.thy ===== *)
theory QC_ManagerProps
  imports QC_ManagerOwn
begin

text \<open>
  The properties of the memory manager, each a few steps over the lemmas of \<open>QC_ManagerInv\<close>,
  \<open>QC_ManagerSession\<close> and \<open>QC_ManagerOwn\<close>. The witnesses run the operations on one concrete
  manager: two nodes, the heap allocator with five addresses to hand out, and a node with id 1.
\<close>

subsection \<open>A concrete session\<close>

definition demo_heap :: libc_heap where
  "demo_heap = \<lparr>blocks = [], addr_supply = [4096, 8192, 12288, 16384, 20480], bad_free = False\<rparr>"

definition demo_init :: "libc_heap QCMemoryManagerInit" where
  "demo_init = \<lparr>numOfNodes = 2, allocators = heap_slots\<rparr>"

definition demo_node :: QCNodeID where
  "demo_node = \<lparr>n_name = ''demo'', n_type = 1, n_id = 1\<rparr>"

definition demo_ready :: "libc_heap \<Rightarrow> libc_heap ManagerLocal" where
  "demo_ready w = snd (ML_Initialize demo_init (ManagerLocal_new w))"

definition demo_registered_on :: "libc_heap \<Rightarrow> libc_heap ManagerLocal" where
  "demo_registered_on w = snd (snd (ML_Register demo_node QCMemoryHandle_init 7 (demo_ready w)))"

abbreviation (input) demo_registered :: "libc_heap ManagerLocal" where
  "demo_registered \<equiv> demo_registered_on demo_heap"

definition demo_handle :: QCMemoryHandle where
  "demo_handle = fst (snd (ML_Register demo_node QCMemoryHandle_init 7 (demo_ready demo_heap)))"

definition demo_request :: QCBufferPropBase where
  "demo_request = \<lparr>p_size = 64, p_alignment = 4096, p_cache = QC_CACHEABLE\<rparr>"

lemma replicate_2: "replicate 2 x = [x, x]"
  by (simp add: numeral_2_eq_2)

lemma demo_ready_eq:
  "demo_ready w = \<lparr>m_state = QC_OBJECT_STATE_READY, m_handleToNodeIdInVector = [],
     m_pools = [PoolMapWithMutex_init, PoolMapWithMutex_init], m_allocations = [[], []],
     m_config = demo_init, world = w\<rparr>"
  by (simp add: demo_ready_def ML_Initialize_def ManagerLocal_new_def demo_init_def Let_def
      replicate_2)

lemma demo_handle_eq: "demo_handle = QCMemoryHandle 1 1 7 0"
  and demo_registered_eq:
  "demo_registered_on w = (demo_ready w)\<lparr>m_handleToNodeIdInVector := [(QCMemoryHandle 1 1 7 0, 1)]\<rparr>"
  by (simp_all add: demo_handle_def demo_registered_on_def demo_ready_eq ML_Register_def Let_def
      demo_node_def demo_init_def IsNodeIdUnique_def IsMemoryHandleRegistered_def
      QCMemoryHandle_init_def SetNodeType_def SetNodeCount_def SetRandomNumber_def
      handle_order.equiv_refl word_le_nat_alt)

definition demo_buffer :: QCBufferDescriptorBase where
  "demo_buffer = QCBufferDescriptorBase_init
     \<lparr>pBuf := 4096, b_alignment := 4096, b_cache := QC_CACHEABLE,
      allocatorType := QC_MEMORY_ALLOCATOR_HEAP, b_size := 64, b_name := ''Heap Allocator''\<rparr>"

definition demo_heap_allocated :: libc_heap where
  "demo_heap_allocated =
     \<lparr>blocks = [(4096, 64)], addr_supply = [8192, 12288, 16384, 20480], bad_free = False\<rparr>"

definition demo_allocated :: "libc_heap ManagerLocal" where
  "demo_allocated =
     demo_registered\<lparr>m_allocations := [[], [demo_buffer]], world := demo_heap_allocated\<rparr>"

lemma demo_posix_memalign:
  "posix_memalign 4096 64 demo_heap = (0, Some 4096, demo_heap_allocated)"
  by (simp add: posix_memalign_def demo_heap_def memalign_valid_def block_fits_def
      demo_heap_allocated_def)

lemma demo_Allocate:
  "HeapAllocator_Allocate demo_request QCBufferDescriptorBase_init demo_heap =
     (QC_STATUS_OK, demo_buffer, demo_heap_allocated)"
  by (simp add: HeapAllocator_Allocate_def demo_request_def demo_posix_memalign demo_buffer_def
      word_less_nat_alt)

lemma demo_is_registered: "IsMemoryHandleRegistered (demo_registered_on w) demo_handle = Some 1"
  by (simp add: demo_registered_eq demo_handle_eq IsMemoryHandleRegistered_def
      handle_order.equiv_refl)

lemma demo_AllocateBuffer:
  "ML_AllocateBuffer demo_handle QC_MEMORY_ALLOCATOR_HEAP demo_request QCBufferDescriptorBase_init
     demo_registered = Some (QC_STATUS_OK, demo_buffer, demo_allocated)"
  using demo_is_registered [of demo_heap]
  by (simp add: ML_AllocateBuffer_def demo_registered_eq demo_ready_eq demo_request_def [simplified]
      demo_init_def heap_slots_def demo_Allocate [unfolded demo_request_def, simplified] Let_def
      buffer_order.equiv_refl set_allocationSet_def demo_allocated_def)

abbreviation (input) on_heap :: "'z libc_heap_scheme QCMemoryManagerInit \<Rightarrow> bool" where
  "on_heap ini \<equiv> allocators ini = heap_slots"

lemma demo_reach_registered:
  assumes "cfg_ok demo_init"
  shows "ml_reach cfg_ok w (demo_registered_on w)"
proof -
  have "ml_reach cfg_ok w (demo_ready w)"
    unfolding demo_ready_def
    by (rule reach_step [OF reach_new step_Initialize [where cfg_ok = cfg_ok, OF assms]])
  then show ?thesis unfolding demo_registered_on_def by (rule reach_step [OF _ step_Register])
qed

lemma demo_on_heap: "on_heap demo_init"
  by (simp add: demo_init_def)

lemma demo_reach_allocated: "ml_reach on_heap demo_heap demo_allocated"
proof (rule reach_step [OF demo_reach_registered step_AllocateBuffer [OF demo_AllocateBuffer]])
  show "on_heap demo_init" by (rule demo_on_heap)
qed

lemma demo_heap_ok: "heap_ok demo_heap"
  by (simp add: heap_ok_def demo_heap_def heap_live_def)

lemma demo_owned: "owned demo_allocated = {#(QC_MEMORY_ALLOCATOR_HEAP, 4096)#}"
  by (simp add: owned_def alloc_mset_def pools_mset_def demo_allocated_def demo_registered_eq
      demo_ready_eq PoolMapWithMutex_init_def demo_buffer_def block_of_def)

lemma demo_state: "m_state demo_allocated = QC_OBJECT_STATE_READY"
  by (simp add: demo_allocated_def demo_registered_eq demo_ready_eq)

lemma demo_allocated_registered: "IsMemoryHandleRegistered demo_allocated demo_handle = Some 1"
  using demo_is_registered [of demo_heap] by (simp add: demo_allocated_def IsMemoryHandleRegistered_def)

lemma demo_nodes: "numOfNodes (m_config demo_allocated) = 2"
  by (simp add: demo_allocated_def demo_registered_eq demo_ready_eq demo_init_def)

lemma demo_node_of: "node_of (demo_registered_on w) demo_handle = Some 1"
  "node_of demo_allocated demo_handle = Some 1"
  using demo_is_registered [of w] demo_allocated_registered
  by (simp_all add: node_of_def demo_nodes) (simp add: demo_registered_eq demo_ready_eq demo_init_def)

lemma demo_no_stale: "\<not> stale_handle (demo_registered_on w) k"
proof -
  have "IsMemoryHandleRegistered (demo_registered_on w) k \<in> {None, Some 1}"
    by (simp add: demo_registered_eq demo_ready_eq IsMemoryHandleRegistered_def)
  then show ?thesis
    by (auto simp: stale_handle_def demo_registered_eq demo_ready_eq demo_init_def word_le_nat_alt)
qed

lemma demo_allocated_fresh: "\<not> stale_handle demo_allocated k"
proof -
  have "same_registry demo_registered demo_allocated" by (simp add: same_registry_def demo_allocated_def)
  with demo_no_stale same_registry_node(2) show ?thesis by blast
qed

text \<open>The manager of a second session with one node: the handle of node 1 is stale in it.\<close>

definition demo_small :: "libc_heap QCMemoryManagerInit" where
  "demo_small = demo_init\<lparr>numOfNodes := 1\<rparr>"

definition demo_closed :: "libc_heap ManagerLocal" where
  "demo_closed = demo_registered\<lparr>m_state := QC_OBJECT_STATE_INITIAL, m_pools := [],
     m_allocations := [], m_config := QCMemoryManagerInit_default\<rparr>"

definition demo_stale :: "libc_heap ManagerLocal" where
  "demo_stale = demo_registered\<lparr>m_pools := [PoolMapWithMutex_init], m_allocations := [[]],
     m_config := demo_small\<rparr>"

lemma demo_DeInitialize: "ML_DeInitialize demo_registered = Some (QC_STATUS_OK, demo_closed)"
proof -
  let ?m = "demo_registered\<lparr>m_state := QC_OBJECT_STATE_DEINITIALIZING\<rparr>"
  have "IsMemoryHandleRegistered (?m\<lparr>m_state := QC_OBJECT_STATE_READY\<rparr>) demo_handle = Some 1"
    using demo_is_registered by simp
  then have "ML_ReclaimResources demo_handle ?m = Some (QC_STATUS_OK, ?m)"
    by (simp add: ML_ReclaimResources_def Let_def demo_registered_eq demo_ready_eq
        PoolMapWithMutex_init_def)
  then show ?thesis
    by (simp add: ML_DeInitialize_def Let_def demo_closed_def demo_registered_eq demo_ready_eq
        demo_handle_eq demo_init_def)
qed

lemma demo_reinitialize: "ML_Initialize demo_small demo_closed = (QC_STATUS_OK, demo_stale)"
  by (simp add: ML_Initialize_def Let_def demo_closed_def demo_stale_def demo_small_def
      demo_registered_eq demo_ready_eq)

lemma demo_reach_stale: "ml_reach on_heap demo_heap demo_stale"
proof -
  have "ml_reach on_heap demo_heap demo_registered"
    by (rule demo_reach_registered) (rule demo_on_heap)
  then have "ml_reach on_heap demo_heap demo_closed"
    by (rule reach_step [OF _ step_DeInitialize [OF demo_DeInitialize]])
  moreover have "on_heap demo_small" by (simp add: demo_small_def demo_on_heap)
  ultimately show ?thesis
    using reach_step [OF _ step_Initialize [of on_heap demo_small demo_closed]]
    by (simp add: demo_reinitialize)
qed

lemma demo_stale_state: "m_state demo_stale = QC_OBJECT_STATE_READY"
  by (simp add: demo_stale_def demo_registered_eq demo_ready_eq)

lemma demo_stale_registered: "IsMemoryHandleRegistered demo_stale demo_handle = Some 1"
  using demo_is_registered [of demo_heap] by (simp add: demo_stale_def IsMemoryHandleRegistered_def)

lemma demo_stale_handle: "stale_handle demo_stale demo_handle"
  by (simp add: stale_handle_def demo_stale_registered)
    (simp add: demo_stale_def demo_small_def)

subsection \<open>Safety over all sessions\<close>

text \<open>C1: memory safety of the manager. After any sequence of client operations, initialisations and
  de-initialisations included and as long as each of them is defined, on a manager whose
  allocators are the heap allocator and the placeholder, started on a sound heap, the heap is sound
  (no address was ever freed that was not live, and no block is listed twice), every block the
  manager tracks (stand-alone buffers and pool buffers of all nodes) is live and tracked once, and
  the blocks that were live before the manager existed are live and not tracked.\<close>

theorem manager_memory_safety:
  assumes "ml_reach (\<lambda>ini. allocators ini = heap_slots) w0 m" "heap_ok w0"
  shows "heap_ok (world m) \<and> set_mset (owned m) \<subseteq> heap_blocks (world m) \<and>
    (\<forall>b. count (owned m) b \<le> 1) \<and> heap_blocks w0 \<subseteq> heap_blocks (world m) - set_mset (owned m)"
  using heap_array.owns_reach [OF assms]
  by (auto simp: mgr_owns_def counted_def foreign_def)

theorem manager_memory_safety_witness:
  "heap_ok (world demo_allocated) \<and> owned demo_allocated \<noteq> {#} \<and>
   set_mset (owned demo_allocated) \<subseteq> heap_blocks (world demo_allocated)"
  using manager_memory_safety [OF demo_reach_allocated demo_heap_ok] by (simp add: demo_owned)

text \<open>C2: undefined behaviour comes from stale handles only. The operations index the vectors of pool
  maps and allocation sets by the node id of a handle without a bounds check, and de-initialisation
  pops them without checking that they are not empty. In every state reachable from the constructor
  by any sequence of operations over any number of sessions, with any allocators and any arguments,
  an operation is undefined exactly when its other checks pass and the handle it is given is stale:
  registered, in an earlier session, to a node id the present one does not have. De-initialising,
  and with it the destructor of a ready manager, is undefined exactly when some registered handle is
  stale. Before the first de-initialisation no handle is, so nothing is undefined there.\<close>

theorem manager_undefined_iff_stale:
  assumes "ml_reach cfg_ok w0 m"
  shows "(ML_UnRegister h m = None \<longleftrightarrow> m_state m = QC_OBJECT_STATE_READY \<and> stale_handle m h) \<and>
    (ML_CreatePool h cfg ph rnd m = None \<longleftrightarrow> m_state m = QC_OBJECT_STATE_READY \<and>
       pic_allocator cfg < QC_MEMORY_ALLOCATOR_LAST \<and> stale_handle m h) \<and>
    (ML_DestroyPool ph m = None \<longleftrightarrow>
       m_state m = QC_OBJECT_STATE_READY \<and> stale_handle m (GetMemoryHandle ph)) \<and>
    (ML_AllocateBufferFromPool ph b m = None \<longleftrightarrow>
       m_state m = QC_OBJECT_STATE_READY \<and> stale_handle m (GetMemoryHandle ph)) \<and>
    (ML_PutBufferToPool ph b m = None \<longleftrightarrow>
       m_state m = QC_OBJECT_STATE_READY \<and> stale_handle m (GetMemoryHandle ph)) \<and>
    (ML_AllocateBuffer h a req b m = None \<longleftrightarrow> m_state m = QC_OBJECT_STATE_READY \<and>
       p_size req \<noteq> 0 \<and> a < QC_MEMORY_ALLOCATOR_LAST \<and> stale_handle m h) \<and>
    (ML_FreeBuffer h b m = None \<longleftrightarrow> m_state m = QC_OBJECT_STATE_READY \<and>
       allocatorType b < QC_MEMORY_ALLOCATOR_LAST \<and> stale_handle m h) \<and>
    (ML_ReclaimResources h m = None \<longleftrightarrow> stale_handle m h) \<and>
    (ML_DeInitialize m = None \<longleftrightarrow>
       m_state m \<noteq> QC_OBJECT_STATE_INITIAL \<and> (\<exists>k. stale_handle m k)) \<and>
    (ML_destroy m = None \<longleftrightarrow> m_state m = QC_OBJECT_STATE_READY \<and> (\<exists>k. stale_handle m k)) \<and>
    (ml_session cfg_ok w0 m \<longrightarrow> \<not> stale_handle m h)"
proof -
  have t: "mgr_tables m" by (rule mgr_inv_tables [OF mgr_inv_reach [OF assms]])
  have "ML_destroy m = None \<longleftrightarrow> m_state m = QC_OBJECT_STATE_READY \<and> (\<exists>k. stale_handle m k)"
    using DeInitialize_undefined [OF t] by (auto simp: ML_destroy_def)
  then show ?thesis
    using session_no_stale [of cfg_ok w0 m h]
    by (simp add: UnRegister_undefined [OF t] CreatePool_undefined [OF t] DestroyPool_undefined [OF t]
        AllocateBufferFromPool_undefined [OF t] PutBufferToPool_undefined [OF t]
        AllocateBuffer_undefined [OF t] FreeBuffer_undefined [OF t] ReclaimResources_undefined [OF t]
        DeInitialize_undefined [OF t])
qed

theorem manager_undefined_iff_stale_witness:
  "ML_UnRegister demo_handle demo_allocated \<noteq> None \<and> ML_UnRegister demo_handle demo_stale = None \<and>
   ML_DeInitialize demo_stale = None"
proof -
  have "ML_UnRegister demo_handle demo_allocated \<noteq> None"
    using manager_undefined_iff_stale [OF demo_reach_allocated, of demo_handle] demo_allocated_fresh
    by blast
  moreover have "ML_UnRegister demo_handle demo_stale = None \<and> ML_DeInitialize demo_stale = None"
    using manager_undefined_iff_stale [OF demo_reach_stale, of demo_handle] demo_stale_handle
    by (auto simp: demo_stale_state)
  ultimately show ?thesis by blast
qed





text \<open>C5: a handle outlives its session. De-initialising does not clear the handle registry, so a
  handle that was registered is still registered after the manager is initialised again: its node
  id cannot be registered anew, and when the new session has no node of that id, asking for a
  buffer with the old handle indexes the vector of allocation sets past its end.\<close>

theorem manager_stale_handle_after_reinit:
  assumes "ml_reach cfg_ok w0 m" "IsMemoryHandleRegistered m h = Some i"
    and "ML_DeInitialize m = Some (QC_STATUS_OK, m1)"
    and "ML_Initialize ini m1 = (QC_STATUS_OK, m2)"
  shows "IsMemoryHandleRegistered m2 h = Some i \<and>
    (n_id node = i \<longrightarrow> fst (ML_Register node k rnd m2) \<noteq> QC_STATUS_OK) \<and>
    (numOfNodes ini \<le> i \<longrightarrow> p_size req \<noteq> 0 \<longrightarrow> a < QC_MEMORY_ALLOCATOR_LAST \<longrightarrow>
       ML_AllocateBuffer h a req b m2 = None)"
proof -
  have t: "mgr_tables m" by (rule mgr_inv_tables [OF mgr_inv_reach [OF assms(1)]])
  have ni: "m_state m \<noteq> QC_OBJECT_STATE_INITIAL"
    using assms(3) by (auto simp: ML_DeInitialize_def)
  from DeInitialize_spec [OF t ni assms(3)] obtain m0 where
    m1: "m1 = m0\<lparr>m_pools := [], m_allocations := [],
      m_config := QCMemoryManagerInit_default, m_state := QC_OBJECT_STATE_INITIAL\<rparr>"
    and d: "m_handleToNodeIdInVector m0 = m_handleToNodeIdInVector m" by metis
  then have "m_state m1 = QC_OBJECT_STATE_INITIAL" by simp
  with assms(4) have nodes: "numOfNodes ini \<noteq> 0" and
    m2: "m2 = m1\<lparr>m_config := ini,
      m_pools := replicate (unat (numOfNodes ini)) PoolMapWithMutex_init,
      m_allocations := replicate (unat (numOfNodes ini)) [], m_state := QC_OBJECT_STATE_READY\<rparr>"
    using m1 by (auto simp: ML_Initialize_def Let_def split: if_splits)
  have reg: "m_handleToNodeIdInVector m2 = m_handleToNodeIdInVector m" by (simp add: m2 m1 d)
  then have h: "IsMemoryHandleRegistered m2 k = IsMemoryHandleRegistered m k" for k
    by (simp add: IsMemoryHandleRegistered_def)
  have "fst (ML_Register node k rnd m2) \<noteq> QC_STATUS_OK" if "n_id node = i"
  proof -
    from registered_entry [OF t assms(2)] obtain nid where
      "(h, nid) \<in> set (m_handleToNodeIdInVector m)" "unat i = unat nid" by blast
    then have "(h, ucast i) \<in> set (m_handleToNodeIdInVector m2)"
      by (simp add: reg) (metis unat_ucast_u8 word_unat_eq_iff)
    with that have "\<not> IsNodeIdUnique m2 node" by (force simp: unique_fresh_id)
    then show ?thesis by (cases rule: Register_cases [of node k rnd m2]) auto
  qed
  moreover have "ML_AllocateBuffer h a req b m2 = None"
    if "numOfNodes ini \<le> i" "p_size req \<noteq> 0" "a < QC_MEMORY_ALLOCATOR_LAST"
    using that assms(2) h by (simp add: ML_AllocateBuffer_def m2 word_le_nat_alt)
  ultimately show ?thesis using assms(2) h by simp
qed

theorem manager_stale_handle_after_reinit_witness:
  "ML_DeInitialize demo_registered = Some (QC_STATUS_OK, demo_closed) \<and>
   ML_Initialize demo_small demo_closed = (QC_STATUS_OK, demo_stale) \<and>
   ML_AllocateBuffer demo_handle QC_MEMORY_ALLOCATOR_HEAP demo_request
     QCBufferDescriptorBase_init demo_stale = None"
proof -
  have r: "ml_reach on_heap demo_heap demo_registered"
    by (rule demo_reach_registered) (rule demo_on_heap)
  from manager_stale_handle_after_reinit [OF r demo_is_registered demo_DeInitialize
      demo_reinitialize, of _ _ _ demo_request]
  have "ML_AllocateBuffer demo_handle QC_MEMORY_ALLOCATOR_HEAP demo_request
      QCBufferDescriptorBase_init demo_stale = None"
    by (simp add: demo_request_def demo_small_def)
  then show ?thesis by (simp only: demo_DeInitialize demo_reinitialize simp_thms)
qed

subsection \<open>What the operations do\<close>



text \<open>C7: the tables stay within their bounds and consistent. In every reachable state, over any
  number of sessions, the vectors have one entry for each node of the configuration, no two entries
  of the registry share a handle or a node id, and an id fits its byte; no node has more than 255
  pools, no two of them under the
  same handle, and each pool sits in the entry of the node its handle belongs to; a node with
  stand-alone buffers has a registered handle, and no two of its buffers have equal keys. When no
  handle is stale, every id of the registry is below the number of nodes and there are no more
  entries than nodes.\<close>

theorem manager_tables_consistent:
  assumes "ml_reach cfg_ok w0 m"
  shows "length (m_pools m) = unat (numOfNodes (m_config m)) \<and>
    length (m_allocations m) = unat (numOfNodes (m_config m)) \<and>
    distinct (map fst (m_handleToNodeIdInVector m)) \<and>
    distinct (map snd (m_handleToNodeIdInVector m)) \<and>
    (\<forall>e \<in> set (m_handleToNodeIdInVector m). unat (snd e) < 256) \<and>
    (\<forall>i < length (m_pools m). length (poolMap (m_pools m ! i)) \<le> QC_MEMORY_MAX_POOLS_PER_NODE \<and>
       distinct (map fst (poolMap (m_pools m ! i))) \<and>
       (\<forall>e \<in> set (poolMap (m_pools m ! i)).
          map_option unat (IsMemoryHandleRegistered m (GetMemoryHandle (fst e))) = Some i)) \<and>
    (\<forall>i < length (m_allocations m). distinct (map buffer_key (m_allocations m ! i)) \<and>
       (m_allocations m ! i \<noteq> [] \<longrightarrow>
          (\<exists>e \<in> set (m_handleToNodeIdInVector m). unat (snd e) = i))) \<and>
    ((\<forall>k. \<not> stale_handle m k) \<longrightarrow>
       length (m_handleToNodeIdInVector m) \<le> unat (numOfNodes (m_config m)) \<and>
       (\<forall>e \<in> set (m_handleToNodeIdInVector m). unat (snd e) < unat (numOfNodes (m_config m))))"
proof -
  have t: "mgr_tables m" by (rule mgr_inv_tables [OF mgr_inv_reach [OF assms]])
  have keys: "distinct (map buffer_key bs)" if "std_sorted buffer_less id bs" for bs
    using that by (induction bs) (auto simp: buffer_less_key)
  have pools: "\<forall>i < length (m_pools m). length (poolMap (m_pools m ! i)) \<le> QC_MEMORY_MAX_POOLS_PER_NODE \<and>
       distinct (map fst (poolMap (m_pools m ! i))) \<and>
       (\<forall>e \<in> set (poolMap (m_pools m ! i)).
          map_option unat (IsMemoryHandleRegistered m (GetMemoryHandle (fst e))) = Some i)"
    using tables_pools_ok [OF t]
    by (fastforce simp: pools_ok_def pool_handle_order.sorted_distinct node_of_Some)
  have basic: "length (m_pools m) = unat (numOfNodes (m_config m))"
    "length (m_allocations m) = unat (numOfNodes (m_config m))"
    "distinct (map fst (m_handleToNodeIdInVector m))"
    "distinct (map snd (m_handleToNodeIdInVector m))"
    using t by (simp_all add: mgr_tables_def nodes_of_def handle_order.sorted_distinct)
  have ids: "\<forall>e \<in> set (m_handleToNodeIdInVector m). unat (snd e) < 256"
    using t by (auto simp: mgr_tables_def node_ids_def)
  have allocs: "\<forall>i < length (m_allocations m). distinct (map buffer_key (m_allocations m ! i)) \<and>
       (m_allocations m ! i \<noteq> [] \<longrightarrow>
          (\<exists>e \<in> set (m_handleToNodeIdInVector m). unat (snd e) = i))"
    using t keys by (auto simp: mgr_tables_def node_ids_def)
  have fresh: "length (m_handleToNodeIdInVector m) \<le> nodes_of m \<and>
      (\<forall>e \<in> set (m_handleToNodeIdInVector m). unat (snd e) < nodes_of m)"
    if "\<forall>k. \<not> stale_handle m k"
    using registry_room [OF t that] by blast
  from fresh show ?thesis
    unfolding nodes_of_def by (intro conjI basic ids pools allocs impI) simp_all
qed

theorem manager_tables_consistent_witness:
  "length (m_handleToNodeIdInVector demo_allocated) \<le> unat (numOfNodes (m_config demo_allocated)) \<and>
   length (m_allocations demo_allocated) = 2"
  using manager_tables_consistent [OF demo_reach_allocated] demo_allocated_fresh
  by (simp add: demo_nodes)

text \<open>C8: when registration succeeds, and what it does. In a state reachable over any number of
  sessions \<open>ML_Register\<close> returns OK exactly when the manager is ready, the node type is a real one,
  the node id is below the number of nodes and belongs to no registered handle, the registry, stale
  handles included, has fewer entries than there are nodes, and the handle it makes up is new. When
  no handle is stale the capacity check can never be the reason to refuse. The new handle carries the
  node type and the next count, maps to the node id, and every other handle maps to what it mapped
  to.\<close>

theorem manager_register_functional:
  assumes "ml_reach cfg_ok w0 m" "ML_Register node h rnd m = (s, h', m')"
  shows "(s = QC_STATUS_OK \<longleftrightarrow>
      m_state m = QC_OBJECT_STATE_READY \<and> n_type node < QC_NODE_TYPE_LAST \<and>
      n_type node \<noteq> QC_NODE_TYPE_RESERVED \<and> n_id node < numOfNodes (m_config m) \<and>
      (\<forall>k. IsMemoryHandleRegistered m k \<noteq> Some (n_id node)) \<and>
      length (m_handleToNodeIdInVector m) < unat (numOfNodes (m_config m)) \<and>
      IsMemoryHandleRegistered m (QCMemoryHandle (n_type node)
        (of_nat (length (m_handleToNodeIdInVector m) + 1)) rnd (GetProcessId h)) = None) \<and>
    ((\<forall>k. \<not> stale_handle m k) \<and> n_id node < numOfNodes (m_config m) \<and>
      (\<forall>k. IsMemoryHandleRegistered m k \<noteq> Some (n_id node)) \<longrightarrow>
      length (m_handleToNodeIdInVector m) < unat (numOfNodes (m_config m))) \<and>
    (s = QC_STATUS_OK \<longrightarrow>
      h' = QCMemoryHandle (n_type node)
        (of_nat (length (m_handleToNodeIdInVector m) + 1)) rnd (GetProcessId h) \<and>
      (\<forall>k. IsMemoryHandleRegistered m' k =
         (if k = h' then Some (n_id node) else IsMemoryHandleRegistered m k)))"
proof -
  have t: "mgr_tables m" by (rule mgr_inv_tables [OF mgr_inv_reach [OF assms(1)]])
  let ?new = "QCMemoryHandle (n_type node) (of_nat (length (m_handleToNodeIdInVector m) + 1)) rnd
    (GetProcessId h)"
  have new: "SetRandomNumber (SetNodeCount (SetNodeType h (n_type node))
      (of_nat (length (m_handleToNodeIdInVector m) + 1))) rnd = ?new"
    by (simp add: SetRandomNumber_def SetNodeCount_def SetNodeType_def)
  note unique = unique_iff_unregistered [OF t, of node]
  have room: "(\<forall>k. \<not> stale_handle m k) \<and> n_id node < numOfNodes (m_config m) \<and>
      (\<forall>k. IsMemoryHandleRegistered m k \<noteq> Some (n_id node)) \<longrightarrow>
      length (m_handleToNodeIdInVector m) < unat (numOfNodes (m_config m))"
    using registry_room(3) [OF t, of node] unfolding unique nodes_of_def by blast
  show ?thesis
  proof (cases rule: Register_cases [of node h rnd m])
    case (refused s' k)
    with assms(2) have "s \<noteq> QC_STATUS_OK" by auto
    moreover have "\<not> (m_state m = QC_OBJECT_STATE_READY \<and> n_type node < QC_NODE_TYPE_LAST \<and>
        n_type node \<noteq> QC_NODE_TYPE_RESERVED \<and> n_id node < numOfNodes (m_config m) \<and>
        (\<forall>k. IsMemoryHandleRegistered m k \<noteq> Some (n_id node)) \<and>
        length (m_handleToNodeIdInVector m) < unat (numOfNodes (m_config m)))"
      using refused(3) unfolding unique nodes_of_def by auto
    ultimately show ?thesis using room by blast
  next
    case (clash k)
    with assms(2) new room show ?thesis by simp
  next
    case (added k)
    then have k: "k = ?new" using new by simp
    with added(7) assms(2) have "s = QC_STATUS_OK" "h' = ?new" and
      m': "m' = m\<lparr>m_handleToNodeIdInVector :=
        std_insert handle_less fst (?new, ucast (n_id node)) (m_handleToNodeIdInVector m)\<rparr>"
      by simp_all
    moreover have "IsMemoryHandleRegistered m' j =
        (if j = ?new then Some (n_id node) else IsMemoryHandleRegistered m j)" for j
      using registered_insert [OF added(5) [unfolded k], of "ucast (n_id node)" j]
      unfolding m' by simp
    ultimately show ?thesis
      using added(1,2,3,4,5,8,9) k unique by (simp add: nodes_of_def)
  qed
qed

theorem manager_register_functional_witness:
  "fst (ML_Register demo_node QCMemoryHandle_init 7 (demo_ready demo_heap)) = QC_STATUS_OK"
proof -
  have "ml_reach on_heap demo_heap (demo_ready demo_heap)"
    unfolding demo_ready_def
    by (rule reach_step [OF reach_new step_Initialize [where cfg_ok = on_heap, OF demo_on_heap]])
  from manager_register_functional [OF this, of demo_node QCMemoryHandle_init 7]
  show ?thesis
    by (cases "ML_Register demo_node QCMemoryHandle_init 7 (demo_ready demo_heap)")
      (simp add: demo_ready_eq demo_node_def demo_init_def IsMemoryHandleRegistered_def
        word_less_nat_alt)
qed

text \<open>Freeing a run of buffers through the allocators of their slots, as long as none fails.\<close>

fun free_all ::
  "(QCMemoryAllocator_e \<Rightarrow> 'w QCMemoryAllocatorIfs) \<Rightarrow> QCBufferDescriptorBase list \<Rightarrow> 'w \<Rightarrow> 'w option"
  where
  "free_all al [] w = Some w"
| "free_all al (d # ds) w =
     (case Free (al (allocatorType d)) d w of (s, w') \<Rightarrow>
        if s = QC_STATUS_OK then free_all al ds w' else None)"

lemma reclaim_buffers_append:
  "reclaim_buffers h (xs @ ys) acc =
     (case reclaim_buffers h xs acc of None \<Rightarrow> None | Some acc' \<Rightarrow> reclaim_buffers h ys acc')"
proof (induction xs arbitrary: acc)
  case Nil
  then show ?case by simp
next
  case (Cons x xs)
  then show ?case by (cases acc) (auto split: option.split)
qed

lemma set_allocationSet_twice [simp]:
  "set_allocationSet i a ((set_allocationSet i b m)\<lparr>world := w\<rparr>) = set_allocationSet i a (m\<lparr>world := w\<rparr>)"
  by (simp add: set_allocationSet_def)

lemma reclaim_buffers_frees:
  assumes "mgr_tables m" "node_of m h = Some i" "m_state m = QC_OBJECT_STATE_READY"
    and "m_allocations m ! unat i = ds @ es" "\<forall>d \<in> set ds. allocatorType d < QC_MEMORY_ALLOCATOR_LAST"
    and "free_all (allocators (m_config m)) ds (world m) = Some w1"
  shows "reclaim_buffers h ds (s, st, m) = Some (s, st, set_allocationSet (unat i) es (m\<lparr>world := w1\<rparr>))"
  using assms
proof (induction ds arbitrary: m)
  case Nil
  then show ?case using list_update_id [of "m_allocations m" "unat i"] by (simp add: set_allocationSet_def)
next
  case (Cons d ds)
  note bd = node_bound [OF Cons.prems(1,2)]
  from Cons.prems(6) obtain w' where w':
    "Free (allocators (m_config m) (allocatorType d)) d (world m) = (QC_STATUS_OK, w')"
    "free_all (allocators (m_config m)) ds w' = Some w1" by (auto split: prod.splits if_splits)
  let ?m = "set_allocationSet (unat i) (ds @ es) (m\<lparr>world := w'\<rparr>)"
  have sorted: "std_sorted buffer_less id (d # ds @ es)"
    using tables_alloc_sorted [OF Cons.prems(1) bd(3)] Cons.prems(4) by simp
  have f: "ML_FreeBuffer h d m = Some (QC_STATUS_OK, ?m)"
    using Cons.prems(3-5) bd(3,5) w'(1) buffer_order.erase_head [OF sorted]
      buffer_order.find_erase_same [of id d "d # ds @ es"]
    by (simp add: ML_FreeBuffer_def Let_def buffer_order.equiv_refl)
  have "mgr_tables ?m"
    using tables_FreeBuffer [OF Cons.prems(1) f] .
  from Cons.IH [OF this] Cons.prems(2-5) bd(3) w'(2)
  have "reclaim_buffers h ds (s, st, ?m) = Some (s, st, set_allocationSet (unat i) es (?m\<lparr>world := w1\<rparr>))"
    by simp
  with f show ?case by (simp add: set_allocationSet_def)
qed

text \<open>C9: one failing free stops the reclaim of a node. The loops of \<open>ML_ReclaimResources\<close> go on
  after an error, but the first \<^verbatim>\<open>QC_STATUS_FAIL\<close> of an allocator, at whichever of the node's
  stand-alone buffers it comes, puts the manager in the error
  state, in which \<open>ML_FreeBuffer\<close> and \<open>ML_DestroyPool\<close> refuse: the buffers before it are freed, it
  and every buffer and pool after it stay where they are, and when there is one the status reported
  is \<^verbatim>\<open>QC_STATUS_BAD_STATE\<close> instead of the failure. A pool that fails to be destroyed is not part of
  this statement.\<close>

theorem manager_reclaim_stops_at_failure:
  assumes "mgr_tables m" "m_state m = QC_OBJECT_STATE_READY" "node_of m h = Some i"
    and "m_allocations m ! unat i = freed @ d # rest"
    and "\<forall>e \<in> set (freed @ [d]). allocatorType e < QC_MEMORY_ALLOCATOR_LAST"
    and "free_all (allocators (m_config m)) freed (world m) = Some w1"
    and "Free (allocators (m_config m) (allocatorType d)) d w1 = (QC_STATUS_FAIL, w')"
  shows "ML_ReclaimResources h m =
    Some (if rest = [] \<and> poolMap (m_pools m ! unat i) = [] then QC_STATUS_FAIL
          else QC_STATUS_BAD_STATE,
          m\<lparr>m_allocations := (m_allocations m)[unat i := d # rest],
            world := w', m_state := QC_OBJECT_STATE_ERROR\<rparr>)"
proof -
  note bd = node_bound [OF assms(1,3)]
  let ?m = "set_allocationSet (unat i) (d # rest) (m\<lparr>world := w1\<rparr>)"
  let ?st = "m_state m"
  have "\<forall>e \<in> set freed. allocatorType e < QC_MEMORY_ALLOCATOR_LAST" using assms(5) by simp
  from reclaim_buffers_frees [OF assms(1,3,2,4) this assms(6)]
  have first: "reclaim_buffers h freed (QC_STATUS_OK, ?st, m) = Some (QC_STATUS_OK, ?st, ?m)" .
  have "ML_FreeBuffer h d ?m =
      Some (QC_STATUS_FAIL, ?m\<lparr>world := w', m_state := QC_OBJECT_STATE_ERROR\<rparr>)"
    using assms(2,5,7) bd(3,5) by (simp add: ML_FreeBuffer_def Let_def buffer_order.equiv_refl)
  then have "reclaim_buffers h (freed @ d # rest) (QC_STATUS_OK, ?st, m) =
      Some (if rest = [] then QC_STATUS_FAIL else QC_STATUS_BAD_STATE, QC_OBJECT_STATE_ERROR,
        ?m\<lparr>world := w', m_state := QC_OBJECT_STATE_ERROR\<rparr>)"
    using first by (simp add: reclaim_buffers_append reclaim_buffers_refused)
  with assms(2,4) bd show ?thesis
    by (simp add: ML_ReclaimResources_def Let_def reclaim_pools_refused set_allocationSet_def)
qed

lemma all_less_2: "(\<forall>i < 2. P i) \<longleftrightarrow> P 0 \<and> P (1 :: nat)"
  by (auto simp: less_2_cases_iff)

definition broken_slots :: "QCMemoryAllocator_e \<Rightarrow> libc_heap QCMemoryAllocatorIfs" where
  "broken_slots a = HeapAllocator\<lparr>Free := (\<lambda>d w. (QC_STATUS_FAIL, w))\<rparr>"

text \<open>The second of three buffers of node 1 is one the allocator does not free.\<close>

definition half_slots :: "QCMemoryAllocator_e \<Rightarrow> libc_heap QCMemoryAllocatorIfs" where
  "half_slots a = HeapAllocator\<lparr>Free :=
     (\<lambda>d w. if pBuf d = 8192 then (QC_STATUS_FAIL, w) else (QC_STATUS_OK, w\<lparr>blocks := []\<rparr>))\<rparr>"

definition demo_broken :: "libc_heap ManagerLocal" where
  "demo_broken = demo_allocated\<lparr>m_allocations := [[], [demo_buffer, demo_buffer\<lparr>pBuf := 8192\<rparr>,
       demo_buffer\<lparr>pBuf := 12288\<rparr>]],
     m_config := demo_init\<lparr>allocators := half_slots\<rparr>\<rparr>"

theorem manager_reclaim_stops_at_failure_witness:
  "\<exists>m'. ML_ReclaimResources demo_handle demo_broken = Some (QC_STATUS_BAD_STATE, m') \<and>
     m_allocations m' = [[], [demo_buffer\<lparr>pBuf := 8192\<rparr>, demo_buffer\<lparr>pBuf := 12288\<rparr>]]"
proof -
  have t: "mgr_tables demo_broken"
    by (simp add: mgr_tables_def demo_broken_def demo_allocated_def demo_registered_eq demo_ready_eq
        nodes_of_def node_ids_def demo_init_def pools_ok_def PoolMapWithMutex_init_def all_less_2
        buffer_less_def demo_buffer_def)
  have "IsMemoryHandleRegistered demo_broken demo_handle = Some 1"
    using demo_allocated_registered by (simp add: demo_broken_def IsMemoryHandleRegistered_def)
  then have n: "node_of demo_broken demo_handle = Some 1"
    by (simp add: node_of_def) (simp add: demo_broken_def demo_init_def)
  have ready: "m_state demo_broken = QC_OBJECT_STATE_READY"
    using demo_state by (simp add: demo_broken_def)
  have sets: "m_allocations demo_broken ! unat (1 :: u8) =
      [demo_buffer] @ demo_buffer\<lparr>pBuf := 8192\<rparr> # [demo_buffer\<lparr>pBuf := 12288\<rparr>]"
    by (simp add: demo_broken_def)
  from manager_reclaim_stops_at_failure [OF t ready n sets]
  show ?thesis by (simp add: demo_broken_def half_slots_def demo_buffer_def)
qed

text \<open>A pool whose initialisation fails is lost. When an allocator fails with
  \<^verbatim>\<open>QC_STATUS_FAIL\<close> part of the way through filling a new pool, \<open>ML_CreatePool\<close> neither keeps the pool
  nor destroys it: the manager goes to the error state owning what it owned before, and the buffers
  the pool had already got stay live even after the manager is de-initialised.\<close>

theorem manager_create_pool_failure_leaks:
  assumes "ml_reach (\<lambda>ini. allocators ini = heap_slots) w0 m" "heap_ok w0"
    and "m_state m = QC_OBJECT_STATE_READY" "IsMemoryHandleRegistered m h = Some i"
    and "Pool_Init (Pool_new (pool_config_of cfg m)) (world m) = (QC_STATUS_FAIL, p, w')"
    and "ML_CreatePool h cfg ph rnd m = Some (QC_STATUS_FAIL, ph', m')"
    and "std_find pool_handle_less fst ph' (poolMap (m_pools m ! unat i)) = None"
    and "\<forall>k. \<not> stale_handle m k"
  shows "m_state m' = QC_OBJECT_STATE_ERROR \<and> owned m' = owned m \<and>
    (\<exists>m2. ML_DeInitialize m' = Some (QC_STATUS_OK, m2) \<and> pool_blocks p \<subseteq> heap_blocks (world m2))"
proof -
  from heap_array.owns_reach [OF assms(1,2)] have inv: "mgr_inv m" and t: "mgr_tables m"
    and o: "mgr_owns heap_slots heap_blocks heap_ok m" by (simp_all add: mgr_inv_def)
  from assms(4,8) have n: "node_of m h = Some i"
    by (cases rule: handle_cases [of m h]) (auto simp: node_of_Some)
  note bd = node_bound [OF t n]
  have alloc: "cfg_allocator (pool_config_of cfg m) = heap_slots (pic_allocator cfg)"
    using heap_array.owns_config [OF t o n] by (simp add: pool_config_of_def)
  from o have "heap_ok (world m)" by (simp add: mgr_owns_def)
  from allocator_contract.Pool_Init_spec [OF heap_slots_contract this alloc assms(5)]
  have p: "pool_blocks p \<inter> heap_blocks (world m) = {}"
    "heap_blocks w' = heap_blocks (world m) \<union> pool_blocks p" by simp_all
  have m': "m' = (set_poolMap (unat i) (next_pool_map i m) m)
      \<lparr>world := w', m_state := QC_OBJECT_STATE_ERROR\<rparr>"
    using t
  proof (cases rule: CreatePool_cases [where h = h and cfg = cfg and ph = ph and rnd = rnd])
    case (failed j k s q w2)
    with n assms(4-6) show ?thesis by simp
  qed (use n assms(4-7) in \<open>auto simp: soft_def\<close>)
  then have ow: "owned m' = owned m" using bd(2) by (simp add: heap_array.owned_next_pool_map)
  have o': "mgr_inv m' \<and> mgr_owns heap_slots heap_blocks heap_ok m'"
    using heap_array.owns_CreatePool [OF t o assms(6)] inv_CreatePool [OF inv assms(6)] by blast
  have ni: "m_state m' \<noteq> QC_OBJECT_STATE_INITIAL" by (simp add: m')
  have "\<forall>k. \<not> stale_handle m' k"
    by (rule no_stale_same [OF registry_CreatePool [OF t assms(6)] assms(8)])
  with DeInitialize_undefined [of m'] o' obtain s2 m2 where m2: "ML_DeInitialize m' = Some (s2, m2)"
    by (cases "ML_DeInitialize m'") (auto simp: mgr_inv_def)
  note d = heap_array.DeInitialize_releases [OF o' ni m2]
  have "set_mset (owned m) \<subseteq> heap_blocks (world m)"
    using o by (simp add: mgr_owns_def counted_subset)
  with p d(4) have "pool_blocks p \<subseteq> heap_blocks (world m2)" unfolding ow by (auto simp: m')
  with m2 d(1) ow show ?thesis by (simp add: m')
qed

definition small_heap :: libc_heap where
  "small_heap = \<lparr>blocks = [], addr_supply = [4096], bad_free = False\<rparr>"

definition demo_pool_init :: QCMemoryPoolInitConfig where
  "demo_pool_init = \<lparr>pic_buff = demo_request, pic_maxElements = 2, pic_name = ''pool'',
     pic_allocator = QC_MEMORY_ALLOCATOR_HEAP\<rparr>"

definition demo_pool_handle :: QCMemoryPoolHandle where
  "demo_pool_handle = QCMemoryPoolHandle 0 3 demo_handle"

definition demo_pool_config :: "libc_heap QCMemoryPoolConfig" where
  "demo_pool_config = \<lparr>cfg_buff = demo_request, cfg_maxElements = 2, cfg_name = ''pool'',
     cfg_allocator = HeapAllocator\<rparr>"

lemma demo_pool_config_of: "pool_config_of demo_pool_init (demo_registered_on w) = demo_pool_config"
  by (simp add: pool_config_of_def demo_pool_init_def demo_registered_eq demo_ready_eq demo_init_def
      heap_slots_def demo_pool_config_def)

lemma demo_pool_fails:
  "Pool_Init (Pool_new demo_pool_config) small_heap =
     (QC_STATUS_FAIL, (Pool_new demo_pool_config)\<lparr>m_freeObjects := [\<lparr>o_pBuf = 4096, o_dmaHandle = 0\<rparr>]\<rparr>,
      \<lparr>blocks = [(4096, 64)], addr_supply = [], bad_free = False\<rparr>)"
proof -
  have valid: "memalign_valid 4096" by (simp add: memalign_valid_def)
  have req: "QCBufferPropBase_init\<lparr>p_alignment := p_alignment demo_request,
      p_cache := p_cache demo_request, p_size := p_size demo_request\<rparr> = demo_request"
    by (simp add: QCBufferPropBase_init_def demo_request_def)
  have first: "HeapAllocator_Allocate demo_request QCBufferDescriptorBase_init small_heap =
      (QC_STATUS_OK, demo_buffer, \<lparr>blocks = [(4096, 64)], addr_supply = [], bad_free = False\<rparr>)"
    using valid by (simp add: HeapAllocator_Allocate_def demo_request_def posix_memalign_def
        small_heap_def block_fits_def demo_buffer_def word_less_nat_alt)
  have second: "HeapAllocator_Allocate demo_request QCBufferDescriptorBase_init
      \<lparr>blocks = [(4096, 64)], addr_supply = [], bad_free = False\<rparr> =
      (QC_STATUS_FAIL, QCBufferDescriptorBase_init,
       \<lparr>blocks = [(4096, 64)], addr_supply = [], bad_free = False\<rparr>)"
    using valid by (simp add: HeapAllocator_Allocate_def demo_request_def posix_memalign_def
        word_less_nat_alt)
  have loop: "Pool_Init_loop 2 r p w = Pool_Init_loop (Suc (Suc 0)) r p w"
    for r and p :: "libc_heap Pool" and w by (simp only: numeral_2_eq_2)
  have obj: "poolObject_of demo_buffer = \<lparr>o_pBuf = 4096, o_dmaHandle = 0\<rparr>"
    by (simp add: poolObject_of_def demo_buffer_def QCBufferDescriptorBase_init_def)
  show ?thesis
    by (simp add: Pool_Init_def Pool_new_def demo_pool_config_def loop req first second Let_def obj)
qed

theorem manager_create_pool_failure_leaks_witness:
  "\<exists>m' m2. ML_CreatePool demo_handle demo_pool_init QCMemoryPoolHandle_init 3
       (demo_registered_on small_heap) = Some (QC_STATUS_FAIL, demo_pool_handle, m') \<and>
     ML_DeInitialize m' = Some (QC_STATUS_OK, m2) \<and>
     (QC_MEMORY_ALLOCATOR_HEAP, 4096) \<in> heap_blocks (world m2)"
proof -
  let ?m = "demo_registered_on small_heap"
  have r: "ml_reach on_heap small_heap ?m" by (rule demo_reach_registered) (rule demo_on_heap)
  have ok: "heap_ok small_heap" by (simp add: heap_ok_def small_heap_def heap_live_def)
  have s: "m_state ?m = QC_OBJECT_STATE_READY" "world ?m = small_heap"
    "m_pools ?m = [PoolMapWithMutex_init, PoolMapWithMutex_init]"
    by (simp_all add: demo_registered_eq demo_ready_eq)
  have init: "Pool_Init (Pool_new (pool_config_of demo_pool_init ?m)) (world ?m) =
      (QC_STATUS_FAIL, (Pool_new demo_pool_config)\<lparr>m_freeObjects := [\<lparr>o_pBuf = 4096, o_dmaHandle = 0\<rparr>]\<rparr>,
       \<lparr>blocks = [(4096, 64)], addr_supply = [], bad_free = False\<rparr>)"
    using demo_pool_fails by (simp add: demo_pool_config_of s)
  have "\<exists>m'. ML_CreatePool demo_handle demo_pool_init QCMemoryPoolHandle_init 3 ?m =
      Some (QC_STATUS_FAIL, demo_pool_handle, m')"
    using init s demo_is_registered [of small_heap]
    by (simp add: ML_CreatePool_def Let_def pool_config_of_def demo_pool_init_def
        PoolMapWithMutex_init_def SetPoolCount_def SetPoolRandomNumber_def SetMemoryHandle_def
        demo_pool_handle_def)
  then obtain m' where c: "ML_CreatePool demo_handle demo_pool_init QCMemoryPoolHandle_init 3 ?m =
      Some (QC_STATUS_FAIL, demo_pool_handle, m')" by blast
  from manager_create_pool_failure_leaks [OF r ok s(1) demo_is_registered init c]
  have "\<exists>m2. ML_DeInitialize m' = Some (QC_STATUS_OK, m2) \<and>
      pool_blocks ((Pool_new demo_pool_config)\<lparr>m_freeObjects := [\<lparr>o_pBuf = 4096, o_dmaHandle = 0\<rparr>]\<rparr>)
        \<subseteq> heap_blocks (world m2)"
    using demo_no_stale [of small_heap] by (simp add: s PoolMapWithMutex_init_def)
  then show ?thesis using c
    by (auto simp: pool_blocks_def pool_addrs_def pool_objects_def Pool_new_def demo_pool_config_def)
qed

end
