(* ===== verification/QC_Descriptors.thy ===== *)
theory QC_Descriptors
  imports QC_Types
begin

text \<open>
  Buffer descriptors and how they are copied: \<^verbatim>\<open>BufferDescriptor.hpp/.cpp\<close>,
  \<^verbatim>\<open>TensorDescriptor.hpp/.cpp\<close>, \<^verbatim>\<open>ImageDescriptor.hpp/.cpp\<close>, \<^verbatim>\<open>CameraBufferDescriptor.hpp/.cpp\<close> and
  \<^verbatim>\<open>VideoFrameDescriptor.hpp/.cpp\<close> under \<^verbatim>\<open>Infras/Memory\<close>.

  A derived structure is a record extension. An argument of type \<^verbatim>\<open>const QCBufferDescriptorBase_t &\<close>
  may be an object of any derived structure, and the code asks which with \<^verbatim>\<open>dynamic_cast\<close>; such an
  argument is an \<open>any_buffer\<close>, and a cast to a reference of a base structure is \<open>truncate\<close>. An array
  member is a list of its length. Assigning an object to itself changes nothing in the code and is
  the only aliasing it looks for; here source and destination are different objects.
\<close>

subsection \<open>Properties asked for\<close>

record BufferProps = QCBufferPropBase +
  bp_allocatorType :: QCMemoryAllocator_e

definition BufferProps_init :: BufferProps where
  "BufferProps_init = \<lparr>p_size = 0, p_alignment = QC_MEMORY_DEFAULT_ALLIGNMENT,
     p_cache = QC_MEMORY_DEFAULT_CACHE_ATTRIBUTES, bp_allocatorType = QC_MEMORY_ALLOCATOR_DMA\<rparr>"

definition BufferProps_new :: "u64 \<Rightarrow> QCMemoryAllocator_e \<Rightarrow> QCAllocationCache_e \<Rightarrow> BufferProps" where
  "BufferProps_new size' allocator cache =
     BufferProps_init\<lparr>bp_allocatorType := allocator, p_size := size', p_cache := cache\<rparr>"

record ImageBasicProps = BufferProps +
  ip_format :: QCImageFormat_e
  ip_batchSize :: u32
  ip_width :: u32
  ip_height :: u32

definition ImageBasicProps_new ::
  "u32 \<Rightarrow> u32 \<Rightarrow> u32 \<Rightarrow> QCImageFormat_e \<Rightarrow> QCMemoryAllocator_e \<Rightarrow> QCAllocationCache_e \<Rightarrow>
     ImageBasicProps" where
  "ImageBasicProps_new batchSize width height fmt allocator cache =
     BufferProps.extend (BufferProps_new 0 allocator cache)
       \<lparr>ip_format = fmt, ip_batchSize = batchSize, ip_width = width, ip_height = height\<rparr>"

record ImageProps = ImageBasicProps +
  ip_stride :: "u32 list"
  ip_actualHeight :: "u32 list"
  ip_planeBufSize :: "u32 list"
  ip_numPlanes :: u32

text \<open>\<^verbatim>\<open>std::copy\<close> of \<open>n\<close> elements to the start of an array: undefined past either end.\<close>

definition std_copy :: "'a list \<Rightarrow> nat \<Rightarrow> 'a list \<Rightarrow> 'a list option" where
  "std_copy src n dst =
     (if n \<le> length src \<and> n \<le> length dst then Some (take n src @ drop n dst) else None)"

text \<open>The arrays of the fresh object have indeterminate contents, the arguments \<open>s\<close>, \<open>a\<close> and \<open>p\<close>.\<close>

definition ImageProps_new ::
  "u32 \<Rightarrow> u32 \<Rightarrow> u32 \<Rightarrow> QCImageFormat_e \<Rightarrow> u32 list \<Rightarrow> u32 list \<Rightarrow> u32 list \<Rightarrow>
     QCMemoryAllocator_e \<Rightarrow> QCAllocationCache_e \<Rightarrow> u32 list \<Rightarrow> u32 list \<Rightarrow> u32 list \<Rightarrow>
     ImageProps option" where
  "ImageProps_new batchSize width height fmt strides actualHeights planeBufSizes allocator cache
     s a p =
     (case std_copy strides (length strides) s of None \<Rightarrow> None
      | Some s' \<Rightarrow> (case std_copy actualHeights (length actualHeights) a of None \<Rightarrow> None
      | Some a' \<Rightarrow> (case std_copy planeBufSizes (length planeBufSizes) p of None \<Rightarrow> None
      | Some p' \<Rightarrow>
          Some (ImageBasicProps.extend
            (ImageBasicProps_new batchSize width height fmt allocator cache)
            \<lparr>ip_stride = s', ip_actualHeight = a', ip_planeBufSize = p',
             ip_numPlanes = of_nat (length strides)\<rparr>))))"

record TensorProps = BufferProps +
  tp_tensorType :: QCTensorType_e
  tp_dims :: "u32 list"
  tp_numDims :: u32

definition TensorProps_new ::
  "QCTensorType_e \<Rightarrow> u32 list \<Rightarrow> QCMemoryAllocator_e \<Rightarrow> QCAllocationCache_e \<Rightarrow> u32 list \<Rightarrow>
     TensorProps option" where
  "TensorProps_new ty dims' allocator cache d =
     (case std_copy dims' (length dims') d of None \<Rightarrow> None
      | Some d' \<Rightarrow>
          Some (BufferProps.extend (BufferProps_new 0 allocator cache)
            \<lparr>tp_tensorType = ty, tp_dims = d', tp_numDims = of_nat (length dims')\<rparr>))"

subsection \<open>Descriptors\<close>

record BufferDescriptor = QCBufferDescriptorBase +
  validSize :: u64
  offset :: u64
  bufId :: u64

definition BufferDescriptor_init :: BufferDescriptor where
  "BufferDescriptor_init =
     QCBufferDescriptorBase.extend QCBufferDescriptorBase_init \<lparr>validSize = 0, offset = 0, bufId = 0\<rparr>"

definition BufferDescriptor_GetDataPtr :: "'a BufferDescriptor_scheme \<Rightarrow> u64" where
  "BufferDescriptor_GetDataPtr b = pBuf b + offset b"

definition BufferDescriptor_GetDataSize :: "'a BufferDescriptor_scheme \<Rightarrow> u64" where
  "BufferDescriptor_GetDataSize b = validSize b"

record ImageDescriptor = BufferDescriptor +
  i_format :: QCImageFormat_e
  i_batchSize :: u32
  i_width :: u32
  i_height :: u32
  i_stride :: "u32 list"
  i_actualHeight :: "u32 list"
  i_planeBufSize :: "u32 list"
  i_numPlanes :: u32

definition ImageDescriptor_init :: ImageDescriptor where
  "ImageDescriptor_init = BufferDescriptor.extend BufferDescriptor_init
     \<lparr>i_format = QC_IMAGE_FORMAT_MAX, i_batchSize = 0, i_width = 0, i_height = 0,
      i_stride = replicate QC_NUM_IMAGE_PLANES 0, i_actualHeight = replicate QC_NUM_IMAGE_PLANES 0,
      i_planeBufSize = replicate QC_NUM_IMAGE_PLANES 0, i_numPlanes = 0\<rparr>"

record TensorDescriptor = BufferDescriptor +
  t_tensorType :: QCTensorType_e
  t_dims :: "u32 list"
  t_numDims :: u32

record CameraFrameDescriptor = ImageDescriptor +
  c_timestamp :: u64
  c_timestampQGPTP :: u64
  c_frameIdx :: u32
  c_flags :: u32
  c_streamId :: u32

type_synonym CameraBufferRequest = "u32 \<times> u32"

record CameraMetaDataDescriptor = ImageDescriptor +
  cm_requestId :: u32
  cm_streamRequestNum :: u32
  cm_syncId :: u32
  cm_flags :: u32
  cm_inputBuffer :: CameraBufferRequest
  cm_inputCommonMetadata :: CameraBufferRequest
  cm_inputMetadata :: "CameraBufferRequest list"
  cm_outputMetadata :: "CameraBufferRequest list"
  cm_streamRequests :: "CameraBufferRequest list"

record VideoFrameDescriptor = ImageDescriptor +
  v_timestampNs :: u64
  v_appMarkData :: u64
  v_frameType :: nat
  v_frameFlag :: u32

definition VideoFrameDescriptor_init :: "nat \<Rightarrow> VideoFrameDescriptor" where
  "VideoFrameDescriptor_init vidc_frame_notcoded = ImageDescriptor.extend ImageDescriptor_init
     \<lparr>v_timestampNs = 0, v_appMarkData = 0, v_frameType = vidc_frame_notcoded, v_frameFlag = 0\<rparr>"

definition image_wf :: "'a ImageDescriptor_scheme \<Rightarrow> bool" where
  "image_wf d \<longleftrightarrow> length (i_stride d) = QC_NUM_IMAGE_PLANES \<and>
     length (i_actualHeight d) = QC_NUM_IMAGE_PLANES \<and> length (i_planeBufSize d) = QC_NUM_IMAGE_PLANES"

definition tensor_wf :: "'a TensorDescriptor_scheme \<Rightarrow> bool" where
  "tensor_wf d \<longleftrightarrow> length (t_dims d) = QC_NUM_TENSOR_DIMS"

datatype any_buffer =
    A_Base QCBufferDescriptorBase
  | A_Buffer BufferDescriptor
  | A_Tensor TensorDescriptor
  | A_Image ImageDescriptor
  | A_Camera CameraFrameDescriptor
  | A_CameraMeta CameraMetaDataDescriptor
  | A_Video VideoFrameDescriptor

fun any_base :: "any_buffer \<Rightarrow> QCBufferDescriptorBase" where
  "any_base (A_Base d) = d"
| "any_base (A_Buffer d) = QCBufferDescriptorBase.truncate d"
| "any_base (A_Tensor d) = QCBufferDescriptorBase.truncate d"
| "any_base (A_Image d) = QCBufferDescriptorBase.truncate d"
| "any_base (A_Camera d) = QCBufferDescriptorBase.truncate d"
| "any_base (A_CameraMeta d) = QCBufferDescriptorBase.truncate d"
| "any_base (A_Video d) = QCBufferDescriptorBase.truncate d"

text \<open>The results of \<^verbatim>\<open>dynamic_cast\<close> to a pointer.\<close>

fun any_BufferDescriptor :: "any_buffer \<Rightarrow> BufferDescriptor option" where
  "any_BufferDescriptor (A_Base d) = None"
| "any_BufferDescriptor (A_Buffer d) = Some d"
| "any_BufferDescriptor (A_Tensor d) = Some (BufferDescriptor.truncate d)"
| "any_BufferDescriptor (A_Image d) = Some (BufferDescriptor.truncate d)"
| "any_BufferDescriptor (A_Camera d) = Some (BufferDescriptor.truncate d)"
| "any_BufferDescriptor (A_CameraMeta d) = Some (BufferDescriptor.truncate d)"
| "any_BufferDescriptor (A_Video d) = Some (BufferDescriptor.truncate d)"

fun any_TensorDescriptor :: "any_buffer \<Rightarrow> TensorDescriptor option" where
  "any_TensorDescriptor (A_Tensor d) = Some d"
| "any_TensorDescriptor _ = None"

fun any_ImageDescriptor :: "any_buffer \<Rightarrow> ImageDescriptor option" where
  "any_ImageDescriptor (A_Image d) = Some d"
| "any_ImageDescriptor (A_Camera d) = Some (ImageDescriptor.truncate d)"
| "any_ImageDescriptor (A_CameraMeta d) = Some (ImageDescriptor.truncate d)"
| "any_ImageDescriptor (A_Video d) = Some (ImageDescriptor.truncate d)"
| "any_ImageDescriptor _ = None"

fun any_VideoFrameDescriptor :: "any_buffer \<Rightarrow> VideoFrameDescriptor option" where
  "any_VideoFrameDescriptor (A_Video d) = Some d"
| "any_VideoFrameDescriptor _ = None"

subsection \<open>Assignment operators\<close>

text \<open>The assignments of a plain buffer descriptor. Neither writes the alignment. Each is given for
  any structure that derives from \<^verbatim>\<open>BufferDescriptor\<close>, since the derived operators call it on their
  own base.\<close>

definition BufferDescriptor_assign ::
  "'a BufferDescriptor_scheme \<Rightarrow> 'b BufferDescriptor_scheme \<Rightarrow> 'a BufferDescriptor_scheme" where
  "BufferDescriptor_assign this other =
     this\<lparr>b_name := b_name other, pBuf := pBuf other, b_size := b_size other,
       b_type := b_type other, dmaHandle := dmaHandle other, validSize := validSize other,
       offset := offset other, bufId := bufId other, b_pid := b_pid other,
       allocatorType := allocatorType other, b_cache := b_cache other\<rparr>"

definition BufferDescriptor_assign_base ::
  "'a BufferDescriptor_scheme \<Rightarrow> 'b QCBufferDescriptorBase_scheme \<Rightarrow> 'a BufferDescriptor_scheme" where
  "BufferDescriptor_assign_base this other =
     this\<lparr>b_name := b_name other, pBuf := pBuf other, b_size := b_size other,
       b_type := b_type other, dmaHandle := dmaHandle other, validSize := b_size other,
       offset := 0, bufId := - 1, b_pid := b_pid other,
       allocatorType := allocatorType other, b_cache := b_cache other\<rparr>"

definition TensorDescriptor_assign_buffer ::
  "TensorDescriptor \<Rightarrow> 'b BufferDescriptor_scheme \<Rightarrow> TensorDescriptor" where
  "TensorDescriptor_assign_buffer this other =
     (BufferDescriptor_assign this other)\<lparr>b_type := QC_BUFFER_TYPE_TENSOR\<rparr>"

definition TensorDescriptor_assign :: "TensorDescriptor \<Rightarrow> TensorDescriptor \<Rightarrow> TensorDescriptor" where
  "TensorDescriptor_assign this other =
     (let n = min (t_numDims other) (of_nat QC_NUM_TENSOR_DIMS)
      in (BufferDescriptor_assign this other)
           \<lparr>b_type := QC_BUFFER_TYPE_TENSOR, t_tensorType := t_tensorType other,
            t_dims := take (unat n) (t_dims other) @ drop (unat n) (t_dims this), t_numDims := n\<rparr>)"

definition TensorDescriptor_assign_any :: "TensorDescriptor \<Rightarrow> any_buffer \<Rightarrow> TensorDescriptor" where
  "TensorDescriptor_assign_any this other =
     (case any_TensorDescriptor other of
        Some t \<Rightarrow> TensorDescriptor_assign this t
      | None \<Rightarrow>
          (case any_BufferDescriptor other of
             Some b \<Rightarrow> TensorDescriptor_assign_buffer this b
           | None \<Rightarrow> BufferDescriptor_assign_base this (any_base other)))"

definition ImageDescriptor_assign_buffer ::
  "'a ImageDescriptor_scheme \<Rightarrow> 'b BufferDescriptor_scheme \<Rightarrow> 'a ImageDescriptor_scheme" where
  "ImageDescriptor_assign_buffer this other =
     (BufferDescriptor_assign this other)\<lparr>b_type := QC_BUFFER_TYPE_IMAGE\<rparr>"

definition ImageDescriptor_assign ::
  "'a ImageDescriptor_scheme \<Rightarrow> 'b ImageDescriptor_scheme \<Rightarrow> 'a ImageDescriptor_scheme" where
  "ImageDescriptor_assign this other =
     (let n = min (i_numPlanes other) (of_nat QC_NUM_IMAGE_PLANES)
      in (BufferDescriptor_assign this other)
           \<lparr>b_type := QC_BUFFER_TYPE_IMAGE, i_format := i_format other,
            i_batchSize := i_batchSize other, i_width := i_width other, i_height := i_height other,
            i_stride := take (unat n) (i_stride other) @ drop (unat n) (i_stride this),
            i_actualHeight :=
              take (unat n) (i_actualHeight other) @ drop (unat n) (i_actualHeight this),
            i_planeBufSize :=
              take (unat n) (i_planeBufSize other) @ drop (unat n) (i_planeBufSize this),
            i_numPlanes := n\<rparr>)"

definition ImageDescriptor_assign_any ::
  "'a ImageDescriptor_scheme \<Rightarrow> any_buffer \<Rightarrow> 'a ImageDescriptor_scheme" where
  "ImageDescriptor_assign_any this other =
     (case any_ImageDescriptor other of
        Some i \<Rightarrow> ImageDescriptor_assign this i
      | None \<Rightarrow>
          (case any_BufferDescriptor other of
             Some b \<Rightarrow> ImageDescriptor_assign_buffer this b
           | None \<Rightarrow> BufferDescriptor_assign_base this (any_base other)))"

text \<open>The camera frame copies its planes without clamping their number: with more planes than the
  arrays hold the loop reads and writes past them, the result \<open>None\<close>.\<close>

definition CameraFrameDescriptor_assign_any ::
  "CameraFrameDescriptor \<Rightarrow> any_buffer \<Rightarrow> CameraFrameDescriptor option" where
  "CameraFrameDescriptor_assign_any this other =
     (let b = any_base other;
          this1 = this\<lparr>b_name := b_name b, pBuf := pBuf b, b_size := b_size b,
            b_type := QC_BUFFER_TYPE_IMAGE, dmaHandle := dmaHandle b, b_cache := b_cache b,
            b_pid := b_pid b, allocatorType := allocatorType b\<rparr>
      in case any_ImageDescriptor other of
           None \<Rightarrow> Some this1
         | Some i \<Rightarrow>
             let n = unat (i_numPlanes i)
             in (case std_copy (i_stride i) n (i_stride this) of None \<Rightarrow> None
                 | Some s \<Rightarrow> (case std_copy (i_actualHeight i) n (i_actualHeight this) of None \<Rightarrow> None
                 | Some a \<Rightarrow> (case std_copy (i_planeBufSize i) n (i_planeBufSize this) of None \<Rightarrow> None
                 | Some p \<Rightarrow>
                     Some (this1\<lparr>bufId := bufId i, validSize := validSize i, offset := offset i,
                       i_format := i_format i, i_batchSize := i_batchSize i, i_width := i_width i,
                       i_height := i_height i, i_numPlanes := i_numPlanes i, i_stride := s,
                       i_actualHeight := a, i_planeBufSize := p\<rparr>)))))"

definition VideoFrameDescriptor_assign_any ::
  "VideoFrameDescriptor \<Rightarrow> any_buffer \<Rightarrow> VideoFrameDescriptor" where
  "VideoFrameDescriptor_assign_any this other =
     (let this1 = (case any_ImageDescriptor other of
                     Some i \<Rightarrow> ImageDescriptor_assign this i | None \<Rightarrow> this)
      in case any_VideoFrameDescriptor other of
           Some v \<Rightarrow> this1\<lparr>v_timestampNs := v_timestampNs v, v_appMarkData := v_appMarkData v,
                       v_frameType := v_frameType v, v_frameFlag := v_frameFlag v\<rparr>
         | None \<Rightarrow> this1)"


subsection \<open>Well-formed objects\<close>

text \<open>The arrays of an object have their declared lengths, whatever the object's structure.\<close>

fun any_wf :: "any_buffer \<Rightarrow> bool" where
  "any_wf (A_Tensor d) = tensor_wf d"
| "any_wf (A_Image d) = image_wf d"
| "any_wf (A_Camera d) = image_wf d"
| "any_wf (A_CameraMeta d) = image_wf d"
| "any_wf (A_Video d) = image_wf d"
| "any_wf _ = True"

lemma any_wf_image: "any_wf d \<Longrightarrow> any_ImageDescriptor d = Some i \<Longrightarrow> image_wf i"
  by (cases d) (auto simp: image_wf_def ImageDescriptor.defs)

lemma std_copy_Some:
  "n \<le> length src \<Longrightarrow> n \<le> length dst \<Longrightarrow> std_copy src n dst = Some (take n src @ drop n dst)"
  by (simp add: std_copy_def)

lemma tensor_wf_buffer [simp]: "tensor_wf (TensorDescriptor_assign_buffer t b) = tensor_wf t"
  by (simp add: tensor_wf_def BufferDescriptor_assign_def TensorDescriptor_assign_buffer_def)

lemma unat_min: "unat (min a b) = min (unat a) (unat b)" for a b :: "'a::len word"
  by (simp add: min_def word_le_nat_alt)

subsection \<open>Properties of copies\<close>

definition demo_image :: "u32 \<Rightarrow> ImageDescriptor" where
  "demo_image planes = ImageDescriptor_init
     \<lparr>pBuf := 4096, b_size := 96, b_type := QC_BUFFER_TYPE_IMAGE, i_format := QC_IMAGE_FORMAT_NV12,
      i_batchSize := 1, i_width := 8, i_height := 8, i_stride := [8, 8, 0, 0],
      i_actualHeight := [8, 4, 0, 0], i_planeBufSize := [64, 32, 0, 0], i_numPlanes := planes\<rparr>"

lemma demo_image_wf: "image_wf (demo_image n)"
  by (simp add: image_wf_def demo_image_def)

lemma init_image_wf: "image_wf ImageDescriptor_init"
  by (simp add: image_wf_def ImageDescriptor_init_def BufferDescriptor.defs)

text \<open>An array that is overwritten in its first entries.\<close>

lemma nth_overwrite:
  "length xs = n \<Longrightarrow> length ys = n \<Longrightarrow> j < n \<Longrightarrow>
     (take (min k n) xs @ drop (min k n) ys) ! j = (if j < k then xs ! j else ys ! j)"
  by (auto simp: nth_append min_def)

lemma image_base:
  "any_ImageDescriptor other = Some i \<Longrightarrow>
     b_name (any_base other) = b_name i \<and> pBuf (any_base other) = pBuf i \<and>
     b_size (any_base other) = b_size i \<and> dmaHandle (any_base other) = dmaHandle i \<and>
     b_cache (any_base other) = b_cache i \<and> b_pid (any_base other) = b_pid i \<and>
     allocatorType (any_base other) = allocatorType i"
  by (cases other) (auto simp: QCBufferDescriptorBase.defs ImageDescriptor.defs)

text \<open>C19: copies of planes and dimensions. Assigning an image to an image, and a tensor to a
  tensor, takes over at most as many planes (four) or dimensions (eight) as the arrays hold, and
  leaves the entries after them as they were. Assigning an object with an image part to a camera
  frame does the same as the assignment of an image when there are at most four planes, but does not
  limit their number: with more it writes past the arrays.\<close>

theorem camera_copy_unclamped:
  assumes "image_wf (c :: CameraFrameDescriptor)" "tensor_wf t" "tensor_wf u"
    and "any_wf other" "any_ImageDescriptor other = Some i"
  shows "CameraFrameDescriptor_assign_any c other =
      (if unat (i_numPlanes i) \<le> 4 then Some (ImageDescriptor_assign c i) else None) \<and>
    unat (i_numPlanes (ImageDescriptor_assign c i)) = min (unat (i_numPlanes i)) 4 \<and>
    (\<forall>k < 4.
       i_stride (ImageDescriptor_assign c i) ! k =
         (if k < unat (i_numPlanes i) then i_stride i ! k else i_stride c ! k) \<and>
       i_actualHeight (ImageDescriptor_assign c i) ! k =
         (if k < unat (i_numPlanes i) then i_actualHeight i ! k else i_actualHeight c ! k) \<and>
       i_planeBufSize (ImageDescriptor_assign c i) ! k =
         (if k < unat (i_numPlanes i) then i_planeBufSize i ! k else i_planeBufSize c ! k)) \<and>
    unat (t_numDims (TensorDescriptor_assign t u)) = min (unat (t_numDims u)) 8 \<and>
    (\<forall>k < 8. t_dims (TensorDescriptor_assign t u) ! k =
       (if k < unat (t_numDims u) then t_dims u ! k else t_dims t ! k))"
proof (intro conjI allI impI)
  have wf: "image_wf i" by (rule any_wf_image [OF assms(4,5)])
  note len = assms(1) [unfolded image_wf_def] wf [unfolded image_wf_def]
  show "CameraFrameDescriptor_assign_any c other =
      (if unat (i_numPlanes i) \<le> 4 then Some (ImageDescriptor_assign c i) else None)"
  proof (cases "unat (i_numPlanes i) \<le> 4")
    case True
    then have m: "min (i_numPlanes i) 4 = i_numPlanes i" by (simp add: min_def word_le_nat_alt)
    show ?thesis
      using True len image_base [OF assms(5)] assms(5)
      by (simp add: CameraFrameDescriptor_assign_any_def Let_def std_copy_Some
          ImageDescriptor_assign_def BufferDescriptor_assign_def m)
  next
    case False
    with len assms(5) show ?thesis
      by (simp add: CameraFrameDescriptor_assign_any_def Let_def std_copy_def)
  qed
  show "unat (i_numPlanes (ImageDescriptor_assign c i)) = min (unat (i_numPlanes i)) 4"
    "unat (t_numDims (TensorDescriptor_assign t u)) = min (unat (t_numDims u)) 8"
    by (simp_all add: ImageDescriptor_assign_def TensorDescriptor_assign_def Let_def unat_min)
  fix k :: nat
  {
    assume k: "k < 4"
    show "i_stride (ImageDescriptor_assign c i) ! k =
        (if k < unat (i_numPlanes i) then i_stride i ! k else i_stride c ! k)"
      "i_actualHeight (ImageDescriptor_assign c i) ! k =
        (if k < unat (i_numPlanes i) then i_actualHeight i ! k else i_actualHeight c ! k)"
      "i_planeBufSize (ImageDescriptor_assign c i) ! k =
        (if k < unat (i_numPlanes i) then i_planeBufSize i ! k else i_planeBufSize c ! k)"
      using len k by (simp_all add: ImageDescriptor_assign_def Let_def unat_min nth_overwrite)
  }
  assume k: "k < 8"
  show "t_dims (TensorDescriptor_assign t u) ! k =
      (if k < unat (t_numDims u) then t_dims u ! k else t_dims t ! k)"
    using assms(2,3) k
    by (simp add: TensorDescriptor_assign_def Let_def unat_min nth_overwrite tensor_wf_def)
qed

definition demo_camera :: CameraFrameDescriptor where
  "demo_camera = ImageDescriptor.extend ImageDescriptor_init
     \<lparr>c_timestamp = 0, c_timestampQGPTP = 0, c_frameIdx = 0, c_flags = 0, c_streamId = 0\<rparr>"

definition tensor_of_dims :: "nat \<Rightarrow> TensorDescriptor" where
  "tensor_of_dims n = BufferDescriptor.extend BufferDescriptor_init
     \<lparr>t_tensorType = 0, t_dims = replicate QC_NUM_TENSOR_DIMS (of_nat n), t_numDims = of_nat n\<rparr>"

theorem camera_copy_unclamped_witness:
  "CameraFrameDescriptor_assign_any demo_camera (A_Image (demo_image 5)) = None \<and>
   CameraFrameDescriptor_assign_any demo_camera (A_Image (demo_image 2)) \<noteq> None \<and>
   t_dims (TensorDescriptor_assign (tensor_of_dims 0) (tensor_of_dims 3)) ! 2 = 3"
proof -
  have c: "image_wf demo_camera"
    by (simp add: demo_camera_def image_wf_def ImageDescriptor.defs ImageDescriptor_init_def
        BufferDescriptor.defs)
  have t: "tensor_wf (tensor_of_dims n)" for n
    by (simp add: tensor_wf_def tensor_of_dims_def BufferDescriptor.defs)
  have i: "any_wf (A_Image (demo_image n))" "any_ImageDescriptor (A_Image (demo_image n)) = Some (demo_image n)"
    for n by (simp_all add: demo_image_wf)
  have d: "unat (t_numDims (tensor_of_dims 3)) = 3" "t_dims (tensor_of_dims 3) ! 2 = 3"
    by (simp_all add: tensor_of_dims_def BufferDescriptor.defs)
  have p: "unat (i_numPlanes (demo_image 5)) = 5" "unat (i_numPlanes (demo_image 2)) = 2"
    by (simp_all add: demo_image_def)
  note five = camera_copy_unclamped [OF c t [of 0] t [of 3] i(1) [of 5] i(2) [of 5]]
  then have "\<forall>k < 8. t_dims (TensorDescriptor_assign (tensor_of_dims 0) (tensor_of_dims 3)) ! k =
      (if k < 3 then t_dims (tensor_of_dims 3) ! k else t_dims (tensor_of_dims 0) ! k)"
    unfolding d(1) by blast
  from this [rule_format, of 2] d(2)
  have "t_dims (TensorDescriptor_assign (tensor_of_dims 0) (tensor_of_dims 3)) ! 2 = 3" by simp
  moreover note five camera_copy_unclamped [OF c t [of 0] t [of 3] i(1) [of 2] i(2) [of 2]]
  ultimately show ?thesis unfolding p by simp
qed

text \<open>The key of a copy: the assignment leaves the alignment of its target.\<close>

lemma buffer_key_assign_base:
  "buffer_key (QCBufferDescriptorBase.truncate (BufferDescriptor_assign_base this src)) =
   (pBuf src, b_size src, dmaHandle src, b_pid src, b_alignment this, b_cache src, allocatorType src)"
  by (simp add: buffer_key_def BufferDescriptor_assign_base_def QCBufferDescriptorBase.defs)

lemma copy_equiv_iff:
  "key_equiv buffer_less
     (QCBufferDescriptorBase.truncate (BufferDescriptor_assign_base this src)) src \<longleftrightarrow>
   b_alignment this = b_alignment src"
  by (auto simp: buffer_equiv_key buffer_key_assign_base) (simp_all add: buffer_key_def)

end
