(* ===== verification/QC_DescriptorProps.thy ===== *)
theory QC_DescriptorProps
  imports QC_ManagerProps QC_Descriptors
begin

text \<open>
  Descriptors and the memory manager together: which allocation a copied descriptor names. The
  manager finds a buffer by the key of its descriptor, and the key includes the alignment, which the
  assignments of \<^verbatim>\<open>BufferDescriptor\<close> do not copy.
\<close>

abbreviation copied :: "'a BufferDescriptor_scheme \<Rightarrow> QCBufferDescriptorBase \<Rightarrow> QCBufferDescriptorBase" where
  "copied this d \<equiv> QCBufferDescriptorBase.truncate (BufferDescriptor_assign_base this d)"

lemma block_of_copied [simp]: "block_of (copied this d) = block_of d"
  by (simp add: block_of_def BufferDescriptor_assign_base_def QCBufferDescriptorBase.defs)

text \<open>a buffer cannot be freed through a copy of its descriptor with another alignment. The
  manager that has just allocated a buffer refuses a copy made by the assignment of
  \<^verbatim>\<open>BufferDescriptor\<close> whenever the target's alignment differs from the buffer's, and the buffer
  stays allocated.\<close>

theorem copied_descriptor_not_freed:
  assumes "ml_reach (\<lambda>ini. allocators ini = heap_slots) w0 m" "heap_ok w0"
    and "ML_AllocateBuffer h a req b m = Some (QC_STATUS_OK, d, m1)"
    and "b_alignment this \<noteq> b_alignment d"
  shows "ML_FreeBuffer h (QCBufferDescriptorBase.truncate (BufferDescriptor_assign_base this d)) m1 =
      Some (QC_STATUS_BAD_ARGUMENTS, m1) \<and>
    block_of (QCBufferDescriptorBase.truncate (BufferDescriptor_assign_base this d)) = block_of d \<and>
    block_of d \<in> heap_blocks (world m1)"
proof -
  let ?c = "copied this d"
  from heap_array.owns_reach [OF assms(1,2)] have t: "mgr_tables m"
    and o: "mgr_owns heap_slots heap_blocks heap_ok m" by (simp_all add: mgr_inv_def)
  from t show ?thesis
  proof (cases rule: AllocateBuffer_cases [where h = h and a = a and req = req and b = b])
    case (allocated i d' w')
    with assms(3) have d': "d' = d" and m1: "m1 = set_allocationSet (unat i)
        (std_insert buffer_less id d (m_allocations m ! unat i)) (m\<lparr>world := w'\<rparr>)" by auto
    note bd = node_bound [OF t allocated(4)]
    let ?set = "m_allocations m ! unat i"
    have cfg: "allocators (m_config m) = heap_slots"
      by (rule heap_array.owns_config [OF t o allocated(4)])
    have a: "block_of d \<notin> heap_blocks (world m)"
      "heap_blocks (world m1) = insert (block_of d) (heap_blocks (world m))"
      using allocator_contract.alloc_ok [OF heap_slots_contract, of "world m" a req b d w'] o
        allocated(5) cfg d' by (simp_all add: m1 mgr_owns_def)
    have fresh: "std_find buffer_less id (id ?c) ?set = None"
      by (rule heap_array.fresh_not_found [OF o bd(3)]) (simp add: a(1))
    have "\<not> key_equiv buffer_less (id d) ?c"
      using assms(4) copy_equiv_iff [of this d] by (auto simp: key_equiv_def)
    then have "std_find buffer_less id ?c (std_insert buffer_less id d ?set) = None"
      using buffer_order.find_insert_other [where pr = id and x = d and k = ?c] fresh by simp
    then have "ML_FreeBuffer h ?c m1 = Some (QC_STATUS_BAD_ARGUMENTS, m1)"
      using allocated(1,4) bd(3,5) by (simp add: ML_FreeBuffer_def m1 Let_def fail_to_error_def)
    with a show ?thesis by simp
  qed (use assms(3) in auto)
qed

theorem copied_descriptor_not_freed_witness:
  "\<exists>c. block_of c = block_of demo_buffer \<and>
     ML_FreeBuffer demo_handle c demo_allocated = Some (QC_STATUS_BAD_ARGUMENTS, demo_allocated)"
proof -
  let ?target = "BufferDescriptor_init\<lparr>b_alignment := 16\<rparr>"
  have "ml_reach on_heap demo_heap demo_registered"
    by (rule demo_reach_registered) (rule demo_on_heap)
  moreover have "b_alignment ?target \<noteq> b_alignment demo_buffer" by (simp add: demo_buffer_def)
  ultimately show ?thesis
    using copied_descriptor_not_freed [OF _ demo_heap_ok demo_AllocateBuffer, of ?target] by blast
qed

end
