(* ===== verification/QC_Image.thy ===== *)
theory QC_Image
  imports QC_Descriptors
begin

text \<open>
  The sizes of buffers: \<^verbatim>\<open>source/Infras/Memory/UtilsBase.cpp\<close>, which turns the properties of a tensor
  or an image into a descriptor and a size in bytes, and the conversions of
  \<^verbatim>\<open>source/Infras/Memory/ImageDescriptor.cpp\<close>. Widths, strides and plane sizes are 32-bit numbers and
  wrap; a size in bytes has 64 bits.

  The layout of the planes comes from the platform's plane definition library, whose two queries
  are the fields of \<open>pd_lib\<close>. A value handed back by a failing query is never read.
\<close>

unbundle bit_operations_syntax

subsection \<open>Tables\<close>

definition s_qcTensorTypeToDataSize :: "u32 list" where
  "s_qcTensorTypeToDataSize = [1, 2, 4, 8, 1, 2, 4, 8, 2, 4, 8, 1, 2, 4, 1, 2, 4]"

definition s_qcFormatToBytesPerPixel :: "u32 list" where
  "s_qcFormatToBytesPerPixel = [3, 3, 2, 1, 2, 1, 2]"

definition s_qcFormatToNumPlanes :: "u32 list" where
  "s_qcFormatToNumPlanes = [1, 1, 1, 2, 2, 4, 4]"

definition s_qcFormatToHeightDividerPerPlanes :: "u32 list list" where
  "s_qcFormatToHeightDividerPerPlanes =
     [[1, 1, 1, 1], [1, 1, 1, 1], [1, 1, 1, 1], [1, 2, 1, 1], [1, 2, 1, 1], [1, 1, 2, 2],
      [1, 1, 2, 2]]"

text \<open>\<^verbatim>\<open>ImageDescriptor.cpp\<close> has a table of its own of the bytes per pixel.\<close>

definition image_s_qcFormatToBytesPerPixel :: "u32 list" where
  "image_s_qcFormatToBytesPerPixel = [3, 3, 2, 1, 2, 1, 2]"

datatype PDColorFormat_e =
    PD_FORMAT_RGB888 | PD_FORMAT_UYVY | PD_FORMAT_NV12 | PD_FORMAT_P010 | PD_FORMAT_TP10

definition s_qcFormatToApdfFormat :: "PDColorFormat_e list" where
  "s_qcFormatToApdfFormat =
     [PD_FORMAT_RGB888, PD_FORMAT_RGB888, PD_FORMAT_UYVY, PD_FORMAT_NV12, PD_FORMAT_P010,
      PD_FORMAT_NV12, PD_FORMAT_TP10]"

subsection \<open>Tensors\<close>

text \<open>Reading an element past the end of the dimensions array is \<open>None\<close>.\<close>

definition tensor_bytes :: "QCTensorType_e \<Rightarrow> u32 list \<Rightarrow> u64" where
  "tensor_bytes ty dims =
     foldl (\<lambda>n d. n * ucast d) 1 dims * ucast (s_qcTensorTypeToDataSize ! ty)"

definition SetTensorDescFromTensorProp ::
  "TensorProps \<Rightarrow> TensorDescriptor \<Rightarrow> QCStatus_e \<times> TensorProps \<times> TensorDescriptor" where
  "SetTensorDescFromTensorProp prop desc =
     (if of_nat QC_NUM_TENSOR_DIMS < tp_numDims prop \<or> QC_TENSOR_TYPE_MAX \<le> tp_tensorType prop
      then (QC_STATUS_BAD_ARGUMENTS, prop, desc)
      else
        let n = unat (tp_numDims prop); dims = take n (tp_dims prop)
        in if 0 \<in> set dims then (QC_STATUS_BAD_ARGUMENTS, prop, desc)
           else (QC_STATUS_OK,
                 prop\<lparr>p_size := tensor_bytes (tp_tensorType prop) dims\<rparr>,
                 desc\<lparr>b_type := QC_BUFFER_TYPE_TENSOR, t_numDims := tp_numDims prop,
                      t_tensorType := tp_tensorType prop,
                      t_dims := dims @ drop n (t_dims desc)\<rparr>))"

subsection \<open>Images laid out by the platform\<close>

record PlaneDef =
  nActualStride :: u32
  nActualPlaneBufHeight :: u32
  nPlaneBufSize :: u32
  nPlanePaddingSize :: u32

record pd_lib =
  PDQueryNumPlanes :: "PDColorFormat_e \<Rightarrow> u32 \<Rightarrow> u32 option"
  PDQueryPlaneDef :: "PDColorFormat_e \<Rightarrow> u32 \<Rightarrow> u32 \<Rightarrow> u32 \<Rightarrow> nat \<Rightarrow> PlaneDef option"
  WFD_USAGE_OPENGL_ES2 :: u32
  WFD_USAGE_OPENGL_ES3 :: u32
  WFD_USAGE_CAPTURE :: u32
  WFD_USAGE_VIDEO :: u32
  WFD_USAGE_DISPLAY :: u32
  WFD_USAGE_NATIVE :: u32
  WFD_USAGE_COMPRESSION :: u32

definition PLANEDEF_HW_USAGE_FLAGS :: "pd_lib \<Rightarrow> u32" where
  "PLANEDEF_HW_USAGE_FLAGS pd =
     WFD_USAGE_OPENGL_ES2 pd OR WFD_USAGE_OPENGL_ES3 pd OR WFD_USAGE_CAPTURE pd OR
     WFD_USAGE_VIDEO pd OR WFD_USAGE_DISPLAY pd OR WFD_USAGE_NATIVE pd"

definition image_usage :: "pd_lib \<Rightarrow> QCImageFormat_e \<Rightarrow> u32" where
  "image_usage pd fmt =
     (if fmt = QC_IMAGE_FORMAT_NV12_UBWC \<or> fmt = QC_IMAGE_FORMAT_TP10_UBWC
      then PLANEDEF_HW_USAGE_FLAGS pd OR WFD_USAGE_COMPRESSION pd
      else PLANEDEF_HW_USAGE_FLAGS pd)"

fun basic_planes ::
  "(nat \<Rightarrow> PlaneDef option) \<Rightarrow> nat list \<Rightarrow> ImageDescriptor \<times> u64 \<Rightarrow>
     QCStatus_e \<times> ImageDescriptor \<times> u64" where
  "basic_planes query [] (desc, size') = (QC_STATUS_OK, desc, size')"
| "basic_planes query (i # is) (desc, size') =
     (case query (i + 1) of
        None \<Rightarrow> (QC_STATUS_FAIL, desc, size')
      | Some pl \<Rightarrow>
          let psize = nPlaneBufSize pl + nPlanePaddingSize pl
          in basic_planes query is
               (desc\<lparr>i_stride := (i_stride desc)[i := nActualStride pl],
                  i_actualHeight := (i_actualHeight desc)[i := nActualPlaneBufHeight pl],
                  i_planeBufSize := (i_planeBufSize desc)[i := psize]\<rparr>,
                size' + ucast psize))"

definition SetImageDescFromImageBasicProp ::
  "pd_lib \<Rightarrow> 'a ImageBasicProps_scheme \<Rightarrow> ImageDescriptor \<Rightarrow>
     QCStatus_e \<times> 'a ImageBasicProps_scheme \<times> ImageDescriptor" where
  "SetImageDescFromImageBasicProp pd prop desc =
     (if ip_batchSize prop = 0 \<or> ip_width prop = 0 \<or> ip_height prop = 0 \<or>
         QC_IMAGE_FORMAT_MAX \<le> ip_format prop
      then (QC_STATUS_BAD_ARGUMENTS, prop, desc)
      else
        let eColorFormat = s_qcFormatToApdfFormat ! ip_format prop;
            nUsage = image_usage pd (ip_format prop)
        in case PDQueryNumPlanes pd eColorFormat nUsage of
             None \<Rightarrow> (QC_STATUS_FAIL, prop, desc)
           | Some numPlanes \<Rightarrow>
               if numPlanes = 0 \<or> of_nat QC_NUM_IMAGE_PLANES < numPlanes
               then (QC_STATUS_FAIL, prop, desc)
               else
                 let desc1 = desc\<lparr>i_format := ip_format prop, i_batchSize := ip_batchSize prop,
                               i_width := ip_width prop, i_height := ip_height prop,
                               i_numPlanes := numPlanes\<rparr>
                 in case basic_planes
                           (PDQueryPlaneDef pd eColorFormat nUsage (ip_width prop) (ip_height prop))
                           [0..<unat numPlanes] (desc1, 0) of
                      (status, desc2, size') \<Rightarrow>
                        if status = QC_STATUS_OK
                        then (QC_STATUS_OK,
                              prop\<lparr>p_size := size' * ucast (ip_batchSize prop)\<rparr>,
                              desc2\<lparr>b_type := QC_BUFFER_TYPE_IMAGE\<rparr>)
                        else (status, prop, desc2))"

subsection \<open>Images laid out by the client\<close>

definition plane_def_ok :: "ImageProps \<Rightarrow> nat \<Rightarrow> bool" where
  "plane_def_ok prop i =
     (let bpp = s_qcFormatToBytesPerPixel ! ip_format prop;
          divider = s_qcFormatToHeightDividerPerPlanes ! ip_format prop ! i;
          stride = ip_stride prop ! i; actualHeight = ip_actualHeight prop ! i;
          planeBufSize = ip_planeBufSize prop ! i
      in if stride < ip_width prop * bpp then False
         else if actualHeight < ip_height prop div divider then False
         else if planeBufSize \<noteq> 0 \<and> planeBufSize < stride * actualHeight then False
         else True)"

definition plane_bytes :: "ImageProps \<Rightarrow> nat \<Rightarrow> u64" where
  "plane_bytes prop i =
     (if ip_planeBufSize prop ! i \<noteq> 0 then ucast (ip_planeBufSize prop ! i)
      else ucast (ip_stride prop ! i) * ucast (ip_actualHeight prop ! i))"

text \<open>The range check of the arguments, the check of the layout, and the size.\<close>

definition image_prop_valid :: "ImageProps \<Rightarrow> bool" where
  "image_prop_valid prop =
     (if ip_batchSize prop = 0 \<or> ip_width prop = 0 \<or> ip_height prop = 0 then False
      else if QC_IMAGE_FORMAT_MAX \<le> ip_format prop \<and>
              ip_format prop < QC_IMAGE_FORMAT_COMPRESSED_MIN then False
      else if QC_IMAGE_FORMAT_COMPRESSED_MAX \<le> ip_format prop then False
      else if ip_format prop < QC_IMAGE_FORMAT_MAX
        then s_qcFormatToNumPlanes ! ip_format prop = ip_numPlanes prop
      else if ip_numPlanes prop \<noteq> 1 then False
      else ip_planeBufSize prop ! 0 \<noteq> 0)"

definition image_prop_size :: "ImageProps \<Rightarrow> u64 option" where
  "image_prop_size prop =
     (if ip_format prop < QC_IMAGE_FORMAT_MAX then
        (let planes = [0..<unat (ip_numPlanes prop)]
         in if list_all (plane_def_ok prop) planes
            then Some (foldl (\<lambda>n i. n + plane_bytes prop i) 0 planes * ucast (ip_batchSize prop))
            else None)
      else Some (ucast (ip_planeBufSize prop ! 0)))"

definition SetImageDescFromImageProp ::
  "ImageProps \<Rightarrow> ImageDescriptor \<Rightarrow> QCStatus_e \<times> ImageProps \<times> ImageDescriptor" where
  "SetImageDescFromImageProp prop desc =
     (if \<not> image_prop_valid prop then (QC_STATUS_BAD_ARGUMENTS, prop, desc)
      else case image_prop_size prop of
        None \<Rightarrow> (QC_STATUS_BAD_ARGUMENTS, prop, desc)
      | Some size' \<Rightarrow>
          let n = unat (ip_numPlanes prop);
              strides = take n (ip_stride prop) @ drop n (i_stride desc);
              heights = take n (ip_actualHeight prop) @ drop n (i_actualHeight desc);
              sizes = take n (ip_planeBufSize prop) @ drop n (i_planeBufSize desc)
          in (QC_STATUS_OK, prop\<lparr>p_size := size'\<rparr>,
              desc\<lparr>b_type := QC_BUFFER_TYPE_IMAGE, i_format := ip_format prop,
                i_batchSize := ip_batchSize prop, i_width := ip_width prop,
                i_height := ip_height prop, i_numPlanes := ip_numPlanes prop,
                i_stride := strides, i_actualHeight := heights,
                i_planeBufSize := map (\<lambda>i. if i < n \<and> sizes ! i = 0 then strides ! i * heights ! i
                                         else sizes ! i) [0..<length sizes]\<rparr>))"

text \<open>The base class maps nothing.\<close>

definition UtilsBase_MemoryMap :: "QCBufferDescriptorBase \<Rightarrow> QCStatus_e" where
  "UtilsBase_MemoryMap orig = QC_STATUS_UNSUPPORTED"

definition UtilsBase_MemoryUnMap :: "QCBufferDescriptorBase \<Rightarrow> QCStatus_e" where
  "UtilsBase_MemoryUnMap buff = QC_STATUS_UNSUPPORTED"

subsection \<open>Views of an image\<close>

definition image_tensor_check :: "'a ImageDescriptor_scheme \<Rightarrow> QCStatus_e" where
  "image_tensor_check this =
     (if pBuf this = nullptr then QC_STATUS_INVALID_BUF
      else if b_type this \<noteq> QC_BUFFER_TYPE_IMAGE then QC_STATUS_UNSUPPORTED
      else if i_format this = QC_IMAGE_FORMAT_RGB888 \<or> i_format this = QC_IMAGE_FORMAT_BGR888 \<or>
              i_format this = QC_IMAGE_FORMAT_UYVY then
        (let bpp = image_s_qcFormatToBytesPerPixel ! i_format this
         in if i_stride this ! 0 \<noteq> i_width this * bpp then QC_STATUS_UNSUPPORTED
            else if 1 < i_batchSize this \<and> i_actualHeight this ! 0 \<noteq> i_height this
              then QC_STATUS_UNSUPPORTED
            else if 1 < i_batchSize this \<and>
                    i_planeBufSize this ! 0 \<noteq> i_stride this ! 0 * i_height this
              then QC_STATUS_UNSUPPORTED
            else QC_STATUS_OK)
      else QC_STATUS_UNSUPPORTED)"

definition set_dims4 :: "u32 \<Rightarrow> u32 \<Rightarrow> u32 \<Rightarrow> u32 \<Rightarrow> TensorDescriptor \<Rightarrow> TensorDescriptor" where
  "set_dims4 a b c d t =
     t\<lparr>t_numDims := 4, t_dims := (t_dims t)[0 := a, 1 := b, 2 := c, 3 := d]\<rparr>"

definition ImageToTensor ::
  "'a ImageDescriptor_scheme \<Rightarrow> TensorDescriptor \<Rightarrow> QCStatus_e \<times> TensorDescriptor" where
  "ImageToTensor this tensorDesc =
     (let status = image_tensor_check this
      in if status = QC_STATUS_OK then
           let bpp = image_s_qcFormatToBytesPerPixel ! i_format this;
               t = (TensorDescriptor_assign_buffer tensorDesc this)
                     \<lparr>b_type := QC_BUFFER_TYPE_TENSOR,
                      t_tensorType := QC_TENSOR_TYPE_UFIXED_POINT_8\<rparr>
           in (QC_STATUS_OK,
               (set_dims4 (i_batchSize this) (i_height this) (i_width this) bpp t)
                 \<lparr>validSize := ucast (i_batchSize this) * ucast (i_height this) *
                    ucast (i_width this) * ucast bpp\<rparr>)
         else (status, tensorDesc))"

definition luma_chroma_check :: "'a ImageDescriptor_scheme \<Rightarrow> QCStatus_e" where
  "luma_chroma_check this =
     (if pBuf this = nullptr then QC_STATUS_INVALID_BUF
      else if b_type this \<noteq> QC_BUFFER_TYPE_IMAGE then QC_STATUS_UNSUPPORTED
      else if i_format this = QC_IMAGE_FORMAT_NV12 \<or> i_format this = QC_IMAGE_FORMAT_P010 then
        (if i_stride this ! 0 \<noteq> i_width this * image_s_qcFormatToBytesPerPixel ! i_format this
           then QC_STATUS_UNSUPPORTED
         else if 1 < i_batchSize this then QC_STATUS_UNSUPPORTED
         else if i_height this AND 1 \<noteq> 0 then QC_STATUS_UNSUPPORTED
         else if i_width this AND 1 \<noteq> 0 then QC_STATUS_UNSUPPORTED
         else QC_STATUS_OK)
      else QC_STATUS_UNSUPPORTED)"

definition ImageToLumaChroma ::
  "'a ImageDescriptor_scheme \<Rightarrow> TensorDescriptor \<Rightarrow> TensorDescriptor \<Rightarrow>
     QCStatus_e \<times> TensorDescriptor \<times> TensorDescriptor" where
  "ImageToLumaChroma this luma chroma =
     (let status = luma_chroma_check this
      in if status = QC_STATUS_OK then
           let bpp = image_s_qcFormatToBytesPerPixel ! i_format this;
               ty = (if i_format this = QC_IMAGE_FORMAT_NV12 then QC_TENSOR_TYPE_UFIXED_POINT_8
                     else QC_TENSOR_TYPE_UFIXED_POINT_16);
               bytes = (ucast (i_height this) * ucast (i_width this) * ucast bpp :: u64);
               luma1 = (TensorDescriptor_assign_buffer luma this)
                         \<lparr>offset := offset this, b_type := QC_BUFFER_TYPE_TENSOR, t_tensorType := ty\<rparr>;
               chroma1 = (TensorDescriptor_assign_buffer chroma this)
                         \<lparr>offset := offset this + ucast (i_planeBufSize this ! 0),
                          b_type := QC_BUFFER_TYPE_TENSOR, t_tensorType := ty\<rparr>
           in (QC_STATUS_OK,
               (set_dims4 1 (i_height this) (i_width this) 1 luma1)\<lparr>validSize := bytes\<rparr>,
               (set_dims4 1 (i_height this div 2) (i_width this div 2) 2 chroma1)
                 \<lparr>validSize := bytes div 2\<rparr>)
         else (status, luma, chroma))"

definition GetImageDesc ::
  "'a ImageDescriptor_scheme \<Rightarrow> 'b ImageDescriptor_scheme \<Rightarrow> u32 \<Rightarrow> u32 \<Rightarrow>
     QCStatus_e \<times> 'b ImageDescriptor_scheme" where
  "GetImageDesc this imageDesc batchOffset batchSize =
     (if pBuf this = nullptr then (QC_STATUS_INVALID_BUF, imageDesc)
      else if b_type this \<noteq> QC_BUFFER_TYPE_IMAGE then (QC_STATUS_UNSUPPORTED, imageDesc)
      else if i_batchSize this \<le> batchOffset then (QC_STATUS_BAD_ARGUMENTS, imageDesc)
      else if i_batchSize this - batchOffset < batchSize then (QC_STATUS_BAD_ARGUMENTS, imageDesc)
      else
        let single = b_size this div ucast (i_batchSize this)
        in (QC_STATUS_OK,
            (ImageDescriptor_assign imageDesc this)
              \<lparr>i_batchSize := batchSize, validSize := ucast batchSize * single,
               offset := offset this + ucast batchOffset * single\<rparr>))"


subsection \<open>Arithmetic of sizes\<close>

named_theorems size_arith

lemma unat_ucast_u64 [size_arith]: "unat (ucast (x :: u32) :: u64) = unat x"
  by (simp add: unsigned_ucast_eq take_bit_nat_eq_self_iff less_trans [OF unsigned_less])

lemma unat_u32_less: "unat (x :: u32) < 2 ^ 32"
  using unsigned_less [of x] by simp

lemma of_nat_unat_u64: "(of_nat (unat (x :: u32)) :: u64) = ucast x"
  by (simp add: of_nat_unat)

lemma foldl_times_u64:
  "foldl (\<lambda>n d. n * ucast d) (of_nat k :: u64) (dims :: u32 list) =
   of_nat (k * prod_list (map unat dims))"
proof (induction dims arbitrary: k)
  case Nil
  then show ?case by simp
next
  case (Cons d dims)
  have e: "of_nat k * (ucast d :: u64) = of_nat (k * unat d)"
    by (simp only: of_nat_mult of_nat_unat_u64)
  have "foldl (\<lambda>n d. n * ucast d) (of_nat k :: u64) (d # dims) =
      foldl (\<lambda>n d. n * ucast d) (of_nat (k * unat d)) dims"
    by (simp only: foldl_Cons e)
  also have "\<dots> = of_nat (k * unat d * prod_list (map unat dims))" by (rule Cons)
  finally show ?case by (simp only: list.map prod_list.Cons mult.assoc)
qed

lemma foldl_plus_u64:
  "foldl (\<lambda>n i. n + f i) (z :: u64) xs = z + (\<Sum>i\<leftarrow>xs. f i)"
  by (induction xs arbitrary: z) (simp_all add: add.assoc)

lemma unat_sum_upt: "(\<Sum>i\<leftarrow>xs. (of_nat (g i) :: u64)) = of_nat (\<Sum>i\<leftarrow>xs. g i)"
  by (induction xs) simp_all

lemma unat_mult_u32: "unat a * unat b < 2 ^ 32 \<Longrightarrow> unat (a * b :: u32) = unat a * unat b"
  by (simp add: unat_word_ariths)

lemma word_and_1_iff: "(x :: u32) AND 1 = 0 \<longleftrightarrow> even (unat x)"
  by (simp add: and_one_eq word_unat_eq_iff unat_mod_distrib even_iff_mod_2_eq_zero)

text \<open>C21: a tensor's size. Properties with at most eight dimensions, a known type and no dimension of
  zero give the product of the dimensions and the element size, modulo \<open>2 ^ 64\<close>, and a descriptor with
  those dimensions; any other properties are refused and change nothing.\<close>

theorem tensor_desc_size:
  assumes "SetTensorDescFromTensorProp prop desc = (s, prop', d)"
    and "length (tp_dims prop) = QC_NUM_TENSOR_DIMS"
  shows "if unat (tp_numDims prop) \<le> QC_NUM_TENSOR_DIMS \<and> tp_tensorType prop < QC_TENSOR_TYPE_MAX \<and>
      0 \<notin> set (take (unat (tp_numDims prop)) (tp_dims prop))
    then s = QC_STATUS_OK \<and>
      unat (p_size prop') = (prod_list (map unat (take (unat (tp_numDims prop)) (tp_dims prop))) *
        unat (s_qcTensorTypeToDataSize ! tp_tensorType prop)) mod 2 ^ 64 \<and>
      b_type d = QC_BUFFER_TYPE_TENSOR \<and> t_tensorType d = tp_tensorType prop \<and>
      take (unat (t_numDims d)) (t_dims d) = take (unat (tp_numDims prop)) (tp_dims prop)
    else s = QC_STATUS_BAD_ARGUMENTS \<and> prop' = prop \<and> d = desc"
proof -
  let ?dims = "take (unat (tp_numDims prop)) (tp_dims prop)"
  have range: "(of_nat QC_NUM_TENSOR_DIMS < tp_numDims prop) \<longleftrightarrow> \<not> unat (tp_numDims prop) \<le> 8"
    by (simp add: word_less_nat_alt not_le)
  have bytes: "unat (tensor_bytes (tp_tensorType prop) ?dims) =
      (prod_list (map unat ?dims) * unat (s_qcTensorTypeToDataSize ! tp_tensorType prop)) mod 2 ^ 64"
    using foldl_times_u64 [of 1 ?dims]
    by (simp add: tensor_bytes_def unat_word_ariths unat_ucast_u64 unat_of_nat mod_mult_left_eq)
  show ?thesis
  proof (cases "unat (tp_numDims prop) \<le> QC_NUM_TENSOR_DIMS \<and>
      tp_tensorType prop < QC_TENSOR_TYPE_MAX \<and> 0 \<notin> set ?dims")
    case True
    have "SetTensorDescFromTensorProp prop desc =
        (QC_STATUS_OK, prop\<lparr>p_size := tensor_bytes (tp_tensorType prop) ?dims\<rparr>,
         desc\<lparr>b_type := QC_BUFFER_TYPE_TENSOR, t_numDims := tp_numDims prop,
           t_tensorType := tp_tensorType prop,
           t_dims := ?dims @ drop (unat (tp_numDims prop)) (t_dims desc)\<rparr>)"
      unfolding SetTensorDescFromTensorProp_def range Let_def using True by simp
    with assms(1) have e: "s = QC_STATUS_OK"
      "prop' = prop\<lparr>p_size := tensor_bytes (tp_tensorType prop) ?dims\<rparr>"
      "d = desc\<lparr>b_type := QC_BUFFER_TYPE_TENSOR, t_numDims := tp_numDims prop,
           t_tensorType := tp_tensorType prop,
           t_dims := ?dims @ drop (unat (tp_numDims prop)) (t_dims desc)\<rparr>" by simp_all
    have "take (unat (t_numDims d)) (t_dims d) = ?dims"
      using True assms(2) by (simp add: e(3))
    with True e bytes show ?thesis by simp
  next
    case False
    then have "SetTensorDescFromTensorProp prop desc = (QC_STATUS_BAD_ARGUMENTS, prop, desc)"
      unfolding SetTensorDescFromTensorProp_def range Let_def by auto
    with assms(1) False show ?thesis by auto
  qed
qed

definition demo_tensor_props :: TensorProps where
  "demo_tensor_props = BufferProps.extend BufferProps_init
     \<lparr>tp_tensorType = QC_TENSOR_TYPE_FLOAT_32, tp_dims = [2, 3, 5, 1, 0, 0, 0, 0], tp_numDims = 4\<rparr>"

definition demo_tensor :: TensorDescriptor where
  "demo_tensor = BufferDescriptor.extend BufferDescriptor_init
     \<lparr>t_tensorType = 0, t_dims = replicate QC_NUM_TENSOR_DIMS 0, t_numDims = 0\<rparr>"

theorem tensor_desc_size_witness:
  "unat (p_size (fst (snd (SetTensorDescFromTensorProp demo_tensor_props demo_tensor)))) = 120"
proof -
  obtain s p d where r: "SetTensorDescFromTensorProp demo_tensor_props demo_tensor = (s, p, d)"
    by (metis prod_cases3)
  have "length (tp_dims demo_tensor_props) = QC_NUM_TENSOR_DIMS"
    by (simp add: demo_tensor_props_def BufferProps.defs)
  from tensor_desc_size [OF r this] have "unat (p_size p) = 120"
    by (simp add: demo_tensor_props_def BufferProps.defs s_qcTensorTypeToDataSize_def)
  with r show ?thesis by simp
qed

end
