(* ===== verification/QC_ImageProps.thy ===== *)
theory QC_ImageProps
  imports QC_Image
begin

text \<open>
  Properties of image layouts: when the size computed for an image covers its planes, what the
  32-bit arithmetic of the layout check lets through, the tensor views of an image, the images of a
  batch, and the agreement of the two ways to describe an image.
\<close>

definition image_arrays :: "ImageProps \<Rightarrow> bool" where
  "image_arrays prop \<longleftrightarrow> length (ip_stride prop) = QC_NUM_IMAGE_PLANES \<and>
     length (ip_actualHeight prop) = QC_NUM_IMAGE_PLANES \<and>
     length (ip_planeBufSize prop) = QC_NUM_IMAGE_PLANES"

text \<open>The layout fits in 32 bits: no product of the layout check wraps.\<close>

definition image_no_wrap :: "ImageProps \<Rightarrow> bool" where
  "image_no_wrap prop \<longleftrightarrow>
     unat (ip_width prop) * unat (s_qcFormatToBytesPerPixel ! ip_format prop) < 2 ^ 32 \<and>
     (\<forall>i < unat (ip_numPlanes prop).
        unat (ip_stride prop ! i) * unat (ip_actualHeight prop ! i) < 2 ^ 32)"

lemma format_cases:
  "fmt < QC_IMAGE_FORMAT_MAX \<Longrightarrow>
     fmt = 0 \<or> fmt = 1 \<or> fmt = 2 \<or> fmt = 3 \<or> fmt = 4 \<or> fmt = 5 \<or> fmt = 6"
  by presburger

lemma num_planes_bounds:
  assumes "fmt < QC_IMAGE_FORMAT_MAX"
  shows "unat (s_qcFormatToNumPlanes ! fmt) \<le> 4" "0 < unat (s_qcFormatToNumPlanes ! fmt)"
  using format_cases [OF assms] by (elim disjE; simp add: s_qcFormatToNumPlanes_def)+

lemma SetImageDescFromImageProp_OK:
  assumes "SetImageDescFromImageProp prop desc = (QC_STATUS_OK, prop', d)"
    and "ip_format prop < QC_IMAGE_FORMAT_MAX"
  shows "image_prop_valid prop" "s_qcFormatToNumPlanes ! ip_format prop = ip_numPlanes prop"
    "unat (ip_numPlanes prop) \<le> 4" "\<forall>i < unat (ip_numPlanes prop). plane_def_ok prop i"
    "p_size prop' = (\<Sum>i\<leftarrow>[0..<unat (ip_numPlanes prop)]. plane_bytes prop i) *
       ucast (ip_batchSize prop)"
proof -
  show v: "image_prop_valid prop"
    by (rule ccontr) (use assms in \<open>simp add: SetImageDescFromImageProp_def\<close>)
  then show n: "s_qcFormatToNumPlanes ! ip_format prop = ip_numPlanes prop"
    using assms(2) by (simp add: image_prop_valid_def split: if_splits)
  show "unat (ip_numPlanes prop) \<le> 4" using num_planes_bounds(1) [OF assms(2)] n by simp
  obtain sz where sz: "image_prop_size prop = Some sz"
    using assms(1) v by (cases "image_prop_size prop") (simp_all add: SetImageDescFromImageProp_def)
  with assms(2) show "\<forall>i < unat (ip_numPlanes prop). plane_def_ok prop i"
    by (auto simp: image_prop_size_def Let_def list_all_iff split: if_splits)
  from sz assms(2) have "sz = (\<Sum>i\<leftarrow>[0..<unat (ip_numPlanes prop)]. plane_bytes prop i) *
      ucast (ip_batchSize prop)"
    by (simp add: image_prop_size_def Let_def foldl_plus_u64 split: if_splits)
  moreover have "p_size prop' = sz"
    using assms(1) v sz by (auto simp: SetImageDescFromImageProp_def Let_def)
  ultimately show "p_size prop' = (\<Sum>i\<leftarrow>[0..<unat (ip_numPlanes prop)]. plane_bytes prop i) *
      ucast (ip_batchSize prop)" by simp
qed

text \<open>The descriptor that results: plane by plane the layout asked for, a plane size of zero
  replaced by the product of stride and height.\<close>

lemma SetImageDescFromImageProp_desc:
  assumes "SetImageDescFromImageProp prop desc = (QC_STATUS_OK, prop', d)"
    and "image_arrays prop" "image_wf desc" "i < unat (ip_numPlanes prop)"
    and "unat (ip_numPlanes prop) \<le> 4"
  shows "i_format d = ip_format prop" "i_batchSize d = ip_batchSize prop"
    "i_width d = ip_width prop" "i_height d = ip_height prop" "i_numPlanes d = ip_numPlanes prop"
    "b_type d = QC_BUFFER_TYPE_IMAGE" "i_stride d ! i = ip_stride prop ! i"
    "i_actualHeight d ! i = ip_actualHeight prop ! i"
    "i_planeBufSize d ! i = (if ip_planeBufSize prop ! i = 0
       then ip_stride prop ! i * ip_actualHeight prop ! i else ip_planeBufSize prop ! i)"
proof -
  have v: "image_prop_valid prop"
    by (rule ccontr) (use assms in \<open>simp add: SetImageDescFromImageProp_def\<close>)
  obtain sz where sz: "image_prop_size prop = Some sz"
    using assms(1) v by (cases "image_prop_size prop") (simp_all add: SetImageDescFromImageProp_def)
  note len = assms(2) [unfolded image_arrays_def] assms(3) [unfolded image_wf_def]
  from assms(1) v sz have d: "d = snd (snd (SetImageDescFromImageProp prop desc))" by simp
  show "i_format d = ip_format prop" "i_batchSize d = ip_batchSize prop"
    "i_width d = ip_width prop" "i_height d = ip_height prop" "i_numPlanes d = ip_numPlanes prop"
    "b_type d = QC_BUFFER_TYPE_IMAGE" "i_stride d ! i = ip_stride prop ! i"
    "i_actualHeight d ! i = ip_actualHeight prop ! i"
    "i_planeBufSize d ! i = (if ip_planeBufSize prop ! i = 0
       then ip_stride prop ! i * ip_actualHeight prop ! i else ip_planeBufSize prop ! i)"
    unfolding d using v sz len assms(4,5)
    by (simp_all add: SetImageDescFromImageProp_def Let_def nth_append)
qed

text \<open>The facts a plane of an accepted layout without wrap-around gives.\<close>

lemma plane_def_ok_nat:
  assumes "plane_def_ok prop i" "image_no_wrap prop" "i < unat (ip_numPlanes prop)"
  shows "unat (ip_width prop) * unat (s_qcFormatToBytesPerPixel ! ip_format prop)
      \<le> unat (ip_stride prop ! i)"
    "unat (ip_height prop) div unat (s_qcFormatToHeightDividerPerPlanes ! ip_format prop ! i)
      \<le> unat (ip_actualHeight prop ! i)"
    "unat (ip_stride prop ! i) * unat (ip_actualHeight prop ! i) \<le> unat (plane_bytes prop i)"
    "unat (plane_bytes prop i) < 2 ^ 32"
    "ip_planeBufSize prop ! i = 0 \<Longrightarrow>
       unat (plane_bytes prop i) = unat (ip_stride prop ! i * ip_actualHeight prop ! i)"
    "ip_planeBufSize prop ! i \<noteq> 0 \<Longrightarrow> unat (plane_bytes prop i) = unat (ip_planeBufSize prop ! i)"
proof -
  let ?s = "ip_stride prop ! i" and ?h = "ip_actualHeight prop ! i"
  have w: "unat (ip_width prop * s_qcFormatToBytesPerPixel ! ip_format prop) =
      unat (ip_width prop) * unat (s_qcFormatToBytesPerPixel ! ip_format prop)"
    by (rule unat_mult_u32) (use assms(2) in \<open>simp add: image_no_wrap_def\<close>)
  have sh: "unat ?s * unat ?h < 2 ^ 32"
    using assms(2,3) by (simp add: image_no_wrap_def)
  then have m: "unat (?s * ?h) = unat ?s * unat ?h" by (rule unat_mult_u32)
  from assms(1) have c: "\<not> ?s < ip_width prop * s_qcFormatToBytesPerPixel ! ip_format prop"
    "\<not> ?h < ip_height prop div s_qcFormatToHeightDividerPerPlanes ! ip_format prop ! i"
    "\<not> (ip_planeBufSize prop ! i \<noteq> 0 \<and> ip_planeBufSize prop ! i < ?s * ?h)"
    by (auto simp: plane_def_ok_def Let_def split: if_splits)
  show "unat (ip_width prop) * unat (s_qcFormatToBytesPerPixel ! ip_format prop) \<le> unat ?s"
    using c(1) w by (simp add: word_less_nat_alt)
  show "unat (ip_height prop) div unat (s_qcFormatToHeightDividerPerPlanes ! ip_format prop ! i)
      \<le> unat ?h"
    using c(2) by (simp add: word_less_nat_alt unat_div_distrib)
  have z: "unat (ucast ?s * ucast ?h :: u64) = unat ?s * unat ?h"
    using sh by (simp add: unat_word_ariths unat_ucast_u64)
  show nz: "unat (plane_bytes prop i) = unat (ip_planeBufSize prop ! i)"
    if "ip_planeBufSize prop ! i \<noteq> 0" using that by (simp add: plane_bytes_def unat_ucast_u64)
  show zz: "unat (plane_bytes prop i) = unat (?s * ?h)"
    if "ip_planeBufSize prop ! i = 0" using that z m by (simp add: plane_bytes_def)
  show "unat ?s * unat ?h \<le> unat (plane_bytes prop i)"
    using nz zz m c(3) by (cases "ip_planeBufSize prop ! i = 0") (auto simp: word_less_nat_alt)
  show "unat (plane_bytes prop i) < 2 ^ 32"
    using nz zz unat_u32_less by (cases "ip_planeBufSize prop ! i = 0") metis+
qed

lemma image_layout_rows:
  assumes "SetImageDescFromImageProp prop desc = (QC_STATUS_OK, prop', d)"
    and "ip_format prop < QC_IMAGE_FORMAT_MAX" "image_arrays prop" "image_wf desc"
    and "image_no_wrap prop"
  shows "i_format d < QC_IMAGE_FORMAT_MAX \<and> (\<forall>i < unat (i_numPlanes d).
      unat (i_width d) * unat (s_qcFormatToBytesPerPixel ! i_format d) \<le> unat (i_stride d ! i) \<and>
      unat (i_height d) div unat (s_qcFormatToHeightDividerPerPlanes ! i_format d ! i)
        \<le> unat (i_actualHeight d ! i) \<and>
      unat (i_stride d ! i) * unat (i_actualHeight d ! i) \<le> unat (i_planeBufSize d ! i)) \<and>
    unat (p_size prop') = (unat (i_batchSize d) *
      (\<Sum>i\<leftarrow>[0..<unat (i_numPlanes d)]. unat (i_planeBufSize d ! i))) mod 2 ^ 64"
proof -
  note ok = SetImageDescFromImageProp_OK [OF assms(1,2)]
  note de = SetImageDescFromImageProp_desc [OF assms(1,3,4) _ ok(3)]
  have "0 < unat (ip_numPlanes prop)"
    using ok(2) num_planes_bounds(2) [OF assms(2)] by simp
  note d0 = de(1-6) [OF this]
  have pl: "unat (i_planeBufSize d ! i) = unat (plane_bytes prop i)" if "i < unat (ip_numPlanes prop)" for i
    using that plane_def_ok_nat(5,6) [OF ok(4) [rule_format, OF that] assms(5) that] de(9) [OF that]
    by (cases "ip_planeBufSize prop ! i = 0") auto
  have e: "plane_bytes prop i = of_nat (unat (i_planeBufSize d ! i))"
    if "i < unat (ip_numPlanes prop)" for i
    using pl [OF that] by simp
  have sum: "(\<Sum>i\<leftarrow>[0..<unat (ip_numPlanes prop)]. plane_bytes prop i) =
      of_nat (\<Sum>i\<leftarrow>[0..<unat (ip_numPlanes prop)]. unat (i_planeBufSize d ! i))"
    unfolding unat_sum_upt [symmetric] by (intro arg_cong [where f = sum_list] map_cong) (simp_all add: e)
  have "unat (p_size prop') = (unat (i_batchSize d) *
      (\<Sum>i\<leftarrow>[0..<unat (i_numPlanes d)]. unat (i_planeBufSize d ! i))) mod 2 ^ 64"
    unfolding ok(5) sum d0
    by (simp add: unat_word_ariths unat_ucast_u64 unat_of_nat mod_mult_left_eq mod_mult_right_eq mult.commute)
  moreover have "unat (i_width d) * unat (s_qcFormatToBytesPerPixel ! i_format d) \<le> unat (i_stride d ! i) \<and>
      unat (i_height d) div unat (s_qcFormatToHeightDividerPerPlanes ! i_format d ! i)
        \<le> unat (i_actualHeight d ! i) \<and>
      unat (i_stride d ! i) * unat (i_actualHeight d ! i) \<le> unat (i_planeBufSize d ! i)"
    if "i < unat (i_numPlanes d)" for i
    using that plane_def_ok_nat(1-3) [OF ok(4) [rule_format] assms(5), of i]
    by (simp add: d0 de(7,8) pl)
  moreover have "i_format d < QC_IMAGE_FORMAT_MAX" using assms(2) by (simp add: d0)
  ultimately show ?thesis by simp
qed

text \<open>C22: an accepted layout is large enough. For an uncompressed format whose layout check does
  not wrap, every plane
  of the resulting descriptor has rows of the image's width, the rows of the image's height, and a
  size that holds them, and the size asked for is the batch size times the sum of the plane sizes,
  modulo \<open>2 ^ 64\<close>. For a compressed format there is one plane, of a size that is not zero, and the
  size asked for is that of the plane alone: neither its stride and height nor the batch size are
  looked at.\<close>

theorem image_prop_layout:
  assumes "SetImageDescFromImageProp prop desc = (QC_STATUS_OK, prop', d)"
    and "image_arrays prop" "image_wf desc"
    and "ip_format prop < QC_IMAGE_FORMAT_MAX \<Longrightarrow> image_no_wrap prop"
  shows "if i_format d < QC_IMAGE_FORMAT_MAX
    then (\<forall>i < unat (i_numPlanes d).
        unat (i_width d) * unat (s_qcFormatToBytesPerPixel ! i_format d) \<le> unat (i_stride d ! i) \<and>
        unat (i_height d) div unat (s_qcFormatToHeightDividerPerPlanes ! i_format d ! i)
          \<le> unat (i_actualHeight d ! i) \<and>
        unat (i_stride d ! i) * unat (i_actualHeight d ! i) \<le> unat (i_planeBufSize d ! i)) \<and>
      unat (p_size prop') = (unat (i_batchSize d) *
        (\<Sum>i\<leftarrow>[0..<unat (i_numPlanes d)]. unat (i_planeBufSize d ! i))) mod 2 ^ 64
    else i_format d \<in> {QC_IMAGE_FORMAT_COMPRESSED_H264, QC_IMAGE_FORMAT_COMPRESSED_H265} \<and>
      i_numPlanes d = 1 \<and> i_planeBufSize d ! 0 \<noteq> 0 \<and>
      unat (p_size prop') = unat (i_planeBufSize d ! 0)"
proof (cases "ip_format prop < QC_IMAGE_FORMAT_MAX")
  case False
  have v: "image_prop_valid prop"
    by (rule ccontr) (use assms(1) in \<open>simp add: SetImageDescFromImageProp_def\<close>)
  with False have n: "ip_numPlanes prop = 1" "ip_planeBufSize prop ! 0 \<noteq> 0"
    "ip_format prop = 100 \<or> ip_format prop = 101"
    by (auto simp: image_prop_valid_def split: if_splits)
  then have "0 < unat (ip_numPlanes prop)" "unat (ip_numPlanes prop) \<le> 4" by simp_all
  note de = SetImageDescFromImageProp_desc [OF assms(1-3) this]
  have "p_size prop' = ucast (ip_planeBufSize prop ! 0)"
    using assms(1) v False by (auto simp: SetImageDescFromImageProp_def Let_def image_prop_size_def)
  with de n show ?thesis by (auto simp: unat_ucast_u64)
next
  case True
  with image_layout_rows [OF assms(1) True assms(2,3) assms(4) [OF True]] show ?thesis by simp
qed

definition demo_nv12_props :: "u32 \<Rightarrow> ImageProps" where
  "demo_nv12_props w = ImageBasicProps.extend
     (ImageBasicProps_new 1 w 8 QC_IMAGE_FORMAT_NV12 QC_MEMORY_ALLOCATOR_HEAP QC_CACHEABLE)
     \<lparr>ip_stride = [w, w, 0, 0], ip_actualHeight = [8, 4, 0, 0],
      ip_planeBufSize = [8 * w, 0, 0, 0], ip_numPlanes = 2\<rparr>"

lemmas demo_props_defs = demo_nv12_props_def ImageBasicProps.defs ImageBasicProps_new_def
  BufferProps.defs BufferProps_new_def BufferProps_init_def

lemma upt_2: "[0..<2] = [0, Suc 0]"
  by (simp add: upt_rec)

lemma demo_nv12_ok:
  "fst (SetImageDescFromImageProp (demo_nv12_props 8) desc) = QC_STATUS_OK"
  "image_arrays (demo_nv12_props 8)" "image_no_wrap (demo_nv12_props 8)"
  "ip_format (demo_nv12_props 8) = QC_IMAGE_FORMAT_NV12"
  by (simp_all add: SetImageDescFromImageProp_def image_prop_valid_def image_prop_size_def
      demo_props_defs image_arrays_def image_no_wrap_def s_qcFormatToNumPlanes_def plane_def_ok_def
      s_qcFormatToBytesPerPixel_def s_qcFormatToHeightDividerPerPlanes_def Let_def upt_2
      word_less_nat_alt unat_div_distrib less_2_cases_iff)

theorem image_prop_layout_witness:
  "\<exists>prop' d. SetImageDescFromImageProp (demo_nv12_props 8) ImageDescriptor_init =
       (QC_STATUS_OK, prop', d) \<and> unat (p_size prop') = 96"
proof -
  obtain st prop' d where r: "SetImageDescFromImageProp (demo_nv12_props 8) ImageDescriptor_init =
      (st, prop', d)" by (metis prod_cases3)
  with demo_nv12_ok(1) [of ImageDescriptor_init] have st: "st = QC_STATUS_OK" by simp
  note r' = r [unfolded st]
  have n: "unat (ip_numPlanes (demo_nv12_props 8)) = 2" by (simp add: demo_props_defs)
  note de = SetImageDescFromImageProp_desc [OF r' demo_nv12_ok(2) init_image_wf]
  have 0: "i_planeBufSize d ! 0 = 64" "i_numPlanes d = 2" "i_batchSize d = 1"
    using de(2,5,9) [of 0] n by (simp_all add: demo_props_defs)
  have 1: "i_planeBufSize d ! 1 = 32" using de(9) [of 1] n by (simp add: demo_props_defs)
  have "i_format d = QC_IMAGE_FORMAT_NV12" using de(1) [of 0] n by (simp add: demo_nv12_ok(4))
  with image_prop_layout [OF r' demo_nv12_ok(2) init_image_wf demo_nv12_ok(3)] 0 1
  have "unat (p_size prop') = 96" by (simp add: upt_2)
  with r' show ?thesis by blast
qed

text \<open>C23: the layout check can be passed by a plane that is too small. It multiplies stride and height
  in 32 bits, so a single-plane image whose product is \<open>2 ^ 32\<close> or more is accepted with a plane size
  that only covers the product modulo \<open>2 ^ 32\<close>, and the size it computes is that of the plane: less
  than its rows need.\<close>

theorem image_prop_wrap_accepted:
  assumes "ip_batchSize prop = 1" "ip_width prop \<noteq> 0" "ip_height prop \<noteq> 0"
    and "ip_format prop = QC_IMAGE_FORMAT_RGB888" "ip_numPlanes prop = 1"
    and "ip_width prop * 3 \<le> ip_stride prop ! 0" "ip_height prop \<le> ip_actualHeight prop ! 0"
    and "2 ^ 32 \<le> unat (ip_stride prop ! 0) * unat (ip_actualHeight prop ! 0)"
    and "ip_planeBufSize prop ! 0 \<noteq> 0"
    and "unat (ip_stride prop ! 0) * unat (ip_actualHeight prop ! 0) mod 2 ^ 32
        \<le> unat (ip_planeBufSize prop ! 0)"
  shows "\<exists>prop' d. SetImageDescFromImageProp prop desc = (QC_STATUS_OK, prop', d) \<and>
    unat (p_size prop') < unat (ip_stride prop ! 0) * unat (ip_actualHeight prop ! 0)"
proof -
  have v: "image_prop_valid prop"
    using assms(1-5) by (simp add: image_prop_valid_def s_qcFormatToNumPlanes_def)
  have "ip_stride prop ! 0 * ip_actualHeight prop ! 0 \<le> ip_planeBufSize prop ! 0"
    using assms(10) by (simp add: word_le_nat_alt unat_word_ariths)
  then have p: "plane_def_ok prop 0"
    using assms(4,6,7,9) by (simp add: plane_def_ok_def Let_def s_qcFormatToBytesPerPixel_def
        s_qcFormatToHeightDividerPerPlanes_def not_less)
  have "[0..<unat (1 :: u32)] = [0]" by simp
  then have sz: "image_prop_size prop = Some (ucast (ip_planeBufSize prop ! 0))"
    using p assms(1,4,5,9) by (simp add: image_prop_size_def Let_def plane_bytes_def)
  obtain d where "SetImageDescFromImageProp prop desc =
      (QC_STATUS_OK, prop\<lparr>p_size := ucast (ip_planeBufSize prop ! 0)\<rparr>, d)"
    using v sz by (simp add: SetImageDescFromImageProp_def Let_def)
  moreover have "unat (p_size (prop\<lparr>p_size := ucast (ip_planeBufSize prop ! 0)\<rparr>)) <
      unat (ip_stride prop ! 0) * unat (ip_actualHeight prop ! 0)"
    using assms(8) unat_u32_less [of "ip_planeBufSize prop ! 0"] by (simp add: unat_ucast_u64)
  ultimately show ?thesis by blast
qed

definition demo_wide_props :: ImageProps where
  "demo_wide_props = ImageBasicProps.extend
     (ImageBasicProps_new 1 16 16 QC_IMAGE_FORMAT_RGB888 QC_MEMORY_ALLOCATOR_HEAP QC_CACHEABLE)
     \<lparr>ip_stride = [0x10000, 0, 0, 0], ip_actualHeight = [0x10000, 0, 0, 0],
      ip_planeBufSize = [1, 0, 0, 0], ip_numPlanes = 1\<rparr>"

theorem image_prop_wrap_accepted_witness:
  "\<exists>prop' d. SetImageDescFromImageProp demo_wide_props ImageDescriptor_init =
     (QC_STATUS_OK, prop', d) \<and> unat (p_size prop') < 0x100000000"
  using image_prop_wrap_accepted [of demo_wide_props ImageDescriptor_init]
  by (simp add: demo_wide_props_def demo_props_defs word_le_nat_alt)

subsection \<open>Luma and chroma\<close>

lemma ImageToLumaChroma_OK:
  assumes "ImageToLumaChroma this l c = (QC_STATUS_OK, l', c')" "tensor_wf l" "tensor_wf c"
  defines "bpp \<equiv> image_s_qcFormatToBytesPerPixel ! i_format this"
  shows "i_format this = QC_IMAGE_FORMAT_NV12 \<or> i_format this = QC_IMAGE_FORMAT_P010"
    "i_stride this ! 0 = i_width this * bpp" "\<not> 1 < i_batchSize this"
    "even (unat (i_height this))" "even (unat (i_width this))"
    "offset l' = offset this" "offset c' = offset this + ucast (i_planeBufSize this ! 0)"
    "validSize l' = ucast (i_height this) * ucast (i_width this) * ucast bpp"
    "validSize c' = ucast (i_height this) * ucast (i_width this) * ucast bpp div 2"
    "take (unat (t_numDims l')) (t_dims l') = [1, i_height this, i_width this, 1]"
    "take (unat (t_numDims c')) (t_dims c') = [1, i_height this div 2, i_width this div 2, 2]"
    "t_tensorType l' = (if i_format this = QC_IMAGE_FORMAT_NV12 then QC_TENSOR_TYPE_UFIXED_POINT_8
       else QC_TENSOR_TYPE_UFIXED_POINT_16)" "t_tensorType c' = t_tensorType l'"
    "pBuf l' = pBuf this" "pBuf c' = pBuf this"
proof -
  have k: "luma_chroma_check this = QC_STATUS_OK"
    by (rule ccontr) (use assms(1) in \<open>simp add: ImageToLumaChroma_def Let_def\<close>)
  then show "i_format this = QC_IMAGE_FORMAT_NV12 \<or> i_format this = QC_IMAGE_FORMAT_P010"
    "i_stride this ! 0 = i_width this * bpp" "\<not> 1 < i_batchSize this"
    "even (unat (i_height this))" "even (unat (i_width this))"
    by (auto simp: luma_chroma_check_def bpp_def word_and_1_iff split: if_splits)
  have four: "take 4 (xs[0 := a1, Suc 0 := a2, 2 := a3, 3 := a4]) = [a1, a2, a3, a4]"
    if "length xs = QC_NUM_TENSOR_DIMS" for xs :: "u32 list" and a1 a2 a3 a4
    using that by (intro nth_equalityI) (auto simp: nth_list_update numeral_eq_Suc less_Suc_eq)
  have wf: "length (t_dims (TensorDescriptor_assign_buffer l this)) = QC_NUM_TENSOR_DIMS"
    "length (t_dims (TensorDescriptor_assign_buffer c this)) = QC_NUM_TENSOR_DIMS"
    using assms(2,3) by (simp_all flip: tensor_wf_def)
  from assms(1) have e: "l' = fst (snd (ImageToLumaChroma this l c))"
    "c' = snd (snd (ImageToLumaChroma this l c))" by simp_all
  show "offset l' = offset this" "offset c' = offset this + ucast (i_planeBufSize this ! 0)"
    "validSize l' = ucast (i_height this) * ucast (i_width this) * ucast bpp"
    "validSize c' = ucast (i_height this) * ucast (i_width this) * ucast bpp div 2"
    "take (unat (t_numDims l')) (t_dims l') = [1, i_height this, i_width this, 1]"
    "take (unat (t_numDims c')) (t_dims c') = [1, i_height this div 2, i_width this div 2, 2]"
    "t_tensorType l' = (if i_format this = QC_IMAGE_FORMAT_NV12 then QC_TENSOR_TYPE_UFIXED_POINT_8
       else QC_TENSOR_TYPE_UFIXED_POINT_16)" "t_tensorType c' = t_tensorType l'"
    "pBuf l' = pBuf this" "pBuf c' = pBuf this"
    unfolding e using k wf
    by (simp_all add: ImageToLumaChroma_def Let_def set_dims4_def four bpp_def
        TensorDescriptor_assign_buffer_def BufferDescriptor_assign_def)
qed

text \<open>C24: the luma and chroma views of an image lie inside it. For a buffer of the size computed for
  an accepted two-plane layout without wrap-around, the luma tensor's data is as large as its
  dimensions say and ends before the chroma tensor's starts, and the chroma tensor's data is as large
  as its dimensions say and ends within the buffer.\<close>

theorem luma_chroma_within_image:
  assumes "SetImageDescFromImageProp prop desc = (QC_STATUS_OK, prop', d)"
    and "image_arrays prop" "image_wf desc" "image_no_wrap prop"
    and "ImageToLumaChroma (d\<lparr>pBuf := a, b_size := p_size prop'\<rparr>) l c = (QC_STATUS_OK, l', c')"
    and "tensor_wf l" "tensor_wf c"
  shows "unat (validSize l') = prod_list (map unat (take (unat (t_numDims l')) (t_dims l'))) *
      unat (s_qcTensorTypeToDataSize ! t_tensorType l') \<and>
    unat (validSize c') = prod_list (map unat (take (unat (t_numDims c')) (t_dims c'))) *
      unat (s_qcTensorTypeToDataSize ! t_tensorType c') \<and>
    offset l' = offset d \<and> offset c' = offset d + ucast (i_planeBufSize d ! 0) \<and>
    unat (validSize l') \<le> unat (i_planeBufSize d ! 0) \<and>
    unat (i_planeBufSize d ! 0) + unat (validSize c') \<le> unat (p_size prop')"
proof -
  let ?img = "d\<lparr>pBuf := a, b_size := p_size prop'\<rparr>"
  note v = ImageToLumaChroma_OK [OF assms(5-7)]
  have fmt: "i_format d = QC_IMAGE_FORMAT_NV12 \<or> i_format d = QC_IMAGE_FORMAT_P010"
    using v(1) by simp
  have "image_prop_valid prop"
    by (rule ccontr) (use assms(1) in \<open>simp add: SetImageDescFromImageProp_def\<close>)
  then have b0: "ip_batchSize prop \<noteq> 0" by (auto simp: image_prop_valid_def)
  have fd: "i_format d = ip_format prop"
    using assms(1) by (auto simp: SetImageDescFromImageProp_def Let_def split: if_splits option.splits)
  with fmt have ft: "ip_format prop < QC_IMAGE_FORMAT_MAX" by auto
  note ok = SetImageDescFromImageProp_OK [OF assms(1) ft]
  note de = SetImageDescFromImageProp_desc [OF assms(1-3) _ ok(3)]
  let ?bpp = "unat (image_s_qcFormatToBytesPerPixel ! i_format d)"
  have n: "unat (i_numPlanes d) = 2" "unat (ip_numPlanes prop) = 2"
    using ok(2) fmt fd de(5) [of 0] by (auto simp: s_qcFormatToNumPlanes_def)
  have tables: "s_qcFormatToBytesPerPixel ! i_format d = image_s_qcFormatToBytesPerPixel ! i_format d"
    "unat (s_qcFormatToHeightDividerPerPlanes ! i_format d ! 0) = 1"
    "unat (s_qcFormatToHeightDividerPerPlanes ! i_format d ! 1) = 2"
    "unat (s_qcTensorTypeToDataSize ! t_tensorType l') = ?bpp" "?bpp = 1 \<or> ?bpp = 2"
    using fmt v(12) by (auto simp: s_qcFormatToBytesPerPixel_def image_s_qcFormatToBytesPerPixel_def
        s_qcFormatToHeightDividerPerPlanes_def s_qcTensorTypeToDataSize_def)
  have "\<not> 1 < i_batchSize d" using v(3) by simp
  with b0 have b1: "unat (i_batchSize d) = 1"
    using de(2) [of 0] n by (simp add: word_less_nat_alt unat_eq_zero [symmetric])
  define w h where "w = unat (i_width d)" and "h = unat (i_height d)"
  note lay = image_layout_rows [OF assms(1) ft assms(2,3,4), THEN conjunct2]
  have p0: "w * ?bpp \<le> unat (i_stride d ! 0)" "h \<le> unat (i_actualHeight d ! 0)"
    "unat (i_stride d ! 0) * unat (i_actualHeight d ! 0) \<le> unat (i_planeBufSize d ! 0)"
    and p1: "w * ?bpp \<le> unat (i_stride d ! 1)" "h div 2 \<le> unat (i_actualHeight d ! 1)"
    "unat (i_stride d ! 1) * unat (i_actualHeight d ! 1) \<le> unat (i_planeBufSize d ! 1)"
    using lay [THEN conjunct1, rule_format, of 0] lay [THEN conjunct1, rule_format, of 1]
    by (simp_all add: n(1) tables(1,2) tables(3) [simplified] w_def h_def)
  have sz: "unat (p_size prop') = unat (i_planeBufSize d ! 0) + unat (i_planeBufSize d ! 1)"
    using lay [THEN conjunct2] unat_u32_less [of "i_planeBufSize d ! 0"]
      unat_u32_less [of "i_planeBufSize d ! 1"] by (simp add: n(1) b1 upt_2)
  have whole: "w * ?bpp * h \<le> unat (i_planeBufSize d ! 0)"
    using mult_le_mono [OF p0(1,2)] p0(3) by simp
  have half: "w * ?bpp * (h div 2) \<le> unat (i_planeBufSize d ! 1)"
    using mult_le_mono [OF p1(1,2)] p1(3) by simp
  have "h * w * ?bpp < 2 ^ 64"
    using whole unat_u32_less [of "i_planeBufSize d ! 0"] by (simp add: mult.commute mult.left_commute)
  then have bytes: "unat (ucast (i_height d) * ucast (i_width d) *
      ucast (image_s_qcFormatToBytesPerPixel ! i_format d) :: u64) = h * w * ?bpp"
    by (simp add: unat_word_ariths unat_ucast_u64 mod_mult_left_eq w_def h_def)
  obtain h2 w2 where hw: "h = 2 * h2" "w = 2 * w2"
    using v(4,5) by (auto simp: w_def h_def elim!: evenE)
  have vl: "unat (validSize l') = h * w * ?bpp" using v(8) bytes by simp
  have vc: "unat (validSize c') = h2 * w * ?bpp"
    using v(9) bytes hw(1) by (simp add: unat_div_distrib)
  have "unat (i_height d div 2) = h2" "unat (i_width d div 2) = w2"
    using hw by (simp_all add: unat_div_distrib w_def h_def)
  then have dims: "prod_list (map unat (take (unat (t_numDims l')) (t_dims l'))) = h * w"
    "prod_list (map unat (take (unat (t_numDims c')) (t_dims c'))) = h2 * w"
    unfolding v(10,11) by (simp_all add: w_def [symmetric] h_def [symmetric] hw(2))
  have l: "unat (validSize l') \<le> unat (i_planeBufSize d ! 0)"
    using whole vl by (simp add: mult.commute mult.left_commute)
  have c: "unat (validSize c') \<le> unat (i_planeBufSize d ! 1)"
    using half vc hw(1) by (simp add: mult.commute mult.left_commute)
  show ?thesis
    using vl vc dims tables(4) v(6,7,13) l c sz by simp
qed

lemma demo_tensor_wf: "tensor_wf demo_tensor"
  by (simp add: tensor_wf_def demo_tensor_def BufferDescriptor.defs)

theorem luma_chroma_within_image_witness:
  "\<exists>prop' d l' c'. SetImageDescFromImageProp (demo_nv12_props 8) ImageDescriptor_init =
       (QC_STATUS_OK, prop', d) \<and>
     ImageToLumaChroma (d\<lparr>pBuf := 4096, b_size := p_size prop'\<rparr>) demo_tensor demo_tensor =
       (QC_STATUS_OK, l', c') \<and>
     unat (i_planeBufSize d ! 0) + unat (validSize c') \<le> unat (p_size prop')"
proof -
  obtain st prop' d where r: "SetImageDescFromImageProp (demo_nv12_props 8) ImageDescriptor_init =
      (st, prop', d)" by (metis prod_cases3)
  with demo_nv12_ok(1) [of ImageDescriptor_init] have st: "st = QC_STATUS_OK" by simp
  note r' = r [unfolded st]
  have n: "unat (ip_numPlanes (demo_nv12_props 8)) = 2" by (simp add: demo_props_defs)
  note de = SetImageDescFromImageProp_desc [OF r' demo_nv12_ok(2) init_image_wf, of 0, unfolded n]
  let ?img = "d\<lparr>pBuf := 4096, b_size := p_size prop'\<rparr>"
  obtain s2 l' c' where i: "ImageToLumaChroma ?img demo_tensor demo_tensor = (s2, l', c')"
    by (metis prod_cases3)
  have "luma_chroma_check ?img = QC_STATUS_OK"
    using de by (simp add: luma_chroma_check_def demo_props_defs image_s_qcFormatToBytesPerPixel_def
        word_and_1_iff)
  with i have "s2 = QC_STATUS_OK" by (auto simp: ImageToLumaChroma_def Let_def)
  with i have i': "ImageToLumaChroma ?img demo_tensor demo_tensor = (QC_STATUS_OK, l', c')" by simp
  from luma_chroma_within_image [OF r' demo_nv12_ok(2) init_image_wf demo_nv12_ok(3) i'
      demo_tensor_wf demo_tensor_wf] r' i'
  show ?thesis by blast
qed

subsection \<open>The images of a batch\<close>

text \<open>C25: a view of a batch. It is given exactly for an allocated image and a range of images within
  the batch. It covers the images asked for, stays within the buffer, and two views of ranges that do
  not overlap do not overlap.\<close>

theorem batch_view_within_image:
  assumes "unat (offset this) + unat (b_size this) < 2 ^ 64"
    and "GetImageDesc this out o1 n1 = (s, v)"
  shows "(s = QC_STATUS_OK \<longleftrightarrow> pBuf this \<noteq> nullptr \<and> b_type this = QC_BUFFER_TYPE_IMAGE \<and>
      unat o1 < unat (i_batchSize this) \<and> unat o1 + unat n1 \<le> unat (i_batchSize this)) \<and>
    (s = QC_STATUS_OK \<longrightarrow>
      unat (offset v) = unat (offset this) + unat o1 * (unat (b_size this) div unat (i_batchSize this)) \<and>
      unat (validSize v) = unat n1 * (unat (b_size this) div unat (i_batchSize this)) \<and>
      unat (offset v) + unat (validSize v) \<le> unat (offset this) + unat (b_size this) \<and>
      (\<forall>out' o2 n2 v'. GetImageDesc this out' o2 n2 = (QC_STATUS_OK, v') \<longrightarrow>
         unat o1 + unat n1 \<le> unat o2 \<longrightarrow>
         unat (offset v) + unat (validSize v) \<le> unat (offset (v' :: ImageDescriptor))))"
proof -
  let ?B = "unat (i_batchSize this)" and ?S = "unat (b_size this)"
  let ?q = "?S div ?B"
  have view: "unat o2 < ?B \<and> unat o2 + unat n2 \<le> ?B \<and>
      unat (offset v2) = unat (offset this) + unat o2 * ?q \<and> unat (validSize v2) = unat n2 * ?q \<and>
      unat (offset v2) + unat (validSize v2) \<le> unat (offset this) + ?S"
    if g: "GetImageDesc this out2 o2 n2 = (QC_STATUS_OK, v2)"
    for out2 v2 :: "'z ImageDescriptor_scheme" and o2 n2
  proof -
    define Q where "Q = b_size this div ucast (i_batchSize this)"
    from g have r: "\<not> i_batchSize this \<le> o2" "\<not> i_batchSize this - o2 < n2"
      and e: "validSize v2 = ucast n2 * Q" "offset v2 = offset this + ucast o2 * Q"
      by (auto simp: GetImageDesc_def Let_def Q_def split: if_splits)
    from r have b: "unat o2 < ?B" "unat o2 + unat n2 \<le> ?B"
      by (simp_all add: word_less_nat_alt word_le_nat_alt unat_sub not_less)
    have q: "unat Q = ?q"
      by (simp add: Q_def unat_div_distrib unat_ucast_u64)
    have fits: "k * ?q \<le> ?S" if "k \<le> ?B" for k
    proof -
      have "k * ?q \<le> ?B * ?q" using that by (rule mult_le_mono1)
      also have "\<dots> \<le> ?S" by simp
      finally show ?thesis .
    qed
    have ob: "unat o2 * ?q + unat n2 * ?q \<le> ?S" using fits [OF b(2)] by (simp add: add_mult_distrib)
    then have "unat n2 * ?q < 2 ^ 64" "unat (offset this) + unat o2 * ?q < 2 ^ 64"
      using assms(1) by linarith+
    then have "unat (validSize v2) = unat n2 * ?q" "unat (offset v2) = unat (offset this) + unat o2 * ?q"
      by (simp_all add: e unat_word_ariths unat_ucast_u64 q mod_add_right_eq)
    with b ob show ?thesis by simp
  qed
  have iff: "s = QC_STATUS_OK \<longleftrightarrow> pBuf this \<noteq> nullptr \<and> b_type this = QC_BUFFER_TYPE_IMAGE \<and>
      unat o1 < ?B \<and> unat o1 + unat n1 \<le> ?B"
    using assms(2) by (auto simp: GetImageDesc_def Let_def word_less_nat_alt word_le_nat_alt unat_sub
        split: if_splits)
  show ?thesis
  proof (rule conjI [OF iff], intro impI)
    assume "s = QC_STATUS_OK"
    note v1 = view [OF assms(2) [unfolded this]]
    have "unat (offset v) + unat (validSize v) \<le> unat (offset v')"
      if "GetImageDesc this out' o2 n2 = (QC_STATUS_OK, v')" "unat o1 + unat n1 \<le> unat o2"
      for out' o2 n2 and v' :: ImageDescriptor
      using v1 view [OF that(1)] mult_le_mono1 [OF that(2), of ?q] by (simp add: add_mult_distrib)
    with v1 show "unat (offset v) = unat (offset this) + unat o1 * ?q \<and>
      unat (validSize v) = unat n1 * ?q \<and>
      unat (offset v) + unat (validSize v) \<le> unat (offset this) + ?S \<and>
      (\<forall>out' o2 n2 v'. GetImageDesc this out' o2 n2 = (QC_STATUS_OK, v') \<longrightarrow>
         unat o1 + unat n1 \<le> unat o2 \<longrightarrow>
         unat (offset v) + unat (validSize v) \<le> unat (offset (v' :: ImageDescriptor)))" by blast
  qed
qed

theorem batch_view_within_image_witness:
  "unat (offset (snd (GetImageDesc ((demo_image 2)\<lparr>i_batchSize := 3\<rparr>) ImageDescriptor_init 1 2))) = 32"
proof -
  let ?i = "(demo_image 2)\<lparr>i_batchSize := 3\<rparr>"
  obtain s v where r: "GetImageDesc ?i ImageDescriptor_init 1 2 = (s, v)" by fastforce
  have "unat (offset ?i) + unat (b_size ?i) < 2 ^ 64"
    by (simp add: demo_image_def ImageDescriptor_init_def BufferDescriptor_init_def
        QCBufferDescriptorBase.defs BufferDescriptor.defs)
  from batch_view_within_image [OF this r] have "unat (offset v) = 32"
    by (simp add: demo_image_def ImageDescriptor_init_def BufferDescriptor_init_def
        QCBufferDescriptorBase.defs BufferDescriptor.defs)
  with r show ?thesis by simp
qed

subsection \<open>The two ways to lay an image out\<close>

abbreviation plane_total :: "PlaneDef \<Rightarrow> u32" where
  "plane_total q \<equiv> nPlaneBufSize q + nPlanePaddingSize q"

lemma basic_planes_OK:
  assumes "\<forall>i \<in> set idx. query (i + 1) = Some (pl i)"
  shows "basic_planes query idx (desc, size') =
    (QC_STATUS_OK,
     desc\<lparr>i_stride := fold (\<lambda>i xs. xs[i := nActualStride (pl i)]) idx (i_stride desc),
       i_actualHeight := fold (\<lambda>i xs. xs[i := nActualPlaneBufHeight (pl i)]) idx (i_actualHeight desc),
       i_planeBufSize := fold (\<lambda>i xs. xs[i := plane_total (pl i)]) idx (i_planeBufSize desc)\<rparr>,
     size' + (\<Sum>i\<leftarrow>idx. ucast (plane_total (pl i))))"
  using assms by (induction idx arbitrary: desc size') (simp_all add: Let_def add.assoc)

lemma fold_update_upt:
  "n \<le> length xs \<Longrightarrow> fold (\<lambda>i xs. xs[i := f i]) [0..<n] xs = map f [0..<n] @ drop n xs"
proof (induction n)
  case 0
  then show ?case by simp
next
  case (Suc n)
  then have "drop n xs = xs ! n # drop (Suc n) xs" by (simp add: Cons_nth_drop_Suc)
  with Suc show ?case by (simp add: list_update_append)
qed

lemma basic_planes_answered:
  "basic_planes query idx acc = (QC_STATUS_OK, r) \<Longrightarrow>
     \<forall>i \<in> set idx. query (i + 1) = Some (the (query (i + 1)))"
  by (induction idx arbitrary: acc) (auto simp: Let_def split: option.splits)

text \<open>The descriptor and the size that come of the platform's answers.\<close>

definition platform_planes ::
  "pd_lib \<Rightarrow> ImageBasicProps \<Rightarrow> nat \<Rightarrow> PlaneDef" where
  "platform_planes pd prop i = the (PDQueryPlaneDef pd (s_qcFormatToApdfFormat ! ip_format prop)
     (image_usage pd (ip_format prop)) (ip_width prop) (ip_height prop) (i + 1))"

lemma SetImageDescFromImageBasicProp_OK:
  assumes "SetImageDescFromImageBasicProp pd prop desc = (QC_STATUS_OK, prop1, d)" "image_wf desc"
  defines "n \<equiv> unat (i_numPlanes d)" and "pl \<equiv> platform_planes pd prop"
  shows "ip_batchSize prop \<noteq> 0" "ip_width prop \<noteq> 0" "ip_height prop \<noteq> 0"
    "ip_format prop < QC_IMAGE_FORMAT_MAX" "n \<le> 4"
    "d = desc\<lparr>i_format := ip_format prop, i_batchSize := ip_batchSize prop, i_width := ip_width prop,
      i_height := ip_height prop, i_numPlanes := i_numPlanes d,
      i_stride := map (nActualStride \<circ> pl) [0..<n] @ drop n (i_stride desc),
      i_actualHeight := map (nActualPlaneBufHeight \<circ> pl) [0..<n] @ drop n (i_actualHeight desc),
      i_planeBufSize := map (\<lambda>i. plane_total (pl i)) [0..<n] @ drop n (i_planeBufSize desc),
      b_type := QC_BUFFER_TYPE_IMAGE\<rparr>"
    "p_size prop1 = (\<Sum>i\<leftarrow>[0..<n]. ucast (plane_total (pl i))) * ucast (ip_batchSize prop)"
proof -
  let ?q = "PDQueryPlaneDef pd (s_qcFormatToApdfFormat ! ip_format prop)
    (image_usage pd (ip_format prop)) (ip_width prop) (ip_height prop)"
  show g: "ip_batchSize prop \<noteq> 0" "ip_width prop \<noteq> 0" "ip_height prop \<noteq> 0"
    "ip_format prop < QC_IMAGE_FORMAT_MAX"
    using assms(1) by (auto simp: SetImageDescFromImageBasicProp_def not_less split: if_splits)
  from assms(1) g obtain np desc2 sz where np: "np \<le> of_nat QC_NUM_IMAGE_PLANES"
    "basic_planes ?q [0..<unat np] (desc\<lparr>i_format := ip_format prop, i_batchSize := ip_batchSize prop,
       i_width := ip_width prop, i_height := ip_height prop, i_numPlanes := np\<rparr>, 0) =
     (QC_STATUS_OK, desc2, sz)"
    and p1: "prop1 = prop\<lparr>p_size := sz * ucast (ip_batchSize prop)\<rparr>"
    and d: "d = desc2\<lparr>b_type := QC_BUFFER_TYPE_IMAGE\<rparr>"
    by (auto simp: SetImageDescFromImageBasicProp_def Let_def not_less
        split: option.splits if_splits prod.splits)
  have len: "length (i_stride desc) = 4" "length (i_actualHeight desc) = 4"
    "length (i_planeBufSize desc) = 4" using assms(2) by (simp_all add: image_wf_def)
  have le: "unat np \<le> 4" using np(1) by (simp add: word_le_nat_alt)
  have "\<forall>i \<in> set [0..<unat np]. ?q (i + 1) = Some (pl i)"
    using basic_planes_answered [OF np(2)] by (simp add: pl_def platform_planes_def)
  from basic_planes_OK [OF this] np(2) le len have
    d2: "desc2 = desc\<lparr>i_format := ip_format prop, i_batchSize := ip_batchSize prop,
       i_width := ip_width prop, i_height := ip_height prop, i_numPlanes := np,
       i_stride := map (nActualStride \<circ> pl) [0..<unat np] @ drop (unat np) (i_stride desc),
       i_actualHeight := map (nActualPlaneBufHeight \<circ> pl) [0..<unat np] @
         drop (unat np) (i_actualHeight desc),
       i_planeBufSize := map (\<lambda>i. plane_total (pl i)) [0..<unat np] @
         drop (unat np) (i_planeBufSize desc)\<rparr>"
    and sz: "sz = (\<Sum>i\<leftarrow>[0..<unat np]. ucast (plane_total (pl i)))"
    by (simp_all add: fold_update_upt comp_def)
  have n: "n = unat np" by (simp add: n_def d d2)
  show "n \<le> 4" using le by (simp add: n)
  show "d = desc\<lparr>i_format := ip_format prop, i_batchSize := ip_batchSize prop, i_width := ip_width prop,
      i_height := ip_height prop, i_numPlanes := i_numPlanes d,
      i_stride := map (nActualStride \<circ> pl) [0..<n] @ drop n (i_stride desc),
      i_actualHeight := map (nActualPlaneBufHeight \<circ> pl) [0..<n] @ drop n (i_actualHeight desc),
      i_planeBufSize := map (\<lambda>i. plane_total (pl i)) [0..<n] @ drop n (i_planeBufSize desc),
      b_type := QC_BUFFER_TYPE_IMAGE\<rparr>"
    unfolding n by (simp add: d d2)
  show "p_size prop1 = (\<Sum>i\<leftarrow>[0..<n]. ucast (plane_total (pl i))) * ucast (ip_batchSize prop)"
    by (simp add: p1 sz n)
qed

text \<open>The image described explicitly with the layout of an image descriptor.\<close>

definition explicit_props :: "ImageBasicProps \<Rightarrow> ImageDescriptor \<Rightarrow> ImageProps" where
  "explicit_props prop d = ImageBasicProps.extend prop
     \<lparr>ip_stride = i_stride d, ip_actualHeight = i_actualHeight d,
      ip_planeBufSize = i_planeBufSize d, ip_numPlanes = i_numPlanes d\<rparr>"

text \<open>C26: the two ways to lay an image out. Take whatever layout a platform gives an image, and
  describe the same image explicitly with that layout. The explicit description is accepted exactly
  when the platform's number of planes is that of the format and each of its planes passes the check
  of the explicit path; otherwise it is refused, although the first path had accepted it. When it
  is accepted, the two descriptors and sizes are the same, as long as the platform gave no plane the
  size zero; the explicit path gives such a plane the product of its stride and height.\<close>

theorem basic_and_explicit_layout_agree:
  assumes "SetImageDescFromImageBasicProp pd prop desc = (QC_STATUS_OK, prop1, d)" "image_wf desc"
  shows "if i_numPlanes d = s_qcFormatToNumPlanes ! ip_format prop \<and>
      list_all (plane_def_ok (explicit_props prop d)) [0..<unat (i_numPlanes d)]
    then (case SetImageDescFromImageProp (explicit_props prop d) desc of (s, prop2, d2) \<Rightarrow>
        s = QC_STATUS_OK \<and>
        d2 = d\<lparr>i_planeBufSize := map (\<lambda>i. if i < unat (i_numPlanes d) \<and> i_planeBufSize d ! i = 0
                 then i_stride d ! i * i_actualHeight d ! i else i_planeBufSize d ! i) [0..<4]\<rparr> \<and>
        (list_all (\<lambda>i. i_planeBufSize d ! i \<noteq> 0) [0..<unat (i_numPlanes d)] \<longrightarrow>
           d2 = d \<and> p_size prop2 = p_size prop1))
    else SetImageDescFromImageProp (explicit_props prop d) desc =
      (QC_STATUS_BAD_ARGUMENTS, explicit_props prop d, desc)"
proof -
  note ok = SetImageDescFromImageBasicProp_OK [OF assms]
  let ?n = "unat (i_numPlanes d)" and ?pl = "platform_planes pd prop"
  let ?q = "explicit_props prop d"
  have q: "ip_format ?q = ip_format prop" "ip_batchSize ?q = ip_batchSize prop"
    "ip_width ?q = ip_width prop" "ip_height ?q = ip_height prop" "ip_numPlanes ?q = i_numPlanes d"
    "ip_stride ?q = i_stride d" "ip_actualHeight ?q = i_actualHeight d"
    "ip_planeBufSize ?q = i_planeBufSize d"
    by (simp_all add: explicit_props_def ImageBasicProps.defs)
  have len: "length (i_stride desc) = 4" "length (i_actualHeight desc) = 4"
    "length (i_planeBufSize desc) = 4" using assms(2) by (simp_all add: image_wf_def)
  have lists: "i_stride d = map (nActualStride \<circ> ?pl) [0..<?n] @ drop ?n (i_stride desc)"
    "i_actualHeight d = map (nActualPlaneBufHeight \<circ> ?pl) [0..<?n] @ drop ?n (i_actualHeight desc)"
    "i_planeBufSize d = map (\<lambda>i. plane_total (?pl i)) [0..<?n] @ drop ?n (i_planeBufSize desc)"
    by (subst ok(6), simp)+
  have same: "take ?n (i_stride d) @ drop ?n (i_stride desc) = i_stride d"
    "take ?n (i_actualHeight d) @ drop ?n (i_actualHeight desc) = i_actualHeight d"
    "take ?n (i_planeBufSize d) @ drop ?n (i_planeBufSize desc) = i_planeBufSize d"
    unfolding lists by simp_all
  have l4: "length (i_planeBufSize d) = 4" using lists(3) ok(5) len by simp
  have v: "image_prop_valid ?q \<longleftrightarrow> i_numPlanes d = s_qcFormatToNumPlanes ! ip_format prop"
    using ok(1-4) by (auto simp: image_prop_valid_def q)
  show ?thesis
  proof (cases "i_numPlanes d = s_qcFormatToNumPlanes ! ip_format prop \<and>
      list_all (plane_def_ok ?q) [0..<?n]")
    case False
    then have "SetImageDescFromImageProp ?q desc = (QC_STATUS_BAD_ARGUMENTS, ?q, desc)"
      using ok(4) v by (auto simp: SetImageDescFromImageProp_def image_prop_size_def Let_def q)
    with False show ?thesis by auto
  next
    case True
    let ?sz = "(\<Sum>i\<leftarrow>[0..<?n]. plane_bytes ?q i) * ucast (ip_batchSize prop)"
    let ?zs = "map (\<lambda>i. if i < ?n \<and> i_planeBufSize d ! i = 0
      then i_stride d ! i * i_actualHeight d ! i else i_planeBufSize d ! i) [0..<4]"
    from True have "list_all (plane_def_ok ?q) [0..<?n]" by blast
    then have "image_prop_size ?q = Some ?sz"
      using ok(4) by (simp add: image_prop_size_def Let_def q foldl_plus_u64)
    with True v have r: "SetImageDescFromImageProp ?q desc = (QC_STATUS_OK, ?q\<lparr>p_size := ?sz\<rparr>,
        desc\<lparr>b_type := QC_BUFFER_TYPE_IMAGE, i_format := ip_format prop, i_batchSize := ip_batchSize prop,
          i_width := ip_width prop, i_height := ip_height prop, i_numPlanes := i_numPlanes d,
          i_stride := i_stride d, i_actualHeight := i_actualHeight d, i_planeBufSize := ?zs\<rparr>)"
      unfolding SetImageDescFromImageProp_def Let_def q same l4 by simp
    have d2: "desc\<lparr>b_type := QC_BUFFER_TYPE_IMAGE, i_format := ip_format prop,
        i_batchSize := ip_batchSize prop, i_width := ip_width prop, i_height := ip_height prop,
        i_numPlanes := i_numPlanes d, i_stride := i_stride d, i_actualHeight := i_actualHeight d,
        i_planeBufSize := zs\<rparr> = d\<lparr>i_planeBufSize := zs\<rparr>" for zs
      unfolding lists by (subst (4) ok(6)) simp
    have full: "?zs = i_planeBufSize d \<and> ?sz = p_size prop1"
      if nz: "\<forall>i < ?n. i_planeBufSize d ! i \<noteq> 0"
    proof
      show "?zs = i_planeBufSize d" using nz l4 by (intro nth_equalityI) auto
      have "plane_bytes ?q i = ucast (plane_total (?pl i))" if "i < ?n" for i
        using nz that by (simp add: plane_bytes_def q) (simp add: lists(3) nth_append)
      then have "(\<Sum>i\<leftarrow>[0..<?n]. plane_bytes ?q i) = (\<Sum>i\<leftarrow>[0..<?n]. ucast (plane_total (?pl i)))"
        by (intro arg_cong [where f = sum_list] map_cong) simp_all
      then show "?sz = p_size prop1" by (simp add: ok(7))
    qed
    show ?thesis
      using True full unfolding r d2 by (simp add: list_all_iff)
  qed
qed

definition demo_pd :: pd_lib where
  "demo_pd = \<lparr>PDQueryNumPlanes = (\<lambda>_ _. Some 2),
     PDQueryPlaneDef = (\<lambda>_ _ w h i. if i = 1
       then Some \<lparr>nActualStride = w, nActualPlaneBufHeight = h, nPlaneBufSize = w * h, nPlanePaddingSize = 0\<rparr>
       else Some \<lparr>nActualStride = w, nActualPlaneBufHeight = h div 2, nPlaneBufSize = w * (h div 2),
         nPlanePaddingSize = 32\<rparr>),
     WFD_USAGE_OPENGL_ES2 = 1, WFD_USAGE_OPENGL_ES3 = 2, WFD_USAGE_CAPTURE = 4, WFD_USAGE_VIDEO = 8,
     WFD_USAGE_DISPLAY = 16, WFD_USAGE_NATIVE = 32, WFD_USAGE_COMPRESSION = 64\<rparr>"

lemma init_arrays:
  "i_stride ImageDescriptor_init = [0, 0, 0, 0]" "i_actualHeight ImageDescriptor_init = [0, 0, 0, 0]"
  "i_planeBufSize ImageDescriptor_init = [0, 0, 0, 0]"
  by (simp_all add: ImageDescriptor_init_def BufferDescriptor.defs numeral_eq_Suc)

theorem basic_and_explicit_layout_agree_witness:
  "\<exists>prop1 d. SetImageDescFromImageBasicProp demo_pd
     (ImageBasicProps_new 2 8 8 QC_IMAGE_FORMAT_NV12 QC_MEMORY_ALLOCATOR_HEAP QC_CACHEABLE)
     ImageDescriptor_init = (QC_STATUS_OK, prop1, d) \<and> i_planeBufSize d = [64, 64, 0, 0] \<and>
     fst (SetImageDescFromImageProp (explicit_props
       (ImageBasicProps_new 2 8 8 QC_IMAGE_FORMAT_NV12 QC_MEMORY_ALLOCATOR_HEAP QC_CACHEABLE) d)
       ImageDescriptor_init) = QC_STATUS_OK"
proof -
  let ?p = "ImageBasicProps_new 2 8 8 QC_IMAGE_FORMAT_NV12 QC_MEMORY_ALLOCATOR_HEAP QC_CACHEABLE"
  obtain s prop1 d where r: "SetImageDescFromImageBasicProp demo_pd ?p ImageDescriptor_init = (s, prop1, d)"
    by (metis prod_cases3)
  then have d: "s = QC_STATUS_OK" "i_numPlanes d = 2" "i_stride d = [8, 8, 0, 0]"
    "i_actualHeight d = [8, 4, 0, 0]" "i_planeBufSize d = [64, 64, 0, 0]"
    by (auto simp: SetImageDescFromImageBasicProp_def demo_pd_def demo_props_defs Let_def
        s_qcFormatToApdfFormat_def upt_2 init_arrays)
  note agree = basic_and_explicit_layout_agree [OF r [unfolded d(1)] init_image_wf]
  have ok: "i_numPlanes d = s_qcFormatToNumPlanes ! ip_format ?p \<and>
      list_all (plane_def_ok (explicit_props ?p d)) [0..<unat (i_numPlanes d)]"
    by (simp add: d upt_2 plane_def_ok_def explicit_props_def demo_props_defs s_qcFormatToNumPlanes_def
        s_qcFormatToBytesPerPixel_def s_qcFormatToHeightDividerPerPlanes_def Let_def)
  from agree [unfolded if_P [OF ok]] r d(1,5) show ?thesis
    by (auto split: prod.splits)
qed

end
