(* ===== verification/QC_DataTree.thy ===== *)
theory QC_DataTree
  imports QC_Types
begin

text \<open>
  The configuration tree: \<^verbatim>\<open>include/QC/Common/DataTree.hpp\<close> and \<^verbatim>\<open>source/Node/Base/DataTree.cpp\<close>.
  A tree wraps a JSON value; a key is a path of names separated by dots. The JSON library is a
  parameter, the record \<open>json_lib\<close> of the operations the code calls, and an exception it throws is
  \<open>None\<close>. Where the code keeps a pointer into the value and assigns through it, the model walks down
  and puts the changed member back on the way up.

  A template argument \<open>T\<close> of the code is the pair of its conversions: \<^verbatim>\<open>get<T>()\<close>, which throws when
  the value has another type, and the implicit conversion to JSON.
\<close>

record 'j json_lib =
  j_null :: 'j
  j_contains :: "'j \<Rightarrow> string \<Rightarrow> bool"
  j_at :: "'j \<Rightarrow> string \<Rightarrow> 'j"
  j_put :: "'j \<Rightarrow> string \<Rightarrow> 'j \<Rightarrow> 'j option"
  j_is_array :: "'j \<Rightarrow> bool"
  j_elems :: "'j \<Rightarrow> 'j list"
  j_array :: "'j list \<Rightarrow> 'j"
  j_string :: "string \<Rightarrow> 'j"
  j_get_string :: "'j \<Rightarrow> string option"
  j_parse :: "string \<Rightarrow> string + 'j"
  j_dump :: "'j \<Rightarrow> string"

subsection \<open>Keys\<close>

text \<open>\<^verbatim>\<open>std::getline( ss, token, '.' )\<close> on what is left of the stream: fails when nothing is left,
  otherwise takes the characters up to the next dot and drops the dot.\<close>

definition getline :: "string \<Rightarrow> (string \<times> string) option" where
  "getline ss =
     (if ss = [] then None
      else Some (takeWhile (\<lambda>c. c \<noteq> CHR ''.'') ss, drop 1 (dropWhile (\<lambda>c. c \<noteq> CHR ''.'') ss)))"

lemma getline_rest: "getline ss = Some (token, rest) \<Longrightarrow> length rest < length ss"
proof -
  assume "getline ss = Some (token, rest)"
  then have "ss \<noteq> []" "rest = drop 1 (dropWhile (\<lambda>c. c \<noteq> CHR ''.'') ss)"
    by (auto simp: getline_def split: if_splits)
  moreover have "length (dropWhile P ss) \<le> length ss" for P :: "char \<Rightarrow> bool"
    by (rule length_dropWhile_le)
  ultimately show "length rest < length ss"
    by (metis One_nat_def Suc_pred diff_less length_drop length_greater_0_conv le_imp_less_Suc
        less_Suc0 not_less_eq order_le_less_trans zero_less_diff zero_less_one diff_le_mono)
qed

function key_tokens :: "string \<Rightarrow> string list" where
  "key_tokens ss = (case getline ss of None \<Rightarrow> [] | Some (token, rest) \<Rightarrow> token # key_tokens rest)"
  by pat_completeness auto
termination
  by (relation "measure length") (auto dest: getline_rest)

declare key_tokens.simps [simp del]

subsection \<open>Reading\<close>

text \<open>The loop every reader starts with: the value at the end of the path.\<close>

function find_key :: "'j json_lib \<Rightarrow> 'j \<Rightarrow> string \<Rightarrow> 'j option" where
  "find_key J cur ss =
     (case getline ss of
        None \<Rightarrow> Some cur
      | Some (token, rest) \<Rightarrow>
          if j_contains J cur token then find_key J (j_at J cur token) rest else None)"
  by pat_completeness auto
termination
  by (relation "measure (\<lambda>(J, cur, ss). length ss)") (auto dest: getline_rest)

declare find_key.simps [simp del]

definition DT_Load :: "'j json_lib \<Rightarrow> 'j \<Rightarrow> string \<Rightarrow> QCStatus_e \<times> 'j \<times> string option" where
  "DT_Load J js context =
     (case j_parse J context of
        Inl what \<Rightarrow> (QC_STATUS_BAD_ARGUMENTS, js, Some what)
      | Inr js' \<Rightarrow> (QC_STATUS_OK, js', None))"

definition DT_Dump :: "'j json_lib \<Rightarrow> 'j \<Rightarrow> string" where
  "DT_Dump J js = j_dump J js"

definition DT_Exists :: "'j json_lib \<Rightarrow> 'j \<Rightarrow> string \<Rightarrow> bool" where
  "DT_Exists J js key = (find_key J js key \<noteq> None)"

definition DT_Get :: "'j json_lib \<Rightarrow> ('j \<Rightarrow> 't option) \<Rightarrow> 'j \<Rightarrow> string \<Rightarrow> 't \<Rightarrow> 't" where
  "DT_Get J get js key dv =
     (case find_key J js key of
        None \<Rightarrow> dv
      | Some v \<Rightarrow> (case get v of Some r \<Rightarrow> r | None \<Rightarrow> dv))"

definition DT_GetVector ::
  "'j json_lib \<Rightarrow> ('j \<Rightarrow> 't list option) \<Rightarrow> 'j \<Rightarrow> string \<Rightarrow> 't list \<Rightarrow> 't list" where
  "DT_GetVector J get js key dv =
     (case find_key J js key of
        None \<Rightarrow> dv
      | Some v \<Rightarrow> if j_is_array J v then (case get v of Some r \<Rightarrow> r | None \<Rightarrow> dv) else dv)"

definition DT_GetTree :: "'j json_lib \<Rightarrow> 'j \<Rightarrow> string \<Rightarrow> 'j \<Rightarrow> QCStatus_e \<times> 'j" where
  "DT_GetTree J js key dt =
     (case find_key J js key of
        None \<Rightarrow> (QC_STATUS_OUT_OF_BOUND, dt)
      | Some v \<Rightarrow> (QC_STATUS_OK, v))"

definition DT_GetTrees :: "'j json_lib \<Rightarrow> 'j \<Rightarrow> string \<Rightarrow> 'j list \<Rightarrow> QCStatus_e \<times> 'j list" where
  "DT_GetTrees J js key dts =
     (case find_key J js key of
        None \<Rightarrow> (QC_STATUS_OUT_OF_BOUND, dts)
      | Some v \<Rightarrow>
          if j_is_array J v then (QC_STATUS_OK, dts @ j_elems J v)
          else (QC_STATUS_BAD_ARGUMENTS, dts))"

subsection \<open>Enumerations as strings\<close>

definition image_format_of :: "string \<Rightarrow> QCImageFormat_e" where
  "image_format_of s =
     (if s = ''rgb'' then QC_IMAGE_FORMAT_RGB888
      else if s = ''bgr'' then QC_IMAGE_FORMAT_BGR888
      else if s = ''uyvy'' then QC_IMAGE_FORMAT_UYVY
      else if s = ''nv12'' then QC_IMAGE_FORMAT_NV12
      else if s = ''nv12_ubwc'' then QC_IMAGE_FORMAT_NV12_UBWC
      else if s = ''p010'' then QC_IMAGE_FORMAT_P010
      else if s = ''tp10_ubwc'' then QC_IMAGE_FORMAT_TP10_UBWC
      else if s = ''h264'' then QC_IMAGE_FORMAT_COMPRESSED_H264
      else if s = ''h265'' then QC_IMAGE_FORMAT_COMPRESSED_H265
      else QC_IMAGE_FORMAT_MAX)"

definition image_format_name :: "QCImageFormat_e \<Rightarrow> string" where
  "image_format_name kv =
     (if kv = QC_IMAGE_FORMAT_RGB888 then ''rgb''
      else if kv = QC_IMAGE_FORMAT_BGR888 then ''bgr''
      else if kv = QC_IMAGE_FORMAT_UYVY then ''uyvy''
      else if kv = QC_IMAGE_FORMAT_NV12 then ''nv12''
      else if kv = QC_IMAGE_FORMAT_NV12_UBWC then ''nv12_ubwc''
      else if kv = QC_IMAGE_FORMAT_P010 then ''p010''
      else if kv = QC_IMAGE_FORMAT_TP10_UBWC then ''tp10_ubwc''
      else if kv = QC_IMAGE_FORMAT_COMPRESSED_H264 then ''h264''
      else if kv = QC_IMAGE_FORMAT_COMPRESSED_H265 then ''h265''
      else ''unknown'')"

definition tensor_type_of :: "string \<Rightarrow> QCTensorType_e" where
  "tensor_type_of s =
     (if s = ''int8'' then QC_TENSOR_TYPE_INT_8
      else if s = ''int16'' then QC_TENSOR_TYPE_INT_16
      else if s = ''int32'' then QC_TENSOR_TYPE_INT_32
      else if s = ''int64'' then QC_TENSOR_TYPE_INT_64
      else if s = ''uint8'' then QC_TENSOR_TYPE_UINT_8
      else if s = ''uint16'' then QC_TENSOR_TYPE_UINT_16
      else if s = ''uint32'' then QC_TENSOR_TYPE_UINT_32
      else if s = ''uint64'' then QC_TENSOR_TYPE_UINT_64
      else if s = ''float16'' then QC_TENSOR_TYPE_FLOAT_16
      else if s = ''float32'' then QC_TENSOR_TYPE_FLOAT_32
      else if s = ''float64'' then QC_TENSOR_TYPE_FLOAT_64
      else if s = ''sfixed_point8'' then QC_TENSOR_TYPE_SFIXED_POINT_8
      else if s = ''sfixed_point16'' then QC_TENSOR_TYPE_SFIXED_POINT_16
      else if s = ''sfixed_point32'' then QC_TENSOR_TYPE_SFIXED_POINT_32
      else if s = ''ufixed_point8'' then QC_TENSOR_TYPE_UFIXED_POINT_8
      else if s = ''ufixed_point16'' then QC_TENSOR_TYPE_UFIXED_POINT_16
      else if s = ''ufixed_point32'' then QC_TENSOR_TYPE_UFIXED_POINT_32
      else QC_TENSOR_TYPE_MAX)"

definition tensor_type_name :: "QCTensorType_e \<Rightarrow> string" where
  "tensor_type_name kv =
     (if kv = QC_TENSOR_TYPE_INT_8 then ''int8''
      else if kv = QC_TENSOR_TYPE_INT_16 then ''int16''
      else if kv = QC_TENSOR_TYPE_INT_32 then ''int32''
      else if kv = QC_TENSOR_TYPE_INT_64 then ''int64''
      else if kv = QC_TENSOR_TYPE_UINT_8 then ''uint8''
      else if kv = QC_TENSOR_TYPE_UINT_16 then ''uint16''
      else if kv = QC_TENSOR_TYPE_UINT_32 then ''uint32''
      else if kv = QC_TENSOR_TYPE_UINT_64 then ''uint64''
      else if kv = QC_TENSOR_TYPE_FLOAT_16 then ''float16''
      else if kv = QC_TENSOR_TYPE_FLOAT_32 then ''float32''
      else if kv = QC_TENSOR_TYPE_FLOAT_64 then ''float64''
      else if kv = QC_TENSOR_TYPE_SFIXED_POINT_8 then ''sfixed_point8''
      else if kv = QC_TENSOR_TYPE_SFIXED_POINT_16 then ''sfixed_point16''
      else if kv = QC_TENSOR_TYPE_SFIXED_POINT_32 then ''sfixed_point32''
      else if kv = QC_TENSOR_TYPE_UFIXED_POINT_8 then ''ufixed_point8''
      else if kv = QC_TENSOR_TYPE_UFIXED_POINT_16 then ''ufixed_point16''
      else if kv = QC_TENSOR_TYPE_UFIXED_POINT_32 then ''ufixed_point32''
      else ''unknown'')"

definition processor_of :: "string \<Rightarrow> QCProcessorType_e" where
  "processor_of s =
     (if s = ''htp0'' then QC_PROCESSOR_HTP0
      else if s = ''htp1'' then QC_PROCESSOR_HTP1
      else if s = ''htp2'' then QC_PROCESSOR_HTP2
      else if s = ''htp3'' then QC_PROCESSOR_HTP3
      else if s = ''cpu'' then QC_PROCESSOR_CPU
      else if s = ''gpu'' then QC_PROCESSOR_GPU
      else QC_PROCESSOR_MAX)"

fun processor_name :: "QCProcessorType_e \<Rightarrow> string" where
  "processor_name QC_PROCESSOR_HTP0 = ''htp0''"
| "processor_name QC_PROCESSOR_HTP1 = ''htp1''"
| "processor_name QC_PROCESSOR_HTP2 = ''htp2''"
| "processor_name QC_PROCESSOR_HTP3 = ''htp3''"
| "processor_name QC_PROCESSOR_CPU = ''cpu''"
| "processor_name QC_PROCESSOR_GPU = ''gpu''"
| "processor_name QC_PROCESSOR_MAX = ''unknown''"

text \<open>The three readers of enumerations do not catch the exception of \<^verbatim>\<open>get<std::string>()\<close>.\<close>

definition DT_GetImageFormat ::
  "'j json_lib \<Rightarrow> 'j \<Rightarrow> string \<Rightarrow> QCImageFormat_e \<Rightarrow> QCImageFormat_e option" where
  "DT_GetImageFormat J js key dv =
     (case find_key J js key of
        None \<Rightarrow> Some dv
      | Some v \<Rightarrow> map_option image_format_of (j_get_string J v))"

definition DT_GetTensorType ::
  "'j json_lib \<Rightarrow> 'j \<Rightarrow> string \<Rightarrow> QCTensorType_e \<Rightarrow> QCTensorType_e option" where
  "DT_GetTensorType J js key dv =
     (case find_key J js key of
        None \<Rightarrow> Some dv
      | Some v \<Rightarrow> map_option tensor_type_of (j_get_string J v))"

definition DT_GetProcessorType ::
  "'j json_lib \<Rightarrow> 'j \<Rightarrow> string \<Rightarrow> QCProcessorType_e \<Rightarrow> QCProcessorType_e option" where
  "DT_GetProcessorType J js key dv =
     (case find_key J js key of
        None \<Rightarrow> Some dv
      | Some v \<Rightarrow> map_option processor_of (j_get_string J v))"

subsection \<open>Writing\<close>

text \<open>The loop of every writer. The last token, after which \<^verbatim>\<open>ss.peek()\<close> finds the end, is assigned;
  a missing member on the way is created as null.\<close>

function set_key :: "'j json_lib \<Rightarrow> 'j \<Rightarrow> string \<Rightarrow> 'j \<Rightarrow> 'j option" where
  "set_key J cur ss v =
     (case getline ss of
        None \<Rightarrow> Some cur
      | Some (token, rest) \<Rightarrow>
          if rest = [] then j_put J cur token v
          else
            case (if j_contains J cur token then Some cur else j_put J cur token (j_null J)) of
              None \<Rightarrow> None
            | Some cur' \<Rightarrow>
                (case set_key J (j_at J cur' token) rest v of
                   None \<Rightarrow> None
                 | Some member \<Rightarrow> j_put J cur' token member))"
  by pat_completeness auto
termination
  by (relation "measure (\<lambda>(J, cur, ss, v). length ss)") (auto dest: getline_rest)

declare set_key.simps [simp del]

definition DT_Set :: "'j json_lib \<Rightarrow> ('t \<Rightarrow> 'j) \<Rightarrow> 'j \<Rightarrow> string \<Rightarrow> 't \<Rightarrow> 'j option" where
  "DT_Set J conv js key kv = set_key J js key (conv kv)"

definition DT_SetVector :: "'j json_lib \<Rightarrow> ('t list \<Rightarrow> 'j) \<Rightarrow> 'j \<Rightarrow> string \<Rightarrow> 't list \<Rightarrow> 'j option" where
  "DT_SetVector J conv js key kv = set_key J js key (conv kv)"

definition DT_SetTree :: "'j json_lib \<Rightarrow> 'j \<Rightarrow> string \<Rightarrow> 'j \<Rightarrow> 'j option" where
  "DT_SetTree J js key dt = set_key J js key dt"

definition DT_SetTrees :: "'j json_lib \<Rightarrow> 'j \<Rightarrow> string \<Rightarrow> 'j list \<Rightarrow> 'j option" where
  "DT_SetTrees J js key kv = set_key J js key (j_array J kv)"

definition DT_SetImageFormat :: "'j json_lib \<Rightarrow> 'j \<Rightarrow> string \<Rightarrow> QCImageFormat_e \<Rightarrow> 'j option" where
  "DT_SetImageFormat J js key kv = set_key J js key (j_string J (image_format_name kv))"

definition DT_SetTensorType :: "'j json_lib \<Rightarrow> 'j \<Rightarrow> string \<Rightarrow> QCTensorType_e \<Rightarrow> 'j option" where
  "DT_SetTensorType J js key kv = set_key J js key (j_string J (tensor_type_name kv))"

definition DT_SetProcessorType ::
  "'j json_lib \<Rightarrow> 'j \<Rightarrow> string \<Rightarrow> QCProcessorType_e \<Rightarrow> 'j option" where
  "DT_SetProcessorType J js key kv = set_key J js key (j_string J (processor_name kv))"

end
