(* ===== verification/QC_DataTreeProps.thy ===== *)
theory QC_DataTreeProps
  imports QC_DataTree "HOL-Library.Sublist"
begin

text \<open>
  Properties of the configuration tree: keys as paths of names, reading back what was written,
  when writing throws, and the round trips of the enumerations. The laws of the JSON library the
  proofs use are \<open>json_laws\<close>.
\<close>

text \<open>The documented behaviour of the JSON library that the code relies on. Assigning to a member
  makes it present and leaves the other members; it throws on a value that is neither an object nor
  null, whatever the member; null has no members.\<close>

definition json_laws :: "'j json_lib \<Rightarrow> bool" where
  "json_laws J \<longleftrightarrow>
     (\<forall>js t v js'. j_put J js t v = Some js' \<longrightarrow> j_contains J js' t \<and> j_at J js' t = v) \<and>
     (\<forall>js t v js' u. j_put J js t v = Some js' \<longrightarrow> u \<noteq> t \<longrightarrow>
        j_contains J js' u = j_contains J js u \<and>
        (j_contains J js u \<longrightarrow> j_at J js' u = j_at J js u)) \<and>
     (\<forall>js t v u w. j_put J js t v = None \<longrightarrow> j_put J js u w = None) \<and>
     (\<forall>js t v. j_contains J js t \<longrightarrow> j_put J js t v \<noteq> None) \<and>
     (\<forall>t v. j_put J (j_null J) t v \<noteq> None \<and> \<not> j_contains J (j_null J) t) \<and>
     (\<forall>s. j_get_string J (j_string J s) = Some s)"

lemma json_lawsD:
  assumes "json_laws J"
  shows "j_put J js t v = Some js' \<Longrightarrow> j_contains J js' t"
    "j_put J js t v = Some js' \<Longrightarrow> j_at J js' t = v"
    "j_put J js t v = Some js' \<Longrightarrow> u \<noteq> t \<Longrightarrow> j_contains J js' u = j_contains J js u"
    "j_put J js t v = Some js' \<Longrightarrow> u \<noteq> t \<Longrightarrow> j_contains J js u \<Longrightarrow> j_at J js' u = j_at J js u"
    "j_put J js t v = None \<Longrightarrow> j_put J js u w = None"
    "j_contains J js t \<Longrightarrow> j_put J js t v \<noteq> None"
    "j_put J (j_null J) t v \<noteq> None" "\<not> j_contains J (j_null J) t"
    "j_get_string J (j_string J s) = Some s"
  using assms unfolding json_laws_def by (blast, blast, blast, blast, blast, blast, blast, blast, simp)

subsection \<open>Keys as paths\<close>

lemma key_tokens_Nil [simp]: "key_tokens '''' = []"
  by (simp add: key_tokens.simps getline_def)

lemma key_tokens_getline: "getline ss = Some (t, rest) \<Longrightarrow> key_tokens ss = t # key_tokens rest"
  by (simp add: key_tokens.simps [of ss])

lemma getline_Nil [simp]: "getline '''' = None"
  by (simp add: getline_def)

lemma loops_Nil [simp]: "find_key J cur '''' = Some cur" "set_key J cur '''' v = Some cur"
  by (simp_all add: find_key.simps [of J cur "''''"] set_key.simps [of J cur "''''"])

lemma getline_None [simp]: "getline ss = None \<longleftrightarrow> ss = ''''"
  by (simp add: getline_def)

lemma key_tokens_empty_iff [simp]: "key_tokens ss = [] \<longleftrightarrow> ss = ''''"
  by (subst key_tokens.simps) (auto split: option.splits)

fun find_path :: "'j json_lib \<Rightarrow> 'j \<Rightarrow> string list \<Rightarrow> 'j option" where
  "find_path J cur [] = Some cur"
| "find_path J cur (t # ts) =
     (if j_contains J cur t then find_path J (j_at J cur t) ts else None)"

fun set_path :: "'j json_lib \<Rightarrow> 'j \<Rightarrow> string list \<Rightarrow> 'j \<Rightarrow> 'j option" where
  "set_path J cur [] v = Some cur"
| "set_path J cur [t] v = j_put J cur t v"
| "set_path J cur (t # u # ts) v =
     (case (if j_contains J cur t then Some cur else j_put J cur t (j_null J)) of
        None \<Rightarrow> None
      | Some cur' \<Rightarrow>
          (case set_path J (j_at J cur' t) (u # ts) v of
             None \<Rightarrow> None
           | Some member \<Rightarrow> j_put J cur' t member))"

lemma find_key_path: "find_key J cur ss = find_path J cur (key_tokens ss)"
proof (induction J cur ss rule: find_key.induct)
  case (1 J cur ss)
  show ?case
  proof (cases "getline ss")
    case None
    then show ?thesis by simp
  next
    case (Some p)
    then obtain t rest where "getline ss = Some (t, rest)" by (cases p) simp
    with 1 [OF this refl] show ?thesis
      by (simp add: find_key.simps [of J cur ss] key_tokens_getline)
  qed
qed

lemma set_key_path: "set_key J cur ss v = set_path J cur (key_tokens ss) v"
proof (induction J cur ss v rule: set_key.induct)
  case (1 J cur ss v)
  show ?case
  proof (cases "getline ss")
    case None
    then show ?thesis by simp
  next
    case (Some p)
    then obtain t rest where g: "getline ss = Some (t, rest)" by (cases p) simp
    show ?thesis
    proof (cases "rest = ''''")
      case True
      with g show ?thesis by (simp add: set_key.simps [of J cur ss] key_tokens_getline)
    next
      case False
      then obtain u us where u: "key_tokens rest = u # us"
        by (cases "key_tokens rest") auto
      have IH: "set_key J (j_at J c t) rest v = set_path J (j_at J c t) (u # us) v"
        if "(if j_contains J cur t then Some cur else j_put J cur t (j_null J)) = Some c" for c
        using 1 [OF g refl False that] u by simp
      show ?thesis
        using False u
        by (simp add: set_key.simps [of J cur ss] g key_tokens_getline [OF g] IH split: option.split)
    qed
  qed
qed

text \<open>The name at the front of a path, and what writing below it does to the others.\<close>

lemma set_path_Cons:
  assumes "json_laws J" "set_path J cur (t # ts) v = Some js'"
  obtains m where "j_contains J js' t" "j_at J js' t = m"
    "\<And>u. u \<noteq> t \<Longrightarrow> j_contains J js' u = j_contains J cur u"
    "\<And>u. u \<noteq> t \<Longrightarrow> j_contains J cur u \<Longrightarrow> j_at J js' u = j_at J cur u"
    "ts = [] \<Longrightarrow> m = v"
    "ts \<noteq> [] \<Longrightarrow> set_path J (if j_contains J cur t then j_at J cur t else j_null J) ts v = Some m"
proof (cases ts)
  case Nil
  with assms(2) have p: "j_put J cur t v = Some js'" by simp
  show ?thesis
    by (rule that [of v]) (use Nil json_lawsD(1-4) [OF assms(1) p] in auto)
next
  case (Cons u us)
  with assms(2) obtain c m where
    c: "(if j_contains J cur t then Some cur else j_put J cur t (j_null J)) = Some c"
    and m: "set_path J (j_at J c t) (u # us) v = Some m" and p: "j_put J c t m = Some js'"
    by (auto split: option.splits)
  have ct: "j_at J c t = (if j_contains J cur t then j_at J cur t else j_null J)"
    using c json_lawsD(2) [OF assms(1)] by (auto split: if_splits)
  have co: "w \<noteq> t \<Longrightarrow> j_contains J c w = j_contains J cur w" for w
    using c json_lawsD(3) [OF assms(1)] by (auto split: if_splits)
  have ca: "w \<noteq> t \<Longrightarrow> j_contains J cur w \<Longrightarrow> j_at J c w = j_at J cur w" for w
    using c json_lawsD(4) [OF assms(1)] by (auto split: if_splits)
  note l = json_lawsD(1-4) [OF assms(1) p]
  show ?thesis
    by (rule that [of m]) (use l co ca m ct Cons in auto)
qed

lemma find_path_null: "json_laws J \<Longrightarrow> ts \<noteq> [] \<Longrightarrow> find_path J (j_null J) ts = None"
  using json_lawsD(8) by (cases ts) auto

lemma find_set_path_same:
  assumes "json_laws J"
  shows "set_path J cur ts v = Some js' \<Longrightarrow> ts \<noteq> [] \<Longrightarrow> find_path J js' ts = Some v"
proof (induction ts arbitrary: cur js')
  case Nil
  then show ?case by simp
next
  case (Cons t ts)
  from assms Cons.prems(1) show ?case
    by (rule set_path_Cons) (use Cons.IH in \<open>cases "ts = []"; auto\<close>)
qed

lemma find_set_path_other:
  assumes "json_laws J"
  shows "set_path J cur ts v = Some js' \<Longrightarrow> \<not> prefix ts us \<Longrightarrow> \<not> prefix us ts \<Longrightarrow>
    find_path J js' us = find_path J cur us"
proof (induction ts arbitrary: cur js' us)
  case Nil
  then show ?case by simp
next
  case (Cons t ts)
  obtain u us' where us: "us = u # us'" using Cons.prems(3) by (cases us) auto
  from assms Cons.prems(1) show ?case
  proof (rule set_path_Cons)
    fix m
    assume m: "j_contains J js' t" "j_at J js' t = m"
      "\<And>u. u \<noteq> t \<Longrightarrow> j_contains J js' u = j_contains J cur u"
      "\<And>u. u \<noteq> t \<Longrightarrow> j_contains J cur u \<Longrightarrow> j_at J js' u = j_at J cur u"
      "ts = [] \<Longrightarrow> m = v"
      "ts \<noteq> [] \<Longrightarrow> set_path J (if j_contains J cur t then j_at J cur t else j_null J) ts v = Some m"
    show ?case
    proof (cases "u = t")
      case False
      then show ?thesis using m(3,4) by (simp add: us)
    next
      case True
      with Cons.prems(2,3) us have n: "\<not> prefix ts us'" "\<not> prefix us' ts" by simp_all
      then have "ts \<noteq> []" "us' \<noteq> []" by auto
      with Cons.IH [OF m(6) n] m(1,2) True find_path_null [OF assms] show ?thesis
        by (auto simp: us split: if_splits)
    qed
  qed
qed

text \<open>C27: reading back what was written. After a tree is set at a key that names something, getting
  that key gives the tree, and every key whose path neither extends nor is extended by the written
  one finds what it found before.\<close>

theorem datatree_get_after_set:
  assumes "json_laws J" "DT_SetTree J js key dt = Some js'" "key \<noteq> ''''"
  shows "DT_GetTree J js' key dt0 = (QC_STATUS_OK, dt) \<and>
    (\<forall>other. \<not> prefix (key_tokens key) (key_tokens other) \<longrightarrow>
       \<not> prefix (key_tokens other) (key_tokens key) \<longrightarrow>
       DT_GetTree J js' other dt0 = DT_GetTree J js other dt0)"
  using assms find_set_path_same [OF assms(1)] find_set_path_other [OF assms(1)]
  by (simp add: DT_GetTree_def DT_SetTree_def find_key_path set_key_path)

subsection \<open>When writing throws\<close>

text \<open>Neither an object nor null: assigning to a member throws.\<close>

definition unwritable :: "'j json_lib \<Rightarrow> 'j \<Rightarrow> bool" where
  "unwritable J w = (j_put J w '''' (j_null J) = None)"

lemma put_None_iff:
  assumes "json_laws J"
  shows "j_put J w t v = None \<longleftrightarrow> unwritable J w"
  unfolding unwritable_def using json_lawsD(5) [OF assms] by blast

lemma set_path_None_iff:
  assumes "json_laws J"
  shows "ts \<noteq> [] \<Longrightarrow> set_path J cur ts v = None \<longleftrightarrow>
    (\<exists>p w. strict_prefix p ts \<and> find_path J cur p = Some w \<and> unwritable J w)"
proof (induction ts arbitrary: cur)
  case Nil
  then show ?case by simp
next
  case (Cons t ts)
  have split: "(\<exists>p w. strict_prefix p (t # ts) \<and> find_path J cur p = Some w \<and> unwritable J w) \<longleftrightarrow>
      unwritable J cur \<or> (j_contains J cur t \<and> (\<exists>p w. strict_prefix p ts \<and>
        find_path J (j_at J cur t) p = Some w \<and> unwritable J w))"
    (is "?L \<longleftrightarrow> ?R")
  proof
    assume ?L
    then obtain p w where p: "strict_prefix p (t # ts)" "find_path J cur p = Some w" "unwritable J w"
      by blast
    then show ?R
      by (cases p) (auto simp: strict_prefix_def split: if_splits)
  next
    assume ?R
    then show ?L
    proof
      assume "unwritable J cur"
      then show ?L by (intro exI [of _ "[]"]) auto
    next
      assume "j_contains J cur t \<and> (\<exists>p w. strict_prefix p ts \<and>
        find_path J (j_at J cur t) p = Some w \<and> unwritable J w)"
      then obtain p w where "j_contains J cur t" "strict_prefix p ts"
        "find_path J (j_at J cur t) p = Some w" "unwritable J w" by blast
      then show ?L by (intro exI [of _ "t # p"] exI [of _ w]) (auto simp: strict_prefix_def)
    qed
  qed
  show ?case
  proof (cases ts)
    case Nil
    then show ?thesis unfolding split by (simp add: put_None_iff [OF assms])
  next
    case (Cons u us)
    show ?thesis
    proof (cases "j_contains J cur t")
      case True
      then have w: "\<not> unwritable J cur" and pn: "\<And>x. j_put J cur t x \<noteq> None"
        using json_lawsD(6) [OF assms True] put_None_iff [OF assms] by blast+
      have "set_path J cur (t # ts) v = None \<longleftrightarrow> set_path J (j_at J cur t) ts v = None"
        using True pn Cons by (cases "set_path J (j_at J cur t) (u # us) v") simp_all
      with True w Cons.IH [of "j_at J cur t"] Cons show ?thesis unfolding split by simp
    next
      case False
      show ?thesis
      proof (cases "unwritable J cur")
        case True
        then have "j_put J cur t (j_null J) = None" using put_None_iff [OF assms] by blast
        with True False show ?thesis unfolding split by (simp add: Cons)
      next
        case w: False
        then obtain c where c: "j_put J cur t (j_null J) = Some c"
          using put_None_iff [OF assms] by fastforce
        then have c': "j_at J c t = j_null J" "j_contains J c t"
          using json_lawsD(1,2) [OF assms] by blast+
        have "\<not> unwritable J (j_null J)"
          unfolding unwritable_def by (rule json_lawsD(7) [OF assms])
        moreover have "find_path J (j_null J) p = Some x \<Longrightarrow> x = j_null J" for p x
          using json_lawsD(8) [OF assms] by (cases p) simp_all
        moreover have "ts \<noteq> []" using Cons by simp
        ultimately have "set_path J (j_null J) ts v \<noteq> None"
          using Cons.IH [of "j_null J"] by blast
        then obtain m where m: "set_path J (j_null J) (u # us) v = Some m" using Cons by auto
        have "set_path J cur (t # ts) v = j_put J c t m"
          by (simp only: Cons set_path.simps False if_False c option.case c'(1) m)
        then have "set_path J cur (t # ts) v \<noteq> None"
          using json_lawsD(6) [OF assms c'(2), of m] by simp
        with False w show ?thesis unfolding split by blast
      qed
    qed
  qed
qed

text \<open>exactly when a write throws. Setting a tree at a key that names something fails precisely
  when some proper prefix of its path, the root included, exists and is neither an object nor null;
  members that are missing never make it fail.\<close>

theorem datatree_set_throws_iff:
  assumes "json_laws J" "key \<noteq> ''''"
  shows "DT_SetTree J js key dt = None \<longleftrightarrow>
    (\<exists>p w. strict_prefix p (key_tokens key) \<and> find_path J js p = Some w \<and>
       j_put J w '''' (j_null J) = None)"
  using set_path_None_iff [OF assms(1), of "key_tokens key" js dt] assms(2)
  by (simp add: DT_SetTree_def set_key_path unwritable_def)

subsection \<open>Enumerations\<close>

lemma image_format_roundtrip:
  "image_format_of (image_format_name f) =
     (if f < QC_IMAGE_FORMAT_MAX \<or> f = QC_IMAGE_FORMAT_COMPRESSED_H264 \<or>
         f = QC_IMAGE_FORMAT_COMPRESSED_H265 then f else QC_IMAGE_FORMAT_MAX)"
proof -
  have "f < 7 \<longleftrightarrow> f = 0 \<or> f = 1 \<or> f = 2 \<or> f = 3 \<or> f = 4 \<or> f = 5 \<or> f = 6" by presburger
  then show ?thesis unfolding image_format_name_def by (auto simp: image_format_of_def)
qed

lemma tensor_type_roundtrip:
  "tensor_type_of (tensor_type_name t) = (if t < QC_TENSOR_TYPE_MAX then t else QC_TENSOR_TYPE_MAX)"
proof -
  have "t < 17 \<longleftrightarrow> t = 0 \<or> t = 1 \<or> t = 2 \<or> t = 3 \<or> t = 4 \<or> t = 5 \<or> t = 6 \<or> t = 7 \<or> t = 8 \<or> t = 9 \<or>
      t = 10 \<or> t = 11 \<or> t = 12 \<or> t = 13 \<or> t = 14 \<or> t = 15 \<or> t = 16" by presburger
  then show ?thesis unfolding tensor_type_name_def by (auto simp: tensor_type_of_def)
qed

lemma processor_roundtrip: "processor_of (processor_name p) = p"
  by (cases p) (simp_all add: processor_of_def)

text \<open>the enumerations survive a round trip. An image format, a tensor type or a processor written
  at a key that names something is read back as it was, and a number that is no enumerator is read
  back as the respective maximum.\<close>

theorem datatree_enum_roundtrip:
  assumes "json_laws J" "key \<noteq> ''''"
  shows "(DT_SetImageFormat J js key f = Some js1 \<longrightarrow> DT_GetImageFormat J js1 key df =
      Some (if f < QC_IMAGE_FORMAT_MAX \<or> f = QC_IMAGE_FORMAT_COMPRESSED_H264 \<or>
        f = QC_IMAGE_FORMAT_COMPRESSED_H265 then f else QC_IMAGE_FORMAT_MAX)) \<and>
    (DT_SetTensorType J js key t = Some js2 \<longrightarrow> DT_GetTensorType J js2 key dtt =
      Some (if t < QC_TENSOR_TYPE_MAX then t else QC_TENSOR_TYPE_MAX)) \<and>
    (DT_SetProcessorType J js key p = Some js3 \<longrightarrow> DT_GetProcessorType J js3 key dp = Some p)"
proof -
  have found: "find_key J j key = Some v" if "set_key J js key v = Some j" for v j
    using find_set_path_same [OF assms(1) that [unfolded set_key_path]] assms(2)
    by (simp add: find_key_path)
  show ?thesis
    unfolding DT_SetImageFormat_def DT_SetTensorType_def DT_SetProcessorType_def
      DT_GetImageFormat_def DT_GetTensorType_def DT_GetProcessorType_def
    by (auto dest!: found simp: json_lawsD(9) [OF assms(1)] image_format_roundtrip
        tensor_type_roundtrip processor_roundtrip)
qed

subsection \<open>A small JSON library\<close>

datatype demo_json = J_Null | J_String string | J_Array "demo_json list" | J_Object "(string \<times> demo_json) list"

fun demo_members :: "demo_json \<Rightarrow> (string \<times> demo_json) list" where
  "demo_members (J_Object ms) = ms"
| "demo_members _ = []"

fun demo_put :: "demo_json \<Rightarrow> string \<Rightarrow> demo_json \<Rightarrow> demo_json option" where
  "demo_put J_Null t v = Some (J_Object [(t, v)])"
| "demo_put (J_Object ms) t v = Some (J_Object ((t, v) # filter (\<lambda>e. fst e \<noteq> t) ms))"
| "demo_put _ t v = None"

definition demo_json_lib :: "demo_json json_lib" where
  "demo_json_lib =
     \<lparr>j_null = J_Null, j_contains = (\<lambda>js t. t \<in> fst ` set (demo_members js)),
      j_at = (\<lambda>js t. the (map_of (demo_members js) t)), j_put = demo_put,
      j_is_array = (\<lambda>js. case js of J_Array _ \<Rightarrow> True | _ \<Rightarrow> False),
      j_elems = (\<lambda>js. case js of J_Array xs \<Rightarrow> xs | _ \<Rightarrow> []), j_array = J_Array,
      j_string = J_String, j_get_string = (\<lambda>js. case js of J_String s \<Rightarrow> Some s | _ \<Rightarrow> None),
      j_parse = (\<lambda>_. Inr J_Null), j_dump = (\<lambda>_. '''')\<rparr>"

lemma map_of_filter_key: "u \<noteq> t \<Longrightarrow> map_of (filter (\<lambda>e. fst e \<noteq> t) ms) u = map_of ms u"
  by (induction ms) auto

lemma demo_json_laws: "json_laws demo_json_lib"
proof -
  have put: "(t, v) \<in> set (demo_members js') \<and> map_of (demo_members js') t = Some v \<and>
      (u \<noteq> t \<longrightarrow> map_of (demo_members js') u = map_of (demo_members js) u)"
    if "demo_put js t v = Some js'" for js t v js' u
    using that by (cases js) (auto simp: map_of_filter_key)
  have mem: "t \<in> fst ` set (demo_members js) \<longleftrightarrow> map_of (demo_members js) t \<noteq> None" for js t
    by (simp add: map_of_eq_None_iff)
  have none: "demo_put js t v = None \<Longrightarrow> demo_put js u w = None" for js t v u w
    by (cases js) auto
  have obj: "t \<in> fst ` set (demo_members js) \<Longrightarrow> demo_put js t v \<noteq> None" for js t v
    by (cases js) auto
  show ?thesis
    unfolding json_laws_def demo_json_lib_def json_lib.simps mem
  proof (intro conjI allI impI)
    show "map_of (demo_members js') t \<noteq> None" "the (map_of (demo_members js') t) = v"
      if "demo_put js t v = Some js'" for js t v js' using put [OF that] by auto
    show "(map_of (demo_members js') u \<noteq> None) = (map_of (demo_members js) u \<noteq> None)"
      "the (map_of (demo_members js') u) = the (map_of (demo_members js) u)"
      if "demo_put js t v = Some js'" "u \<noteq> t" for js t v js' u using put [OF that(1)] that(2) by auto
    show "demo_put js u w = None" if "demo_put js t v = None" for js t v u w using none [OF that] .
    show "demo_put js t v \<noteq> None" if "map_of (demo_members js) t \<noteq> None" for js t v
      using obj that unfolding mem by blast
  qed simp_all
qed

lemma demo_key: "key_tokens ''a.b'' = [''a'', ''b'']"
  by (simp add: key_tokens.simps getline_def)

theorem datatree_get_after_set_witness:
  "\<exists>js. DT_SetTree demo_json_lib J_Null ''a.b'' (J_String ''x'') = Some js \<and>
     DT_GetTree demo_json_lib js ''a.b'' J_Null = (QC_STATUS_OK, J_String ''x'')"
proof -
  obtain js where "DT_SetTree demo_json_lib J_Null ''a.b'' (J_String ''x'') = Some js"
    by (auto simp: DT_SetTree_def set_key_path demo_key demo_json_lib_def)
  with datatree_get_after_set [OF demo_json_laws this, of J_Null] show ?thesis by simp
qed

theorem datatree_set_throws_iff_witness:
  "DT_SetTree demo_json_lib (J_Object [(''a'', J_String ''x'')]) ''a.b'' J_Null = None"
proof (rule datatree_set_throws_iff [OF demo_json_laws, THEN iffD2])
  show "\<exists>p w. strict_prefix p (key_tokens ''a.b'') \<and>
      find_path demo_json_lib (J_Object [(''a'', J_String ''x'')]) p = Some w \<and>
      j_put demo_json_lib w '''' (j_null demo_json_lib) = None"
    by (intro exI [of _ "[''a'']"] exI [of _ "J_String ''x''"])
      (simp add: demo_key demo_json_lib_def strict_prefix_def)
qed simp

theorem datatree_enum_roundtrip_witness:
  "\<exists>js. DT_SetImageFormat demo_json_lib J_Null ''a.b'' QC_IMAGE_FORMAT_NV12_UBWC = Some js \<and>
     DT_GetImageFormat demo_json_lib js ''a.b'' QC_IMAGE_FORMAT_MAX = Some QC_IMAGE_FORMAT_NV12_UBWC"
proof -
  obtain js where "DT_SetImageFormat demo_json_lib J_Null ''a.b'' QC_IMAGE_FORMAT_NV12_UBWC = Some js"
    by (auto simp: DT_SetImageFormat_def set_key_path demo_key demo_json_lib_def)
  with datatree_enum_roundtrip [OF demo_json_laws, of "''a.b''"] show ?thesis by fastforce
qed

end
