(* ===== verification/QC_NodeTrace.thy ===== *)
theory QC_NodeTrace
  imports QC_DataTree "HOL-Library.AList"
begin

text \<open>
  Node tracing: \<^verbatim>\<open>source/Infras/NodeTrace/NodeTrace.cpp\<close> writes binary records, and
  \<^verbatim>\<open>scripts/utils/systrace/systrace.py\<close> reads them. Here is the writer with its buffer and offsets, the
  reader's loop over the file up to the strings and the dict of arguments it extracts from each event
  (what it renders as JSON from them is left out), and the layout both have to agree on.

  A string is its bytes. A structure is written as it lies in memory: the two structures have no
  padding, and the platforms are little-endian. A floating point value is its bits. The trace file is
  \<open>None\<close> while it is not open and the bytes written so far otherwise.
\<close>

unbundle bit_operations_syntax

type_synonym u16 = "16 word"
type_synonym bytes = "u8 list"

subsection \<open>Little-endian numbers\<close>

fun le_bytes :: "nat \<Rightarrow> nat \<Rightarrow> bytes" where
  "le_bytes 0 x = []"
| "le_bytes (Suc n) x = of_nat (x mod 256) # le_bytes n (x div 256)"

fun le_nat :: "bytes \<Rightarrow> nat" where
  "le_nat [] = 0"
| "le_nat (b # bs) = unat b + 256 * le_nat bs"

lemma length_le_bytes [simp]: "length (le_bytes n x) = n"
  by (induction n arbitrary: x) simp_all

lemma le_nat_bytes: "le_nat (le_bytes n x) = x mod 256 ^ n"
proof (induction n arbitrary: x)
  case 0
  then show ?case by simp
next
  case (Suc n)
  have "unat (of_nat (x mod 256) :: u8) = x mod 256" by (simp add: unat_of_nat)
  then show ?case by (simp add: Suc mod_mult2_eq)
qed

subsection \<open>Arguments\<close>

datatype trace_value =
    TV_String bytes
  | TV_Double u64
  | TV_Float u32
  | TV_U64 u64
  | TV_U32 u32
  | TV_U16 u16
  | TV_U8 u8
  | TV_I64 u64
  | TV_I32 u32
  | TV_I16 u16
  | TV_I8 u8

record QCNodeTraceArg =
  arg_name :: bytes
  arg_value :: trace_value

fun QCNodeTraceArgType :: "trace_value \<Rightarrow> nat" where
  "QCNodeTraceArgType (TV_String _) = 0"
| "QCNodeTraceArgType (TV_Double _) = 1"
| "QCNodeTraceArgType (TV_Float _) = 2"
| "QCNodeTraceArgType (TV_U64 _) = 3"
| "QCNodeTraceArgType (TV_U32 _) = 4"
| "QCNodeTraceArgType (TV_U16 _) = 5"
| "QCNodeTraceArgType (TV_U8 _) = 6"
| "QCNodeTraceArgType (TV_I64 _) = 7"
| "QCNodeTraceArgType (TV_I32 _) = 8"
| "QCNodeTraceArgType (TV_I16 _) = 9"
| "QCNodeTraceArgType (TV_I8 _) = 10"

type_synonym QCNodeTraceType_e = nat
abbreviation (input) QCNODE_TRACE_TYPE_MAX :: QCNodeTraceType_e where "QCNODE_TRACE_TYPE_MAX \<equiv> 4"

text \<open>The bytes \<^verbatim>\<open>pRaw\<close> points at, as many as the size returned.\<close>

fun GetArgValueRawPtrAndSize :: "trace_value \<Rightarrow> bytes" where
  "GetArgValueRawPtrAndSize (TV_String s) = s"
| "GetArgValueRawPtrAndSize (TV_Double x) = le_bytes 8 (unat x)"
| "GetArgValueRawPtrAndSize (TV_Float x) = le_bytes 4 (unat x)"
| "GetArgValueRawPtrAndSize (TV_U64 x) = le_bytes 8 (unat x)"
| "GetArgValueRawPtrAndSize (TV_U32 x) = le_bytes 4 (unat x)"
| "GetArgValueRawPtrAndSize (TV_U16 x) = le_bytes 2 (unat x)"
| "GetArgValueRawPtrAndSize (TV_U8 x) = le_bytes 1 (unat x)"
| "GetArgValueRawPtrAndSize (TV_I64 x) = le_bytes 8 (unat x)"
| "GetArgValueRawPtrAndSize (TV_I32 x) = le_bytes 4 (unat x)"
| "GetArgValueRawPtrAndSize (TV_I16 x) = le_bytes 2 (unat x)"
| "GetArgValueRawPtrAndSize (TV_I8 x) = le_bytes 1 (unat x)"

subsection \<open>The writer\<close>

record NodeTrace =
  nt_name :: bytes
  nt_processor :: bytes
  nt_coreIdsMask :: u32
  nt_record :: bytes

definition str_bytes :: "string \<Rightarrow> bytes" where
  "str_bytes s = map of_char s"

text \<open>The name of a fresh tracer ends in a counter shared by all of them.\<close>

definition NodeTrace_new :: "string \<Rightarrow> NodeTrace" where
  "NodeTrace_new ident =
     \<lparr>nt_name = str_bytes (''unknown'' @ ident), nt_processor = str_bytes ''default'',
      nt_coreIdsMask = 0, nt_record = []\<rparr>"

text \<open>The file is opened once, when the environment names one and it can be created. Shifting by 32
  or more is undefined.\<close>

definition trace_open :: "string option \<Rightarrow> bool \<Rightarrow> bytes option \<Rightarrow> bytes option" where
  "trace_open env fopen_ok file =
     (case file of
        Some b \<Rightarrow> Some b
      | None \<Rightarrow> (case env of None \<Rightarrow> None | Some p \<Rightarrow> if fopen_ok then Some [] else None))"

fun or_core_ids :: "u32 list \<Rightarrow> u32 \<Rightarrow> u32 option" where
  "or_core_ids [] ids = Some ids"
| "or_core_ids (coreId # rest) ids =
     (if 32 \<le> unat coreId then None
      else or_core_ids rest (ids OR push_bit (unat coreId) 1))"

definition NodeTrace_Init ::
  "'j json_lib \<Rightarrow> ('j \<Rightarrow> u32 list option) \<Rightarrow> string option \<Rightarrow> bool \<Rightarrow> string \<Rightarrow>
     NodeTrace \<Rightarrow> bytes option \<Rightarrow> (NodeTrace \<times> bytes option) option" where
  "NodeTrace_Init J get_u32s env fopen_ok config nt file =
     (let file' = trace_open env fopen_ok file
      in case file' of
           None \<Rightarrow> Some (nt, file')
         | Some _ \<Rightarrow>
             (case DT_Load J (j_null J) config of
                (status, dt, _) \<Rightarrow>
                  if status \<noteq> QC_STATUS_OK then Some (nt, file')
                  else
                    let nt1 = (case find_key J dt ''name'' of
                                 None \<Rightarrow> nt
                               | Some v \<Rightarrow> (case j_get_string J v of
                                   None \<Rightarrow> nt | Some s \<Rightarrow> nt\<lparr>nt_name := str_bytes s\<rparr>));
                        nt2 = (if DT_Exists J dt ''processor''
                               then nt1\<lparr>nt_processor :=
                                      str_bytes (DT_Get J (j_get_string J) dt ''processor'' ''default'')\<rparr>
                               else nt1)
                    in if DT_Exists J dt ''coreIds'' then
                         (case or_core_ids (DT_GetVector J get_u32s dt ''coreIds'' [])
                                 (nt_coreIdsMask nt2) of
                            None \<Rightarrow> None
                          | Some ids \<Rightarrow> Some (nt2\<lparr>nt_coreIdsMask := ids\<rparr>, file'))
                       else Some (nt2, file')))"

text \<open>\<^verbatim>\<open>resize\<close> of a vector of bytes, and \<^verbatim>\<open>memcpy\<close> into it: undefined outside its size.\<close>

definition resize :: "nat \<Rightarrow> bytes \<Rightarrow> bytes" where
  "resize n r = take n r @ replicate (n - length r) 0"

definition memcpy_at :: "nat \<Rightarrow> bytes \<Rightarrow> bytes \<Rightarrow> bytes option" where
  "memcpy_at off src r =
     (if off + length src \<le> length r then Some (take off r @ src @ drop (off + length src) r)
      else None)"

definition event_header :: "u64 \<Rightarrow> nat \<Rightarrow> nat \<Rightarrow> nat \<Rightarrow> nat \<Rightarrow> u32 \<Rightarrow> nat \<Rightarrow> bytes" where
  "event_header timestamp traceType lenName lenProcessor lenEventName coreIdsMask numArgs =
     le_bytes 8 (unat timestamp) @ le_bytes 4 traceType @ le_bytes 4 lenName @
     le_bytes 4 lenProcessor @ le_bytes 4 lenEventName @ le_bytes 4 (unat coreIdsMask) @
     le_bytes 4 numArgs"

definition event_arg :: "nat \<Rightarrow> nat \<Rightarrow> nat \<Rightarrow> bytes" where
  "event_arg argType lenName lenValue = le_bytes 4 argType @ le_bytes 4 lenName @ le_bytes 4 lenValue"

text \<open>A chain of copies, each behind the one before.\<close>

fun copies :: "bytes list \<Rightarrow> bytes \<times> nat \<Rightarrow> (bytes \<times> nat) option" where
  "copies [] (r, off) = Some (r, off)"
| "copies (src # rest) (r, off) =
     (case memcpy_at off src r of
        None \<Rightarrow> None
      | Some r' \<Rightarrow> copies rest (r', off + length src))"

fun trace_args :: "QCNodeTraceArg list \<Rightarrow> bytes \<times> nat \<times> nat \<Rightarrow> (bytes \<times> nat) option" where
  "trace_args [] (r, size', off) = Some (r, off)"
| "trace_args (arg # rest) (r, size', off) =
     (let pRaw = GetArgValueRawPtrAndSize (arg_value arg);
          size'' = size' + 12 + length (arg_name arg) + length pRaw;
          evtArg = event_arg (QCNodeTraceArgType (arg_value arg)) (length (arg_name arg)) (length pRaw)
      in case copies [evtArg, arg_name arg, pRaw] (resize size'' r, off) of
           None \<Rightarrow> None
         | Some (r', off') \<Rightarrow> trace_args rest (r', size'', off'))"

definition NodeTrace_Trace ::
  "NodeTrace \<Rightarrow> u64 \<Rightarrow> bytes \<Rightarrow> QCNodeTraceType_e \<Rightarrow> QCNodeTraceArg list \<Rightarrow> bytes option \<Rightarrow>
     (NodeTrace \<times> bytes option) option" where
  "NodeTrace_Trace nt timestamp name ty args file =
     (case file of
        None \<Rightarrow> Some (nt, None)
      | Some written \<Rightarrow>
          let size' = 32 + length (nt_name nt) + length (nt_processor nt) + length name;
              header = event_header timestamp ty (length (nt_name nt)) (length (nt_processor nt))
                         (length name) (nt_coreIdsMask nt) (length args)
          in case copies [header, nt_name nt, nt_processor nt, name] (resize size' (nt_record nt), 0) of
               None \<Rightarrow> None
             | Some (r, off) \<Rightarrow>
                 (case trace_args args (r, size', off) of
                    None \<Rightarrow> None
                  | Some (r', off') \<Rightarrow>
                      Some (nt\<lparr>nt_record := r'\<rparr>, Some (written @ take off' r'))))"

subsection \<open>The reader\<close>

text \<open>A Python string is its code points. \<^verbatim>\<open>bytes.decode("utf-8")\<close> is strict: no stray or missing
  continuation byte, no overlong form, no surrogate, nothing above U+10FFFF, and \<open>None\<close> (the exception
  \<^verbatim>\<open>UnicodeDecodeError\<close>, which ends the script) otherwise.\<close>

type_synonym py_str = "nat list"

abbreviation (input) utf8_cont :: "nat \<Rightarrow> bool" where
  "utf8_cont b \<equiv> 128 \<le> b \<and> b < 192"

fun utf8_decode :: "bytes \<Rightarrow> py_str option" where
  "utf8_decode [] = Some []"
| "utf8_decode (byte # rest) =
     (let a = unat byte
      in if a < 128 then map_option (\<lambda>cs. a # cs) (utf8_decode rest)
         else if 194 \<le> a \<and> a < 224 then
           (case rest of
              x # rest' \<Rightarrow>
                let b = unat x
                in if utf8_cont b
                   then map_option (\<lambda>cs. ((a - 192) * 64 + (b - 128)) # cs) (utf8_decode rest')
                   else None
            | _ \<Rightarrow> None)
         else if 224 \<le> a \<and> a < 240 then
           (case rest of
              x # y # rest' \<Rightarrow>
                let b = unat x; c = unat y
                in if utf8_cont b \<and> utf8_cont c \<and> (a = 224 \<longrightarrow> 160 \<le> b) \<and> (a = 237 \<longrightarrow> b < 160)
                   then map_option (\<lambda>cs. ((a - 224) * 4096 + (b - 128) * 64 + (c - 128)) # cs)
                          (utf8_decode rest')
                   else None
            | _ \<Rightarrow> None)
         else if 240 \<le> a \<and> a < 245 then
           (case rest of
              x # y # z # rest' \<Rightarrow>
                let b = unat x; c = unat y; d = unat z
                in if utf8_cont b \<and> utf8_cont c \<and> utf8_cont d \<and> (a = 240 \<longrightarrow> 144 \<le> b) \<and>
                      (a = 244 \<longrightarrow> b < 144)
                   then map_option (\<lambda>cs. ((a - 240) * 262144 + (b - 128) * 4096 + (c - 128) * 64 +
                          (d - 128)) # cs) (utf8_decode rest')
                   else None
            | _ \<Rightarrow> None)
         else None)"

text \<open>\<^verbatim>\<open>str.upper\<close> replaces every code point on its own, by one or more. The table of Unicode beyond ASCII
  belongs to Python: it is the parameter \<open>uni\<close>.\<close>

definition py_upper :: "(nat \<Rightarrow> nat list) \<Rightarrow> py_str \<Rightarrow> py_str" where
  "py_upper uni s =
     concat (map (\<lambda>c. if 128 \<le> c then uni c else if 97 \<le> c \<and> c \<le> 122 then [c - 32] else [c]) s)"

text \<open>The values an argument can have, integers unbounded and floating point values as their bits. A value
  of a type the reader does not know stays a string of bytes.\<close>

datatype py_value =
    PV_Str py_str
  | PV_Double u64
  | PV_Float u32
  | PV_Int int
  | PV_List "nat list"
  | PV_Bytes bytes

text \<open>A dict keeps the position of a key and replaces its value.\<close>

type_synonym py_dict = "(py_str \<times> py_value) list"

record trace_event =
  ev_timestamp :: nat
  ev_type :: nat
  ev_name :: py_str
  ev_processor :: py_str
  ev_event :: py_str
  ev_args :: py_dict

definition toCoreIds :: "nat \<Rightarrow> nat list" where
  "toCoreIds coreIdsMask = filter (\<lambda>i. bit coreIdsMask i) [0..<32]"

text \<open>A slice \<^verbatim>\<open>record[a:b]\<close>, and a field of a structure laid over a slice. The structure is copied with
  \<^verbatim>\<open>memmove\<close>, which reads past a slice that is too short: \<open>None\<close>.\<close>

definition slice :: "bytes \<Rightarrow> nat \<Rightarrow> nat \<Rightarrow> bytes" where
  "slice r a len = take len (drop a r)"

definition field :: "bytes \<Rightarrow> nat \<Rightarrow> nat \<Rightarrow> nat" where
  "field raw off n = le_nat (slice raw off n)"

text \<open>\<^verbatim>\<open>from_buffer_copy\<close> raises when there are too few bytes.\<close>

definition decode_value :: "nat \<Rightarrow> bytes \<Rightarrow> py_value option" where
  "decode_value argType v =
     (let num = (\<lambda>n f. if length v < n then None else Some (f (le_nat (take n v))))
      in if argType = 0 then map_option PV_Str (utf8_decode v)
         else if argType = 1 then num 8 (\<lambda>x. PV_Double (of_nat x))
         else if argType = 2 then num 4 (\<lambda>x. PV_Float (of_nat x))
         else if argType = 3 then num 8 (\<lambda>x. PV_Int (uint (of_nat x :: u64)))
         else if argType = 4 then num 4 (\<lambda>x. PV_Int (uint (of_nat x :: u32)))
         else if argType = 5 then num 2 (\<lambda>x. PV_Int (uint (of_nat x :: u16)))
         else if argType = 6 then num 1 (\<lambda>x. PV_Int (uint (of_nat x :: u8)))
         else if argType = 7 then num 8 (\<lambda>x. PV_Int (sint (of_nat x :: u64)))
         else if argType = 8 then num 4 (\<lambda>x. PV_Int (sint (of_nat x :: u32)))
         else if argType = 9 then num 2 (\<lambda>x. PV_Int (sint (of_nat x :: u16)))
         else if argType = 10 then num 1 (\<lambda>x. PV_Int (sint (of_nat x :: u8)))
         else Some (PV_Bytes v))"

text \<open>The loop over the arguments: \<^verbatim>\<open>args\<close> is the dict so far, \<^verbatim>\<open>args[argName] = argValue\<close> its update.\<close>

fun parse_args :: "bytes \<Rightarrow> nat \<Rightarrow> nat \<Rightarrow> py_dict \<Rightarrow> (py_dict \<times> nat) option" where
  "parse_args r off 0 args = Some (args, off)"
| "parse_args r off (Suc n) args =
     (let raw = slice r off 12
      in if length raw < 12 then None
         else
           let lenName = field raw 4 4; lenValue = field raw 8 4
           in case utf8_decode (slice r (off + 12) lenName) of
                None \<Rightarrow> None
              | Some argName \<Rightarrow>
                  (case decode_value (field raw 0 4) (slice r (off + 12 + lenName) lenValue) of
                     None \<Rightarrow> None
                   | Some argValue \<Rightarrow>
                       parse_args r (off + 12 + lenName + lenValue) n
                         (AList.update argName argValue args)))"

definition py_ascii :: "string \<Rightarrow> py_str" where
  "py_ascii s = map of_char s"

definition seed_args :: "nat \<Rightarrow> nat \<Rightarrow> py_dict" where
  "seed_args timestamp coreIdsMask =
     (py_ascii ''timestamp'', PV_Int (int timestamp)) #
     (if coreIdsMask \<noteq> 0 then [(py_ascii ''coreIds'', PV_List (toCoreIds coreIdsMask))] else [])"

definition parse_event :: "(nat \<Rightarrow> nat list) \<Rightarrow> bytes \<Rightarrow> nat \<Rightarrow> (trace_event \<times> nat) option" where
  "parse_event uni r off =
     (let raw = slice r off 32
      in if length raw < 32 then None
         else if QCNODE_TRACE_TYPE_MAX \<le> field raw 8 4 then None
         else
           let lenName = field raw 12 4; lenProcessor = field raw 16 4; lenEventName = field raw 20 4
           in case utf8_decode (slice r (off + 32) lenName) of
                None \<Rightarrow> None
              | Some name \<Rightarrow>
                  (case utf8_decode (slice r (off + 32 + lenName) lenProcessor) of
                     None \<Rightarrow> None
                   | Some processor \<Rightarrow>
                       (case utf8_decode (slice r (off + 32 + lenName + lenProcessor) lenEventName) of
                          None \<Rightarrow> None
                        | Some evtName \<Rightarrow>
                            (case parse_args r (off + 32 + lenName + lenProcessor + lenEventName)
                                    (field raw 28 4) (seed_args (field raw 0 8) (field raw 24 4)) of
                               None \<Rightarrow> None
                             | Some (args, off') \<Rightarrow>
                                 Some (\<lparr>ev_timestamp = field raw 0 8, ev_type = field raw 8 4,
                                        ev_name = name, ev_processor = py_upper uni processor,
                                        ev_event = evtName, ev_args = args\<rparr>, off')))))"

lemma parse_args_advances: "parse_args r off n d = Some (args, off') \<Longrightarrow> off \<le> off'"
proof (induction n arbitrary: off d)
  case 0
  then show ?case by simp
next
  case (Suc n)
  then obtain d' where
    "parse_args r (off + 12 + field (slice r off 12) 4 4 + field (slice r off 12) 8 4) n d' = Some (args, off')"
    by (auto simp: Let_def split: if_splits option.splits)
  from Suc.IH [OF this] show ?case by simp
qed

lemma parse_event_advances: "parse_event uni r off = Some (e, off') \<Longrightarrow> off + 32 \<le> off'"
  by (auto simp: parse_event_def Let_def split: if_splits option.splits dest!: parse_args_advances)

text \<open>The loop over the file: each event is at least a header long, so the offset grows.\<close>

function parse_trace :: "(nat \<Rightarrow> nat list) \<Rightarrow> bytes \<Rightarrow> nat \<Rightarrow> trace_event list option" where
  "parse_trace uni r off =
     (if off < length r then
        (case parse_event uni r off of
           None \<Rightarrow> None
         | Some (e, off') \<Rightarrow> map_option (\<lambda>es. e # es) (parse_trace uni r off'))
      else Some [])"
  by pat_completeness auto
termination
  by (relation "measure (\<lambda>(uni, r, off). length r - off)") (auto dest!: parse_event_advances)

declare parse_trace.simps [simp del]

end
