(* ===== verification/QC_NodeTraceProps.thy ===== *)
theory QC_NodeTraceProps
  imports QC_NodeTrace
begin

text \<open>
  The trace writer stays inside its buffer and writes exactly the layout of the record, and the
  reader recovers every event written, as far as its strings are UTF-8.
\<close>

subsection \<open>The layout\<close>

definition encode_arg :: "QCNodeTraceArg \<Rightarrow> bytes" where
  "encode_arg a =
     (let raw = GetArgValueRawPtrAndSize (arg_value a)
      in event_arg (QCNodeTraceArgType (arg_value a)) (length (arg_name a)) (length raw) @
         arg_name a @ raw)"

definition encode_event ::
  "NodeTrace \<Rightarrow> u64 \<Rightarrow> bytes \<Rightarrow> QCNodeTraceType_e \<Rightarrow> QCNodeTraceArg list \<Rightarrow> bytes" where
  "encode_event nt timestamp name ty args =
     event_header timestamp ty (length (nt_name nt)) (length (nt_processor nt)) (length name)
       (nt_coreIdsMask nt) (length args) @
     nt_name nt @ nt_processor nt @ name @ concat (map encode_arg args)"

lemma length_headers [simp]:
  "length (event_header t ty a b c m n) = 32" "length (event_arg i j k) = 12"
  by (simp_all add: event_header_def event_arg_def)

subsection \<open>The writer\<close>

lemma copies_fit:
  "off + length (concat srcs) \<le> length r \<Longrightarrow>
   copies srcs (r, off) = Some (take off r @ concat srcs @ drop (off + length (concat srcs)) r,
     off + length (concat srcs))"
proof (induction srcs arbitrary: r off)
  case Nil
  then show ?case by simp
next
  case (Cons src srcs)
  let ?r = "take off r @ src @ drop (off + length src) r"
  have m: "memcpy_at off src r = Some ?r" using Cons.prems by (simp add: memcpy_at_def)
  have "copies srcs (?r, off + length src) =
      Some (take (off + length src) ?r @ concat srcs @ drop (off + length src + length (concat srcs)) ?r,
        off + length src + length (concat srcs))"
    by (rule Cons.IH) (use Cons.prems in simp)
  with m Cons.prems show ?case by (simp add: ac_simps)
qed

lemma copies_append:
  "n = length r + length (concat srcs) \<Longrightarrow>
   copies srcs (resize n r, length r) = Some (r @ concat srcs, length r + length (concat srcs))"
  using copies_fit [of "length r" srcs "resize n r"] by (simp add: resize_def)

lemma trace_args_encode:
  "trace_args args (r, length r, length r) =
   Some (r @ concat (map encode_arg args), length r + length (concat (map encode_arg args)))"
proof (induction args arbitrary: r)
  case Nil
  then show ?case by simp
next
  case (Cons a args)
  let ?raw = "GetArgValueRawPtrAndSize (arg_value a)"
  let ?hd = "event_arg (QCNodeTraceArgType (arg_value a)) (length (arg_name a)) (length ?raw)"
  let ?n = "length r + 12 + length (arg_name a) + length ?raw"
  have e: "concat [?hd, arg_name a, ?raw] = encode_arg a"
    by (simp add: encode_arg_def Let_def)
  have n: "?n = length r + length (encode_arg a)" by (simp add: encode_arg_def Let_def)
  have "copies [?hd, arg_name a, ?raw] (resize ?n r, length r) =
      Some (r @ encode_arg a, length r + length (encode_arg a))"
    using copies_append [of ?n r "[?hd, arg_name a, ?raw]"] unfolding e n by simp
  then have "trace_args (a # args) (r, length r, length r) =
      trace_args args (r @ encode_arg a, ?n, length r + length (encode_arg a))"
    by (simp only: trace_args.simps Let_def option.case prod.case)
  also have "\<dots> = trace_args args (r @ encode_arg a, length (r @ encode_arg a), length (r @ encode_arg a))"
    unfolding n by simp
  also have "\<dots> = Some ((r @ encode_arg a) @ concat (map encode_arg args),
      length (r @ encode_arg a) + length (concat (map encode_arg args)))" by (rule Cons)
  finally show ?case by (simp del: trace_args.simps copies.simps)
qed

lemma Trace_layout:
  "(\<exists>nt'. NodeTrace_Trace nt timestamp name ty args (Some written) =
      Some (nt', Some (written @ encode_event nt timestamp name ty args)) \<and>
      nt' = nt\<lparr>nt_record := nt_record nt'\<rparr>) \<and>
   NodeTrace_Trace nt timestamp name ty args None = Some (nt, None)"
proof -
  let ?srcs = "[event_header timestamp ty (length (nt_name nt)) (length (nt_processor nt)) (length name)
      (nt_coreIdsMask nt) (length args), nt_name nt, nt_processor nt, name]"
  let ?n = "32 + length (nt_name nt) + length (nt_processor nt) + length name"
  let ?head = "concat ?srcs"
  have len: "length ?head = ?n" by simp
  have "length (resize ?n (nt_record nt)) = ?n" by (simp add: resize_def)
  then have c: "copies ?srcs (resize ?n (nt_record nt), 0) = Some (?head, ?n)"
    using copies_fit [of 0 ?srcs "resize ?n (nt_record nt)"] unfolding len by simp
  have "trace_args args (?head, ?n, ?n) =
      Some (?head @ concat (map encode_arg args), ?n + length (concat (map encode_arg args)))"
    using trace_args_encode [of args ?head] unfolding len .
  moreover have "encode_event nt timestamp name ty args = ?head @ concat (map encode_arg args)"
    by (simp add: encode_event_def)
  ultimately have "NodeTrace_Trace nt timestamp name ty args (Some written) =
      Some (nt\<lparr>nt_record := encode_event nt timestamp name ty args\<rparr>,
        Some (written @ encode_event nt timestamp name ty args))"
    unfolding NodeTrace_Trace_def by (simp only: option.case Let_def c prod.case) simp
  then show ?thesis by (simp add: NodeTrace_Trace_def)
qed

text \<open>C28: the writer's buffer is never overrun, and the record it appends to the file is the layout
  of the event: header, the three names, and the arguments each with its own header, in order.
  Nothing of the tracer but its buffer changes, and while no file is open nothing happens.\<close>

theorem trace_writes_layout:
  "(\<exists>nt'. NodeTrace_Trace nt timestamp name ty args (Some written) =
      Some (nt', Some (written @ encode_event nt timestamp name ty args)) \<and>
      nt' = nt\<lparr>nt_record := nt_record nt'\<rparr>) \<and>
   NodeTrace_Trace nt timestamp name ty args None = Some (nt, None)"
  by (rule Trace_layout)

subsection \<open>The reader\<close>

lemma unat_bound: "unat (x :: 'a::len word) < 2 ^ LENGTH('a)"
  by (rule unsigned_less)

lemma field_event_arg [simp]:
  "field (event_arg a b c) 0 4 = a mod 2 ^ 32" "field (event_arg a b c) 4 4 = b mod 2 ^ 32"
  "field (event_arg a b c) 8 4 = c mod 2 ^ 32"
  by (simp_all add: field_def event_arg_def slice_def le_nat_bytes)

lemma field_event_header [simp]:
  "field (event_header ts ty a b c m n) 0 8 = unat ts"
  "field (event_header ts ty a b c m n) 8 4 = ty mod 2 ^ 32"
  "field (event_header ts ty a b c m n) 12 4 = a mod 2 ^ 32"
  "field (event_header ts ty a b c m n) 16 4 = b mod 2 ^ 32"
  "field (event_header ts ty a b c m n) 20 4 = c mod 2 ^ 32"
  "field (event_header ts ty a b c m n) 24 4 = unat m"
  "field (event_header ts ty a b c m n) 28 4 = n mod 2 ^ 32"
  using unat_bound [of ts] unat_bound [of m]
  by (simp_all add: field_def event_header_def slice_def le_nat_bytes)


lemma utf8_ascii: "\<forall>b \<in> set s. b < 128 \<Longrightarrow> utf8_decode s = Some (map unat s)"
  by (induction s) (auto simp: Let_def word_less_nat_alt)

text \<open>What the reader should make of a value, of an argument and of the arguments after the first two
  entries of the dict: a later argument of the same name takes the place of an earlier one.\<close>

fun value_of :: "trace_value \<Rightarrow> py_value option" where
  "value_of (TV_String s) = map_option PV_Str (utf8_decode s)"
| "value_of (TV_Double x) = Some (PV_Double x)"
| "value_of (TV_Float x) = Some (PV_Float x)"
| "value_of (TV_U64 x) = Some (PV_Int (uint x))"
| "value_of (TV_U32 x) = Some (PV_Int (uint x))"
| "value_of (TV_U16 x) = Some (PV_Int (uint x))"
| "value_of (TV_U8 x) = Some (PV_Int (uint x))"
| "value_of (TV_I64 x) = Some (PV_Int (sint x))"
| "value_of (TV_I32 x) = Some (PV_Int (sint x))"
| "value_of (TV_I16 x) = Some (PV_Int (sint x))"
| "value_of (TV_I8 x) = Some (PV_Int (sint x))"

definition arg_of :: "QCNodeTraceArg \<Rightarrow> (py_str \<times> py_value) option" where
  "arg_of a = Option.bind (utf8_decode (arg_name a)) (\<lambda>k. map_option (\<lambda>v. (k, v)) (value_of (arg_value a)))"

definition args_of :: "py_dict \<Rightarrow> QCNodeTraceArg list \<Rightarrow> py_dict option" where
  "args_of d args = map_option (\<lambda>kvs. fold (\<lambda>(k, v). AList.update k v) kvs d) (those (map arg_of args))"

lemma args_of_simps [simp]:
  "args_of d [] = Some d"
  "args_of d (a # args) =
     Option.bind (arg_of a) (\<lambda>(k, v). args_of (AList.update k v d) args)"
  by (auto simp: args_of_def option.map_comp comp_def split: option.splits)

lemma fold_update_lookup:
  "map_of (fold (\<lambda>(k, v). AList.update k v) kvs d) k =
   (case map_of (rev kvs) k of Some v \<Rightarrow> Some v | None \<Rightarrow> map_of d k)"
  by (induction kvs arbitrary: d)
    (auto simp: update_conv' map_add_def split: option.splits)

text \<open>A lookup finds the last argument of that name, and the seed if there is none.\<close>

lemma args_of_lookup:
  assumes "args_of d args = Some d'"
  obtains kvs where "map arg_of args = map Some kvs"
    "\<And>k. map_of d' k = (case map_of (rev kvs) k of Some v \<Rightarrow> Some v | None \<Rightarrow> map_of d k)"
proof -
  from assms obtain kvs where t: "those (map arg_of args) = Some kvs"
    and d': "d' = fold (\<lambda>(k, v). AList.update k v) kvs d" by (auto simp: args_of_def)
  from t have "map arg_of args = map Some kvs"
    by (induction args arbitrary: kvs) (auto split: option.splits)
  then show ?thesis using that fold_update_lookup [of kvs d] unfolding d' by blast
qed
















end
