(* ===== verification/QC_Frame.thy ===== *)
theory QC_Frame
  imports QC_Types
begin

text \<open>
  Frame descriptors and their pool: \<^verbatim>\<open>include/QC/Node/NodeFrameDescriptor.hpp\<close> and
  \<^verbatim>\<open>NodeFrameDescriptorPool.hpp\<close>.

  A frame descriptor is an array of references to buffer descriptors, which assignment rebinds; a
  reference is the number of the object it refers to, 0 for the static dummy. The queue of the pool
  holds references to frame descriptors: to one of the pool's own, to the static dummy frame, or to
  an object of the client.
\<close>

subsection \<open>Frame descriptors\<close>

type_synonym buffer_ref = nat
type_synonym NodeFrameDescriptor = "buffer_ref list"

abbreviation (input) dummy_buffer :: buffer_ref where "dummy_buffer \<equiv> 0"

definition QCDummyBufferDescriptor :: QCBufferDescriptorBase where
  "QCDummyBufferDescriptor =
     QCBufferDescriptorBase_init\<lparr>b_name := ''Dummy'', b_type := QC_BUFFER_TYPE_MAX\<rparr>"

definition NodeFrameDescriptor_new :: "u32 \<Rightarrow> NodeFrameDescriptor" where
  "NodeFrameDescriptor_new numOfBuffers = replicate (unat numOfBuffers) dummy_buffer"

definition GetBuffer :: "NodeFrameDescriptor \<Rightarrow> u32 \<Rightarrow> buffer_ref" where
  "GetBuffer fd globalBufferId =
     (if unat globalBufferId < length fd then fd ! unat globalBufferId else dummy_buffer)"

definition SetBuffer ::
  "NodeFrameDescriptor \<Rightarrow> u32 \<Rightarrow> buffer_ref \<Rightarrow> QCStatus_e \<times> NodeFrameDescriptor" where
  "SetBuffer fd globalBufferId buffer =
     (if unat globalBufferId < length fd
      then (QC_STATUS_OK, fd[unat globalBufferId := buffer])
      else (QC_STATUS_OUT_OF_BOUND, fd))"

definition Clear :: "NodeFrameDescriptor \<Rightarrow> NodeFrameDescriptor" where
  "Clear fd = map (\<lambda>_. dummy_buffer) fd"

text \<open>Both assignments go through \<^verbatim>\<open>GetBuffer\<close> of the other.\<close>

definition NodeFrameDescriptor_assign ::
  "NodeFrameDescriptor \<Rightarrow> NodeFrameDescriptor \<Rightarrow> NodeFrameDescriptor" where
  "NodeFrameDescriptor_assign this other = map (\<lambda>i. GetBuffer other (of_nat i)) [0..<length this]"

subsection \<open>The pool\<close>

datatype frame_ref = Own nat | DummyFrame | Client nat

record NodeFrameDescriptorPool =
  m_frameDescs :: "NodeFrameDescriptor list"
  m_queue :: "frame_ref list"

definition NodeFrameDescriptorPool_new :: "u32 \<Rightarrow> u32 \<Rightarrow> NodeFrameDescriptorPool" where
  "NodeFrameDescriptorPool_new numOfFrameDesc numOfBuffers =
     \<lparr>m_frameDescs = replicate (unat numOfFrameDesc) (NodeFrameDescriptor_new numOfBuffers),
      m_queue = map Own [0..<unat numOfFrameDesc]\<rparr>"

text \<open>Clearing a frame that is not the pool's own changes nothing of the pool.\<close>

fun clear_ref :: "frame_ref \<Rightarrow> NodeFrameDescriptor list \<Rightarrow> NodeFrameDescriptor list" where
  "clear_ref (Own i) fds = fds[i := Clear (fds ! i)]"
| "clear_ref _ fds = fds"

definition FramePool_Get ::
  "NodeFrameDescriptorPool \<Rightarrow> (QCStatus_e \<times> frame_ref) \<times> NodeFrameDescriptorPool" where
  "FramePool_Get p =
     (case m_queue p of
        [] \<Rightarrow> ((QC_STATUS_OUT_OF_BOUND, DummyFrame), p)
      | r # rest \<Rightarrow>
          ((QC_STATUS_OK, r),
           p\<lparr>m_queue := rest, m_frameDescs := clear_ref r (m_frameDescs p)\<rparr>))"

definition FramePool_Put :: "NodeFrameDescriptorPool \<Rightarrow> frame_ref \<Rightarrow> NodeFrameDescriptorPool" where
  "FramePool_Put p frameDesc = p\<lparr>m_queue := m_queue p @ [frameDesc]\<rparr>"

subsection \<open>Calls in any order\<close>

text \<open>A client takes frames, gives any reference back, and sets buffers of the pool's frames. A take returns
  its status and reference, with the buffers the frame then has when it is one of the pool's own.\<close>

datatype pool_call = CallGet | CallPut frame_ref | CallSet nat u32 buffer_ref

fun frame_buffers :: "NodeFrameDescriptorPool \<Rightarrow> frame_ref \<Rightarrow> NodeFrameDescriptor option" where
  "frame_buffers p (Own i) = Some (m_frameDescs p ! i)"
| "frame_buffers p _ = None"

fun pool_calls ::
  "pool_call list \<Rightarrow> NodeFrameDescriptorPool \<Rightarrow>
     ((QCStatus_e \<times> frame_ref) \<times> NodeFrameDescriptor option) list" where
  "pool_calls [] p = []"
| "pool_calls (CallGet # cs) p =
     (case FramePool_Get p of (ret, p') \<Rightarrow> (ret, frame_buffers p' (snd ret)) # pool_calls cs p')"
| "pool_calls (CallPut r # cs) p = pool_calls cs (FramePool_Put p r)"
| "pool_calls (CallSet i bid b # cs) p = pool_calls cs
     (p\<lparr>m_frameDescs := (m_frameDescs p)[i := snd (SetBuffer (m_frameDescs p ! i) bid b)]\<rparr>)"

text \<open>The buffers of a cleared frame of the pool.\<close>

fun cleared :: "NodeFrameDescriptorPool \<Rightarrow> frame_ref \<Rightarrow> NodeFrameDescriptor option" where
  "cleared p (Own i) = Some (replicate (length (m_frameDescs p ! i)) dummy_buffer)"
| "cleared p _ = None"

fun own_frame :: "NodeFrameDescriptorPool \<Rightarrow> frame_ref \<Rightarrow> bool" where
  "own_frame p (Own i) = (i < length (m_frameDescs p))"
| "own_frame p _ = True"

lemma cleared_lengths:
  "map length (m_frameDescs p') = map length (m_frameDescs p) \<Longrightarrow> own_frame p r \<Longrightarrow>
     own_frame p' r \<and> cleared p' r = cleared p r"
proof (cases r)
  case (Own i)
  assume l: "map length (m_frameDescs p') = map length (m_frameDescs p)" and o: "own_frame p r"
  from arg_cong [OF l, of length] have "length (m_frameDescs p') = length (m_frameDescs p)" by simp
  moreover have "length (m_frameDescs p' ! i) = length (m_frameDescs p ! i)"
    using arg_cong [OF l, of "\<lambda>xs. xs ! i"] o calculation by (simp add: Own)
  ultimately show ?thesis using o by (simp add: Own)
qed simp_all

lemma map_length_update:
  "length x = length (fds ! i) \<Longrightarrow> map length (fds[i := x]) = map length fds"
  by (cases "i < length fds") (simp_all add: map_update list_update_same_conv list_update_beyond)

lemma map_length_clear_ref: "map length (clear_ref r fds) = map length fds"
  by (cases r) (simp_all add: map_length_update Clear_def)

lemma pool_calls_fifo:
  "i < length (m_queue p) \<Longrightarrow> i < length (pool_calls cs p) \<Longrightarrow> own_frame p (m_queue p ! i) \<Longrightarrow>
   pool_calls cs p ! i = ((QC_STATUS_OK, m_queue p ! i), cleared p (m_queue p ! i))"
proof (induction cs p arbitrary: i rule: pool_calls.induct)
  case (1 p)
  then show ?case by simp
next
  case (2 cs p)
  from 2(2) obtain r rest where q: "m_queue p = r # rest" by (cases "m_queue p") auto
  let ?p = "p\<lparr>m_queue := rest, m_frameDescs := clear_ref r (m_frameDescs p)\<rparr>"
  have g: "FramePool_Get p = ((QC_STATUS_OK, r), ?p)" by (simp add: FramePool_Get_def q)
  show ?case
  proof (cases i)
    case 0
    with 2(4) have "frame_buffers ?p r = cleared p r"
      by (cases r) (simp_all add: q Clear_def map_replicate_const)
    with 0 show ?thesis by (simp add: g q)
  next
    case (Suc k)
    have "map length (m_frameDescs ?p) = map length (m_frameDescs p)"
      by (simp add: map_length_clear_ref)
    from cleared_lengths [OF this, of "rest ! k"] 2(4)
    have o: "own_frame ?p (rest ! k)" "cleared ?p (rest ! k) = cleared p (rest ! k)"
      by (simp_all add: q Suc)
    have "pool_calls cs ?p ! k = ((QC_STATUS_OK, m_queue ?p ! k), cleared ?p (m_queue ?p ! k))"
      using 2(1) [OF g [symmetric], of k] 2(2,3) o by (simp add: g q Suc)
    with o show ?thesis by (simp add: g q Suc)
  qed
next
  case (3 r cs p)
  let ?p = "FramePool_Put p r"
  have "map length (m_frameDescs ?p) = map length (m_frameDescs p)" by (simp add: FramePool_Put_def)
  from cleared_lengths [OF this 3(4)] have "own_frame ?p (m_queue p ! i)"
    "cleared ?p (m_queue p ! i) = cleared p (m_queue p ! i)" by simp_all
  moreover have "m_queue ?p ! i = m_queue p ! i" "i < length (m_queue ?p)"
    using 3(2) by (simp_all add: FramePool_Put_def nth_append)
  ultimately show ?case using 3(1) [of i] 3(3) by simp
next
  case (4 j bid b cs p)
  let ?p = "p\<lparr>m_frameDescs := (m_frameDescs p)[j := snd (SetBuffer (m_frameDescs p ! j) bid b)]\<rparr>"
  have "map length (m_frameDescs ?p) = map length (m_frameDescs p)"
    by (simp add: map_length_update SetBuffer_def)
  from cleared_lengths [OF this 4(4)] 4(1) [of i] 4(2,3) show ?case by simp
qed

lemma length_pool_calls: "length (pool_calls cs p) = length (filter (\<lambda>c. c = CallGet) cs)"
  by (induction cs p rule: pool_calls.induct) (simp_all split: prod.split)

text \<open>C30: a frame put back is handed out again, cleared. Whatever calls follow a \<^verbatim>\<open>Put\<close>, writes to the
  buffers of any frame included, once one more \<^verbatim>\<open>Get\<close> has
  been made than frames were waiting, the last of these has returned that frame, and every earlier
  one a waiting frame in the order of the queue. Each that is one of the pool's own frames has, when it
  is returned, the buffers it always had room for, all of them the dummy.\<close>

theorem frame_handed_out_again:
  assumes "length (m_queue p) < length (filter (\<lambda>c. c = CallGet) cs)"
    and "\<forall>f \<in> set (m_queue p @ [r]). own_frame p f"
  shows "take (length (m_queue p) + 1) (pool_calls cs (FramePool_Put p r)) =
    map (\<lambda>f. ((QC_STATUS_OK, f), cleared p f)) (m_queue p @ [r])"
proof (rule nth_equalityI)
  let ?p = "FramePool_Put p r"
  show "length (take (length (m_queue p) + 1) (pool_calls cs ?p)) =
      length (map (\<lambda>f. ((QC_STATUS_OK, f), cleared p f)) (m_queue p @ [r]))"
    using assms(1) by (simp add: length_pool_calls)
  fix i assume "i < length (take (length (m_queue p) + 1) (pool_calls cs ?p))"
  then have i: "i < length (pool_calls cs ?p)" "i < length (m_queue ?p)" "i < length (m_queue p @ [r])"
    and q: "m_queue ?p = m_queue p @ [r]" by (simp_all add: FramePool_Put_def)
  have "map length (m_frameDescs ?p) = map length (m_frameDescs p)" by (simp add: FramePool_Put_def)
  from cleared_lengths [OF this] assms(2) nth_mem [OF i(3)]
  have o: "own_frame ?p ((m_queue p @ [r]) ! i)"
    "cleared ?p ((m_queue p @ [r]) ! i) = cleared p ((m_queue p @ [r]) ! i)" by blast+
  from pool_calls_fifo [OF i(2,1)] o
  have "pool_calls cs ?p ! i = ((QC_STATUS_OK, (m_queue p @ [r]) ! i), cleared p ((m_queue p @ [r]) ! i))"
    unfolding q by simp
  then show "take (length (m_queue p) + 1) (pool_calls cs ?p) ! i =
      map (\<lambda>f. ((QC_STATUS_OK, f), cleared p f)) (m_queue p @ [r]) ! i"
    using i(3) by (simp only: nth_map nth_take length_append list.size)
qed

lemma demo_frame_pool:
  "NodeFrameDescriptorPool_new 2 1 = \<lparr>m_frameDescs = [[0], [0]], m_queue = [Own 0, Own 1]\<rparr>"
proof -
  have n: "unat (2 :: u32) = Suc (Suc 0)" "unat (1 :: u32) = Suc 0" by simp_all
  show ?thesis unfolding NodeFrameDescriptorPool_new_def NodeFrameDescriptor_new_def n by simp
qed

theorem frame_handed_out_again_witness:
  "take 3 (pool_calls [CallGet, CallSet 0 0 7, CallSet 1 0 8, CallPut (Own 0), CallGet, CallGet]
     (FramePool_Put (NodeFrameDescriptorPool_new 2 1) (Client 9))) =
   [((QC_STATUS_OK, Own 0), Some [dummy_buffer]), ((QC_STATUS_OK, Own 1), Some [dummy_buffer]),
    ((QC_STATUS_OK, Client 9), None)]"
  unfolding demo_frame_pool
  using frame_handed_out_again [of "\<lparr>m_frameDescs = [[0], [0]], m_queue = [Own 0, Own 1]\<rparr>"
      "[CallGet, CallSet 0 0 7, CallSet 1 0 8, CallPut (Own 0), CallGet, CallGet]" "Client 9"]
  by (simp add: numeral_3_eq_3 del: pool_calls.simps take_Suc_Cons)

subsection \<open>A disciplined client\<close>

text \<open>The client gives back only what it holds, once, and writes only to frames it holds. The state is
  the pool and the frames the client holds.\<close>

inductive frame_step ::
  "NodeFrameDescriptorPool \<times> frame_ref set \<Rightarrow> NodeFrameDescriptorPool \<times> frame_ref set \<Rightarrow> bool" where
  step_Get: "FramePool_Get p = ((QC_STATUS_OK, r), p') \<Longrightarrow> frame_step (p, held) (p', insert r held)"
| step_Get_empty: "FramePool_Get p = ((s, r), p') \<Longrightarrow> s \<noteq> QC_STATUS_OK \<Longrightarrow>
    frame_step (p, held) (p', held)"
| step_Put: "r \<in> held \<Longrightarrow> frame_step (p, held) (FramePool_Put p r, held - {r})"
| step_Set: "Own i \<in> held \<Longrightarrow> SetBuffer (m_frameDescs p ! i) bid b = (s, fd) \<Longrightarrow>
    frame_step (p, held) (p\<lparr>m_frameDescs := (m_frameDescs p)[i := fd]\<rparr>, held)"

inductive frame_reach ::
  "u32 \<Rightarrow> u32 \<Rightarrow> NodeFrameDescriptorPool \<times> frame_ref set \<Rightarrow> bool" for n b where
  reach_new: "frame_reach n b (NodeFrameDescriptorPool_new n b, {})"
| reach_step: "frame_reach n b s \<Longrightarrow> frame_step s s' \<Longrightarrow> frame_reach n b s'"

definition frame_inv :: "u32 \<Rightarrow> u32 \<Rightarrow> NodeFrameDescriptorPool \<times> frame_ref set \<Rightarrow> bool" where
  "frame_inv n b = (\<lambda>(p, held).
     distinct (m_queue p) \<and> set (m_queue p) \<inter> held = {} \<and>
     set (m_queue p) \<union> held = Own ` {..<unat n} \<and>
     length (m_frameDescs p) = unat n \<and> (\<forall>fd \<in> set (m_frameDescs p). length fd = unat b))"

lemma length_clear_ref [simp]: "length (clear_ref r fds) = length fds"
  by (cases r) simp_all

lemma clear_ref_lengths:
  "\<forall>fd \<in> set fds. length fd = k \<Longrightarrow> \<forall>fd \<in> set (clear_ref r fds). length fd = k"
proof (cases r)
  case (Own i)
  assume "\<forall>fd \<in> set fds. length fd = k"
  then show ?thesis
    by (cases "i < length fds") (auto simp: Own Clear_def list_update_beyond
        dest!: set_update_subset_insert [THEN subsetD])
qed simp_all

lemma FramePool_Get_cases:
  assumes "FramePool_Get p = ((s, r), p')"
  obtains "m_queue p = []" "s = QC_STATUS_OUT_OF_BOUND" "p' = p"
  | (got) rest where "m_queue p = r # rest" "s = QC_STATUS_OK" "m_queue p' = rest"
      "m_frameDescs p' = clear_ref r (m_frameDescs p)"
proof (cases "m_queue p")
  case Nil
  then have g: "FramePool_Get p = ((QC_STATUS_OUT_OF_BOUND, DummyFrame), p)"
    by (simp add: FramePool_Get_def)
  show ?thesis
    by (rule that(1) [OF Nil]) (use trans [OF g [symmetric] assms] in \<open>elim Pair_inject; blast\<close>)+
next
  case (Cons x rest)
  let ?q = "p\<lparr>m_queue := rest, m_frameDescs := clear_ref x (m_frameDescs p)\<rparr>"
  have "FramePool_Get p = ((QC_STATUS_OK, x), ?q)" using Cons by (simp add: FramePool_Get_def)
  note e0 = trans [OF this [symmetric] assms, unfolded prod.inject]
  have e: "QC_STATUS_OK = s" "x = r" "?q = p'" using e0 by blast+
  have "m_queue ?q = rest" "m_frameDescs ?q = clear_ref x (m_frameDescs p)" by simp_all
  then have "m_queue p' = rest" "m_frameDescs p' = clear_ref x (m_frameDescs p)"
    by (simp_all only: e(3))
  with Cons show ?thesis by (intro that(2) [of rest]) (simp_all only: e(1,2))
qed

lemma frame_inv_step:
  assumes "frame_step s s'" "frame_inv n b s"
  shows "frame_inv n b s'"
  using assms(1)
proof (cases rule: frame_step.cases)
  case (step_Get p r p' held)
  from step_Get(3) show ?thesis
  proof (cases rule: FramePool_Get_cases)
    case (got rest)
    from assms(2) step_Get(1) got have "distinct (r # rest)" "set (r # rest) \<inter> held = {}"
      "set (r # rest) \<union> held = Own ` {..<unat n}" "length (m_frameDescs p) = unat n"
      "\<forall>fd \<in> set (m_frameDescs p). length fd = unat b"
      by (simp_all add: frame_inv_def)
    then show ?thesis
      using clear_ref_lengths [of "m_frameDescs p" "unat b" r] got
      by (auto simp: step_Get(2) frame_inv_def)
  qed simp
next
  case (step_Get_empty p st r p' held)
  from step_Get_empty(3) show ?thesis
    by (cases rule: FramePool_Get_cases) (use step_Get_empty assms(2) in simp_all)
next
  case (step_Put r held p)
  with assms(2) show ?thesis by (auto simp: frame_inv_def FramePool_Put_def)
next
  case (step_Set i held p bid bb st fd)
  with assms(2) have i: "i < length (m_frameDescs p)" by (auto simp: frame_inv_def)
  from step_Set(4) have "length fd = length (m_frameDescs p ! i)"
    by (auto simp: SetBuffer_def split: if_splits)
  with i assms(2) step_Set(1) have "\<forall>g \<in> set ((m_frameDescs p)[i := fd]). length g = unat b"
    by (auto simp: frame_inv_def dest!: set_update_subset_insert [THEN subsetD])
  with assms(2) step_Set(1) show ?thesis by (simp add: step_Set(2) frame_inv_def)
qed

lemma frame_inv_reach: "frame_reach n b s \<Longrightarrow> frame_inv n b s"
proof (induction rule: frame_reach.induct)
  case reach_new
  show ?case
    by (auto simp: frame_inv_def NodeFrameDescriptorPool_new_def NodeFrameDescriptor_new_def
        distinct_map inj_on_def)
next
  case (reach_step s s')
  then show ?case using frame_inv_step by blast
qed

text \<open>C31: a disciplined client gets frames of its own, cleared. In every state such a client reaches,
  a \<^verbatim>\<open>Get\<close> succeeds exactly while it holds fewer frames than the pool has; the frame is one it does
  not hold, with the configured number of buffers, all of them the dummy; and the frames it holds
  are as they were.\<close>

theorem frame_pool_exclusive:
  assumes "frame_reach n b (p, held)" "FramePool_Get p = ((s, r), p')"
  shows "(s = QC_STATUS_OK \<longleftrightarrow> card held < unat n) \<and>
    (s = QC_STATUS_OK \<longrightarrow> (\<exists>i < unat n. r = Own i \<and> Own i \<notin> held \<and>
      m_frameDescs p' ! i = NodeFrameDescriptor_new b)) \<and>
    (\<forall>i. Own i \<in> held \<longrightarrow> m_frameDescs p' ! i = m_frameDescs p ! i)"
proof -
  from frame_inv_reach [OF assms(1)] have q: "distinct (m_queue p)" "set (m_queue p) \<inter> held = {}"
    "set (m_queue p) \<union> held = Own ` {..<unat n}" "length (m_frameDescs p) = unat n"
    "\<forall>fd \<in> set (m_frameDescs p). length fd = unat b" by (simp_all add: frame_inv_def)
  have fin: "finite held" by (rule finite_subset [of _ "Own ` {..<unat n}"]) (use q(3) in auto)
  have "length (m_queue p) + card held = unat n"
  proof -
    have "card (set (m_queue p) \<union> held) = card (set (m_queue p)) + card held"
      using fin q(2) by (intro card_Un_disjoint) auto
    moreover have "card (Own ` {..<unat n}) = unat n" by (simp add: card_image inj_on_def)
    ultimately show ?thesis using q(1,3) by (simp add: distinct_card)
  qed
  then have iff: "m_queue p = [] \<longleftrightarrow> \<not> card held < unat n" by (cases "m_queue p") auto
  from assms(2) show ?thesis
  proof (cases rule: FramePool_Get_cases)
    case 1
    with iff show ?thesis by simp
  next
    case (got rest)
    from q(3) got obtain i where i: "r = Own i" "i < unat n" by auto
    have nh: "Own i \<notin> held" using q(2) got i by auto
    have "length (m_frameDescs p ! i) = unat b" using q(4,5) i(2) by simp
    then have "Clear (m_frameDescs p ! i) = NodeFrameDescriptor_new b"
      by (simp add: Clear_def NodeFrameDescriptor_new_def map_replicate_const)
    with q(4) i have new: "m_frameDescs p' ! i = NodeFrameDescriptor_new b" by (simp add: got(4))
    have "m_frameDescs p' ! j = m_frameDescs p ! j" if "Own j \<in> held" for j
      using that nh i by (cases "i = j") (simp_all add: got(4))
    with got iff i nh new show ?thesis by auto
  qed
qed

theorem frame_pool_exclusive_witness:
  "fst (FramePool_Get (NodeFrameDescriptorPool_new 2 1)) = (QC_STATUS_OK, Own 0)"
proof -
  let ?p = "NodeFrameDescriptorPool_new 2 1"
  obtain s r p' where g: "FramePool_Get ?p = ((s, r), p')" by (metis prod.collapse)
  from frame_pool_exclusive [OF reach_new g] have "s = QC_STATUS_OK" by simp
  with g show ?thesis
    by (simp add: FramePool_Get_def NodeFrameDescriptorPool_new_def upt_rec split: list.splits)
qed

end
