(* ===== verification/QC_Factory.thy ===== *)
theory QC_Factory
  imports QC_Descriptors QC_Dma
begin

text \<open>
  The factories: \<^verbatim>\<open>source/Infras/Memory/QCMemoryFactory.cpp\<close> creates allocators, buffer descriptors and
  memory managers by type, \<^verbatim>\<open>source/Node/Base/QCNodeFactory.cpp\<close> creates the nodes that were
  registered. Both list what they support, as numbers and as JSON text.

  The object a factory makes is named by a datatype of the kinds it can make, \<open>None\<close> for a null
  pointer; the platform is what the preprocessor tests. The registry of nodes is the map, as an
  association list, and the vector of types; a factory function is a parameter that says whether it
  returns an object.
\<close>

datatype platform = Linux | QNX | OtherPlatform

datatype allocator_object =
    HeapObject
  | DMABUFFObject QCMemoryAllocator_e
  | PMEMObject QCMemoryAllocator_e

definition CreateAllocator ::
  "platform \<Rightarrow> QCMemoryAllocator_e \<Rightarrow> QCStatus_e \<times> allocator_object option" where
  "CreateAllocator pf ty =
     (if ty = QC_MEMORY_ALLOCATOR_HEAP then (QC_STATUS_OK, Some HeapObject)
      else if ty = QC_MEMORY_ALLOCATOR_DMA \<or> ty = QC_MEMORY_ALLOCATOR_DMA_CAMERA \<or>
              ty = QC_MEMORY_ALLOCATOR_DMA_GPU \<or> ty = QC_MEMORY_ALLOCATOR_DMA_VPU \<or>
              ty = QC_MEMORY_ALLOCATOR_DMA_EVA \<or> ty = QC_MEMORY_ALLOCATOR_DMA_HTP then
        (case pf of
           Linux \<Rightarrow> (QC_STATUS_OK, Some (DMABUFFObject ty))
         | QNX \<Rightarrow> (QC_STATUS_OK, Some (PMEMObject ty))
         | OtherPlatform \<Rightarrow> (QC_STATUS_UNSUPPORTED, None))
      else (QC_STATUS_UNSUPPORTED, None))"

datatype descriptor_object = ImageObject | TensorObject | BaseObject

definition CreateBufferDescriptor ::
  "QCBufferType_e \<Rightarrow> QCStatus_e \<times> descriptor_object option" where
  "CreateBufferDescriptor ty =
     (if ty = QC_BUFFER_TYPE_IMAGE then (QC_STATUS_OK, Some ImageObject)
      else if ty = QC_BUFFER_TYPE_TENSOR then (QC_STATUS_OK, Some TensorObject)
      else if ty = QC_BUFFER_TYPE_RAW \<or> ty = QC_BUFFER_TYPE_TXT then (QC_STATUS_OK, Some BaseObject)
      else (QC_STATUS_UNSUPPORTED, None))"

datatype manager_object = ManagerLocalObject

definition CreateMemoryManager ::
  "QCMemoryManagerType_e \<Rightarrow> QCStatus_e \<times> manager_object option" where
  "CreateMemoryManager ty =
     (if ty = QC_MEMORY_MANAGER_LOCAL then (QC_STATUS_OK, Some ManagerLocalObject)
      else (QC_STATUS_UNSUPPORTED, None))"

subsection \<open>What is supported\<close>

definition GetSupportedAllocatorTypes :: "platform \<Rightarrow> QCMemoryAllocator_e list" where
  "GetSupportedAllocatorTypes pf =
     QC_MEMORY_ALLOCATOR_HEAP #
     (if pf = Linux \<or> pf = QNX
      then [QC_MEMORY_ALLOCATOR_DMA, QC_MEMORY_ALLOCATOR_DMA_CAMERA, QC_MEMORY_ALLOCATOR_DMA_GPU,
            QC_MEMORY_ALLOCATOR_DMA_VPU, QC_MEMORY_ALLOCATOR_DMA_EVA, QC_MEMORY_ALLOCATOR_DMA_HTP]
      else [])"

definition GetSupportedBufferDescriptorTypes :: "QCBufferType_e list" where
  "GetSupportedBufferDescriptorTypes =
     [QC_BUFFER_TYPE_TXT, QC_BUFFER_TYPE_RAW, QC_BUFFER_TYPE_IMAGE, QC_BUFFER_TYPE_TENSOR]"

definition GetSupportedMemoryManagerTypes :: "QCMemoryManagerType_e list" where
  "GetSupportedMemoryManagerTypes = [QC_MEMORY_MANAGER_LOCAL]"

text \<open>The loop that writes the JSON object: a type without a name in the table is left out, and a comma
  goes before every member but the first written.\<close>

fun json_members ::
  "(nat \<times> string) list \<Rightarrow> nat list \<Rightarrow> string \<Rightarrow> bool \<Rightarrow> string" where
  "json_members kNames [] json isFirst = json"
| "json_members kNames (ty # tys) json isFirst =
     (case map_of kNames ty of
        None \<Rightarrow> json_members kNames tys json isFirst
      | Some name \<Rightarrow>
          json_members kNames tys
            ((if isFirst then json else json @ '','') @
             [CHR 0x22] @ name @ [CHR 0x22] @ '':'' @ to_string ty) False)"

definition supported_json :: "(nat \<times> string) list \<Rightarrow> nat list \<Rightarrow> string" where
  "supported_json kNames tys = json_members kNames tys ''{'' True @ ''}''"

definition allocator_names :: "(nat \<times> string) list" where
  "allocator_names =
     [(QC_MEMORY_ALLOCATOR_HEAP, ''QC_MEMORY_ALLOCATOR_HEAP''),
      (QC_MEMORY_ALLOCATOR_DMA, ''QC_MEMORY_ALLOCATOR_DMA''),
      (QC_MEMORY_ALLOCATOR_DMA_CAMERA, ''QC_MEMORY_ALLOCATOR_DMA_CAMERA''),
      (QC_MEMORY_ALLOCATOR_DMA_GPU, ''QC_MEMORY_ALLOCATOR_DMA_GPU''),
      (QC_MEMORY_ALLOCATOR_DMA_VPU, ''QC_MEMORY_ALLOCATOR_DMA_VPU''),
      (QC_MEMORY_ALLOCATOR_DMA_EVA, ''QC_MEMORY_ALLOCATOR_DMA_EVA''),
      (QC_MEMORY_ALLOCATOR_DMA_HTP, ''QC_MEMORY_ALLOCATOR_DMA_HTP'')]"

definition GetSupportedAllocatorTypesJson :: "platform \<Rightarrow> string" where
  "GetSupportedAllocatorTypesJson pf = supported_json allocator_names (GetSupportedAllocatorTypes pf)"

definition buffer_type_names :: "(nat \<times> string) list" where
  "buffer_type_names =
     [(QC_BUFFER_TYPE_TXT, ''QC_BUFFER_TYPE_TXT''), (QC_BUFFER_TYPE_RAW, ''QC_BUFFER_TYPE_RAW''),
      (QC_BUFFER_TYPE_IMAGE, ''QC_BUFFER_TYPE_IMAGE''),
      (QC_BUFFER_TYPE_TENSOR, ''QC_BUFFER_TYPE_TENSOR''),
      (QC_BUFFER_TYPE_CUSTOM_0, ''QC_BUFFER_TYPE_CUSTOM_0''),
      (QC_BUFFER_TYPE_CUSTOM_1, ''QC_BUFFER_TYPE_CUSTOM_1''),
      (QC_BUFFER_TYPE_CUSTOM_2, ''QC_BUFFER_TYPE_CUSTOM_2''),
      (QC_BUFFER_TYPE_CUSTOM_3, ''QC_BUFFER_TYPE_CUSTOM_3''),
      (QC_BUFFER_TYPE_CUSTOM_4, ''QC_BUFFER_TYPE_CUSTOM_4'')]"

definition GetSupportedBufferDescriptorTypesJson :: string where
  "GetSupportedBufferDescriptorTypesJson =
     supported_json buffer_type_names GetSupportedBufferDescriptorTypes"

definition manager_names :: "(nat \<times> string) list" where
  "manager_names = [(QC_MEMORY_MANAGER_LOCAL, ''QC_MEMORY_MANAGER_LOCAL'')]"

definition GetSupportedMemoryManagerTypesJson :: string where
  "GetSupportedMemoryManagerTypesJson = supported_json manager_names GetSupportedMemoryManagerTypes"

subsection \<open>Nodes\<close>

record 'f node_registry =
  NodeMap :: "(QCNodeType_e \<times> 'f) list"
  NodeTypes :: "QCNodeType_e list"

text \<open>A duplicate registration trips an assertion, \<open>None\<close>, in a debug build and is ignored otherwise.\<close>

definition RegisterNode ::
  "bool \<Rightarrow> QCNodeType_e \<Rightarrow> 'f \<Rightarrow> 'f node_registry \<Rightarrow> 'f node_registry option" where
  "RegisterNode debug ty createFnc reg =
     (case map_of (NodeMap reg) ty of
        None \<Rightarrow> Some (reg\<lparr>NodeMap := (ty, createFnc) # NodeMap reg, NodeTypes := NodeTypes reg @ [ty]\<rparr>)
      | Some _ \<Rightarrow> if debug then None else Some reg)"

definition CreateNode ::
  "('f \<Rightarrow> 'n option) \<Rightarrow> 'f node_registry \<Rightarrow> QCNodeType_e \<Rightarrow> QCStatus_e \<times> 'n option" where
  "CreateNode call reg ty =
     (case map_of (NodeMap reg) ty of
        Some createFnc \<Rightarrow>
          (case call createFnc of None \<Rightarrow> (QC_STATUS_FAIL, None) | Some n \<Rightarrow> (QC_STATUS_OK, Some n))
      | None \<Rightarrow> (QC_STATUS_UNSUPPORTED, None))"

definition GetSupportedNodeTypes :: "'f node_registry \<Rightarrow> QCNodeType_e list" where
  "GetSupportedNodeTypes reg = NodeTypes reg"

definition node_type_names :: "(nat \<times> string) list" where
  "node_type_names =
     [(QC_NODE_TYPE_RESERVED, ''QC_NODE_TYPE_RESERVED''), (QC_NODE_TYPE_QNN, ''QC_NODE_TYPE_QNN''),
      (QC_NODE_TYPE_QCX, ''QC_NODE_TYPE_QCX''),
      (QC_NODE_TYPE_FADAS_REMAP, ''QC_NODE_TYPE_FADAS_REMAP''),
      (QC_NODE_TYPE_CL_2D_FLEX, ''QC_NODE_TYPE_CL_2D_FLEX''),
      (QC_NODE_TYPE_GL_2D_FLEX, ''QC_NODE_TYPE_GL_2D_FLEX''),
      (QC_NODE_TYPE_EVA_DFS, ''QC_NODE_TYPE_EVA_DFS''),
      (QC_NODE_TYPE_EVA_OPTICAL_FLOW, ''QC_NODE_TYPE_EVA_OPTICAL_FLOW''),
      (QC_NODE_TYPE_VENC, ''QC_NODE_TYPE_VENC''), (QC_NODE_TYPE_VDEC, ''QC_NODE_TYPE_VDEC''),
      (QC_NODE_TYPE_RADAR, ''QC_NODE_TYPE_RADAR''), (QC_NODE_TYPE_VOXEL, ''QC_NODE_TYPE_VOXEL''),
      (QC_NODE_TYPE_CUSTOM_0, ''QC_NODE_TYPE_CUSTOM_0''),
      (QC_NODE_TYPE_CUSTOM_1, ''QC_NODE_TYPE_CUSTOM_1''),
      (QC_NODE_TYPE_CUSTOM_2, ''QC_NODE_TYPE_CUSTOM_2''),
      (QC_NODE_TYPE_CUSTOM_3, ''QC_NODE_TYPE_CUSTOM_3''),
      (QC_NODE_TYPE_CUSTOM_4, ''QC_NODE_TYPE_CUSTOM_4'')]"

definition GetSupportedNodeTypesJson :: "'f node_registry \<Rightarrow> string" where
  "GetSupportedNodeTypesJson reg = supported_json node_type_names (GetSupportedNodeTypes reg)"

fun register_all ::
  "bool \<Rightarrow> (QCNodeType_e \<times> 'f) list \<Rightarrow> 'f node_registry \<Rightarrow> 'f node_registry option" where
  "register_all debug [] reg = Some reg"
| "register_all debug ((ty, f) # rest) reg =
     (case RegisterNode debug ty f reg of None \<Rightarrow> None | Some reg' \<Rightarrow> register_all debug rest reg')"

definition empty_registry :: "'f node_registry" where
  "empty_registry = \<lparr>NodeMap = [], NodeTypes = []\<rparr>"

lemma RegisterNode_map:
  "RegisterNode debug ty f reg = Some reg' \<Longrightarrow>
     map_of (NodeMap reg') = (case map_of (NodeMap reg) ty of None \<Rightarrow> (map_of (NodeMap reg))(ty \<mapsto> f)
       | Some _ \<Rightarrow> map_of (NodeMap reg)) \<and>
     (distinct (NodeTypes reg) \<and> set (NodeTypes reg) = dom (map_of (NodeMap reg)) \<longrightarrow>
        distinct (NodeTypes reg') \<and> set (NodeTypes reg') = dom (map_of (NodeMap reg')))"
  by (auto simp: RegisterNode_def split: option.splits if_splits)

subsection \<open>Supported means creatable\<close>

definition registry_ok :: "'f node_registry \<Rightarrow> bool" where
  "registry_ok reg \<longleftrightarrow> distinct (NodeTypes reg) \<and> set (NodeTypes reg) = dom (map_of (NodeMap reg))"

lemma registry_ok_empty: "registry_ok empty_registry"
  by (simp add: registry_ok_def empty_registry_def)

lemma RegisterNode_ok:
  "RegisterNode debug ty f reg = Some reg' \<Longrightarrow> registry_ok reg \<Longrightarrow> registry_ok reg'"
  using RegisterNode_map[of debug ty f reg reg'] by (simp add: registry_ok_def)

lemma register_all_ok:
  "register_all debug regs reg = Some reg' \<Longrightarrow> registry_ok reg \<Longrightarrow> registry_ok reg'"
  by (induction debug regs reg rule: register_all.induct)
     (auto split: option.splits dest: RegisterNode_ok)

lemma node_types_app [simp]: "GetSupportedNodeTypes reg = NodeTypes reg"
  by (simp add: GetSupportedNodeTypes_def)

text \<open>The first registration of a type is the one that counts.\<close>

lemma register_all_lookup:
  "register_all debug regs reg = Some reg' \<Longrightarrow>
     map_of (NodeMap reg') ty =
       (case map_of (NodeMap reg) ty of Some f \<Rightarrow> Some f | None \<Rightarrow> map_of regs ty)"
proof (induction debug regs reg rule: register_all.induct)
  case (2 debug ty' f rest reg)
  then obtain reg1 where r: "RegisterNode debug ty' f reg = Some reg1"
    and a: "register_all debug rest reg1 = Some reg'"
    by (auto split: option.splits)
  from RegisterNode_map[OF r] 2(1)[OF r a] show ?case
    by (cases "ty = ty'") (auto split: option.splits)
qed (auto split: option.splits)

lemma CreateNode_unsupported:
  "fst (CreateNode call reg ty) = QC_STATUS_UNSUPPORTED \<longleftrightarrow> ty \<notin> dom (map_of (NodeMap reg))"
  by (auto simp: CreateNode_def split: option.splits)

text \<open>The JSON text is the members, separated by commas.\<close>

fun join :: "string \<Rightarrow> string list \<Rightarrow> string" where
  "join sep [] = []"
| "join sep [x] = x"
| "join sep (x # y # xs) = x @ sep @ join sep (y # xs)"

definition json_member :: "(nat \<times> string) list \<Rightarrow> nat \<Rightarrow> string" where
  "json_member kNames ty = [CHR 0x22] @ the (map_of kNames ty) @ [CHR 0x22] @ '':'' @ to_string ty"

lemma join_Cons: "join sep (x # xs) = x @ concat (map (\<lambda>y. sep @ y) xs)"
  by (induction xs arbitrary: x) auto

lemma json_members_rest:
  "json_members kNames tys json False =
     json @ concat (map (\<lambda>ty. '','' @ json_member kNames ty)
                        (filter (\<lambda>ty. ty \<in> dom (map_of kNames)) tys))"
  by (induction tys arbitrary: json) (auto simp: json_member_def split: option.splits)

lemma json_members_first:
  "json_members kNames tys json True =
     json @ join '','' (map (json_member kNames) (filter (\<lambda>ty. ty \<in> dom (map_of kNames)) tys))"
  by (induction tys arbitrary: json)
     (auto simp: json_member_def json_members_rest join_Cons comp_def split: option.splits)

text \<open>A status of QC_STATUS_OK from the memory factory means exactly that the type is in the
  list of supported types, for allocators on each platform, buffer descriptors and memory managers.
  After any registrations the list of supported node types holds each type once, creating a node is
  refused as unsupported exactly for the types outside the list, a registered type is created by the
  factory function it was first registered with, and the JSON text has one member, with its name and
  number, for each supported type that has a name, in the order of the list.\<close>

theorem factory_supported_iff:
  assumes "register_all debug regs empty_registry = Some reg"
  shows "(\<forall>pf ty. fst (CreateAllocator pf ty) = QC_STATUS_OK \<longleftrightarrow>
            ty \<in> set (GetSupportedAllocatorTypes pf)) \<and>
         (\<forall>ty. fst (CreateBufferDescriptor ty) = QC_STATUS_OK \<longleftrightarrow>
            ty \<in> set GetSupportedBufferDescriptorTypes) \<and>
         (\<forall>ty. fst (CreateMemoryManager ty) = QC_STATUS_OK \<longleftrightarrow>
            ty \<in> set GetSupportedMemoryManagerTypes) \<and>
         distinct (GetSupportedNodeTypes reg) \<and>
         set (GetSupportedNodeTypes reg) = fst ` set regs \<and>
         (\<forall>ty. fst (CreateNode call reg ty) = QC_STATUS_UNSUPPORTED \<longleftrightarrow>
            ty \<notin> set (GetSupportedNodeTypes reg)) \<and>
         (\<forall>ty f. map_of regs ty = Some f \<longrightarrow>
            CreateNode call reg ty =
              (case call f of None \<Rightarrow> (QC_STATUS_FAIL, None) | Some n \<Rightarrow> (QC_STATUS_OK, Some n))) \<and>
         GetSupportedNodeTypesJson reg =
           ''{'' @ join '','' (map (json_member node_type_names)
              (filter (\<lambda>ty. ty \<in> dom (map_of node_type_names)) (GetSupportedNodeTypes reg))) @ ''}''"
proof -
  have ok: "registry_ok reg" by (rule register_all_ok[OF assms registry_ok_empty])
  have look: "map_of (NodeMap reg) = map_of regs"
    using register_all_lookup[OF assms] by (auto simp: empty_registry_def)
  have dom: "set (NodeTypes reg) = fst ` set regs"
    using ok look by (simp add: registry_ok_def dom_map_of_conv_image_fst)
  have un: "\<forall>ty. fst (CreateNode call reg ty) = QC_STATUS_UNSUPPORTED \<longleftrightarrow>
      ty \<notin> set (NodeTypes reg)"
    by (simp add: CreateNode_unsupported look dom dom_map_of_conv_image_fst)
  have cn: "\<forall>ty f. map_of regs ty = Some f \<longrightarrow>
      CreateNode call reg ty =
        (case call f of None \<Rightarrow> (QC_STATUS_FAIL, None) | Some n \<Rightarrow> (QC_STATUS_OK, Some n))"
    by (simp add: CreateNode_def look)
  show ?thesis
    using ok dom
    by (intro conjI un[folded node_types_app] cn)
       (auto simp: CreateAllocator_def CreateBufferDescriptor_def CreateMemoryManager_def
        GetSupportedAllocatorTypes_def GetSupportedBufferDescriptorTypes_def
        GetSupportedMemoryManagerTypes_def GetSupportedNodeTypesJson_def
        supported_json_def json_members_first registry_ok_def split: platform.splits)
qed

text \<open>Two nodes, one of them registered twice and one whose factory function returns no object.\<close>

definition demo_regs :: "(QCNodeType_e \<times> bool) list" where
  "demo_regs = [(QC_NODE_TYPE_QNN, True), (QC_NODE_TYPE_VENC, False), (QC_NODE_TYPE_QNN, False)]"

definition demo_registry :: "bool node_registry" where
  "demo_registry = the (register_all False demo_regs empty_registry)"

lemma factory_supported_iff_witness:
  "GetSupportedNodeTypes demo_registry = [QC_NODE_TYPE_QNN, QC_NODE_TYPE_VENC] \<and>
   fst (CreateNode (\<lambda>b. if b then Some (5::nat) else None) demo_registry QC_NODE_TYPE_VOXEL) =
     QC_STATUS_UNSUPPORTED \<and>
   CreateNode (\<lambda>b. if b then Some (5::nat) else None) demo_registry QC_NODE_TYPE_QNN =
     (QC_STATUS_OK, Some 5) \<and>
   CreateNode (\<lambda>b. if b then Some (5::nat) else None) demo_registry QC_NODE_TYPE_VENC =
     (QC_STATUS_FAIL, None)"
proof -
  have r: "register_all False demo_regs empty_registry = Some demo_registry" by code_simp
  have l: "GetSupportedNodeTypes demo_registry = [QC_NODE_TYPE_QNN, QC_NODE_TYPE_VENC]" by code_simp
  have m: "map_of demo_regs QC_NODE_TYPE_QNN = Some True"
    "map_of demo_regs QC_NODE_TYPE_VENC = Some False"
    by code_simp+
  note c = factory_supported_iff[OF r, of "\<lambda>b. if b then Some (5::nat) else None"]
  from c l m show ?thesis by auto
qed

end
