(* ===== verification/QC_VidcDrv.thy ===== *)
theory QC_VidcDrv
  imports QC_Descriptors "HOL-Library.AList"
begin

text \<open>
  The client of the video codec driver: \<^verbatim>\<open>source/Library/VideoCodec/VidcDrvClient.cpp\<close>, as built for
  Linux. It sends requests with \<^verbatim>\<open>device_ioctl\<close>, is called back by the driver's thread with messages,
  waits for the answers by polling, and keeps for each direction a map from the handle of a buffer to
  its descriptor and whether the driver has it.

  The driver and the timer are a parameter, the record \<open>vidc_os\<close>, with a state of their own, \<open>'w\<close>, that
  the client's state holds. A message of the driver is handled either while an operation sleeps, as
  part of \<open>MM_Timer_Sleep\<close>, or between two operations, as a step of its own; the locks of the code
  make every other access to the maps atomic. The client of the client, a codec node, gives three
  callbacks: they change the state of the node, of which the state of the driver client is a part,
  so every operation that may handle a message takes them as the argument \<open>cb\<close>.

  Constants and structures of the driver's headers, which are not part of the repository, are
  datatypes of the values the code gives them; a number the code depends on is a field of \<open>vidc_os\<close>.
\<close>

subsection \<open>Types\<close>

datatype VideoCodec_BufType_e = VIDEO_CODEC_BUF_INPUT | VIDEO_CODEC_BUF_OUTPUT
datatype VideoEncDecType_e = VIDEO_ENC | VIDEO_DEC
datatype VideoCodecType_e = VIDEO_CODEC_H265 | VIDEO_CODEC_H264
datatype VideoCodec_StartType_e =
  VIDEO_CODEC_START_OUTPUT | VIDEO_CODEC_START_INPUT | VIDEO_CODEC_START_ALL

datatype VideoCodec_EventType_e =
    VIDEO_CODEC_EVT_FLUSH_INPUT_DONE
  | VIDEO_CODEC_EVT_FLUSH_OUTPUT_DONE
  | VIDEO_CODEC_EVT_INPUT_RECONFIG
  | VIDEO_CODEC_EVT_OUTPUT_RECONFIG
  | VIDEO_CODEC_EVT_RESP_START
  | VIDEO_CODEC_EVT_RESP_START_INPUT_DONE
  | VIDEO_CODEC_EVT_RESP_START_OUTPUT_DONE
  | VIDEO_CODEC_EVT_RESP_PAUSE
  | VIDEO_CODEC_EVT_RESP_RESUME
  | VIDEO_CODEC_EVT_RESP_LOAD_RESOURCES
  | VIDEO_CODEC_EVT_RESP_RELEASE_RESOURCES
  | VIDEO_CODEC_EVT_RESP_STOP
  | VIDEO_CODEC_EVT_ERROR
  | VIDEO_CODEC_EVT_FATAL

fun event_number :: "VideoCodec_EventType_e \<Rightarrow> nat" where
  "event_number VIDEO_CODEC_EVT_FLUSH_INPUT_DONE = 0"
| "event_number VIDEO_CODEC_EVT_FLUSH_OUTPUT_DONE = 1"
| "event_number VIDEO_CODEC_EVT_INPUT_RECONFIG = 2"
| "event_number VIDEO_CODEC_EVT_OUTPUT_RECONFIG = 3"
| "event_number VIDEO_CODEC_EVT_RESP_START = 4"
| "event_number VIDEO_CODEC_EVT_RESP_START_INPUT_DONE = 5"
| "event_number VIDEO_CODEC_EVT_RESP_START_OUTPUT_DONE = 6"
| "event_number VIDEO_CODEC_EVT_RESP_PAUSE = 7"
| "event_number VIDEO_CODEC_EVT_RESP_RESUME = 8"
| "event_number VIDEO_CODEC_EVT_RESP_LOAD_RESOURCES = 9"
| "event_number VIDEO_CODEC_EVT_RESP_RELEASE_RESOURCES = 10"
| "event_number VIDEO_CODEC_EVT_RESP_STOP = 11"
| "event_number VIDEO_CODEC_EVT_ERROR = 0xf0000000"
| "event_number VIDEO_CODEC_EVT_FATAL = 0xf0000001"

datatype VideoCodec_CommandType_e =
    VIDEO_CODEC_COMMAND_NONE
  | VIDEO_CODEC_COMMAND_LOAD_RESOURCE
  | VIDEO_CODEC_COMMAND_START_INPUT
  | VIDEO_CODEC_COMMAND_START_OUTPUT
  | VIDEO_CODEC_COMMAND_START_ALL
  | VIDEO_CODEC_COMMAND_DRAIN
  | VIDEO_CODEC_COMMAND_INPUT_STOP
  | VIDEO_CODEC_COMMAND_OUTPUT_STOP
  | VIDEO_CODEC_COMMAND_STOP
  | VIDEO_CODEC_COMMAND_LAST_FLAG
  | VIDEO_CODEC_COMMAND_RELEASE_RESOURCE

record VidcCodecMeta =
  meta_width :: u32
  meta_height :: u32
  meta_frameRate :: u32
  meta_codecType :: VideoCodecType_e

text \<open>Structures of the driver. The fields the code never looks at are \<open>rq_other\<close> and \<open>pl_other\<close>.\<close>

datatype vidc_codec_type = VIDC_CODEC_HEVC | VIDC_CODEC_H264
datatype vidc_session_type = VIDC_SESSION_ENCODE | VIDC_SESSION_DECODE
datatype vidc_buffer_type = VIDC_BUFFER_INPUT | VIDC_BUFFER_OUTPUT
datatype vidc_buffer_mode_type = VIDC_BUFFER_MODE_DYNAMIC | VIDC_BUFFER_MODE_STATIC
datatype vidc_start_mode_type = VIDC_START_INPUT | VIDC_START_OUTPUT
datatype vidc_stop_mode_type = VIDC_STOP_INPUT | VIDC_STOP_OUTPUT
datatype vidc_color_format_type =
    VIDC_COLOR_FORMAT_UNUSED
  | VIDC_COLOR_FORMAT_NV12
  | VIDC_COLOR_FORMAT_NV12_UBWC
  | VIDC_COLOR_FORMAT_NV12_P010

text \<open>The values of a profile and of a level; the first is zero, which no level or profile has.\<close>

datatype vidc_profile =
    VIDC_PROFILE_ZERO
  | VIDC_PROFILE_H264_BASELINE
  | VIDC_PROFILE_H264_HIGH
  | VIDC_PROFILE_H264_MAIN
  | VIDC_PROFILE_HEVC_MAIN
  | VIDC_PROFILE_HEVC_MAIN10

datatype vidc_level =
    VIDC_LEVEL_ZERO
  | VIDC_LEVEL_H264_1 | VIDC_LEVEL_H264_1b | VIDC_LEVEL_H264_1p1 | VIDC_LEVEL_H264_1p2
  | VIDC_LEVEL_H264_1p3 | VIDC_LEVEL_H264_2 | VIDC_LEVEL_H264_2p1 | VIDC_LEVEL_H264_2p2
  | VIDC_LEVEL_H264_3 | VIDC_LEVEL_H264_3p1 | VIDC_LEVEL_H264_3p2 | VIDC_LEVEL_H264_4
  | VIDC_LEVEL_H264_4p1 | VIDC_LEVEL_H264_4p2 | VIDC_LEVEL_H264_5 | VIDC_LEVEL_H264_5p1
  | VIDC_LEVEL_HEVC_1 | VIDC_LEVEL_HEVC_2 | VIDC_LEVEL_HEVC_21 | VIDC_LEVEL_HEVC_3
  | VIDC_LEVEL_HEVC_31 | VIDC_LEVEL_HEVC_4 | VIDC_LEVEL_HEVC_41 | VIDC_LEVEL_HEVC_5
  | VIDC_LEVEL_HEVC_51 | VIDC_LEVEL_HEVC_52 | VIDC_LEVEL_HEVC_6

datatype VideoEncoder_RateControlMode_e =
    VIDEO_ENCODER_RCM_CBR_CFR
  | VIDEO_ENCODER_RCM_CBR_VFR
  | VIDEO_ENCODER_RCM_VBR_CFR
  | VIDEO_ENCODER_RCM_VBR_VFR
  | VIDEO_ENCODER_RCM_UNUSED

record vidc_buffer_reqmnts =
  rq_buf_type :: vidc_buffer_type
  rq_actual_count :: u32
  rq_size :: u32
  rq_other :: "u32 list"

record vidc_frame_rate =
  fr_buf_type :: vidc_buffer_type
  fps_numerator :: u32
  fps_denominator :: u32

record vidc_plane_def =
  pl_buf_type :: vidc_buffer_type
  plane_index :: u32
  actual_stride :: int
  pl_other :: "u32 list"

datatype vidc_property =
    VIDC_I_SESSION_CODEC vidc_session_type vidc_codec_type
  | VIDC_I_FRAME_RATE vidc_frame_rate
  | VIDC_I_FRAME_SIZE vidc_buffer_type u32 u32
  | VIDC_I_BUFFER_ALLOC_MODE vidc_buffer_type vidc_buffer_mode_type
  | VIDC_I_BUFFER_REQUIREMENTS vidc_buffer_reqmnts
  | VIDC_I_PLANE_DEF vidc_plane_def
  | VIDC_I_COLOR_FORMAT vidc_buffer_type vidc_color_format_type
  | VIDC_I_ENC_RATE_CONTROL VideoEncoder_RateControlMode_e
  | VIDC_I_ENC_INTRA_PERIOD u32 u32
  | VIDC_I_ENC_IDR_PERIOD u32
  | VIDC_I_TARGET_BITRATE u32
  | VIDC_I_ENC_SYNC_FRAME_SEQ_HDR bool
  | VIDC_I_PROFILE vidc_profile
  | VIDC_I_LEVEL vidc_level
  | VIDC_I_VPE_SPATIAL_TRANSFORM
  | VIDC_I_DEC_OUTPUT_ORDER
  | VIDC_I_DEC_CONT_ON_RECONFIG bool

record vidc_buffer_info =
  bi_buf_type :: vidc_buffer_type
  bi_buf_addr :: u64
  bi_buf_handle :: u64
  bi_pid :: int
  bi_buf_size :: u32
  bi_contiguous :: bool

record vidc_frame_data =
  frm_clnt_data :: u64
  fd_buf_type :: vidc_buffer_type
  frame_addr :: u64
  alloc_len :: u32
  fd_offset :: u32
  frame_handle :: u64
  fd_pid :: int
  data_len :: u32
  fd_timestamp :: u64
  mark_data :: u64
  fd_flags :: u32
  fd_frame_type :: nat

datatype vidc_request =
    VIDC_IOCTL_LOAD_RESOURCES
  | VIDC_IOCTL_RELEASE_RESOURCES
  | VIDC_IOCTL_START "vidc_start_mode_type option"
  | VIDC_IOCTL_STOP "vidc_stop_mode_type option"
  | VIDC_IOCTL_DRAIN
  | VIDC_IOCTL_SET_BUFFER vidc_buffer_info
  | VIDC_IOCTL_FREE_BUFFER vidc_buffer_info
  | VIDC_IOCTL_EMPTY_INPUT_BUFFER vidc_frame_data
  | VIDC_IOCTL_FILL_OUTPUT_BUFFER vidc_frame_data
  | VIDC_IOCTL_GET_PROPERTY vidc_property
  | VIDC_IOCTL_SET_PROPERTY vidc_property

datatype vidc_event_type =
    VIDC_EVT_RESP_FLUSH_INPUT_DONE
  | VIDC_EVT_INPUT_RECONFIG
  | VIDC_EVT_RESP_INPUT_DONE
  | VIDC_EVT_RESP_OUTPUT_DONE
  | VIDC_EVT_RESP_FLUSH_OUTPUT_DONE
  | VIDC_EVT_RESP_FLUSH_OUTPUT2_DONE
  | VIDC_EVT_OUTPUT_RECONFIG
  | VIDC_EVT_INFO_OUTPUT_RECONFIG
  | VIDC_EVT_ERR_HWFATAL
  | VIDC_EVT_ERR_CLIENTFATAL
  | VIDC_EVT_RESP_START
  | VIDC_EVT_RESP_START_INPUT_DONE
  | VIDC_EVT_RESP_START_OUTPUT_DONE
  | VIDC_EVT_RESP_PAUSE
  | VIDC_EVT_RESP_RESUME
  | VIDC_EVT_RESP_LOAD_RESOURCES
  | VIDC_EVT_RESP_RELEASE_RESOURCES
  | VIDC_EVT_RELEASE_BUFFER_REFERENCE
  | VIDC_EVT_RESP_DRAIN
  | VIDC_EVT_LAST_FLAG
  | VIDC_EVT_RESP_STOP_INPUT_DONE
  | VIDC_EVT_RESP_STOP_OUTPUT_DONE
  | VIDC_EVT_RESP_STOP
  | VIDC_EVT_unknown nat

text \<open>A message: its address, the length the driver gives for it and its contents.\<close>

record vidc_drv_msg =
  msg_addr :: u64
  msg_length :: u32
  event_type :: vidc_event_type
  frame_data :: vidc_frame_data

text \<open>The environment. A session is a pointer, null when the device cannot be opened. A request returns
  a code and, for a property that is read, the packet as the driver left it. A sleep returns the
  messages the driver delivered meanwhile.\<close>

record 'w vidc_os =
  device_open :: "'w \<Rightarrow> u64 \<times> 'w"
  device_close :: "u64 \<Rightarrow> 'w \<Rightarrow> 'w"
  device_ioctl :: "u64 \<Rightarrow> vidc_request \<Rightarrow> 'w \<Rightarrow> int \<times> vidc_property \<times> 'w"
  MM_Timer_Sleep :: "'w \<Rightarrow> vidc_drv_msg list \<times> 'w"
  VIDC_ERR_NONE :: int
  sizeof_property :: "vidc_property \<Rightarrow> nat"
  sizeof_property_hdr :: nat
  sizeof_msg_info :: nat
  VIDC_FRAME_NOTCODED :: nat

record VideoCodec_Info =
  frameDesc :: VideoFrameDescriptor
  bUsedFlag :: bool

record 'w VidcDrvClient =
  drv_world :: 'w
  m_pIoHandle :: u64
  m_codecType :: vidc_codec_type
  m_encDecType :: VideoEncDecType_e
  m_width :: u32
  m_height :: u32
  m_bInputDynamicMode :: bool
  m_bOutputDynamicMode :: bool
  m_cmdCompleted :: VideoCodec_CommandType_e
  m_bCmdDrainReceived :: bool
  m_bufNum :: "VideoCodec_BufType_e \<Rightarrow> u32"
  m_inputMap :: "(u64 \<times> VideoCodec_Info) list"
  m_outputMap :: "(u64 \<times> VideoCodec_Info) list"
  m_inputDoneCb :: u64
  m_outputDoneCb :: u64
  m_eventCb :: u64
  m_pAppPriv :: u64

record 's vidc_callbacks =
  inputDone :: "VideoFrameDescriptor \<Rightarrow> 's \<Rightarrow> 's"
  outputDone :: "VideoFrameDescriptor \<Rightarrow> 's \<Rightarrow> 's"
  event :: "VideoCodec_EventType_e \<Rightarrow> vidc_drv_msg \<Rightarrow> 's \<Rightarrow> 's"

fun vidc_buf_type :: "VideoCodec_BufType_e \<Rightarrow> vidc_buffer_type" where
  "vidc_buf_type VIDEO_CODEC_BUF_INPUT = VIDC_BUFFER_INPUT"
| "vidc_buf_type VIDEO_CODEC_BUF_OUTPUT = VIDC_BUFFER_OUTPUT"

subsection \<open>Requests and properties\<close>

definition ioctl ::
  "'w vidc_os \<Rightarrow> vidc_request \<Rightarrow> ('w, 'a) VidcDrvClient_scheme \<Rightarrow>
     int \<times> vidc_property \<times> ('w, 'a) VidcDrvClient_scheme" where
  "ioctl os req s =
     (case device_ioctl os (m_pIoHandle s) req (drv_world s) of
        (rc, pkt, w) \<Rightarrow> (rc, pkt, s\<lparr>drv_world := w\<rparr>))"

definition VIDEO_MAX_DEV_CMD_BUFFER_SIZE :: nat where
  "VIDEO_MAX_DEV_CMD_BUFFER_SIZE = 256"

definition property_too_large :: "'w vidc_os \<Rightarrow> vidc_property \<Rightarrow> bool" where
  "property_too_large os pkt =
     (let nPktSize = sizeof_property os pkt; nMsgSize = (sizeof_property_hdr os + nPktSize) mod 2 ^ 32
      in VIDEO_MAX_DEV_CMD_BUFFER_SIZE < nPktSize \<or> VIDEO_MAX_DEV_CMD_BUFFER_SIZE < nMsgSize)"

definition GetDrvProperty ::
  "'w vidc_os \<Rightarrow> vidc_property \<Rightarrow> ('w, 'a) VidcDrvClient_scheme \<Rightarrow>
     QCStatus_e \<times> vidc_property \<times> ('w, 'a) VidcDrvClient_scheme" where
  "GetDrvProperty os pkt s =
     (if property_too_large os pkt then (QC_STATUS_BAD_ARGUMENTS, pkt, s)
      else
        let (rc, pkt', s1) = ioctl os (VIDC_IOCTL_GET_PROPERTY pkt) s
        in (if rc \<noteq> VIDC_ERR_NONE os then QC_STATUS_FAIL else QC_STATUS_OK, pkt', s1))"

definition SetDrvProperty ::
  "'w vidc_os \<Rightarrow> vidc_property \<Rightarrow> ('w, 'a) VidcDrvClient_scheme \<Rightarrow>
     QCStatus_e \<times> ('w, 'a) VidcDrvClient_scheme" where
  "SetDrvProperty os pkt s =
     (if property_too_large os pkt then (QC_STATUS_BAD_ARGUMENTS, s)
      else
        let (rc, _, s1) = ioctl os (VIDC_IOCTL_SET_PROPERTY pkt) s
        in (if rc \<noteq> VIDC_ERR_NONE os then QC_STATUS_FAIL else QC_STATUS_OK, s1))"

text \<open>A packet that was read is used as the structure that was asked for.\<close>

fun as_reqmnts :: "vidc_property \<Rightarrow> vidc_buffer_reqmnts \<Rightarrow> vidc_buffer_reqmnts" where
  "as_reqmnts (VIDC_I_BUFFER_REQUIREMENTS r) _ = r"
| "as_reqmnts _ r = r"

fun as_frame_rate :: "vidc_property \<Rightarrow> vidc_frame_rate \<Rightarrow> vidc_frame_rate" where
  "as_frame_rate (VIDC_I_FRAME_RATE r) _ = r"
| "as_frame_rate _ r = r"

fun as_plane_def :: "vidc_property \<Rightarrow> vidc_plane_def \<Rightarrow> vidc_plane_def" where
  "as_plane_def (VIDC_I_PLANE_DEF r) _ = r"
| "as_plane_def _ r = r"

subsection \<open>Opening and configuring\<close>

definition Drv_Init ::
  "u32 \<Rightarrow> u32 \<Rightarrow> VideoEncDecType_e \<Rightarrow> ('w, 'a) VidcDrvClient_scheme \<Rightarrow>
     ('w, 'a) VidcDrvClient_scheme" where
  "Drv_Init numInputBufferReq numOutputBufferReq ty s =
     s\<lparr>m_bufNum := (m_bufNum s)(VIDEO_CODEC_BUF_INPUT := numInputBufferReq,
                                VIDEO_CODEC_BUF_OUTPUT := numOutputBufferReq),
       m_encDecType := ty\<rparr>"

definition InitDriver ::
  "'w vidc_os \<Rightarrow> VidcCodecMeta \<Rightarrow> ('w, 'a) VidcDrvClient_scheme \<Rightarrow>
     QCStatus_e \<times> ('w, 'a) VidcDrvClient_scheme" where
  "InitDriver os meta s =
     (let codec = (case meta_codecType meta of
                     VIDEO_CODEC_H265 \<Rightarrow> VIDC_CODEC_HEVC | VIDEO_CODEC_H264 \<Rightarrow> VIDC_CODEC_H264);
          s1 = s\<lparr>m_codecType := codec, m_width := meta_width meta, m_height := meta_height meta\<rparr>;
          session = (if m_encDecType s = VIDEO_DEC then VIDC_SESSION_DECODE else VIDC_SESSION_ENCODE);
          rate = (\<lambda>b. VIDC_I_FRAME_RATE \<lparr>fr_buf_type = b, fps_numerator = meta_frameRate meta,
                                          fps_denominator = 1\<rparr>);
          size' = (\<lambda>b. VIDC_I_FRAME_SIZE b (meta_width meta) (meta_height meta))
      in if_ok (if_ok (if_ok (if_ok
           (SetDrvProperty os (VIDC_I_SESSION_CODEC session codec) s1)
           (SetDrvProperty os (rate VIDC_BUFFER_OUTPUT)))
           (SetDrvProperty os (rate VIDC_BUFFER_INPUT)))
           (SetDrvProperty os (size' VIDC_BUFFER_INPUT)))
           (SetDrvProperty os (size' VIDC_BUFFER_OUTPUT)))"

definition OpenDriver ::
  "'w vidc_os \<Rightarrow> u64 \<Rightarrow> u64 \<Rightarrow> u64 \<Rightarrow> u64 \<Rightarrow> ('w, 'a) VidcDrvClient_scheme \<Rightarrow>
     QCStatus_e \<times> ('w, 'a) VidcDrvClient_scheme" where
  "OpenDriver os inputDoneCb outputDoneCb eventCb pAppPriv s =
     (if inputDoneCb \<noteq> nullptr \<and> outputDoneCb \<noteq> nullptr \<and> eventCb \<noteq> nullptr \<and> pAppPriv \<noteq> nullptr then
        let (h, w) = device_open os (drv_world s)
        in (if h = nullptr then QC_STATUS_BAD_ARGUMENTS else QC_STATUS_OK,
            s\<lparr>m_inputDoneCb := inputDoneCb, m_outputDoneCb := outputDoneCb, m_eventCb := eventCb,
              m_pAppPriv := pAppPriv, m_pIoHandle := h, drv_world := w\<rparr>)
      else (QC_STATUS_BAD_ARGUMENTS, s))"

definition CloseDriver ::
  "'w vidc_os \<Rightarrow> ('w, 'a) VidcDrvClient_scheme \<Rightarrow> ('w, 'a) VidcDrvClient_scheme" where
  "CloseDriver os s =
     (if m_pIoHandle s \<noteq> nullptr
      then s\<lparr>drv_world := device_close os (m_pIoHandle s) (drv_world s), m_pIoHandle := nullptr\<rparr>
      else s)"

definition SetDynamicMode ::
  "'w vidc_os \<Rightarrow> VideoCodec_BufType_e \<Rightarrow> bool \<Rightarrow> ('w, 'a) VidcDrvClient_scheme \<Rightarrow>
     QCStatus_e \<times> ('w, 'a) VidcDrvClient_scheme" where
  "SetDynamicMode os ty mode s =
     (let s1 = (case ty of VIDEO_CODEC_BUF_INPUT \<Rightarrow> s\<lparr>m_bInputDynamicMode := mode\<rparr>
                  | VIDEO_CODEC_BUF_OUTPUT \<Rightarrow> s\<lparr>m_bOutputDynamicMode := mode\<rparr>)
      in SetDrvProperty os
           (VIDC_I_BUFFER_ALLOC_MODE (vidc_buf_type ty)
              (if mode then VIDC_BUFFER_MODE_DYNAMIC else VIDC_BUFFER_MODE_STATIC)) s1)"

text \<open>\<open>NegotiateBufferReq\<close> returns the status, the number and the size of buffers and the state.\<close>

definition Drv_NegotiateBufferReq ::
  "'w vidc_os \<Rightarrow> VideoCodec_BufType_e \<Rightarrow> u32 \<Rightarrow> u32 \<Rightarrow> ('w, 'a) VidcDrvClient_scheme \<Rightarrow>
     QCStatus_e \<times> u32 \<times> u32 \<times> ('w, 'a) VidcDrvClient_scheme" where
  "Drv_NegotiateBufferReq os bufType bufNum bufSize s =
     (let req0 = \<lparr>rq_buf_type = vidc_buf_type bufType, rq_actual_count = 0, rq_size = 0,
                  rq_other = []\<rparr>;
          (ret, pkt, s1) = GetDrvProperty os (VIDC_I_BUFFER_REQUIREMENTS req0) s
      in if ret \<noteq> QC_STATUS_OK then (ret, bufNum, bufSize, s1)
         else
           let req = as_reqmnts pkt req0;
               (ret', bufNum', s') =
                 (if bufNum < rq_actual_count req then (ret, rq_actual_count req, s1)
                  else if rq_actual_count req < bufNum then
                    let req1 = req\<lparr>rq_actual_count := bufNum\<rparr>;
                        (ret2, s2) = SetDrvProperty os (VIDC_I_BUFFER_REQUIREMENTS req1) s1
                    in if ret2 = QC_STATUS_OK then
                         let (ret3, pkt3, s3) =
                               GetDrvProperty os (VIDC_I_BUFFER_REQUIREMENTS req1) s2
                         in (if ret3 = QC_STATUS_OK \<and>
                                bufNum \<noteq> rq_actual_count (as_reqmnts pkt3 req1)
                             then QC_STATUS_FAIL else ret3, bufNum, s3)
                       else (ret2, bufNum, s2)
                  else (ret, bufNum, s1))
           in (ret', bufNum', rq_size req, s'\<lparr>m_bufNum := (m_bufNum s')(bufType := bufNum')\<rparr>))"

subsection \<open>Buffers\<close>

definition info_init :: "'w vidc_os \<Rightarrow> VideoCodec_Info" where
  "info_init os = \<lparr>frameDesc = VideoFrameDescriptor_init (VIDC_FRAME_NOTCODED os), bUsedFlag = False\<rparr>"

text \<open>Assigning a descriptor, \<open>inFrameDesc = frameDesc\<close>, to the one of a fresh entry.\<close>

definition info_of :: "'w vidc_os \<Rightarrow> VideoFrameDescriptor \<Rightarrow> bool \<Rightarrow> VideoCodec_Info" where
  "info_of os d used =
     \<lparr>frameDesc = VideoFrameDescriptor_assign_any (frameDesc (info_init os)) (A_Video d),
      bUsedFlag = used\<rparr>"

text \<open>\<^verbatim>\<open>map[handle]\<close>, which makes an entry when there is none.\<close>

definition map_entry :: "'w vidc_os \<Rightarrow> u64 \<Rightarrow> (u64 \<times> VideoCodec_Info) list \<Rightarrow> VideoCodec_Info" where
  "map_entry os handle m = (case map_of m handle of Some i \<Rightarrow> i | None \<Rightarrow> info_init os)"

definition set_used ::
  "'w vidc_os \<Rightarrow> u64 \<Rightarrow> bool \<Rightarrow> (u64 \<times> VideoCodec_Info) list \<Rightarrow> (u64 \<times> VideoCodec_Info) list" where
  "set_used os handle used m = AList.update handle ((map_entry os handle m)\<lparr>bUsedFlag := used\<rparr>) m"

definition buf_info :: "vidc_buffer_type \<Rightarrow> VideoFrameDescriptor \<Rightarrow> int \<Rightarrow> vidc_buffer_info" where
  "buf_info ty buf pid =
     \<lparr>bi_buf_type = ty, bi_buf_addr = pBuf buf, bi_buf_handle = dmaHandle buf, bi_pid = pid,
      bi_buf_size = ucast (b_size buf), bi_contiguous = True\<rparr>"

fun Drv_SetBuffer ::
  "'w vidc_os \<Rightarrow> VideoCodec_BufType_e \<Rightarrow> VideoFrameDescriptor list \<Rightarrow>
     ('w, 'a) VidcDrvClient_scheme \<Rightarrow> QCStatus_e \<times> ('w, 'a) VidcDrvClient_scheme" where
  "Drv_SetBuffer os bufferType [] s = (QC_STATUS_OK, s)"
| "Drv_SetBuffer os bufferType (buf # rest) s =
     (let (rc, _, s1) =
        ioctl os (VIDC_IOCTL_SET_BUFFER (buf_info (vidc_buf_type bufferType) buf (b_pid buf))) s
      in if rc \<noteq> VIDC_ERR_NONE os then (QC_STATUS_FAIL, s1)
         else
           Drv_SetBuffer os bufferType rest
             (case bufferType of
                VIDEO_CODEC_BUF_INPUT \<Rightarrow>
                  s1\<lparr>m_inputMap := AList.update (dmaHandle buf) (info_of os buf False) (m_inputMap s1)\<rparr>
              | VIDEO_CODEC_BUF_OUTPUT \<Rightarrow>
                  s1\<lparr>m_outputMap :=
                       AList.update (dmaHandle buf) (info_of os buf False) (m_outputMap s1)\<rparr>))"

text \<open>All buffers are freed, whatever the driver answers. The process id is left out, zero.\<close>

fun free_loop ::
  "'w vidc_os \<Rightarrow> vidc_buffer_type \<Rightarrow> VideoFrameDescriptor list \<Rightarrow> QCStatus_e \<Rightarrow>
     ('w, 'a) VidcDrvClient_scheme \<Rightarrow> QCStatus_e \<times> ('w, 'a) VidcDrvClient_scheme" where
  "free_loop os ty [] ret s = (ret, s)"
| "free_loop os ty (buf # rest) ret s =
     (let (rc, _, s1) = ioctl os (VIDC_IOCTL_FREE_BUFFER (buf_info ty buf 0)) s
      in free_loop os ty rest (if rc \<noteq> VIDC_ERR_NONE os then QC_STATUS_FAIL else ret) s1)"

definition Drv_FreeBuffers ::
  "'w vidc_os \<Rightarrow> VideoCodec_BufType_e \<Rightarrow> VideoFrameDescriptor list \<Rightarrow>
     ('w, 'a) VidcDrvClient_scheme \<Rightarrow> QCStatus_e \<times> ('w, 'a) VidcDrvClient_scheme" where
  "Drv_FreeBuffers os bufferType buffers s =
     free_loop os (vidc_buf_type bufferType) buffers QC_STATUS_OK s"

text \<open>What \<open>EmptyBuffer\<close> and \<open>FillBuffer\<close> do under the lock: the status and the new map.\<close>

definition reserve_input ::
  "'w vidc_os \<Rightarrow> ('w, 'a) VidcDrvClient_scheme \<Rightarrow> VideoFrameDescriptor \<Rightarrow>
     QCStatus_e \<times> (u64 \<times> VideoCodec_Info) list" where
  "reserve_input os s d =
     (let handle = dmaHandle d; timestampUs = v_timestampNs d div 1000;
          stamp = (\<lambda>i. i\<lparr>frameDesc := (frameDesc i)\<lparr>v_timestampNs := 1000 * timestampUs,
                                                     v_appMarkData := v_appMarkData d\<rparr>\<rparr>);
          m = m_inputMap s
      in if m_bInputDynamicMode s then
           (case map_of m handle of
              Some i \<Rightarrow>
                if \<not> bUsedFlag i then
                  (QC_STATUS_OK, AList.update handle (stamp (i\<lparr>bUsedFlag := True\<rparr>)) m)
                else (QC_STATUS_NOMEM, m)
            | None \<Rightarrow>
                if length m < unat (m_bufNum s VIDEO_CODEC_BUF_INPUT) then
                  (QC_STATUS_OK, AList.update handle (stamp (info_of os d True)) m)
                else (QC_STATUS_NOMEM, m))
         else
           (case map_of m handle of
              Some i \<Rightarrow>
                if \<not> bUsedFlag i then
                  (QC_STATUS_OK, AList.update handle (stamp (i\<lparr>bUsedFlag := True\<rparr>)) m)
                else (QC_STATUS_NOMEM, m)
            | None \<Rightarrow> (QC_STATUS_NOMEM, m)))"

definition reserve_output ::
  "'w vidc_os \<Rightarrow> ('w, 'a) VidcDrvClient_scheme \<Rightarrow> VideoFrameDescriptor \<Rightarrow>
     QCStatus_e \<times> (u64 \<times> VideoCodec_Info) list" where
  "reserve_output os s d =
     (let handle = dmaHandle d;
          stamp = (\<lambda>i. i\<lparr>frameDesc := (frameDesc i)\<lparr>v_timestampNs := v_timestampNs d,
                                                     v_appMarkData := v_appMarkData d\<rparr>\<rparr>);
          m = m_outputMap s
      in if m_bOutputDynamicMode s then
           (case map_of m handle of
              Some i \<Rightarrow>
                if \<not> bUsedFlag i then
                  (QC_STATUS_OK, AList.update handle (stamp (i\<lparr>bUsedFlag := True\<rparr>)) m)
                else (QC_STATUS_NOMEM, m)
            | None \<Rightarrow>
                if length m < unat (m_bufNum s VIDEO_CODEC_BUF_OUTPUT) then
                  (QC_STATUS_OK, AList.update handle (stamp (info_of os d True)) m)
                else (QC_STATUS_NOMEM, m))
         else
           (case map_of m handle of
              Some i \<Rightarrow>
                if \<not> bUsedFlag i then (QC_STATUS_OK, AList.update handle (i\<lparr>bUsedFlag := True\<rparr>) m)
                else (QC_STATUS_NOMEM, m)
            | None \<Rightarrow> (QC_STATUS_NOMEM, m)))"

definition input_frame_data :: "VideoFrameDescriptor \<Rightarrow> vidc_frame_data" where
  "input_frame_data d =
     \<lparr>frm_clnt_data = dmaHandle d, fd_buf_type = VIDC_BUFFER_INPUT, frame_addr = pBuf d,
      alloc_len = ucast (b_size d), fd_offset = ucast (offset d), frame_handle = dmaHandle d,
      fd_pid = b_pid d, data_len = ucast (validSize d), fd_timestamp = v_timestampNs d div 1000,
      mark_data = v_appMarkData d, fd_flags = 0, fd_frame_type = 0\<rparr>"

definition output_frame_data :: "VideoFrameDescriptor \<Rightarrow> vidc_frame_data" where
  "output_frame_data d =
     \<lparr>frm_clnt_data = dmaHandle d, fd_buf_type = VIDC_BUFFER_OUTPUT, frame_addr = pBuf d,
      alloc_len = ucast (b_size d), fd_offset = ucast (offset d), frame_handle = dmaHandle d,
      fd_pid = b_pid d, data_len = ucast (b_size d), fd_timestamp = 0, mark_data = 0, fd_flags = 0,
      fd_frame_type = 0\<rparr>"

definition EmptyBuffer ::
  "'w vidc_os \<Rightarrow> VideoFrameDescriptor \<Rightarrow> ('w, 'a) VidcDrvClient_scheme \<Rightarrow>
     QCStatus_e \<times> ('w, 'a) VidcDrvClient_scheme" where
  "EmptyBuffer os d s =
     (let (ret, m) = reserve_input os s d
      in if ret \<noteq> QC_STATUS_OK then (ret, s)
         else
           let (rc, _, s1) =
             ioctl os (VIDC_IOCTL_EMPTY_INPUT_BUFFER (input_frame_data d)) (s\<lparr>m_inputMap := m\<rparr>)
           in if rc = VIDC_ERR_NONE os then (ret, s1)
              else (QC_STATUS_FAIL,
                    s1\<lparr>m_inputMap := set_used os (dmaHandle d) False (m_inputMap s1)\<rparr>))"

definition FillBuffer ::
  "'w vidc_os \<Rightarrow> VideoFrameDescriptor \<Rightarrow> ('w, 'a) VidcDrvClient_scheme \<Rightarrow>
     QCStatus_e \<times> ('w, 'a) VidcDrvClient_scheme" where
  "FillBuffer os d s =
     (let (ret, m) = reserve_output os s d
      in if ret \<noteq> QC_STATUS_OK then (ret, s)
         else
           let (rc, _, s1) =
             ioctl os (VIDC_IOCTL_FILL_OUTPUT_BUFFER (output_frame_data d)) (s\<lparr>m_outputMap := m\<rparr>)
           in if rc \<noteq> VIDC_ERR_NONE os
              then (QC_STATUS_FAIL,
                    s1\<lparr>m_outputMap := set_used os (dmaHandle d) False (m_outputMap s1)\<rparr>)
              else (ret, s1))"

subsection \<open>Messages of the driver\<close>

text \<open>A buffer comes back: the entry is marked free and a copy of the descriptor goes to the node.\<close>

definition input_done ::
  "'w vidc_os \<Rightarrow> ('w, 'a) VidcDrvClient_scheme vidc_callbacks \<Rightarrow> vidc_drv_msg \<Rightarrow>
     ('w, 'a) VidcDrvClient_scheme \<Rightarrow> ('w, 'a) VidcDrvClient_scheme" where
  "input_done os cb msg s =
     (let h = frm_clnt_data (frame_data msg)
      in if map_of (m_inputMap s) h \<noteq> None then
           let m = set_used os h False (m_inputMap s)
           in inputDone cb (frameDesc (info_of os (frameDesc (map_entry os h m)) False))
                (s\<lparr>m_inputMap := m\<rparr>)
         else event cb VIDEO_CODEC_EVT_ERROR msg s)"

definition output_done ::
  "'w vidc_os \<Rightarrow> ('w, 'a) VidcDrvClient_scheme vidc_callbacks \<Rightarrow> vidc_drv_msg \<Rightarrow>
     ('w, 'a) VidcDrvClient_scheme \<Rightarrow> ('w, 'a) VidcDrvClient_scheme" where
  "output_done os cb msg s =
     (let fd = frame_data msg; h = frm_clnt_data fd
      in if map_of (m_outputMap s) h \<noteq> None then
           let m = set_used os h False (m_outputMap s);
               d = frameDesc (info_of os (frameDesc (map_entry os h m)) False);
               s1 = s\<lparr>m_outputMap := m\<rparr>
           in if pBuf d = frame_addr fd then
                outputDone cb
                  (d\<lparr>validSize := ucast (data_len fd), v_appMarkData := mark_data fd,
                     v_timestampNs := fd_timestamp fd * 1000, v_frameFlag := fd_flags fd,
                     v_frameType := fd_frame_type fd\<rparr>) s1
              else event cb VIDEO_CODEC_EVT_ERROR msg s1
         else event cb VIDEO_CODEC_EVT_ERROR msg s)"

definition DeviceCbHandler ::
  "'w vidc_os \<Rightarrow> ('w, 'a) VidcDrvClient_scheme vidc_callbacks \<Rightarrow> vidc_drv_msg \<Rightarrow>
     ('w, 'a) VidcDrvClient_scheme \<Rightarrow> int \<times> ('w, 'a) VidcDrvClient_scheme" where
  "DeviceCbHandler os cb msg s =
     (if msg_addr msg = nullptr \<or> unat (msg_length msg) < sizeof_msg_info os then (-1, s)
      else case event_type msg of
        VIDC_EVT_RESP_FLUSH_INPUT_DONE \<Rightarrow> (0, event cb VIDEO_CODEC_EVT_FLUSH_INPUT_DONE msg s)
      | VIDC_EVT_INPUT_RECONFIG \<Rightarrow> (0, event cb VIDEO_CODEC_EVT_INPUT_RECONFIG msg s)
      | VIDC_EVT_RESP_INPUT_DONE \<Rightarrow>
          if frame_addr (frame_data msg) = nullptr then (-1, s) else (0, input_done os cb msg s)
      | VIDC_EVT_RESP_OUTPUT_DONE \<Rightarrow>
          (0, if frame_addr (frame_data msg) \<noteq> nullptr then output_done os cb msg s else s)
      | VIDC_EVT_RESP_FLUSH_OUTPUT_DONE \<Rightarrow> (0, event cb VIDEO_CODEC_EVT_FLUSH_OUTPUT_DONE msg s)
      | VIDC_EVT_RESP_FLUSH_OUTPUT2_DONE \<Rightarrow> (0, event cb VIDEO_CODEC_EVT_FLUSH_OUTPUT_DONE msg s)
      | VIDC_EVT_OUTPUT_RECONFIG \<Rightarrow> (0, event cb VIDEO_CODEC_EVT_OUTPUT_RECONFIG msg s)
      | VIDC_EVT_INFO_OUTPUT_RECONFIG \<Rightarrow> (0, event cb VIDEO_CODEC_EVT_ERROR msg s)
      | VIDC_EVT_ERR_HWFATAL \<Rightarrow> (0, event cb VIDEO_CODEC_EVT_FATAL msg s)
      | VIDC_EVT_ERR_CLIENTFATAL \<Rightarrow> (0, event cb VIDEO_CODEC_EVT_FATAL msg s)
      | VIDC_EVT_RESP_START \<Rightarrow>
          (0, event cb VIDEO_CODEC_EVT_RESP_START msg
                (s\<lparr>m_cmdCompleted := VIDEO_CODEC_COMMAND_START_ALL\<rparr>))
      | VIDC_EVT_RESP_START_INPUT_DONE \<Rightarrow>
          (0, event cb VIDEO_CODEC_EVT_RESP_START_INPUT_DONE msg
                (s\<lparr>m_cmdCompleted := VIDEO_CODEC_COMMAND_START_INPUT\<rparr>))
      | VIDC_EVT_RESP_START_OUTPUT_DONE \<Rightarrow>
          (0, event cb VIDEO_CODEC_EVT_RESP_START_OUTPUT_DONE msg
                (s\<lparr>m_cmdCompleted := VIDEO_CODEC_COMMAND_START_OUTPUT\<rparr>))
      | VIDC_EVT_RESP_PAUSE \<Rightarrow> (0, event cb VIDEO_CODEC_EVT_RESP_PAUSE msg s)
      | VIDC_EVT_RESP_RESUME \<Rightarrow> (0, event cb VIDEO_CODEC_EVT_RESP_RESUME msg s)
      | VIDC_EVT_RESP_LOAD_RESOURCES \<Rightarrow>
          (0, event cb VIDEO_CODEC_EVT_RESP_LOAD_RESOURCES msg
                (s\<lparr>m_cmdCompleted := VIDEO_CODEC_COMMAND_LOAD_RESOURCE\<rparr>))
      | VIDC_EVT_RESP_RELEASE_RESOURCES \<Rightarrow>
          (0, event cb VIDEO_CODEC_EVT_RESP_RELEASE_RESOURCES msg
                (s\<lparr>m_cmdCompleted := VIDEO_CODEC_COMMAND_RELEASE_RESOURCE\<rparr>))
      | VIDC_EVT_RELEASE_BUFFER_REFERENCE \<Rightarrow> (0, event cb VIDEO_CODEC_EVT_ERROR msg s)
      | VIDC_EVT_RESP_DRAIN \<Rightarrow> (0, s\<lparr>m_bCmdDrainReceived := True\<rparr>)
      | VIDC_EVT_LAST_FLAG \<Rightarrow> (0, s\<lparr>m_cmdCompleted := VIDEO_CODEC_COMMAND_LAST_FLAG\<rparr>)
      | VIDC_EVT_RESP_STOP_INPUT_DONE \<Rightarrow> (0, s\<lparr>m_cmdCompleted := VIDEO_CODEC_COMMAND_INPUT_STOP\<rparr>)
      | VIDC_EVT_RESP_STOP_OUTPUT_DONE \<Rightarrow> (0, s\<lparr>m_cmdCompleted := VIDEO_CODEC_COMMAND_OUTPUT_STOP\<rparr>)
      | VIDC_EVT_RESP_STOP \<Rightarrow>
          (0, event cb VIDEO_CODEC_EVT_RESP_STOP msg (s\<lparr>m_cmdCompleted := VIDEO_CODEC_COMMAND_STOP\<rparr>))
      | VIDC_EVT_unknown n \<Rightarrow> (-1, s))"

definition deliver ::
  "'w vidc_os \<Rightarrow> ('w, 'a) VidcDrvClient_scheme vidc_callbacks \<Rightarrow> vidc_drv_msg list \<Rightarrow>
     ('w, 'a) VidcDrvClient_scheme \<Rightarrow> ('w, 'a) VidcDrvClient_scheme" where
  "deliver os cb msgs s = fold (\<lambda>msg s. snd (DeviceCbHandler os cb msg s)) msgs s"

subsection \<open>Waiting\<close>

text \<open>One sleep: the driver delivers what it has.\<close>

definition sleep ::
  "'w vidc_os \<Rightarrow> ('w, 'a) VidcDrvClient_scheme vidc_callbacks \<Rightarrow>
     ('w, 'a) VidcDrvClient_scheme \<Rightarrow> ('w, 'a) VidcDrvClient_scheme" where
  "sleep os cb s =
     (let (msgs, w) = MM_Timer_Sleep os (drv_world s) in deliver os cb msgs (s\<lparr>drv_world := w\<rparr>))"

text \<open>A loop that polls: \<open>done\<close> is the test of \<^verbatim>\<open>while\<close> negated, \<open>counter\<close> the number of sleeps so far.\<close>

function wait_loop ::
  "('s \<Rightarrow> 's) \<Rightarrow> ('s \<Rightarrow> bool) \<Rightarrow> int \<Rightarrow> int \<Rightarrow> 's \<Rightarrow> QCStatus_e \<times> 's" where
  "wait_loop slp done' timeoutMs counter s =
     (if done' s then (QC_STATUS_OK, s)
      else
        let s1 = slp s
        in if timeoutMs < counter + 1 then (QC_STATUS_TIMEOUT, s1)
           else wait_loop slp done' timeoutMs (counter + 1) s1)"
  by pat_completeness auto
termination
  by (relation "measure (\<lambda>(slp, done', timeoutMs, counter, s). nat (timeoutMs - counter))") auto

declare wait_loop.simps [simp del]

definition WAIT_TIMEOUT_10_MSEC :: int where "WAIT_TIMEOUT_10_MSEC = 10"
definition WAIT_TIMEOUT_100_MSEC :: int where "WAIT_TIMEOUT_100_MSEC = 100"

definition WaitForCmdCompleted ::
  "'w vidc_os \<Rightarrow> ('w, 'a) VidcDrvClient_scheme vidc_callbacks \<Rightarrow> VideoCodec_CommandType_e \<Rightarrow> int \<Rightarrow>
     ('w, 'a) VidcDrvClient_scheme \<Rightarrow> QCStatus_e \<times> ('w, 'a) VidcDrvClient_scheme" where
  "WaitForCmdCompleted os cb expectedCmd timeoutMs s =
     wait_loop (sleep os cb) (\<lambda>s. m_cmdCompleted s = expectedCmd) timeoutMs 0 s"

definition InitCmdCompleted ::
  "('w, 'a) VidcDrvClient_scheme \<Rightarrow> ('w, 'a) VidcDrvClient_scheme" where
  "InitCmdCompleted s = s\<lparr>m_cmdCompleted := VIDEO_CODEC_COMMAND_NONE\<rparr>"

subsection \<open>Commands\<close>

text \<open>A request the driver answers with a message, and the wait for it.\<close>

definition command ::
  "'w vidc_os \<Rightarrow> ('w, 'a) VidcDrvClient_scheme vidc_callbacks \<Rightarrow> vidc_request \<Rightarrow>
     VideoCodec_CommandType_e \<Rightarrow> int \<Rightarrow> ('w, 'a) VidcDrvClient_scheme \<Rightarrow>
     QCStatus_e \<times> ('w, 'a) VidcDrvClient_scheme" where
  "command os cb req cmd timeoutMs s =
     (let (rc, _, s1) = ioctl os req (InitCmdCompleted s)
      in if rc \<noteq> VIDC_ERR_NONE os then (QC_STATUS_FAIL, s1)
         else WaitForCmdCompleted os cb cmd timeoutMs s1)"

definition LoadResources ::
  "'w vidc_os \<Rightarrow> ('w, 'a) VidcDrvClient_scheme vidc_callbacks \<Rightarrow>
     ('w, 'a) VidcDrvClient_scheme \<Rightarrow> QCStatus_e \<times> ('w, 'a) VidcDrvClient_scheme" where
  "LoadResources os cb s =
     command os cb VIDC_IOCTL_LOAD_RESOURCES VIDEO_CODEC_COMMAND_LOAD_RESOURCE
       WAIT_TIMEOUT_10_MSEC s"

definition ReleaseResources ::
  "'w vidc_os \<Rightarrow> ('w, 'a) VidcDrvClient_scheme vidc_callbacks \<Rightarrow>
     ('w, 'a) VidcDrvClient_scheme \<Rightarrow> QCStatus_e \<times> ('w, 'a) VidcDrvClient_scheme" where
  "ReleaseResources os cb s =
     command os cb VIDC_IOCTL_RELEASE_RESOURCES VIDEO_CODEC_COMMAND_RELEASE_RESOURCE
       WAIT_TIMEOUT_10_MSEC s"

text \<open>Starting the output is not waited for: it is done in a callback, on the driver's own thread.\<close>

definition start_output ::
  "'w vidc_os \<Rightarrow> ('w, 'a) VidcDrvClient_scheme \<Rightarrow> QCStatus_e \<times> ('w, 'a) VidcDrvClient_scheme" where
  "start_output os s =
     (let (rc, _, s1) = ioctl os (VIDC_IOCTL_START (Some VIDC_START_OUTPUT)) (InitCmdCompleted s)
      in (if rc \<noteq> VIDC_ERR_NONE os then QC_STATUS_FAIL else QC_STATUS_OK, s1))"

definition StartDriver ::
  "'w vidc_os \<Rightarrow> ('w, 'a) VidcDrvClient_scheme vidc_callbacks \<Rightarrow> VideoCodec_StartType_e \<Rightarrow>
     ('w, 'a) VidcDrvClient_scheme \<Rightarrow> QCStatus_e \<times> ('w, 'a) VidcDrvClient_scheme" where
  "StartDriver os cb ty s =
     (case ty of
        VIDEO_CODEC_START_OUTPUT \<Rightarrow> start_output os s
      | VIDEO_CODEC_START_INPUT \<Rightarrow>
          command os cb (VIDC_IOCTL_START (Some VIDC_START_INPUT)) VIDEO_CODEC_COMMAND_START_INPUT
            WAIT_TIMEOUT_10_MSEC s
      | VIDEO_CODEC_START_ALL \<Rightarrow>
          command os cb (VIDC_IOCTL_START None) VIDEO_CODEC_COMMAND_START_ALL WAIT_TIMEOUT_10_MSEC s)"

text \<open>Any failure to stop, a timeout too, is reported as QC_STATUS_FAIL.\<close>

definition or_fail :: "QCStatus_e \<times> 's \<Rightarrow> QCStatus_e \<times> 's" where
  "or_fail r = (case r of (ret, s) \<Rightarrow> (if ret = QC_STATUS_OK then QC_STATUS_OK else QC_STATUS_FAIL, s))"

definition StopEncoder ::
  "'w vidc_os \<Rightarrow> ('w, 'a) VidcDrvClient_scheme vidc_callbacks \<Rightarrow>
     ('w, 'a) VidcDrvClient_scheme \<Rightarrow> QCStatus_e \<times> ('w, 'a) VidcDrvClient_scheme" where
  "StopEncoder os cb s =
     or_fail (command os cb (VIDC_IOCTL_STOP None) VIDEO_CODEC_COMMAND_STOP WAIT_TIMEOUT_100_MSEC s)"

definition drain ::
  "'w vidc_os \<Rightarrow> ('w, 'a) VidcDrvClient_scheme vidc_callbacks \<Rightarrow>
     ('w, 'a) VidcDrvClient_scheme \<Rightarrow> QCStatus_e \<times> ('w, 'a) VidcDrvClient_scheme" where
  "drain os cb s =
     (let (rc, _, s1) =
        ioctl os VIDC_IOCTL_DRAIN ((InitCmdCompleted s)\<lparr>m_bCmdDrainReceived := False\<rparr>)
      in if rc \<noteq> VIDC_ERR_NONE os then (QC_STATUS_FAIL, s1)
         else
           let (ret, s2) =
             WaitForCmdCompleted os cb VIDEO_CODEC_COMMAND_LAST_FLAG WAIT_TIMEOUT_10_MSEC s1
           in (if ret \<noteq> QC_STATUS_OK \<or> \<not> m_bCmdDrainReceived s2 then QC_STATUS_FAIL
               else QC_STATUS_OK, s2))"

definition StopDecoder ::
  "'w vidc_os \<Rightarrow> ('w, 'a) VidcDrvClient_scheme vidc_callbacks \<Rightarrow>
     ('w, 'a) VidcDrvClient_scheme \<Rightarrow> QCStatus_e \<times> ('w, 'a) VidcDrvClient_scheme" where
  "StopDecoder os cb s =
     if_ok (if_ok (drain os cb s)
       (\<lambda>s. or_fail (command os cb (VIDC_IOCTL_STOP (Some VIDC_STOP_INPUT))
                       VIDEO_CODEC_COMMAND_INPUT_STOP WAIT_TIMEOUT_10_MSEC s)))
       (\<lambda>s. or_fail (command os cb (VIDC_IOCTL_STOP (Some VIDC_STOP_OUTPUT))
                       VIDEO_CODEC_COMMAND_OUTPUT_STOP WAIT_TIMEOUT_10_MSEC s))"

end
