(* ===== verification/QC_NodeBase.thy ===== *)
theory QC_NodeBase
  imports QC_DataTree QC_Descriptors
begin

text \<open>
  The logger, \<^verbatim>\<open>source/Common/Logger.cpp\<close>, and what every node shares,
  \<^verbatim>\<open>source/Node/Base/NodeBase.cpp\<close>: the check of the common part of a configuration and the set-up of
  the node's logger.

  The three functions of a logging backend are a parameter, called through a function pointer, and
  so is the environment. A pointer is a \<open>u64\<close>; the handle the backend creates is null before. The
  logger object, which a node shares with its configuration, and the static members are explicit
  states.
\<close>

subsection \<open>Logger\<close>

type_synonym Logger_Level_e = int

abbreviation (input) LOGGER_LEVEL_VERBOSE :: Logger_Level_e where "LOGGER_LEVEL_VERBOSE \<equiv> 0"
abbreviation (input) LOGGER_LEVEL_DEBUG :: Logger_Level_e where "LOGGER_LEVEL_DEBUG \<equiv> 1"
abbreviation (input) LOGGER_LEVEL_INFO :: Logger_Level_e where "LOGGER_LEVEL_INFO \<equiv> 2"
abbreviation (input) LOGGER_LEVEL_WARN :: Logger_Level_e where "LOGGER_LEVEL_WARN \<equiv> 3"
abbreviation (input) LOGGER_LEVEL_ERROR :: Logger_Level_e where "LOGGER_LEVEL_ERROR \<equiv> 4"
abbreviation (input) LOGGER_LEVEL_MAX :: Logger_Level_e where "LOGGER_LEVEL_MAX \<equiv> 5"

record Logger =
  m_hHandle :: u64
  m_level :: Logger_Level_e
  m_logFnc :: u64
  m_createFnc :: u64
  m_destroyFnc :: u64

record Logger_static =
  s_logFnc :: u64
  s_createFnc :: u64
  s_destroyFnc :: u64
  s_defaultLogger :: Logger

text \<open>The backend writes a handle, or leaves it alone when it fails; it may print or keep state of its
  own, \<open>'l\<close>. The three addresses are the functions of the default backend.\<close>

record 'l log_backend =
  call_create :: "u64 \<Rightarrow> string \<Rightarrow> Logger_Level_e \<Rightarrow> 'l \<Rightarrow> QCStatus_e \<times> u64 option \<times> 'l"
  call_destroy :: "u64 \<Rightarrow> u64 \<Rightarrow> 'l \<Rightarrow> 'l"
  call_log :: "u64 \<Rightarrow> u64 \<Rightarrow> Logger_Level_e \<Rightarrow> string \<Rightarrow> 'l \<Rightarrow> 'l"
  call_printf :: "string \<Rightarrow> 'l \<Rightarrow> 'l"
  getenv :: "string \<Rightarrow> string option"
  DefaultLog :: u64
  DefaultCreate :: u64
  DefaultDestory :: u64

text \<open>Only the handle is initialised by the constructor: the other arguments are what the function
  pointers happen to hold.\<close>

definition Logger_new :: "u64 \<Rightarrow> u64 \<Rightarrow> u64 \<Rightarrow> Logger" where
  "Logger_new f c d =
     \<lparr>m_hHandle = nullptr, m_level = LOGGER_LEVEL_ERROR, m_logFnc = f, m_createFnc = c,
      m_destroyFnc = d\<rparr>"

definition DecideLoggerLevel ::
  "'l log_backend \<Rightarrow> string \<Rightarrow> Logger_Level_e \<Rightarrow> Logger_Level_e" where
  "DecideLoggerLevel B name level =
     (let envValue = (case getenv B (name @ ''_QC_LOG_LEVEL'') of
                        None \<Rightarrow> getenv B ''QC_LOG_LEVEL''
                      | Some v \<Rightarrow> Some v)
      in case envValue of
           None \<Rightarrow> level
         | Some strEnv \<Rightarrow>
             if strEnv = ''VERBOSE'' then LOGGER_LEVEL_VERBOSE
             else if strEnv = ''DEBUG'' then LOGGER_LEVEL_DEBUG
             else if strEnv = ''INFO'' then LOGGER_LEVEL_INFO
             else if strEnv = ''WARN'' then LOGGER_LEVEL_WARN
             else if strEnv = ''ERROR'' then LOGGER_LEVEL_ERROR
             else level)"

definition Logger_Init ::
  "'l log_backend \<Rightarrow> Logger_static \<Rightarrow> string option \<Rightarrow> Logger_Level_e \<Rightarrow> Logger \<Rightarrow> 'l \<Rightarrow>
     QCStatus_e \<times> Logger \<times> 'l" where
  "Logger_Init B st pName level lg w =
     (case pName of
        None \<Rightarrow> (QC_STATUS_BAD_ARGUMENTS, lg, w)
      | Some name \<Rightarrow>
          if LOGGER_LEVEL_MAX \<le> level \<or> level < LOGGER_LEVEL_VERBOSE
            then (QC_STATUS_BAD_ARGUMENTS, lg, w)
          else if m_hHandle lg \<noteq> nullptr then (QC_STATUS_BAD_STATE, lg, w)
          else
            let lg1 = lg\<lparr>m_createFnc := s_createFnc st, m_logFnc := s_logFnc st,
                         m_destroyFnc := s_destroyFnc st, m_level := DecideLoggerLevel B name level\<rparr>;
                (ret, h, w1) = call_create B (m_createFnc lg1) name (m_level lg1) w
            in (ret, (case h of None \<Rightarrow> lg1 | Some h' \<Rightarrow> lg1\<lparr>m_hHandle := h'\<rparr>), w1))"

definition Logger_Deinit :: "'l log_backend \<Rightarrow> Logger \<Rightarrow> 'l \<Rightarrow> QCStatus_e \<times> Logger \<times> 'l" where
  "Logger_Deinit B lg w =
     (if m_hHandle lg = nullptr then (QC_STATUS_BAD_STATE, lg, w)
      else (QC_STATUS_OK, lg\<lparr>m_hHandle := nullptr\<rparr>,
            call_destroy B (m_destroyFnc lg) (m_hHandle lg) w))"

definition Logger_Log :: "'l log_backend \<Rightarrow> Logger \<Rightarrow> Logger_Level_e \<Rightarrow> string \<Rightarrow> 'l \<Rightarrow> 'l" where
  "Logger_Log B lg level msg w =
     (if m_level lg \<le> level then
        (if m_hHandle lg \<noteq> nullptr then call_log B (m_logFnc lg) (m_hHandle lg) level msg w
         else call_printf B msg w)
      else w)"

definition Logger_Setup ::
  "'l log_backend \<Rightarrow> u64 \<Rightarrow> u64 \<Rightarrow> u64 \<Rightarrow> Logger_static \<Rightarrow> 'l \<Rightarrow>
     QCStatus_e \<times> Logger_static \<times> 'l" where
  "Logger_Setup B logFnc createFnc destoryFnc st w =
     (if s_logFnc st = DefaultLog B \<and> s_createFnc st = DefaultCreate B \<and>
         s_destroyFnc st = DefaultDestory B then
        let st1 = st\<lparr>s_logFnc := logFnc, s_createFnc := createFnc, s_destroyFnc := destoryFnc\<rparr>;
            (ret, lg, w1) =
              Logger_Init B st1 (Some ''QCNODE'') LOGGER_LEVEL_ERROR (s_defaultLogger st1) w
        in (ret, st1\<lparr>s_defaultLogger := lg\<rparr>, w1)
      else (QC_STATUS_FAIL, st, w))"

definition Logger_GetDefault ::
  "'l log_backend \<Rightarrow> Logger_static \<Rightarrow> 'l \<Rightarrow> Logger_static \<times> 'l" where
  "Logger_GetDefault B st w =
     (if m_hHandle (s_defaultLogger st) = nullptr then
        let (_, lg, w1) = Logger_Init B st (Some ''QCNODE'') LOGGER_LEVEL_ERROR (s_defaultLogger st) w
        in (st\<lparr>s_defaultLogger := lg\<rparr>, w1)
      else (st, w))"

subsection \<open>Configuration and node\<close>

text \<open>A check of a configuration, which adds to the error text.\<close>

definition cfg_check :: "bool \<Rightarrow> string \<Rightarrow> QCStatus_e \<times> string \<Rightarrow> QCStatus_e \<times> string" where
  "cfg_check bad msg r = (if bad then (QC_STATUS_BAD_ARGUMENTS, snd r @ msg) else r)"

record 'j NodeConfigBase =
  m_bLoggerInit :: bool
  m_dataTree :: 'j

definition NodeConfigBase_VerifyAndSet ::
  "'j json_lib \<Rightarrow> ('j \<Rightarrow> string option) \<Rightarrow> 'l log_backend \<Rightarrow> Logger_static \<Rightarrow> string \<Rightarrow>
     ('j, 'a) NodeConfigBase_scheme \<Rightarrow> Logger \<Rightarrow> 'l \<Rightarrow>
     (QCStatus_e \<times> string) \<times> ('j, 'a) NodeConfigBase_scheme \<times> Logger \<times> 'l" where
  "NodeConfigBase_VerifyAndSet J get_string B st config c lg w =
     (case DT_Load J (m_dataTree c) config of
        (status, js, err) \<Rightarrow>
          let errors = (case err of None \<Rightarrow> '''' | Some e \<Rightarrow> e); c1 = c\<lparr>m_dataTree := js\<rparr>
          in if status = QC_STATUS_OK \<and> \<not> m_bLoggerInit c then
               let name = DT_Get J get_string js ''static.name'' '''';
                   (status1, errors1) =
                     (if name = '''' then (QC_STATUS_BAD_ARGUMENTS, errors @ ''no name specified, '')
                      else (status, errors));
                   levelStr = DT_Get J get_string js ''static.logLevel'' ''ERROR'';
                   (loggerLevel, status2, errors2) =
                     (if levelStr = ''VERBOSE'' then (LOGGER_LEVEL_VERBOSE, status1, errors1)
                      else if levelStr = ''DEBUG'' then (LOGGER_LEVEL_DEBUG, status1, errors1)
                      else if levelStr = ''INFO'' then (LOGGER_LEVEL_INFO, status1, errors1)
                      else if levelStr = ''WARN'' then (LOGGER_LEVEL_WARN, status1, errors1)
                      else if levelStr = ''ERROR'' then (LOGGER_LEVEL_ERROR, status1, errors1)
                      else (LOGGER_LEVEL_ERROR, QC_STATUS_BAD_ARGUMENTS,
                            errors1 @ ''invalid logLevel:<'' @ levelStr @ ''>, ''))
               in if status2 = QC_STATUS_OK then
                    let (status3, lg1, w1) = Logger_Init B st (Some name) loggerLevel lg w
                    in ((status3, errors2),
                        (if status3 = QC_STATUS_OK then c1\<lparr>m_bLoggerInit := True\<rparr> else c1), lg1, w1)
                  else ((status2, errors2), c1, lg, w)
             else ((status, errors), c1, lg, w))"

record NodeBase =
  m_nodeId :: QCNodeID
  m_logger :: Logger

definition NodeBase_Init ::
  "'l log_backend \<Rightarrow> Logger_static \<Rightarrow> QCNodeID \<Rightarrow> Logger_Level_e \<Rightarrow> 'a NodeBase_scheme \<Rightarrow> 'l \<Rightarrow>
     QCStatus_e \<times> 'a NodeBase_scheme \<times> 'l" where
  "NodeBase_Init B st nodeId level n w =
     (let (status, lg, w1) = Logger_Init B st (Some (n_name nodeId)) level (m_logger n) w
      in (if status = QC_STATUS_BAD_STATE then QC_STATUS_OK else status,
          n\<lparr>m_nodeId := nodeId, m_logger := lg\<rparr>, w1))"

definition NodeBase_DeInitialize ::
  "'l log_backend \<Rightarrow> 'a NodeBase_scheme \<Rightarrow> 'l \<Rightarrow> QCStatus_e \<times> 'a NodeBase_scheme \<times> 'l" where
  "NodeBase_DeInitialize B n w =
     (let (status, lg, w1) = Logger_Deinit B (m_logger n) w in (status, n\<lparr>m_logger := lg\<rparr>, w1))"

text \<open>An event for the application: a frame descriptor, \<open>None\<close> for a dummy buffer.\<close>

record app_event =
  ev_frame :: "any_buffer option list"
  ev_nodeId :: QCNodeID
  ev_status :: QCStatus_e
  ev_state :: QCObjectState_e

end
