(* ===== verification/QC_VidcNode.thy ===== *)
theory QC_VidcNode
  imports QC_VidcDrv QC_NodeBase QC_Dma
begin

text \<open>
  What the video encoder and decoder share: \<^verbatim>\<open>source/Library/VideoCodec/VidcNodeBase.cpp\<close>. The state
  of a node extends the state of its driver client by the members of \<^verbatim>\<open>NodeBase\<close>, of the configuration
  interface and of \<^verbatim>\<open>VidcNodeBase\<close>. The pointer \<^verbatim>\<open>m_pConfig\<close> points to the configuration the interface
  holds, \<open>cfg\<close>; \<open>m_pConfig\<close> says whether it was set. What the node tells the application is the list
  \<open>app_events\<close>, oldest first; the application's callback does nothing else to the node here, and does
  not change a descriptor while the node holds a reference to it. A definition that can throw, or
  read past the end of the buffers it was given, returns an option.
\<close>

record VidcNodeBase_Config =
  cfg_nodeId :: QCNodeID
  cfg_width :: u32
  cfg_height :: u32
  cfg_frameRate :: u32
  numInputBufferReq :: u32
  numOutputBufferReq :: u32
  bInputDynamicMode :: bool
  bOutputDynamicMode :: bool
  inFormat :: QCImageFormat_e
  outFormat :: QCImageFormat_e

record ('w, 'j, 'c) VidcNodeBase = "'w VidcDrvClient" +
  node :: NodeBase
  configIfs :: "'j NodeConfigBase"
  cfg :: "'c VidcNodeBase_Config_scheme"
  m_name :: string
  m_state :: QCObjectState_e
  m_bufSize :: "VideoCodec_BufType_e \<Rightarrow> u32"
  m_pConfig :: bool
  m_inputBufferList :: "VideoFrameDescriptor list"
  m_outputBufferList :: "VideoFrameDescriptor list"
  m_callback :: bool
  app_events :: "app_event list"

text \<open>The environment: driver, JSON library with the conversions of \<^verbatim>\<open>Get<T>\<close>, logging.\<close>

record ('w, 'j) node_env =
  env_os :: "'w vidc_os"
  env_json :: "'j json_lib"
  get_string :: "'j \<Rightarrow> string option"
  get_u32 :: "'j \<Rightarrow> u32 option"
  get_u8 :: "'j \<Rightarrow> u8 option"
  get_bool :: "'j \<Rightarrow> bool option"
  env_log :: "'w log_backend"
  env_loggers :: Logger_static

type_synonym ('w, 'j, 'c, 'a) vnode = "('w, 'j, 'c, 'a) VidcNodeBase_scheme"

subsection \<open>Configuration\<close>

definition VidcNodeBase_ParseStaticConfig ::
  "('w, 'j) node_env \<Rightarrow> 'j \<Rightarrow> string \<Rightarrow> 'c VidcNodeBase_Config_scheme \<Rightarrow>
     ((QCStatus_e \<times> string) \<times> 'c VidcNodeBase_Config_scheme) option" where
  "VidcNodeBase_ParseStaticConfig env dt errors c =
     (let J = env_json env;
          c1 = c\<lparr>cfg_nodeId := (cfg_nodeId c)\<lparr>n_name := DT_Get J (get_string env) dt ''name'' ''unnamed'',
                                               n_id := DT_Get J (get_u8 env) dt ''id'' 0\<rparr>,
                 cfg_width := DT_Get J (get_u32 env) dt ''width'' 0,
                 cfg_height := DT_Get J (get_u32 env) dt ''height'' 0,
                 cfg_frameRate := DT_Get J (get_u32 env) dt ''frameRate'' 0,
                 bInputDynamicMode := DT_Get J (get_bool env) dt ''bInputDynamicMode'' True,
                 bOutputDynamicMode := DT_Get J (get_bool env) dt ''bOutputDynamicMode'' False,
                 numInputBufferReq := DT_Get J (get_u32 env) dt ''numInputBufferReq'' 0,
                 numOutputBufferReq := DT_Get J (get_u32 env) dt ''numOutputBufferReq'' 0\<rparr>
      in case DT_GetImageFormat J dt ''inputImageFormat'' QC_IMAGE_FORMAT_COMPRESSED_MAX of
           None \<Rightarrow> None
         | Some inF \<Rightarrow>
             (case DT_GetImageFormat J dt ''outputImageFormat'' QC_IMAGE_FORMAT_COMPRESSED_MAX of
                None \<Rightarrow> None
              | Some outF \<Rightarrow>
                  let c2 = c1\<lparr>inFormat := inF, outFormat := outF\<rparr>
                  in Some
                      (cfg_check (QC_IMAGE_FORMAT_COMPRESSED_MAX = outFormat c2)
                         ''the output image format is invalid, ''
                      (cfg_check (QC_IMAGE_FORMAT_MAX = inFormat c2)
                         ''the input image format is invalid, ''
                      (cfg_check (cfg_frameRate c2 = 0) ''the frame rate is zero, ''
                      (cfg_check (cfg_height c2 = 0) ''the height is zero, ''
                      (cfg_check (cfg_width c2 = 0) ''the width is zero, ''
                      (cfg_check (\<not> bInputDynamicMode c2 \<and> numOutputBufferReq c2 = 0)
                         ''the number of output buffers is zero, ''
                      (cfg_check (\<not> bInputDynamicMode c2 \<and> numInputBufferReq c2 = 0)
                         ''the number of input buffers is zero, ''
                      (cfg_check (outFormat c2 = QC_IMAGE_FORMAT_COMPRESSED_MAX)
                         ''the output format is invalid, ''
                      (cfg_check (inFormat c2 = QC_IMAGE_FORMAT_COMPRESSED_MAX)
                         ''the input format is invalid, ''
                      (QC_STATUS_OK, errors))))))))), c2)))"

text \<open>The whole check of a configuration, on the node that holds it. \<open>parse\<close> is the part that a derived
  node adds.\<close>

definition VidcNodeBase_VerifyAndSet ::
  "('w, 'j) node_env \<Rightarrow> string \<Rightarrow> ('w, 'j, 'c, 'a) vnode \<Rightarrow>
     ((QCStatus_e \<times> string) \<times> ('w, 'j, 'c, 'a) vnode) option" where
  "VidcNodeBase_VerifyAndSet env config s =
     (let J = env_json env;
          ((status, errors), ci, lg, w) =
            NodeConfigBase_VerifyAndSet J (get_string env) (env_log env) (env_loggers env) config
              (configIfs s) (m_logger (node s)) (drv_world s);
          s1 = s\<lparr>configIfs := ci, node := (node s)\<lparr>m_logger := lg\<rparr>, drv_world := w\<rparr>
      in if status \<noteq> QC_STATUS_OK then Some ((status, errors), s1)
         else
           (case DT_GetTree J (m_dataTree ci) ''static'' (j_null J) of
              (status2, dt) \<Rightarrow>
                if status2 \<noteq> QC_STATUS_OK then Some ((status2, errors), s1)
                else
                  (case VidcNodeBase_ParseStaticConfig env dt errors (cfg s1) of
                     None \<Rightarrow> None
                   | Some (r, c) \<Rightarrow> Some (r, s1\<lparr>cfg := c\<rparr>))))"

subsection \<open>Life cycle\<close>

definition VidcNodeBase_Init ::
  "('w, 'j) node_env \<Rightarrow> ('w, 'j, 'c, 'a) vnode \<Rightarrow> QCStatus_e \<times> ('w, 'j, 'c, 'a) vnode" where
  "VidcNodeBase_Init env s =
     (let (status, nb, w) =
        NodeBase_Init (env_log env) (env_loggers env) (cfg_nodeId (cfg s)) LOGGER_LEVEL_ERROR (node s)
          (drv_world s);
          s1 = s\<lparr>node := nb, drv_world := w\<rparr>;
          status1 = (if m_state s \<noteq> QC_OBJECT_STATE_INITIAL then QC_STATUS_BAD_STATE else status)
      in (status1,
          if status1 = QC_STATUS_OK then s1\<lparr>m_pConfig := True, m_name := n_name (cfg_nodeId (cfg s))\<rparr>
          else s1))"

definition VidcNodeBase_EventCallback ::
  "VideoCodec_EventType_e \<Rightarrow> ('w, 'j, 'c, 'a) vnode \<Rightarrow> ('w, 'j, 'c, 'a) vnode" where
  "VidcNodeBase_EventCallback eventId s =
     (let expect = (\<lambda>st st'. s\<lparr>m_state := if m_state s = st then st' else QC_OBJECT_STATE_ERROR\<rparr>)
      in case eventId of
           VIDEO_CODEC_EVT_FATAL \<Rightarrow> s\<lparr>m_state := QC_OBJECT_STATE_ERROR\<rparr>
         | VIDEO_CODEC_EVT_RESP_START \<Rightarrow> expect QC_OBJECT_STATE_STARTING QC_OBJECT_STATE_RUNNING
         | VIDEO_CODEC_EVT_RESP_LOAD_RESOURCES \<Rightarrow>
             expect QC_OBJECT_STATE_INITIALIZING QC_OBJECT_STATE_READY
         | VIDEO_CODEC_EVT_RESP_RELEASE_RESOURCES \<Rightarrow>
             expect QC_OBJECT_STATE_DEINITIALIZING QC_OBJECT_STATE_INITIAL
         | VIDEO_CODEC_EVT_RESP_STOP \<Rightarrow> expect QC_OBJECT_STATE_STOPING QC_OBJECT_STATE_READY
         | VIDEO_CODEC_EVT_RESP_PAUSE \<Rightarrow> expect QC_OBJECT_STATE_PAUSING QC_OBJECT_STATE_PAUSE
         | VIDEO_CODEC_EVT_RESP_RESUME \<Rightarrow> expect QC_OBJECT_STATE_RESUMING QC_OBJECT_STATE_RUNNING
         | VIDEO_CODEC_EVT_ERROR \<Rightarrow> s
         | _ \<Rightarrow> s)"

definition WAIT_TIMEOUT_1_MSEC :: int where "WAIT_TIMEOUT_1_MSEC = 1"

definition WaitForState ::
  "'w vidc_os \<Rightarrow> ('w, 'j, 'c, 'a) vnode vidc_callbacks \<Rightarrow> QCObjectState_e \<Rightarrow>
     ('w, 'j, 'c, 'a) vnode \<Rightarrow> QCStatus_e \<times> ('w, 'j, 'c, 'a) vnode" where
  "WaitForState os cb expectedState s =
     wait_loop (sleep os cb) (\<lambda>s. m_state s = expectedState) WAIT_TIMEOUT_1_MSEC 0 s"

definition VidcNodeBase_Start ::
  "'w vidc_os \<Rightarrow> ('w, 'j, 'c, 'a) vnode vidc_callbacks \<Rightarrow> ('w, 'j, 'c, 'a) vnode \<Rightarrow>
     QCStatus_e \<times> ('w, 'j, 'c, 'a) vnode" where
  "VidcNodeBase_Start os cb s =
     (if m_state s \<noteq> QC_OBJECT_STATE_READY then (QC_STATUS_BAD_STATE, s)
      else
        let (ret, s1) =
          StartDriver os cb
            (if m_encDecType s = VIDEO_ENC then VIDEO_CODEC_START_ALL else VIDEO_CODEC_START_INPUT)
            (s\<lparr>m_state := QC_OBJECT_STATE_STARTING\<rparr>)
        in if ret \<noteq> QC_STATUS_OK then (ret, s1\<lparr>m_state := QC_OBJECT_STATE_ERROR\<rparr>)
           else
             let (ret2, s2) = WaitForState os cb QC_OBJECT_STATE_RUNNING s1
             in (ret2, if ret2 \<noteq> QC_STATUS_OK then s2\<lparr>m_state := QC_OBJECT_STATE_ERROR\<rparr> else s2))"

definition VidcNodeBase_Stop ::
  "'w vidc_os \<Rightarrow> ('w, 'j, 'c, 'a) vnode vidc_callbacks \<Rightarrow> ('w, 'j, 'c, 'a) vnode \<Rightarrow>
     QCStatus_e \<times> ('w, 'j, 'c, 'a) vnode" where
  "VidcNodeBase_Stop os cb s =
     (if m_state s \<noteq> QC_OBJECT_STATE_RUNNING then (QC_STATUS_BAD_STATE, s)
      else
        let s1 = s\<lparr>m_state := QC_OBJECT_STATE_STOPING\<rparr>;
            (ret, s2) = (if m_encDecType s = VIDEO_ENC then StopEncoder os cb s1 else StopDecoder os cb s1)
        in (ret, s2\<lparr>m_state := if ret = QC_STATUS_OK then QC_OBJECT_STATE_READY
                               else QC_OBJECT_STATE_ERROR\<rparr>))"

definition FreeInputBuffers ::
  "'w vidc_os \<Rightarrow> ('w, 'j, 'c, 'a) vnode \<Rightarrow> QCStatus_e \<times> ('w, 'j, 'c, 'a) vnode" where
  "FreeInputBuffers os s = Drv_FreeBuffers os VIDEO_CODEC_BUF_INPUT (m_inputBufferList s) s"

definition FreeOutputBuffers ::
  "'w vidc_os \<Rightarrow> ('w, 'j, 'c, 'a) vnode \<Rightarrow> QCStatus_e \<times> ('w, 'j, 'c, 'a) vnode" where
  "FreeOutputBuffers os s = Drv_FreeBuffers os VIDEO_CODEC_BUF_OUTPUT (m_outputBufferList s) s"

definition release_resources ::
  "'w vidc_os \<Rightarrow> ('w, 'j, 'c, 'a) vnode vidc_callbacks \<Rightarrow> ('w, 'j, 'c, 'a) vnode \<Rightarrow>
     QCStatus_e \<times> ('w, 'j, 'c, 'a) vnode" where
  "release_resources os cb s =
     (let (ret, s1) = ReleaseResources os cb (s\<lparr>m_state := QC_OBJECT_STATE_DEINITIALIZING\<rparr>)
      in if ret \<noteq> QC_STATUS_OK then (ret, s1\<lparr>m_state := QC_OBJECT_STATE_ERROR\<rparr>)
         else
           let (ret2, s2) = WaitForState os cb QC_OBJECT_STATE_INITIAL s1
           in (ret2, if ret2 \<noteq> QC_STATUS_OK then s2\<lparr>m_state := QC_OBJECT_STATE_ERROR\<rparr> else s2))"

definition VidcNodeBase_DeInitialize ::
  "'w vidc_os \<Rightarrow> ('w, 'j, 'c, 'a) vnode vidc_callbacks \<Rightarrow> ('w, 'j, 'c, 'a) vnode \<Rightarrow>
     QCStatus_e \<times> ('w, 'j, 'c, 'a) vnode" where
  "VidcNodeBase_DeInitialize os cb s =
     (let (ret, s1) =
        if_ok (if_ok (if_ok
          (if m_state s \<noteq> QC_OBJECT_STATE_READY \<and> m_state s \<noteq> QC_OBJECT_STATE_ERROR
             then (QC_STATUS_BAD_STATE, s)
           else if m_state s = QC_OBJECT_STATE_READY then release_resources os cb s
           else (QC_STATUS_OK, s))
          (FreeInputBuffers os))
          (FreeOutputBuffers os))
          (\<lambda>s. (QC_STATUS_OK, CloseDriver os s))
      in (ret, s1\<lparr>m_state := if ret \<noteq> QC_STATUS_OK then QC_OBJECT_STATE_ERROR
                             else QC_OBJECT_STATE_INITIAL\<rparr>))"

definition PostInit ::
  "'w vidc_os \<Rightarrow> ('w, 'j, 'c, 'a) vnode vidc_callbacks \<Rightarrow> ('w, 'j, 'c, 'a) vnode \<Rightarrow>
     QCStatus_e \<times> ('w, 'j, 'c, 'a) vnode" where
  "PostInit os cb s =
     (let (ret, s1) = if_ok (LoadResources os cb s) (WaitForState os cb QC_OBJECT_STATE_READY)
      in (ret, if ret = QC_STATUS_OK then s1
               else snd (VidcNodeBase_DeInitialize os cb (s1\<lparr>m_state := QC_OBJECT_STATE_ERROR\<rparr>))))"

subsection \<open>Buffers\<close>

definition num_buffer_req :: "'c VidcNodeBase_Config_scheme \<Rightarrow> VideoCodec_BufType_e \<Rightarrow> u32" where
  "num_buffer_req c ty =
     (case ty of VIDEO_CODEC_BUF_INPUT \<Rightarrow> numInputBufferReq c
      | VIDEO_CODEC_BUF_OUTPUT \<Rightarrow> numOutputBufferReq c)"

definition dynamic_mode :: "'c VidcNodeBase_Config_scheme \<Rightarrow> VideoCodec_BufType_e \<Rightarrow> bool" where
  "dynamic_mode c ty =
     (case ty of VIDEO_CODEC_BUF_INPUT \<Rightarrow> bInputDynamicMode c
      | VIDEO_CODEC_BUF_OUTPUT \<Rightarrow> bOutputDynamicMode c)"

definition buffer_list ::
  "('w, 'j, 'c, 'a) vnode \<Rightarrow> VideoCodec_BufType_e \<Rightarrow> VideoFrameDescriptor list" where
  "buffer_list s ty =
     (case ty of VIDEO_CODEC_BUF_INPUT \<Rightarrow> m_inputBufferList s
      | VIDEO_CODEC_BUF_OUTPUT \<Rightarrow> m_outputBufferList s)"

text \<open>The loop over all buffers, with a 32-bit counter \<open>i\<close>, that takes the ones in range.\<close>

fun buffers_in_range ::
  "u32 \<Rightarrow> u32 \<Rightarrow> u32 \<Rightarrow> VideoFrameDescriptor list \<Rightarrow> VideoFrameDescriptor list" where
  "buffers_in_range bufferIdx bufNum i [] = []"
| "buffers_in_range bufferIdx bufNum i (buf # rest) =
     (if bufferIdx \<le> i \<and> i < bufferIdx + bufNum
      then buf # buffers_in_range bufferIdx bufNum (i + 1) rest
      else buffers_in_range bufferIdx bufNum (i + 1) rest)"

definition InitBufferForNonDynamicMode ::
  "VideoFrameDescriptor list \<Rightarrow> u32 \<Rightarrow> VideoCodec_BufType_e \<Rightarrow> ('w, 'j, 'c, 'a) vnode \<Rightarrow>
     ('w, 'j, 'c, 'a) vnode" where
  "InitBufferForNonDynamicMode buffers bufferIdx bufferType s =
     (let new = buffers_in_range bufferIdx (num_buffer_req (cfg s) bufferType) 0 buffers
      in case bufferType of
           VIDEO_CODEC_BUF_INPUT \<Rightarrow> s\<lparr>m_inputBufferList := m_inputBufferList s @ new\<rparr>
         | VIDEO_CODEC_BUF_OUTPUT \<Rightarrow> s\<lparr>m_outputBufferList := m_outputBufferList s @ new\<rparr>)"

text \<open>The sizes are checked of the first \<open>bufNum\<close> buffers, whatever \<open>bufferIdx\<close> is.\<close>

definition AllocateBuffer ::
  "VideoFrameDescriptor list \<Rightarrow> u32 \<Rightarrow> VideoCodec_BufType_e \<Rightarrow> ('w, 'j, 'c, 'a) vnode \<Rightarrow>
     (QCStatus_e \<times> ('w, 'j, 'c, 'a) vnode) option" where
  "AllocateBuffer buffers bufferIdx bufferType s =
     (let bufNumGiven = of_nat (length buffers) - bufferIdx;
          bufNum = num_buffer_req (cfg s) bufferType; bufSize = m_bufSize s bufferType
      in if dynamic_mode (cfg s) bufferType then Some (QC_STATUS_OK, s)
         else if bufNumGiven < bufNum then Some (QC_STATUS_NOMEM, s)
         else if length buffers < unat bufNum then None
         else if \<exists>b \<in> set (take (unat bufNum) buffers). b_size b < ucast bufSize
           then Some (QC_STATUS_NOMEM, s)
         else Some (QC_STATUS_OK, InitBufferForNonDynamicMode buffers bufferIdx bufferType s))"

definition VidcNodeBase_SetBuffer ::
  "'w vidc_os \<Rightarrow> VideoCodec_BufType_e \<Rightarrow> ('w, 'j, 'c, 'a) vnode \<Rightarrow>
     QCStatus_e \<times> ('w, 'j, 'c, 'a) vnode" where
  "VidcNodeBase_SetBuffer os bufferType s =
     (let dynamicMode = dynamic_mode (cfg s) bufferType
      in if_ok (SetDynamicMode os bufferType dynamicMode s)
           (\<lambda>s1. if dynamicMode then (QC_STATUS_OK, s1)
                 else Drv_SetBuffer os bufferType (buffer_list s bufferType) s1))"

definition VidcNodeBase_NegotiateBufferReq ::
  "'w vidc_os \<Rightarrow> VideoCodec_BufType_e \<Rightarrow> ('w, 'j, 'c, 'a) vnode \<Rightarrow>
     QCStatus_e \<times> ('w, 'j, 'c, 'a) vnode" where
  "VidcNodeBase_NegotiateBufferReq os bufType s =
     (let bufNumAvail = num_buffer_req (cfg s) bufType;
          (ret, bufNum, bufSize, s1) = Drv_NegotiateBufferReq os bufType bufNumAvail 0 s
      in if ret \<noteq> QC_STATUS_OK then (ret, s1)
         else if bufNumAvail < bufNum then (QC_STATUS_BAD_ARGUMENTS, s1)
         else (ret, s1\<lparr>m_bufSize := (m_bufSize s1)(bufType := bufSize)\<rparr>))"

definition ValidateBuffer ::
  "VideoFrameDescriptor \<Rightarrow> VideoCodec_BufType_e \<Rightarrow> ('w, 'j, 'c, 'a) vnode \<Rightarrow> QCStatus_e" where
  "ValidateBuffer d bufferType s =
     (if i_width d \<noteq> cfg_width (cfg s) \<or> i_height d \<noteq> cfg_height (cfg s) then QC_STATUS_INVALID_BUF
      else if i_format d \<noteq> (case bufferType of VIDEO_CODEC_BUF_INPUT \<Rightarrow> inFormat (cfg s)
                            | VIDEO_CODEC_BUF_OUTPUT \<Rightarrow> outFormat (cfg s))
        then QC_STATUS_INVALID_BUF
      else QC_STATUS_OK)"

definition ValidateBuffers :: "('w, 'j, 'c, 'a) vnode \<Rightarrow> QCStatus_e" where
  "ValidateBuffers s =
     (let ret = (if bInputDynamicMode (cfg s) \<and> m_inputBufferList s \<noteq> [] then QC_STATUS_BAD_ARGUMENTS
                 else if \<not> bInputDynamicMode (cfg s) \<and> m_inputBufferList s = []
                   then QC_STATUS_BAD_ARGUMENTS
                 else QC_STATUS_OK)
      in if ret = QC_STATUS_OK \<and> bOutputDynamicMode (cfg s) \<and> m_outputBufferList s \<noteq> []
           then QC_STATUS_BAD_ARGUMENTS
         else if ret = QC_STATUS_OK \<and> \<not> bOutputDynamicMode (cfg s) \<and> m_outputBufferList s = []
           then QC_STATUS_BAD_ARGUMENTS
         else ret)"

definition ValidateFrameSubmission ::
  "VideoFrameDescriptor \<Rightarrow> bool \<Rightarrow> ('w, 'j, 'c, 'a) vnode \<Rightarrow> QCStatus_e" where
  "ValidateFrameSubmission d requireNonZeroSize s =
     (if m_state s \<noteq> QC_OBJECT_STATE_RUNNING then QC_STATUS_BAD_STATE
      else if pBuf d = nullptr then QC_STATUS_BAD_ARGUMENTS
      else if b_size d = 0 \<and> requireNonZeroSize then QC_STATUS_BAD_ARGUMENTS
      else QC_STATUS_OK)"

definition GetVidcFormat :: "QCImageFormat_e \<Rightarrow> vidc_color_format_type" where
  "GetVidcFormat fmt =
     (if fmt = QC_IMAGE_FORMAT_NV12 then VIDC_COLOR_FORMAT_NV12
      else if fmt = QC_IMAGE_FORMAT_NV12_UBWC then VIDC_COLOR_FORMAT_NV12_UBWC
      else if fmt = QC_IMAGE_FORMAT_P010 then VIDC_COLOR_FORMAT_NV12_P010
      else VIDC_COLOR_FORMAT_UNUSED)"

subsection \<open>Telling the application\<close>

text \<open>The three events of a node, as the encoder and the decoder both build them. An event that is not
  about a frame is a buffer with the number of the event as its name, at the output's place of the
  frame descriptor.\<close>

definition notify :: "app_event \<Rightarrow> ('w, 'j, 'c, 'a) vnode \<Rightarrow> ('w, 'j, 'c, 'a) vnode" where
  "notify e s = (if m_callback s then s\<lparr>app_events := app_events s @ [e]\<rparr> else s)"

definition InFrameCallback ::
  "VideoFrameDescriptor \<Rightarrow> ('w, 'j, 'c, 'a) vnode \<Rightarrow> ('w, 'j, 'c, 'a) vnode" where
  "InFrameCallback d s =
     notify \<lparr>ev_frame = [Some (A_Video d)], ev_nodeId = cfg_nodeId (cfg s), ev_status = QC_STATUS_OK,
             ev_state = m_state s\<rparr> s"

definition OutFrameCallback ::
  "VideoFrameDescriptor \<Rightarrow> ('w, 'j, 'c, 'a) vnode \<Rightarrow> ('w, 'j, 'c, 'a) vnode" where
  "OutFrameCallback d s =
     notify \<lparr>ev_frame = [None, Some (A_Video d)], ev_nodeId = cfg_nodeId (cfg s),
             ev_status = QC_STATUS_OK, ev_state = m_state s\<rparr> s"

definition event_buffer ::
  "'w vidc_os \<Rightarrow> VideoCodec_EventType_e \<Rightarrow> vidc_drv_msg \<Rightarrow> QCBufferDescriptorBase" where
  "event_buffer os eventId msg =
     QCBufferDescriptorBase_init
       \<lparr>b_name := to_string (event_number eventId), pBuf := msg_addr msg,
        b_size := of_nat (sizeof_msg_info os)\<rparr>"

definition notify_event ::
  "'w vidc_os \<Rightarrow> VideoCodec_EventType_e \<Rightarrow> vidc_drv_msg \<Rightarrow> ('w, 'j, 'c, 'a) vnode \<Rightarrow>
     ('w, 'j, 'c, 'a) vnode" where
  "notify_event os eventId msg s =
     notify \<lparr>ev_frame = [None, Some (A_Base (event_buffer os eventId msg)), None],
             ev_nodeId = m_nodeId (node s), ev_status = QC_STATUS_OK, ev_state = m_state s\<rparr> s"

end
