(* ===== verification/QC_VideoEncoder.thy ===== *)
theory QC_VideoEncoder
  imports QC_VidcNode
begin

text \<open>
  The video encoder node: \<^verbatim>\<open>source/Node/VideoEncoder/VideoEncoder.cpp\<close>. Its state extends the state of
  \<open>QC_VidcNode\<close> by the properties it sets in the driver; its configuration extends the common one. The
  application gives \<open>Initialize\<close> a configuration text, whether it wants events, and buffers, which
  are video frame descriptors, as the code assumes when it casts them.
\<close>

datatype VideoEncoder_Profile_e =
    VIDEO_ENCODER_PROFILE_H264_BASELINE
  | VIDEO_ENCODER_PROFILE_H264_HIGH
  | VIDEO_ENCODER_PROFILE_H264_MAIN
  | VIDEO_ENCODER_PROFILE_HEVC_MAIN
  | VIDEO_ENCODER_PROFILE_HEVC_MAIN10
  | VIDEO_ENCODER_PROFILE_MAX

fun profile_number :: "VideoEncoder_Profile_e \<Rightarrow> nat" where
  "profile_number VIDEO_ENCODER_PROFILE_H264_BASELINE = 0"
| "profile_number VIDEO_ENCODER_PROFILE_H264_HIGH = 1"
| "profile_number VIDEO_ENCODER_PROFILE_H264_MAIN = 2"
| "profile_number VIDEO_ENCODER_PROFILE_HEVC_MAIN = 3"
| "profile_number VIDEO_ENCODER_PROFILE_HEVC_MAIN10 = 4"
| "profile_number VIDEO_ENCODER_PROFILE_MAX = 5"

record VideoEncoder_Config = VidcNodeBase_Config +
  bitRate :: u32
  gop :: u32
  bSyncFrameSeqHdr :: bool
  rateControlMode :: VideoEncoder_RateControlMode_e
  profile :: VideoEncoder_Profile_e

record VidcEncoderData =
  enc_profile :: vidc_profile
  enc_level :: vidc_level
  enc_frameRate :: vidc_frame_rate
  p_frames :: u32
  b_frames :: u32
  idr_period :: u32
  target_bitrate :: u32
  enableSyncFrameSeq :: bool
  planeDefY :: vidc_plane_def
  planeDefUV :: vidc_plane_def

record ('w, 'j) VideoEncoder = "('w, 'j, unit VideoEncoder_Config_ext) VidcNodeBase" +
  m_vidcEncoderData :: VidcEncoderData

subsection \<open>Profiles and levels\<close>

datatype ProfileLevel =
  ProfileLevel (maxFrameSize: u32) (maxSizePerSec: u32) (maxBitRate: u32) (pl_level: vidc_level)
    (pl_profile: vidc_profile)

definition s_profileLevelH264BaseLineTable :: "ProfileLevel list" where
  "s_profileLevelH264BaseLineTable =
     [ProfileLevel 99 1485 64000 VIDC_LEVEL_H264_1 VIDC_PROFILE_H264_BASELINE,
      ProfileLevel 99 1485 128000 VIDC_LEVEL_H264_1b VIDC_PROFILE_H264_BASELINE,
      ProfileLevel 396 3000 192000 VIDC_LEVEL_H264_1p1 VIDC_PROFILE_H264_BASELINE,
      ProfileLevel 396 6000 384000 VIDC_LEVEL_H264_1p2 VIDC_PROFILE_H264_BASELINE,
      ProfileLevel 396 11880 768000 VIDC_LEVEL_H264_1p3 VIDC_PROFILE_H264_BASELINE,
      ProfileLevel 396 11880 2000000 VIDC_LEVEL_H264_2 VIDC_PROFILE_H264_BASELINE,
      ProfileLevel 792 19800 4000000 VIDC_LEVEL_H264_2p1 VIDC_PROFILE_H264_BASELINE,
      ProfileLevel 1620 20250 4000000 VIDC_LEVEL_H264_2p2 VIDC_PROFILE_H264_BASELINE,
      ProfileLevel 1620 40500 10000000 VIDC_LEVEL_H264_3 VIDC_PROFILE_H264_BASELINE,
      ProfileLevel 3600 108000 14000000 VIDC_LEVEL_H264_3p1 VIDC_PROFILE_H264_BASELINE,
      ProfileLevel 5120 216000 20000000 VIDC_LEVEL_H264_3p2 VIDC_PROFILE_H264_BASELINE,
      ProfileLevel 8192 245760 20000000 VIDC_LEVEL_H264_4 VIDC_PROFILE_H264_BASELINE,
      ProfileLevel 8192 245760 50000000 VIDC_LEVEL_H264_4p1 VIDC_PROFILE_H264_BASELINE,
      ProfileLevel 8704 522240 50000000 VIDC_LEVEL_H264_4p2 VIDC_PROFILE_H264_BASELINE,
      ProfileLevel 22080 589824 135000000 VIDC_LEVEL_H264_5 VIDC_PROFILE_H264_BASELINE,
      ProfileLevel 36864 983040 240000000 VIDC_LEVEL_H264_5p1 VIDC_PROFILE_H264_BASELINE]"

definition s_profileLevelH264HighTable :: "ProfileLevel list" where
  "s_profileLevelH264HighTable =
     [ProfileLevel 99 1485 80000 VIDC_LEVEL_H264_1 VIDC_PROFILE_H264_HIGH,
      ProfileLevel 99 1485 200000 VIDC_LEVEL_H264_1b VIDC_PROFILE_H264_HIGH,
      ProfileLevel 396 3000 300000 VIDC_LEVEL_H264_1p1 VIDC_PROFILE_H264_HIGH,
      ProfileLevel 396 6000 600000 VIDC_LEVEL_H264_1p2 VIDC_PROFILE_H264_HIGH,
      ProfileLevel 396 11880 1200000 VIDC_LEVEL_H264_1p3 VIDC_PROFILE_H264_HIGH,
      ProfileLevel 396 11880 3125000 VIDC_LEVEL_H264_2 VIDC_PROFILE_H264_HIGH,
      ProfileLevel 792 19800 6250000 VIDC_LEVEL_H264_2p1 VIDC_PROFILE_H264_HIGH,
      ProfileLevel 1620 20250 6250000 VIDC_LEVEL_H264_2p2 VIDC_PROFILE_H264_HIGH,
      ProfileLevel 1620 40500 15625000 VIDC_LEVEL_H264_3 VIDC_PROFILE_H264_HIGH,
      ProfileLevel 3600 108000 21875000 VIDC_LEVEL_H264_3p1 VIDC_PROFILE_H264_HIGH,
      ProfileLevel 5120 216000 31250000 VIDC_LEVEL_H264_3p2 VIDC_PROFILE_H264_HIGH,
      ProfileLevel 8192 245760 31250000 VIDC_LEVEL_H264_4 VIDC_PROFILE_H264_HIGH,
      ProfileLevel 8192 245760 62500000 VIDC_LEVEL_H264_4p1 VIDC_PROFILE_H264_HIGH,
      ProfileLevel 8704 522240 62500000 VIDC_LEVEL_H264_4p2 VIDC_PROFILE_H264_HIGH,
      ProfileLevel 22080 589824 168750000 VIDC_LEVEL_H264_5 VIDC_PROFILE_H264_HIGH,
      ProfileLevel 36864 983040 300000000 VIDC_LEVEL_H264_5p1 VIDC_PROFILE_H264_HIGH]"

definition s_profileLevelH264MainTable :: "ProfileLevel list" where
  "s_profileLevelH264MainTable =
     [ProfileLevel 99 1485 64000 VIDC_LEVEL_H264_1 VIDC_PROFILE_H264_MAIN,
      ProfileLevel 99 1485 128000 VIDC_LEVEL_H264_1b VIDC_PROFILE_H264_MAIN,
      ProfileLevel 396 3000 192000 VIDC_LEVEL_H264_1p1 VIDC_PROFILE_H264_MAIN,
      ProfileLevel 396 6000 384000 VIDC_LEVEL_H264_1p2 VIDC_PROFILE_H264_MAIN,
      ProfileLevel 396 11880 768000 VIDC_LEVEL_H264_1p3 VIDC_PROFILE_H264_MAIN,
      ProfileLevel 396 11880 2000000 VIDC_LEVEL_H264_2 VIDC_PROFILE_H264_MAIN,
      ProfileLevel 792 19800 4000000 VIDC_LEVEL_H264_2p1 VIDC_PROFILE_H264_MAIN,
      ProfileLevel 1620 20250 4000000 VIDC_LEVEL_H264_2p2 VIDC_PROFILE_H264_MAIN,
      ProfileLevel 1620 40500 10000000 VIDC_LEVEL_H264_3 VIDC_PROFILE_H264_MAIN,
      ProfileLevel 3600 108000 14000000 VIDC_LEVEL_H264_3p1 VIDC_PROFILE_H264_MAIN,
      ProfileLevel 5120 216000 20000000 VIDC_LEVEL_H264_3p2 VIDC_PROFILE_H264_MAIN,
      ProfileLevel 8192 245760 20000000 VIDC_LEVEL_H264_4 VIDC_PROFILE_H264_MAIN,
      ProfileLevel 8192 245760 50000000 VIDC_LEVEL_H264_4p1 VIDC_PROFILE_H264_MAIN,
      ProfileLevel 8704 522240 50000000 VIDC_LEVEL_H264_4p2 VIDC_PROFILE_H264_MAIN,
      ProfileLevel 22080 589824 135000000 VIDC_LEVEL_H264_5 VIDC_PROFILE_H264_MAIN,
      ProfileLevel 36864 983040 240000000 VIDC_LEVEL_H264_5p1 VIDC_PROFILE_H264_MAIN]"

definition s_profileLevelHevcMainTable :: "ProfileLevel list" where
  "s_profileLevelHevcMainTable =
     [ProfileLevel 36864 552960 128000 VIDC_LEVEL_HEVC_1 VIDC_PROFILE_HEVC_MAIN,
      ProfileLevel 122880 3686440 1500000 VIDC_LEVEL_HEVC_2 VIDC_PROFILE_HEVC_MAIN,
      ProfileLevel 245760 7372800 3000000 VIDC_LEVEL_HEVC_21 VIDC_PROFILE_HEVC_MAIN,
      ProfileLevel 552960 16588800 6000000 VIDC_LEVEL_HEVC_3 VIDC_PROFILE_HEVC_MAIN,
      ProfileLevel 983040 33177600 10000000 VIDC_LEVEL_HEVC_31 VIDC_PROFILE_HEVC_MAIN,
      ProfileLevel 2228224 66846720 12000000 VIDC_LEVEL_HEVC_4 VIDC_PROFILE_HEVC_MAIN,
      ProfileLevel 2228224 133693440 20000000 VIDC_LEVEL_HEVC_41 VIDC_PROFILE_HEVC_MAIN,
      ProfileLevel 8912896 267386880 25000000 VIDC_LEVEL_HEVC_5 VIDC_PROFILE_HEVC_MAIN,
      ProfileLevel 8912896 534773760 40000000 VIDC_LEVEL_HEVC_51 VIDC_PROFILE_HEVC_MAIN,
      ProfileLevel 8912896 1069547520 60000000 VIDC_LEVEL_HEVC_52 VIDC_PROFILE_HEVC_MAIN,
      ProfileLevel 35651584 1069547520 60000000 VIDC_LEVEL_HEVC_6 VIDC_PROFILE_HEVC_MAIN]"

definition s_profileLevelHevcMain10Table :: "ProfileLevel list" where
  "s_profileLevelHevcMain10Table =
     [ProfileLevel 36864 552960 128000 VIDC_LEVEL_HEVC_1 VIDC_PROFILE_HEVC_MAIN10,
      ProfileLevel 122880 3686440 1500000 VIDC_LEVEL_HEVC_2 VIDC_PROFILE_HEVC_MAIN10,
      ProfileLevel 245760 7372800 3000000 VIDC_LEVEL_HEVC_21 VIDC_PROFILE_HEVC_MAIN10,
      ProfileLevel 552960 16588800 6000000 VIDC_LEVEL_HEVC_3 VIDC_PROFILE_HEVC_MAIN10,
      ProfileLevel 983040 33177600 10000000 VIDC_LEVEL_HEVC_31 VIDC_PROFILE_HEVC_MAIN10,
      ProfileLevel 2228224 66846720 12000000 VIDC_LEVEL_HEVC_4 VIDC_PROFILE_HEVC_MAIN10,
      ProfileLevel 2228224 133693440 20000000 VIDC_LEVEL_HEVC_41 VIDC_PROFILE_HEVC_MAIN10,
      ProfileLevel 8912896 267386880 25000000 VIDC_LEVEL_HEVC_5 VIDC_PROFILE_HEVC_MAIN10,
      ProfileLevel 8912896 534773760 40000000 VIDC_LEVEL_HEVC_51 VIDC_PROFILE_HEVC_MAIN10,
      ProfileLevel 8912896 1069547520 60000000 VIDC_LEVEL_HEVC_52 VIDC_PROFILE_HEVC_MAIN10,
      ProfileLevel 35651584 1069547520 60000000 VIDC_LEVEL_HEVC_6 VIDC_PROFILE_HEVC_MAIN10]"

definition s_profileLevelTables :: "ProfileLevel list list" where
  "s_profileLevelTables =
     [s_profileLevelH264BaseLineTable, s_profileLevelH264HighTable, s_profileLevelH264MainTable,
      s_profileLevelHevcMainTable, s_profileLevelHevcMain10Table]"

text \<open>The search loop. The flag \<^verbatim>\<open>bFindFlag\<close> that is to end it is never set, so a later row that fits
  replaces an earlier one. The sizes of a frame and of a second are 32-bit words for H.264, where the
  second wraps, and 64-bit words for HEVC; the comparison is made at the wider width.\<close>

fun level_loop ::
  "u64 \<Rightarrow> u64 \<Rightarrow> u32 \<Rightarrow> ProfileLevel list \<Rightarrow> vidc_level \<times> vidc_profile \<Rightarrow> vidc_level \<times> vidc_profile" where
  "level_loop frame perSec rate [] r = r"
| "level_loop frame perSec rate (row # rest) r =
     level_loop frame perSec rate rest
       (if frame \<le> ucast (maxFrameSize row) \<and> perSec \<le> ucast (maxSizePerSec row) \<and>
           rate \<le> maxBitRate row
        then (pl_level row, pl_profile row) else r)"

definition mbPerFrame :: "'c VidcNodeBase_Config_scheme \<Rightarrow> u32" where
  "mbPerFrame c = drop_bit 4 (cfg_height c + 15) * drop_bit 4 (cfg_width c + 15)"

definition samplePerFrame :: "'c VidcNodeBase_Config_scheme \<Rightarrow> u64" where
  "samplePerFrame c = ucast (cfg_height c) * ucast (cfg_width c)"

definition SetVidcProfileLevel ::
  "VideoEncoder_Profile_e \<Rightarrow> ('w, 'j) VideoEncoder \<Rightarrow> QCStatus_e \<times> ('w, 'j) VideoEncoder" where
  "SetVidcProfileLevel prof s =
     (let c = cfg s; zero = (VIDC_LEVEL_ZERO, VIDC_PROFILE_ZERO); n = profile_number prof;
          (ret, lp) =
            (if n < profile_number VIDEO_ENCODER_PROFILE_MAX then
               let pTable = s_profileLevelTables ! n
               in if outFormat c = QC_IMAGE_FORMAT_COMPRESSED_H264 \<and>
                     profile_number (profile c) \<le> profile_number VIDEO_ENCODER_PROFILE_H264_MAIN then
                    (QC_STATUS_OK,
                     level_loop (ucast (mbPerFrame c)) (ucast (mbPerFrame c * cfg_frameRate c))
                       (bitRate c) pTable zero)
                  else if outFormat c = QC_IMAGE_FORMAT_COMPRESSED_H265 \<and>
                     profile_number VIDEO_ENCODER_PROFILE_HEVC_MAIN \<le> n then
                    (QC_STATUS_OK,
                     level_loop (samplePerFrame c) (samplePerFrame c * ucast (cfg_frameRate c))
                       (bitRate c) pTable zero)
                  else (QC_STATUS_BAD_ARGUMENTS, zero)
             else (QC_STATUS_OK, zero))
      in (if fst lp = VIDC_LEVEL_ZERO \<or> snd lp = VIDC_PROFILE_ZERO then QC_STATUS_BAD_ARGUMENTS else ret,
          s\<lparr>m_vidcEncoderData :=
              (m_vidcEncoderData s)\<lparr>enc_level := fst lp, enc_profile := snd lp\<rparr>\<rparr>))"

subsection \<open>Configuration\<close>

definition VideoEncoder_ParseStaticConfig ::
  "('w, 'j) node_env \<Rightarrow> 'j \<Rightarrow> string \<Rightarrow> VideoEncoder_Config \<Rightarrow>
     (QCStatus_e \<times> string) \<times> VideoEncoder_Config" where
  "VideoEncoder_ParseStaticConfig env dt errors c =
     (let J = env_json env;
          rate = DT_Get J (get_string env) dt ''rateControlMode'' ''CBR_CFR'';
          prof = DT_Get J (get_string env) dt ''profile'' ''HEVC_MAIN'';
          rcm = (if rate = ''CBR_CFR'' then Some VIDEO_ENCODER_RCM_CBR_CFR
                 else if rate = ''CBR_VFR'' then Some VIDEO_ENCODER_RCM_CBR_VFR
                 else if rate = ''VBR_CFR'' then Some VIDEO_ENCODER_RCM_VBR_CFR
                 else if rate = ''VBR_VFR'' then Some VIDEO_ENCODER_RCM_VBR_VFR
                 else if rate = ''UNUSED'' then Some VIDEO_ENCODER_RCM_UNUSED
                 else None);
          pr = (if prof = ''H264_BASELINE'' then Some VIDEO_ENCODER_PROFILE_H264_BASELINE
                else if prof = ''H264_HIGH'' then Some VIDEO_ENCODER_PROFILE_H264_HIGH
                else if prof = ''H264_MAIN'' then Some VIDEO_ENCODER_PROFILE_H264_MAIN
                else if prof = ''HEVC_MAIN'' then Some VIDEO_ENCODER_PROFILE_HEVC_MAIN
                else if prof = ''HEVC_MAIN10'' then Some VIDEO_ENCODER_PROFILE_HEVC_MAIN10
                else None);
          c1 = c\<lparr>bitRate := DT_Get J (get_u32 env) dt ''bitrate'' 64000,
                 gop := DT_Get J (get_u32 env) dt ''gop'' 30\<rparr>;
          c2 = (case rcm of None \<Rightarrow> c1 | Some m \<Rightarrow> c1\<lparr>rateControlMode := m\<rparr>);
          c3 = (case pr of None \<Rightarrow> c2 | Some p \<Rightarrow> c2\<lparr>profile := p\<rparr>)
      in (cfg_check (pr = None) ''the video profile is invalid, ''
           (cfg_check (rcm = None) ''the video profile is invalid, '' (QC_STATUS_OK, errors)), c3))"

definition VideoEncoder_VerifyAndSet ::
  "('w, 'j) node_env \<Rightarrow> string \<Rightarrow> ('w, 'j) VideoEncoder \<Rightarrow>
     ((QCStatus_e \<times> string) \<times> ('w, 'j) VideoEncoder) option" where
  "VideoEncoder_VerifyAndSet env config s =
     (case VidcNodeBase_VerifyAndSet env config s of
        None \<Rightarrow> None
      | Some ((status, errors), s1) \<Rightarrow>
          if status \<noteq> QC_STATUS_OK then Some ((status, errors), s1)
          else
            (case DT_GetTree (env_json env) (m_dataTree (configIfs s1)) ''static''
                    (j_null (env_json env)) of
               (status2, dt) \<Rightarrow>
                 if status2 \<noteq> QC_STATUS_OK then Some ((status2, errors), s1)
                 else
                   let (r, c) = VideoEncoder_ParseStaticConfig env dt errors (cfg s1)
                   in Some (r, s1\<lparr>cfg := c\<rparr>)))"

definition VideoEncoder_ValidateConfig :: "('w, 'j) VideoEncoder \<Rightarrow> QCStatus_e" where
  "VideoEncoder_ValidateConfig s =
     (let c = cfg s
      in if \<not> m_pConfig s then QC_STATUS_BAD_ARGUMENTS
         else if cfg_width c < 128 \<or> cfg_height c < 128 \<or> 8192 < cfg_width c \<or> 8192 < cfg_height c
           then QC_STATUS_BAD_ARGUMENTS
         else if GetVidcFormat (inFormat c) = VIDC_COLOR_FORMAT_UNUSED then QC_STATUS_BAD_ARGUMENTS
         else if rateControlMode c = VIDEO_ENCODER_RCM_UNUSED then QC_STATUS_BAD_ARGUMENTS
         else if outFormat c \<noteq> QC_IMAGE_FORMAT_COMPRESSED_H265 \<and>
                 outFormat c \<noteq> QC_IMAGE_FORMAT_COMPRESSED_H264 then QC_STATUS_BAD_ARGUMENTS
         else if 64 < numInputBufferReq c \<or> numInputBufferReq c < 4 then QC_STATUS_BAD_ARGUMENTS
         else if 64 < numOutputBufferReq c \<or> numOutputBufferReq c < 4 then QC_STATUS_BAD_ARGUMENTS
         else QC_STATUS_OK)"

subsection \<open>Driver properties\<close>

definition VideoEncoder_InitDrvProperty ::
  "'w vidc_os \<Rightarrow> ('w, 'j) VideoEncoder \<Rightarrow> QCStatus_e \<times> ('w, 'j) VideoEncoder" where
  "VideoEncoder_InitDrvProperty os s =
     (let c = cfg s;
          meta = \<lparr>meta_width = cfg_width c, meta_height = cfg_height c,
                  meta_frameRate = cfg_frameRate c,
                  meta_codecType = (if outFormat c = QC_IMAGE_FORMAT_COMPRESSED_H265
                                    then VIDEO_CODEC_H265 else VIDEO_CODEC_H264)\<rparr>;
          upd = (\<lambda>f s. s\<lparr>m_vidcEncoderData := f (m_vidcEncoderData s)\<rparr>)
      in if_ok (if_ok (if_ok (if_ok (if_ok (if_ok (if_ok (if_ok (if_ok
           (InitDriver os meta s)
           (SetDrvProperty os (VIDC_I_ENC_RATE_CONTROL (rateControlMode c))))
           (SetDrvProperty os (VIDC_I_COLOR_FORMAT VIDC_BUFFER_INPUT (GetVidcFormat (inFormat c)))))
           (\<lambda>s. SetDrvProperty os (VIDC_I_ENC_INTRA_PERIOD (gop c) 0)
                  (upd (\<lambda>d. d\<lparr>p_frames := gop c, b_frames := 0\<rparr>) s)))
           (\<lambda>s. SetDrvProperty os (VIDC_I_ENC_IDR_PERIOD 1) (upd (\<lambda>d. d\<lparr>idr_period := 1\<rparr>) s)))
           (\<lambda>s. SetDrvProperty os (VIDC_I_TARGET_BITRATE (bitRate c))
                  (upd (\<lambda>d. d\<lparr>target_bitrate := bitRate c\<rparr>) s)))
           (\<lambda>s. SetDrvProperty os (VIDC_I_ENC_SYNC_FRAME_SEQ_HDR (bSyncFrameSeqHdr c))
                  (upd (\<lambda>d. d\<lparr>enableSyncFrameSeq := bSyncFrameSeqHdr c\<rparr>) s)))
           (\<lambda>s. SetDrvProperty os (VIDC_I_PROFILE (enc_profile (m_vidcEncoderData s))) s))
           (\<lambda>s. SetDrvProperty os (VIDC_I_LEVEL (enc_level (m_vidcEncoderData s))) s))
           (SetDrvProperty os VIDC_I_VPE_SPATIAL_TRANSFORM))"

definition get_plane_def ::
  "'w vidc_os \<Rightarrow> (VidcEncoderData \<Rightarrow> vidc_plane_def) \<Rightarrow>
     (vidc_plane_def \<Rightarrow> VidcEncoderData \<Rightarrow> VidcEncoderData) \<Rightarrow> u32 \<Rightarrow> ('w, 'j) VideoEncoder \<Rightarrow>
     QCStatus_e \<times> ('w, 'j) VideoEncoder" where
  "get_plane_def os sel put index s =
     (let pd = (sel (m_vidcEncoderData s))\<lparr>pl_buf_type := VIDC_BUFFER_INPUT, plane_index := index\<rparr>;
          (ret, pkt, s1) = GetDrvProperty os (VIDC_I_PLANE_DEF pd) s
      in (ret, s1\<lparr>m_vidcEncoderData := put (as_plane_def pkt pd) (m_vidcEncoderData s1)\<rparr>))"

definition GetInputInformation ::
  "'w vidc_os \<Rightarrow> ('w, 'j) VideoEncoder \<Rightarrow> QCStatus_e \<times> ('w, 'j) VideoEncoder" where
  "GetInputInformation os s =
     (let fr = (enc_frameRate (m_vidcEncoderData s))\<lparr>fr_buf_type := VIDC_BUFFER_INPUT\<rparr>;
          (ret, pkt, s1) = GetDrvProperty os (VIDC_I_FRAME_RATE fr) s;
          fr' = as_frame_rate pkt fr;
          s2 = s1\<lparr>m_vidcEncoderData := (m_vidcEncoderData s1)\<lparr>enc_frameRate := fr'\<rparr>\<rparr>
      in if_ok (if_ok
           (if ret \<noteq> QC_STATUS_OK then (ret, s2)
            else if fps_numerator fr' \<noteq> cfg_frameRate (cfg s) then (QC_STATUS_FAIL, s2)
            else (ret, s2))
           (get_plane_def os planeDefY (\<lambda>p d. d\<lparr>planeDefY := p\<rparr>) 1))
           (get_plane_def os planeDefUV (\<lambda>p d. d\<lparr>planeDefUV := p\<rparr>) 2))"

definition VideoEncoder_CheckBuffer ::
  "VideoFrameDescriptor \<Rightarrow> VideoCodec_BufType_e \<Rightarrow> ('w, 'j) VideoEncoder \<Rightarrow> QCStatus_e" where
  "VideoEncoder_CheckBuffer d bufferType s =
     (let ret = ValidateBuffer d bufferType s
      in if ret \<noteq> QC_STATUS_OK then ret
         else
           case bufferType of
             VIDEO_CODEC_BUF_INPUT \<Rightarrow>
               if sint (i_stride d ! 0) \<noteq> actual_stride (planeDefY (m_vidcEncoderData s)) \<or>
                  sint (i_stride d ! 1) \<noteq> actual_stride (planeDefUV (m_vidcEncoderData s))
                 then QC_STATUS_INVALID_BUF
               else if b_size d < ucast (m_bufSize s VIDEO_CODEC_BUF_INPUT) then QC_STATUS_INVALID_BUF
               else ret
           | VIDEO_CODEC_BUF_OUTPUT \<Rightarrow> ret)"

subsection \<open>Life cycle\<close>

definition VideoEncoder_EventCallback ::
  "'w vidc_os \<Rightarrow> VideoCodec_EventType_e \<Rightarrow> vidc_drv_msg \<Rightarrow> ('w, 'j) VideoEncoder \<Rightarrow>
     ('w, 'j) VideoEncoder" where
  "VideoEncoder_EventCallback os eventId msg s =
     notify_event os eventId msg (VidcNodeBase_EventCallback eventId s)"

definition enc_callbacks :: "'w vidc_os \<Rightarrow> ('w, 'j) VideoEncoder vidc_callbacks" where
  "enc_callbacks os =
     \<lparr>inputDone = InFrameCallback, outputDone = OutFrameCallback,
      event = VideoEncoder_EventCallback os\<rparr>"

definition enc_data_init :: VidcEncoderData where
  "enc_data_init =
     \<lparr>enc_profile = VIDC_PROFILE_ZERO, enc_level = VIDC_LEVEL_ZERO,
      enc_frameRate = \<lparr>fr_buf_type = VIDC_BUFFER_INPUT, fps_numerator = 0, fps_denominator = 1\<rparr>,
      p_frames = 30, b_frames = 0, idr_period = 1, target_bitrate = 64000,
      enableSyncFrameSeq = False,
      planeDefY = \<lparr>pl_buf_type = VIDC_BUFFER_INPUT, plane_index = 0, actual_stride = 0,
                   pl_other = []\<rparr>,
      planeDefUV = \<lparr>pl_buf_type = VIDC_BUFFER_INPUT, plane_index = 0, actual_stride = 0,
                    pl_other = []\<rparr>\<rparr>"

text \<open>The else branches of the steps of \<open>Initialize\<close>, which only set the state.\<close>

definition else_error ::
  "QCStatus_e \<times> ('w, 'j, 'c, 'a) vnode \<Rightarrow> QCStatus_e \<times> ('w, 'j, 'c, 'a) vnode" where
  "else_error r =
     (case r of (ret, s) \<Rightarrow>
        (ret, if ret \<noteq> QC_STATUS_OK then s\<lparr>m_state := QC_OBJECT_STATE_ERROR\<rparr> else s))"

text \<open>The loop that checks a list of buffers: the status of the first one that fails, or OK.\<close>

fun check_buffers :: "(VideoFrameDescriptor \<Rightarrow> QCStatus_e) \<Rightarrow> VideoFrameDescriptor list \<Rightarrow> QCStatus_e" where
  "check_buffers check [] = QC_STATUS_OK"
| "check_buffers check (buf # rest) =
     (let status = check buf
      in if status \<noteq> QC_STATUS_OK then status else check_buffers check rest)"

text \<open>Taking the buffers of one direction out of those the application gave, and checking them.\<close>

definition take_buffers ::
  "(VideoFrameDescriptor \<Rightarrow> ('w, 'j, 'c, 'a) vnode \<Rightarrow> QCStatus_e) \<Rightarrow> VideoFrameDescriptor list \<Rightarrow>
     u32 \<Rightarrow> VideoCodec_BufType_e \<Rightarrow> ('w, 'j, 'c, 'a) vnode \<Rightarrow>
     (QCStatus_e \<times> ('w, 'j, 'c, 'a) vnode) option" where
  "take_buffers check buffers bufferIdx ty s =
     if_ok_opt (AllocateBuffer buffers bufferIdx ty s)
       (\<lambda>s1. Some (else_error (check_buffers (\<lambda>d. check d s1) (buffer_list s1 ty), s1)))"

definition output_index :: "'c VidcNodeBase_Config_scheme \<Rightarrow> u32" where
  "output_index c = (if bInputDynamicMode c then 0 else numInputBufferReq c)"

definition encoder_buffers ::
  "'w vidc_os \<Rightarrow> VideoFrameDescriptor list \<Rightarrow> ('w, 'j) VideoEncoder \<Rightarrow>
     (QCStatus_e \<times> ('w, 'j) VideoEncoder) option" where
  "encoder_buffers os buffers s =
     if_ok_opt (if_ok_opt (if_ok_opt
       (take_buffers (\<lambda>d. VideoEncoder_CheckBuffer d VIDEO_CODEC_BUF_INPUT) buffers 0
          VIDEO_CODEC_BUF_INPUT s)
       (\<lambda>s. take_buffers (\<lambda>d. VideoEncoder_CheckBuffer d VIDEO_CODEC_BUF_OUTPUT) buffers
          (output_index (cfg s)) VIDEO_CODEC_BUF_OUTPUT s))
       (\<lambda>s. Some (VidcNodeBase_SetBuffer os VIDEO_CODEC_BUF_INPUT s)))
       (\<lambda>s. Some (VidcNodeBase_SetBuffer os VIDEO_CODEC_BUF_OUTPUT s))"

text \<open>The addresses of the static callback functions and of the node itself, none of them null.\<close>

definition open_driver ::
  "'w vidc_os \<Rightarrow> VideoEncDecType_e \<Rightarrow> ('w, 'j, 'c, 'a) vnode \<Rightarrow>
     QCStatus_e \<times> ('w, 'j, 'c, 'a) vnode" where
  "open_driver os ty s =
     OpenDriver os 1 2 3 4 (Drv_Init (numInputBufferReq (cfg s)) (numOutputBufferReq (cfg s)) ty s)"

text \<open>The clean-up after a failure; \<open>baseInit\<close> is \<^verbatim>\<open>bBaseVidcInitDone\<close>.\<close>

definition init_cleanup ::
  "'w vidc_os \<Rightarrow> ('w, 'j, 'c, 'a) vnode vidc_callbacks \<Rightarrow> bool \<Rightarrow> ('w, 'j, 'c, 'a) vnode \<Rightarrow>
     ('w, 'j, 'c, 'a) vnode" where
  "init_cleanup os cb baseInit s =
     (let s1 = (snd (FreeOutputBuffers os s))\<lparr>m_outputBufferList := []\<rparr>;
          s2 = (snd (FreeInputBuffers os s1))\<lparr>m_inputBufferList := []\<rparr>;
          s3 = s2\<lparr>m_state := QC_OBJECT_STATE_ERROR\<rparr>;
          s4 = (if baseInit then snd (VidcNodeBase_DeInitialize os cb s3) else s3)
      in s4\<lparr>m_state := QC_OBJECT_STATE_ERROR\<rparr>)"

text \<open>\<open>Initialize\<close> up to the clean-up: the first part decides \<^verbatim>\<open>bBaseVidcInitDone\<close>.\<close>

definition encoder_config ::
  "('w, 'j) node_env \<Rightarrow> string \<Rightarrow> bool \<Rightarrow> ('w, 'j) VideoEncoder \<Rightarrow>
     (QCStatus_e \<times> ('w, 'j) VideoEncoder) option" where
  "encoder_config env config callback s =
     (case VideoEncoder_VerifyAndSet env config (s\<lparr>m_vidcEncoderData := enc_data_init\<rparr>) of
        None \<Rightarrow> None
      | Some ((status, errors), s1) \<Rightarrow>
          if status \<noteq> QC_STATUS_OK then Some (status, s1)
          else Some (VidcNodeBase_Init env
                 (s1\<lparr>m_pConfig := True, m_name := n_name (cfg_nodeId (cfg s1)), m_callback := callback\<rparr>)))"

definition encoder_open ::
  "'w vidc_os \<Rightarrow> ('w, 'j) VideoEncoder \<Rightarrow> QCStatus_e \<times> ('w, 'j) VideoEncoder" where
  "encoder_open os s =
     else_error (if_ok (else_error (if_ok (else_error (if_ok (if_ok (if_ok (if_ok
       (VideoEncoder_ValidateConfig s, s)
       (\<lambda>s. SetVidcProfileLevel (profile (cfg s)) (s\<lparr>m_state := QC_OBJECT_STATE_INITIALIZING\<rparr>)))
       (open_driver os VIDEO_ENC))
       (VideoEncoder_InitDrvProperty os))
       (GetInputInformation os)))
       (VidcNodeBase_NegotiateBufferReq os VIDEO_CODEC_BUF_INPUT)))
       (VidcNodeBase_NegotiateBufferReq os VIDEO_CODEC_BUF_OUTPUT))"

definition VideoEncoder_Initialize ::
  "('w, 'j) node_env \<Rightarrow> string \<Rightarrow> bool \<Rightarrow> VideoFrameDescriptor list \<Rightarrow> ('w, 'j) VideoEncoder \<Rightarrow>
     (QCStatus_e \<times> ('w, 'j) VideoEncoder) option" where
  "VideoEncoder_Initialize env config callback buffers s =
     (let os = env_os env; cb = enc_callbacks os
      in case encoder_config env config callback s of
           None \<Rightarrow> None
         | Some (status0, s0) \<Rightarrow>
             (case if_ok_opt (if_ok_opt (if_ok_opt (Some (if_ok (status0, s0) (encoder_open os)))
                     (encoder_buffers os buffers))
                     (\<lambda>s. Some (PostInit os cb s)))
                     (\<lambda>s. Some (ValidateBuffers s, s)) of
                None \<Rightarrow> None
              | Some (status, s1) \<Rightarrow>
                  Some (status, if status \<noteq> QC_STATUS_OK
                                then init_cleanup os cb (status0 = QC_STATUS_OK) s1 else s1)))"

text \<open>The status of the last buffer that is submitted is the status of \<open>Start\<close>.\<close>

fun submit_outputs ::
  "'w vidc_os \<Rightarrow> VideoFrameDescriptor list \<Rightarrow> QCStatus_e \<times> ('w, 'j, 'c, 'a) vnode \<Rightarrow>
     QCStatus_e \<times> ('w, 'j, 'c, 'a) vnode" where
  "submit_outputs os [] r = r"
| "submit_outputs os (buffer # rest) (ret, s) =
     submit_outputs os rest
       (if_ok (ValidateBuffer buffer VIDEO_CODEC_BUF_OUTPUT s, s) (FillBuffer os buffer))"

definition VideoEncoder_Start ::
  "'w vidc_os \<Rightarrow> ('w, 'j) VideoEncoder \<Rightarrow> QCStatus_e \<times> ('w, 'j) VideoEncoder" where
  "VideoEncoder_Start os s =
     if_ok (VidcNodeBase_Start os (enc_callbacks os) s)
       (\<lambda>s. submit_outputs os (m_outputBufferList s) (QC_STATUS_OK, s))"

definition VideoEncoder_Stop ::
  "'w vidc_os \<Rightarrow> ('w, 'j) VideoEncoder \<Rightarrow> QCStatus_e \<times> ('w, 'j) VideoEncoder" where
  "VideoEncoder_Stop os s = VidcNodeBase_Stop os (enc_callbacks os) s"

definition VideoEncoder_DeInitialize ::
  "'w vidc_os \<Rightarrow> ('w, 'j) VideoEncoder \<Rightarrow> QCStatus_e \<times> ('w, 'j) VideoEncoder" where
  "VideoEncoder_DeInitialize os s = VidcNodeBase_DeInitialize os (enc_callbacks os) s"

subsection \<open>Frames\<close>

definition submit_frame ::
  "'w vidc_os \<Rightarrow> (VideoFrameDescriptor \<Rightarrow> ('w, 'j, 'c, 'a) vnode \<Rightarrow> QCStatus_e) \<Rightarrow> bool \<Rightarrow>
     ('w vidc_os \<Rightarrow> VideoFrameDescriptor \<Rightarrow> ('w, 'j, 'c, 'a) vnode \<Rightarrow>
        QCStatus_e \<times> ('w, 'j, 'c, 'a) vnode) \<Rightarrow>
     VideoFrameDescriptor \<Rightarrow> ('w, 'j, 'c, 'a) vnode \<Rightarrow> QCStatus_e \<times> ('w, 'j, 'c, 'a) vnode" where
  "submit_frame os check nonZero send d s =
     if_ok (if_ok (ValidateFrameSubmission d nonZero s, s) (\<lambda>s. (check d s, s))) (send os d)"

definition VideoEncoder_SubmitInputFrame ::
  "'w vidc_os \<Rightarrow> VideoFrameDescriptor \<Rightarrow> ('w, 'j) VideoEncoder \<Rightarrow>
     QCStatus_e \<times> ('w, 'j) VideoEncoder" where
  "VideoEncoder_SubmitInputFrame os d s =
     submit_frame os (\<lambda>d. VideoEncoder_CheckBuffer d VIDEO_CODEC_BUF_INPUT) True EmptyBuffer d s"

definition VideoEncoder_SubmitOutputFrame ::
  "'w vidc_os \<Rightarrow> VideoFrameDescriptor \<Rightarrow> ('w, 'j) VideoEncoder \<Rightarrow>
     QCStatus_e \<times> ('w, 'j) VideoEncoder" where
  "VideoEncoder_SubmitOutputFrame os d s =
     submit_frame os (\<lambda>d. VideoEncoder_CheckBuffer d VIDEO_CODEC_BUF_OUTPUT) False FillBuffer d s"

text \<open>The buffers of a frame descriptor, a dummy for an index it does not have, as \<^verbatim>\<open>dynamic_cast\<close>
  sees them.\<close>

definition frame_buffer :: "any_buffer option list \<Rightarrow> nat \<Rightarrow> VideoFrameDescriptor option" where
  "frame_buffer fd i =
     (if i < length fd then
        (case fd ! i of None \<Rightarrow> None | Some b \<Rightarrow> any_VideoFrameDescriptor b)
      else None)"

definition process_frame ::
  "(VideoFrameDescriptor \<Rightarrow> 's \<Rightarrow> QCStatus_e \<times> 's) \<Rightarrow> (VideoFrameDescriptor \<Rightarrow> 's \<Rightarrow> QCStatus_e \<times> 's) \<Rightarrow>
     any_buffer option list \<Rightarrow> 's \<Rightarrow> QCStatus_e \<times> 's" where
  "process_frame submitIn submitOut fd s =
     (let inBuf = frame_buffer fd 0; outBuf = frame_buffer fd 1
      in if inBuf = None \<and> outBuf = None then (QC_STATUS_INVALID_BUF, s)
         else
           if_ok (case inBuf of None \<Rightarrow> (QC_STATUS_OK, s) | Some d \<Rightarrow> submitIn d s)
             (\<lambda>s. case outBuf of None \<Rightarrow> (QC_STATUS_OK, s) | Some d \<Rightarrow> submitOut d s))"

definition VideoEncoder_ProcessFrameDescriptor ::
  "'w vidc_os \<Rightarrow> any_buffer option list \<Rightarrow> ('w, 'j) VideoEncoder \<Rightarrow>
     QCStatus_e \<times> ('w, 'j) VideoEncoder" where
  "VideoEncoder_ProcessFrameDescriptor os fd s =
     process_frame (VideoEncoder_SubmitInputFrame os) (VideoEncoder_SubmitOutputFrame os) fd s"

end
