(* ===== verification/QC_VideoDecoder.thy ===== *)
theory QC_VideoDecoder
  imports QC_VideoEncoder
begin

text \<open>
  The video decoder node: \<^verbatim>\<open>source/Node/VideoDecoder/VideoDecoder.cpp\<close>. Unlike the encoder it learns
  the layout of its output from the driver, in a message: the callback negotiates the buffers again,
  registers them and starts the output, and submits the registered buffers when the output has
  started. These requests are made on the driver's own thread, so no message is handled meanwhile.
\<close>

record ('w, 'j) VideoDecoder = "('w, 'j, unit) VidcNodeBase" +
  m_OutputStarted :: bool
  m_OutputReconfigInprogress :: bool

subsection \<open>Configuration and driver properties\<close>

definition VideoDecoder_VerifyAndSet ::
  "('w, 'j) node_env \<Rightarrow> string \<Rightarrow> ('w, 'j) VideoDecoder \<Rightarrow>
     ((QCStatus_e \<times> string) \<times> ('w, 'j) VideoDecoder) option" where
  "VideoDecoder_VerifyAndSet env config s =
     (case VidcNodeBase_VerifyAndSet env config s of
        None \<Rightarrow> None
      | Some ((status, errors), s1) \<Rightarrow>
          if status \<noteq> QC_STATUS_OK then Some ((status, errors), s1)
          else Some ((fst (DT_GetTree (env_json env) (m_dataTree (configIfs s1)) ''static''
                        (j_null (env_json env))), errors), s1))"

definition VideoDecoder_ValidateConfig :: "('w, 'j) VideoDecoder \<Rightarrow> QCStatus_e" where
  "VideoDecoder_ValidateConfig s =
     (let c = cfg s
      in if \<not> m_pConfig s then QC_STATUS_BAD_ARGUMENTS
         else if cfg_width c < 128 \<or> cfg_height c < 128 \<or> 8192 < cfg_width c \<or> 8192 < cfg_height c
           then QC_STATUS_BAD_ARGUMENTS
         else if inFormat c \<noteq> QC_IMAGE_FORMAT_COMPRESSED_H265 \<and>
                 inFormat c \<noteq> QC_IMAGE_FORMAT_COMPRESSED_H264 then QC_STATUS_BAD_ARGUMENTS
         else if outFormat c \<noteq> QC_IMAGE_FORMAT_NV12 \<and> outFormat c \<noteq> QC_IMAGE_FORMAT_P010
           then QC_STATUS_BAD_ARGUMENTS
         else if 64 < numInputBufferReq c \<or> numInputBufferReq c < 4 then QC_STATUS_BAD_ARGUMENTS
         else if 64 < numOutputBufferReq c \<or> numOutputBufferReq c < 4 then QC_STATUS_BAD_ARGUMENTS
         else QC_STATUS_OK)"

definition VideoDecoder_InitDrvProperty ::
  "'w vidc_os \<Rightarrow> ('w, 'j) VideoDecoder \<Rightarrow> QCStatus_e \<times> ('w, 'j) VideoDecoder" where
  "VideoDecoder_InitDrvProperty os s =
     (let c = cfg s;
          meta = \<lparr>meta_width = cfg_width c, meta_height = cfg_height c,
                  meta_frameRate = cfg_frameRate c,
                  meta_codecType = (if inFormat c = QC_IMAGE_FORMAT_COMPRESSED_H265
                                    then VIDEO_CODEC_H265 else VIDEO_CODEC_H264)\<rparr>
      in if_ok (if_ok (if_ok
           (InitDriver os meta s)
           (SetDrvProperty os (VIDC_I_COLOR_FORMAT VIDC_BUFFER_OUTPUT (GetVidcFormat (outFormat c)))))
           (SetDrvProperty os VIDC_I_DEC_OUTPUT_ORDER))
           (SetDrvProperty os (VIDC_I_DEC_CONT_ON_RECONFIG True)))"

definition VideoDecoder_CheckBuffer ::
  "VideoFrameDescriptor \<Rightarrow> VideoCodec_BufType_e \<Rightarrow> ('w, 'j) VideoDecoder \<Rightarrow> QCStatus_e" where
  "VideoDecoder_CheckBuffer d bufferType s =
     (let ret = ValidateBuffer d bufferType s
      in if ret \<noteq> QC_STATUS_OK then ret
         else
           case bufferType of
             VIDEO_CODEC_BUF_OUTPUT \<Rightarrow>
               if b_size d < ucast (m_bufSize s VIDEO_CODEC_BUF_OUTPUT) then QC_STATUS_INVALID_BUF
               else ret
           | VIDEO_CODEC_BUF_INPUT \<Rightarrow> ret)"

subsection \<open>Frames\<close>

definition VideoDecoder_SubmitInputFrame ::
  "'w vidc_os \<Rightarrow> VideoFrameDescriptor \<Rightarrow> ('w, 'j) VideoDecoder \<Rightarrow>
     QCStatus_e \<times> ('w, 'j) VideoDecoder" where
  "VideoDecoder_SubmitInputFrame os d s =
     submit_frame os (\<lambda>d. VideoDecoder_CheckBuffer d VIDEO_CODEC_BUF_INPUT) True EmptyBuffer d s"

definition VideoDecoder_SubmitOutputFrame ::
  "'w vidc_os \<Rightarrow> VideoFrameDescriptor \<Rightarrow> ('w, 'j) VideoDecoder \<Rightarrow>
     QCStatus_e \<times> ('w, 'j) VideoDecoder" where
  "VideoDecoder_SubmitOutputFrame os d s =
     submit_frame os (\<lambda>d. VideoDecoder_CheckBuffer d VIDEO_CODEC_BUF_OUTPUT) False FillBuffer d s"

definition VideoDecoder_ProcessFrameDescriptor ::
  "'w vidc_os \<Rightarrow> any_buffer option list \<Rightarrow> ('w, 'j) VideoDecoder \<Rightarrow>
     QCStatus_e \<times> ('w, 'j) VideoDecoder" where
  "VideoDecoder_ProcessFrameDescriptor os fd s =
     process_frame (VideoDecoder_SubmitInputFrame os) (VideoDecoder_SubmitOutputFrame os) fd s"

subsection \<open>Output reconfiguration\<close>

definition HandleOutputReconfig ::
  "'w vidc_os \<Rightarrow> ('w, 'j) VideoDecoder \<Rightarrow> QCStatus_e \<times> ('w, 'j) VideoDecoder" where
  "HandleOutputReconfig os s =
     (if m_OutputReconfigInprogress s then (QC_STATUS_BAD_STATE, s)
      else
        let (ret, s1) =
          if_ok (if_ok
            (VidcNodeBase_NegotiateBufferReq os VIDEO_CODEC_BUF_OUTPUT
               (s\<lparr>m_OutputReconfigInprogress := True\<rparr>))
            (\<lambda>s. if bOutputDynamicMode (cfg s) then (QC_STATUS_OK, s)
                 else VidcNodeBase_SetBuffer os VIDEO_CODEC_BUF_OUTPUT s))
            (start_output os)
        in (ret, if ret \<noteq> QC_STATUS_OK then s1\<lparr>m_OutputReconfigInprogress := False\<rparr> else s1))"

fun submit_all ::
  "('d \<Rightarrow> 's \<Rightarrow> QCStatus_e \<times> 's) \<Rightarrow> 'd list \<Rightarrow> 's \<Rightarrow> QCStatus_e \<times> 's" where
  "submit_all submit [] s = (QC_STATUS_OK, s)"
| "submit_all submit (buffer # rest) s = if_ok (submit buffer s) (submit_all submit rest)"

definition FinishOutputReconfig ::
  "'w vidc_os \<Rightarrow> ('w, 'j) VideoDecoder \<Rightarrow> QCStatus_e \<times> ('w, 'j) VideoDecoder" where
  "FinishOutputReconfig os s =
     (if m_OutputReconfigInprogress s then
        let s1 = s\<lparr>m_OutputReconfigInprogress := False\<rparr>
        in if bOutputDynamicMode (cfg s) then (QC_STATUS_OK, s1)
           else submit_all (VideoDecoder_SubmitOutputFrame os) (m_outputBufferList s1) s1
      else (QC_STATUS_OK, s))"

definition VideoDecoder_EventCallback ::
  "'w vidc_os \<Rightarrow> VideoCodec_EventType_e \<Rightarrow> vidc_drv_msg \<Rightarrow> ('w, 'j) VideoDecoder \<Rightarrow>
     ('w, 'j) VideoDecoder" where
  "VideoDecoder_EventCallback os eventId msg s =
     notify_event os eventId msg
       (case eventId of
          VIDEO_CODEC_EVT_OUTPUT_RECONFIG \<Rightarrow>
            (let (ret, s1) = HandleOutputReconfig os s
             in if ret \<noteq> QC_STATUS_OK then s1\<lparr>m_state := QC_OBJECT_STATE_ERROR\<rparr> else s1)
        | VIDEO_CODEC_EVT_RESP_START_INPUT_DONE \<Rightarrow> s\<lparr>m_state := QC_OBJECT_STATE_RUNNING\<rparr>
        | VIDEO_CODEC_EVT_RESP_START_OUTPUT_DONE \<Rightarrow>
            snd (FinishOutputReconfig os
                   (s\<lparr>m_state := QC_OBJECT_STATE_RUNNING, m_OutputStarted := True\<rparr>))
        | _ \<Rightarrow> VidcNodeBase_EventCallback eventId s)"

definition dec_callbacks :: "'w vidc_os \<Rightarrow> ('w, 'j) VideoDecoder vidc_callbacks" where
  "dec_callbacks os =
     \<lparr>inputDone = InFrameCallback, outputDone = OutFrameCallback,
      event = VideoDecoder_EventCallback os\<rparr>"

subsection \<open>Life cycle\<close>

definition decoder_config ::
  "('w, 'j) node_env \<Rightarrow> string \<Rightarrow> bool \<Rightarrow> ('w, 'j) VideoDecoder \<Rightarrow>
     (QCStatus_e \<times> ('w, 'j) VideoDecoder) option" where
  "decoder_config env config callback s =
     (case VideoDecoder_VerifyAndSet env config
             (s\<lparr>m_callback := callback, m_OutputStarted := False,
                m_OutputReconfigInprogress := False\<rparr>) of
        None \<Rightarrow> None
      | Some ((status, errors), s1) \<Rightarrow>
          if status \<noteq> QC_STATUS_OK then Some (status, s1)
          else Some (VidcNodeBase_Init env
                 (s1\<lparr>m_pConfig := True, m_name := n_name (cfg_nodeId (cfg s1))\<rparr>)))"

definition decoder_open ::
  "'w vidc_os \<Rightarrow> ('w, 'j) VideoDecoder \<Rightarrow> QCStatus_e \<times> ('w, 'j) VideoDecoder" where
  "decoder_open os s =
     else_error (if_ok (else_error (if_ok (else_error (if_ok (else_error (if_ok
       (VideoDecoder_ValidateConfig s, s)
       (\<lambda>s. open_driver os VIDEO_DEC (s\<lparr>m_state := QC_OBJECT_STATE_INITIALIZING\<rparr>))))
       (VideoDecoder_InitDrvProperty os)))
       (VidcNodeBase_NegotiateBufferReq os VIDEO_CODEC_BUF_INPUT)))
       (VidcNodeBase_NegotiateBufferReq os VIDEO_CODEC_BUF_OUTPUT))"

definition decoder_buffers ::
  "'w vidc_os \<Rightarrow> VideoFrameDescriptor list \<Rightarrow> ('w, 'j) VideoDecoder \<Rightarrow>
     (QCStatus_e \<times> ('w, 'j) VideoDecoder) option" where
  "decoder_buffers os buffers s =
     if_ok_opt (if_ok_opt
       (take_buffers (\<lambda>d. VideoDecoder_CheckBuffer d VIDEO_CODEC_BUF_INPUT) buffers 0
          VIDEO_CODEC_BUF_INPUT s)
       (\<lambda>s. take_buffers (\<lambda>d. VideoDecoder_CheckBuffer d VIDEO_CODEC_BUF_OUTPUT) buffers
          (output_index (cfg s)) VIDEO_CODEC_BUF_OUTPUT s))
       (\<lambda>s. Some (VidcNodeBase_SetBuffer os VIDEO_CODEC_BUF_INPUT s))"

definition VideoDecoder_Initialize ::
  "('w, 'j) node_env \<Rightarrow> string \<Rightarrow> bool \<Rightarrow> VideoFrameDescriptor list \<Rightarrow> ('w, 'j) VideoDecoder \<Rightarrow>
     (QCStatus_e \<times> ('w, 'j) VideoDecoder) option" where
  "VideoDecoder_Initialize env config callback buffers s =
     (let os = env_os env; cb = dec_callbacks os
      in case decoder_config env config callback s of
           None \<Rightarrow> None
         | Some (status0, s0) \<Rightarrow>
             (case if_ok_opt (if_ok_opt (if_ok_opt (Some (if_ok (status0, s0) (decoder_open os)))
                     (decoder_buffers os buffers))
                     (\<lambda>s. Some (PostInit os cb s)))
                     (\<lambda>s. Some (ValidateBuffers s, s)) of
                None \<Rightarrow> None
              | Some (status, s1) \<Rightarrow>
                  Some (status, if status \<noteq> QC_STATUS_OK
                                then init_cleanup os cb (status0 = QC_STATUS_OK) s1 else s1)))"

definition VideoDecoder_Start ::
  "'w vidc_os \<Rightarrow> ('w, 'j) VideoDecoder \<Rightarrow> QCStatus_e \<times> ('w, 'j) VideoDecoder" where
  "VideoDecoder_Start os s = VidcNodeBase_Start os (dec_callbacks os) s"

definition VideoDecoder_Stop ::
  "'w vidc_os \<Rightarrow> ('w, 'j) VideoDecoder \<Rightarrow> QCStatus_e \<times> ('w, 'j) VideoDecoder" where
  "VideoDecoder_Stop os s = VidcNodeBase_Stop os (dec_callbacks os) s"

definition VideoDecoder_DeInitialize ::
  "'w vidc_os \<Rightarrow> ('w, 'j) VideoDecoder \<Rightarrow> QCStatus_e \<times> ('w, 'j) VideoDecoder" where
  "VideoDecoder_DeInitialize os s = VidcNodeBase_DeInitialize os (dec_callbacks os) s"

end
