(* ===== verification/QC_VidcDemo.thy ===== *)
theory QC_VidcDemo
  imports QC_VideoDecoder
begin

text \<open>
  A codec driver, a JSON library and an encoder to evaluate the video nodes on. The driver's state is
  what it still has to deliver: it answers every request at once, gives back a frame when it gets it,
  and asks for four buffers of 64 bytes.
\<close>

definition demo_msg :: "vidc_event_type \<Rightarrow> vidc_frame_data \<Rightarrow> vidc_drv_msg" where
  "demo_msg ty fd = \<lparr>msg_addr = 4096, msg_length = 64, event_type = ty, frame_data = fd\<rparr>"

definition demo_frame_data :: vidc_frame_data where
  "demo_frame_data =
     \<lparr>frm_clnt_data = 0, fd_buf_type = VIDC_BUFFER_INPUT, frame_addr = 0, alloc_len = 0, fd_offset = 0,
      frame_handle = 0, fd_pid = 0, data_len = 0, fd_timestamp = 0, mark_data = 0, fd_flags = 0,
      fd_frame_type = 0\<rparr>"

fun demo_answer :: "vidc_request \<Rightarrow> vidc_drv_msg list" where
  "demo_answer VIDC_IOCTL_LOAD_RESOURCES = [demo_msg VIDC_EVT_RESP_LOAD_RESOURCES demo_frame_data]"
| "demo_answer VIDC_IOCTL_RELEASE_RESOURCES =
     [demo_msg VIDC_EVT_RESP_RELEASE_RESOURCES demo_frame_data]"
| "demo_answer (VIDC_IOCTL_START None) = [demo_msg VIDC_EVT_RESP_START demo_frame_data]"
| "demo_answer (VIDC_IOCTL_START (Some VIDC_START_INPUT)) =
     [demo_msg VIDC_EVT_RESP_START_INPUT_DONE demo_frame_data]"
| "demo_answer (VIDC_IOCTL_START (Some VIDC_START_OUTPUT)) =
     [demo_msg VIDC_EVT_RESP_START_OUTPUT_DONE demo_frame_data]"
| "demo_answer (VIDC_IOCTL_STOP None) = [demo_msg VIDC_EVT_RESP_STOP demo_frame_data]"
| "demo_answer (VIDC_IOCTL_STOP (Some VIDC_STOP_INPUT)) =
     [demo_msg VIDC_EVT_RESP_STOP_INPUT_DONE demo_frame_data]"
| "demo_answer (VIDC_IOCTL_STOP (Some VIDC_STOP_OUTPUT)) =
     [demo_msg VIDC_EVT_RESP_STOP_OUTPUT_DONE demo_frame_data]"
| "demo_answer VIDC_IOCTL_DRAIN =
     [demo_msg VIDC_EVT_RESP_DRAIN demo_frame_data, demo_msg VIDC_EVT_LAST_FLAG demo_frame_data]"
| "demo_answer (VIDC_IOCTL_EMPTY_INPUT_BUFFER fd) = [demo_msg VIDC_EVT_RESP_INPUT_DONE fd]"
| "demo_answer (VIDC_IOCTL_FILL_OUTPUT_BUFFER fd) = [demo_msg VIDC_EVT_RESP_OUTPUT_DONE fd]"
| "demo_answer _ = []"

fun demo_property :: "vidc_request \<Rightarrow> vidc_property" where
  "demo_property (VIDC_IOCTL_GET_PROPERTY (VIDC_I_BUFFER_REQUIREMENTS r)) =
     VIDC_I_BUFFER_REQUIREMENTS (r\<lparr>rq_actual_count := 4, rq_size := 64\<rparr>)"
| "demo_property (VIDC_IOCTL_GET_PROPERTY (VIDC_I_FRAME_RATE r)) =
     VIDC_I_FRAME_RATE (r\<lparr>fps_numerator := 30\<rparr>)"
| "demo_property (VIDC_IOCTL_GET_PROPERTY (VIDC_I_PLANE_DEF r)) =
     VIDC_I_PLANE_DEF (r\<lparr>actual_stride := 128\<rparr>)"
| "demo_property _ = VIDC_I_DEC_OUTPUT_ORDER"

definition demo_codec :: "vidc_drv_msg list vidc_os" where
  "demo_codec =
     \<lparr>device_open = (\<lambda>w. (8192, [])), device_close = (\<lambda>h w. []),
      device_ioctl = (\<lambda>h req w. if h = 0 then (1, demo_property req, w)
                                else (0, demo_property req, w @ demo_answer req)),
      MM_Timer_Sleep = (\<lambda>w. (w, [])), VIDC_ERR_NONE = 0, sizeof_property = (\<lambda>_. 16),
      sizeof_property_hdr = 8, sizeof_msg_info = 64, VIDC_FRAME_NOTCODED = 5\<rparr>"

datatype codec_json =
  CJ_String string | CJ_Number nat | CJ_Bool bool | CJ_Object "(string \<times> codec_json) list"

fun cj_members :: "codec_json \<Rightarrow> (string \<times> codec_json) list" where
  "cj_members (CJ_Object ms) = ms"
| "cj_members _ = []"

definition demo_config :: codec_json where
  "demo_config = CJ_Object [(''static'', CJ_Object
     [(''name'', CJ_String ''enc''), (''width'', CJ_Number 128), (''height'', CJ_Number 128),
      (''frameRate'', CJ_Number 30), (''bInputDynamicMode'', CJ_Bool True),
      (''bOutputDynamicMode'', CJ_Bool False), (''numInputBufferReq'', CJ_Number 4),
      (''numOutputBufferReq'', CJ_Number 4), (''inputImageFormat'', CJ_String ''nv12''),
      (''outputImageFormat'', CJ_String ''h265'')])]"

definition demo_codec_json :: "codec_json json_lib" where
  "demo_codec_json =
     \<lparr>j_null = CJ_Object [], j_contains = (\<lambda>js t. map_of (cj_members js) t \<noteq> None),
      j_at = (\<lambda>js t. the (map_of (cj_members js) t)), j_put = (\<lambda>js t v. None),
      j_is_array = (\<lambda>js. False), j_elems = (\<lambda>js. []), j_array = (\<lambda>js. CJ_Object []),
      j_string = CJ_String, j_get_string = (\<lambda>js. case js of CJ_String s \<Rightarrow> Some s | _ \<Rightarrow> None),
      j_parse = (\<lambda>s. if s = '''' then Inl ''empty'' else Inr demo_config), j_dump = (\<lambda>_. '''')\<rparr>"

definition demo_log :: "'w log_backend" where
  "demo_log =
     \<lparr>call_create = (\<lambda>f name level w. (QC_STATUS_OK, Some 16, w)), call_destroy = (\<lambda>f h w. w),
      call_log = (\<lambda>f h level msg w. w), call_printf = (\<lambda>msg w. w), getenv = (\<lambda>_. None),
      DefaultLog = 1, DefaultCreate = 2, DefaultDestory = 3\<rparr>"

definition demo_env_of :: "'w vidc_os \<Rightarrow> ('w, codec_json) node_env" where
  "demo_env_of os =
     \<lparr>env_os = os, env_json = demo_codec_json,
      get_string = (\<lambda>js. case js of CJ_String s \<Rightarrow> Some s | _ \<Rightarrow> None),
      get_u32 = (\<lambda>js. case js of CJ_Number n \<Rightarrow> Some (of_nat n) | _ \<Rightarrow> None),
      get_u8 = (\<lambda>js. case js of CJ_Number n \<Rightarrow> Some (of_nat n) | _ \<Rightarrow> None),
      get_bool = (\<lambda>js. case js of CJ_Bool b \<Rightarrow> Some b | _ \<Rightarrow> None),
      env_log = demo_log, env_loggers = \<lparr>s_logFnc = 1, s_createFnc = 2, s_destroyFnc = 3,
                                         s_defaultLogger = Logger_new 0 0 0\<rparr>\<rparr>"

text \<open>A node as it is constructed, for any state of the driver.\<close>

definition codec_node :: "'w \<Rightarrow> 'j \<Rightarrow> ('w, 'j) VideoEncoder" where
  "codec_node w js =
     \<lparr>drv_world = w, m_pIoHandle = 0, m_codecType = VIDC_CODEC_HEVC, m_encDecType = VIDEO_ENC,
      m_width = 0, m_height = 0, m_bInputDynamicMode = True, m_bOutputDynamicMode = True,
      m_cmdCompleted = VIDEO_CODEC_COMMAND_NONE, m_bCmdDrainReceived = False, m_bufNum = (\<lambda>_. 0),
      m_inputMap = [], m_outputMap = [], m_inputDoneCb = 0, m_outputDoneCb = 0, m_eventCb = 0,
      m_pAppPriv = 0,
      node = \<lparr>m_nodeId = \<lparr>n_name = '''', n_type = 0, n_id = 0\<rparr>, m_logger = Logger_new 0 0 0\<rparr>,
      configIfs = \<lparr>m_bLoggerInit = False, m_dataTree = js\<rparr>,
      cfg = \<lparr>cfg_nodeId = \<lparr>n_name = '''', n_type = 0, n_id = 0\<rparr>, cfg_width = 0, cfg_height = 0,
             cfg_frameRate = 0, numInputBufferReq = 0, numOutputBufferReq = 0,
             bInputDynamicMode = True, bOutputDynamicMode = True, inFormat = 0, outFormat = 0,
             bitRate = 0, gop = 0, bSyncFrameSeqHdr = False,
             rateControlMode = VIDEO_ENCODER_RCM_UNUSED,
             profile = VIDEO_ENCODER_PROFILE_HEVC_MAIN\<rparr>,
      m_name = '''', m_state = QC_OBJECT_STATE_INITIAL, m_bufSize = (\<lambda>_. 0), m_pConfig = False,
      m_inputBufferList = [], m_outputBufferList = [], m_callback = False, app_events = [],
      m_vidcEncoderData = enc_data_init\<rparr>"

definition demo_video_buffer :: "QCImageFormat_e \<Rightarrow> nat \<Rightarrow> VideoFrameDescriptor" where
  "demo_video_buffer fmt i = (VideoFrameDescriptor_init 5)
     \<lparr>pBuf := of_nat (65536 * (i + 1)), b_size := 64, dmaHandle := of_nat (100 + i),
      i_width := 128, i_height := 128, i_format := fmt, i_stride := [128, 128, 0, 0]\<rparr>"

definition demo_outputs :: "VideoFrameDescriptor list" where
  "demo_outputs = map (demo_video_buffer QC_IMAGE_FORMAT_COMPRESSED_H265) [0, 1, 2, 3]"

definition demo_ready :: "(QCStatus_e \<times> (vidc_drv_msg list, codec_json) VideoEncoder) option" where
  "demo_ready = VideoEncoder_Initialize (demo_env_of demo_codec) ''x'' True demo_outputs
     (codec_node [] (CJ_Object []))"

end
