(* ===== verification/QC_VidcSafety.thy ===== *)
theory QC_VidcSafety
  imports QC_VidcDemo
begin

text \<open>
  What the driver sees of an encoder. The driver of the model is wrapped so that its state records
  every request that reached it and was accepted, every message it delivered, and when it was closed.
  From that history follows which buffers the driver holds, and a buffer must not be sent to it while
  it holds it. The results are for any driver whatsoever: messages may come at any time, be repeated
  or be about buffers that were never sent.
\<close>

subsection \<open>History of a driver\<close>

datatype codec_event = Sent vidc_request | Got vidc_drv_msg | Closed

definition log_os :: "'w vidc_os \<Rightarrow> ('w \<times> codec_event list) vidc_os" where
  "log_os os =
     \<lparr>device_open = (\<lambda>(w, H). case device_open os w of (h, w') \<Rightarrow> (h, (w', H))),
      device_close = (\<lambda>h (w, H). (device_close os h w, H @ [Closed])),
      device_ioctl = (\<lambda>h req (w, H). case device_ioctl os h req w of (rc, pkt, w') \<Rightarrow>
        (rc, pkt, (w', if h \<noteq> nullptr \<and> rc = VIDC_ERR_NONE os then H @ [Sent req] else H))),
      MM_Timer_Sleep = (\<lambda>(w, H). case MM_Timer_Sleep os w of (ms, w') \<Rightarrow> (ms, (w', H @ map Got ms))),
      VIDC_ERR_NONE = VIDC_ERR_NONE os, sizeof_property = sizeof_property os,
      sizeof_property_hdr = sizeof_property_hdr os, sizeof_msg_info = sizeof_msg_info os,
      VIDC_FRAME_NOTCODED = VIDC_FRAME_NOTCODED os\<rparr>"

text \<open>Logging keeps its own state and leaves the history alone.\<close>

definition log_backend_lift :: "'w log_backend \<Rightarrow> ('w \<times> codec_event list) log_backend" where
  "log_backend_lift B =
     \<lparr>call_create = (\<lambda>f name level (w, H). case call_create B f name level w of (ret, h, w') \<Rightarrow>
        (ret, h, (w', H))),
      call_destroy = (\<lambda>f h (w, H). (call_destroy B f h w, H)),
      call_log = (\<lambda>f h level msg (w, H). (call_log B f h level msg w, H)),
      call_printf = (\<lambda>msg (w, H). (call_printf B msg w, H)),
      getenv = getenv B, DefaultLog = DefaultLog B, DefaultCreate = DefaultCreate B,
      DefaultDestory = DefaultDestory B\<rparr>"

definition log_env :: "('w, 'j) node_env \<Rightarrow> ('w \<times> codec_event list, 'j) node_env" where
  "log_env env =
     \<lparr>env_os = log_os (env_os env), env_json = env_json env, get_string = get_string env,
      get_u32 = get_u32 env, get_u8 = get_u8 env, get_bool = get_bool env,
      env_log = log_backend_lift (env_log env), env_loggers = env_loggers env\<rparr>"

abbreviation (input) hist :: "('w \<times> codec_event list, 'a) VidcDrvClient_scheme \<Rightarrow> codec_event list" where
  "hist s \<equiv> snd (drv_world s)"

fun sent_handle :: "VideoCodec_BufType_e \<Rightarrow> vidc_request \<Rightarrow> u64 set" where
  "sent_handle VIDEO_CODEC_BUF_INPUT (VIDC_IOCTL_EMPTY_INPUT_BUFFER fd) = {frm_clnt_data fd}"
| "sent_handle VIDEO_CODEC_BUF_OUTPUT (VIDC_IOCTL_FILL_OUTPUT_BUFFER fd) = {frm_clnt_data fd}"
| "sent_handle _ _ = {}"

text \<open>A message gives a buffer back when it is well-formed and has an address.\<close>

definition done_handle :: "'w vidc_os \<Rightarrow> VideoCodec_BufType_e \<Rightarrow> vidc_drv_msg \<Rightarrow> u64 set" where
  "done_handle os dir msg =
     (if msg_addr msg \<noteq> nullptr \<and> sizeof_msg_info os \<le> unat (msg_length msg) \<and>
         frame_addr (frame_data msg) \<noteq> nullptr \<and>
         event_type msg = (case dir of VIDEO_CODEC_BUF_INPUT \<Rightarrow> VIDC_EVT_RESP_INPUT_DONE
                           | VIDEO_CODEC_BUF_OUTPUT \<Rightarrow> VIDC_EVT_RESP_OUTPUT_DONE)
      then {frm_clnt_data (frame_data msg)} else {})"

fun held_step :: "'w vidc_os \<Rightarrow> VideoCodec_BufType_e \<Rightarrow> codec_event \<Rightarrow> u64 set \<Rightarrow> u64 set" where
  "held_step os dir (Sent req) S = S \<union> sent_handle dir req"
| "held_step os dir (Got msg) S = S - done_handle os dir msg"
| "held_step os dir Closed S = {}"

definition held :: "'w vidc_os \<Rightarrow> VideoCodec_BufType_e \<Rightarrow> codec_event list \<Rightarrow> u64 set" where
  "held os dir H = fold (held_step os dir) H {}"

definition no_resubmit :: "'w vidc_os \<Rightarrow> VideoCodec_BufType_e \<Rightarrow> codec_event list \<Rightarrow> bool" where
  "no_resubmit os dir H \<longleftrightarrow>
     (\<forall>H1 req H2. H = H1 @ Sent req # H2 \<longrightarrow> sent_handle dir req \<inter> held os dir H1 = {})"

lemma held_Nil [simp]: "held os dir [] = {}"
  by (simp add: held_def)

lemma held_snoc [simp]: "held os dir (H @ [e]) = held_step os dir e (held os dir H)"
  by (simp add: held_def)

lemma no_resubmit_Nil [simp]: "no_resubmit os dir []"
  by (simp add: no_resubmit_def)

lemma snoc_eq_split:
  "H @ [e] = H1 @ x # H2 \<longleftrightarrow> (H2 = [] \<and> H1 = H \<and> x = e) \<or> (\<exists>H3. H2 = H3 @ [e] \<and> H = H1 @ x # H3)"
  by (cases H2 rule: rev_cases) auto

lemma no_resubmit_snoc [simp]:
  "no_resubmit os dir (H @ [e]) \<longleftrightarrow> no_resubmit os dir H \<and>
     (case e of Sent req \<Rightarrow> sent_handle dir req \<inter> held os dir H = {} | _ \<Rightarrow> True)"
  unfolding no_resubmit_def snoc_eq_split by (cases e) (simp_all, blast+)

lemma held_Got: "held os dir (H @ map Got ms) = held os dir H - (\<Union>msg \<in> set ms. done_handle os dir msg)"
proof (induction ms rule: rev_induct)
  case (snoc msg ms)
  have "H @ map Got (ms @ [msg]) = (H @ map Got ms) @ [Got msg]" by simp
  then show ?case by (simp only: held_snoc held_step.simps snoc.IH) auto
qed simp

lemma no_resubmit_Got: "no_resubmit os dir (H @ map Got ms) = no_resubmit os dir H"
proof (induction ms rule: rev_induct)
  case (snoc msg ms)
  have "H @ map Got (ms @ [msg]) = (H @ map Got ms) @ [Got msg]" by simp
  then show ?case by (simp only: no_resubmit_snoc snoc.IH codec_event.case) simp
qed simp

subsection \<open>Invariants of the driver client\<close>

text \<open>The part of a node's state that the client of the driver depends on.\<close>

definition core :: "('w \<times> codec_event list, 'a) VidcDrvClient_scheme \<Rightarrow>
    u64 \<times> codec_event list \<times> (u64 \<times> VideoCodec_Info) list \<times> (u64 \<times> VideoCodec_Info) list" where
  "core s = (m_pIoHandle s, hist s, m_inputMap s, m_outputMap s)"

lemma core_eq:
  "core s' = core s \<longleftrightarrow> m_pIoHandle s' = m_pIoHandle s \<and> hist s' = hist s \<and>
     m_inputMap s' = m_inputMap s \<and> m_outputMap s' = m_outputMap s"
  by (auto simp: core_def)

definition frame_request :: "vidc_request \<Rightarrow> bool" where
  "frame_request req \<longleftrightarrow> (\<exists>dir. sent_handle dir req \<noteq> {})"

lemma frame_request_simps [simp]:
  "\<not> frame_request VIDC_IOCTL_LOAD_RESOURCES" "\<not> frame_request VIDC_IOCTL_RELEASE_RESOURCES"
  "\<not> frame_request (VIDC_IOCTL_START m)" "\<not> frame_request (VIDC_IOCTL_STOP m')"
  "\<not> frame_request VIDC_IOCTL_DRAIN" "\<not> frame_request (VIDC_IOCTL_SET_BUFFER b)"
  "\<not> frame_request (VIDC_IOCTL_FREE_BUFFER b)" "\<not> frame_request (VIDC_IOCTL_GET_PROPERTY p)"
  "\<not> frame_request (VIDC_IOCTL_SET_PROPERTY p)"
  by (auto simp: frame_request_def)

lemma not_frame_request: "\<not> frame_request req \<Longrightarrow> sent_handle dir req = {}"
  by (auto simp: frame_request_def)

text \<open>A request changes nothing but the driver, which notes it when a session is open.\<close>

lemma ioctl_log:
  assumes "ioctl (log_os os) req s = (rc, pkt, s')"
  shows "core s' = core s \<or>
         m_pIoHandle s \<noteq> nullptr \<and> rc = VIDC_ERR_NONE os \<and>
         core s' = (m_pIoHandle s, hist s @ [Sent req], m_inputMap s, m_outputMap s)"
  using assms
  by (auto simp: ioctl_def log_os_def core_def split: prod.splits if_splits)

text \<open>A property of a node that its operations keep, as far as they send no frames: it depends on the
  core, and survives requests and the messages handled during a sleep.\<close>

locale codec_invariant =
  fixes os :: "'w vidc_os"
    and P :: "('w \<times> codec_event list, 'j) VideoEncoder \<Rightarrow> bool"
  assumes same: "P s \<Longrightarrow> core s' = core s \<Longrightarrow> P s'"
    and request: "P s \<Longrightarrow> \<not> frame_request req \<Longrightarrow>
      core s' = (m_pIoHandle s, hist s @ [Sent req], m_inputMap s, m_outputMap s) \<Longrightarrow> P s'"
    and slept: "P s \<Longrightarrow> P (sleep (log_os os) (enc_callbacks (log_os os)) s)"
begin

lemma P_ioctl: "P s \<Longrightarrow> \<not> frame_request req \<Longrightarrow> P (snd (snd (ioctl (log_os os) req s)))"
  using ioctl_log[of os req s] same request by (metis prod.collapse)

lemma P_bind:
  "P (snd r) \<Longrightarrow> (\<And>a s. P s \<Longrightarrow> P (snd (f a s))) \<Longrightarrow> P (snd (case r of (a, s) \<Rightarrow> f a s))"
  by (cases r) simp

lemma P_bind3:
  "P (snd (snd r)) \<Longrightarrow> (\<And>a b s. P s \<Longrightarrow> P (snd (f a b s))) \<Longrightarrow>
     P (snd (case r of (a, b, s) \<Rightarrow> f a b s))"
  by (cases r) simp

lemma P_state: "P s \<Longrightarrow> P (s\<lparr>m_state := st\<rparr>)"
  by (rule same) (simp_all add: core_eq)

lemma P_if_ok: "P (snd r) \<Longrightarrow> (\<And>s. P s \<Longrightarrow> P (snd (f s))) \<Longrightarrow> P (snd (if_ok r f))"
  by (simp add: if_ok_def P_bind)

lemma P_else_error: "P (snd r) \<Longrightarrow> P (snd (else_error r))"
  by (simp add: else_error_def P_bind P_state)

lemma P_or_fail: "P (snd r) \<Longrightarrow> P (snd (or_fail r))"
  by (simp add: or_fail_def P_bind)

lemmas P_rules = P_ioctl P_bind P_bind3 P_state P_if_ok P_else_error P_or_fail

lemma P_SetDrvProperty: "P s \<Longrightarrow> P (snd (SetDrvProperty (log_os os) pkt s))"
  by (simp add: SetDrvProperty_def P_rules)

lemma P_GetDrvProperty: "P s \<Longrightarrow> P (snd (snd (GetDrvProperty (log_os os) pkt s)))"
  using P_ioctl[of s "VIDC_IOCTL_GET_PROPERTY pkt"]
  by (cases "ioctl (log_os os) (VIDC_IOCTL_GET_PROPERTY pkt) s") (simp add: GetDrvProperty_def)

lemma P_wait_loop:
  assumes "P s"
  shows "P (snd (wait_loop (sleep (log_os os) (enc_callbacks (log_os os))) d t c s))"
  using assms
proof (induction "nat (t - c)" arbitrary: c s rule: less_induct)
  case less
  then show ?case by (subst wait_loop.simps) (simp add: Let_def slept)
qed

lemma P_WaitForCmdCompleted:
  "P s \<Longrightarrow> P (snd (WaitForCmdCompleted (log_os os) (enc_callbacks (log_os os)) cmd t s))"
  by (simp add: WaitForCmdCompleted_def P_wait_loop)

lemma P_WaitForState:
  "P s \<Longrightarrow> P (snd (WaitForState (log_os os) (enc_callbacks (log_os os)) st s))"
  by (simp add: WaitForState_def P_wait_loop)

lemma P_InitCmdCompleted: "P s \<Longrightarrow> P (InitCmdCompleted s)"
  by (rule same) (simp_all add: core_eq InitCmdCompleted_def)

lemma P_drain_flag: "P s \<Longrightarrow> P (s\<lparr>m_bCmdDrainReceived := b\<rparr>)"
  by (rule same) (simp_all add: core_eq)

lemma P_command:
  "P s \<Longrightarrow> \<not> frame_request req \<Longrightarrow>
     P (snd (command (log_os os) (enc_callbacks (log_os os)) req cmd t s))"
  by (simp add: command_def P_rules P_InitCmdCompleted P_WaitForCmdCompleted)

lemma P_free_loop: "P s \<Longrightarrow> P (snd (free_loop (log_os os) ty bufs ret s))"
  by (induction bufs arbitrary: ret s) (simp_all add: P_rules)

lemma P_FreeBuffers:
  "P s \<Longrightarrow> P (snd (FreeInputBuffers (log_os os) s))"
  "P s \<Longrightarrow> P (snd (FreeOutputBuffers (log_os os) s))"
  by (simp_all add: FreeInputBuffers_def FreeOutputBuffers_def Drv_FreeBuffers_def P_free_loop)

lemma P_StartDriver:
  "P s \<Longrightarrow> P (snd (StartDriver (log_os os) (enc_callbacks (log_os os)) ty s))"
  by (cases ty) (simp_all add: StartDriver_def start_output_def P_command P_rules P_InitCmdCompleted)

lemma P_drain: "P s \<Longrightarrow> P (snd (drain (log_os os) (enc_callbacks (log_os os)) s))"
  by (simp add: drain_def P_rules P_InitCmdCompleted P_drain_flag P_WaitForCmdCompleted)

lemma P_StopEncoder: "P s \<Longrightarrow> P (snd (StopEncoder (log_os os) (enc_callbacks (log_os os)) s))"
  by (simp add: StopEncoder_def P_or_fail P_command)

lemma P_StopDecoder: "P s \<Longrightarrow> P (snd (StopDecoder (log_os os) (enc_callbacks (log_os os)) s))"
  by (simp add: StopDecoder_def P_if_ok P_or_fail P_command P_drain)

lemma P_Start:
  "P s \<Longrightarrow> P (snd (VidcNodeBase_Start (log_os os) (enc_callbacks (log_os os)) s))"
  by (simp add: VidcNodeBase_Start_def Let_def P_rules P_StartDriver P_WaitForState)

lemma P_Stop: "P s \<Longrightarrow> P (snd (VidcNodeBase_Stop (log_os os) (enc_callbacks (log_os os)) s))"
  by (simp add: VidcNodeBase_Stop_def Let_def P_rules P_StopEncoder P_StopDecoder)

end

text \<open>Configuring the driver.\<close>

context codec_invariant
begin

lemma P_codec: "P s \<Longrightarrow> P (s\<lparr>m_codecType := c, m_width := w, m_height := h\<rparr>)"
  by (rule same) (simp_all add: core_eq)

lemma P_InitDriver: "P s \<Longrightarrow> P (snd (InitDriver (log_os os) meta s))"
  by (simp add: InitDriver_def Let_def P_rules P_SetDrvProperty P_codec)

lemma P_SetDynamicMode: "P s \<Longrightarrow> P (snd (SetDynamicMode (log_os os) ty mode s))"
  using same[of s "s\<lparr>m_bInputDynamicMode := mode\<rparr>"] same[of s "s\<lparr>m_bOutputDynamicMode := mode\<rparr>"]
  by (cases ty) (simp_all add: SetDynamicMode_def Let_def P_SetDrvProperty core_eq)

lemma P_bufNum: "P s \<Longrightarrow> P (s\<lparr>m_bufNum := f\<rparr>)"
  by (rule same) (simp_all add: core_eq)

lemma P_bufSize: "P s \<Longrightarrow> P (s\<lparr>m_bufSize := f\<rparr>)"
  by (rule same) (simp_all add: core_eq)


lemma P_get_bind4:
  "P s \<Longrightarrow> (\<And>a b s. P s \<Longrightarrow> P (snd (snd (snd (f a b s))))) \<Longrightarrow>
     P (snd (snd (snd (case GetDrvProperty (log_os os) pkt s of (a, b, s) \<Rightarrow> f a b s))))"
  using P_GetDrvProperty[of s pkt] by (cases "GetDrvProperty (log_os os) pkt s") simp

lemma P_retry:
  assumes "P s"
  shows "P (snd (snd (case SetDrvProperty (log_os os) pkt s of (ret2, s2) \<Rightarrow>
           if ret2 = QC_STATUS_OK then
             case GetDrvProperty (log_os os) pkt s2 of (ret3, pkt3, s3) \<Rightarrow> (g ret3 pkt3, n, s3)
           else (ret2, n, s2))))"
proof -
  obtain ret2 s2 where e: "SetDrvProperty (log_os os) pkt s = (ret2, s2)" by fastforce
  then have "P s2" using P_SetDrvProperty[OF assms, of pkt] by simp
  then show ?thesis
    using P_GetDrvProperty[of s2 pkt] by (cases "GetDrvProperty (log_os os) pkt s2") (simp add: e)
qed

lemma P_Drv_Negotiate:
  assumes "P s"
  shows "P (snd (snd (snd (Drv_NegotiateBufferReq (log_os os) ty n z s))))"
proof -
  have store: "P (snd (snd r)) \<Longrightarrow>
      P (snd (snd (snd (case r of (ret', n', s') \<Rightarrow> (ret', n', c, s'\<lparr>m_bufNum := h n' s'\<rparr>)))))" for r c h
    by (cases r) (simp add: P_bufNum)
  show ?thesis
    unfolding Drv_NegotiateBufferReq_def Let_def
    using assms by (intro P_get_bind4) (auto intro!: store P_retry P_bufNum)
qed

lemma P_Negotiate:
  assumes "P s"
  shows "P (snd (VidcNodeBase_NegotiateBufferReq (log_os os) ty s))"
proof -
  obtain r n z s1 where e: "Drv_NegotiateBufferReq (log_os os) ty (num_buffer_req (cfg s) ty) 0 s = (r, n, z, s1)"
    by (cases "Drv_NegotiateBufferReq (log_os os) ty (num_buffer_req (cfg s) ty) 0 s") auto
  then have "P s1" using P_Drv_Negotiate[OF assms, of ty "num_buffer_req (cfg s) ty" 0] by simp
  then show ?thesis by (simp add: VidcNodeBase_NegotiateBufferReq_def Let_def e P_bufSize)
qed

lemma P_data: "P s \<Longrightarrow> P (s\<lparr>m_vidcEncoderData := d\<rparr>)"
  by (rule same) (simp_all add: core_eq)

lemma P_SetVidcProfileLevel: "P s \<Longrightarrow> P (snd (SetVidcProfileLevel prof s))"
  by (simp add: SetVidcProfileLevel_def Let_def P_rules P_data split: prod.splits)

lemma P_InitDrvProperty: "P s \<Longrightarrow> P (snd (VideoEncoder_InitDrvProperty (log_os os) s))"
  by (simp add: VideoEncoder_InitDrvProperty_def Let_def P_rules P_InitDriver P_SetDrvProperty P_data)

lemma P_get_plane_def: "P s \<Longrightarrow> P (snd (get_plane_def (log_os os) sel put i s))"
  by (simp add: get_plane_def_def Let_def P_rules P_GetDrvProperty P_data)

lemma P_GetInputInformation: "P s \<Longrightarrow> P (snd (GetInputInformation (log_os os) s))"
  by (simp add: GetInputInformation_def Let_def P_rules P_GetDrvProperty P_data P_get_plane_def)

end

text \<open>A property that also survives the closing of the session.\<close>

locale codec_close_invariant = codec_invariant os P
  for os :: "'w vidc_os" and P :: "('w \<times> codec_event list, 'j) VideoEncoder \<Rightarrow> bool" +
  assumes closed: "P s \<Longrightarrow>
      core s' = (nullptr, hist s @ [Closed], m_inputMap s, m_outputMap s) \<Longrightarrow> P s'"
begin

lemma P_CloseDriver: "P s \<Longrightarrow> P (CloseDriver (log_os os) s)"
proof (cases "m_pIoHandle s = nullptr")
  case False
  assume "P s"
  moreover have "core (CloseDriver (log_os os) s) = (nullptr, hist s @ [Closed], m_inputMap s, m_outputMap s)"
    using False by (simp add: CloseDriver_def core_def log_os_def split: prod.splits)
  ultimately show ?thesis by (rule closed)
qed (simp add: CloseDriver_def)

lemma P_release:
  "P s \<Longrightarrow> P (snd (release_resources (log_os os) (enc_callbacks (log_os os)) s))"
  by (simp add: release_resources_def ReleaseResources_def Let_def P_rules P_command P_WaitForState)

lemma P_DeInitialize:
  "P s \<Longrightarrow> P (snd (VidcNodeBase_DeInitialize (log_os os) (enc_callbacks (log_os os)) s))"
  by (simp add: VidcNodeBase_DeInitialize_def P_rules P_release P_FreeBuffers P_CloseDriver)

lemma P_PostInit: "P s \<Longrightarrow> P (snd (PostInit (log_os os) (enc_callbacks (log_os os)) s))"
  by (simp add: PostInit_def LoadResources_def P_rules P_command P_WaitForState P_DeInitialize)

lemma P_lists: "P s \<Longrightarrow> P (s\<lparr>m_outputBufferList := l\<rparr>)" "P s \<Longrightarrow> P (s\<lparr>m_inputBufferList := l\<rparr>)"
  by (rule same; simp add: core_eq)+

lemma P_init_cleanup:
  "P s \<Longrightarrow> P (init_cleanup (log_os os) (enc_callbacks (log_os os)) b s)"
  by (simp add: init_cleanup_def Let_def P_state P_lists P_FreeBuffers P_DeInitialize)

end

text \<open>A property that does not depend on the maps of buffers survives giving the driver the buffers of
  \<open>Initialize\<close>.\<close>

locale codec_map_invariant = codec_invariant os P
  for os :: "'w vidc_os" and P :: "('w \<times> codec_event list, 'j) VideoEncoder \<Rightarrow> bool" +
  assumes maps: "P s \<Longrightarrow> m_pIoHandle s' = m_pIoHandle s \<Longrightarrow> hist s' = hist s \<Longrightarrow> P s'"
begin

lemma P_Drv_SetBuffer: "P s \<Longrightarrow> P (snd (Drv_SetBuffer (log_os os) ty bufs s))"
proof (induction bufs arbitrary: s)
  case (Cons buf bufs)
  obtain rc pkt s1 where e:
    "ioctl (log_os os) (VIDC_IOCTL_SET_BUFFER (buf_info (vidc_buf_type ty) buf (b_pid buf))) s = (rc, pkt, s1)"
    by (rule prod_cases3)
  then have "P s1" using P_ioctl[OF Cons.prems] by (metis frame_request_simps(6) snd_conv)
  moreover have "P (case ty of VIDEO_CODEC_BUF_INPUT \<Rightarrow> s1\<lparr>m_inputMap := m1\<rparr>
      | VIDEO_CODEC_BUF_OUTPUT \<Rightarrow> s1\<lparr>m_outputMap := m2\<rparr>)" for m1 m2
    by (rule maps[OF \<open>P s1\<close>]) (cases ty; simp)+
  ultimately show ?case by (simp add: e Cons.IH)
qed simp

lemma P_SetBuffer: "P s \<Longrightarrow> P (snd (VidcNodeBase_SetBuffer (log_os os) ty s))"
  by (simp add: VidcNodeBase_SetBuffer_def Let_def P_rules P_SetDynamicMode P_Drv_SetBuffer)

lemma P_if_ok_opt:
  "pred_option (\<lambda>r. P (snd r)) x \<Longrightarrow> (\<And>s. P s \<Longrightarrow> pred_option (\<lambda>r. P (snd r)) (f s)) \<Longrightarrow>
     pred_option (\<lambda>r. P (snd r)) (if_ok_opt x f)"
  by (cases x) (auto simp: if_ok_opt_def split: prod.splits)

lemma P_take_buffers: "P s \<Longrightarrow> pred_option (\<lambda>r. P (snd r)) (take_buffers check bufs i ty s)"
proof -
  assume "P s"
  have "P (InitBufferForNonDynamicMode bufs i ty s)"
    by (rule maps[OF \<open>P s\<close>]) (cases ty; simp add: InitBufferForNonDynamicMode_def)+
  then have "pred_option (\<lambda>r. P (snd r)) (AllocateBuffer bufs i ty s)"
    using \<open>P s\<close> by (simp add: AllocateBuffer_def Let_def)
  then show ?thesis
    by (simp add: take_buffers_def P_if_ok_opt P_else_error)
qed

lemma P_encoder_buffers:
  "P s \<Longrightarrow> pred_option (\<lambda>r. P (snd r)) (encoder_buffers (log_os os) bufs s)"
  by (simp add: encoder_buffers_def P_if_ok_opt P_take_buffers P_SetBuffer)

end

text \<open>A property of the history alone survives all of \<open>Initialize\<close>.\<close>

locale codec_idle_invariant = codec_close_invariant os P + codec_map_invariant os P
  for os :: "'w vidc_os" and P :: "('w \<times> codec_event list, 'j) VideoEncoder \<Rightarrow> bool" +
  assumes opened: "P s \<Longrightarrow> hist s' = hist s \<Longrightarrow> P s'"
begin

lemma P_open_driver: "P s \<Longrightarrow> P (snd (open_driver (log_os os) ty s))"
  by (erule opened)
    (simp add: open_driver_def OpenDriver_def Drv_Init_def log_os_def split: prod.splits)

lemma P_encoder_open: "P s \<Longrightarrow> P (snd (encoder_open (log_os os) s))"
  by (simp add: encoder_open_def P_rules P_SetVidcProfileLevel P_open_driver P_InitDrvProperty
      P_GetInputInformation P_Negotiate)

end

subsection \<open>Configuring a node\<close>

lemma Logger_Init_hist:
  "Logger_Init (log_backend_lift B) st nm level lg w = (r, lg', w') \<Longrightarrow> snd w' = snd w"
  by (cases w)
    (auto simp: Logger_Init_def log_backend_lift_def Let_def split: option.splits if_splits prod.splits)

lemma NodeConfigBase_hist:
  "NodeConfigBase_VerifyAndSet J gs (log_backend_lift B) st config c lg w = (r, c', lg', w') \<Longrightarrow>
     snd w' = snd w"
  unfolding NodeConfigBase_VerifyAndSet_def Let_def
  by (auto split: prod.splits if_splits dest: Logger_Init_hist)

lemma NodeBase_Init_hist:
  "NodeBase_Init (log_backend_lift B) st nid level n w = (r, n', w') \<Longrightarrow> snd w' = snd w"
  by (auto simp: NodeBase_Init_def split: prod.splits dest: Logger_Init_hist)

text \<open>Configuring keeps the state of the node and what its driver client depends on, and fails unless
  the node is in the state INITIAL.\<close>

lemma VidcNodeBase_VerifyAndSet_keeps:
  assumes "VidcNodeBase_VerifyAndSet env config s = Some (r, s')"
  shows "m_state s' = m_state s \<and> m_pIoHandle s' = m_pIoHandle s \<and> m_inputMap s' = m_inputMap s \<and>
    m_outputMap s' = m_outputMap s"
  using assms unfolding VidcNodeBase_VerifyAndSet_def Let_def
  by (auto split: prod.splits if_splits option.splits)

lemma log_env_simps [simp]:
  "env_os (log_env env) = log_os (env_os env)" "env_log (log_env env) = log_backend_lift (env_log env)"
  by (simp_all add: log_env_def)

lemma VidcNodeBase_VerifyAndSet_hist:
  assumes "VidcNodeBase_VerifyAndSet (log_env env) config s = Some (r, s')"
  shows "hist s' = hist s"
  using assms unfolding VidcNodeBase_VerifyAndSet_def Let_def
  by (auto split: prod.splits if_splits option.splits dest: NodeConfigBase_hist)

lemma encoder_config_keeps:
  assumes "encoder_config env config callback s = Some (r, s')"
  shows "m_state s' = m_state s" "m_pIoHandle s' = m_pIoHandle s" "m_inputMap s' = m_inputMap s"
    "m_outputMap s' = m_outputMap s" "r = QC_STATUS_OK \<Longrightarrow> m_state s = QC_OBJECT_STATE_INITIAL"
  using assms unfolding encoder_config_def VideoEncoder_VerifyAndSet_def VidcNodeBase_Init_def Let_def
  by (auto split: prod.splits if_splits option.splits dest: VidcNodeBase_VerifyAndSet_keeps)

lemma encoder_config_hist:
  assumes "encoder_config (log_env env) config callback s = Some (r, s')"
  shows "hist s' = hist s"
  using assms unfolding encoder_config_def VideoEncoder_VerifyAndSet_def VidcNodeBase_Init_def Let_def
  by (auto split: prod.splits if_splits option.splits dest!: VidcNodeBase_VerifyAndSet_hist NodeBase_Init_hist)

text \<open>A call of \<open>Initialize\<close> that the configuration rejects only cleans up.\<close>

lemma Initialize_rejected:
  assumes "encoder_config env config callback s = Some (r, s0)" "r \<noteq> QC_STATUS_OK"
  shows "VideoEncoder_Initialize env config callback bufs s =
    Some (r, init_cleanup (env_os env) (enc_callbacks (env_os env)) False s0)"
  using assms by (simp add: VideoEncoder_Initialize_def Let_def if_ok_def if_ok_opt_def)

context codec_close_invariant
begin

lemma P_encoder_config:
  assumes "P s" "encoder_config (log_env env) config callback s = Some (r, s0)"
  shows "P s0"
  using assms(1) encoder_config_keeps(2-4)[OF assms(2)] encoder_config_hist[OF assms(2)]
  by (auto intro: same simp: core_eq)

lemma P_Initialize_rejected:
  assumes "P s" "m_state s \<noteq> QC_OBJECT_STATE_INITIAL" "env_os env = os"
    "VideoEncoder_Initialize (log_env env) config callback bufs s = Some (r, s')"
  shows "P s'"
proof (cases "encoder_config (log_env env) config callback s")
  case (Some x)
  then obtain r0 s0 where e: "encoder_config (log_env env) config callback s = Some (r0, s0)"
    by (cases x) simp
  then have "r0 \<noteq> QC_STATUS_OK" using encoder_config_keeps(5) assms(2) by blast
  from Initialize_rejected[OF e this, of bufs] assms(4)
  have "s' = init_cleanup (log_os os) (enc_callbacks (log_os os)) False s0"
    by (simp add: assms(3))
  with P_encoder_config[OF assms(1) e] show ?thesis by (simp add: P_init_cleanup)
qed (use assms(4) in \<open>simp add: VideoEncoder_Initialize_def Let_def\<close>)

end

context codec_idle_invariant
begin

lemma P_Initialize:
  assumes "P s" "env_os env = os"
    "VideoEncoder_Initialize (log_env env) config callback bufs s = Some (r, s')"
  shows "P s'"
proof (cases "encoder_config (log_env env) config callback s")
  case (Some x)
  then obtain r0 s0 where e: "encoder_config (log_env env) config callback s = Some (r0, s0)"
    by (cases x) simp
  have "P (snd (if_ok (r0, s0) (encoder_open (log_os os))))"
    by (simp add: P_if_ok P_encoder_open P_encoder_config[OF assms(1) e])
  then have *: "pred_option (\<lambda>r. P (snd r)) (if_ok_opt (if_ok_opt (if_ok_opt
      (Some (if_ok (r0, s0) (encoder_open (log_os os)))) (encoder_buffers (log_os os) bufs))
      (\<lambda>s. Some (PostInit (log_os os) (enc_callbacks (log_os os)) s)))
      (\<lambda>s. Some (ValidateBuffers s, s)))"
    by (simp add: P_if_ok_opt P_encoder_buffers P_PostInit)
  then obtain st s1 where "P s1"
    "s' = (if st \<noteq> QC_STATUS_OK
           then init_cleanup (log_os os) (enc_callbacks (log_os os)) (r0 = QC_STATUS_OK) s1 else s1)"
    using assms(3) e
    by (simp add: VideoEncoder_Initialize_def Let_def assms(2) split: option.splits prod.splits)
      blast
  then show ?thesis by (simp add: P_init_cleanup)
qed (use assms(3) in \<open>simp add: VideoEncoder_Initialize_def Let_def\<close>)

end

end
