(* ===== verification/QC_VidcReach.thy ===== *)
theory QC_VidcReach
  imports QC_VidcSafety
begin

text \<open>
  The states of an encoder that its operations and the messages of the driver reach, and the two
  properties that span them: the life cycle of the node, and that the driver never gets a buffer it
  still holds.
\<close>

subsection \<open>Buffers in use\<close>

definition in_use :: "('w, 'a) VidcDrvClient_scheme \<Rightarrow> VideoCodec_BufType_e \<Rightarrow> u64 set" where
  "in_use s dir =
     {h. case map_of (case dir of VIDEO_CODEC_BUF_INPUT \<Rightarrow> m_inputMap s
                      | VIDEO_CODEC_BUF_OUTPUT \<Rightarrow> m_outputMap s) h of
           None \<Rightarrow> False | Some i \<Rightarrow> bUsedFlag i}"

lemma in_use_cong:
  "m_inputMap s' = m_inputMap s \<Longrightarrow> m_outputMap s' = m_outputMap s \<Longrightarrow> in_use s' = in_use s"
proof (rule ext)
  fix dir
  assume "m_inputMap s' = m_inputMap s" "m_outputMap s' = m_outputMap s"
  then show "in_use s' dir = in_use s dir" by (cases dir) (simp_all add: in_use_def)
qed

lemma core_in_use: "core s' = (h, H, m_inputMap s, m_outputMap s) \<Longrightarrow> in_use s' = in_use s"
  by (auto simp: core_def intro!: in_use_cong)

lemma in_use_set_used:
  "in_use (s\<lparr>m_inputMap := set_used os h b m\<rparr>) VIDEO_CODEC_BUF_INPUT =
     (if b then insert h else (\<lambda>S. S - {h})) (in_use (s\<lparr>m_inputMap := m\<rparr>) VIDEO_CODEC_BUF_INPUT)"
  "in_use (s\<lparr>m_outputMap := set_used os h b m\<rparr>) VIDEO_CODEC_BUF_OUTPUT =
     (if b then insert h else (\<lambda>S. S - {h})) (in_use (s\<lparr>m_outputMap := m\<rparr>) VIDEO_CODEC_BUF_OUTPUT)"
  by (auto simp: in_use_def set_used_def map_entry_def update_conv' split: if_splits option.splits)

lemma in_use_other [simp]:
  "in_use (s\<lparr>m_inputMap := m\<rparr>) VIDEO_CODEC_BUF_OUTPUT = in_use s VIDEO_CODEC_BUF_OUTPUT"
  "in_use (s\<lparr>m_outputMap := m\<rparr>) VIDEO_CODEC_BUF_INPUT = in_use s VIDEO_CODEC_BUF_INPUT"
  by (simp_all add: in_use_def)

subsection \<open>Messages\<close>

text \<open>The callbacks of the encoder touch nothing the driver client depends on.\<close>

lemma notify_keeps:
  "m_pIoHandle (notify e s) = m_pIoHandle s" "drv_world (notify e s) = drv_world s"
  "m_inputMap (notify e s) = m_inputMap s" "m_outputMap (notify e s) = m_outputMap s"
  by (simp_all add: notify_def)

lemma EventCallback_keeps:
  "m_pIoHandle (VidcNodeBase_EventCallback e s) = m_pIoHandle s"
  "drv_world (VidcNodeBase_EventCallback e s) = drv_world s"
  "m_inputMap (VidcNodeBase_EventCallback e s) = m_inputMap s"
  "m_outputMap (VidcNodeBase_EventCallback e s) = m_outputMap s"
  by (cases e; simp add: VidcNodeBase_EventCallback_def Let_def)+

lemmas callback_defs = enc_callbacks_def InFrameCallback_def OutFrameCallback_def notify_event_def
  VideoEncoder_EventCallback_def notify_keeps EventCallback_keeps

lemma callback_simps [simp]:
  "m_pIoHandle (inputDone (enc_callbacks os) d s) = m_pIoHandle s"
  "drv_world (inputDone (enc_callbacks os) d s) = drv_world s"
  "in_use (inputDone (enc_callbacks os) d s) = in_use s"
  "m_pIoHandle (outputDone (enc_callbacks os) d s) = m_pIoHandle s"
  "drv_world (outputDone (enc_callbacks os) d s) = drv_world s"
  "in_use (outputDone (enc_callbacks os) d s) = in_use s"
  "m_pIoHandle (event (enc_callbacks os) e msg s) = m_pIoHandle s"
  "drv_world (event (enc_callbacks os) e msg s) = drv_world s"
  "in_use (event (enc_callbacks os) e msg s) = in_use s"
  by ((rule in_use_cong)?; simp add: callback_defs)+

lemma in_use_more [simp]:
  "in_use (s\<lparr>m_cmdCompleted := c\<rparr>) = in_use s" "in_use (s\<lparr>m_bCmdDrainReceived := b\<rparr>) = in_use s"
  "in_use (s\<lparr>drv_world := w\<rparr>) = in_use s"
  by (rule in_use_cong; simp)+

lemma input_done_effect:
  "m_pIoHandle (input_done os (enc_callbacks os') msg s) = m_pIoHandle s"
  "drv_world (input_done os (enc_callbacks os') msg s) = drv_world s"
  "in_use s dir - (if dir = VIDEO_CODEC_BUF_INPUT then {frm_clnt_data (frame_data msg)} else {})
     \<subseteq> in_use (input_done os (enc_callbacks os') msg s) dir"
  by (cases dir; auto simp: input_done_def Let_def in_use_set_used)+

lemma output_done_effect:
  "m_pIoHandle (output_done os (enc_callbacks os') msg s) = m_pIoHandle s"
  "drv_world (output_done os (enc_callbacks os') msg s) = drv_world s"
  "in_use s dir - (if dir = VIDEO_CODEC_BUF_OUTPUT then {frm_clnt_data (frame_data msg)} else {})
     \<subseteq> in_use (output_done os (enc_callbacks os') msg s) dir"
  by (cases dir; auto simp: output_done_def Let_def in_use_set_used)+

text \<open>A message frees at most the buffer it gives back.\<close>

lemma DeviceCbHandler_effect:
  "m_pIoHandle (snd (DeviceCbHandler os (enc_callbacks os') msg s)) = m_pIoHandle s"
  "drv_world (snd (DeviceCbHandler os (enc_callbacks os') msg s)) = drv_world s"
  "in_use s dir - done_handle os dir msg \<subseteq> in_use (snd (DeviceCbHandler os (enc_callbacks os') msg s)) dir"
proof -
  show "m_pIoHandle (snd (DeviceCbHandler os (enc_callbacks os') msg s)) = m_pIoHandle s"
    "drv_world (snd (DeviceCbHandler os (enc_callbacks os') msg s)) = drv_world s"
    by (cases "event_type msg"; simp add: DeviceCbHandler_def input_done_effect output_done_effect)+
  have "\<not> (msg_addr msg = nullptr \<or> unat (msg_length msg) < sizeof_msg_info os) \<Longrightarrow>
      in_use s dir - done_handle os dir msg
        \<subseteq> in_use (snd (DeviceCbHandler os (enc_callbacks os') msg s)) dir"
    using input_done_effect(3)[of s dir msg os os'] output_done_effect(3)[of s dir msg os os']
    by (cases "event_type msg"; cases dir; simp add: DeviceCbHandler_def done_handle_def)
  then show "in_use s dir - done_handle os dir msg
      \<subseteq> in_use (snd (DeviceCbHandler os (enc_callbacks os') msg s)) dir"
    by (cases "msg_addr msg = nullptr \<or> unat (msg_length msg) < sizeof_msg_info os")
      (auto simp: DeviceCbHandler_def)
qed

lemma deliver_effect:
  fixes s :: "('w, 'j) VideoEncoder"
  shows "m_pIoHandle (deliver os (enc_callbacks os') ms s) = m_pIoHandle s \<and>
   drv_world (deliver os (enc_callbacks os') ms s) = drv_world s \<and>
   in_use s dir - (\<Union>msg \<in> set ms. done_handle os dir msg)
     \<subseteq> in_use (deliver os (enc_callbacks os') ms s) dir"
proof (induction ms arbitrary: s)
  case (Cons msg ms)
  let ?s1 = "snd (DeviceCbHandler os (enc_callbacks os') msg s)"
  have "deliver os (enc_callbacks os') (msg # ms) s = deliver os (enc_callbacks os') ms ?s1"
    by (simp add: deliver_def)
  with Cons.IH[of ?s1] DeviceCbHandler_effect[where os = os and os' = os' and msg = msg and s = s] show ?case by fastforce
qed (simp add: deliver_def)

lemma done_handle_log [simp]: "done_handle (log_os os) = done_handle os"
  by (intro ext) (simp add: done_handle_def log_os_def)

lemma sleep_effect:
  obtains ms where
    "m_pIoHandle (sleep (log_os os) (enc_callbacks (log_os os)) s) = m_pIoHandle s"
    "hist (sleep (log_os os) (enc_callbacks (log_os os)) s) = hist s @ map Got ms"
    "\<And>dir. in_use s dir - (\<Union>msg \<in> set ms. done_handle os dir msg)
       \<subseteq> in_use (sleep (log_os os) (enc_callbacks (log_os os)) s) dir"
proof -
  obtain ms w' where e: "MM_Timer_Sleep os (fst (drv_world s)) = (ms, w')" by fastforce
  then have "MM_Timer_Sleep (log_os os) (drv_world s) = (ms, (w', hist s @ map Got ms))"
    by (cases "drv_world s") (simp add: log_os_def)
  then have *: "sleep (log_os os) (enc_callbacks (log_os os)) s =
      deliver (log_os os) (enc_callbacks (log_os os)) ms (s\<lparr>drv_world := (w', hist s @ map Got ms)\<rparr>)"
    by (simp add: sleep_def)
  show thesis
    by (rule that[of ms]) (use * deliver_effect[where os = "log_os os" and os' = "log_os os" and ms = ms and
          s = "s\<lparr>drv_world := (w', hist s @ map Got ms)\<rparr>"] in simp_all)
qed

subsection \<open>The invariants\<close>

definition good :: "'w vidc_os \<Rightarrow> ('w \<times> codec_event list, 'a) VidcDrvClient_scheme \<Rightarrow> bool" where
  "good os s \<longleftrightarrow>
     (\<forall>dir. no_resubmit os dir (hist s) \<and> held os dir (hist s) \<subseteq> in_use s dir \<and>
            (m_pIoHandle s = nullptr \<longrightarrow> held os dir (hist s) = {}))"

definition idle :: "'w vidc_os \<Rightarrow> ('w \<times> codec_event list, 'a) VidcDrvClient_scheme \<Rightarrow> bool" where
  "idle os s \<longleftrightarrow> (\<forall>dir. no_resubmit os dir (hist s) \<and> held os dir (hist s) = {})"

lemma idle_good: "idle os s \<Longrightarrow> good os s"
  by (simp add: idle_def good_def)

lemma good_idle: "good os s \<Longrightarrow> m_pIoHandle s = nullptr \<Longrightarrow> idle os s"
  by (simp add: idle_def good_def)

lemma core_iff:
  "core s = (h, H, m1, m2) \<longleftrightarrow> m_pIoHandle s = h \<and> hist s = H \<and> m_inputMap s = m1 \<and> m_outputMap s = m2"
  by (auto simp: core_def)

lemma good_core: "good os s \<Longrightarrow> core s' = core s \<Longrightarrow> good os s'"
  using in_use_cong[of s' s] by (simp add: core_eq good_def)

interpretation safe: codec_close_invariant os "good os" for os
proof unfold_locales
  fix os :: "'a vidc_os" and s s' :: "('a \<times> codec_event list, 'b) VideoEncoder"
  assume s: "good os s"
  show "core s' = core s \<Longrightarrow> good os s'" using s by (rule good_core)
  show "core s' = (nullptr, hist s @ [Closed], m_inputMap s, m_outputMap s) \<Longrightarrow> good os s'"
    using s in_use_cong[of s' s] by (simp add: core_iff good_def)
  show "good os (sleep (log_os os) (enc_callbacks (log_os os)) s)"
    by (rule sleep_effect[where os = os and s = s])
      (use s in \<open>fastforce simp: good_def held_Got no_resubmit_Got\<close>)
  fix req
  show "\<not> frame_request req \<Longrightarrow>
      core s' = (m_pIoHandle s, hist s @ [Sent req], m_inputMap s, m_outputMap s) \<Longrightarrow> good os s'"
    using s in_use_cong[of s' s] by (simp add: core_iff good_def not_frame_request)
qed

interpretation quiet: codec_idle_invariant os "idle os" for os
proof unfold_locales
  fix os :: "'a vidc_os" and s s' :: "('a \<times> codec_event list, 'b) VideoEncoder"
  assume s: "idle os s"
  show "core s' = core s \<Longrightarrow> idle os s'" using s by (simp add: core_eq idle_def)
  show "core s' = (nullptr, hist s @ [Closed], m_inputMap s, m_outputMap s) \<Longrightarrow> idle os s'"
    using s by (simp add: core_iff idle_def)
  show "idle os (sleep (log_os os) (enc_callbacks (log_os os)) s)"
    by (rule sleep_effect[where os = os and s = s]) (use s in \<open>simp add: idle_def held_Got no_resubmit_Got\<close>)
  show "hist s' = hist s \<Longrightarrow> idle os s'" "hist s' = hist s \<Longrightarrow> idle os s'"
    using s by (simp_all add: idle_def)
  fix req
  show "\<not> frame_request req \<Longrightarrow>
      core s' = (m_pIoHandle s, hist s @ [Sent req], m_inputMap s, m_outputMap s) \<Longrightarrow> idle os s'"
    using s by (simp add: core_iff idle_def not_frame_request)
qed

interpretation session: codec_map_invariant os "\<lambda>s. m_pIoHandle s \<noteq> nullptr" for os
proof unfold_locales
  fix os :: "'a vidc_os" and s :: "('a \<times> codec_event list, 'b) VideoEncoder"
  show "m_pIoHandle s \<noteq> nullptr \<Longrightarrow>
      m_pIoHandle (sleep (log_os os) (enc_callbacks (log_os os)) s) \<noteq> nullptr"
    by (rule sleep_effect[where os = os and s = s]) simp
qed (auto simp: core_eq core_iff)

subsection \<open>Sending frames\<close>

lemma log_os_simps [simp]: "VIDC_ERR_NONE (log_os os) = VIDC_ERR_NONE os"
  by (simp add: log_os_def)

lemma reserve_input_ok:
  assumes "reserve_input os s d = (QC_STATUS_OK, m)"
  shows "dmaHandle d \<notin> in_use s VIDEO_CODEC_BUF_INPUT"
    "in_use (s\<lparr>m_inputMap := m\<rparr>) VIDEO_CODEC_BUF_INPUT =
       insert (dmaHandle d) (in_use s VIDEO_CODEC_BUF_INPUT)"
  using assms unfolding reserve_input_def in_use_def Let_def
  by (auto simp: update_conv' info_of_def split: if_splits option.splits)

lemma reserve_output_ok:
  assumes "reserve_output os s d = (QC_STATUS_OK, m)"
  shows "dmaHandle d \<notin> in_use s VIDEO_CODEC_BUF_OUTPUT"
    "in_use (s\<lparr>m_outputMap := m\<rparr>) VIDEO_CODEC_BUF_OUTPUT =
       insert (dmaHandle d) (in_use s VIDEO_CODEC_BUF_OUTPUT)"
  using assms unfolding reserve_output_def in_use_def Let_def
  by (auto simp: update_conv' info_of_def split: if_splits option.splits)

lemma EmptyBuffer_state [simp]:
  "m_state (snd (EmptyBuffer os d s)) = m_state s" "m_pIoHandle (snd (EmptyBuffer os d s)) = m_pIoHandle s"
  by (auto simp: EmptyBuffer_def ioctl_def Let_def split: prod.splits)

lemma FillBuffer_state [simp]:
  "m_state (snd (FillBuffer os d s)) = m_state s" "m_pIoHandle (snd (FillBuffer os d s)) = m_pIoHandle s"
  by (auto simp: FillBuffer_def ioctl_def Let_def split: prod.splits)

text \<open>A buffer that is reserved was free, and so not held: the request does not send it again, and if it
  fails the buffer can be marked free.\<close>

lemma good_reserve:
  assumes s: "good os s" and free: "h \<notin> in_use s dir"
    and others: "\<And>dir'. dir' \<noteq> dir \<Longrightarrow> in_use s0 dir' = in_use s dir'"
    and used: "in_use s0 dir = insert h (in_use s dir)" and same: "m_pIoHandle s0 = m_pIoHandle s" "hist s0 = hist s"
  shows "good os s0" "h \<notin> held os dir (hist s0)"
proof -
  show "h \<notin> held os dir (hist s0)" using s free same by (auto simp: good_def)
  have "held os dir' (hist s) \<subseteq> in_use s0 dir'" for dir'
    using s others[of dir'] used by (cases "dir' = dir") (auto simp: good_def)
  with s same show "good os s0" by (simp add: good_def)
qed

lemma good_send:
  assumes s: "good os s" and free: "h \<notin> held os dir (hist s)" and used: "h \<in> in_use s dir"
    and req: "\<And>dir'. sent_handle dir' req = (if dir' = dir then {h} else {})"
    and io: "ioctl (log_os os) req s = (rc, pkt, s')"
  shows "good os s'" "rc \<noteq> VIDC_ERR_NONE os \<Longrightarrow> h \<notin> held os dir (hist s')"
proof -
  have "good os s' \<and> (rc \<noteq> VIDC_ERR_NONE os \<longrightarrow> h \<notin> held os dir (hist s'))"
    using ioctl_log[OF io]
  proof
    assume "core s' = core s"
    then show ?thesis using good_core[OF s] free by (simp add: core_eq)
  next
    assume *: "m_pIoHandle s \<noteq> nullptr \<and> rc = VIDC_ERR_NONE os \<and>
      core s' = (m_pIoHandle s, hist s @ [Sent req], m_inputMap s, m_outputMap s)"
    then have "in_use s' = in_use s" by (auto intro!: in_use_cong simp: core_iff)
    then have "no_resubmit os dir' (hist s') \<and> held os dir' (hist s') \<subseteq> in_use s' dir'" for dir'
      using s free used * by (cases "dir' = dir") (auto simp: good_def core_iff req)
    then show ?thesis using * by (simp add: good_def core_iff)
  qed
  then show "good os s'" "rc \<noteq> VIDC_ERR_NONE os \<Longrightarrow> h \<notin> held os dir (hist s')" by simp_all
qed

lemma good_release:
  assumes s: "good os s" and free: "h \<notin> held os dir (hist s)"
    and others: "\<And>dir'. dir' \<noteq> dir \<Longrightarrow> in_use s' dir' = in_use s dir'"
    and used: "in_use s' dir = in_use s dir - {h}"
    and same: "m_pIoHandle s' = m_pIoHandle s" "hist s' = hist s"
  shows "good os s'"
proof -
  have "held os dir' (hist s) \<subseteq> in_use s' dir'" for dir'
    using s free others[of dir'] used by (cases "dir' = dir") (auto simp: good_def)
  with s same show ?thesis by (simp add: good_def)
qed

lemma in_use_same_map [simp]:
  "in_use (s\<lparr>m_inputMap := m_inputMap s\<rparr>) = in_use s" "in_use (s\<lparr>m_outputMap := m_outputMap s\<rparr>) = in_use s"
  by (rule in_use_cong; simp)+

lemma other_dir [simp]:
  "dir \<noteq> VIDEO_CODEC_BUF_INPUT \<longleftrightarrow> dir = VIDEO_CODEC_BUF_OUTPUT"
  "dir \<noteq> VIDEO_CODEC_BUF_OUTPUT \<longleftrightarrow> dir = VIDEO_CODEC_BUF_INPUT"
  by (cases dir; simp)+

lemma EmptyBuffer_good:
  assumes "good os s"
  shows "good os (snd (EmptyBuffer (log_os os) d s))"
proof (cases "reserve_input (log_os os) s d")
  case (Pair ret m)
  let ?s0 = "s\<lparr>m_inputMap := m\<rparr>" and ?req = "VIDC_IOCTL_EMPTY_INPUT_BUFFER (input_frame_data d)"
  obtain rc pkt s1 where io: "ioctl (log_os os) ?req ?s0 = (rc, pkt, s1)" by (rule prod_cases3)
  show ?thesis
  proof (cases "ret = QC_STATUS_OK")
    case True
    note ok = reserve_input_ok[OF Pair[unfolded True]]
    note g = good_reserve[OF assms ok(1) _ ok(2), simplified]
    have "sent_handle dir ?req = (if dir = VIDEO_CODEC_BUF_INPUT then {dmaHandle d} else {})" for dir
      by (cases dir) (simp_all add: input_frame_data_def)
    note sent = good_send[OF g(1) _ _ this io]
    have "good os s1" using g ok(2) by (intro sent(1)) simp_all
    moreover have "rc \<noteq> VIDC_ERR_NONE os \<Longrightarrow> good os
        (s1\<lparr>m_inputMap := set_used (log_os os) (dmaHandle d) False (m_inputMap s1)\<rparr>)"
      using g ok(2)
      by (intro good_release[OF \<open>good os s1\<close> sent(2)]) (simp_all add: in_use_set_used)
    ultimately show ?thesis by (simp add: EmptyBuffer_def Pair True io)
  qed (simp add: EmptyBuffer_def Pair assms)
qed

lemma FillBuffer_good:
  assumes "good os s"
  shows "good os (snd (FillBuffer (log_os os) d s))"
proof (cases "reserve_output (log_os os) s d")
  case (Pair ret m)
  let ?s0 = "s\<lparr>m_outputMap := m\<rparr>" and ?req = "VIDC_IOCTL_FILL_OUTPUT_BUFFER (output_frame_data d)"
  obtain rc pkt s1 where io: "ioctl (log_os os) ?req ?s0 = (rc, pkt, s1)" by (rule prod_cases3)
  show ?thesis
  proof (cases "ret = QC_STATUS_OK")
    case True
    note ok = reserve_output_ok[OF Pair[unfolded True]]
    note g = good_reserve[OF assms ok(1) _ ok(2), simplified]
    have "sent_handle dir ?req = (if dir = VIDEO_CODEC_BUF_OUTPUT then {dmaHandle d} else {})" for dir
      by (cases dir) (simp_all add: output_frame_data_def)
    note sent = good_send[OF g(1) _ _ this io]
    have "good os s1" using g ok(2) by (intro sent(1)) simp_all
    moreover have "rc \<noteq> VIDC_ERR_NONE os \<Longrightarrow> good os
        (s1\<lparr>m_outputMap := set_used (log_os os) (dmaHandle d) False (m_outputMap s1)\<rparr>)"
      using g ok(2)
      by (intro good_release[OF \<open>good os s1\<close> sent(2)]) (simp_all add: in_use_set_used)
    ultimately show ?thesis by (simp add: FillBuffer_def Pair True io)
  qed (simp add: FillBuffer_def Pair assms)
qed

lemma submit_outputs_good:
  "good os (snd r) \<Longrightarrow> good os (snd (submit_outputs (log_os os) bufs r))"
proof (induction bufs arbitrary: r)
  case (Cons buffer bufs)
  obtain ret s where r: "r = (ret, s)" by (cases r)
  then show ?case
    using Cons by (cases "ValidateBuffer buffer VIDEO_CODEC_BUF_OUTPUT s = QC_STATUS_OK")
      (simp_all add: if_ok_def FillBuffer_good)
qed simp

lemma Start_good: "good os s \<Longrightarrow> good os (snd (VideoEncoder_Start (log_os os) s))"
  by (simp add: VideoEncoder_Start_def safe.P_if_ok safe.P_Start submit_outputs_good)

lemma Stop_good: "good os s \<Longrightarrow> good os (snd (VideoEncoder_Stop (log_os os) s))"
  by (simp add: VideoEncoder_Stop_def safe.P_Stop)

lemma DeInitialize_good: "good os s \<Longrightarrow> good os (snd (VideoEncoder_DeInitialize (log_os os) s))"
  by (simp add: VideoEncoder_DeInitialize_def safe.P_DeInitialize)

lemma Process_good:
  "good os s \<Longrightarrow> good os (snd (VideoEncoder_ProcessFrameDescriptor (log_os os) fd s))"
  by (simp add: VideoEncoder_ProcessFrameDescriptor_def process_frame_def Let_def safe.P_if_ok
      VideoEncoder_SubmitInputFrame_def VideoEncoder_SubmitOutputFrame_def submit_frame_def
      EmptyBuffer_good FillBuffer_good split: option.splits)

subsection \<open>Status and state\<close>

text \<open>What each operation of the encoder returns and the state it leaves, for any driver.\<close>

lemma wait_loop_ok: "wait_loop slp done' t c s = (QC_STATUS_OK, s') \<Longrightarrow> done' s'"
proof (induction "nat (t - c)" arbitrary: c s rule: less_induct)
  case less
  show ?case
    using less.prems less.hyps[of "c + 1" "slp s"]
    by (subst (asm) wait_loop.simps) (auto simp: Let_def split: if_splits)
qed

lemma WaitForState_ok: "WaitForState os cb st s = (QC_STATUS_OK, s') \<Longrightarrow> m_state s' = st"
  unfolding WaitForState_def by (drule wait_loop_ok) simp

lemma submit_outputs_keeps:
  "m_state (snd (submit_outputs os bufs r)) = m_state (snd r) \<and>
   m_pIoHandle (snd (submit_outputs os bufs r)) = m_pIoHandle (snd r)"
proof (induction bufs arbitrary: r)
  case (Cons buffer bufs)
  then show ?case by (cases r) (simp add: if_ok_def)
qed simp

lemma base_Start_state:
  assumes "VidcNodeBase_Start os cb s = (r, s')" "m_state s = QC_OBJECT_STATE_READY"
  shows "m_state s' = (if r = QC_STATUS_OK then QC_OBJECT_STATE_RUNNING else QC_OBJECT_STATE_ERROR)"
  using assms
  by (auto simp: VidcNodeBase_Start_def Let_def split: prod.splits if_splits dest: WaitForState_ok)

lemma Start_state:
  assumes "VideoEncoder_Start os s = (r, s')"
  shows "m_state s \<noteq> QC_OBJECT_STATE_READY \<Longrightarrow> r = QC_STATUS_BAD_STATE \<and> s' = s"
    "m_state s = QC_OBJECT_STATE_READY \<Longrightarrow>
       m_state s' = QC_OBJECT_STATE_RUNNING \<or> r \<noteq> QC_STATUS_OK \<and> m_state s' = QC_OBJECT_STATE_ERROR"
proof -
  assume "m_state s \<noteq> QC_OBJECT_STATE_READY"
  then show "r = QC_STATUS_BAD_STATE \<and> s' = s"
    using assms by (simp add: VideoEncoder_Start_def VidcNodeBase_Start_def if_ok_def)
next
  assume ready: "m_state s = QC_OBJECT_STATE_READY"
  obtain r0 s0 where e: "VidcNodeBase_Start os (enc_callbacks os) s = (r0, s0)" by fastforce
  from base_Start_state[OF e ready] assms e submit_outputs_keeps[of os "m_outputBufferList s0" "(QC_STATUS_OK, s0)"]
  show "m_state s' = QC_OBJECT_STATE_RUNNING \<or> r \<noteq> QC_STATUS_OK \<and> m_state s' = QC_OBJECT_STATE_ERROR"
    by (auto simp: VideoEncoder_Start_def if_ok_def split: if_splits)
qed

lemma Stop_state:
  assumes "VideoEncoder_Stop os s = (r, s')"
  shows "m_state s \<noteq> QC_OBJECT_STATE_RUNNING \<Longrightarrow> r = QC_STATUS_BAD_STATE \<and> s' = s"
    "m_state s = QC_OBJECT_STATE_RUNNING \<Longrightarrow>
       m_state s' = (if r = QC_STATUS_OK then QC_OBJECT_STATE_READY else QC_OBJECT_STATE_ERROR)"
  using assms by (auto simp: VideoEncoder_Stop_def VidcNodeBase_Stop_def Let_def split: prod.splits if_splits)

lemma DeInitialize_state:
  assumes "VideoEncoder_DeInitialize os s = (r, s')"
  shows "m_state s' = (if r = QC_STATUS_OK then QC_OBJECT_STATE_INITIAL else QC_OBJECT_STATE_ERROR)"
    "r = QC_STATUS_OK \<Longrightarrow> m_pIoHandle s' = nullptr"
    "m_state s \<notin> {QC_OBJECT_STATE_READY, QC_OBJECT_STATE_ERROR} \<Longrightarrow>
       r = QC_STATUS_BAD_STATE \<and> s' = s\<lparr>m_state := QC_OBJECT_STATE_ERROR\<rparr>"
  using assms
  by (auto simp: VideoEncoder_DeInitialize_def VidcNodeBase_DeInitialize_def if_ok_def CloseDriver_def
      Let_def split: prod.splits if_splits)

lemma PostInit_state:
  "PostInit os cb s = (QC_STATUS_OK, s') \<Longrightarrow> m_state s' = QC_OBJECT_STATE_READY"
  by (auto simp: PostInit_def Let_def if_ok_def split: prod.splits if_splits dest: WaitForState_ok)

lemma Initialize_state:
  assumes "VideoEncoder_Initialize env config callback bufs s = Some (r, s')"
  shows "m_state s' = (if r = QC_STATUS_OK then QC_OBJECT_STATE_READY else QC_OBJECT_STATE_ERROR)"
    "r = QC_STATUS_OK \<Longrightarrow> m_state s = QC_OBJECT_STATE_INITIAL"
proof -
  let ?os = "env_os env"
  obtain r0 s0 where c: "encoder_config env config callback s = Some (r0, s0)"
    using assms by (auto simp: VideoEncoder_Initialize_def Let_def split: option.splits)
  have "(r = QC_STATUS_OK \<longrightarrow> m_state s' = QC_OBJECT_STATE_READY \<and> r0 = QC_STATUS_OK) \<and>
      (r \<noteq> QC_STATUS_OK \<longrightarrow> m_state s' = QC_OBJECT_STATE_ERROR)"
    using assms c
    by (auto simp: VideoEncoder_Initialize_def if_ok_opt_def if_ok_def init_cleanup_def Let_def
        split: option.splits prod.splits if_splits dest!: PostInit_state)
  then show "m_state s' = (if r = QC_STATUS_OK then QC_OBJECT_STATE_READY else QC_OBJECT_STATE_ERROR)"
    "r = QC_STATUS_OK \<Longrightarrow> m_state s = QC_OBJECT_STATE_INITIAL"
    using encoder_config_keeps(5)[OF c] by auto
qed

lemma submit_frame_keeps:
  fixes g :: "('w, 'j) VideoEncoder \<Rightarrow> 'k"
  assumes "\<And>s. g (snd (send os d s)) = g s"
  shows "g (snd (submit_frame os check b send d s)) = g s"
  using assms by (simp add: submit_frame_def if_ok_def)

lemma Process_keeps:
  fixes g :: "('w, 'j) VideoEncoder \<Rightarrow> 'k"
  assumes "\<And>d s. g (snd (EmptyBuffer os d s)) = g s" "\<And>d s. g (snd (FillBuffer os d s)) = g s"
  shows "g (snd (VideoEncoder_ProcessFrameDescriptor os fd s)) = g s"
proof -
  have keep: "g (snd (if_ok r f)) = g (snd r)" if "\<And>s. g (snd (f s)) = g s"
    for r and f :: "('w, 'j) VideoEncoder \<Rightarrow> QCStatus_e \<times> ('w, 'j) VideoEncoder"
    using that by (cases r) (simp add: if_ok_def)
  have "g (snd (submit_frame os check b EmptyBuffer d s)) = g s"
    "g (snd (submit_frame os check b FillBuffer d s)) = g s" for check b d s
    using assms by (auto intro: submit_frame_keeps)
  then show ?thesis
    by (simp add: VideoEncoder_ProcessFrameDescriptor_def process_frame_def Let_def keep
        VideoEncoder_SubmitInputFrame_def VideoEncoder_SubmitOutputFrame_def split: option.splits)
qed

lemma Process_state:
  assumes "VideoEncoder_ProcessFrameDescriptor os fd s = (r, s')"
  shows "m_state s' = m_state s" "m_pIoHandle s' = m_pIoHandle s"
    "m_state s \<noteq> QC_OBJECT_STATE_RUNNING \<Longrightarrow> r \<noteq> QC_STATUS_OK \<and> s' = s"
proof -
  show "m_state s' = m_state s" using Process_keeps[of m_state os fd s] assms by simp
  show "m_pIoHandle s' = m_pIoHandle s" using Process_keeps[of m_pIoHandle os fd s] assms by simp
  assume "m_state s \<noteq> QC_OBJECT_STATE_RUNNING"
  then have "submit_frame os check b send d s = (QC_STATUS_BAD_STATE, s)" for check b send d
    by (simp add: submit_frame_def if_ok_def ValidateFrameSubmission_def)
  with assms show "r \<noteq> QC_STATUS_OK \<and> s' = s"
    by (auto simp: VideoEncoder_ProcessFrameDescriptor_def process_frame_def Let_def if_ok_def
        VideoEncoder_SubmitInputFrame_def VideoEncoder_SubmitOutputFrame_def split: option.splits if_splits)
qed

subsection \<open>The session\<close>

text \<open>A step that succeeds leaves a session open, and so does a chain of steps.\<close>

definition ok_open :: "QCStatus_e \<times> ('w, 'a) VidcDrvClient_scheme \<Rightarrow> bool" where
  "ok_open r \<longleftrightarrow> fst r = QC_STATUS_OK \<longrightarrow> m_pIoHandle (snd r) \<noteq> nullptr"

lemma ok_open_if_ok:
  "ok_open r \<Longrightarrow> (\<And>s. m_pIoHandle s \<noteq> nullptr \<Longrightarrow> m_pIoHandle (snd (f s)) \<noteq> nullptr) \<Longrightarrow>
     ok_open (if_ok r f)"
  by (cases r) (simp add: ok_open_def if_ok_def)

lemma ok_open_last: "(\<And>s. ok_open (f s)) \<Longrightarrow> ok_open (if_ok r f)"
  by (cases r) (simp add: ok_open_def if_ok_def)

lemma ok_open_else_error: "ok_open r \<Longrightarrow> ok_open (else_error r)"
  by (cases r) (simp add: ok_open_def else_error_def)

lemma ok_open_driver: "ok_open (open_driver os ty s)"
  by (simp add: ok_open_def open_driver_def OpenDriver_def split: prod.splits)

lemma ok_open_encoder: "ok_open (encoder_open (log_os os) s)"
  unfolding encoder_open_def
  by (intro ok_open_else_error ok_open_if_ok ok_open_last[OF ok_open_driver])
    (simp_all add: session.P_InitDrvProperty session.P_GetInputInformation session.P_Negotiate)

lemma ok_open_opt:
  assumes x: "pred_option ok_open x"
    and f: "\<And>s. m_pIoHandle s \<noteq> nullptr \<Longrightarrow> pred_option ok_open (f s)"
  shows "pred_option ok_open (if_ok_opt x f)"
proof (cases x)
  case (Some r)
  obtain ret s where r: "r = (ret, s)" by (cases r)
  show ?thesis
  proof (cases "ret = QC_STATUS_OK")
    case True
    then have "m_pIoHandle s \<noteq> nullptr" using x Some r by (simp add: ok_open_def)
    with f Some r True show ?thesis by (simp add: if_ok_opt_def)
  qed (simp add: Some r if_ok_opt_def ok_open_def)
qed (simp add: if_ok_opt_def)

lemma ok_open_keep: "m_pIoHandle (snd r) \<noteq> nullptr \<Longrightarrow> ok_open r"
  by (simp add: ok_open_def)

lemma ok_open_PostInit:
  assumes "m_pIoHandle s \<noteq> nullptr"
  shows "ok_open (PostInit (log_os os) (enc_callbacks (log_os os)) s)"
proof -
  have "m_pIoHandle (snd (if_ok (LoadResources (log_os os) (enc_callbacks (log_os os)) s)
      (WaitForState (log_os os) (enc_callbacks (log_os os)) QC_OBJECT_STATE_READY))) \<noteq> nullptr"
    using assms by (simp add: LoadResources_def session.P_if_ok session.P_command session.P_WaitForState)
  then show ?thesis
    by (cases "if_ok (LoadResources (log_os os) (enc_callbacks (log_os os)) s)
      (WaitForState (log_os os) (enc_callbacks (log_os os)) QC_OBJECT_STATE_READY)")
      (simp add: PostInit_def ok_open_def)
qed

lemma Initialize_opens:
  assumes "VideoEncoder_Initialize (log_env env) config callback bufs s = Some (QC_STATUS_OK, s')"
  shows "m_pIoHandle s' \<noteq> nullptr"
proof -
  let ?os = "log_os (env_os env)"
  obtain r0 s0 where c: "encoder_config (log_env env) config callback s = Some (r0, s0)"
    using assms by (auto simp: VideoEncoder_Initialize_def Let_def split: option.splits)
  let ?r = "if_ok_opt (if_ok_opt (if_ok_opt (Some (if_ok (r0, s0) (encoder_open ?os)))
      (encoder_buffers ?os bufs)) (\<lambda>s. Some (PostInit ?os (enc_callbacks ?os) s)))
      (\<lambda>s. Some (ValidateBuffers s, s))"
  have "pred_option ok_open (encoder_buffers ?os bufs s)" if "m_pIoHandle s \<noteq> nullptr" for s
    using session.P_encoder_buffers[OF that, where bufs = bufs and os = "env_os env"]
    by (cases "encoder_buffers ?os bufs s") (simp_all add: ok_open_keep)
  then have "pred_option ok_open ?r"
    by (intro ok_open_opt) (simp_all add: ok_open_last ok_open_encoder ok_open_PostInit ok_open_keep)
  moreover have "?r = Some (QC_STATUS_OK, s')"
    using assms c by (auto simp: VideoEncoder_Initialize_def Let_def split: option.splits prod.splits if_splits)
  ultimately show ?thesis by (simp add: ok_open_def)
qed

subsection \<open>Operations and runs\<close>

datatype encoder_op =
    Op_Initialize string bool "VideoFrameDescriptor list"
  | Op_Start
  | Op_Stop
  | Op_DeInitialize
  | is_Op_Process: Op_Process "any_buffer option list"

fun encoder_run ::
  "('w, 'j) node_env \<Rightarrow> encoder_op \<Rightarrow> ('w, 'j) VideoEncoder \<Rightarrow>
     (QCStatus_e \<times> ('w, 'j) VideoEncoder) option" where
  "encoder_run env (Op_Initialize config callback bufs) s =
     VideoEncoder_Initialize env config callback bufs s"
| "encoder_run env Op_Start s = Some (VideoEncoder_Start (env_os env) s)"
| "encoder_run env Op_Stop s = Some (VideoEncoder_Stop (env_os env) s)"
| "encoder_run env Op_DeInitialize s = Some (VideoEncoder_DeInitialize (env_os env) s)"
| "encoder_run env (Op_Process fd) s = Some (VideoEncoder_ProcessFrameDescriptor (env_os env) fd s)"

text \<open>The life cycle an encoder promises: the states an operation may leave when it succeeds, or fails,
  in a state; none when it cannot.\<close>

fun lifecycle :: "encoder_op \<Rightarrow> bool \<Rightarrow> QCObjectState_e \<Rightarrow> QCObjectState_e set" where
  "lifecycle (Op_Initialize _ _ _) True st =
     (if st = QC_OBJECT_STATE_INITIAL then {QC_OBJECT_STATE_READY} else {})"
| "lifecycle (Op_Initialize _ _ _) False st = {QC_OBJECT_STATE_ERROR}"
| "lifecycle Op_Start True st =
     (if st = QC_OBJECT_STATE_READY then {QC_OBJECT_STATE_RUNNING} else {})"
| "lifecycle Op_Start False st =
     (if st = QC_OBJECT_STATE_READY then {QC_OBJECT_STATE_RUNNING, QC_OBJECT_STATE_ERROR} else {st})"
| "lifecycle Op_Stop True st =
     (if st = QC_OBJECT_STATE_RUNNING then {QC_OBJECT_STATE_READY} else {})"
| "lifecycle Op_Stop False st =
     (if st = QC_OBJECT_STATE_RUNNING then {QC_OBJECT_STATE_ERROR} else {st})"
| "lifecycle Op_DeInitialize True st =
     (if st \<in> {QC_OBJECT_STATE_READY, QC_OBJECT_STATE_ERROR} then {QC_OBJECT_STATE_INITIAL} else {})"
| "lifecycle Op_DeInitialize False st = {QC_OBJECT_STATE_ERROR}"
| "lifecycle (Op_Process _) True st = (if st = QC_OBJECT_STATE_RUNNING then {st} else {})"
| "lifecycle (Op_Process _) False st = {st}"

lemma encoder_run_state:
  assumes "encoder_run env op s = Some (r, s')"
  shows "m_state s' \<in> lifecycle op (r = QC_STATUS_OK) (m_state s)"
    "lifecycle op True (m_state s) = {} \<Longrightarrow> op \<in> {Op_Start, Op_Stop} \<or> is_Op_Process op \<Longrightarrow> s' = s"
proof -
  have "m_state s' \<in> lifecycle op (r = QC_STATUS_OK) (m_state s) \<and>
    (lifecycle op True (m_state s) = {} \<longrightarrow> op \<in> {Op_Start, Op_Stop} \<or> is_Op_Process op \<longrightarrow> s' = s)"
  proof (cases op)
    case (Op_Initialize config callback bufs)
    then show ?thesis
      using assms Initialize_state[of env config callback bufs s r s'] by (cases "r = QC_STATUS_OK") auto
  next
    case Op_Start
    then show ?thesis
      using assms Start_state[of "env_os env" s r s'] by (cases "r = QC_STATUS_OK") auto
  next
    case Op_Stop
    then show ?thesis
      using assms Stop_state[of "env_os env" s r s'] by (cases "r = QC_STATUS_OK") auto
  next
    case Op_DeInitialize
    then show ?thesis
      using assms DeInitialize_state[of "env_os env" s r s'] by (cases "r = QC_STATUS_OK") auto
  next
    case (Op_Process fd)
    then show ?thesis
      using assms Process_state[of "env_os env" fd s r s'] by (cases "r = QC_STATUS_OK") auto
  qed
  then show "m_state s' \<in> lifecycle op (r = QC_STATUS_OK) (m_state s)"
    "lifecycle op True (m_state s) = {} \<Longrightarrow> op \<in> {Op_Start, Op_Stop} \<or> is_Op_Process op \<Longrightarrow> s' = s"
    by simp_all
qed

text \<open>C34: The operations of an encoder implement its life cycle, whatever the driver does and whatever
  messages it sends meanwhile: the status decides which states an operation may leave. An operation that
  cannot succeed in a state fails; \<open>Start\<close>, \<open>Stop\<close> and \<open>ProcessFrameDescriptor\<close> then change nothing, while
  \<open>DeInitialize\<close> puts the encoder in the state ERROR, a running one too, and changes nothing else. After
  a successful \<open>DeInitialize\<close> no session is open.\<close>

theorem encoder_lifecycle:
  assumes "encoder_run env op s = Some (r, s')"
  shows "m_state s' \<in> lifecycle op (r = QC_STATUS_OK) (m_state s) \<and>
    (lifecycle op True (m_state s) = {} \<longrightarrow>
       r \<noteq> QC_STATUS_OK \<and>
       (case op of Op_Initialize _ _ _ \<Rightarrow> True
        | Op_DeInitialize \<Rightarrow> s' = s\<lparr>m_state := QC_OBJECT_STATE_ERROR\<rparr>
        | _ \<Rightarrow> s' = s)) \<and>
    (op = Op_DeInitialize \<and> r = QC_STATUS_OK \<longrightarrow> m_pIoHandle s' = nullptr)"
proof (cases op)
  case Op_DeInitialize
  then have "VideoEncoder_DeInitialize (env_os env) s = (r, s')" using assms by simp
  from DeInitialize_state[OF this] show ?thesis
    by (cases "r = QC_STATUS_OK") (auto simp: Op_DeInitialize)
next
  case (Op_Initialize config callback bufs)
  then show ?thesis
    using encoder_run_state(1)[OF assms] by (cases "r = QC_STATUS_OK") (auto split: if_splits)
next
  case Op_Start
  then show ?thesis
    using assms Start_state[of "env_os env" s r s'] by (cases "r = QC_STATUS_OK") auto
next
  case Op_Stop
  then show ?thesis
    using assms Stop_state[of "env_os env" s r s'] by (cases "r = QC_STATUS_OK") auto
next
  case (Op_Process fd)
  then show ?thesis
    using assms Process_state[of "env_os env" fd s r s'] by (cases "r = QC_STATUS_OK") auto
qed

text \<open>A run of an encoder over a driver that keeps the history: operations, one at a time, the driver's
  own progress and messages it delivers between two operations.\<close>

inductive encoder_reachable ::
  "('w, 'j) node_env \<Rightarrow> ('w \<times> codec_event list, 'j) VideoEncoder \<Rightarrow> bool"
  for env where
  constructed: "m_state s = QC_OBJECT_STATE_INITIAL \<Longrightarrow> m_pIoHandle s = nullptr \<Longrightarrow> hist s = [] \<Longrightarrow>
    encoder_reachable env s"
| operation: "encoder_reachable env s \<Longrightarrow> encoder_run (log_env env) op s = Some (r, s') \<Longrightarrow>
    encoder_reachable env s'"
| progress: "encoder_reachable env s \<Longrightarrow> encoder_reachable env (s\<lparr>drv_world := (w, hist s)\<rparr>)"
| message: "encoder_reachable env s \<Longrightarrow>
    encoder_reachable env
      (snd (DeviceCbHandler (log_os (env_os env)) (enc_callbacks (log_os (env_os env))) msg
              (s\<lparr>drv_world := (w, hist s @ [Got msg])\<rparr>)))"

definition at_rest :: "'w vidc_os \<Rightarrow> ('w \<times> codec_event list, 'j) VideoEncoder \<Rightarrow> bool" where
  "at_rest os s \<longleftrightarrow> good os s \<and>
     m_state s \<in> {QC_OBJECT_STATE_INITIAL, QC_OBJECT_STATE_READY, QC_OBJECT_STATE_RUNNING,
                  QC_OBJECT_STATE_ERROR} \<and>
     (m_state s = QC_OBJECT_STATE_INITIAL \<longrightarrow> m_pIoHandle s = nullptr) \<and>
     (m_state s \<in> {QC_OBJECT_STATE_READY, QC_OBJECT_STATE_RUNNING} \<longrightarrow> m_pIoHandle s \<noteq> nullptr)"

lemma encoder_run_good:
  assumes "good (env_os env) s" "m_state s = QC_OBJECT_STATE_INITIAL \<longrightarrow> m_pIoHandle s = nullptr"
    "encoder_run (log_env env) op s = Some (r, s')"
  shows "good (env_os env) s'"
proof (cases op)
  case (Op_Initialize config callback bufs)
  then have run: "VideoEncoder_Initialize (log_env env) config callback bufs s = Some (r, s')"
    using assms(3) by simp
  show ?thesis
  proof (cases "m_state s = QC_OBJECT_STATE_INITIAL")
    case True
    with assms(1,2) have "idle (env_os env) s" by (simp add: good_idle)
    from quiet.P_Initialize[OF this refl run] show ?thesis by (rule idle_good)
  qed (rule safe.P_Initialize_rejected[OF assms(1) _ refl run])
next
  case Op_Start
  then show ?thesis using Start_good[OF assms(1)] assms(3) by simp
next
  case Op_Stop
  then show ?thesis using Stop_good[OF assms(1)] assms(3) by simp
next
  case Op_DeInitialize
  then show ?thesis using DeInitialize_good[OF assms(1)] assms(3) by simp
next
  case (Op_Process fd)
  then show ?thesis using Process_good[OF assms(1), of fd] assms(3) by simp
qed

text \<open>The session stays open as long as the node is used.\<close>

lemma encoder_run_open:
  assumes run: "encoder_run (log_env env) op s = Some (r, s')"
    and "m_state s \<in> {QC_OBJECT_STATE_READY, QC_OBJECT_STATE_RUNNING} \<longrightarrow> m_pIoHandle s \<noteq> nullptr"
    and "m_state s' \<in> {QC_OBJECT_STATE_READY, QC_OBJECT_STATE_RUNNING}"
  shows "m_pIoHandle s' \<noteq> nullptr"
proof (cases op)
  case (Op_Initialize config callback bufs)
  then show ?thesis
    using assms(1,3) Initialize_state[of "log_env env" config callback bufs s r s']
      Initialize_opens[of env config callback bufs s s'] by (auto split: if_splits)
next
  case Op_Start
  obtain r0 s0 where e: "VidcNodeBase_Start (log_os (env_os env)) (enc_callbacks (log_os (env_os env))) s = (r0, s0)"
    by fastforce
  have "m_pIoHandle s' = m_pIoHandle s0"
    using run Op_Start e submit_outputs_keeps[of "log_os (env_os env)" "m_outputBufferList s0" "(QC_STATUS_OK, s0)"]
    by (auto simp: VideoEncoder_Start_def if_ok_def split: if_splits)
  moreover have "m_pIoHandle s0 \<noteq> nullptr"
    if "m_state s = QC_OBJECT_STATE_READY"
    using session.P_Start[of s "env_os env"] assms(2) that e by simp
  moreover have "s' = s" if "m_state s \<noteq> QC_OBJECT_STATE_READY"
    using encoder_run_state(2)[OF run] Op_Start that by simp
  ultimately show ?thesis using assms(2,3) by (cases "m_state s = QC_OBJECT_STATE_READY") auto
next
  case Op_Stop
  have "m_pIoHandle s' \<noteq> nullptr" if "m_state s = QC_OBJECT_STATE_RUNNING"
    using session.P_Stop[of s "env_os env"] assms(2) that run Op_Stop by (simp add: VideoEncoder_Stop_def)
  moreover have "s' = s" if "m_state s \<noteq> QC_OBJECT_STATE_RUNNING"
    using encoder_run_state(2)[OF run] Op_Stop that by simp
  ultimately show ?thesis using assms(2,3) by (cases "m_state s = QC_OBJECT_STATE_RUNNING") auto
next
  case Op_DeInitialize
  then show ?thesis using encoder_run_state(1)[OF run] assms(3) by (cases "r = QC_STATUS_OK") (auto split: if_splits)
next
  case (Op_Process fd)
  then show ?thesis
    using run assms(2,3) Process_state(1,2)[of "log_os (env_os env)" fd s r s'] by auto
qed

lemma encoder_run_at_rest:
  assumes "at_rest (env_os env) s" "encoder_run (log_env env) op s = Some (r, s')"
  shows "at_rest (env_os env) s'"
proof -
  have "good (env_os env) s'" using assms encoder_run_good[OF _ _ assms(2)] by (simp add: at_rest_def)
  moreover have "m_state s' \<in> {QC_OBJECT_STATE_INITIAL, QC_OBJECT_STATE_READY, QC_OBJECT_STATE_RUNNING,
      QC_OBJECT_STATE_ERROR}"
    using encoder_run_state(1)[OF assms(2)] assms(1)
    by (cases op; cases "r = QC_STATUS_OK") (auto simp: at_rest_def split: if_splits)
  moreover have "m_pIoHandle s' = nullptr" if "m_state s' = QC_OBJECT_STATE_INITIAL"
    using encoder_run_state[OF assms(2)] assms that DeInitialize_state(2)[of "env_os (log_env env)" s r s']
    by (cases op; cases "r = QC_STATUS_OK") (auto simp: at_rest_def split: if_splits)
  moreover have "m_pIoHandle s' \<noteq> nullptr"
    if "m_state s' \<in> {QC_OBJECT_STATE_READY, QC_OBJECT_STATE_RUNNING}"
    using encoder_run_open[OF assms(2) _ that] assms(1) by (simp add: at_rest_def)
  ultimately show ?thesis by (simp add: at_rest_def)
qed

lemma event_state:
  fixes s :: "('w, 'j) VideoEncoder"
  assumes "m_state s \<in> {QC_OBJECT_STATE_INITIAL, QC_OBJECT_STATE_READY, QC_OBJECT_STATE_RUNNING,
      QC_OBJECT_STATE_ERROR}"
  shows "m_state (event (enc_callbacks os) e msg s) \<in> {m_state s, QC_OBJECT_STATE_ERROR}"
  using assms
  by (cases e) (auto simp: enc_callbacks_def VideoEncoder_EventCallback_def notify_event_def notify_def
      VidcNodeBase_EventCallback_def Let_def)

lemma done_state [simp]:
  "m_state (inputDone (enc_callbacks os) d s) = m_state s"
  "m_state (outputDone (enc_callbacks os) d s) = m_state s"
  by (simp_all add: enc_callbacks_def InFrameCallback_def OutFrameCallback_def notify_def)

lemma message_state:
  fixes s :: "('w, 'j) VideoEncoder"
  assumes "m_state s \<in> {QC_OBJECT_STATE_INITIAL, QC_OBJECT_STATE_READY, QC_OBJECT_STATE_RUNNING,
      QC_OBJECT_STATE_ERROR}"
  shows "m_state (snd (DeviceCbHandler os (enc_callbacks os') msg s)) \<in> {m_state s, QC_OBJECT_STATE_ERROR}"
proof -
  note ev = event_state[where os = os' and msg = msg]
  have 1: "m_state (input_done os (enc_callbacks os') msg s) \<in> {m_state s, QC_OBJECT_STATE_ERROR}"
    using assms ev[of s] by (simp add: input_done_def Let_def)
  have 2: "m_state (output_done os (enc_callbacks os') msg s) \<in> {m_state s, QC_OBJECT_STATE_ERROR}"
    using assms ev[of s VIDEO_CODEC_EVT_ERROR] ev[of "s\<lparr>m_outputMap := m\<rparr>" VIDEO_CODEC_EVT_ERROR for m]
    by (simp add: output_done_def Let_def)
  have 3: "m_state (event (enc_callbacks os') e msg (s\<lparr>m_cmdCompleted := c\<rparr>)) \<in> {m_state s, QC_OBJECT_STATE_ERROR}"
    for e c using ev[of "s\<lparr>m_cmdCompleted := c\<rparr>"] assms by simp
  show ?thesis
    using 1 2 3 ev[OF assms] by (cases "event_type msg") (simp_all add: DeviceCbHandler_def)
qed

lemma message_at_rest:
  assumes "at_rest os s"
  shows "at_rest os (snd (DeviceCbHandler (log_os os) (enc_callbacks (log_os os)) msg
      (s\<lparr>drv_world := (w, hist s @ [Got msg])\<rparr>)))"
proof -
  let ?s = "s\<lparr>drv_world := (w, hist s @ [Got msg])\<rparr>"
  let ?s' = "snd (DeviceCbHandler (log_os os) (enc_callbacks (log_os os)) msg ?s)"
  note eff = DeviceCbHandler_effect[where os = "log_os os" and os' = "log_os os" and msg = msg and s = ?s]
  have "held os dir (hist ?s') \<subseteq> in_use ?s' dir" for dir
    using assms eff(2) eff(3)[of dir] by (fastforce simp: at_rest_def good_def)
  then have "good os ?s'"
    using assms eff(1,2) by (simp add: at_rest_def good_def)
  moreover have "m_state ?s' \<in> {m_state s, QC_OBJECT_STATE_ERROR}"
    using message_state[of ?s "log_os os" "log_os os" msg] assms by (simp add: at_rest_def)
  ultimately show ?thesis using assms eff(1) by (auto simp: at_rest_def)
qed

lemma encoder_reachable_at_rest: "encoder_reachable env s \<Longrightarrow> at_rest (env_os env) s"
proof (induction rule: encoder_reachable.induct)
  case (constructed s)
  then show ?case by (simp add: at_rest_def good_def)
next
  case (operation s op r s')
  then show ?case using encoder_run_at_rest by blast
next
  case (progress s w)
  then show ?case by (simp add: at_rest_def good_def)
next
  case (message s msg w)
  then show ?case by (simp add: message_at_rest)
qed

text \<open>C35: In every state a run of an encoder reaches, over any driver and with messages at any time,
  repeated or about unknown buffers, the driver was never sent an input or output buffer it was still
  holding, and the encoder keeps every buffer the driver holds marked as in use. Between operations the
  node is in one of four states: in INITIAL no session is open and the driver holds nothing, in READY and
  RUNNING a session is open.\<close>

theorem encoder_never_resubmits:
  assumes "encoder_reachable env s"
  shows "no_resubmit (env_os env) dir (hist s) \<and> held (env_os env) dir (hist s) \<subseteq> in_use s dir \<and>
    m_state s \<in> {QC_OBJECT_STATE_INITIAL, QC_OBJECT_STATE_READY, QC_OBJECT_STATE_RUNNING,
                 QC_OBJECT_STATE_ERROR} \<and>
    (m_state s = QC_OBJECT_STATE_INITIAL \<longrightarrow>
       m_pIoHandle s = nullptr \<and> held (env_os env) dir (hist s) = {}) \<and>
    (m_state s \<in> {QC_OBJECT_STATE_READY, QC_OBJECT_STATE_RUNNING} \<longrightarrow> m_pIoHandle s \<noteq> nullptr)"
  using encoder_reachable_at_rest[OF assms] by (simp add: at_rest_def good_def)

end
