(* ===== verification/QC_VidcLevel.thy ===== *)
theory QC_VidcLevel
  imports QC_VidcDemo
begin

text \<open>
  Two results on the video encoder that stand by themselves: how long the driver client waits for an
  answer, and which profile and level the encoder chooses.
\<close>

subsection \<open>Waiting\<close>

lemma wait_loop_iterate:
  assumes "0 \<le> counter" "counter \<le> timeoutMs"
  shows "(\<exists>k \<le> nat (timeoutMs - counter).
            done' ((slp ^^ k) s) \<and> (\<forall>j < k. \<not> done' ((slp ^^ j) s)) \<and>
            wait_loop slp done' timeoutMs counter s = (QC_STATUS_OK, (slp ^^ k) s)) \<or>
         (\<forall>k \<le> nat (timeoutMs - counter). \<not> done' ((slp ^^ k) s)) \<and>
         wait_loop slp done' timeoutMs counter s =
           (QC_STATUS_TIMEOUT, (slp ^^ Suc (nat (timeoutMs - counter))) s)"
  using assms
proof (induction slp done' timeoutMs counter s rule: wait_loop.induct)
  case (1 slp done' timeoutMs counter s)
  have unf: "wait_loop slp done' timeoutMs counter s =
     (if done' s then (QC_STATUS_OK, s)
      else if timeoutMs < counter + 1 then (QC_STATUS_TIMEOUT, slp s)
           else wait_loop slp done' timeoutMs (counter + 1) (slp s))"
    by (subst wait_loop.simps) (simp add: Let_def)
  show ?case
  proof (cases "done' s")
    case True
    then show ?thesis using unf by (intro disjI1 exI[of _ 0]) simp
  next
    case nd: False
    show ?thesis
    proof (cases "timeoutMs < counter + 1")
      case True
      then have "nat (timeoutMs - counter) = 0" using 1(2,3) by simp
      then show ?thesis using unf nd True by simp
    next
      case False
      let ?n = "nat (timeoutMs - counter)" and ?m = "nat (timeoutMs - (counter + 1))"
      have n: "?n = Suc ?m" using False 1(2) by simp
      have it: "(slp ^^ k) (slp s) = (slp ^^ Suc k) s" for k by (simp only: funpow_Suc_right o_apply)
      from 1(1)[OF nd refl False] False 1(2)
      consider k where "k \<le> ?m" "done' ((slp ^^ k) (slp s))" "\<forall>j<k. \<not> done' ((slp ^^ j) (slp s))"
          "wait_loop slp done' timeoutMs (counter + 1) (slp s) = (QC_STATUS_OK, (slp ^^ k) (slp s))"
        | "\<forall>k \<le> ?m. \<not> done' ((slp ^^ k) (slp s))"
          "wait_loop slp done' timeoutMs (counter + 1) (slp s) =
             (QC_STATUS_TIMEOUT, (slp ^^ Suc ?m) (slp s))"
        by fastforce
      then show ?thesis
      proof cases
        case (1 k)
        have "\<not> done' ((slp ^^ j) s)" if "j < Suc k" for j
          using that nd 1(3) it by (cases j) auto
        then show ?thesis
          using 1 unf nd False n it by (intro disjI1 exI[of _ "Suc k"]) simp
      next
        case 2
        have "\<not> done' ((slp ^^ k) s)" if "k \<le> Suc ?m" for k
          using that nd 2(1) it by (cases k) auto
        then show ?thesis using 2 unf nd False n it by simp
      qed
    qed
  qed
qed

text \<open>C33: Waiting for an answer of the driver ends: the client sleeps at most one time more than the
  timeout in milliseconds. The wait succeeds exactly when the expected command is the last one
  completed after some number of sleeps up to the timeout, and then it ends with the first such sleep;
  otherwise it reports a timeout, also when the answer arrives during the last sleep.\<close>

theorem wait_for_command_terminates:
  assumes "0 \<le> timeoutMs"
  shows "(\<exists>k \<le> nat timeoutMs.
            m_cmdCompleted ((sleep os cb ^^ k) s) = cmd \<and>
            (\<forall>j < k. m_cmdCompleted ((sleep os cb ^^ j) s) \<noteq> cmd) \<and>
            WaitForCmdCompleted os cb cmd timeoutMs s = (QC_STATUS_OK, (sleep os cb ^^ k) s)) \<or>
         (\<forall>k \<le> nat timeoutMs. m_cmdCompleted ((sleep os cb ^^ k) s) \<noteq> cmd) \<and>
         WaitForCmdCompleted os cb cmd timeoutMs s =
           (QC_STATUS_TIMEOUT, (sleep os cb ^^ (nat timeoutMs + 1)) s)"
  using wait_loop_iterate[of 0 timeoutMs "\<lambda>s. m_cmdCompleted s = cmd" "sleep os cb" s] assms
  by (simp add: WaitForCmdCompleted_def)

text \<open>The driver answers a command before the first sleep ends, and the wait sees it after that.\<close>

definition demo_waiting :: "(vidc_drv_msg list, codec_json) VideoEncoder" where
  "demo_waiting = codec_node [demo_msg VIDC_EVT_LAST_FLAG demo_frame_data] (CJ_Object [])"

lemma demo_sleep:
  "m_cmdCompleted (sleep demo_codec (enc_callbacks demo_codec) demo_waiting) =
     VIDEO_CODEC_COMMAND_LAST_FLAG"
  by (simp add: sleep_def deliver_def demo_waiting_def codec_node_def demo_codec_def DeviceCbHandler_def
      demo_msg_def)

lemma wait_for_command_terminates_witness:
  "fst (WaitForCmdCompleted demo_codec (enc_callbacks demo_codec) VIDEO_CODEC_COMMAND_LAST_FLAG 10
          demo_waiting) = QC_STATUS_OK"
  using wait_for_command_terminates[of 10 demo_codec "enc_callbacks demo_codec" demo_waiting
      VIDEO_CODEC_COMMAND_LAST_FLAG] demo_sleep
  by (auto dest: spec[of _ "1::nat"])

subsection \<open>Choosing a level\<close>

definition row_fits :: "u64 \<Rightarrow> u64 \<Rightarrow> u32 \<Rightarrow> ProfileLevel \<Rightarrow> bool" where
  "row_fits frame perSec rate row \<longleftrightarrow>
     frame \<le> ucast (maxFrameSize row) \<and> perSec \<le> ucast (maxSizePerSec row) \<and> rate \<le> maxBitRate row"

lemma level_loop_append:
  "level_loop frame perSec rate (xs @ ys) r =
     level_loop frame perSec rate ys (level_loop frame perSec rate xs r)"
  by (induction xs arbitrary: r) auto

lemma level_loop_none:
  "\<forall>row \<in> set rows. \<not> row_fits frame perSec rate row \<Longrightarrow> level_loop frame perSec rate rows r = r"
  by (induction rows arbitrary: r) (auto simp: row_fits_def)

text \<open>A row all of whose limits are at least those of another one fits when that one does.\<close>

definition row_le :: "ProfileLevel \<Rightarrow> ProfileLevel \<Rightarrow> bool" where
  "row_le a b \<longleftrightarrow> maxFrameSize a \<le> maxFrameSize b \<and> maxSizePerSec a \<le> maxSizePerSec b \<and>
     maxBitRate a \<le> maxBitRate b"

lemma ucast_u32_le: "(a :: u32) \<le> b \<Longrightarrow> (ucast a :: u64) \<le> ucast b"
  by (simp add: word_le_nat_alt unsigned_ucast_eq take_bit_nat_eq_self
      less_le_trans[OF unsigned_less])

lemma row_le_fits: "row_le a b \<Longrightarrow> row_fits frame perSec rate a \<Longrightarrow> row_fits frame perSec rate b"
  unfolding row_le_def row_fits_def by (meson order_trans ucast_u32_le)

lemma level_loop_last:
  assumes "\<forall>row \<in> set rows. row_le row hi"
  shows "level_loop frame perSec rate (rows @ [hi]) r =
     (if row_fits frame perSec rate hi then (pl_level hi, pl_profile hi) else r)"
proof (cases "row_fits frame perSec rate hi")
  case True
  then show ?thesis by (simp add: level_loop_append row_fits_def)
next
  case False
  then have "\<forall>row \<in> set rows. \<not> row_fits frame perSec rate row"
    using assms row_le_fits by blast
  then have "level_loop frame perSec rate rows r = r" by (rule level_loop_none)
  then show ?thesis using False by (auto simp: level_loop_append row_fits_def)
qed

text \<open>In each table the last row dominates all others.\<close>

fun table_hi :: "VideoEncoder_Profile_e \<Rightarrow> ProfileLevel" where
  "table_hi VIDEO_ENCODER_PROFILE_H264_BASELINE =
     ProfileLevel 36864 983040 240000000 VIDC_LEVEL_H264_5p1 VIDC_PROFILE_H264_BASELINE"
| "table_hi VIDEO_ENCODER_PROFILE_H264_HIGH =
     ProfileLevel 36864 983040 300000000 VIDC_LEVEL_H264_5p1 VIDC_PROFILE_H264_HIGH"
| "table_hi VIDEO_ENCODER_PROFILE_H264_MAIN =
     ProfileLevel 36864 983040 240000000 VIDC_LEVEL_H264_5p1 VIDC_PROFILE_H264_MAIN"
| "table_hi VIDEO_ENCODER_PROFILE_HEVC_MAIN =
     ProfileLevel 35651584 1069547520 60000000 VIDC_LEVEL_HEVC_6 VIDC_PROFILE_HEVC_MAIN"
| "table_hi _ =
     ProfileLevel 35651584 1069547520 60000000 VIDC_LEVEL_HEVC_6 VIDC_PROFILE_HEVC_MAIN10"

lemmas table_defs =
  s_profileLevelTables_def s_profileLevelH264BaseLineTable_def s_profileLevelH264HighTable_def
  s_profileLevelH264MainTable_def s_profileLevelHevcMainTable_def s_profileLevelHevcMain10Table_def

lemma table_rows:
  assumes "p \<noteq> VIDEO_ENCODER_PROFILE_MAX"
  shows "s_profileLevelTables ! profile_number p =
           butlast (s_profileLevelTables ! profile_number p) @ [table_hi p] \<and>
         (\<forall>row \<in> set (butlast (s_profileLevelTables ! profile_number p)). row_le row (table_hi p))"
  using assms by (cases p) (simp_all add: table_defs row_le_def)

lemma level_loop_table:
  assumes "p \<noteq> VIDEO_ENCODER_PROFILE_MAX"
  shows "level_loop frame perSec rate (s_profileLevelTables ! profile_number p) r =
     (if row_fits frame perSec rate (table_hi p)
      then (pl_level (table_hi p), pl_profile (table_hi p)) else r)"
  using table_rows[OF assms] level_loop_last by metis

definition is_h264 :: "VideoEncoder_Profile_e \<Rightarrow> bool" where
  "is_h264 p \<longleftrightarrow> profile_number p \<le> profile_number VIDEO_ENCODER_PROFILE_H264_MAIN"

lemma ucast_u64_le: "(ucast (a :: u32) :: u64) \<le> ucast b \<longleftrightarrow> a \<le> b"
  by (simp add: word_le_nat_alt unsigned_ucast_eq take_bit_nat_eq_self
      less_le_trans[OF unsigned_less])

lemma table_hi_nonzero [simp]:
  "pl_level (table_hi p) \<noteq> VIDC_LEVEL_ZERO" "pl_profile (table_hi p) \<noteq> VIDC_PROFILE_ZERO"
  by (cases p; simp)+

lemma profile_number_less: "p \<noteq> VIDEO_ENCODER_PROFILE_MAX \<Longrightarrow> profile_number p < 5"
  by (cases p) auto

definition stream_fits :: "'c VidcNodeBase_Config_scheme \<Rightarrow> u32 \<Rightarrow> VideoEncoder_Profile_e \<Rightarrow> bool" where
  "stream_fits c rate p \<longleftrightarrow>
     (if is_h264 p then row_fits (ucast (mbPerFrame c)) (ucast (mbPerFrame c * cfg_frameRate c)) rate
                          (table_hi p)
      else row_fits (samplePerFrame c) (samplePerFrame c * ucast (cfg_frameRate c)) rate (table_hi p))"

definition codec_matches :: "QCImageFormat_e \<Rightarrow> VideoEncoder_Profile_e \<Rightarrow> bool" where
  "codec_matches fmt p \<longleftrightarrow>
     fmt = (if is_h264 p then QC_IMAGE_FORMAT_COMPRESSED_H264 else QC_IMAGE_FORMAT_COMPRESSED_H265)"

lemma SetVidcProfileLevel_eq:
  assumes "p \<noteq> VIDEO_ENCODER_PROFILE_MAX" and "p = profile (cfg s)"
    and "outFormat (cfg s) = QC_IMAGE_FORMAT_COMPRESSED_H264 \<or>
         outFormat (cfg s) = QC_IMAGE_FORMAT_COMPRESSED_H265"
  shows "SetVidcProfileLevel p s =
     (if codec_matches (outFormat (cfg s)) p \<and> stream_fits (cfg s) (bitRate (cfg s)) p
      then (QC_STATUS_OK, s\<lparr>m_vidcEncoderData := (m_vidcEncoderData s)
              \<lparr>enc_level := pl_level (table_hi p), enc_profile := pl_profile (table_hi p)\<rparr>\<rparr>)
      else (QC_STATUS_BAD_ARGUMENTS, s\<lparr>m_vidcEncoderData := (m_vidcEncoderData s)
              \<lparr>enc_level := VIDC_LEVEL_ZERO, enc_profile := VIDC_PROFILE_ZERO\<rparr>\<rparr>))"
proof (cases "is_h264 p")
  case True
  then have "profile_number p \<le> 2" by (simp add: is_h264_def)
  then show ?thesis
    using assms True
    by (simp add: SetVidcProfileLevel_def Let_def level_loop_table codec_matches_def stream_fits_def)
next
  case False
  then have "\<not> profile_number p \<le> 2" "profile_number p < 5"
    using profile_number_less[OF assms(1)] by (simp_all add: is_h264_def)
  then show ?thesis
    using assms False
    by (simp add: SetVidcProfileLevel_def Let_def level_loop_table codec_matches_def stream_fits_def)
qed

lemma stream_fits_limits:
  "p \<noteq> VIDEO_ENCODER_PROFILE_MAX \<Longrightarrow> stream_fits c rate p \<longleftrightarrow>
     (if is_h264 p then
        mbPerFrame c \<le> 36864 \<and> mbPerFrame c * cfg_frameRate c \<le> 983040 \<and>
        rate \<le> (if p = VIDEO_ENCODER_PROFILE_H264_HIGH then 300000000 else 240000000)
      else
        samplePerFrame c \<le> 35651584 \<and> samplePerFrame c * ucast (cfg_frameRate c) \<le> 1069547520 \<and>
        rate \<le> 60000000)"
  using ucast_u64_le[of _ 36864] ucast_u64_le[of _ 983040]
  by (cases p) (simp_all add: stream_fits_def is_h264_def row_fits_def)

lemma table_hi_level:
  "p \<noteq> VIDEO_ENCODER_PROFILE_MAX \<Longrightarrow>
     pl_level (table_hi p) = (if is_h264 p then VIDC_LEVEL_H264_5p1 else VIDC_LEVEL_HEVC_6)"
  by (cases p) (simp_all add: is_h264_def)

text \<open>The encoder accepts a configured profile exactly when it is a profile of the configured codec
  and the frame size, the frame size times the frame rate and the bit rate are within the limits of the
  highest level of the profile, where for H.264 the sizes are in macroblocks and the product wraps at
  32 bits, and for HEVC they are in samples. Since a later row of the table replaces an earlier one,
  the level it chooses is always the highest, 5.1 or 6, however small the video is; otherwise profile
  and level are left zero.\<close>

theorem encoder_level_is_highest:
  assumes "SetVidcProfileLevel (profile (cfg s)) s = (ret, s')"
    and "profile (cfg s) \<noteq> VIDEO_ENCODER_PROFILE_MAX"
    and "outFormat (cfg s) = QC_IMAGE_FORMAT_COMPRESSED_H264 \<or>
         outFormat (cfg s) = QC_IMAGE_FORMAT_COMPRESSED_H265"
  shows "(ret = QC_STATUS_OK \<longleftrightarrow>
           (if is_h264 (profile (cfg s)) then
              outFormat (cfg s) = QC_IMAGE_FORMAT_COMPRESSED_H264 \<and>
              mbPerFrame (cfg s) \<le> 36864 \<and>
              mbPerFrame (cfg s) * cfg_frameRate (cfg s) \<le> 983040 \<and>
              bitRate (cfg s) \<le> (if profile (cfg s) = VIDEO_ENCODER_PROFILE_H264_HIGH
                                then 300000000 else 240000000)
            else
              outFormat (cfg s) = QC_IMAGE_FORMAT_COMPRESSED_H265 \<and>
              samplePerFrame (cfg s) \<le> 35651584 \<and>
              samplePerFrame (cfg s) * ucast (cfg_frameRate (cfg s)) \<le> 1069547520 \<and>
              bitRate (cfg s) \<le> 60000000)) \<and>
         (ret = QC_STATUS_OK \<longrightarrow>
            enc_level (m_vidcEncoderData s') =
              (if is_h264 (profile (cfg s)) then VIDC_LEVEL_H264_5p1 else VIDC_LEVEL_HEVC_6) \<and>
            enc_profile (m_vidcEncoderData s') = pl_profile (table_hi (profile (cfg s)))) \<and>
         (ret \<noteq> QC_STATUS_OK \<longrightarrow>
            ret = QC_STATUS_BAD_ARGUMENTS \<and>
            enc_level (m_vidcEncoderData s') = VIDC_LEVEL_ZERO \<and>
            enc_profile (m_vidcEncoderData s') = VIDC_PROFILE_ZERO)"
  using assms(1) unfolding SetVidcProfileLevel_eq[OF assms(2) refl assms(3)]
  by (auto simp: codec_matches_def stream_fits_limits[OF assms(2)] table_hi_level[OF assms(2)]
      split: if_splits)

text \<open>A tiny video, 128 by 128 pixels at 30 frames per second and 64 kbit/s, gets level 6.\<close>

definition demo_small :: "(vidc_drv_msg list, codec_json) VideoEncoder" where
  "demo_small = (let s = codec_node [] (CJ_Object [])
     in s\<lparr>cfg := (cfg s)\<lparr>cfg_width := 128, cfg_height := 128, cfg_frameRate := 30, bitRate := 64000,
                       outFormat := QC_IMAGE_FORMAT_COMPRESSED_H265\<rparr>\<rparr>)"

lemma encoder_level_is_highest_witness:
  "\<exists>s'. SetVidcProfileLevel (profile (cfg demo_small)) demo_small = (QC_STATUS_OK, s') \<and>
        enc_level (m_vidcEncoderData s') = VIDC_LEVEL_HEVC_6"
proof -
  obtain ret s' where r: "SetVidcProfileLevel (profile (cfg demo_small)) demo_small = (ret, s')"
    by (cases "SetVidcProfileLevel (profile (cfg demo_small)) demo_small")
  have p: "profile (cfg demo_small) = VIDEO_ENCODER_PROFILE_HEVC_MAIN"
    by (simp add: demo_small_def codec_node_def)
  have o: "outFormat (cfg demo_small) = QC_IMAGE_FORMAT_COMPRESSED_H265"
    by (simp add: demo_small_def codec_node_def)
  have b: "bitRate (cfg demo_small) = 64000" "samplePerFrame (cfg demo_small) = 16384"
    "cfg_frameRate (cfg demo_small) = 30"
    by (simp_all add: demo_small_def codec_node_def samplePerFrame_def)
  from encoder_level_is_highest[OF r] have "ret = QC_STATUS_OK"
    "enc_level (m_vidcEncoderData s') = VIDC_LEVEL_HEVC_6"
    unfolding p o b by (simp_all add: is_h264_def)
  with r show ?thesis by blast
qed

end
