(* ===== verification/QC_VidcRun.thy ===== *)
theory QC_VidcRun
  imports QC_VidcReach QC_VidcLevel
begin

text \<open>
  A run of the demonstration encoder over its driver, from construction to \<open>RUNNING\<close> with four output
  buffers held by the driver. It is evaluated step by step: each lemma gives the part of the state that
  the next step needs.
\<close>

text \<open>A chain of steps is evaluated from the front.\<close>

lemma if_ok_cong: "r = r' \<Longrightarrow> if_ok r f = if_ok r' f"
  by simp

lemma chain_simps:
  "if_ok (QC_STATUS_OK, s) f = f s" "else_error (QC_STATUS_OK, s) = (QC_STATUS_OK, s)"
  "if_ok_opt (Some (QC_STATUS_OK, s)) g = g s"
  by (simp_all add: if_ok_def else_error_def if_ok_opt_def)

lemma log_demo [simp]:
  "VIDC_ERR_NONE (log_os demo_codec) = 0" "VIDC_ERR_NONE demo_codec = 0"
  "\<not> property_too_large (log_os demo_codec) pkt"
  by (simp_all add: property_too_large_def log_os_def demo_codec_def Let_def
      VIDEO_MAX_DEV_CMD_BUFFER_SIZE_def)

lemma ioctl_demo:
  "m_pIoHandle s \<noteq> nullptr \<Longrightarrow> ioctl (log_os demo_codec) req s =
     (0, demo_property req,
      s\<lparr>drv_world := (fst (drv_world s) @ demo_answer req, hist s @ [Sent req])\<rparr>)"
  by (cases "drv_world s") (simp add: ioctl_def log_os_def demo_codec_def)

lemma property_demo:
  "m_pIoHandle s \<noteq> nullptr \<Longrightarrow> SetDrvProperty (log_os demo_codec) pkt s =
     (QC_STATUS_OK,
      s\<lparr>drv_world := (fst (drv_world s), hist s @ [Sent (VIDC_IOCTL_SET_PROPERTY pkt)])\<rparr>)"
  "m_pIoHandle s \<noteq> nullptr \<Longrightarrow> GetDrvProperty (log_os demo_codec) pkt s =
     (QC_STATUS_OK, demo_property (VIDC_IOCTL_GET_PROPERTY pkt),
      s\<lparr>drv_world := (fst (drv_world s), hist s @ [Sent (VIDC_IOCTL_GET_PROPERTY pkt)])\<rparr>)"
  by (simp_all add: SetDrvProperty_def GetDrvProperty_def ioctl_demo)

definition demo_cfg :: "unit VideoEncoder_Config_ext VidcNodeBase_Config_scheme" where
  "demo_cfg =
     \<lparr>cfg_nodeId = \<lparr>n_name = ''enc'', n_type = 0, n_id = 0\<rparr>, cfg_width = 128, cfg_height = 128,
      cfg_frameRate = 30, numInputBufferReq = 4, numOutputBufferReq = 4, bInputDynamicMode = True,
      bOutputDynamicMode = False, inFormat = QC_IMAGE_FORMAT_NV12,
      outFormat = QC_IMAGE_FORMAT_COMPRESSED_H265, bitRate = 64000, gop = 30, bSyncFrameSeqHdr = False,
      rateControlMode = VIDEO_ENCODER_RCM_CBR_CFR, profile = VIDEO_ENCODER_PROFILE_HEVC_MAIN\<rparr>"

definition demo_node :: "(vidc_drv_msg list \<times> codec_event list, codec_json) VideoEncoder" where
  "demo_node = codec_node ([], []) (CJ_Object [])"

definition demo_env :: "(vidc_drv_msg list, codec_json) node_env" where
  "demo_env = demo_env_of demo_codec"

lemma demo_configured:
  "case encoder_config (log_env demo_env) ''x'' True demo_node of None \<Rightarrow> False
   | Some (r, s) \<Rightarrow> r = QC_STATUS_OK \<and> cfg s = demo_cfg \<and> drv_world s = ([], []) \<and> m_inputMap s = [] \<and>
      m_outputMap s = [] \<and> m_inputBufferList s = [] \<and> m_outputBufferList s = [] \<and> m_pConfig s"
  by code_simp

text \<open>Opening the session and negotiating the buffers.\<close>

lemma demo_profile:
  assumes "cfg s = demo_cfg"
  obtains d where "SetVidcProfileLevel (profile (cfg s)) s = (QC_STATUS_OK, s\<lparr>m_vidcEncoderData := d\<rparr>)"
  by (rule that, simp add: assms SetVidcProfileLevel_def demo_cfg_def Let_def samplePerFrame_def
      s_profileLevelTables_def s_profileLevelHevcMainTable_def)

text \<open>What holds while the session is set up.\<close>

definition setting_up :: "(vidc_drv_msg list \<times> codec_event list, codec_json) VideoEncoder \<Rightarrow> bool" where
  "setting_up s \<longleftrightarrow>
     m_pIoHandle s = 8192 \<and> cfg s = demo_cfg \<and> fst (drv_world s) = [] \<and> m_encDecType s = VIDEO_ENC \<and>
     m_state s = QC_OBJECT_STATE_INITIALIZING \<and> m_inputMap s = [] \<and> m_outputMap s = [] \<and>
     m_inputBufferList s = [] \<and> m_outputBufferList s = []"

definition ok_setting_up where
  "ok_setting_up r \<longleftrightarrow> fst r = QC_STATUS_OK \<and> setting_up (snd r)"

lemma ok_setting_up_if_ok:
  "ok_setting_up r \<Longrightarrow> (\<And>s. setting_up s \<Longrightarrow> ok_setting_up (f s)) \<Longrightarrow> ok_setting_up (if_ok r f)"
  by (cases r) (simp add: ok_setting_up_def if_ok_def)

lemma ok_setting_up_else_error: "ok_setting_up r \<Longrightarrow> ok_setting_up (else_error r)"
  by (cases r) (simp add: ok_setting_up_def else_error_def)

lemma ok_setting_up_set:
  "setting_up s \<Longrightarrow> ok_setting_up (SetDrvProperty (log_os demo_codec) pkt s)"
  by (simp add: ok_setting_up_def setting_up_def property_demo)

lemma setting_up_data: "setting_up s \<Longrightarrow> setting_up (s\<lparr>m_vidcEncoderData := d\<rparr>)"
  by (simp add: setting_up_def)

lemma ok_setting_up_properties:
  "setting_up s \<Longrightarrow> ok_setting_up (VideoEncoder_InitDrvProperty (log_os demo_codec) s)"
  unfolding VideoEncoder_InitDrvProperty_def InitDriver_def Let_def
  by (intro ok_setting_up_if_ok ok_setting_up_set setting_up_data) (simp_all add: setting_up_def)

lemma ok_setting_up_information:
  "setting_up s \<Longrightarrow> ok_setting_up (GetInputInformation (log_os demo_codec) s)"
  by (simp add: setting_up_def GetInputInformation_def Let_def property_demo chain_simps
      get_plane_def_def demo_cfg_def cong: if_ok_cong) (simp add: ok_setting_up_def setting_up_def demo_cfg_def)

lemma ok_setting_up_open:
  assumes "cfg s = demo_cfg" "m_inputMap s = []" "m_outputMap s = []" "m_state s = QC_OBJECT_STATE_INITIALIZING"
    "m_inputBufferList s = []" "m_outputBufferList s = []"
  shows "ok_setting_up (open_driver (log_os demo_codec) VIDEO_ENC s)"
  using assms by (cases "drv_world s")
    (simp add: ok_setting_up_def setting_up_def open_driver_def OpenDriver_def Drv_Init_def log_os_def demo_codec_def)

lemma ok_setting_up_negotiate:
  assumes "setting_up s"
  shows "ok_setting_up (VidcNodeBase_NegotiateBufferReq (log_os demo_codec) ty s) \<and>
    m_bufSize (snd (VidcNodeBase_NegotiateBufferReq (log_os demo_codec) ty s)) ty = 64"
  using assms
  by (cases ty) (simp_all add: ok_setting_up_def setting_up_def property_demo VidcNodeBase_NegotiateBufferReq_def
      Drv_NegotiateBufferReq_def num_buffer_req_def Let_def demo_cfg_def)

lemma demo_open:
  assumes "cfg s = demo_cfg" "drv_world s = ([], [])" "m_pConfig s" "m_inputMap s = []" "m_outputMap s = []"
    "m_inputBufferList s = []" "m_outputBufferList s = []"
  shows "ok_setting_up (encoder_open (log_os demo_codec) s)"
    "m_bufSize (snd (encoder_open (log_os demo_codec) s)) VIDEO_CODEC_BUF_OUTPUT = 64"
proof -
  let ?start = "if_ok (if_ok (VideoEncoder_ValidateConfig s, s)
      (\<lambda>s. SetVidcProfileLevel (profile (cfg s)) (s\<lparr>m_state := QC_OBJECT_STATE_INITIALIZING\<rparr>)))
      (open_driver (log_os demo_codec) VIDEO_ENC)"
  have valid: "VideoEncoder_ValidateConfig s = QC_STATUS_OK"
    using assms
    by (simp add: VideoEncoder_ValidateConfig_def demo_cfg_def Let_def GetVidcFormat_def)
  obtain d where d: "SetVidcProfileLevel (profile (cfg s)) (s\<lparr>m_state := QC_OBJECT_STATE_INITIALIZING\<rparr>) =
      (QC_STATUS_OK, s\<lparr>m_state := QC_OBJECT_STATE_INITIALIZING, m_vidcEncoderData := d\<rparr>)"
    using demo_profile[of "s\<lparr>m_state := QC_OBJECT_STATE_INITIALIZING\<rparr>"] assms(1) by auto
  have start: "ok_setting_up ?start"
    unfolding valid chain_simps d by (rule ok_setting_up_open) (simp_all add: assms)
  let ?input = "else_error (if_ok (else_error (if_ok (if_ok ?start (VideoEncoder_InitDrvProperty (log_os demo_codec)))
      (GetInputInformation (log_os demo_codec)))) (VidcNodeBase_NegotiateBufferReq (log_os demo_codec) VIDEO_CODEC_BUF_INPUT))"
  have input: "ok_setting_up ?input"
    by (intro ok_setting_up_if_ok ok_setting_up_else_error start ok_setting_up_properties ok_setting_up_information
        conjunct1[OF ok_setting_up_negotiate])
  then obtain s1 where s1: "?input = (QC_STATUS_OK, s1)" "setting_up s1"
    by (cases ?input) (simp add: ok_setting_up_def)
  have "encoder_open (log_os demo_codec) s =
      else_error (VidcNodeBase_NegotiateBufferReq (log_os demo_codec) VIDEO_CODEC_BUF_OUTPUT s1)"
    unfolding encoder_open_def s1(1) by (simp add: chain_simps)
  with ok_setting_up_negotiate[OF s1(2), of VIDEO_CODEC_BUF_OUTPUT]
  show "ok_setting_up (encoder_open (log_os demo_codec) s)"
    "m_bufSize (snd (encoder_open (log_os demo_codec) s)) VIDEO_CODEC_BUF_OUTPUT = 64"
    by (auto simp: ok_setting_up_else_error) (auto simp: else_error_def ok_setting_up_def split: prod.splits)
qed

text \<open>Giving the driver the output buffers.\<close>

definition demo_map :: "(u64 \<times> VideoCodec_Info) list" where
  "demo_map = map (\<lambda>d. (dmaHandle d, info_of (log_os demo_codec) d False)) demo_outputs"

text \<open>What holds once the buffers are registered.\<close>

definition registered ::
  "QCObjectState_e \<Rightarrow> (vidc_drv_msg list \<times> codec_event list, codec_json) VideoEncoder \<Rightarrow> bool" where
  "registered st s \<longleftrightarrow>
     m_pIoHandle s = 8192 \<and> cfg s = demo_cfg \<and> fst (drv_world s) = [] \<and> m_encDecType s = VIDEO_ENC \<and>
     m_state s = st \<and> m_outputMap s = demo_map \<and> \<not> m_bOutputDynamicMode s \<and>
     m_inputBufferList s = [] \<and> m_outputBufferList s = demo_outputs"

lemma demo_take_outputs:
  assumes "setting_up s" "m_bufSize s VIDEO_CODEC_BUF_OUTPUT = 64"
  shows "take_buffers (\<lambda>d. VideoEncoder_CheckBuffer d VIDEO_CODEC_BUF_OUTPUT) demo_outputs 0
      VIDEO_CODEC_BUF_OUTPUT s = Some (QC_STATUS_OK, s\<lparr>m_outputBufferList := demo_outputs\<rparr>)"
  using assms
  by (simp add: take_buffers_def AllocateBuffer_def InitBufferForNonDynamicMode_def setting_up_def Let_def
      dynamic_mode_def num_buffer_req_def buffer_list_def demo_cfg_def demo_outputs_def
      demo_video_buffer_def VideoEncoder_CheckBuffer_def ValidateBuffer_def chain_simps)

lemma demo_take_inputs:
  assumes "setting_up s"
  shows "take_buffers (\<lambda>d. VideoEncoder_CheckBuffer d VIDEO_CODEC_BUF_INPUT) bufs 0
      VIDEO_CODEC_BUF_INPUT s = Some (QC_STATUS_OK, s)"
  using assms by (simp add: take_buffers_def AllocateBuffer_def setting_up_def dynamic_mode_def
      buffer_list_def demo_cfg_def chain_simps)

text \<open>What registering the buffers needs.\<close>

definition taken :: "(vidc_drv_msg list \<times> codec_event list, codec_json) VideoEncoder \<Rightarrow> bool" where
  "taken s \<longleftrightarrow>
     m_pIoHandle s = 8192 \<and> cfg s = demo_cfg \<and> fst (drv_world s) = [] \<and> m_encDecType s = VIDEO_ENC \<and>
     m_state s = QC_OBJECT_STATE_INITIALIZING \<and> m_outputMap s = [] \<and> m_inputBufferList s = [] \<and>
     m_outputBufferList s = demo_outputs"

lemma demo_set_input:
  assumes "taken s"
  shows "\<exists>s1. VidcNodeBase_SetBuffer (log_os demo_codec) VIDEO_CODEC_BUF_INPUT s = (QC_STATUS_OK, s1) \<and> taken s1"
  using assms by (simp add: taken_def VidcNodeBase_SetBuffer_def SetDynamicMode_def dynamic_mode_def
      Let_def property_demo chain_simps demo_cfg_def)

lemma demo_set_output:
  assumes "taken s"
  shows "\<exists>s1. VidcNodeBase_SetBuffer (log_os demo_codec) VIDEO_CODEC_BUF_OUTPUT s = (QC_STATUS_OK, s1) \<and>
    registered QC_OBJECT_STATE_INITIALIZING s1"
  using assms by (simp add: taken_def VidcNodeBase_SetBuffer_def SetDynamicMode_def dynamic_mode_def
      Let_def property_demo ioctl_demo chain_simps demo_cfg_def buffer_list_def demo_outputs_def registered_def
      demo_map_def demo_video_buffer_def)

lemma demo_buffers:
  assumes "setting_up s" "m_bufSize s VIDEO_CODEC_BUF_OUTPUT = 64"
  shows "\<exists>s1. encoder_buffers (log_os demo_codec) demo_outputs s = Some (QC_STATUS_OK, s1) \<and>
    registered QC_OBJECT_STATE_INITIALIZING s1"
proof -
  have 0: "output_index (cfg s) = 0"
    using assms by (simp add: output_index_def setting_up_def demo_cfg_def)
  have "taken (s\<lparr>m_outputBufferList := demo_outputs\<rparr>)"
    using assms by (simp add: taken_def setting_up_def)
  from demo_set_input[OF this] obtain s1 where
    1: "VidcNodeBase_SetBuffer (log_os demo_codec) VIDEO_CODEC_BUF_INPUT (s\<lparr>m_outputBufferList := demo_outputs\<rparr>) =
      (QC_STATUS_OK, s1)" "taken s1" by blast
  show ?thesis
    unfolding encoder_buffers_def demo_take_inputs[OF assms(1)] chain_simps 0 demo_take_outputs[OF assms] 1(1)
    using demo_set_output[OF 1(2)] by auto
qed

text \<open>Loading the resources.\<close>

lemma demo_sleep_run:
  "sleep (log_os demo_codec) cb s =
     deliver (log_os demo_codec) cb (fst (drv_world s))
       (s\<lparr>drv_world := ([], hist s @ map Got (fst (drv_world s)))\<rparr>)"
  by (cases "drv_world s") (simp add: sleep_def log_os_def demo_codec_def)

lemma deliver_simps:
  "deliver os cb [] s = s" "deliver os cb (msg # msgs) s = deliver os cb msgs (snd (DeviceCbHandler os cb msg s))"
  by (simp_all add: deliver_def)

lemma wait_once:
  assumes "\<not> done' s" "done' (slp s)" "1 \<le> t"
  shows "wait_loop slp done' t 0 s = (QC_STATUS_OK, slp s)"
  using assms by (subst wait_loop.simps, subst wait_loop.simps) (auto simp: Let_def)

lemma wait_none: "done' s \<Longrightarrow> wait_loop slp done' t c s = (QC_STATUS_OK, s)"
  by (subst wait_loop.simps) simp

lemma notify_event_demo:
  "registered st (notify_event os e msg s) = registered st s"
  "m_cmdCompleted (notify_event os e msg s) = m_cmdCompleted s"
  by (simp_all add: registered_def notify_event_def notify_def)

lemma demo_handler:
  assumes "(ev, cmd, st, st') \<in>
    {(VIDC_EVT_RESP_LOAD_RESOURCES, VIDEO_CODEC_COMMAND_LOAD_RESOURCE, QC_OBJECT_STATE_INITIALIZING, QC_OBJECT_STATE_READY),
     (VIDC_EVT_RESP_START, VIDEO_CODEC_COMMAND_START_ALL, QC_OBJECT_STATE_STARTING, QC_OBJECT_STATE_RUNNING)}"
    and "registered st s"
  shows "registered st' (snd (DeviceCbHandler (log_os demo_codec) (enc_callbacks (log_os demo_codec)) (demo_msg ev demo_frame_data) s)) \<and>
    m_cmdCompleted (snd (DeviceCbHandler (log_os demo_codec) (enc_callbacks (log_os demo_codec)) (demo_msg ev demo_frame_data) s)) = cmd"
  using assms
  by (auto simp: DeviceCbHandler_def demo_msg_def enc_callbacks_def VideoEncoder_EventCallback_def
      notify_event_demo VidcNodeBase_EventCallback_def Let_def log_os_def demo_codec_def)
    (simp_all add: registered_def)

text \<open>A command the driver answers at once.\<close>

lemma demo_command:
  assumes "(ev, cmd, st, st') \<in>
    {(VIDC_EVT_RESP_LOAD_RESOURCES, VIDEO_CODEC_COMMAND_LOAD_RESOURCE, QC_OBJECT_STATE_INITIALIZING, QC_OBJECT_STATE_READY),
     (VIDC_EVT_RESP_START, VIDEO_CODEC_COMMAND_START_ALL, QC_OBJECT_STATE_STARTING, QC_OBJECT_STATE_RUNNING)}"
    and "registered st s" "demo_answer req = [demo_msg ev demo_frame_data]" "1 \<le> t"
  shows "\<exists>s1. command (log_os demo_codec) (enc_callbacks (log_os demo_codec)) req cmd t s = (QC_STATUS_OK, s1) \<and>
    registered st' s1"
proof -
  let ?os = "log_os demo_codec" and ?s = "InitCmdCompleted s"
  let ?w = "(fst (drv_world ?s) @ demo_answer req, hist ?s @ [Sent req])"
  let ?s1 = "?s\<lparr>drv_world := ?w\<rparr>"
  let ?s2 = "sleep ?os (enc_callbacks ?os) ?s1"
  have reg: "registered st (?s\<lparr>drv_world := ([], H)\<rparr>)" for H
    using assms(2) by (simp add: registered_def InitCmdCompleted_def)
  have "?s2 = snd (DeviceCbHandler ?os (enc_callbacks ?os) (demo_msg ev demo_frame_data)
      (?s\<lparr>drv_world := ([], hist ?s1 @ [Got (demo_msg ev demo_frame_data)])\<rparr>))"
    using assms(2,3) by (simp add: demo_sleep_run deliver_simps registered_def InitCmdCompleted_def)
  with demo_handler[OF assms(1) reg] have 2: "registered st' ?s2" "m_cmdCompleted ?s2 = cmd" by simp_all
  have "command ?os (enc_callbacks ?os) req cmd t s = (QC_STATUS_OK, ?s2)"
    using assms(1,2,4) 2(2)
    by (auto simp: command_def ioctl_demo WaitForCmdCompleted_def registered_def InitCmdCompleted_def wait_once)
  with 2(1) show ?thesis by simp
qed

subsection \<open>The run\<close>

lemma demo_initialize:
  "\<exists>s1. VideoEncoder_Initialize (log_env demo_env) ''x'' True demo_outputs demo_node = Some (QC_STATUS_OK, s1) \<and>
     registered QC_OBJECT_STATE_READY s1"
proof -
  let ?os = "log_os demo_codec"
  have os: "env_os demo_env = demo_codec" by (simp add: demo_env_def demo_env_of_def)
  obtain s0 where c: "encoder_config (log_env demo_env) ''x'' True demo_node = Some (QC_STATUS_OK, s0)"
    and s0: "cfg s0 = demo_cfg" "drv_world s0 = ([], [])" "m_pConfig s0" "m_inputMap s0 = []" "m_outputMap s0 = []"
    "m_inputBufferList s0 = []" "m_outputBufferList s0 = []"
    using demo_configured by (auto split: option.splits prod.splits)
  obtain s1 where o1: "encoder_open ?os s0 = (QC_STATUS_OK, s1)" "setting_up s1" "m_bufSize s1 VIDEO_CODEC_BUF_OUTPUT = 64"
    using demo_open[OF s0] by (cases "encoder_open ?os s0") (auto simp: ok_setting_up_def)
  obtain s2 where o2: "encoder_buffers ?os demo_outputs s1 = Some (QC_STATUS_OK, s2)"
    "registered QC_OBJECT_STATE_INITIALIZING s2" using demo_buffers[OF o1(2,3)] by blast
  obtain s3 where o3: "LoadResources ?os (enc_callbacks ?os) s2 = (QC_STATUS_OK, s3)" "registered QC_OBJECT_STATE_READY s3"
    using demo_command[OF _ o2(2), of VIDC_EVT_RESP_LOAD_RESOURCES VIDEO_CODEC_COMMAND_LOAD_RESOURCE QC_OBJECT_STATE_READY
        VIDC_IOCTL_LOAD_RESOURCES WAIT_TIMEOUT_10_MSEC]
    by (auto simp: LoadResources_def WAIT_TIMEOUT_10_MSEC_def)
  have "WaitForState ?os (enc_callbacks ?os) QC_OBJECT_STATE_READY s3 = (QC_STATUS_OK, s3)"
    using o3(2) by (simp add: WaitForState_def wait_none registered_def)
  then have o4: "PostInit ?os (enc_callbacks ?os) s2 = (QC_STATUS_OK, s3)"
    by (simp add: PostInit_def o3(1) chain_simps)
  have "ValidateBuffers s3 = QC_STATUS_OK"
    using o3(2) by (simp add: ValidateBuffers_def registered_def demo_cfg_def demo_outputs_def)
  then have "VideoEncoder_Initialize (log_env demo_env) ''x'' True demo_outputs demo_node = Some (QC_STATUS_OK, s3)"
    by (simp add: VideoEncoder_Initialize_def Let_def c os chain_simps o1(1) o2(1) o4)
  with o3(2) show ?thesis by blast
qed

lemma demo_start:
  assumes "registered QC_OBJECT_STATE_READY s"
  shows "\<exists>s1. VidcNodeBase_Start (log_os demo_codec) (enc_callbacks (log_os demo_codec)) s = (QC_STATUS_OK, s1) \<and>
     registered QC_OBJECT_STATE_RUNNING s1"
proof -
  let ?os = "log_os demo_codec" and ?s = "s\<lparr>m_state := QC_OBJECT_STATE_STARTING\<rparr>"
  have "registered QC_OBJECT_STATE_STARTING ?s" using assms by (simp add: registered_def)
  from demo_command[OF _ this, of VIDC_EVT_RESP_START VIDEO_CODEC_COMMAND_START_ALL QC_OBJECT_STATE_RUNNING
      "VIDC_IOCTL_START None" WAIT_TIMEOUT_10_MSEC]
  obtain s1 where s1: "StartDriver ?os (enc_callbacks ?os) VIDEO_CODEC_START_ALL ?s = (QC_STATUS_OK, s1)"
    "registered QC_OBJECT_STATE_RUNNING s1"
    by (auto simp: StartDriver_def WAIT_TIMEOUT_10_MSEC_def)
  have "WaitForState ?os (enc_callbacks ?os) QC_OBJECT_STATE_RUNNING s1 = (QC_STATUS_OK, s1)"
    using s1(2) by (simp add: WaitForState_def wait_none registered_def)
  then show ?thesis
    using assms s1 by (simp add: VidcNodeBase_Start_def Let_def registered_def)
qed

lemma demo_submit:
  assumes "registered QC_OBJECT_STATE_RUNNING s"
  shows "\<exists>s1. submit_outputs (log_os demo_codec) demo_outputs (QC_STATUS_OK, s) = (QC_STATUS_OK, s1) \<and>
    hist s1 = hist s @ map (\<lambda>d. Sent (VIDC_IOCTL_FILL_OUTPUT_BUFFER (output_frame_data d))) demo_outputs"
  using assms
  by (simp add: demo_outputs_def FillBuffer_def reserve_output_def registered_def demo_map_def Let_def
      chain_simps ioctl_demo ValidateBuffer_def demo_video_buffer_def demo_cfg_def update_conv' info_of_def)

text \<open>Witnesses of the two properties of a run: the encoder gets READY, and then RUNNING with the four output
  buffers at the driver.\<close>

lemma encoder_lifecycle_witness:
  "\<exists>s. encoder_run (log_env demo_env) (Op_Initialize ''x'' True demo_outputs) demo_node = Some (QC_STATUS_OK, s) \<and>
     m_state s \<in> lifecycle (Op_Initialize ''x'' True demo_outputs) True QC_OBJECT_STATE_INITIAL"
proof -
  obtain s where s: "encoder_run (log_env demo_env) (Op_Initialize ''x'' True demo_outputs) demo_node = Some (QC_STATUS_OK, s)"
    using demo_initialize by auto
  have "m_state demo_node = QC_OBJECT_STATE_INITIAL" by (simp add: demo_node_def codec_node_def)
  with encoder_lifecycle[OF s] have "m_state s \<in> lifecycle (Op_Initialize ''x'' True demo_outputs) True QC_OBJECT_STATE_INITIAL"
    by simp
  with s show ?thesis by blast
qed

lemma held_append: "held os dir (H @ xs) = fold (held_step os dir) xs (held os dir H)"
  by (simp add: held_def)

lemma encoder_never_resubmits_witness:
  "\<exists>s. encoder_reachable demo_env s \<and> m_state s = QC_OBJECT_STATE_RUNNING \<and>
     held demo_codec VIDEO_CODEC_BUF_OUTPUT (hist s) = {100, 101, 102, 103} \<and>
     {100, 101, 102, 103} \<subseteq> in_use s VIDEO_CODEC_BUF_OUTPUT \<and>
     no_resubmit demo_codec VIDEO_CODEC_BUF_OUTPUT (hist s)"
proof -
  let ?os = "log_os demo_codec"
  have os: "env_os demo_env = demo_codec" by (simp add: demo_env_def demo_env_of_def)
  have fresh: "m_state demo_node = QC_OBJECT_STATE_INITIAL" "m_pIoHandle demo_node = nullptr" "hist demo_node = []"
    by (simp_all add: demo_node_def codec_node_def)
  then have idle: "idle demo_codec demo_node" by (simp add: idle_def)
  obtain s1 where s1: "VideoEncoder_Initialize (log_env demo_env) ''x'' True demo_outputs demo_node = Some (QC_STATUS_OK, s1)"
    "registered QC_OBJECT_STATE_READY s1" using demo_initialize by blast
  obtain s2 where s2: "VidcNodeBase_Start ?os (enc_callbacks ?os) s1 = (QC_STATUS_OK, s2)"
    "registered QC_OBJECT_STATE_RUNNING s2" using demo_start[OF s1(2)] by blast
  obtain s3 where s3: "submit_outputs ?os demo_outputs (QC_STATUS_OK, s2) = (QC_STATUS_OK, s3)"
    "hist s3 = hist s2 @ map (\<lambda>d. Sent (VIDC_IOCTL_FILL_OUTPUT_BUFFER (output_frame_data d))) demo_outputs"
    using demo_submit[OF s2(2)] by blast
  have "idle demo_codec s1" by (rule quiet.P_Initialize[OF idle os s1(1)])
  from quiet.P_Start[OF this] s2(1) have "idle demo_codec s2" by simp
  then have held: "held demo_codec VIDEO_CODEC_BUF_OUTPUT (hist s3) = {100, 101, 102, 103}"
    unfolding s3(2) held_append
    by (auto simp: idle_def demo_outputs_def output_frame_data_def demo_video_buffer_def)
  have run: "encoder_run (log_env demo_env) Op_Start s1 = Some (QC_STATUS_OK, s3)"
    using s2 s3(1) by (simp add: VideoEncoder_Start_def os chain_simps registered_def)
  have init: "encoder_run (log_env demo_env) (Op_Initialize ''x'' True demo_outputs) demo_node = Some (QC_STATUS_OK, s1)"
    using s1(1) by simp
  have reach: "encoder_reachable demo_env s3"
    by (rule operation[OF operation[OF constructed[OF fresh] init] run])
  have state: "m_state s3 = QC_OBJECT_STATE_RUNNING"
    using submit_outputs_keeps[of ?os demo_outputs "(QC_STATUS_OK, s2)"] s3(1) s2(2) by (simp add: registered_def)
  show ?thesis
    using encoder_never_resubmits[OF reach, of VIDEO_CODEC_BUF_OUTPUT] held reach state unfolding os by auto
qed

end
