(* ===== verification/QC_CameraImpl.thy ===== *)
theory QC_CameraImpl
  imports QC_NodeBase QC_Dma
begin

text \<open>
  The camera session: \<^verbatim>\<open>source/Node/Camera/CameraImpl.cpp\<close>. It opens a session of the QCarCam camera
  library, gives it the buffers of the application (or takes over those of another process), sends
  it requests for frames, and passes the frames to the application.

  The QCarCam library is a parameter, the record \<open>qcarcam\<close>; each call says whether it returned
  \<^verbatim>\<open>QCARCAM_RET_OK\<close>. Its state and the operating system's, \<open>'w\<close>, are the field \<open>cam_world\<close> of the
  session. The static variables of the file, which all sessions share, are a state of their own. What
  an array holds before it is written is given by the \<open>uninit_\<close> fields. A pointer to an array is an
  optional list. A definition returns \<open>None\<close> where the code would index an array outside its bounds,
  use a null pointer, divide by zero or throw.

  Handling an event of the library is an operation of its own, which may happen between any two
  others. What the session tells the application is the list \<open>app_events\<close>, oldest first.
\<close>

subsection \<open>The interface of QCarCam\<close>

datatype QCarCamColorFmt_e =
    QCARCAM_FMT_RGB_888
  | QCARCAM_FMT_BGR_888
  | QCARCAM_FMT_UYVY_8
  | QCARCAM_FMT_NV12
  | QCARCAM_FMT_UBWC_NV12
  | QCARCAM_FMT_P010
  | QCARCAM_FMT_UBWC_TP10
  | QCARCAM_FMT_MAX

record QCarCamInput =
  in_inputId :: u32
  in_numModes :: u32

record QCarCamInputModes =
  im_numModes :: u32
  im_pModes :: bool

record QCarCamOpen_t =
  op_opMode :: u32
  op_clientId :: u32
  op_inputId :: u32
  op_srcId :: u32
  op_inputMode :: u32
  op_recovery :: bool
  op_requestMode :: bool
  op_multiClient :: bool

datatype qcarcam_event_flag =
    FLAG_INPUT_SIGNAL | FLAG_ERROR | FLAG_MC_NOTIFY | FLAG_MULTI_STREAM_FRAME_READY | FLAG_FRAME_READY

datatype qcarcam_param =
    PARAM_EVENT_MASK "qcarcam_event_flag list"
  | PARAM_ISP_USECASE u32 u32 u32
  | PARAM_FRAME_DROP_CONTROL u8 u32

record QCarCamPlane =
  pl_memHndl :: u64
  pl_width :: u32
  pl_height :: u32
  pl_stride :: u32
  pl_size :: u32
  pl_offset :: u32

record QCarCamBuffer =
  q_numPlanes :: u32
  q_planes :: "QCarCamPlane list"

record QCarCamBufferList =
  bl_id :: u32
  bl_nBuffers :: u32
  bl_colorFmt :: QCarCamColorFmt_e
  bl_osHndl :: bool
  bl_pBuffers :: "QCarCamBuffer list"

record QCarCamStreamRequest =
  sr_bufferlistId :: u32
  sr_bufferIdx :: u32
  sr_metaBufferlistId :: u32
  sr_metaBufferId :: u32

type_synonym buffer_request = "u32 \<times> u32"

record QCarCamRequest =
  rq_requestId :: u32
  rq_numStreamRequests :: u32
  rq_streamRequests :: "QCarCamStreamRequest list"
  rq_syncId :: u32
  rq_flags :: u32
  rq_inputBuffer :: buffer_request
  rq_inputCommonMetadata :: buffer_request
  rq_inputMetadata :: "buffer_request list"
  rq_outputMetadata :: "buffer_request list"

record QCarCamFrameInfo =
  fi_id :: u32
  fi_bufferIndex :: u32
  fi_timestamp :: u64
  fi_timestampGPTP :: u64
  fi_flags :: u32

text \<open>An event with its payload, for the code only looks at the part that belongs to the event; \<^verbatim>\<open>INPUT_SIGNAL\<close>
  and the unknown events are only logged.\<close>

datatype qcarcam_event =
    EVENT_FRAME_READY QCarCamFrameInfo
  | EVENT_MULTI_STREAM_FRAME_READY u64 u64 "(u32 \<times> u32 \<times> u32) list"
  | EVENT_INPUT_SIGNAL
  | EVENT_MC_NOTIFY
  | EVENT_ERROR
  | EVENT_OTHER

record 'w qcarcam =
  QCarCamInitialize :: "'w \<Rightarrow> bool \<times> 'w"
  QCarCamUninitialize :: "'w \<Rightarrow> bool \<times> 'w"
  QCarCamCountInputs :: "'w \<Rightarrow> (bool \<times> u32 option) \<times> 'w"
  QCarCamQueryInputs :: "u32 \<Rightarrow> 'w \<Rightarrow> (bool \<times> QCarCamInput list \<times> u32) \<times> 'w"
  QCarCamQueryInputModes :: "u32 \<Rightarrow> u32 \<Rightarrow> 'w \<Rightarrow> (bool \<times> u32) \<times> 'w"
  QCarCamOpen :: "QCarCamOpen_t \<Rightarrow> 'w \<Rightarrow> (bool \<times> u64 option) \<times> 'w"
  QCarCamClose :: "u64 \<Rightarrow> 'w \<Rightarrow> bool \<times> 'w"
  QCarCamRegisterEventCallback :: "u64 \<Rightarrow> 'w \<Rightarrow> bool \<times> 'w"
  QCarCamSetParam :: "u64 \<Rightarrow> qcarcam_param \<Rightarrow> 'w \<Rightarrow> bool \<times> 'w"
  QCarCamReserve :: "u64 \<Rightarrow> 'w \<Rightarrow> bool \<times> 'w"
  QCarCamRelease :: "u64 \<Rightarrow> 'w \<Rightarrow> bool \<times> 'w"
  QCarCamStart :: "u64 \<Rightarrow> 'w \<Rightarrow> bool \<times> 'w"
  QCarCamStop :: "u64 \<Rightarrow> 'w \<Rightarrow> bool \<times> 'w"
  QCarCamSetBuffers :: "u64 \<Rightarrow> QCarCamBufferList \<Rightarrow> 'w \<Rightarrow> bool \<times> 'w"
  QCarCamGetBuffers :: "u64 \<Rightarrow> QCarCamBufferList \<Rightarrow> 'w \<Rightarrow> (bool \<times> QCarCamBufferList) \<times> 'w"
  QCarCamSubmitRequest :: "u64 \<Rightarrow> QCarCamRequest \<Rightarrow> 'w \<Rightarrow> bool \<times> 'w"
  QCarCamGetFrame :: "u64 \<Rightarrow> u32 \<Rightarrow> 'w \<Rightarrow> (bool \<times> QCarCamFrameInfo) \<times> 'w"
  QCarCamReleaseFrame :: "u64 \<Rightarrow> u32 \<Rightarrow> u32 \<Rightarrow> 'w \<Rightarrow> bool \<times> 'w"
  QCARCAM_HNDL_INVALID :: u64
  QCARCAM_MAX_NUM_PLANES :: u32
  sizeof_event_payload :: u64
  sleep_100ms :: "'w \<Rightarrow> 'w"
  uninit_buffer :: QCarCamBuffer
  uninit_frame :: CameraFrameDescriptor

subsection \<open>State\<close>

abbreviation (input) QCNODE_CAMERA_MAX_INPUT_STREAM_NUM :: nat where
  "QCNODE_CAMERA_MAX_INPUT_STREAM_NUM \<equiv> 4"
abbreviation (input) QCNODE_CAMERA_MAX_STREAM_NUM :: nat where "QCNODE_CAMERA_MAX_STREAM_NUM \<equiv> 32"
abbreviation (input) QCNODE_CAMERA_MAX_BUFFER_NUM :: nat where "QCNODE_CAMERA_MAX_BUFFER_NUM \<equiv> 20"
abbreviation (input) MAX_QUERY_TIMES :: nat where "MAX_QUERY_TIMES \<equiv> 20"

record CameraStreamConfig =
  sc_streamId :: u32
  sc_width :: u32
  sc_height :: u32
  sc_submitRequestPattern :: u32
  sc_format :: QCImageFormat_e
  sc_bufferIds :: "u32 list"

record CameraMetaDataConfig =
  mc_bufferListId :: u32
  mc_bufferIds :: "u32 list"

record CameraImplConfig =
  cc_nodeId :: QCNodeID
  cc_inputId :: u32
  cc_srcId :: u32
  cc_clientId :: u32
  cc_inputMode :: u32
  cc_ispUseCase :: u32
  cc_camFrameDropPattern :: u32
  cc_camFrameDropPeriod :: u8
  cc_opMode :: u32
  cc_bRequestMode :: bool
  cc_bPrimary :: bool
  cc_bRecovery :: bool
  cc_bEnalbleMetaData :: bool
  cc_bMultiStreamFrameReady :: bool
  cc_streamConfigs :: "CameraStreamConfig list"
  cc_metaDataConfigs :: "CameraMetaDataConfig list"

text \<open>The two structures of buffers, of frames and of metadata, differ only in the descriptors. The
  pointer \<^verbatim>\<open>bufferList.pBuffers\<close> always equals \<^verbatim>\<open>pQcarCamFrameBuffers\<close> and is not kept twice.\<close>

record 'd CameraBuffers =
  fb_descs :: "'d list option"
  fb_qcarcam :: "QCarCamBuffer list option"
  fb_id :: u32
  fb_nBuffers :: u32
  fb_colorFmt :: QCarCamColorFmt_e
  fb_osHndl :: bool

type_synonym CameraFrameBuffers = "CameraFrameDescriptor CameraBuffers"
type_synonym CameraMetaDataBuffers = "BufferDescriptor CameraBuffers"

record camera_static =
  g_nCamInitRefCount :: int
  s_pCameraInputs :: "QCarCamInput list option"
  s_pCamInputModes :: "QCarCamInputModes list option"
  s_numInputs :: u32

text \<open>Of the two maps from handles to buffers the code only uses the keys.\<close>

record 'w CameraImpl =
  cam_world :: 'w
  cam_nodeId :: QCNodeID
  m_config :: CameraImplConfig
  m_state :: QCObjectState_e
  m_bRequestMode :: bool
  m_bIsPrimary :: bool
  m_enableMetaData :: bool
  m_bRecovery :: bool
  m_bRequestPatternMode :: bool
  m_streamNum :: nat
  m_metaDataNum :: nat
  m_maxBufCnt :: nat
  m_inputId :: u32
  m_requestId :: u32
  m_clientId :: u32
  m_refStreamId :: u32
  m_submitRequestPattern :: "u32 list"
  m_frameId :: "u64 list"
  m_freeBufIdxQueue :: "u32 list list"
  m_streamConfigs :: "CameraStreamConfig list"
  m_frameBuffers :: "CameraFrameBuffers list"
  m_metaDataBuffers :: "CameraMetaDataBuffers list"
  m_frameBufferMap :: "u64 list"
  m_metaDataBufferMap :: "u64 list"
  m_QcarCamHndl :: u64
  m_callback :: bool
  app_events :: "app_event list"

type_synonym ('w, 'a) camera = "('w, 'a) CameraImpl_scheme"

text \<open>A call of the library, and a call after which the code goes on only when it succeeded.\<close>

definition on_world :: "('w \<Rightarrow> 'r \<times> 'w) \<Rightarrow> ('w, 'a) camera \<Rightarrow> 'r \<times> ('w, 'a) camera" where
  "on_world f s = (case f (cam_world s) of (r, w) \<Rightarrow> (r, s\<lparr>cam_world := w\<rparr>))"

definition cam_call :: "('w \<Rightarrow> bool \<times> 'w) \<Rightarrow> ('w, 'a) camera \<Rightarrow> QCStatus_e \<times> ('w, 'a) camera" where
  "cam_call f s =
     (case on_world f s of (ok, s1) \<Rightarrow> (if ok then QC_STATUS_OK else QC_STATUS_FAIL, s1))"

subsection \<open>Cameras of the system\<close>

definition FreeCameraInputsInfo :: "camera_static \<Rightarrow> camera_static option" where
  "FreeCameraInputsInfo st =
     (case s_pCamInputModes st of
        Some modes \<Rightarrow>
          if length modes < unat (s_numInputs st) then None
          else Some (st\<lparr>s_pCameraInputs := None, s_pCamInputModes := None, s_numInputs := 0\<rparr>)
      | None \<Rightarrow> Some (st\<lparr>s_pCameraInputs := None, s_numInputs := 0\<rparr>))"

text \<open>The polling loop: its argument is how many more times it may ask.\<close>

primrec count_inputs :: "'w qcarcam \<Rightarrow> nat \<Rightarrow> u32 \<Rightarrow> 'w \<Rightarrow> u32 \<times> 'w" where
  "count_inputs Q 0 inputCount w = (inputCount, w)"
| "count_inputs Q (Suc k) inputCount w =
     (case QCarCamCountInputs Q w of
        ((ok, written), w1) \<Rightarrow>
          let n = (case written of None \<Rightarrow> inputCount | Some c \<Rightarrow> c)
          in if ok \<and> n \<noteq> 0 then (n, w1)
             else let w2 = sleep_100ms Q w1
                  in if n = 0 then count_inputs Q k n w2 else (n, w2))"

text \<open>The modes of each input. The log line after a successful query reads the first mode. The rest
  of the array is zero after a failure.\<close>

fun query_modes ::
  "'w qcarcam \<Rightarrow> QCarCamInput list \<Rightarrow> 'w \<Rightarrow> ((QCStatus_e \<times> QCarCamInputModes list) \<times> 'w) option" where
  "query_modes Q [] w = Some ((QC_STATUS_OK, []), w)"
| "query_modes Q (inp # rest) w =
     (case QCarCamQueryInputModes Q (in_inputId inp) (in_numModes inp) w of
        ((ok, n), w1) \<Rightarrow>
          if \<not> ok then
            Some ((QC_STATUS_FAIL,
                   \<lparr>im_numModes = n, im_pModes = True\<rparr> #
                     replicate (length rest) \<lparr>im_numModes = 0, im_pModes = False\<rparr>), w1)
          else if in_numModes inp = 0 then None
          else
            (case query_modes Q rest w1 of
               None \<Rightarrow> None
             | Some ((ret, modes), w2) \<Rightarrow>
                 Some ((ret, \<lparr>im_numModes = n, im_pModes = True\<rparr> # modes), w2)))"

definition QueryInputs ::
  "'w qcarcam \<Rightarrow> camera_static \<Rightarrow> 'w \<Rightarrow> ((QCStatus_e \<times> camera_static) \<times> 'w) option" where
  "QueryInputs Q st w =
     (let st0 = st\<lparr>s_numInputs := 0\<rparr>;
          (inputCount, w1) = count_inputs Q MAX_QUERY_TIMES 0 w
      in if inputCount = 0 then Some ((QC_STATUS_FAIL, st0), w1)
         else
           let ((ok, inputs, n), w2) = QCarCamQueryInputs Q inputCount w1;
               zero = replicate (unat inputCount) \<lparr>im_numModes = 0, im_pModes = False\<rparr>;
               r = (if \<not> ok \<or> n \<noteq> inputCount then Some ((QC_STATUS_FAIL, zero), w2)
                    else query_modes Q inputs w2)
           in (case r of
                 None \<Rightarrow> None
               | Some ((ret, modes), w3) \<Rightarrow>
                   let st1 = st0\<lparr>s_pCameraInputs := Some inputs, s_pCamInputModes := Some modes,
                                 s_numInputs := n\<rparr>
                   in if ret = QC_STATUS_OK then Some ((ret, st1), w3)
                      else map_option (\<lambda>st2. ((ret, st2), w3)) (FreeCameraInputsInfo st1)))"

text \<open>What the constructor and the destructor do to the library, whose life spans all sessions: the
  first result of opening says whether the library could be initialised.\<close>

definition open_library :: "'w qcarcam \<Rightarrow> camera_static \<Rightarrow> 'w \<Rightarrow> ((bool \<times> camera_static) \<times> 'w) option" where
  "open_library Q st w =
     (if g_nCamInitRefCount st = 0 then
        let (ok, w1) = QCarCamInitialize Q w
        in if \<not> ok then Some ((False, st), w1)
           else
             map_option (\<lambda>((ret, st1), w2). ((True, st1), w2))
               (QueryInputs Q (st\<lparr>g_nCamInitRefCount := g_nCamInitRefCount st + 1\<rparr>) w1)
      else Some ((True, st\<lparr>g_nCamInitRefCount := g_nCamInitRefCount st + 1\<rparr>), w))"

definition close_library :: "'w qcarcam \<Rightarrow> camera_static \<Rightarrow> 'w \<Rightarrow> (camera_static \<times> 'w) option" where
  "close_library Q st w =
     (if 0 < g_nCamInitRefCount st then
        let st1 = st\<lparr>g_nCamInitRefCount := g_nCamInitRefCount st - 1\<rparr>
        in if g_nCamInitRefCount st1 = 0 then
             let (ok, w1) = QCarCamUninitialize Q w
             in map_option (\<lambda>st2. (st2, w1)) (FreeCameraInputsInfo st1)
           else Some (st1, w)
      else Some (st, w))"

text \<open>The members without an initialiser hold what they held before: \<open>u\<close> is the storage of the object.\<close>

definition CameraImpl_new ::
  "'w qcarcam \<Rightarrow> QCNodeID \<Rightarrow> camera_static \<Rightarrow> ('w, 'a) camera \<Rightarrow> (('w, 'a) camera \<times> camera_static) option" where
  "CameraImpl_new Q nodeId st u =
     map_option (\<lambda>((ok, st1), w).
       (u\<lparr>cam_world := w, cam_nodeId := nodeId,
          m_config := (m_config u)\<lparr>cc_streamConfigs := [], cc_metaDataConfigs := []\<rparr>,
          m_state := (if ok then QC_OBJECT_STATE_INITIAL else QC_OBJECT_STATE_ERROR),
          m_bRequestPatternMode := False, m_refStreamId := of_nat QCNODE_CAMERA_MAX_STREAM_NUM,
          m_frameId := replicate QCNODE_CAMERA_MAX_STREAM_NUM 0,
          m_freeBufIdxQueue := replicate QCNODE_CAMERA_MAX_STREAM_NUM [],
          m_frameBuffers := [], m_metaDataBuffers := [], m_frameBufferMap := [],
          m_metaDataBufferMap := [], m_QcarCamHndl := QCARCAM_HNDL_INVALID Q, m_callback := False\<rparr>,
        st1))
       (open_library Q st (cam_world u))"

definition CameraImpl_destroy ::
  "'w qcarcam \<Rightarrow> camera_static \<Rightarrow> ('w, 'a) camera \<Rightarrow> (('w, 'a) camera \<times> camera_static) option" where
  "CameraImpl_destroy Q st s =
     map_option (\<lambda>(st1, w).
       (s\<lparr>cam_world := w, m_freeBufIdxQueue := replicate QCNODE_CAMERA_MAX_STREAM_NUM [],
          m_callback := False\<rparr>, st1))
       (close_library Q st (cam_world s))"

definition GetInputsInfo ::
  "camera_static \<Rightarrow> QCStatus_e \<times> (QCarCamInput list \<times> QCarCamInputModes list \<times> u32)" where
  "GetInputsInfo st =
     (case s_pCameraInputs st of
        None \<Rightarrow> (QC_STATUS_FAIL, [], [], 0)
      | Some inputs \<Rightarrow>
          (QC_STATUS_OK, inputs, (case s_pCamInputModes st of None \<Rightarrow> [] | Some m \<Rightarrow> m), s_numInputs st))"

subsection \<open>Buffers\<close>

definition no_buffers :: "'d CameraBuffers" where
  "no_buffers = \<lparr>fb_descs = None, fb_qcarcam = None, fb_id = 0, fb_nBuffers = 0,
                 fb_colorFmt = QCARCAM_FMT_RGB_888, fb_osHndl = False\<rparr>"

definition bufferList :: "'d CameraBuffers \<Rightarrow> QCarCamBufferList" where
  "bufferList fb =
     \<lparr>bl_id = fb_id fb, bl_nBuffers = fb_nBuffers fb, bl_colorFmt = fb_colorFmt fb,
      bl_osHndl = fb_osHndl fb,
      bl_pBuffers = (case fb_qcarcam fb of None \<Rightarrow> [] | Some bufs \<Rightarrow> bufs)\<rparr>"

text \<open>\<^verbatim>\<open>std::vector::resize\<close>.\<close>

definition resize_buffers :: "nat \<Rightarrow> 'd CameraBuffers list \<Rightarrow> 'd CameraBuffers list" where
  "resize_buffers n xs = take n xs @ replicate (n - length xs) no_buffers"

definition ClearFrameBuffers :: "('w, 'a) camera \<Rightarrow> ('w, 'a) camera" where
  "ClearFrameBuffers s = s\<lparr>m_frameBuffers := []\<rparr>"

definition ClearMetaDataBuffers :: "('w, 'a) camera \<Rightarrow> ('w, 'a) camera" where
  "ClearMetaDataBuffers s = s\<lparr>m_metaDataBuffers := []\<rparr>"

definition GetQcarCamFormat :: "QCImageFormat_e \<Rightarrow> QCarCamColorFmt_e" where
  "GetQcarCamFormat colorFormat =
     (if colorFormat = QC_IMAGE_FORMAT_RGB888 then QCARCAM_FMT_RGB_888
      else if colorFormat = QC_IMAGE_FORMAT_BGR888 then QCARCAM_FMT_BGR_888
      else if colorFormat = QC_IMAGE_FORMAT_UYVY then QCARCAM_FMT_UYVY_8
      else if colorFormat = QC_IMAGE_FORMAT_NV12 then QCARCAM_FMT_NV12
      else if colorFormat = QC_IMAGE_FORMAT_NV12_UBWC then QCARCAM_FMT_UBWC_NV12
      else if colorFormat = QC_IMAGE_FORMAT_P010 then QCARCAM_FMT_P010
      else if colorFormat = QC_IMAGE_FORMAT_TP10_UBWC then QCARCAM_FMT_UBWC_TP10
      else QCARCAM_FMT_MAX)"

text \<open>A new array of descriptors: the constructor does not initialise the members of a camera frame.\<close>

definition CameraFrameDescriptor_new :: "'w qcarcam \<Rightarrow> CameraFrameDescriptor" where
  "CameraFrameDescriptor_new Q =
     ImageDescriptor.extend ImageDescriptor_init (ImageDescriptor.more (uninit_frame Q))"

definition new_frame_buffers :: "'w qcarcam \<Rightarrow> CameraStreamConfig \<Rightarrow> CameraFrameBuffers" where
  "new_frame_buffers Q sc =
     (let bufferNum = length (sc_bufferIds sc)
      in \<lparr>fb_descs = Some (replicate bufferNum (CameraFrameDescriptor_new Q)),
          fb_qcarcam = Some (replicate bufferNum (uninit_buffer Q)),
          fb_id = sc_streamId sc, fb_nBuffers = of_nat bufferNum,
          fb_colorFmt = GetQcarCamFormat (sc_format sc), fb_osHndl = True\<rparr>)"

definition set_frame_desc ::
  "nat \<Rightarrow> nat \<Rightarrow> CameraFrameDescriptor \<Rightarrow> ('w, 'a) camera \<Rightarrow> ('w, 'a) camera" where
  "set_frame_desc sid j d s =
     (let fb = m_frameBuffers s ! sid
      in s\<lparr>m_frameBuffers := (m_frameBuffers s)
             [sid := fb\<lparr>fb_descs := map_option (\<lambda>ds. ds[j := d]) (fb_descs fb)\<rparr>]\<rparr>)"

definition set_frame_qbuf ::
  "nat \<Rightarrow> nat \<Rightarrow> QCarCamBuffer \<Rightarrow> ('w, 'a) camera \<Rightarrow> ('w, 'a) camera" where
  "set_frame_qbuf sid j b s =
     (let fb = m_frameBuffers s ! sid
      in s\<lparr>m_frameBuffers := (m_frameBuffers s)
             [sid := fb\<lparr>fb_qcarcam := map_option (\<lambda>bs. bs[j := b]) (fb_qcarcam fb)\<rparr>]\<rparr>)"

text \<open>The planes of a buffer, one after the other.\<close>

primrec lay_planes ::
  "CameraFrameDescriptor \<Rightarrow> nat \<Rightarrow> nat \<Rightarrow> u32 \<Rightarrow> QCarCamPlane list \<Rightarrow> QCarCamPlane list" where
  "lay_planes d k 0 ofs pls = pls"
| "lay_planes d k (Suc n) ofs pls =
     lay_planes d (Suc k) n (ofs + i_planeBufSize d ! k)
       (pls[k := \<lparr>pl_memHndl = dmaHandle d, pl_width = i_width d, pl_height = i_height d,
                  pl_stride = i_stride d ! k, pl_size = i_planeBufSize d ! k, pl_offset = ofs\<rparr>])"

definition is_ubwc :: "QCImageFormat_e \<Rightarrow> bool" where
  "is_ubwc fmt \<longleftrightarrow> fmt = QC_IMAGE_FORMAT_NV12_UBWC \<or> fmt = QC_IMAGE_FORMAT_TP10_UBWC"

definition camera_buffer ::
  "'w qcarcam \<Rightarrow> QCImageFormat_e \<Rightarrow> CameraFrameDescriptor \<Rightarrow> QCarCamBuffer \<Rightarrow> QCarCamBuffer" where
  "camera_buffer Q fmt d b =
     (let n = (if is_ubwc fmt then 2 else i_numPlanes d);
          n1 = (if QCARCAM_MAX_NUM_PLANES Q < n then QCARCAM_MAX_NUM_PLANES Q else n);
          pls = lay_planes d 0 (unat n1) 0 (q_planes b);
          pls1 = (if fmt = QC_IMAGE_FORMAT_NV12 \<or> fmt = QC_IMAGE_FORMAT_P010 \<or> is_ubwc fmt
                  then pls[1 := (pls ! 1)\<lparr>pl_height := pl_height (pls ! 1) div 2\<rparr>] else pls);
          size0 = i_planeBufSize d ! 0 + i_planeBufSize d ! 1;
          size1 = i_planeBufSize d ! 2 + i_planeBufSize d ! 3
      in \<lparr>q_numPlanes = n1,
          q_planes =
            (if is_ubwc fmt
             then pls1[0 := (pls1 ! 0)\<lparr>pl_size := size0, pl_offset := 0\<rparr>,
                       1 := (pls1 ! 1)\<lparr>pl_size := size1, pl_offset := size0\<rparr>]
             else pls1)\<rparr>)"

text \<open>One buffer of a stream: the body of the inner loop.\<close>

definition set_frame_buffer ::
  "'w qcarcam \<Rightarrow> any_buffer list \<Rightarrow> CameraStreamConfig \<Rightarrow> nat \<Rightarrow> ('w, 'a) camera \<Rightarrow>
     (QCStatus_e \<times> ('w, 'a) camera) option" where
  "set_frame_buffer Q buffers sc j s =
     (let sid = unat (sc_streamId sc); bufferIdx = unat (sc_bufferIds sc ! j)
      in if length buffers \<le> bufferIdx then Some (QC_STATUS_OUT_OF_BOUND, s)
         else
           (case (fb_descs (m_frameBuffers s ! sid), fb_qcarcam (m_frameBuffers s ! sid)) of
              (Some descs, Some qbufs) \<Rightarrow>
                (case CameraFrameDescriptor_assign_any (descs ! j) (buffers ! bufferIdx) of
                   None \<Rightarrow> None
                 | Some d0 \<Rightarrow>
                     let d = d0\<lparr>c_streamId := sc_streamId sc, c_frameIdx := of_nat j\<rparr>;
                         s1 = set_frame_desc sid j d s;
                         s2 = s1\<lparr>m_frameBufferMap := dmaHandle d # m_frameBufferMap s1\<rparr>
                     in if pBuf d = nullptr then Some (QC_STATUS_INVALID_BUF, s1)
                        else if dmaHandle d \<in> set (m_frameBufferMap s1) then Some (QC_STATUS_INVALID_BUF, s1)
                        else if sc_format sc \<noteq> i_format d then Some (QC_STATUS_INVALID_BUF, s2)
                        else if sc_width sc \<noteq> i_width d then Some (QC_STATUS_INVALID_BUF, s2)
                        else if sc_height sc \<noteq> i_height d then Some (QC_STATUS_INVALID_BUF, s2)
                        else
                          Some (QC_STATUS_OK,
                            set_frame_qbuf sid j (camera_buffer Q (sc_format sc) d (qbufs ! j)) s2))
            | _ \<Rightarrow> None))"

fun set_stream_buffers ::
  "'w qcarcam \<Rightarrow> any_buffer list \<Rightarrow> CameraStreamConfig \<Rightarrow> nat list \<Rightarrow> ('w, 'a) camera \<Rightarrow>
     (QCStatus_e \<times> ('w, 'a) camera) option" where
  "set_stream_buffers Q buffers sc [] s = Some (QC_STATUS_OK, s)"
| "set_stream_buffers Q buffers sc (j # js) s =
     if_ok_opt (set_frame_buffer Q buffers sc j s) (set_stream_buffers Q buffers sc js)"

fun set_streams ::
  "'w qcarcam \<Rightarrow> any_buffer list \<Rightarrow> CameraStreamConfig list \<Rightarrow> ('w, 'a) camera \<Rightarrow>
     (QCStatus_e \<times> ('w, 'a) camera) option" where
  "set_streams Q buffers [] s = Some (QC_STATUS_OK, s)"
| "set_streams Q buffers (sc # scs) s =
     (let sid = unat (sc_streamId sc)
      in if length (m_frameBuffers s) \<le> sid then None
         else
           if_ok_opt
             (if_ok_opt
               (set_stream_buffers Q buffers sc [0..<length (sc_bufferIds sc)]
                 (s\<lparr>m_frameBuffers := (m_frameBuffers s)[sid := new_frame_buffers Q sc]\<rparr>))
               (\<lambda>s. Some (cam_call (QCarCamSetBuffers Q (m_QcarCamHndl s)
                                     (bufferList (m_frameBuffers s ! sid))) s)))
             (set_streams Q buffers scs))"

definition SetFrameBuffers ::
  "'w qcarcam \<Rightarrow> any_buffer list \<Rightarrow> ('w, 'a) camera \<Rightarrow> (QCStatus_e \<times> ('w, 'a) camera) option" where
  "SetFrameBuffers Q buffers s =
     map_option (\<lambda>(ret, s1). (ret, if ret \<noteq> QC_STATUS_OK then ClearFrameBuffers s1 else s1))
       (set_streams Q buffers (take (m_streamNum s) (m_streamConfigs s)) s)"

text \<open>The log line after the loop over the buffers of a group uses the buffer handled last; there is none
  when the first group is empty.\<close>

definition new_metadata_buffers :: "'w qcarcam \<Rightarrow> CameraMetaDataConfig \<Rightarrow> CameraMetaDataBuffers" where
  "new_metadata_buffers Q mc =
     (let bufferNum = length (mc_bufferIds mc)
      in \<lparr>fb_descs = Some (replicate bufferNum BufferDescriptor_init),
          fb_qcarcam = Some (replicate bufferNum (uninit_buffer Q)),
          fb_id = mc_bufferListId mc, fb_nBuffers = of_nat bufferNum,
          fb_colorFmt = QCARCAM_FMT_MAX, fb_osHndl = True\<rparr>)"

definition metadata_buffer :: "BufferDescriptor \<Rightarrow> QCarCamBuffer \<Rightarrow> QCarCamBuffer" where
  "metadata_buffer d b =
     b\<lparr>q_numPlanes := 1,
       q_planes := (q_planes b)
         [0 := (q_planes b ! 0)\<lparr>pl_size := ucast (b_size d), pl_memHndl := dmaHandle d\<rparr>]\<rparr>"

definition set_metadata_buffer ::
  "any_buffer list \<Rightarrow> nat \<Rightarrow> CameraMetaDataConfig \<Rightarrow> nat \<Rightarrow> ('w, 'a) camera \<Rightarrow>
     QCStatus_e \<times> ('w, 'a) camera" where
  "set_metadata_buffer buffers i mc k s =
     (let bufferIdx = unat (mc_bufferIds mc ! k); mb = m_metaDataBuffers s ! i
      in if length buffers \<le> bufferIdx then (QC_STATUS_OUT_OF_BOUND, s)
         else
           let d = BufferDescriptor_assign_base BufferDescriptor_init (any_base (buffers ! bufferIdx));
               mb1 = mb\<lparr>fb_descs := map_option (\<lambda>ds. ds[k := d]) (fb_descs mb)\<rparr>;
               mb2 = mb1\<lparr>fb_qcarcam := map_option (\<lambda>bs. bs[k := metadata_buffer d (bs ! k)]) (fb_qcarcam mb1)\<rparr>;
               s1 = s\<lparr>m_metaDataBuffers := (m_metaDataBuffers s)[i := mb1]\<rparr>
           in if pBuf d = nullptr then (QC_STATUS_INVALID_BUF, s1)
              else if dmaHandle d \<in> set (m_metaDataBufferMap s1) then (QC_STATUS_INVALID_BUF, s1)
              else
                (QC_STATUS_OK,
                 s\<lparr>m_metaDataBufferMap := dmaHandle d # m_metaDataBufferMap s,
                   m_metaDataBuffers := (m_metaDataBuffers s)[i := mb2]\<rparr>))"

fun set_metadata_group ::
  "any_buffer list \<Rightarrow> nat \<Rightarrow> CameraMetaDataConfig \<Rightarrow> nat list \<Rightarrow> ('w, 'a) camera \<Rightarrow>
     QCStatus_e \<times> ('w, 'a) camera" where
  "set_metadata_group buffers i mc [] s = (QC_STATUS_OK, s)"
| "set_metadata_group buffers i mc (k # ks) s =
     if_ok (set_metadata_buffer buffers i mc k s) (set_metadata_group buffers i mc ks)"

fun set_metadata ::
  "'w qcarcam \<Rightarrow> any_buffer list \<Rightarrow> nat \<Rightarrow> CameraMetaDataConfig list \<Rightarrow> ('w, 'a) camera \<Rightarrow>
     (QCStatus_e \<times> ('w, 'a) camera) option" where
  "set_metadata Q buffers i [] s = Some (QC_STATUS_OK, s)"
| "set_metadata Q buffers i (mc # mcs) s =
     (if i = 0 \<and> mc_bufferIds mc = [] \<or> length (m_metaDataBuffers s) \<le> i then None
      else
        if_ok_opt
          (Some (if_ok
            (set_metadata_group buffers i mc [0..<length (mc_bufferIds mc)]
              (s\<lparr>m_metaDataBuffers := (m_metaDataBuffers s)[i := new_metadata_buffers Q mc]\<rparr>))
            (\<lambda>s. cam_call (QCarCamSetBuffers Q (m_QcarCamHndl s)
                            (bufferList (m_metaDataBuffers s ! i))) s)))
          (set_metadata Q buffers (Suc i) mcs))"

definition SetMetaDataBuffers ::
  "'w qcarcam \<Rightarrow> any_buffer list \<Rightarrow> ('w, 'a) camera \<Rightarrow> (QCStatus_e \<times> ('w, 'a) camera) option" where
  "SetMetaDataBuffers Q buffers s =
     map_option (\<lambda>(ret, s1). (ret, if ret \<noteq> QC_STATUS_OK then ClearMetaDataBuffers s1 else s1))
       (set_metadata Q buffers 0 (take (m_metaDataNum s) (cc_metaDataConfigs (m_config s))) s)"

subsection \<open>Buffers of another process\<close>

text \<open>The strides, sizes and heights of the planes, into arrays of four.\<close>

fun import_planes ::
  "QCarCamPlane list \<Rightarrow> nat list \<Rightarrow> CameraFrameDescriptor \<Rightarrow> CameraFrameDescriptor option" where
  "import_planes pls [] d = Some d"
| "import_planes pls (k # ks) d =
     (if QC_NUM_IMAGE_PLANES \<le> k \<or> length pls \<le> k \<or> pl_stride (pls ! k) = 0 then None
      else
        import_planes pls ks
          (d\<lparr>i_stride := (i_stride d)[k := pl_stride (pls ! k)],
             i_planeBufSize := (i_planeBufSize d)[k := pl_size (pls ! k)],
             i_actualHeight := (i_actualHeight d)[k := pl_size (pls ! k) div pl_stride (pls ! k)],
             b_size := b_size d + ucast (pl_size (pls ! k))\<rparr>))"

definition imported_desc ::
  "'w qcarcam \<Rightarrow> CameraStreamConfig \<Rightarrow> QCarCamBuffer \<Rightarrow> CameraFrameDescriptor option" where
  "imported_desc Q sc q =
     (let p0 = q_planes q ! 0
      in if q_planes q = [] then None
         else
           import_planes (q_planes q) [0..<unat (q_numPlanes q)]
             ((CameraFrameDescriptor_new Q)
               \<lparr>b_pid := 0, b_size := 0, offset := 0, b_type := QC_BUFFER_TYPE_IMAGE,
                b_cache := QC_CACHEABLE, dmaHandle := pl_memHndl p0,
                allocatorType := QC_MEMORY_ALLOCATOR_DMA_CAMERA, i_batchSize := 1,
                i_format := sc_format sc, i_numPlanes := q_numPlanes q, i_width := pl_width p0,
                i_height := pl_height p0\<rparr>))"

text \<open>The loop over the buffers of a stream. \<open>ret\<close> is the status left by what was done before.\<close>

fun import_frames ::
  "'w qcarcam \<Rightarrow> 'w dma_os \<Rightarrow> CameraStreamConfig \<Rightarrow> QCarCamBuffer list \<Rightarrow> nat list \<Rightarrow>
     QCStatus_e \<Rightarrow> ('w, 'a) camera \<Rightarrow> (QCStatus_e \<times> ('w, 'a) camera) option" where
  "import_frames Q os sc qbufs [] ret s = Some (ret, s)"
| "import_frames Q os sc qbufs (j # js) ret s =
     (let sid = unat (sc_streamId sc); h = pl_memHndl (q_planes (qbufs ! j) ! 0)
      in if length qbufs \<le> j \<or> q_planes (qbufs ! j) = [] then None
         else if h \<in> set (m_frameBufferMap s) then Some (QC_STATUS_INVALID_BUF, s)
         else
           (case imported_desc Q sc (qbufs ! j) of
              None \<Rightarrow> None
            | Some d \<Rightarrow>
                let ((ret1, mapped), s1) =
                      on_world (\<lambda>w. case DMABUFFUtils_MemoryMap os (QCBufferDescriptorBase.truncate d) w of
                                      (r, m, w1) \<Rightarrow> ((r, m), w1))
                        (s\<lparr>m_frameBufferMap := h # m_frameBufferMap s\<rparr>)
                in if ret1 = QC_STATUS_OK then
                     import_frames Q os sc qbufs js ret1
                       (set_frame_desc sid j
                         (d\<lparr>pBuf := pBuf mapped, c_frameIdx := of_nat j, c_streamId := sc_streamId sc\<rparr>) s1)
                   else
                     Some (ret1,
                       set_frame_desc sid j
                         (QCBufferDescriptorBase.extend mapped
                           (QCBufferDescriptorBase.more (CameraFrameDescriptor_new Q))) s1)))"

definition import_stream ::
  "'w qcarcam \<Rightarrow> 'w dma_os \<Rightarrow> CameraStreamConfig \<Rightarrow> QCStatus_e \<times> ('w, 'a) camera \<Rightarrow>
     (QCStatus_e \<times> ('w, 'a) camera) option" where
  "import_stream Q os sc r =
     (case r of (ret, s) \<Rightarrow>
        let sid = unat (sc_streamId sc)
        in if length (m_frameBuffers s) \<le> sid then None
           else
             let fb = new_frame_buffers Q sc;
                 ((ok, bl), s1) =
                   on_world (QCarCamGetBuffers Q (m_QcarCamHndl s) (bufferList fb))
                     (s\<lparr>m_frameBuffers := (m_frameBuffers s)[sid := fb]\<rparr>)
             in if ok then
                  import_frames Q os sc (bl_pBuffers bl) [0..<length (sc_bufferIds sc)] ret
                    (s1\<lparr>m_frameBuffers := (m_frameBuffers s1)
                          [sid := fb\<lparr>fb_qcarcam := Some (bl_pBuffers bl), fb_id := bl_id bl,
                                     fb_nBuffers := bl_nBuffers bl, fb_colorFmt := bl_colorFmt bl,
                                     fb_osHndl := bl_osHndl bl\<rparr>]\<rparr>)
                else Some (QC_STATUS_FAIL, ClearFrameBuffers s1))"

fun import_streams ::
  "'w qcarcam \<Rightarrow> 'w dma_os \<Rightarrow> CameraStreamConfig list \<Rightarrow> QCStatus_e \<times> ('w, 'a) camera \<Rightarrow>
     (QCStatus_e \<times> ('w, 'a) camera) option" where
  "import_streams Q os [] r = Some r"
| "import_streams Q os (sc # scs) r =
     (case import_stream Q os sc r of None \<Rightarrow> None | Some r1 \<Rightarrow> import_streams Q os scs r1)"

definition ImportBuffers ::
  "'w qcarcam \<Rightarrow> 'w dma_os \<Rightarrow> ('w, 'a) camera \<Rightarrow> (QCStatus_e \<times> ('w, 'a) camera) option" where
  "ImportBuffers Q os s =
     import_streams Q os (take (m_streamNum s) (m_streamConfigs s)) (QC_STATUS_OK, s)"

text \<open>Every mapping is removed; the status is that of the last one.\<close>

fun unmap_frames ::
  "'w dma_os \<Rightarrow> CameraFrameDescriptor list \<Rightarrow> QCStatus_e \<times> ('w, 'a) camera \<Rightarrow>
     QCStatus_e \<times> ('w, 'a) camera" where
  "unmap_frames os [] r = r"
| "unmap_frames os (d # ds) r =
     unmap_frames os ds
       (on_world (DMABUFFUtils_MemoryUnMap os (QCBufferDescriptorBase.truncate d)) (snd r))"

fun unimport_streams ::
  "'w dma_os \<Rightarrow> CameraStreamConfig list \<Rightarrow> QCStatus_e \<times> ('w, 'a) camera \<Rightarrow>
     (QCStatus_e \<times> ('w, 'a) camera) option" where
  "unimport_streams os [] r = Some r"
| "unimport_streams os (sc # scs) r =
     (let sid = unat (sc_streamId sc)
      in if length (m_frameBuffers (snd r)) \<le> sid then None
         else
           (case fb_descs (m_frameBuffers (snd r) ! sid) of
              Some descs \<Rightarrow>
                if length descs < length (sc_bufferIds sc) then None
                else
                  unimport_streams os scs (unmap_frames os (take (length (sc_bufferIds sc)) descs) r)
            | None \<Rightarrow> unimport_streams os scs (QC_STATUS_BAD_ARGUMENTS, snd r)))"

definition UnImportBuffers ::
  "'w dma_os \<Rightarrow> ('w, 'a) camera \<Rightarrow> (QCStatus_e \<times> ('w, 'a) camera) option" where
  "UnImportBuffers os s =
     unimport_streams os (take (m_streamNum s) (m_streamConfigs s)) (QC_STATUS_OK, s)"

subsection \<open>Requests\<close>

definition no_stream_request :: QCarCamStreamRequest where
  "no_stream_request = \<lparr>sr_bufferlistId = 0, sr_bufferIdx = 0, sr_metaBufferlistId = 0,
                        sr_metaBufferId = 0\<rparr>"

definition no_request :: QCarCamRequest where
  "no_request =
     \<lparr>rq_requestId = 0, rq_numStreamRequests = 0,
      rq_streamRequests = replicate QCNODE_CAMERA_MAX_STREAM_NUM no_stream_request, rq_syncId = 0,
      rq_flags = 0, rq_inputBuffer = (0, 0), rq_inputCommonMetadata = (0, 0),
      rq_inputMetadata = replicate QCNODE_CAMERA_MAX_INPUT_STREAM_NUM (0, 0),
      rq_outputMetadata = replicate QCNODE_CAMERA_MAX_INPUT_STREAM_NUM (0, 0)\<rparr>"

definition add_stream_request :: "u32 \<Rightarrow> u32 \<Rightarrow> QCarCamRequest \<Rightarrow> QCarCamRequest" where
  "add_stream_request bufferlistId bufferIdx rq =
     rq\<lparr>rq_streamRequests := (rq_streamRequests rq)
          [unat (rq_numStreamRequests rq) :=
             no_stream_request\<lparr>sr_bufferlistId := bufferlistId, sr_bufferIdx := bufferIdx\<rparr>],
        rq_numStreamRequests := rq_numStreamRequests rq + 1\<rparr>"

text \<open>Sending a request takes the next number.\<close>

definition submit :: "'w qcarcam \<Rightarrow> QCarCamRequest \<Rightarrow> ('w, 'a) camera \<Rightarrow> QCStatus_e \<times> ('w, 'a) camera" where
  "submit Q rq s =
     cam_call (QCarCamSubmitRequest Q (m_QcarCamHndl s) (rq\<lparr>rq_requestId := m_requestId s\<rparr>))
       (s\<lparr>m_requestId := m_requestId s + 1\<rparr>)"

definition all_buffers_request :: "CameraStreamConfig list \<Rightarrow> nat \<Rightarrow> QCarCamRequest" where
  "all_buffers_request scs bufIdx =
     fold (\<lambda>sc rq. if bufIdx < length (sc_bufferIds sc)
                   then add_stream_request (sc_streamId sc) (of_nat bufIdx) rq else rq) scs no_request"

fun submit_each :: "'w qcarcam \<Rightarrow> nat list \<Rightarrow> ('w, 'a) camera \<Rightarrow> QCStatus_e \<times> ('w, 'a) camera" where
  "submit_each Q [] s = (QC_STATUS_OK, s)"
| "submit_each Q (bufIdx # rest) s =
     if_ok (submit Q (all_buffers_request (take (m_streamNum s) (m_streamConfigs s)) bufIdx) s)
       (submit_each Q rest)"

definition SubmitAllBuffers :: "'w qcarcam \<Rightarrow> ('w, 'a) camera \<Rightarrow> QCStatus_e \<times> ('w, 'a) camera" where
  "SubmitAllBuffers Q s =
     (if m_clientId s = 0 \<or> m_bIsPrimary s then submit_each Q [0..<m_maxBufCnt s] s
      else (QC_STATUS_OK, s))"

definition ReleaseFrame ::
  "'w qcarcam \<Rightarrow> CameraFrameDescriptor \<Rightarrow> ('w, 'a) camera \<Rightarrow> QCStatus_e \<times> ('w, 'a) camera" where
  "ReleaseFrame Q d s =
     cam_call (QCarCamReleaseFrame Q (m_QcarCamHndl s) (c_streamId d) (c_frameIdx d)) s"

text \<open>What the return of a reference frame does for the stream at place \<open>i\<close>: its counter goes down, and
  when it is zero the stream's oldest free buffer, if there is one, joins the request and the counter
  starts again.\<close>

definition request_stream :: "nat \<Rightarrow> QCarCamRequest \<times> ('w, 'a) camera \<Rightarrow> QCarCamRequest \<times> ('w, 'a) camera" where
  "request_stream i r =
     (case r of (rq, s) \<Rightarrow>
        let sc = m_streamConfigs s ! i; sid = unat (sc_streamId sc);
            p = m_submitRequestPattern s ! i;
            p1 = (if 0 < p then p - 1 else p);
            s1 = s\<lparr>m_submitRequestPattern := (m_submitRequestPattern s)[i := p1]\<rparr>
        in if p1 \<noteq> 0 then (rq, s1)
           else
             (case m_freeBufIdxQueue s ! sid of
                [] \<Rightarrow> (rq, s1)
              | idx # rest \<Rightarrow>
                  (add_stream_request (sc_streamId sc) idx rq,
                   s1\<lparr>m_freeBufIdxQueue := (m_freeBufIdxQueue s)[sid := rest],
                      m_submitRequestPattern :=
                        (m_submitRequestPattern s)[i := sc_submitRequestPattern sc]\<rparr>)))"

definition SubmitRequest_frame ::
  "'w qcarcam \<Rightarrow> CameraFrameDescriptor \<Rightarrow> ('w, 'a) camera \<Rightarrow> (QCStatus_e \<times> ('w, 'a) camera) option" where
  "SubmitRequest_frame Q d s =
     (let bufferListId = c_streamId d; bufferIdx = c_frameIdx d
      in if m_clientId s \<noteq> 0 \<and> \<not> m_bIsPrimary s then Some (QC_STATUS_BAD_ARGUMENTS, s)
         else if m_bRequestPatternMode s then
           (if length (m_freeBufIdxQueue s) \<le> unat bufferListId then None
            else
              let q = m_freeBufIdxQueue s;
                  s1 = s\<lparr>m_freeBufIdxQueue := q[unat bufferListId := q ! unat bufferListId @ [bufferIdx]]\<rparr>;
                  (rq, s2) = (if m_refStreamId s = bufferListId
                              then fold request_stream [0..<m_streamNum s] (no_request, s1)
                              else (no_request, s1))
              in Some (if 0 < rq_numStreamRequests rq then submit Q rq s2 else (QC_STATUS_OK, s2)))
         else Some (submit Q (add_stream_request bufferListId bufferIdx no_request) s))"

definition metadata_request :: "CameraMetaDataDescriptor \<Rightarrow> QCarCamRequest" where
  "metadata_request d =
     no_request
       \<lparr>rq_requestId := cm_requestId d, rq_numStreamRequests := cm_streamRequestNum d,
        rq_syncId := cm_syncId d, rq_flags := cm_flags d, rq_inputBuffer := cm_inputBuffer d,
        rq_inputCommonMetadata := cm_inputCommonMetadata d,
        rq_inputMetadata := take QCNODE_CAMERA_MAX_INPUT_STREAM_NUM (cm_inputMetadata d),
        rq_outputMetadata := take QCNODE_CAMERA_MAX_INPUT_STREAM_NUM (cm_outputMetadata d),
        rq_streamRequests :=
          map (\<lambda>(l, i). no_stream_request\<lparr>sr_metaBufferlistId := l, sr_metaBufferId := i\<rparr>)
            (take QCNODE_CAMERA_MAX_STREAM_NUM (cm_streamRequests d))\<rparr>"

definition SubmitRequest_metadata ::
  "'w qcarcam \<Rightarrow> CameraMetaDataDescriptor \<Rightarrow> ('w, 'a) camera \<Rightarrow> QCStatus_e \<times> ('w, 'a) camera" where
  "SubmitRequest_metadata Q d s =
     (let rq = metadata_request d
      in if 0 < rq_numStreamRequests rq
         then cam_call (QCarCamSubmitRequest Q (m_QcarCamHndl s) rq) s
         else (QC_STATUS_OK, s))"

subsection \<open>Initialization\<close>

definition ValidateConfig :: "CameraImplConfig \<Rightarrow> QCStatus_e" where
  "ValidateConfig c =
     (let streamNum = length (cc_streamConfigs c)
      in if QCNODE_CAMERA_MAX_STREAM_NUM < streamNum \<or> streamNum = 0 then QC_STATUS_BAD_ARGUMENTS
         else if cc_bPrimary c \<and> cc_clientId c = 0 then QC_STATUS_BAD_ARGUMENTS
         else if \<exists>sc \<in> set (cc_streamConfigs c). QCNODE_CAMERA_MAX_STREAM_NUM \<le> unat (sc_streamId sc)
           then QC_STATUS_BAD_ARGUMENTS
         else QC_STATUS_OK)"

definition take_config :: "bool \<Rightarrow> ('w, 'a) camera \<Rightarrow> QCStatus_e \<times> ('w, 'a) camera" where
  "take_config callback s =
     (let c = m_config s;
          s1 = s\<lparr>m_state := QC_OBJECT_STATE_INITIALIZING, m_inputId := cc_inputId c,
                 m_clientId := cc_clientId c, m_streamNum := length (cc_streamConfigs c),
                 m_metaDataNum := 0, m_maxBufCnt := 0, m_bRequestMode := cc_bRequestMode c,
                 m_bIsPrimary := cc_bPrimary c, m_enableMetaData := cc_bEnalbleMetaData c,
                 m_bRecovery := cc_bRecovery c, m_callback := callback\<rparr>
      in (if cc_bEnalbleMetaData c \<and> \<not> cc_bRequestMode c then QC_STATUS_BAD_ARGUMENTS else QC_STATUS_OK,
          s1))"

text \<open>The pattern of the streams: the reference stream is the first whose pattern is zero, and the
  pattern mode is on when some stream's pattern is not.\<close>

definition reference_stream :: "CameraStreamConfig list \<Rightarrow> u32" where
  "reference_stream scs =
     (case filter (\<lambda>sc. sc_submitRequestPattern sc = 0) scs of
        [] \<Rightarrow> of_nat QCNODE_CAMERA_MAX_STREAM_NUM
      | sc # _ \<Rightarrow> sc_streamId sc)"

definition setup_streams :: "('w, 'a) camera \<Rightarrow> QCStatus_e \<times> ('w, 'a) camera" where
  "setup_streams s =
     (let c = m_config s; scs = take (m_streamNum s) (cc_streamConfigs c); n = length scs;
          s1 = s\<lparr>m_metaDataNum := length (cc_metaDataConfigs c),
                 m_streamConfigs := scs @ drop n (m_streamConfigs s),
                 m_maxBufCnt := fold (\<lambda>sc m. max (length (sc_bufferIds sc)) m) scs (m_maxBufCnt s),
                 m_bRequestPatternMode := False\<rparr>
      in if m_bRequestMode s1 \<and> 1 < m_streamNum s1 then
           let s2 = s1\<lparr>m_refStreamId := reference_stream scs,
                       m_submitRequestPattern :=
                         map sc_submitRequestPattern scs @ drop n (m_submitRequestPattern s1),
                       m_bRequestPatternMode := (\<exists>sc \<in> set scs. sc_submitRequestPattern sc \<noteq> 0)\<rparr>
           in (if m_bRequestPatternMode s2 \<and> m_refStreamId s2 = of_nat QCNODE_CAMERA_MAX_STREAM_NUM
                 then QC_STATUS_BAD_ARGUMENTS else QC_STATUS_OK, s2)
         else (QC_STATUS_OK, s1))"

definition find_input :: "camera_static \<Rightarrow> ('w, 'a) camera \<Rightarrow> (QCStatus_e \<times> ('w, 'a) camera) option" where
  "find_input st s =
     (case GetInputsInfo st of
        (ret, inputs, modes, n) \<Rightarrow>
          if ret \<noteq> QC_STATUS_OK then Some (ret, s)
          else if length inputs < unat n \<or> length modes < unat n then None
          else
            (case filter (\<lambda>(i, m). in_inputId i = m_inputId s) (take (unat n) (zip inputs modes)) of
               [] \<Rightarrow> Some (QC_STATUS_BAD_ARGUMENTS, s)
             | (i, m) # _ \<Rightarrow>
                 Some (if im_numModes m = 0 then QC_STATUS_OUT_OF_BOUND else QC_STATUS_OK, s)))"

definition open_camera :: "'w qcarcam \<Rightarrow> ('w, 'a) camera \<Rightarrow> QCStatus_e \<times> ('w, 'a) camera" where
  "open_camera Q s =
     (let c = m_config s;
          openParams = \<lparr>op_opMode = cc_opMode c, op_clientId = m_clientId s, op_inputId = m_inputId s,
                        op_srcId = cc_srcId c, op_inputMode = cc_inputMode c,
                        op_recovery = m_bRecovery s, op_requestMode = m_bRequestMode s,
                        op_multiClient = (m_clientId s \<noteq> 0)\<rparr>;
          ((ok, hndl), s1) = on_world (QCarCamOpen Q openParams) s;
          s2 = (case hndl of None \<Rightarrow> s1 | Some h \<Rightarrow> s1\<lparr>m_QcarCamHndl := h\<rparr>)
      in (if \<not> ok \<or> m_QcarCamHndl s2 = QCARCAM_HNDL_INVALID Q then QC_STATUS_FAIL else QC_STATUS_OK, s2))"

definition register_events :: "'w qcarcam \<Rightarrow> ('w, 'a) camera \<Rightarrow> QCStatus_e \<times> ('w, 'a) camera" where
  "register_events Q s =
     (case cam_call (QCarCamRegisterEventCallback Q (m_QcarCamHndl s)) s of
        (ret, s1) \<Rightarrow>
          (ret, if ret \<noteq> QC_STATUS_OK then s1\<lparr>m_state := QC_OBJECT_STATE_ERROR\<rparr> else s1))"

definition set_params :: "'w qcarcam \<Rightarrow> ('w, 'a) camera \<Rightarrow> QCStatus_e \<times> ('w, 'a) camera" where
  "set_params Q s =
     (let c = m_config s;
          flags = [FLAG_INPUT_SIGNAL, FLAG_ERROR, FLAG_MC_NOTIFY,
                   if cc_bMultiStreamFrameReady c then FLAG_MULTI_STREAM_FRAME_READY
                   else FLAG_FRAME_READY]
      in if_ok (if_ok
           (cam_call (QCarCamSetParam Q (m_QcarCamHndl s) (PARAM_EVENT_MASK flags)) s)
           (\<lambda>s. cam_call (QCarCamSetParam Q (m_QcarCamHndl s) (PARAM_ISP_USECASE 0 0 (cc_ispUseCase c))) s))
           (\<lambda>s. if cc_camFrameDropPattern c = 0 then (QC_STATUS_OK, s)
                else cam_call (QCarCamSetParam Q (m_QcarCamHndl s)
                       (PARAM_FRAME_DROP_CONTROL (cc_camFrameDropPeriod c) (cc_camFrameDropPattern c))) s))"

definition give_buffers ::
  "'w qcarcam \<Rightarrow> 'w dma_os \<Rightarrow> any_buffer list \<Rightarrow> ('w, 'a) camera \<Rightarrow> (QCStatus_e \<times> ('w, 'a) camera) option" where
  "give_buffers Q os buffers s =
     (let s1 = s\<lparr>m_frameBuffers := resize_buffers QCNODE_CAMERA_MAX_STREAM_NUM (m_frameBuffers s)\<rparr>
      in if_ok_opt
           (if m_clientId s1 \<noteq> 0 \<and> \<not> m_bIsPrimary s1 then ImportBuffers Q os s1
            else SetFrameBuffers Q buffers s1)
           (\<lambda>s. if m_enableMetaData s then
                  SetMetaDataBuffers Q buffers
                    (s\<lparr>m_metaDataBuffers := resize_buffers (m_metaDataNum s) (m_metaDataBuffers s)\<rparr>)
                else Some (QC_STATUS_OK, s)))"

definition cam_init_cleanup :: "'w qcarcam \<Rightarrow> ('w, 'a) camera \<Rightarrow> ('w, 'a) camera" where
  "cam_init_cleanup Q s =
     (let s1 = s\<lparr>m_state := QC_OBJECT_STATE_INITIAL\<rparr>;
          s2 = (if m_QcarCamHndl s1 \<noteq> QCARCAM_HNDL_INVALID Q then
                  (snd (on_world (QCarCamClose Q (m_QcarCamHndl s1)) s1))
                    \<lparr>m_QcarCamHndl := QCARCAM_HNDL_INVALID Q\<rparr>
                else s1);
          s3 = (ClearMetaDataBuffers (ClearFrameBuffers s2))
                 \<lparr>m_frameBufferMap := [], m_metaDataBufferMap := [],
                  m_config := (m_config s2)\<lparr>cc_streamConfigs := []\<rparr>\<rparr>
      in if m_enableMetaData s3 then s3\<lparr>m_config := (m_config s3)\<lparr>cc_metaDataConfigs := []\<rparr>\<rparr> else s3)"

definition CameraImpl_Initialize ::
  "'w qcarcam \<Rightarrow> 'w dma_os \<Rightarrow> camera_static \<Rightarrow> bool \<Rightarrow> any_buffer list \<Rightarrow> ('w, 'a) camera \<Rightarrow>
     (QCStatus_e \<times> ('w, 'a) camera) option" where
  "CameraImpl_Initialize Q os st callback buffers s =
     map_option (\<lambda>(ret, s1).
       (ret, if ret = QC_STATUS_OK then s1\<lparr>m_state := QC_OBJECT_STATE_READY\<rparr> else cam_init_cleanup Q s1))
     (if_ok_opt
       (if_ok_opt
         (if_ok_opt
           (Some (if_ok (if_ok
             (if m_state s \<noteq> QC_OBJECT_STATE_INITIAL then QC_STATUS_BAD_STATE
              else ValidateConfig (m_config s), s)
             (take_config callback))
             setup_streams))
           (find_input st))
         (\<lambda>s. Some (if_ok (if_ok (open_camera Q s) (register_events Q)) (set_params Q))))
       (\<lambda>s. if_ok_opt (give_buffers Q os buffers s)
              (\<lambda>s. Some (cam_call (QCarCamReserve Q (m_QcarCamHndl s)) (s\<lparr>m_requestId := 0\<rparr>)))))"

subsection \<open>Life cycle\<close>

definition CameraImpl_Start :: "'w qcarcam \<Rightarrow> ('w, 'a) camera \<Rightarrow> QCStatus_e \<times> ('w, 'a) camera" where
  "CameraImpl_Start Q s =
     (if m_state s = QC_OBJECT_STATE_READY then
        let (ret, s1) = cam_call (QCarCamStart Q (m_QcarCamHndl s)) (s\<lparr>m_state := QC_OBJECT_STATE_STARTING\<rparr>)
        in if ret \<noteq> QC_STATUS_OK then (ret, s1\<lparr>m_state := QC_OBJECT_STATE_READY\<rparr>)
           else
             let s2 = s1\<lparr>m_state := QC_OBJECT_STATE_RUNNING\<rparr>;
                 (ret2, s3) = (if m_bRequestMode s2 then SubmitAllBuffers Q s2 else (QC_STATUS_OK, s2))
             in (ret2, if ret2 \<noteq> QC_STATUS_OK
                       then snd (on_world (QCarCamStop Q (m_QcarCamHndl s3))
                                  (s3\<lparr>m_state := QC_OBJECT_STATE_READY\<rparr>))
                       else s3)
      else (QC_STATUS_BAD_STATE, s))"

definition CameraImpl_Stop :: "'w qcarcam \<Rightarrow> ('w, 'a) camera \<Rightarrow> QCStatus_e \<times> ('w, 'a) camera" where
  "CameraImpl_Stop Q s =
     (if m_state s = QC_OBJECT_STATE_RUNNING then
        let (ret, s1) = cam_call (QCarCamStop Q (m_QcarCamHndl s)) (s\<lparr>m_state := QC_OBJECT_STATE_STOPING\<rparr>)
        in (ret, s1\<lparr>m_state := if ret = QC_STATUS_OK then QC_OBJECT_STATE_READY else m_state s\<rparr>)
      else (QC_STATUS_BAD_STATE, s))"

definition deinit_clear :: "('w, 'a) camera \<Rightarrow> ('w, 'a) camera" where
  "deinit_clear s =
     (ClearMetaDataBuffers (ClearFrameBuffers s))
       \<lparr>m_frameBufferMap := [], m_metaDataBufferMap := [],
        m_config := (m_config s)\<lparr>cc_streamConfigs := []\<rparr>\<rparr>"

text \<open>The session is closed whatever releasing it returned, and the status of removing the mappings
  replaces that of the calls before it.\<close>

definition close_session ::
  "'w qcarcam \<Rightarrow> 'w dma_os \<Rightarrow> ('w, 'a) camera \<Rightarrow> (QCStatus_e \<times> ('w, 'a) camera) option" where
  "close_session Q os s =
     (let ret0 = (if m_QcarCamHndl s = 0 then QC_STATUS_FAIL else QC_STATUS_OK);
          (ret1, s1) = cam_call (QCarCamRelease Q (m_QcarCamHndl s)) s;
          (ret2, s2) = cam_call (QCarCamClose Q (m_QcarCamHndl s)) s1;
          ret3 = (if ret2 \<noteq> QC_STATUS_OK then ret2 else if ret1 \<noteq> QC_STATUS_OK then ret1 else ret0)
      in if m_clientId s2 \<noteq> 0 \<and> \<not> m_bIsPrimary s2 then UnImportBuffers os s2 else Some (ret3, s2))"

definition CameraImpl_DeInitialize ::
  "'w qcarcam \<Rightarrow> 'w dma_os \<Rightarrow> ('w, 'a) camera \<Rightarrow> (QCStatus_e \<times> ('w, 'a) camera) option" where
  "CameraImpl_DeInitialize Q os s =
     map_option (\<lambda>(ret, s1).
       (ret, (deinit_clear s1)
         \<lparr>m_state := if ret = QC_STATUS_OK then QC_OBJECT_STATE_INITIAL else m_state s\<rparr>))
     (if m_state s \<noteq> QC_OBJECT_STATE_READY then Some (QC_STATUS_BAD_STATE, s)
      else close_session Q os (s\<lparr>m_state := QC_OBJECT_STATE_DEINITIALIZING\<rparr>))"

text \<open>The buffer is the first of the frame descriptor; \<open>None\<close> is the dummy buffer.\<close>

definition CameraImpl_ProcessFrameDescriptor ::
  "'w qcarcam \<Rightarrow> any_buffer option \<Rightarrow> ('w, 'a) camera \<Rightarrow> (QCStatus_e \<times> ('w, 'a) camera) option" where
  "CameraImpl_ProcessFrameDescriptor Q bufDesc s =
     (if m_state s \<noteq> QC_OBJECT_STATE_RUNNING then Some (QC_STATUS_BAD_STATE, s)
      else
        (case bufDesc of
           Some (A_Camera d) \<Rightarrow>
             if dmaHandle d \<notin> set (m_frameBufferMap s) then Some (QC_STATUS_INVALID_BUF, s)
             else if m_bRequestMode s then SubmitRequest_frame Q d s
             else Some (ReleaseFrame Q d s)
         | Some (A_CameraMeta d) \<Rightarrow>
             if m_enableMetaData s then Some (SubmitRequest_metadata Q d s)
             else Some (QC_STATUS_BAD_ARGUMENTS, s)
         | _ \<Rightarrow> Some (QC_STATUS_INVALID_BUF, s)))"

subsection \<open>Events\<close>

text \<open>The descriptor of a buffer, for \<^verbatim>\<open>&pCamFrameDescs[ bufferIdx ]\<close>: the pointer is null when the array
  is and the index is zero, the result \<open>Some None\<close>, and is not to be used when the index is outside
  the array.\<close>

definition frame_at :: "u32 \<Rightarrow> u32 \<Rightarrow> ('w, 'a) camera \<Rightarrow> CameraFrameDescriptor option option" where
  "frame_at bufferListId bufferIdx s =
     (if length (m_frameBuffers s) \<le> unat bufferListId then None
      else
        (case fb_descs (m_frameBuffers s ! unat bufferListId) of
           None \<Rightarrow> if bufferIdx = 0 then Some None else None
         | Some descs \<Rightarrow>
             if length descs \<le> unat bufferIdx then None else Some (Some (descs ! unat bufferIdx))))"

definition stamp_frame ::
  "u32 \<Rightarrow> u32 \<Rightarrow> QCarCamFrameInfo \<Rightarrow> ('w, 'a) camera \<Rightarrow> (QCStatus_e \<times> ('w, 'a) camera) option" where
  "stamp_frame bufferListId bufferIdx info s =
     (case frame_at bufferListId bufferIdx s of
        None \<Rightarrow> None
      | Some None \<Rightarrow> Some (QC_STATUS_FAIL, s)
      | Some (Some d) \<Rightarrow>
          Some (QC_STATUS_OK,
            set_frame_desc (unat bufferListId) (unat bufferIdx)
              (d\<lparr>c_timestamp := fi_timestamp info, c_timestampQGPTP := fi_timestampGPTP info,
                 c_flags := fi_flags info\<rparr>) s))"

text \<open>The frame an event announces. In request mode the event says which; otherwise the library is
  asked, and only then the index is checked.\<close>

definition GetFrame ::
  "'w qcarcam \<Rightarrow> QCarCamFrameInfo \<Rightarrow> ('w, 'a) camera \<Rightarrow>
     ((QCStatus_e \<times> u32 \<times> u32) \<times> ('w, 'a) camera) option" where
  "GetFrame Q info s =
     (let bufferListId = fi_id info
      in if m_bRequestMode s then
           map_option (\<lambda>(ret, s1). ((ret, bufferListId, fi_bufferIndex info), s1))
             (stamp_frame bufferListId (fi_bufferIndex info) info s)
         else
           let ((ok, frameInfo), s1) = on_world (QCarCamGetFrame Q (m_QcarCamHndl s) bufferListId) s;
               bufferIdx = fi_bufferIndex frameInfo
           in if \<not> ok then Some ((QC_STATUS_FAIL, bufferListId, fi_bufferIndex info), s1)
              else if length (m_frameBuffers s1) \<le> unat bufferListId then None
              else if fb_nBuffers (m_frameBuffers s1 ! unat bufferListId) \<le> bufferIdx
                then Some ((QC_STATUS_OUT_OF_BOUND, bufferListId, bufferIdx), s1)
              else
                map_option (\<lambda>(ret, s2). ((ret, bufferListId, bufferIdx), s2))
                  (stamp_frame bufferListId bufferIdx frameInfo s1))"

definition cam_notify :: "app_event \<Rightarrow> ('w, 'a) camera \<Rightarrow> ('w, 'a) camera" where
  "cam_notify e s = s\<lparr>app_events := app_events s @ [e]\<rparr>"

definition FrameCallback :: "u32 \<Rightarrow> u32 \<Rightarrow> ('w, 'a) camera \<Rightarrow> ('w, 'a) camera option" where
  "FrameCallback bufferListId bufferIdx s =
     (if \<not> m_callback s then Some s
      else
        (case frame_at bufferListId bufferIdx s of
           None \<Rightarrow> None
         | Some None \<Rightarrow> None
         | Some (Some d) \<Rightarrow>
             if m_state s \<noteq> QC_OBJECT_STATE_RUNNING then Some s
             else if length (m_frameId s) \<le> unat (c_streamId d) then None
             else
               let sid = unat (c_streamId d); d1 = d\<lparr>bufId := m_frameId s ! sid\<rparr>;
                   s1 = (set_frame_desc (unat bufferListId) (unat bufferIdx) d1 s)
                          \<lparr>m_frameId := (m_frameId s)[sid := m_frameId s ! sid + 1]\<rparr>
               in Some (cam_notify \<lparr>ev_frame = [Some (A_Camera d1)], ev_nodeId = cam_nodeId s,
                                ev_status = QC_STATUS_OK, ev_state = m_state s\<rparr> s1)))"

text \<open>The payload of an event travels as the address \<open>pPayLoad\<close>.\<close>

definition EventCallback :: "'w qcarcam \<Rightarrow> u64 \<Rightarrow> ('w, 'a) camera \<Rightarrow> ('w, 'a) camera" where
  "EventCallback Q pPayLoad s =
     (if m_state s = QC_OBJECT_STATE_RUNNING then s
      else if \<not> m_callback s then s
      else
        cam_notify
          \<lparr>ev_frame = [Some (A_Base (QCBufferDescriptorBase_init
                         \<lparr>b_name := ''Camera Event'', pBuf := pPayLoad, b_size := sizeof_event_payload Q\<rparr>))],
           ev_nodeId = cam_nodeId s, ev_status = QC_STATUS_FAIL, ev_state = m_state s\<rparr> s)"

definition frame_ready :: "'w qcarcam \<Rightarrow> QCarCamFrameInfo \<Rightarrow> ('w, 'a) camera \<Rightarrow> ('w, 'a) camera option" where
  "frame_ready Q info s =
     (case GetFrame Q info s of
        None \<Rightarrow> None
      | Some ((ret, bufferListId, bufferIdx), s1) \<Rightarrow>
          if ret = QC_STATUS_OK then FrameCallback bufferListId bufferIdx s1 else Some s1)"

fun frames_ready ::
  "'w qcarcam \<Rightarrow> u64 \<Rightarrow> u64 \<Rightarrow> (u32 \<times> u32 \<times> u32) list \<Rightarrow> ('w, 'a) camera \<Rightarrow> ('w, 'a) camera option" where
  "frames_ready Q ts ptp [] s = Some s"
| "frames_ready Q ts ptp ((lid, idx, flags) # rest) s =
     (case frame_ready Q \<lparr>fi_id = lid, fi_bufferIndex = idx, fi_timestamp = ts, fi_timestampGPTP = ptp,
                          fi_flags = flags\<rparr> s of
        None \<Rightarrow> None
      | Some s1 \<Rightarrow> frames_ready Q ts ptp rest s1)"

definition QcarcamEventCb :: "'w qcarcam \<Rightarrow> qcarcam_event \<Rightarrow> u64 \<Rightarrow> ('w, 'a) camera \<Rightarrow> ('w, 'a) camera option" where
  "QcarcamEventCb Q e pPayload s =
     (case e of
        EVENT_FRAME_READY info \<Rightarrow> frame_ready Q info s
      | EVENT_MULTI_STREAM_FRAME_READY ts ptp frames \<Rightarrow> frames_ready Q ts ptp frames s
      | EVENT_INPUT_SIGNAL \<Rightarrow> Some s
      | EVENT_MC_NOTIFY \<Rightarrow> Some (EventCallback Q pPayload s)
      | EVENT_ERROR \<Rightarrow> Some (EventCallback Q pPayload s)
      | EVENT_OTHER \<Rightarrow> Some s)"

end
