(* ===== verification/QC_Camera.thy ===== *)
theory QC_Camera
  imports QC_CameraImpl
begin

text \<open>
  The camera node: \<^verbatim>\<open>source/Node/Camera/CameraConfig.cpp\<close>, which checks a configuration and reads it
  into the session's, and \<^verbatim>\<open>Camera.cpp\<close>, which puts the configuration, the node base and the session
  together. The node extends the state of its session.

  The check goes on only while the status is OK, except where the code does otherwise; the status and
  the error text so far are threaded through its steps. Reading an image format can throw, the result
  \<open>None\<close>.
\<close>

record ('w, 'j) camera_env =
  ce_qcarcam :: "'w qcarcam"
  ce_dma :: "'w dma_os"
  ce_json :: "'j json_lib"
  ce_string :: "'j \<Rightarrow> string option"
  ce_u32 :: "'j \<Rightarrow> u32 option"
  ce_u32s :: "'j \<Rightarrow> u32 list option"
  ce_u8 :: "'j \<Rightarrow> u8 option"
  ce_bool :: "'j \<Rightarrow> bool option"
  ce_log :: "'w log_backend"
  ce_loggers :: Logger_static

record ('w, 'j) Camera = "'w CameraImpl" +
  node :: NodeBase
  configIfs :: "'j NodeConfigBase"

type_synonym check_result = "QCStatus_e \<times> string"

subsection \<open>Checking a configuration\<close>

definition check_next :: "bool \<Rightarrow> string \<Rightarrow> check_result \<Rightarrow> check_result" where
  "check_next bad msg r = (if fst r = QC_STATUS_OK then cfg_check bad msg r else r)"

definition require_u32 ::
  "('w, 'j) camera_env \<Rightarrow> 'j \<Rightarrow> string \<Rightarrow> string \<Rightarrow> check_result \<Rightarrow> check_result" where
  "require_u32 env dt key what r =
     check_next (DT_Get (ce_json env) (ce_u32 env) dt key (- 1) = - 1)
       (''the '' @ key @ what @ '' is empty, '') r"

text \<open>The buffers of a stream or metadata group: between 1 and 20, none used before.\<close>

fun check_unused ::
  "string \<Rightarrow> nat \<Rightarrow> u32 list \<Rightarrow> check_result \<times> u32 list \<Rightarrow> check_result \<times> u32 list" where
  "check_unused what i [] ru = ru"
| "check_unused what i (bufferId # rest) (r, used) =
     (if bufferId \<in> set used then
        ((QC_STATUS_BAD_ARGUMENTS,
          snd r @ ''duplicate buffer ID '' @ to_string (unat bufferId) @ '' found in '' @ what @ '' '' @
            to_string i @ '', ''), used)
      else check_unused what i rest (r, bufferId # used))"

definition check_buffer_ids ::
  "('w, 'j) camera_env \<Rightarrow> string \<Rightarrow> nat \<Rightarrow> 'j \<Rightarrow> check_result \<times> u32 list \<Rightarrow> check_result \<times> u32 list" where
  "check_buffer_ids env what i dt ru =
     (case ru of (r, used) \<Rightarrow>
        if fst r \<noteq> QC_STATUS_OK then ru
        else
          let ids = DT_GetVector (ce_json env) (ce_u32s env) dt ''bufferIds'' [];
              name = ''the bufferIds size for '' @ what @ '' '' @ to_string i
          in if ids = [] then (cfg_check True (name @ '' is 0, '') r, used)
             else if QCNODE_CAMERA_MAX_BUFFER_NUM < length ids
               then (cfg_check True (name @ '' is larger than maximum, '') r, used)
             else check_unused what i ids ru)"

definition check_stream ::
  "('w, 'j) camera_env \<Rightarrow> nat \<Rightarrow> 'j \<Rightarrow> check_result \<times> u32 list \<Rightarrow> (check_result \<times> u32 list) option" where
  "check_stream env i dt ru =
     (case ru of (r, used) \<Rightarrow>
        let J = ce_json env; which = '' for stream '' @ to_string i;
            streamId = DT_Get J (ce_u32 env) dt ''streamId'' (- 1);
            r1 = (if streamId = - 1 then cfg_check True (''the streamId'' @ which @ '' is empty, '') r
                  else cfg_check (QCNODE_CAMERA_MAX_STREAM_NUM \<le> unat streamId)
                         (''the streamId'' @ which @ '' is larger than maximum, '') r);
            r2 = require_u32 env dt ''height'' which (require_u32 env dt ''width'' which r1)
        in case (if fst r2 = QC_STATUS_OK
                 then map_option (\<lambda>f. cfg_check (f = QC_IMAGE_FORMAT_MAX)
                                        (''the format'' @ which @ '' is empty, '') r2)
                        (DT_GetImageFormat J dt ''format'' QC_IMAGE_FORMAT_MAX)
                 else Some r2) of
             None \<Rightarrow> None
           | Some r3 \<Rightarrow>
               Some (check_buffer_ids env ''stream'' i dt
                 (cfg_check (DT_Get J (ce_u32 env) dt ''submitRequestPattern'' (- 1) = - 1)
                    (''the submitRequestPattern'' @ which @ '' is empty, '') r3, used)))"

definition check_metadata ::
  "('w, 'j) camera_env \<Rightarrow> nat \<Rightarrow> 'j \<Rightarrow> check_result \<times> u32 list \<Rightarrow> (check_result \<times> u32 list) option" where
  "check_metadata env i dt ru =
     (case ru of (r, used) \<Rightarrow>
        Some (check_buffer_ids env ''metadata'' i dt
          (require_u32 env dt ''bufferListId'' ('' for metadata '' @ to_string i) r, used)))"

text \<open>Both loops stop at the first stream or group with an error.\<close>

fun check_each ::
  "(nat \<Rightarrow> 'j \<Rightarrow> check_result \<times> u32 list \<Rightarrow> (check_result \<times> u32 list) option) \<Rightarrow> nat \<Rightarrow> 'j list \<Rightarrow>
     check_result \<times> u32 list \<Rightarrow> (check_result \<times> u32 list) option" where
  "check_each check i [] ru = Some ru"
| "check_each check i (dt # dts) ru =
     (case check i dt ru of
        None \<Rightarrow> None
      | Some (r, used) \<Rightarrow>
          if fst r \<noteq> QC_STATUS_OK then Some (r, used) else check_each check (Suc i) dts (r, used))"

definition check_trees ::
  "('w, 'j) camera_env \<Rightarrow> 'j \<Rightarrow> string \<Rightarrow> check_result \<Rightarrow> check_result \<times> 'j list" where
  "check_trees env dt key r =
     (if fst r \<noteq> QC_STATUS_OK then (r, [])
      else
        (case DT_GetTrees (ce_json env) dt key [] of
           (status, dts) \<Rightarrow>
             ((status, if status \<noteq> QC_STATUS_OK then snd r @ ''the '' @ key @ '' is invalid'' else snd r),
              dts)))"

definition VerifyStaticConfig ::
  "('w, 'j) camera_env \<Rightarrow> 'j \<Rightarrow> string \<Rightarrow> check_result option" where
  "VerifyStaticConfig env dt errors =
     (let J = ce_json env; need = (\<lambda>key. require_u32 env dt key '''');
          r1 = cfg_check (DT_Get J (ce_string env) dt ''name'' '''' = '''') ''the name is empty, ''
                 (QC_STATUS_OK, errors);
          r2 = need ''camFrameDropPattern'' (need ''ispUseCase'' (need ''inputMode'' (need ''srcId''
                 (need ''clientId'' (need ''inputId'' (need ''id'' r1))))));
          r3 = check_next (DT_Get J (ce_u8 env) dt ''camFrameDropPeriod'' (- 1) = - 1)
                 ''the camFrameDropPeriod is empty, '' r2;
          (r4, streams) = check_trees env dt ''streamConfigs'' (need ''opMode'' r3);
          r5 = check_next (QCNODE_CAMERA_MAX_STREAM_NUM < length streams)
                 ''the streamNum is larger than maximum, '' r4;
          r6 = check_next (streams = []) ''the streamNum is 0, '' r5
      in case (if fst r6 = QC_STATUS_OK then check_each (check_stream env) 0 streams (r6, [])
               else Some (r6, [])) of
           None \<Rightarrow> None
         | Some (r7, used) \<Rightarrow>
             if fst r7 = QC_STATUS_OK \<and> DT_Get J (ce_bool env) dt ''enableMetaData'' False then
               let (r8, groups) = check_trees env dt ''metaDataConfigs'' r7;
                   r9 = check_next (groups = []) ''the number of metadata configs is 0, '' r8
               in if fst r9 = QC_STATUS_OK
                  then map_option fst (check_each (check_metadata env) 0 groups (r9, used))
                  else Some r9
             else Some r7)"

subsection \<open>Reading a configuration\<close>

definition parse_stream :: "('w, 'j) camera_env \<Rightarrow> 'j \<Rightarrow> CameraStreamConfig option" where
  "parse_stream env dt =
     (let J = ce_json env
      in map_option (\<lambda>fmt.
           \<lparr>sc_streamId = DT_Get J (ce_u32 env) dt ''streamId'' (- 1),
            sc_width = DT_Get J (ce_u32 env) dt ''width'' (- 1),
            sc_height = DT_Get J (ce_u32 env) dt ''height'' (- 1),
            sc_submitRequestPattern = DT_Get J (ce_u32 env) dt ''submitRequestPattern'' (- 1),
            sc_format = fmt,
            sc_bufferIds = DT_GetVector J (ce_u32s env) dt ''bufferIds'' []\<rparr>)
         (DT_GetImageFormat J dt ''format'' QC_IMAGE_FORMAT_MAX))"

definition parse_metadata :: "('w, 'j) camera_env \<Rightarrow> 'j \<Rightarrow> CameraMetaDataConfig" where
  "parse_metadata env dt =
     \<lparr>mc_bufferListId = DT_Get (ce_json env) (ce_u32 env) dt ''bufferListId'' (- 1),
      mc_bufferIds = DT_GetVector (ce_json env) (ce_u32s env) dt ''bufferIds'' []\<rparr>"

text \<open>The streams and groups are added to those the configuration already holds.\<close>

definition ParseStaticConfig ::
  "('w, 'j) camera_env \<Rightarrow> 'j \<Rightarrow> string \<Rightarrow> CameraImplConfig \<Rightarrow> (check_result \<times> CameraImplConfig) option" where
  "ParseStaticConfig env dt errors c =
     (case VerifyStaticConfig env dt errors of
        None \<Rightarrow> None
      | Some r \<Rightarrow>
          if fst r \<noteq> QC_STATUS_OK then Some (r, c)
          else
            let J = ce_json env; u32_of = (\<lambda>key. DT_Get J (ce_u32 env) dt key (- 1));
                bool_of = DT_Get J (ce_bool env) dt;
                c1 = c\<lparr>cc_nodeId := (cc_nodeId c)\<lparr>n_name := DT_Get J (ce_string env) dt ''name'' '''',
                                                  n_id := DT_Get J (ce_u8 env) dt ''id'' (- 1)\<rparr>,
                       cc_inputId := u32_of ''inputId'', cc_clientId := u32_of ''clientId'',
                       cc_srcId := u32_of ''srcId'', cc_inputMode := u32_of ''inputMode'',
                       cc_ispUseCase := u32_of ''ispUseCase'',
                       cc_camFrameDropPattern := u32_of ''camFrameDropPattern'',
                       cc_camFrameDropPeriod := DT_Get J (ce_u8 env) dt ''camFrameDropPeriod'' (- 1),
                       cc_opMode := u32_of ''opMode''\<rparr>;
                (status, streams) = DT_GetTrees J dt ''streamConfigs'' []
            in if status \<noteq> QC_STATUS_OK then Some ((status, snd r), c1)
               else
                 (case those (map (parse_stream env) streams) of
                    None \<Rightarrow> None
                  | Some scs \<Rightarrow>
                      let c2 = c1\<lparr>cc_streamConfigs := cc_streamConfigs c1 @ scs,
                                  cc_bRequestMode := bool_of ''requestMode'' True,
                                  cc_bPrimary := bool_of ''primary'' True,
                                  cc_bEnalbleMetaData := bool_of ''enableMetaData'' False,
                                  cc_bMultiStreamFrameReady := bool_of ''enableMultiStreamFrameReady'' False,
                                  cc_bRecovery := bool_of ''recovery'' False\<rparr>
                      in if \<not> cc_bEnalbleMetaData c2 then Some (r, c2)
                         else
                           (case DT_GetTrees J dt ''metaDataConfigs'' [] of
                              (status2, groups) \<Rightarrow>
                                Some ((status2, snd r),
                                  if status2 = QC_STATUS_OK
                                  then c2\<lparr>cc_metaDataConfigs :=
                                            cc_metaDataConfigs c2 @ map (parse_metadata env) groups\<rparr>
                                  else c2))))"

definition CameraConfig_VerifyAndSet ::
  "('w, 'j) camera_env \<Rightarrow> string \<Rightarrow> ('w, 'j) Camera \<Rightarrow> (check_result \<times> ('w, 'j) Camera) option" where
  "CameraConfig_VerifyAndSet env config s =
     (let J = ce_json env;
          ((status, errors), ci, lg, w) =
            NodeConfigBase_VerifyAndSet J (ce_string env) (ce_log env) (ce_loggers env) config
              (configIfs s) (m_logger (node s)) (cam_world s);
          s1 = s\<lparr>configIfs := ci, node := (node s)\<lparr>m_logger := lg\<rparr>, cam_world := w\<rparr>
      in if status \<noteq> QC_STATUS_OK then Some ((status, errors), s1)
         else
           (case DT_GetTree J (m_dataTree ci) ''static'' (j_null J) of
              (status2, dt) \<Rightarrow>
                if status2 \<noteq> QC_STATUS_OK then Some ((status2, errors), s1)
                else map_option (\<lambda>(r, c). (r, s1\<lparr>m_config := c\<rparr>))
                       (ParseStaticConfig env dt errors (m_config s1))))"

subsection \<open>The node\<close>

text \<open>The session refers to the identity of the node.\<close>

definition camera_base_init :: "('w, 'j) camera_env \<Rightarrow> ('w, 'j) Camera \<Rightarrow> QCStatus_e \<times> ('w, 'j) Camera" where
  "camera_base_init env s =
     (let (status, nb, w) =
        NodeBase_Init (ce_log env) (ce_loggers env) (cc_nodeId (m_config s)) LOGGER_LEVEL_ERROR (node s)
          (cam_world s)
      in (status, s\<lparr>node := nb, cam_nodeId := m_nodeId nb, cam_world := w\<rparr>))"

definition camera_base_deinit :: "('w, 'j) camera_env \<Rightarrow> ('w, 'j) Camera \<Rightarrow> QCStatus_e \<times> ('w, 'j) Camera" where
  "camera_base_deinit env s =
     (let (status, nb, w) = NodeBase_DeInitialize (ce_log env) (node s) (cam_world s)
      in (status, s\<lparr>node := nb, cam_world := w\<rparr>))"

definition Camera_Initialize ::
  "('w, 'j) camera_env \<Rightarrow> camera_static \<Rightarrow> string \<Rightarrow> bool \<Rightarrow> any_buffer list \<Rightarrow> ('w, 'j) Camera \<Rightarrow>
     (QCStatus_e \<times> ('w, 'j) Camera) option" where
  "Camera_Initialize env st config callback buffers s =
     (case CameraConfig_VerifyAndSet env config s of
        None \<Rightarrow> None
      | Some (r, s1) \<Rightarrow>
          if fst r \<noteq> QC_STATUS_OK then Some (fst r, s1)
          else
            (case camera_base_init env s1 of
               (status, s2) \<Rightarrow>
                 if status \<noteq> QC_STATUS_OK then Some (status, s2)
                 else
                   map_option (\<lambda>(ret, s3).
                     (ret, if ret \<noteq> QC_STATUS_OK then snd (camera_base_deinit env s3) else s3))
                   (CameraImpl_Initialize (ce_qcarcam env) (ce_dma env) st callback buffers s2)))"

definition Camera_DeInitialize ::
  "('w, 'j) camera_env \<Rightarrow> ('w, 'j) Camera \<Rightarrow> (QCStatus_e \<times> ('w, 'j) Camera) option" where
  "Camera_DeInitialize env s =
     map_option (\<lambda>(ret, s1).
       case camera_base_deinit env s1 of
         (ret2, s2) \<Rightarrow> (if ret2 \<noteq> QC_STATUS_OK then ret2 else ret, s2))
     (CameraImpl_DeInitialize (ce_qcarcam env) (ce_dma env) s)"

definition Camera_Start :: "('w, 'j) camera_env \<Rightarrow> ('w, 'j) Camera \<Rightarrow> QCStatus_e \<times> ('w, 'j) Camera" where
  "Camera_Start env s = CameraImpl_Start (ce_qcarcam env) s"

definition Camera_Stop :: "('w, 'j) camera_env \<Rightarrow> ('w, 'j) Camera \<Rightarrow> QCStatus_e \<times> ('w, 'j) Camera" where
  "Camera_Stop env s = CameraImpl_Stop (ce_qcarcam env) s"

definition Camera_ProcessFrameDescriptor ::
  "('w, 'j) camera_env \<Rightarrow> any_buffer option list \<Rightarrow> ('w, 'j) Camera \<Rightarrow>
     (QCStatus_e \<times> ('w, 'j) Camera) option" where
  "Camera_ProcessFrameDescriptor env frameDesc s =
     CameraImpl_ProcessFrameDescriptor (ce_qcarcam env)
       (case frameDesc of [] \<Rightarrow> None | b # _ \<Rightarrow> b) s"

end
