(* ===== verification/QC_CameraRequests.thy ===== *)
theory QC_CameraRequests
  imports QC_Camera
begin

text \<open>
  The requests a camera session sends in request mode. The library is any \<open>qcarcam\<close>, made to keep the
  accepted requests next to its own state. A session starts with the start of the camera and goes on
  with frames the library announces and frames the application hands back; \<open>held\<close> is what the library
  has been given and has not announced, \<open>app\<close> what was announced and not handed back.

  The lemmas give the effect of one round of requests in closed form: which streams are due, what
  their counters become, and which buffers leave the queues.
\<close>

subsection \<open>The requests the library accepted\<close>

type_synonym frame_id = "u32 \<times> u32"

definition requested :: "QCarCamRequest \<Rightarrow> frame_id list" where
  "requested rq =
     map (\<lambda>r. (sr_bufferlistId r, sr_bufferIdx r))
       (take (unat (rq_numStreamRequests rq)) (rq_streamRequests rq))"

definition logged :: "('w \<Rightarrow> 'r \<times> 'w) \<Rightarrow> 'w \<times> 'l \<Rightarrow> 'r \<times> 'w \<times> 'l" where
  "logged f wl = (case f (fst wl) of (r, w) \<Rightarrow> (r, w, snd wl))"

definition log_requests :: "'w qcarcam \<Rightarrow> ('w \<times> QCarCamRequest list) qcarcam" where
  "log_requests Q =
     \<lparr>QCarCamInitialize = logged (QCarCamInitialize Q),
      QCarCamUninitialize = logged (QCarCamUninitialize Q),
      QCarCamCountInputs = logged (QCarCamCountInputs Q),
      QCarCamQueryInputs = (\<lambda>n. logged (QCarCamQueryInputs Q n)),
      QCarCamQueryInputModes = (\<lambda>i n. logged (QCarCamQueryInputModes Q i n)),
      QCarCamOpen = (\<lambda>p. logged (QCarCamOpen Q p)),
      QCarCamClose = (\<lambda>h. logged (QCarCamClose Q h)),
      QCarCamRegisterEventCallback = (\<lambda>h. logged (QCarCamRegisterEventCallback Q h)),
      QCarCamSetParam = (\<lambda>h p. logged (QCarCamSetParam Q h p)),
      QCarCamReserve = (\<lambda>h. logged (QCarCamReserve Q h)),
      QCarCamRelease = (\<lambda>h. logged (QCarCamRelease Q h)),
      QCarCamStart = (\<lambda>h. logged (QCarCamStart Q h)),
      QCarCamStop = (\<lambda>h. logged (QCarCamStop Q h)),
      QCarCamSetBuffers = (\<lambda>h b. logged (QCarCamSetBuffers Q h b)),
      QCarCamGetBuffers = (\<lambda>h b. logged (QCarCamGetBuffers Q h b)),
      QCarCamSubmitRequest = (\<lambda>h rq (w, l). case QCarCamSubmitRequest Q h rq w of
          (ok, w1) \<Rightarrow> (ok, w1, if ok then l @ [rq] else l)),
      QCarCamGetFrame = (\<lambda>h i. logged (QCarCamGetFrame Q h i)),
      QCarCamReleaseFrame = (\<lambda>h i b. logged (QCarCamReleaseFrame Q h i b)),
      QCARCAM_HNDL_INVALID = QCARCAM_HNDL_INVALID Q,
      QCARCAM_MAX_NUM_PLANES = QCARCAM_MAX_NUM_PLANES Q,
      sizeof_event_payload = sizeof_event_payload Q,
      sleep_100ms = (\<lambda>(w, l). (sleep_100ms Q w, l)),
      uninit_buffer = uninit_buffer Q, uninit_frame = uninit_frame Q\<rparr>"

abbreviation sent :: "('w \<times> QCarCamRequest list, 'a) camera \<Rightarrow> QCarCamRequest list" where
  "sent s \<equiv> snd (cam_world s)"

lemma submit_logged:
  obtains ok w where "submit (log_requests Q) rq s =
    (if ok then QC_STATUS_OK else QC_STATUS_FAIL,
     s\<lparr>m_requestId := m_requestId s + 1,
       cam_world := (w, sent s @ (if ok then [rq\<lparr>rq_requestId := m_requestId s\<rparr>] else []))\<rparr>)"
proof -
  obtain w l where wl: "cam_world s = (w, l)" by (cases "cam_world s")
  obtain ok w1 where c: "QCarCamSubmitRequest Q (m_QcarCamHndl s) (rq\<lparr>rq_requestId := m_requestId s\<rparr>) w
      = (ok, w1)" by fastforce
  show thesis
    by (rule that [of ok w1])
      (simp add: submit_def cam_call_def on_world_def log_requests_def wl c)
qed

lemma call_logged:
  obtains ok w where "cam_call (logged f) s =
    (if ok then QC_STATUS_OK else QC_STATUS_FAIL, s\<lparr>cam_world := (w, sent s)\<rparr>)"
  by (cases "f (fst (cam_world s))") (auto simp: cam_call_def on_world_def logged_def)

lemma requested_id [simp]: "requested (rq\<lparr>rq_requestId := n\<rparr>) = requested rq"
  by (simp add: requested_def)

subsection \<open>Building a request\<close>

definition rq_ok :: "nat \<Rightarrow> QCarCamRequest \<Rightarrow> bool" where
  "rq_ok k rq \<longleftrightarrow> length (rq_streamRequests rq) = QCNODE_CAMERA_MAX_STREAM_NUM \<and>
     unat (rq_numStreamRequests rq) \<le> k"

lemma rq_ok_none [simp]: "rq_ok k no_request"
  by (simp add: rq_ok_def no_request_def)

lemma rq_ok_mono: "rq_ok k rq \<Longrightarrow> k \<le> m \<Longrightarrow> rq_ok m rq"
  by (simp add: rq_ok_def)

lemma requested_none [simp]: "requested no_request = []"
  by (simp add: requested_def no_request_def)

lemma length_requested: "rq_ok k rq \<Longrightarrow> k \<le> QCNODE_CAMERA_MAX_STREAM_NUM \<Longrightarrow>
    length (requested rq) = unat (rq_numStreamRequests rq)"
  by (simp add: requested_def rq_ok_def)

lemma add_stream_request_ok:
  assumes "rq_ok k rq" "k < QCNODE_CAMERA_MAX_STREAM_NUM"
  shows "rq_ok (Suc k) (add_stream_request l x rq)"
    and "requested (add_stream_request l x rq) = requested rq @ [(l, x)]"
proof -
  have n: "unat (rq_numStreamRequests rq + 1) = Suc (unat (rq_numStreamRequests rq))"
    using assms by (simp add: rq_ok_def unat_word_ariths)
  from assms n show "rq_ok (Suc k) (add_stream_request l x rq)"
    by (simp add: rq_ok_def add_stream_request_def)
  from assms n show "requested (add_stream_request l x rq) = requested rq @ [(l, x)]"
    by (simp add: rq_ok_def add_stream_request_def requested_def take_Suc_conv_app_nth
        no_stream_request_def)
qed

subsection \<open>One round\<close>

definition sid :: "('w, 'a) camera \<Rightarrow> nat \<Rightarrow> u32" where
  "sid s i = sc_streamId (m_streamConfigs s ! i)"

lemma sid_update [simp]:
  "sid (s\<lparr>m_submitRequestPattern := ps\<rparr>) i = sid s i"
  "sid (s\<lparr>m_freeBufIdxQueue := qs\<rparr>) i = sid s i"
  by (simp_all add: sid_def)

definition free_of :: "('w, 'a) camera \<Rightarrow> nat \<Rightarrow> u32 list" where
  "free_of s i = m_freeBufIdxQueue s ! unat (sid s i)"

definition due :: "('w, 'a) camera \<Rightarrow> nat \<Rightarrow> bool" where
  "due s i \<longleftrightarrow> m_submitRequestPattern s ! i \<le> 1"

definition chosen :: "('w, 'a) camera \<Rightarrow> nat \<Rightarrow> bool" where
  "chosen s i \<longleftrightarrow> due s i \<and> free_of s i \<noteq> []"

definition counter_after :: "('w, 'a) camera \<Rightarrow> nat \<Rightarrow> u32" where
  "counter_after s i =
     (let p = m_submitRequestPattern s ! i
      in if chosen s i then sc_submitRequestPattern (m_streamConfigs s ! i)
         else if 0 < p then p - 1 else p)"

definition streams_ok :: "('w, 'a) camera \<Rightarrow> bool" where
  "streams_ok s \<longleftrightarrow>
     m_streamNum s \<le> QCNODE_CAMERA_MAX_STREAM_NUM \<and> m_streamNum s \<le> length (m_streamConfigs s) \<and>
     m_streamNum s \<le> length (m_submitRequestPattern s) \<and>
     length (m_freeBufIdxQueue s) = QCNODE_CAMERA_MAX_STREAM_NUM \<and>
     (\<forall>i < m_streamNum s. unat (sid s i) < QCNODE_CAMERA_MAX_STREAM_NUM) \<and>
     inj_on (sid s) {..<m_streamNum s}"

lemma word_pred_zero: "(if 0 < p then p - 1 else p) = 0 \<longleftrightarrow> p \<le> 1" for p :: u32
proof -
  have "p \<le> 1 \<longleftrightarrow> p = 0 \<or> p = 1" by (auto simp: word_le_nat_alt word_unat_eq_iff le_Suc_eq)
  then show ?thesis by (auto simp: word_gt_0)
qed

lemma same_stream:
  assumes "streams_ok s" "i < m_streamNum s" "j < m_streamNum s" "unat (sid s i) = unat (sid s j)"
  shows "i = j"
  using assms by (auto simp: streams_ok_def inj_on_def word_unat_eq_iff)

text \<open>The state of a round after the first \<open>k\<close> streams.\<close>

definition round_to :: "('w, 'a) camera \<Rightarrow> nat \<Rightarrow> u32 list \<Rightarrow> u32 list list \<Rightarrow> bool" where
  "round_to s k ps qs \<longleftrightarrow>
     length ps = length (m_submitRequestPattern s) \<and> length qs = length (m_freeBufIdxQueue s) \<and>
     (\<forall>j < length ps. ps ! j = (if j < k then counter_after s j else m_submitRequestPattern s ! j)) \<and>
     (\<forall>l < length qs. qs ! l =
        (if \<exists>i < k. unat (sid s i) = l \<and> chosen s i then tl (m_freeBufIdxQueue s ! l)
         else m_freeBufIdxQueue s ! l))"

lemma request_stream_step:
  assumes ok: "streams_ok s" and k: "k < m_streamNum s" and r: "round_to s k ps qs"
  shows "\<exists>ps' qs'. round_to s (Suc k) ps' qs' \<and>
     request_stream k (rq, s\<lparr>m_submitRequestPattern := ps, m_freeBufIdxQueue := qs\<rparr>) =
       (if chosen s k then add_stream_request (sid s k) (hd (free_of s k)) rq else rq,
        s\<lparr>m_submitRequestPattern := ps', m_freeBufIdxQueue := qs'\<rparr>)"
proof -
  let ?p = "m_submitRequestPattern s ! k" and ?l = "unat (sid s k)"
  have len: "k < length ps" "?l < length qs"
    using ok k r by (auto simp: streams_ok_def round_to_def)
  have psk: "ps ! k = ?p" using r len by (simp add: round_to_def)
  have other: "\<not> (\<exists>i < k. unat (sid s i) = ?l \<and> chosen s i)"
    using same_stream [OF ok _ k] k by (metis less_trans less_irrefl)
  have "qs ! ?l = (if \<exists>i < k. unat (sid s i) = ?l \<and> chosen s i
        then tl (m_freeBufIdxQueue s ! ?l) else m_freeBufIdxQueue s ! ?l)"
    using r len unfolding round_to_def by blast
  then have qsl: "qs ! ?l = free_of s k" by (simp only: other if_False free_of_def)
  define p1 where "p1 = (if 0 < ?p then ?p - 1 else ?p)"
  have due: "p1 = 0 \<longleftrightarrow> due s k" unfolding due_def p1_def by (rule word_pred_zero)
  have step: "request_stream k (rq, s\<lparr>m_submitRequestPattern := ps, m_freeBufIdxQueue := qs\<rparr>) =
      (if p1 \<noteq> 0 then (rq, s\<lparr>m_submitRequestPattern := ps[k := p1], m_freeBufIdxQueue := qs\<rparr>)
       else case free_of s k of
           [] \<Rightarrow> (rq, s\<lparr>m_submitRequestPattern := ps[k := p1], m_freeBufIdxQueue := qs\<rparr>)
         | x # xs \<Rightarrow> (add_stream_request (sid s k) x rq,
             s\<lparr>m_submitRequestPattern := ps[k := sc_submitRequestPattern (m_streamConfigs s ! k)],
               m_freeBufIdxQueue := qs[?l := xs]\<rparr>))"
    unfolding request_stream_def p1_def
    by (simp add: Let_def psk qsl sid_def [symmetric] split: list.split)
  have less: "i < Suc k \<longleftrightarrow> i = k \<or> i < k" for i by auto
  show ?thesis
  proof (cases "chosen s k")
    case True
    then obtain x xs where f: "free_of s k = x # xs" and d: "due s k"
      by (auto simp: chosen_def neq_Nil_conv)
    let ?ps = "ps[k := sc_submitRequestPattern (m_streamConfigs s ! k)]" and ?qs = "qs[?l := xs]"
    have "counter_after s k = sc_submitRequestPattern (m_streamConfigs s ! k)"
      using True by (simp add: counter_after_def)
    then have "round_to s (Suc k) ?ps ?qs"
      using r True f len other unfolding round_to_def less
      by (auto simp: nth_list_update free_of_def)
    moreover have "request_stream k (rq, s\<lparr>m_submitRequestPattern := ps, m_freeBufIdxQueue := qs\<rparr>) =
       (add_stream_request (sid s k) x rq, s\<lparr>m_submitRequestPattern := ?ps, m_freeBufIdxQueue := ?qs\<rparr>)"
      using step d due f by simp
    ultimately show ?thesis using True f by (auto intro!: exI [of _ ?ps] exI [of _ ?qs])
  next
    case False
    let ?ps = "ps[k := p1]"
    have "counter_after s k = p1" using False by (simp add: counter_after_def Let_def p1_def)
    then have "round_to s (Suc k) ?ps qs"
      using r False len unfolding round_to_def less by (auto simp: nth_list_update)
    moreover have "request_stream k (rq, s\<lparr>m_submitRequestPattern := ps, m_freeBufIdxQueue := qs\<rparr>) =
       (rq, s\<lparr>m_submitRequestPattern := ?ps, m_freeBufIdxQueue := qs\<rparr>)"
      using step False due by (auto simp: chosen_def)
    ultimately show ?thesis using False by (auto intro!: exI [of _ ?ps] exI [of _ qs])
  qed
qed

lemma request_round:
  assumes ok: "streams_ok s"
  shows "k \<le> m_streamNum s \<Longrightarrow>
    \<exists>rq ps qs. fold request_stream [0..<k] (no_request, s) =
        (rq, s\<lparr>m_submitRequestPattern := ps, m_freeBufIdxQueue := qs\<rparr>) \<and>
      round_to s k ps qs \<and> rq_ok k rq \<and>
      requested rq = map (\<lambda>i. (sid s i, hd (free_of s i))) (filter (chosen s) [0..<k])"
proof (induction k)
  case 0
  have "round_to s 0 (m_submitRequestPattern s) (m_freeBufIdxQueue s)" by (simp add: round_to_def)
  then show ?case
    by (auto intro!: exI [of _ "m_submitRequestPattern s"] exI [of _ "m_freeBufIdxQueue s"])
next
  case (Suc k)
  then obtain rq ps qs where
    f: "fold request_stream [0..<k] (no_request, s) =
          (rq, s\<lparr>m_submitRequestPattern := ps, m_freeBufIdxQueue := qs\<rparr>)"
    and r: "round_to s k ps qs" and rq: "rq_ok k rq"
    and req: "requested rq = map (\<lambda>i. (sid s i, hd (free_of s i))) (filter (chosen s) [0..<k])"
    by auto
  from Suc.prems have k: "k < m_streamNum s" by simp
  with ok have k32: "k < QCNODE_CAMERA_MAX_STREAM_NUM" by (simp add: streams_ok_def)
  from request_stream_step [OF ok k r, of rq] obtain ps' qs' where
    r': "round_to s (Suc k) ps' qs'"
    and s': "request_stream k (rq, s\<lparr>m_submitRequestPattern := ps, m_freeBufIdxQueue := qs\<rparr>) =
       (if chosen s k then add_stream_request (sid s k) (hd (free_of s k)) rq else rq,
        s\<lparr>m_submitRequestPattern := ps', m_freeBufIdxQueue := qs'\<rparr>)"
    by auto
  show ?case
    using f s' r' add_stream_request_ok [OF rq k32] rq_ok_mono [OF rq, of "Suc k"] req
    by (auto intro!: exI [of _ ps'] exI [of _ qs'])
qed

subsection \<open>Handing a frame back\<close>

definition push :: "CameraFrameDescriptor \<Rightarrow> ('w, 'a) camera \<Rightarrow> ('w, 'a) camera" where
  "push d s =
     s\<lparr>m_freeBufIdxQueue := (m_freeBufIdxQueue s)
         [unat (c_streamId d) := m_freeBufIdxQueue s ! unat (c_streamId d) @ [c_frameIdx d]]\<rparr>"

lemma push_sid [simp]: "sid (push d s) = sid s"
  by (rule ext) (simp add: push_def sid_def)

lemma push_fields [simp]:
  "m_streamNum (push d s) = m_streamNum s"
  "m_submitRequestPattern (push d s) = m_submitRequestPattern s"
  "m_streamConfigs (push d s) = m_streamConfigs s" "cam_world (push d s) = cam_world s"
  "m_refStreamId (push d s) = m_refStreamId s" "m_requestId (push d s) = m_requestId s"
  "m_bRequestPatternMode (push d s) = m_bRequestPatternMode s"
  "m_clientId (push d s) = m_clientId s" "m_bIsPrimary (push d s) = m_bIsPrimary s"
  "m_QcarCamHndl (push d s) = m_QcarCamHndl s"
  "length (m_freeBufIdxQueue (push d s)) = length (m_freeBufIdxQueue s)"
  "due (push d s) i = due s i" "streams_ok (push d s) = streams_ok s"
  by (simp_all add: push_def due_def streams_ok_def push_sid [unfolded push_def])

lemma free_of_push:
  "streams_ok s \<Longrightarrow> i < m_streamNum s \<Longrightarrow>
   free_of (push d s) i = free_of s i @ (if sid s i = c_streamId d then [c_frameIdx d] else [])"
  by (auto simp: push_def free_of_def nth_list_update streams_ok_def word_unat_eq_iff)

text \<open>A frame of another stream is only queued; the reference frame starts a round, whose request is sent
  when it names a buffer.\<close>

definition requesting :: "('w, 'a) camera \<Rightarrow> bool" where
  "requesting s \<longleftrightarrow> streams_ok s \<and> m_bRequestPatternMode s \<and> (m_clientId s = 0 \<or> m_bIsPrimary s)"

definition after_round ::
  "u32 list \<Rightarrow> u32 list list \<Rightarrow> ('w, 'a) camera \<Rightarrow> ('w, 'a) camera" where
  "after_round ps qs s = s\<lparr>m_submitRequestPattern := ps, m_freeBufIdxQueue := qs\<rparr>"

lemma after_round_fields [simp]:
  "sid (after_round ps qs s) i = sid s i" "m_streamNum (after_round ps qs s) = m_streamNum s"
  "m_submitRequestPattern (after_round ps qs s) = ps" "m_freeBufIdxQueue (after_round ps qs s) = qs"
  "m_streamConfigs (after_round ps qs s) = m_streamConfigs s"
  "cam_world (after_round ps qs s) = cam_world s" "m_requestId (after_round ps qs s) = m_requestId s"
  "m_refStreamId (after_round ps qs s) = m_refStreamId s"
  "m_bRequestPatternMode (after_round ps qs s) = m_bRequestPatternMode s"
  "m_clientId (after_round ps qs s) = m_clientId s" "m_bIsPrimary (after_round ps qs s) = m_bIsPrimary s"
  by (simp_all add: after_round_def sid_def)

lemma hand_back_other:
  assumes "requesting s" "unat (c_streamId d) < QCNODE_CAMERA_MAX_STREAM_NUM"
    and "c_streamId d \<noteq> m_refStreamId s"
  shows "SubmitRequest_frame Q d s = Some (QC_STATUS_OK, push d s)"
  using assms by (auto simp: SubmitRequest_frame_def Let_def requesting_def streams_ok_def push_def
      no_request_def)

lemma hand_back_reference:
  assumes r: "requesting s" and l: "unat (c_streamId d) < QCNODE_CAMERA_MAX_STREAM_NUM"
    and ref: "c_streamId d = m_refStreamId s"
  obtains rq ps qs where "round_to (push d s) (m_streamNum s) ps qs" "rq_ok (m_streamNum s) rq"
    and "requested rq =
           map (\<lambda>i. (sid s i, hd (free_of (push d s) i))) (filter (chosen (push d s)) [0..<m_streamNum s])"
    and "SubmitRequest_frame Q d s =
           Some (if requested rq \<noteq> [] then submit Q rq (after_round ps qs (push d s))
                 else (QC_STATUS_OK, after_round ps qs (push d s)))"
proof -
  have n: "m_streamNum s \<le> QCNODE_CAMERA_MAX_STREAM_NUM"
    using r by (simp add: requesting_def streams_ok_def)
  obtain rq ps qs where
    f: "fold request_stream [0..<m_streamNum s] (no_request, push d s) =
          (rq, after_round ps qs (push d s))"
    and rd: "round_to (push d s) (m_streamNum s) ps qs" and ok: "rq_ok (m_streamNum s) rq"
    and q: "requested rq =
      map (\<lambda>i. (sid s i, hd (free_of (push d s) i))) (filter (chosen (push d s)) [0..<m_streamNum s])"
    using request_round [of "push d s" "m_streamNum s"] r
    by (auto simp: requesting_def after_round_def)
  have "0 < rq_numStreamRequests rq \<longleftrightarrow> 0 < length (requested rq)"
    using length_requested [OF ok n] by (simp add: word_less_nat_alt)
  then have "0 < rq_numStreamRequests rq \<longleftrightarrow> requested rq \<noteq> []" by simp
  then have "SubmitRequest_frame Q d s =
      Some (if requested rq \<noteq> [] then submit Q rq (after_round ps qs (push d s))
            else (QC_STATUS_OK, after_round ps qs (push d s)))"
    using r l ref f
    by (auto simp: SubmitRequest_frame_def Let_def requesting_def streams_ok_def push_def)
  with rd ok q show thesis by (rule that)
qed

subsection \<open>How often a stream is requested\<close>

fun hand_back :: "'w qcarcam \<Rightarrow> CameraFrameDescriptor list \<Rightarrow> ('w, 'a) camera \<Rightarrow> ('w, 'a) camera option" where
  "hand_back Q [] s = Some s"
| "hand_back Q (d # ds) s =
     (case SubmitRequest_frame Q d s of
        Some (QC_STATUS_OK, s1) \<Rightarrow> hand_back Q ds s1
      | _ \<Rightarrow> None)"

text \<open>The stream at place \<open>i\<close> has a free buffer whenever a reference frame is handed back.\<close>

fun supplied :: "'w qcarcam \<Rightarrow> nat \<Rightarrow> CameraFrameDescriptor list \<Rightarrow> ('w, 'a) camera \<Rightarrow> bool" where
  "supplied Q i [] s = True"
| "supplied Q i (d # ds) s =
     ((c_streamId d = m_refStreamId s \<longrightarrow> free_of s i \<noteq> [] \<or> sid s i = c_streamId d) \<and>
      (case SubmitRequest_frame Q d s of None \<Rightarrow> True | Some (ret, s1) \<Rightarrow> supplied Q i ds s1))"

definition counts :: "nat \<Rightarrow> u32 \<Rightarrow> u32 \<Rightarrow> bool" where
  "counts k p c \<longleftrightarrow> (if p = 0 then c = 0 else unat c = unat p - k mod unat p)"

lemma counts_due: "counts k p c \<Longrightarrow> c \<le> 1 \<longleftrightarrow> p = 0 \<or> unat p dvd Suc k"
proof -
  assume c: "counts k p c"
  show ?thesis
  proof (cases "p = 0")
    case False
    then have "k mod unat p < unat p" by (simp add: unat_gt_0)
    moreover have "c \<le> 1 \<longleftrightarrow> unat c \<le> 1" by (simp add: word_le_nat_alt)
    ultimately have "c \<le> 1 \<longleftrightarrow> Suc (k mod unat p) = unat p"
      using c False by (auto simp: counts_def)
    then show ?thesis using False by (simp add: dvd_eq_mod_eq_0 mod_Suc)
  qed (use c in \<open>simp add: counts_def\<close>)
qed

lemma counts_step:
  assumes c: "counts k p c"
  shows "counts (Suc k) p (if c \<le> 1 then p else if 0 < c then c - 1 else c)"
proof (cases "p = 0")
  case False
  then have p: "0 < unat p" by (simp add: unat_gt_0)
  show ?thesis
  proof (cases "c \<le> 1")
    case True
    then have "unat p dvd Suc k" using counts_due [OF c] False by simp
    then show ?thesis using True False by (simp add: counts_def dvd_eq_mod_eq_0)
  next
    case big: False
    then have c0: "c \<noteq> 0" and "\<not> unat p dvd Suc k" using counts_due [OF c] by auto
    then have "Suc k mod unat p = Suc (k mod unat p)"
      using mod_Suc [of k "unat p"] by (auto simp: dvd_eq_mod_eq_0 split: if_splits)
    moreover have "unat (c - 1) = unat c - 1" using c0 by (simp add: unat_minus_one)
    ultimately show ?thesis
      using c big c0 False by (simp add: counts_def word_gt_0)
  qed
qed (use c in \<open>simp add: counts_def\<close>)

definition pattern_of :: "('w, 'a) camera \<Rightarrow> nat \<Rightarrow> u32" where
  "pattern_of s i = sc_submitRequestPattern (m_streamConfigs s ! i)"

definition reference :: "('w, 'a) camera \<Rightarrow> nat \<Rightarrow> bool" where
  "reference s r \<longleftrightarrow> r < m_streamNum s \<and> sid s r = m_refStreamId s \<and> pattern_of s r = 0 \<and>
     m_submitRequestPattern s ! r = 0"

text \<open>Every counter at its start.\<close>

definition pattern_started :: "('w, 'a) camera \<Rightarrow> bool" where
  "pattern_started s \<longleftrightarrow> requesting s \<and> (\<exists>r. reference s r) \<and>
     (\<forall>i < m_streamNum s. m_submitRequestPattern s ! i = pattern_of s i)"

definition counting :: "nat \<Rightarrow> nat \<Rightarrow> ('w, 'a) camera \<Rightarrow> bool" where
  "counting i k s \<longleftrightarrow> requesting s \<and> i < m_streamNum s \<and> (\<exists>r. reference s r) \<and>
     counts k (pattern_of s i) (m_submitRequestPattern s ! i)"

definition same_streams :: "('w, 'a) camera \<Rightarrow> ('w, 'a) camera \<Rightarrow> bool" where
  "same_streams s s' \<longleftrightarrow> sid s' = sid s \<and> m_refStreamId s' = m_refStreamId s \<and>
     m_streamNum s' = m_streamNum s \<and> m_streamConfigs s' = m_streamConfigs s"

lemma requesting_update:
  "requesting s \<Longrightarrow> length ps = length (m_submitRequestPattern s) \<Longrightarrow>
   length qs = length (m_freeBufIdxQueue s) \<Longrightarrow>
   requesting (after_round ps qs s\<lparr>m_requestId := n, cam_world := w\<rparr>)"
  by (simp add: requesting_def streams_ok_def after_round_def sid_def inj_on_def)

lemma requesting_push: "requesting s \<Longrightarrow> requesting (push d s)"
  by (simp add: requesting_def)

lemma counting_other:
  assumes "counting i k s" "unat (c_streamId d) < QCNODE_CAMERA_MAX_STREAM_NUM"
    and "c_streamId d \<noteq> m_refStreamId s"
  shows "SubmitRequest_frame Q d s = Some (QC_STATUS_OK, push d s)" "counting i k (push d s)"
    and "same_streams s (push d s)"
  using assms hand_back_other [of s d Q]
  by (auto simp: counting_def reference_def pattern_of_def same_streams_def intro: requesting_push)

lemma counting_round:
  assumes c: "counting i k s" and l: "unat (c_streamId d) < QCNODE_CAMERA_MAX_STREAM_NUM"
    and ref: "c_streamId d = m_refStreamId s" and sup: "free_of s i \<noteq> [] \<or> sid s i = c_streamId d"
    and run: "SubmitRequest_frame (log_requests Q) d s = Some (QC_STATUS_OK, s1)"
  shows "counting i (Suc k) s1 \<and> same_streams s s1 \<and>
    (\<exists>rq. sent s1 = sent s @ [rq] \<and>
       (sid s i \<in> fst ` set (requested rq) \<longleftrightarrow> pattern_of s i = 0 \<or> unat (pattern_of s i) dvd Suc k))"
proof -
  let ?s = "push d s"
  from c have rq: "requesting s" and i: "i < m_streamNum s" and ok: "streams_ok s"
    and cnt: "counts k (pattern_of s i) (m_submitRequestPattern s ! i)"
    by (auto simp: counting_def requesting_def)
  from c obtain r where r: "reference s r" by (auto simp: counting_def)
  then have rn: "r < m_streamNum s" by (simp add: reference_def)
  have "chosen ?s r" using r rn ref free_of_push [OF ok rn, of d]
    by (simp add: chosen_def reference_def due_def)
  have ci: "chosen ?s i \<longleftrightarrow> m_submitRequestPattern s ! i \<le> 1"
    using sup free_of_push [OF ok i, of d] by (auto simp: chosen_def due_def)
  obtain req ps qs where rd: "round_to ?s (m_streamNum s) ps qs"
    and q: "requested req =
      map (\<lambda>i. (sid s i, hd (free_of ?s i))) (filter (chosen ?s) [0..<m_streamNum s])"
    and e: "SubmitRequest_frame (log_requests Q) d s =
      Some (if requested req \<noteq> [] then submit (log_requests Q) req (after_round ps qs ?s)
            else (QC_STATUS_OK, after_round ps qs ?s))"
    by (rule hand_back_reference [OF rq l ref])
  have "requested req \<noteq> []" using q rn \<open>chosen ?s r\<close> by (auto simp: filter_empty_conv)
  moreover obtain okay w where "submit (log_requests Q) req (after_round ps qs ?s) =
    (if okay then QC_STATUS_OK else QC_STATUS_FAIL,
     (after_round ps qs ?s)\<lparr>m_requestId := m_requestId (after_round ps qs ?s) + 1,
       cam_world := (w, sent (after_round ps qs ?s) @
         (if okay then [req\<lparr>rq_requestId := m_requestId (after_round ps qs ?s)\<rparr>] else []))\<rparr>)"
    by (rule submit_logged)
  ultimately have s1: "s1 = (after_round ps qs ?s)\<lparr>m_requestId := m_requestId s + 1,
       cam_world := (w, sent s @ [req\<lparr>rq_requestId := m_requestId s\<rparr>])\<rparr>"
    using e run by (auto split: if_splits)
  have ps: "ps ! j = counter_after ?s j" if "j < m_streamNum s" for j
    using rd ok that by (auto simp: round_to_def streams_ok_def)
  have "ps ! i = (if m_submitRequestPattern s ! i \<le> 1 then pattern_of s i
      else if 0 < m_submitRequestPattern s ! i then m_submitRequestPattern s ! i - 1
      else m_submitRequestPattern s ! i)"
    using ps [OF i] ci by (simp add: counter_after_def Let_def pattern_of_def)
  then have "counts (Suc k) (pattern_of s i) (ps ! i)" using counts_step [OF cnt] by simp
  moreover have "ps ! r = 0"
    using ps [OF rn] r \<open>chosen ?s r\<close> by (simp add: counter_after_def reference_def pattern_of_def)
  moreover have "requesting s1"
    using requesting_update [OF requesting_push [OF rq, of d]] rd by (simp add: s1 round_to_def)
  ultimately have "counting i (Suc k) s1" and "same_streams s s1"
    using r i by (auto simp: counting_def reference_def pattern_of_def same_streams_def s1 sid_def)
  moreover have "sid s i \<in> fst ` set (requested req) \<longleftrightarrow> chosen ?s i"
  proof -
    have "fst ` set (requested req) = sid s ` {j. j < m_streamNum s \<and> chosen ?s j}"
      by (auto simp: q image_image)
    moreover have "chosen ?s i" if "j < m_streamNum s" "chosen ?s j" "sid s i = sid s j" for j
      using that same_stream [OF ok that(1) i] by simp
    ultimately show ?thesis using i by blast
  qed
  ultimately show ?thesis using ci counts_due [OF cnt] by (simp add: s1)
qed

text \<open>C13: with request patterns, over any library: when the frames \<open>ds\<close> are handed back and accepted, one
  request is sent for each reference frame, and a stream that always has a free buffer is named by
  every request when its pattern is 0, and otherwise by exactly every \<open>p\<close>-th, where \<open>p\<close> is its pattern.\<close>

theorem camera_request_rate:
  assumes "pattern_started s" "i < m_streamNum s"
    and "\<forall>d \<in> set ds. unat (c_streamId d) < QCNODE_CAMERA_MAX_STREAM_NUM"
    and "hand_back (log_requests Q) ds s = Some s'" "supplied (log_requests Q) i ds s"
  shows "\<exists>new. sent s' = sent s @ new \<and>
    length new = length (filter (\<lambda>d. c_streamId d = m_refStreamId s) ds) \<and>
    (\<forall>k < length new. sid s i \<in> fst ` set (requested (new ! k)) \<longleftrightarrow>
       pattern_of s i = 0 \<or> unat (pattern_of s i) dvd Suc k)"
proof -
  have "\<exists>new. sent s' = sent s @ new \<and>
      length new = length (filter (\<lambda>d. c_streamId d = m_refStreamId s) ds) \<and>
      (\<forall>k < length new. sid s i \<in> fst ` set (requested (new ! k)) \<longleftrightarrow>
         pattern_of s i = 0 \<or> unat (pattern_of s i) dvd Suc (n + k))"
    if "counting i n s" for n
    using that assms(3-5)
  proof (induction ds arbitrary: s n)
    case (Cons d ds)
    then have l: "unat (c_streamId d) < QCNODE_CAMERA_MAX_STREAM_NUM" by simp
    from Cons.prems(3) obtain s1 where e: "SubmitRequest_frame (log_requests Q) d s = Some (QC_STATUS_OK, s1)"
      and hb: "hand_back (log_requests Q) ds s1 = Some s'"
      by (auto split: option.splits prod.splits QCStatus_e.splits)
    from Cons.prems(4) e have sup: "supplied (log_requests Q) i ds s1"
      and first: "c_streamId d = m_refStreamId s \<Longrightarrow> free_of s i \<noteq> [] \<or> sid s i = c_streamId d"
      by auto
    show ?case
    proof (cases "c_streamId d = m_refStreamId s")
      case True
      from counting_round [OF Cons.prems(1) l True first [OF True] e] obtain rq where
        s1: "counting i (Suc n) s1" "same_streams s s1" "sent s1 = sent s @ [rq]"
        and rq: "sid s i \<in> fst ` set (requested rq) \<longleftrightarrow>
          pattern_of s i = 0 \<or> unat (pattern_of s i) dvd Suc n" by blast
      from Cons.IH [OF s1(1) _ hb sup] Cons.prems(2) s1(2) obtain new where
        "sent s' = sent s1 @ new"
        "length new = length (filter (\<lambda>d. c_streamId d = m_refStreamId s) ds)"
        "\<forall>k < length new. sid s i \<in> fst ` set (requested (new ! k)) \<longleftrightarrow>
           pattern_of s i = 0 \<or> unat (pattern_of s i) dvd Suc (Suc n + k)"
        by (auto simp: same_streams_def pattern_of_def)
      then show ?thesis using rq s1(3) True
        by (auto intro!: exI [of _ "rq # new"] simp: nth_Cons split: nat.splits)
    next
      case False
      note o = counting_other(2,3) [OF Cons.prems(1) l False]
      from e counting_other(1) [OF Cons.prems(1) l False, of "log_requests Q"]
      have s1: "s1 = push d s" by simp
      from Cons.IH [OF _ _ hb sup] Cons.prems(2) o False s1 show ?thesis
        by (auto simp: same_streams_def pattern_of_def)
    qed
  qed simp
  moreover have "counting i 0 s"
    using assms(1,2) by (auto simp: counting_def pattern_started_def counts_def)
  ultimately show ?thesis by force
qed

end
