(* ===== verification/QC_CameraSafety.thy ===== *)
theory QC_CameraSafety
  imports QC_CameraRequests "HOL-Library.Multiset"
begin

text \<open>
  Who has a frame buffer in request mode: the library, the application or the queues of the session.
  A session runs from the first start of a camera whose queues are empty until it is started again;
  the library announces frames it holds, the application hands back frames it was told of, each once,
  and may stop the session. The library is never given a buffer that it holds. Requests of metadata are
  not part of such a session.
\<close>

subsection \<open>Sessions\<close>

definition fresh :: "('w, 'a) camera \<Rightarrow> bool" where
  "fresh s \<longleftrightarrow> streams_ok s \<and> m_bRequestMode s \<and> (\<forall>q \<in> set (m_freeBufIdxQueue s). q = []) \<and>
     m_maxBufCnt s \<le> 2 ^ 32"

definition new_buffers ::
  "('w \<times> QCarCamRequest list, 'a) camera \<Rightarrow> ('w \<times> QCarCamRequest list, 'a) camera \<Rightarrow> frame_id list" where
  "new_buffers s s' = concat (map requested (drop (length (sent s)) (sent s')))"

fun announced :: "qcarcam_event \<Rightarrow> frame_id list" where
  "announced (EVENT_FRAME_READY info) = [(fi_id info, fi_bufferIndex info)]"
| "announced (EVENT_MULTI_STREAM_FRAME_READY ts ptp frames) = map (\<lambda>(l, i, f). (l, i)) frames"
| "announced _ = []"

abbreviation frame_id_of :: "CameraFrameDescriptor \<Rightarrow> frame_id" where
  "frame_id_of d \<equiv> (c_streamId d, c_frameIdx d)"

inductive camera_session ::
  "'w qcarcam \<Rightarrow> ('w \<times> QCarCamRequest list, 'a) camera \<Rightarrow> frame_id multiset \<Rightarrow> frame_id set \<Rightarrow> bool"
  for Q where
  started: "fresh s \<Longrightarrow> CameraImpl_Start (log_requests Q) s = (QC_STATUS_OK, s') \<Longrightarrow>
    camera_session Q s' (mset (new_buffers s s')) {}"
| event: "camera_session Q s held app \<Longrightarrow> QcarcamEventCb (log_requests Q) e p s = Some s' \<Longrightarrow>
    mset (announced e) \<subseteq># held \<Longrightarrow>
    camera_session Q s' (held - mset (announced e)) (app \<union> set (announced e))"
| handed_back: "camera_session Q s held app \<Longrightarrow> frame_id_of d \<in> app \<Longrightarrow>
    CameraImpl_ProcessFrameDescriptor (log_requests Q) (Some (A_Camera d)) s = Some (ret, s') \<Longrightarrow>
    camera_session Q s' (held + mset (new_buffers s s')) (app - {frame_id_of d})"
| stopped: "camera_session Q s held app \<Longrightarrow> CameraImpl_Stop (log_requests Q) s = (ret, s') \<Longrightarrow>
    camera_session Q s' held app"

subsection \<open>What an operation leaves alone\<close>

lemma event_frame:
  assumes "m_bRequestMode s" "QcarcamEventCb Q e p s = Some s'"
  shows "\<exists>fb fi ev. s' = s\<lparr>m_frameBuffers := fb, m_frameId := fi, app_events := ev\<rparr>"
proof -
  define F where "F = (\<lambda>s s' :: ('a, 'b) camera.
    \<exists>fb fi ev. s' = s\<lparr>m_frameBuffers := fb, m_frameId := fi, app_events := ev\<rparr>)"
  have refl: "F s s" for s :: "('a, 'b) camera"
    unfolding F_def by (intro exI [of _ "m_frameBuffers s"] exI [of _ "m_frameId s"]
        exI [of _ "app_events s"]) simp
  have trans: "F s s2" if "F s s1" "F s1 s2" for s s1 s2 :: "('a, 'b) camera"
    using that unfolding F_def by clarsimp blast
  have desc: "F s (set_frame_desc l i d s)" for l i d and s :: "('a, 'b) camera"
    unfolding F_def set_frame_desc_def Let_def
    by (intro exI [of _ "m_frameId s"] exI [of _ "app_events s"] exI) simp
  have number: "F s (s\<lparr>m_frameId := fi\<rparr>)" for fi and s :: "('a, 'b) camera"
    unfolding F_def
    by (intro exI [of _ "m_frameBuffers s"] exI [of _ "app_events s"] exI) simp
  have told: "F s (cam_notify e s)" for e and s :: "('a, 'b) camera"
    unfolding F_def cam_notify_def
    by (intro exI [of _ "m_frameBuffers s"] exI [of _ "m_frameId s"] exI) simp
  have callback: "F s s'" if "FrameCallback l i s = Some s'" for l i and s s' :: "('a, 'b) camera"
  proof -
    from that consider "s' = s" |
      d fi e where "s' = cam_notify e ((set_frame_desc (unat l) (unat i) d s)\<lparr>m_frameId := fi\<rparr>)"
      by (auto simp: FrameCallback_def Let_def split: if_splits option.splits)
    then show ?thesis
    proof cases
      case 2
      then show ?thesis using trans [OF trans [OF desc number] told] by simp
    qed (use refl in simp)
  qed
  have ready: "F s s' \<and> m_bRequestMode s'" if "frame_ready Q info s = Some s'" "m_bRequestMode s"
    for info and s s' :: "('a, 'b) camera"
  proof -
    from that obtain ret s1 where st: "stamp_frame (fi_id info) (fi_bufferIndex info) info s = Some (ret, s1)"
      and n: "s' = s1 \<or> FrameCallback (fi_id info) (fi_bufferIndex info) s1 = Some s'"
      by (auto simp: frame_ready_def GetFrame_def Let_def split: option.splits if_splits)
    from st have "F s s1"
      using refl desc by (auto simp: stamp_frame_def split: option.splits)
    with n callback trans have "F s s'" by blast
    then show ?thesis using that(2) unfolding F_def by auto
  qed
  have many: "F s s'" if "frames_ready Q ts ptp frames s = Some s'" "m_bRequestMode s"
    for ts ptp frames and s s' :: "('a, 'b) camera"
    using that
  proof (induction frames arbitrary: s)
    case (Cons f fs)
    obtain l i fl where f: "f = (l, i, fl)" by (cases f)
    from Cons.prems f obtain s1 where
      s1: "frame_ready Q \<lparr>fi_id = l, fi_bufferIndex = i, fi_timestamp = ts, fi_timestampGPTP = ptp,
                          fi_flags = fl\<rparr> s = Some s1"
      and rest: "frames_ready Q ts ptp fs s1 = Some s'" by (auto split: option.splits)
    from ready [OF s1 Cons.prems(2)] Cons.IH [OF rest] trans show ?case by blast
  qed (use refl in auto)
  have cb: "F s (EventCallback Q p s)"
    using refl told by (simp add: EventCallback_def)
  have "F s s'"
    using assms ready many cb refl by (auto simp: QcarcamEventCb_def split: qcarcam_event.splits)
  then show ?thesis by (simp add: F_def)
qed

lemma Stop_frame: "CameraImpl_Stop Q s = (ret, s') \<Longrightarrow> \<exists>w st. s' = s\<lparr>cam_world := w, m_state := st\<rparr>"
proof -
  assume stop: "CameraImpl_Stop Q s = (ret, s')"
  show ?thesis
  proof (cases "m_state s = QC_OBJECT_STATE_RUNNING")
    case True
    with stop show ?thesis
      by (auto simp: CameraImpl_Stop_def cam_call_def on_world_def Let_def split: prod.splits) blast+
  next
    case False
    with stop have "s' = s\<lparr>cam_world := cam_world s, m_state := m_state s\<rparr>"
      by (simp add: CameraImpl_Stop_def)
    then show ?thesis by blast
  qed
qed

subsection \<open>The requests of the start\<close>

lemma all_buffers_requested:
  assumes "length scs \<le> QCNODE_CAMERA_MAX_STREAM_NUM"
  shows "requested (all_buffers_request scs b) =
    map (\<lambda>sc. (sc_streamId sc, of_nat b)) (filter (\<lambda>sc. b < length (sc_bufferIds sc)) scs)"
proof -
  let ?f = "\<lambda>sc rq. if b < length (sc_bufferIds sc)
                    then add_stream_request (sc_streamId sc) (of_nat b) rq else rq"
  have "rq_ok (length xs) (fold ?f xs no_request) \<and> requested (fold ?f xs no_request) =
      map (\<lambda>sc. (sc_streamId sc, of_nat b)) (filter (\<lambda>sc. b < length (sc_bufferIds sc)) xs)"
    if "length xs \<le> QCNODE_CAMERA_MAX_STREAM_NUM" for xs
    using that
  proof (induction xs rule: rev_induct)
    case (snoc x xs)
    then have "rq_ok (length xs) (fold ?f xs no_request)" "length xs < QCNODE_CAMERA_MAX_STREAM_NUM"
      by simp_all
    note this add_stream_request_ok [OF this, of "sc_streamId x" "of_nat b"]
    then show ?case using snoc by (auto intro: rq_ok_mono)
  qed simp
  from this [OF assms] show ?thesis by (simp add: all_buffers_request_def)
qed

lemma submit_each_logged:
  "submit_each (log_requests Q) bs s = (ret, s') \<Longrightarrow>
   \<exists>w rid new k. s' = s\<lparr>cam_world := (w, sent s @ new), m_requestId := rid\<rparr> \<and>
     map requested new =
       map (\<lambda>b. requested (all_buffers_request (take (m_streamNum s) (m_streamConfigs s)) b)) (take k bs) \<and>
     (ret = QC_STATUS_OK \<longrightarrow> k = length bs)"
proof (induction bs arbitrary: s)
  case Nil
  then show ?case
    by (auto intro!: exI [of _ "fst (cam_world s)"] exI [of _ "m_requestId s"] exI [of _ "[]"])
next
  case (Cons b bs)
  let ?rq = "all_buffers_request (take (m_streamNum s) (m_streamConfigs s)) b"
  obtain ok w where sub: "submit (log_requests Q) ?rq s =
    (if ok then QC_STATUS_OK else QC_STATUS_FAIL,
     s\<lparr>m_requestId := m_requestId s + 1,
       cam_world := (w, sent s @ (if ok then [?rq\<lparr>rq_requestId := m_requestId s\<rparr>] else []))\<rparr>)"
    by (rule submit_logged)
  show ?case
  proof (cases ok)
    case False
    with Cons.prems sub show ?thesis
      by (auto simp: if_ok_def intro!: exI [of _ w] exI [of _ "m_requestId s + 1"] exI [of _ "[]"]
          exI [of _ "0::nat"])
  next
    case True
    let ?s1 = "s\<lparr>m_requestId := m_requestId s + 1,
                 cam_world := (w, sent s @ [?rq\<lparr>rq_requestId := m_requestId s\<rparr>])\<rparr>"
    from True sub Cons.prems have "submit_each (log_requests Q) bs ?s1 = (ret, s')"
      by (simp add: if_ok_def)
    from Cons.IH [OF this] obtain w' rid new k where
      "s' = ?s1\<lparr>cam_world := (w', sent ?s1 @ new), m_requestId := rid\<rparr>"
      "map requested new = map (\<lambda>b. requested (all_buffers_request
          (take (m_streamNum ?s1) (m_streamConfigs ?s1)) b)) (take k bs)"
      "ret = QC_STATUS_OK \<longrightarrow> k = length bs"
      by blast
    then show ?thesis
      by (auto intro!: exI [of _ w'] exI [of _ rid]
          exI [of _ "?rq\<lparr>rq_requestId := m_requestId s\<rparr> # new"] exI [of _ "Suc k"])
  qed
qed

lemma u32_of_nat_inj: "(of_nat b :: u32) = of_nat c \<Longrightarrow> b < 2 ^ 32 \<Longrightarrow> c < 2 ^ 32 \<Longrightarrow> b = c"
proof -
  assume "(of_nat b :: u32) = of_nat c" and less: "b < 2 ^ 32" "c < 2 ^ 32"
  then have "unat (of_nat b :: u32) = unat (of_nat c :: u32)" by simp
  then show ?thesis using less by (simp add: unat_of_nat del: unsigned_of_nat)
qed

lemma start_buffers_distinct:
  assumes ok: "streams_ok s" and m: "m \<le> 2 ^ 32"
  shows "distinct (concat (map (\<lambda>b. requested (all_buffers_request
    (take (m_streamNum s) (m_streamConfigs s)) b)) (take k [0..<m])))"
proof -
  let ?scs = "take (m_streamNum s) (m_streamConfigs s)"
  have len: "length ?scs \<le> QCNODE_CAMERA_MAX_STREAM_NUM" using ok by (simp add: streams_ok_def)
  have "distinct (map sc_streamId ?scs)"
    using ok by (auto simp: distinct_conv_nth streams_ok_def sid_def inj_on_def)
  then have d: "distinct (requested (all_buffers_request ?scs b))" for b
    by (simp add: all_buffers_requested [OF len] distinct_map inj_on_def)
  have snd: "y = of_nat b" if "(x, y) \<in> set (requested (all_buffers_request ?scs b))" for x y b
    using that by (auto simp: all_buffers_requested [OF len])
  have "distinct (concat (map (\<lambda>b. requested (all_buffers_request ?scs b)) bs))"
    if "distinct bs" "set bs \<subseteq> {..<2 ^ 32}" for bs
    using that
  proof (induction bs)
    case (Cons b bs)
    have "(of_nat b :: u32) \<noteq> of_nat c" if "c \<in> set bs" for c
      using Cons.prems that u32_of_nat_inj [of b c] by auto
    with Cons d snd show ?case by (fastforce simp: Cons.IH)
  qed simp
  moreover have "distinct (take k [0..<m])" by simp
  moreover have "set (take k [0..<m]) \<subseteq> {..<2 ^ 32}"
    using m set_take_subset [of k "[0..<m]"] by auto
  ultimately show ?thesis by blast
qed

subsection \<open>Every buffer in one place\<close>

definition queued :: "('w, 'a) camera \<Rightarrow> frame_id set" where
  "queued s = {(sid s i, x) | i x. i < m_streamNum s \<and> x \<in> set (free_of s i)}"

definition in_one_place :: "('w, 'a) camera \<Rightarrow> frame_id multiset \<Rightarrow> frame_id set \<Rightarrow> bool" where
  "in_one_place s held app \<longleftrightarrow> streams_ok s \<and> m_bRequestMode s \<and>
     (\<forall>i < m_streamNum s. distinct (free_of s i)) \<and> (\<forall>b. count held b \<le> 1) \<and>
     set_mset held \<inter> app = {} \<and> queued s \<inter> (set_mset held \<union> app) = {}"

lemma in_one_place_same:
  assumes "m_streamNum s' = m_streamNum s" "m_streamConfigs s' = m_streamConfigs s"
    "length (m_submitRequestPattern s') = length (m_submitRequestPattern s)"
    "m_freeBufIdxQueue s' = m_freeBufIdxQueue s" "m_bRequestMode s' = m_bRequestMode s"
  shows "in_one_place s' held app = in_one_place s held app"
  using assms by (simp add: in_one_place_def streams_ok_def queued_def free_of_def sid_def inj_on_def)

lemma distinct_mset_add:
  assumes "\<forall>b. count held b \<le> 1" "distinct bs" "set bs \<inter> set_mset held = {}"
  shows "\<forall>b. count (held + mset bs) b \<le> 1"
proof
  fix b
  show "count (held + mset bs) b \<le> 1"
  proof (cases "b \<in> set bs")
    case True
    then have "count held b = 0" using assms(3) by (auto simp: count_eq_zero_iff)
    then show ?thesis using assms(2) True by (simp add: distinct_count_atmost_1)
  next
    case False
    then have "count (mset bs) b = 0" by (simp add: count_eq_zero_iff)
    then show ?thesis using assms(1) by (metis count_union add.right_neutral)
  qed
qed

lemma in_one_place_push:
  assumes p: "in_one_place s held app" and d: "frame_id_of d \<in> app"
  shows "in_one_place (push d s) held (app - {frame_id_of d})"
    and "queued (push d s) \<subseteq> insert (frame_id_of d) (queued s)"
proof -
  from p have ok: "streams_ok s" by (simp add: in_one_place_def)
  note f = free_of_push [OF ok, of _ d]
  show q: "queued (push d s) \<subseteq> insert (frame_id_of d) (queued s)"
    by (auto simp: queued_def f split: if_splits)
  have "frame_id_of d \<notin> queued s" using p d by (auto simp: in_one_place_def)
  then have "distinct (free_of (push d s) i)" if "i < m_streamNum s" for i
    using p that by (auto simp: f in_one_place_def queued_def)
  moreover have "frame_id_of d \<notin># held" using p d by (auto simp: in_one_place_def)
  moreover have "m_bRequestMode (push d s) = m_bRequestMode s" by (simp add: push_def)
  ultimately show "in_one_place (push d s) held (app - {frame_id_of d})"
    using p q unfolding in_one_place_def by auto
qed

text \<open>A round moves the heads of some queues into the request.\<close>

lemma in_one_place_round:
  assumes p: "in_one_place s held app" and r: "round_to s (m_streamNum s) ps qs"
    and q: "bs = map (\<lambda>i. (sid s i, hd (free_of s i))) (filter (chosen s) [0..<m_streamNum s])"
  shows "in_one_place (after_round ps qs s) held app"
    and "in_one_place (after_round ps qs s) (held + mset bs) app"
    and "distinct bs" "set bs \<inter> set_mset held = {}"
proof -
  let ?s = "after_round ps qs s"
  from p have ok: "streams_ok s" by (simp add: in_one_place_def)
  have free: "free_of ?s i = (if chosen s i then tl (free_of s i) else free_of s i)"
    if i: "i < m_streamNum s" for i
  proof -
    have "unat (sid s i) < length qs" using ok r i by (auto simp: streams_ok_def round_to_def)
    then have "qs ! unat (sid s i) =
        (if \<exists>j < m_streamNum s. unat (sid s j) = unat (sid s i) \<and> chosen s j
         then tl (free_of s i) else free_of s i)"
      using r unfolding round_to_def free_of_def by blast
    moreover have "(\<exists>j < m_streamNum s. unat (sid s j) = unat (sid s i) \<and> chosen s j) \<longleftrightarrow> chosen s i"
      using same_stream [OF ok _ i] i by blast
    ultimately show ?thesis by (simp add: free_of_def)
  qed
  have bq: "set bs \<subseteq> queued s"
    by (auto simp: q queued_def chosen_def intro: list.set_sel(1))
  have "inj_on (sid s) {..<m_streamNum s}" using ok by (simp add: streams_ok_def)
  then show db: "distinct bs"
    by (auto simp: q distinct_map inj_on_def)
  show dh: "set bs \<inter> set_mset held = {}" using p bq by (auto simp: in_one_place_def)
  have "set (free_of ?s i) \<subseteq> set (free_of s i)" if "i < m_streamNum s" for i
    using free [OF that] by (cases "free_of s i") auto
  then have sub: "queued ?s \<subseteq> queued s" unfolding queued_def by fastforce
  have gone: "queued ?s \<inter> set bs = {}"
  proof -
    have clash: False if "i < m_streamNum s" "x \<in> set (free_of ?s i)" "j < m_streamNum s" "chosen s j"
      "sid s i = sid s j" "x = hd (free_of s j)" for i j x
    proof -
      have "i = j" using same_stream [OF ok that(1,3)] that(5) by simp
      with that have "x \<in> set (tl (free_of s j))" "free_of s j \<noteq> []" "distinct (free_of s j)"
        using p by (auto simp: free chosen_def in_one_place_def)
      with that(6) show False by (cases "free_of s j") auto
    qed
    show ?thesis by (auto simp: queued_def q intro: clash [OF _ _ _ _ sym refl])
  qed
  have "length ps = length (m_submitRequestPattern s)" "length qs = length (m_freeBufIdxQueue s)"
    using r by (simp_all add: round_to_def)
  then have "streams_ok ?s"
    using ok by (simp add: streams_ok_def sid_def after_round_def inj_on_def)
  moreover have "m_bRequestMode ?s" using p by (simp add: in_one_place_def after_round_def)
  moreover have "\<forall>i < m_streamNum ?s. distinct (free_of ?s i)"
    using p by (simp add: in_one_place_def free distinct_tl)
  ultimately have base: "streams_ok ?s" "m_bRequestMode ?s"
    "\<forall>i < m_streamNum ?s. distinct (free_of ?s i)" by auto
  show "in_one_place ?s held app"
    using p base sub unfolding in_one_place_def by blast
  have "set bs \<inter> app = {}" using p bq by (auto simp: in_one_place_def)
  then show "in_one_place ?s (held + mset bs) app"
    using p base sub gone distinct_mset_add [OF _ db dh] unfolding in_one_place_def by auto
qed

lemma in_one_place_fewer: "in_one_place s held app \<Longrightarrow> in_one_place s held (app - X)"
  by (auto simp: in_one_place_def)

text \<open>Sending a request whose buffers the library does not hold and no one else has.\<close>

lemma in_one_place_submit:
  assumes "submit (log_requests Q) rq s = (ret, s')"
    and "in_one_place s held app" "in_one_place s (held + mset (requested rq)) app"
  shows "in_one_place s' (held + mset (new_buffers s s')) app"
proof -
  obtain ok w where "submit (log_requests Q) rq s =
    (if ok then QC_STATUS_OK else QC_STATUS_FAIL,
     s\<lparr>m_requestId := m_requestId s + 1,
       cam_world := (w, sent s @ (if ok then [rq\<lparr>rq_requestId := m_requestId s\<rparr>] else []))\<rparr>)"
    by (rule submit_logged)
  with assms(1) have s': "s' = s\<lparr>m_requestId := m_requestId s + 1,
       cam_world := (w, sent s @ (if ok then [rq\<lparr>rq_requestId := m_requestId s\<rparr>] else []))\<rparr>"
    by simp
  then have n: "new_buffers s s' = (if ok then requested rq else [])" by (simp add: new_buffers_def)
  have "in_one_place s' h app = in_one_place s h app" for h
    by (rule in_one_place_same) (simp_all add: s')
  with assms(2,3) n show ?thesis by simp
qed

lemma in_one_place_hand_back:
  assumes p: "in_one_place s held app" and d: "frame_id_of d \<in> app"
    and run: "SubmitRequest_frame (log_requests Q) d s = Some (ret, s')"
  shows "in_one_place s' (held + mset (new_buffers s s')) (app - {frame_id_of d})"
proof -
  let ?app = "app - {frame_id_of d}"
  have ok: "streams_ok s" using p by (simp add: in_one_place_def)
  have same: "new_buffers s s = []" by (simp add: new_buffers_def)
  show ?thesis
  proof (cases "m_clientId s = 0 \<or> m_bIsPrimary s")
    case False
    with run have "s' = s" by (auto simp: SubmitRequest_frame_def)
    then show ?thesis using in_one_place_fewer [OF p] same by simp
  next
    case allowed: True
    show ?thesis
    proof (cases "m_bRequestPatternMode s")
      case True
      with allowed ok have rq: "requesting s" by (simp add: requesting_def)
      have l: "unat (c_streamId d) < QCNODE_CAMERA_MAX_STREAM_NUM"
        using run allowed True ok
        by (auto simp: SubmitRequest_frame_def Let_def streams_ok_def split: if_splits)
      note pushed = in_one_place_push(1) [OF p d]
      show ?thesis
      proof (cases "c_streamId d = m_refStreamId s")
        case False
        from hand_back_other [OF rq l False, of "log_requests Q"] run have "s' = push d s" by simp
        then show ?thesis using pushed by (simp add: new_buffers_def)
      next
        case ref: True
        obtain req ps qs where rd: "round_to (push d s) (m_streamNum s) ps qs"
          and q: "requested req = map (\<lambda>i. (sid s i, hd (free_of (push d s) i)))
            (filter (chosen (push d s)) [0..<m_streamNum s])"
          and e: "SubmitRequest_frame (log_requests Q) d s =
            Some (if requested req \<noteq> [] then submit (log_requests Q) req (after_round ps qs (push d s))
                  else (QC_STATUS_OK, after_round ps qs (push d s)))"
          by (rule hand_back_reference [OF rq l ref])
        let ?s = "after_round ps qs (push d s)"
        have sent: "new_buffers s x = new_buffers ?s x" for x by (simp add: new_buffers_def)
        note round = in_one_place_round [OF pushed, of ps qs "requested req"]
        show ?thesis
        proof (cases "requested req = []")
          case True
          with e run have "s' = ?s" by simp
          then show ?thesis using round(1) rd q by (simp add: new_buffers_def)
        next
          case False
          with e run have "submit (log_requests Q) req ?s = (ret, s')" by simp
          from in_one_place_submit [OF this] round(1,2) rd q show ?thesis by (simp add: sent)
        qed
      qed
    next
      case False
      let ?rq = "add_stream_request (c_streamId d) (c_frameIdx d) no_request"
      have r: "requested ?rq = [frame_id_of d]"
        using add_stream_request_ok(2) [of 0 no_request "c_streamId d" "c_frameIdx d"] by simp
      from run allowed False have "submit (log_requests Q) ?rq s = (ret, s')"
        by (auto simp: SubmitRequest_frame_def Let_def)
      moreover have "set (requested ?rq) \<inter> set_mset held = {}"
        using p d r by (auto simp: in_one_place_def)
      then have "in_one_place s (held + mset (requested ?rq)) ?app"
        using p d r distinct_mset_add [of held "requested ?rq"] unfolding in_one_place_def by auto
      ultimately show ?thesis
        using in_one_place_submit in_one_place_fewer [OF p] by blast
    qed
  qed
qed

lemma Start_OK:
  assumes m: "m_bRequestMode s" and run: "CameraImpl_Start (log_requests Q) s = (QC_STATUS_OK, s')"
  obtains w rid new k where
    "s' = s\<lparr>cam_world := (w, sent s @ new), m_state := QC_OBJECT_STATE_RUNNING, m_requestId := rid\<rparr>"
    "new_buffers s s' = concat (map (\<lambda>b. requested (all_buffers_request
       (take (m_streamNum s) (m_streamConfigs s)) b)) (take k [0..<m_maxBufCnt s]))"
    "m_clientId s = 0 \<or> m_bIsPrimary s \<longrightarrow> k = m_maxBufCnt s"
proof -
  obtain okay w where c: "cam_call (QCarCamStart (log_requests Q) (m_QcarCamHndl s))
      (s\<lparr>m_state := QC_OBJECT_STATE_STARTING\<rparr>) =
    (if okay then QC_STATUS_OK else QC_STATUS_FAIL,
     s\<lparr>m_state := QC_OBJECT_STATE_STARTING, cam_world := (w, sent s)\<rparr>)"
    using call_logged [of "QCarCamStart Q (m_QcarCamHndl s)" "s\<lparr>m_state := QC_OBJECT_STATE_STARTING\<rparr>"]
    by (auto simp: log_requests_def)
  let ?s = "s\<lparr>cam_world := (w, sent s), m_state := QC_OBJECT_STATE_RUNNING\<rparr>"
  from run c m have sub: "SubmitAllBuffers (log_requests Q) ?s = (QC_STATUS_OK, s')"
    by (auto simp: CameraImpl_Start_def Let_def split: if_splits prod.splits)
  have "\<exists>w rid new k. s' = ?s\<lparr>cam_world := (w, sent s @ new), m_requestId := rid\<rparr> \<and>
     map requested new = map (\<lambda>b. requested (all_buffers_request
       (take (m_streamNum s) (m_streamConfigs s)) b)) (take k [0..<m_maxBufCnt s]) \<and>
     (m_clientId s = 0 \<or> m_bIsPrimary s \<longrightarrow> k = m_maxBufCnt s)"
  proof (cases "m_clientId s = 0 \<or> m_bIsPrimary s")
    case True
    with sub have "submit_each (log_requests Q) [0..<m_maxBufCnt s] ?s = (QC_STATUS_OK, s')"
      by (simp add: SubmitAllBuffers_def)
    from submit_each_logged [OF this] obtain w' rid new k where
      "s' = ?s\<lparr>cam_world := (w', sent s @ new), m_requestId := rid\<rparr>"
      "map requested new = map (\<lambda>b. requested (all_buffers_request
         (take (m_streamNum s) (m_streamConfigs s)) b)) (take k [0..<m_maxBufCnt s])"
      "k = m_maxBufCnt s" by auto
    then show ?thesis by blast
  next
    case False
    with sub have "s' = ?s" by (simp add: SubmitAllBuffers_def)
    then show ?thesis
      by (intro exI [of _ w] exI [of _ "m_requestId s"] exI [of _ "[]"] exI [of _ "0::nat"])
        (use False in simp)
  qed
  then obtain w rid new k where s': "s' = ?s\<lparr>cam_world := (w, sent s @ new), m_requestId := rid\<rparr>"
    and n: "map requested new = map (\<lambda>b. requested (all_buffers_request
       (take (m_streamNum s) (m_streamConfigs s)) b)) (take k [0..<m_maxBufCnt s])"
    and k: "m_clientId s = 0 \<or> m_bIsPrimary s \<longrightarrow> k = m_maxBufCnt s" by blast
  have "new_buffers s s' = concat (map requested new)" by (simp add: new_buffers_def s')
  with s' n k show thesis by (intro that [of rid w new k]) simp_all
qed

lemma start_in_one_place:
  assumes f: "fresh s" and run: "CameraImpl_Start (log_requests Q) s = (QC_STATUS_OK, s')"
  shows "in_one_place s' (mset (new_buffers s s')) {}"
proof -
  from f have ok: "streams_ok s" and m: "m_bRequestMode s" "m_maxBufCnt s \<le> 2 ^ 32"
    and e: "\<forall>q \<in> set (m_freeBufIdxQueue s). q = []" by (simp_all add: fresh_def)
  obtain w rid new k where
    s': "s' = s\<lparr>cam_world := (w, sent s @ new), m_state := QC_OBJECT_STATE_RUNNING, m_requestId := rid\<rparr>"
    and n: "new_buffers s s' = concat (map (\<lambda>b. requested (all_buffers_request
       (take (m_streamNum s) (m_streamConfigs s)) b)) (take k [0..<m_maxBufCnt s]))"
    by (rule Start_OK [OF m(1) run])
  have "distinct (new_buffers s s')"
    using start_buffers_distinct [OF ok m(2)] n by simp
  moreover have "free_of s i = []" if "i < m_streamNum s" for i
    using e ok that by (simp add: free_of_def streams_ok_def)
  then have "queued s = {}" and "\<forall>i < m_streamNum s. distinct (free_of s i)"
    by (auto simp: queued_def)
  ultimately have "in_one_place s (mset (new_buffers s s')) {}"
    using ok m(1) distinct_mset_add [of "{#}" "new_buffers s s'"] by (simp add: in_one_place_def)
  moreover have "in_one_place s' h a = in_one_place s h a" for h a
    by (rule in_one_place_same) (simp_all add: s')
  ultimately show ?thesis by simp
qed

text \<open>C15: from the first start of a session in request mode whose queues are empty, as an initialized
  new camera has them, until it is started again: over any library, for frames announced and handed
  back in any order, each once, and with the session stopped at any point, the library never holds a
  buffer twice: no request names a buffer that the library was given before and has not announced
  since. A buffer the library holds is not with the application. A second start is left out on
  purpose: it does give the library a buffer twice.\<close>

theorem camera_never_resubmits:
  assumes "camera_session Q s held app"
  shows "(\<forall>b. count held b \<le> 1) \<and> set_mset held \<inter> app = {}"
proof -
  have "in_one_place s held app" using assms
  proof (induction rule: camera_session.induct)
    case (started s s')
    then show ?case by (rule start_in_one_place)
  next
    case (event s held app e p s')
    then obtain fb fi ev where s': "s' = s\<lparr>m_frameBuffers := fb, m_frameId := fi, app_events := ev\<rparr>"
      using event_frame [OF _ event(2)] by (auto simp: in_one_place_def)
    let ?held = "held - mset (announced e)" and ?app = "app \<union> set (announced e)"
    from event(3) have sub: "set (announced e) \<subseteq> set_mset held" by (metis set_mset_mono set_mset_mset)
    have "count ?held b \<le> 1" for b :: frame_id
    proof -
      have "count held b \<le> 1" using event.IH unfolding in_one_place_def by blast
      then show ?thesis by simp
    qed
    moreover have "b \<notin># ?held" if "b \<in> set (announced e)" for b
    proof -
      have "0 < count (mset (announced e)) b" using that by (simp add: count_greater_zero_iff)
      moreover have "count held b \<le> 1" using event.IH unfolding in_one_place_def by blast
      ultimately have "count held b \<le> count (mset (announced e)) b" by linarith
      then show ?thesis by (simp add: not_in_iff)
    qed
    moreover have "set_mset ?held \<subseteq> set_mset held" by (meson in_diffD subsetI)
    ultimately have "in_one_place s ?held ?app"
      using event.IH sub unfolding in_one_place_def by blast
    moreover have "in_one_place s' ?held ?app = in_one_place s ?held ?app"
      by (rule in_one_place_same) (simp_all add: s')
    ultimately show ?case by simp
  next
    case (handed_back s held app d ret s')
    then have rm: "m_bRequestMode s" by (simp add: in_one_place_def)
    show ?case
    proof (cases "m_state s = QC_OBJECT_STATE_RUNNING \<and> dmaHandle d \<in> set (m_frameBufferMap s)")
      case True
      with handed_back(3) rm have "SubmitRequest_frame (log_requests Q) d s = Some (ret, s')"
        by (simp add: CameraImpl_ProcessFrameDescriptor_def)
      with in_one_place_hand_back handed_back show ?thesis by blast
    next
      case False
      with handed_back(3) have "s' = s"
        by (auto simp: CameraImpl_ProcessFrameDescriptor_def split: if_splits)
      then show ?thesis using in_one_place_fewer [OF handed_back.IH] by (simp add: new_buffers_def)
    qed
  next
    case (stopped s held app ret s')
    then obtain w st where "s' = s\<lparr>cam_world := w, m_state := st\<rparr>"
      using Stop_frame by blast
    then have "in_one_place s' held app = in_one_place s held app" by (intro in_one_place_same) simp_all
    then show ?case using stopped.IH by simp
  qed
  then show ?thesis by (simp add: in_one_place_def)
qed

end
