(* ===== verification/QC_CameraLife.thy ===== *)
theory QC_CameraLife
  imports QC_CameraSafety
begin

text \<open>
  The life cycle of a camera session, over any library. The locale \<open>buffers_invariant\<close> says what a
  predicate needs so that setting, importing and removing buffers keeps it; its instance is that the
  rest of the session is untouched. The life cycle refines the automaton \<open>cam_next\<close> of the node's
  states. An initialised session is what the lemmas on requests start from.
\<close>

subsection \<open>Operations on buffers\<close>

locale buffers_invariant =
  fixes P :: "('w, 'a) camera \<Rightarrow> bool"
  assumes world: "P s \<Longrightarrow> P (s\<lparr>cam_world := w\<rparr>)"
    and frames: "P s \<Longrightarrow> P (s\<lparr>m_frameBuffers := fb\<rparr>)"
    and metadata: "P s \<Longrightarrow> P (s\<lparr>m_metaDataBuffers := mb\<rparr>)"
    and frame_map: "P s \<Longrightarrow> P (s\<lparr>m_frameBufferMap := fm\<rparr>)"
    and metadata_map: "P s \<Longrightarrow> P (s\<lparr>m_metaDataBufferMap := mm\<rparr>)"
begin

abbreviation P_opt :: "(QCStatus_e \<times> ('w, 'a) camera) option \<Rightarrow> bool" where
  "P_opt x \<equiv> pred_option (\<lambda>r. P (snd r)) x"

lemma P_world: "P s \<Longrightarrow> P (snd (on_world f s))"
  by (simp add: on_world_def world split: prod.split)

lemma P_call: "P s \<Longrightarrow> P (snd (cam_call f s))"
  using P_world [of s f] by (cases "on_world f s") (simp add: cam_call_def)

lemma P_if_ok: "P (snd r) \<Longrightarrow> (\<And>s. P s \<Longrightarrow> P (snd (f s))) \<Longrightarrow> P (snd (if_ok r f))"
  by (cases r) (simp add: if_ok_def)

lemma P_if_ok_opt: "P_opt x \<Longrightarrow> (\<And>s. P s \<Longrightarrow> P_opt (f s)) \<Longrightarrow> P_opt (if_ok_opt x f)"
  by (cases x) (auto simp: if_ok_opt_def split: prod.splits)

lemma P_desc: "P s \<Longrightarrow> P (set_frame_desc l j d s)"
  by (simp add: set_frame_desc_def Let_def frames)

lemma P_qbuf: "P s \<Longrightarrow> P (set_frame_qbuf l j b s)"
  by (simp add: set_frame_qbuf_def Let_def frames)

lemma P_set_frame_buffer: "P s \<Longrightarrow> P_opt (set_frame_buffer Q buffers sc j s)"
  by (auto simp: set_frame_buffer_def Let_def P_desc P_qbuf frame_map split: option.split)

lemma P_set_stream_buffers: "P s \<Longrightarrow> P_opt (set_stream_buffers Q buffers sc js s)"
  by (induction js arbitrary: s) (simp_all add: P_if_ok_opt P_set_frame_buffer)

lemma P_set_streams: "P s \<Longrightarrow> P_opt (set_streams Q buffers scs s)"
proof (induction scs arbitrary: s)
  case (Cons sc scs)
  then show ?case
    by (simp add: Let_def) (intro impI P_if_ok_opt P_set_stream_buffers frames, simp_all add: P_call)
qed simp

lemma P_SetFrameBuffers: "P s \<Longrightarrow> P_opt (SetFrameBuffers Q buffers s)"
  using P_set_streams [of s Q buffers "take (m_streamNum s) (m_streamConfigs s)"]
  by (auto simp: SetFrameBuffers_def ClearFrameBuffers_def frames pred_option_def)

lemma P_set_metadata_buffer: "P s \<Longrightarrow> P (snd (set_metadata_buffer buffers i mc k s))"
  by (simp add: set_metadata_buffer_def Let_def metadata metadata_map)

lemma P_set_metadata_group: "P s \<Longrightarrow> P (snd (set_metadata_group buffers i mc ks s))"
  by (induction ks arbitrary: s) (simp_all add: P_if_ok P_set_metadata_buffer)

lemma P_set_metadata: "P s \<Longrightarrow> P_opt (set_metadata Q buffers i mcs s)"
proof (induction mcs arbitrary: s i)
  case (Cons mc mcs)
  then show ?case
    by simp (intro impI P_if_ok_opt, simp_all add: P_if_ok P_set_metadata_group metadata P_call)
qed simp

lemma P_SetMetaDataBuffers: "P s \<Longrightarrow> P_opt (SetMetaDataBuffers Q buffers s)"
  using P_set_metadata [of s Q buffers 0 "take (m_metaDataNum s) (cc_metaDataConfigs (m_config s))"]
  by (auto simp: SetMetaDataBuffers_def ClearMetaDataBuffers_def metadata pred_option_def)

lemma P_import_frames: "P s \<Longrightarrow> P_opt (import_frames Q os sc qbufs js ret s)"
proof (induction js arbitrary: ret s)
  case (Cons j js)
  show ?case
  proof (cases "imported_desc Q sc (qbufs ! j)")
    case (Some d)
    let ?h = "pl_memHndl (q_planes (qbufs ! j) ! 0)"
    obtain r m s1 where w: "on_world (\<lambda>w. case DMABUFFUtils_MemoryMap os (QCBufferDescriptorBase.truncate d) w of
        (r, m, w1) \<Rightarrow> ((r, m), w1)) (s\<lparr>m_frameBufferMap := ?h # m_frameBufferMap s\<rparr>) = ((r, m), s1)"
      by (metis prod.exhaust)
    have "P s1" using P_world [OF frame_map [OF Cons.prems]] w by (metis snd_conv)
    then show ?thesis using Cons.IH P_desc w Some Cons.prems by (simp add: Let_def)
  qed (use Cons.prems in \<open>simp add: Let_def\<close>)
qed simp

lemma P_import_stream: "P (snd r) \<Longrightarrow> P_opt (import_stream Q os sc r)"
proof -
  assume p: "P (snd r)"
  obtain ret s where r: "r = (ret, s)" by (cases r)
  let ?s = "s\<lparr>m_frameBuffers := (m_frameBuffers s)[unat (sc_streamId sc) := new_frame_buffers Q sc]\<rparr>"
  obtain ok bl s1 where w: "on_world (QCarCamGetBuffers Q (m_QcarCamHndl s)
      (bufferList (new_frame_buffers Q sc))) ?s = ((ok, bl), s1)" by (metis prod.exhaust)
  have "P s1" using P_world [OF frames, of s] p r w by (metis snd_conv)
  then show ?thesis
    by (auto simp: import_stream_def r w Let_def ClearFrameBuffers_def frames P_import_frames)
qed

lemma P_import_streams: "P (snd r) \<Longrightarrow> P_opt (import_streams Q os scs r)"
proof (induction scs arbitrary: r)
  case (Cons sc scs)
  then show ?case using P_import_stream [of r Q os sc] by (cases "import_stream Q os sc r") auto
qed simp

lemma P_unmap_frames: "P (snd r) \<Longrightarrow> P (snd (unmap_frames os ds r))"
  by (induction ds arbitrary: r) (simp_all add: P_world)

lemma P_unimport_streams: "P (snd r) \<Longrightarrow> P_opt (unimport_streams os scs r)"
  by (induction scs arbitrary: r) (auto simp: Let_def P_unmap_frames split: option.split)

lemma P_give_buffers: "P s \<Longrightarrow> P_opt (give_buffers Q os buffers s)"
  unfolding give_buffers_def Let_def
  by (intro P_if_ok_opt) (auto simp: ImportBuffers_def P_import_streams P_SetFrameBuffers frames
      P_SetMetaDataBuffers metadata)

lemma P_set_params: "P s \<Longrightarrow> P (snd (set_params Q s))"
  unfolding set_params_def Let_def by (intro P_if_ok) (simp_all add: P_call)

lemma P_close_session: "P s \<Longrightarrow> P_opt (close_session Q os s)"
proof -
  assume p: "P s"
  obtain r1 s1 where c1: "cam_call (QCarCamRelease Q (m_QcarCamHndl s)) s = (r1, s1)" by fastforce
  obtain r2 s2 where c2: "cam_call (QCarCamClose Q (m_QcarCamHndl s)) s1 = (r2, s2)" by fastforce
  have "P s2" using P_call [OF P_call [OF p]] c1 c2 by (metis snd_conv)
  then show ?thesis by (simp add: close_session_def c1 c2 UnImportBuffers_def P_unimport_streams)
qed

end

definition same_but_buffers :: "('w, 'a) camera \<Rightarrow> ('w, 'a) camera \<Rightarrow> bool" where
  "same_but_buffers s s' \<longleftrightarrow>
     cam_nodeId s' = cam_nodeId s \<and> m_config s' = m_config s \<and>
     m_state s' = m_state s \<and> m_bRequestMode s' = m_bRequestMode s \<and>
     m_bIsPrimary s' = m_bIsPrimary s \<and> m_enableMetaData s' = m_enableMetaData s \<and>
     m_bRecovery s' = m_bRecovery s \<and>
     m_bRequestPatternMode s' = m_bRequestPatternMode s \<and>
     m_streamNum s' = m_streamNum s \<and> m_metaDataNum s' = m_metaDataNum s \<and>
     m_maxBufCnt s' = m_maxBufCnt s \<and> m_inputId s' = m_inputId s \<and>
     m_requestId s' = m_requestId s \<and> m_clientId s' = m_clientId s \<and>
     m_refStreamId s' = m_refStreamId s \<and>
     m_submitRequestPattern s' = m_submitRequestPattern s \<and> m_frameId s' = m_frameId s \<and>
     m_freeBufIdxQueue s' = m_freeBufIdxQueue s \<and>
     m_streamConfigs s' = m_streamConfigs s \<and> m_QcarCamHndl s' = m_QcarCamHndl s \<and>
     m_callback s' = m_callback s \<and> app_events s' = app_events s"

interpretation rest: buffers_invariant "same_but_buffers s" for s
  by unfold_locales (simp_all add: same_but_buffers_def)

lemma same_but_buffers_refl [simp]: "same_but_buffers s s"
  by (simp add: same_but_buffers_def)

subsection \<open>What initialization establishes\<close>

lemma if_ok_OK: "if_ok r f = (QC_STATUS_OK, s') \<longleftrightarrow> (\<exists>s. r = (QC_STATUS_OK, s) \<and> f s = (QC_STATUS_OK, s'))"
  by (cases r) (auto simp: if_ok_def)

lemma if_ok_opt_OK: "if_ok_opt x f = Some (QC_STATUS_OK, s') \<longleftrightarrow>
    (\<exists>s. x = Some (QC_STATUS_OK, s) \<and> f s = Some (QC_STATUS_OK, s'))"
  by (cases x) (auto simp: if_ok_opt_def split: prod.splits if_splits)

lemma find_input_same: "find_input st s = Some (ret, s') \<Longrightarrow> s' = s"
  by (auto simp: find_input_def split: prod.splits if_splits list.splits)

lemma call_same: "cam_call f s = (ret, s') \<Longrightarrow> \<exists>w. s' = s\<lparr>cam_world := w\<rparr>"
  by (auto simp: cam_call_def on_world_def split: prod.splits)

lemma same_but_buffers_trans: "same_but_buffers s t \<Longrightarrow> same_but_buffers t u \<Longrightarrow> same_but_buffers s u"
  by (simp add: same_but_buffers_def)

lemma open_camera_OK:
  assumes "open_camera Q s = (QC_STATUS_OK, s')"
  shows "same_but_buffers (s\<lparr>m_QcarCamHndl := m_QcarCamHndl s'\<rparr>) s'"
    and "m_QcarCamHndl s' \<noteq> QCARCAM_HNDL_INVALID Q"
proof -
  let ?c = "m_config s"
  obtain ok hndl w where o: "QCarCamOpen Q \<lparr>op_opMode = cc_opMode ?c, op_clientId = m_clientId s,
      op_inputId = m_inputId s, op_srcId = cc_srcId ?c, op_inputMode = cc_inputMode ?c,
      op_recovery = m_bRecovery s, op_requestMode = m_bRequestMode s,
      op_multiClient = (m_clientId s \<noteq> 0)\<rparr> (cam_world s) = ((ok, hndl), w)" by (metis prod.exhaust)
  let ?s = "case hndl of None \<Rightarrow> s\<lparr>cam_world := w\<rparr> | Some h \<Rightarrow> s\<lparr>cam_world := w, m_QcarCamHndl := h\<rparr>"
  have "open_camera Q s = (if \<not> ok \<or> m_QcarCamHndl ?s = QCARCAM_HNDL_INVALID Q
      then QC_STATUS_FAIL else QC_STATUS_OK, ?s)"
    unfolding open_camera_def Let_def on_world_def o by (cases hndl) simp_all
  then have e: "s' = ?s" "m_QcarCamHndl ?s \<noteq> QCARCAM_HNDL_INVALID Q"
    using assms by (auto split: if_splits)
  then show "m_QcarCamHndl s' \<noteq> QCARCAM_HNDL_INVALID Q" by simp
  show "same_but_buffers (s\<lparr>m_QcarCamHndl := m_QcarCamHndl s'\<rparr>) s'"
    unfolding e(1) by (cases hndl) (simp_all add: same_but_buffers_def)
qed

lemma register_events_OK: "register_events Q s = (QC_STATUS_OK, s') \<Longrightarrow> same_but_buffers s s'"
  by (auto simp: register_events_def same_but_buffers_def split: prod.splits dest!: call_same)

lemma set_params_OK: "set_params Q s = (QC_STATUS_OK, s') \<Longrightarrow> same_but_buffers s s'"
  using rest.P_set_params [of s s Q] by simp

text \<open>The steps of a successful initialization. Opening the session, setting its parameters and giving
  it the buffers leaves what the steps before set.\<close>

lemma Initialize_OK:
  assumes "CameraImpl_Initialize Q os st callback buffers s = Some (QC_STATUS_OK, s')"
  obtains a b c w where "m_state s = QC_OBJECT_STATE_INITIAL" "ValidateConfig (m_config s) = QC_STATUS_OK"
    "take_config callback s = (QC_STATUS_OK, a)" "setup_streams a = (QC_STATUS_OK, b)"
    "same_but_buffers (b\<lparr>m_QcarCamHndl := m_QcarCamHndl c\<rparr>) c" "m_QcarCamHndl c \<noteq> QCARCAM_HNDL_INVALID Q"
    "s' = c\<lparr>m_requestId := 0, cam_world := w, m_state := QC_OBJECT_STATE_READY\<rparr>"
proof -
  from assms obtain a b d e g c w where
    i: "m_state s = QC_OBJECT_STATE_INITIAL" "ValidateConfig (m_config s) = QC_STATUS_OK"
    and a: "take_config callback s = (QC_STATUS_OK, a)" and b: "setup_streams a = (QC_STATUS_OK, b)"
    and o: "open_camera Q b = (QC_STATUS_OK, d)" and r: "register_events Q d = (QC_STATUS_OK, e)"
    and p: "set_params Q e = (QC_STATUS_OK, g)"
    and gb: "give_buffers Q os buffers g = Some (QC_STATUS_OK, c)"
    and s': "s' = c\<lparr>m_requestId := 0, cam_world := w, m_state := QC_OBJECT_STATE_READY\<rparr>"
    by (auto simp: CameraImpl_Initialize_def if_ok_OK if_ok_opt_OK split: if_splits
        dest!: call_same find_input_same)
  have "same_but_buffers g c" using rest.P_give_buffers [of g g Q os buffers] gb by simp
  then have dc: "same_but_buffers d c"
    using same_but_buffers_trans register_events_OK [OF r] set_params_OK [OF p] by blast
  then have h: "m_QcarCamHndl d = m_QcarCamHndl c" by (simp add: same_but_buffers_def)
  show thesis
    using that [OF i a b _ _ s'] same_but_buffers_trans [OF open_camera_OK(1) [OF o] dc]
      open_camera_OK(2) [OF o] h by simp
qed

text \<open>What the constructor leaves for the first initialization.\<close>

definition constructed :: "('w, 'a) camera \<Rightarrow> bool" where
  "constructed s \<longleftrightarrow> length (m_streamConfigs s) = QCNODE_CAMERA_MAX_STREAM_NUM \<and>
     length (m_submitRequestPattern s) = QCNODE_CAMERA_MAX_STREAM_NUM \<and>
     m_freeBufIdxQueue s = replicate QCNODE_CAMERA_MAX_STREAM_NUM []"

lemma fold_max_le: "fold (\<lambda>x m. max (f x) m) xs n \<le> b \<longleftrightarrow> n \<le> b \<and> (\<forall>x \<in> set xs. f x \<le> b)"
  for f :: "'x \<Rightarrow> nat"
  by (induction xs arbitrary: n) auto

lemma reference_stream_index:
  assumes "reference_stream scs \<noteq> of_nat QCNODE_CAMERA_MAX_STREAM_NUM"
  obtains r where "r < length scs" "sc_streamId (scs ! r) = reference_stream scs"
    "sc_submitRequestPattern (scs ! r) = 0"
proof -
  from assms obtain sc rest where f: "filter (\<lambda>sc. sc_submitRequestPattern sc = 0) scs = sc # rest"
    by (auto simp: reference_stream_def split: list.splits)
  then have "sc \<in> set scs" "sc_submitRequestPattern sc = 0"
    by (auto simp: filter_eq_Cons_iff)
  moreover have "reference_stream scs = sc_streamId sc" by (simp add: reference_stream_def f)
  ultimately show thesis using that by (metis in_set_conv_nth)
qed

lemma initialize_fresh:
  assumes run: "CameraImpl_Initialize Q os st callback buffers s = Some (QC_STATUS_OK, s')"
    and c: "constructed s" "cc_bRequestMode (m_config s)"
    and d: "distinct (map sc_streamId (cc_streamConfigs (m_config s)))"
    and n: "\<forall>sc \<in> set (cc_streamConfigs (m_config s)). length (sc_bufferIds sc) \<le> 2 ^ 32"
  shows "fresh s' \<and>
    (1 < length (cc_streamConfigs (m_config s)) \<and>
     (\<exists>sc \<in> set (cc_streamConfigs (m_config s)). sc_submitRequestPattern sc \<noteq> 0) \<and>
     (cc_clientId (m_config s) = 0 \<or> cc_bPrimary (m_config s)) \<longrightarrow> pattern_started s')"
proof -
  let ?scs = "cc_streamConfigs (m_config s)"
  let ?n = "length ?scs"
  from run obtain a b e w where v: "ValidateConfig (m_config s) = QC_STATUS_OK"
    and a: "take_config callback s = (QC_STATUS_OK, a)" and b: "setup_streams a = (QC_STATUS_OK, b)"
    and be: "same_but_buffers (b\<lparr>m_QcarCamHndl := m_QcarCamHndl e\<rparr>) e"
    and h: "m_QcarCamHndl e \<noteq> QCARCAM_HNDL_INVALID Q"
    and s': "s' = e\<lparr>m_requestId := 0, cam_world := w, m_state := QC_OBJECT_STATE_READY\<rparr>"
    by (rule Initialize_OK)
  from v have n32: "?n \<le> QCNODE_CAMERA_MAX_STREAM_NUM"
    and ids: "\<forall>sc \<in> set ?scs. unat (sc_streamId sc) < QCNODE_CAMERA_MAX_STREAM_NUM"
    by (auto simp: ValidateConfig_def Let_def split: if_splits)
  have fa: "m_config a = m_config s" "m_streamNum a = ?n" "m_bRequestMode a"
    "m_clientId a = cc_clientId (m_config s)" "m_bIsPrimary a = cc_bPrimary (m_config s)" "m_maxBufCnt a = 0"
    "m_streamConfigs a = m_streamConfigs s" "m_submitRequestPattern a = m_submitRequestPattern s"
    "m_freeBufIdxQueue a = m_freeBufIdxQueue s"
    using a c(2) by (auto simp: take_config_def Let_def)
  have fb: "m_streamNum b = ?n" "m_bRequestMode b" "m_clientId b = cc_clientId (m_config s)"
    "m_bIsPrimary b = cc_bPrimary (m_config s)" "m_freeBufIdxQueue b = m_freeBufIdxQueue s"
    "m_streamConfigs b = ?scs @ drop ?n (m_streamConfigs s)" "m_maxBufCnt b \<le> 2 ^ 32"
    "length (m_submitRequestPattern b) = QCNODE_CAMERA_MAX_STREAM_NUM"
    using b fa c(1) n n32
    by (auto simp: setup_streams_def Let_def fold_max_le constructed_def split: if_splits)
  have pat: "m_bRequestPatternMode b \<and> m_submitRequestPattern b =
        map sc_submitRequestPattern ?scs @ drop ?n (m_submitRequestPattern s) \<and>
      m_refStreamId b = reference_stream ?scs \<and>
      reference_stream ?scs \<noteq> of_nat QCNODE_CAMERA_MAX_STREAM_NUM"
    if "1 < ?n" "\<exists>sc \<in> set ?scs. sc_submitRequestPattern sc \<noteq> 0"
    using b fa that by (auto simp: setup_streams_def Let_def split: if_splits)
  have fs: "m_streamNum s' = ?n" "m_bRequestMode s'" "m_freeBufIdxQueue s' = m_freeBufIdxQueue s"
    "m_streamConfigs s' = ?scs @ drop ?n (m_streamConfigs s)" "m_maxBufCnt s' \<le> 2 ^ 32"
    "m_submitRequestPattern s' = m_submitRequestPattern b" "m_refStreamId s' = m_refStreamId b"
    "m_bRequestPatternMode s' = m_bRequestPatternMode b" "m_clientId s' = cc_clientId (m_config s)"
    "m_bIsPrimary s' = cc_bPrimary (m_config s)"
    using be fb by (auto simp: same_but_buffers_def s')
  have sid: "sid s' i = sc_streamId (?scs ! i)" if "i < ?n" for i
    using that by (simp add: sid_def fs nth_append)
  have ok: "streams_ok s'"
    using c(1) n32 ids d fb(8)
    by (auto simp: streams_ok_def fs sid constructed_def inj_on_def nth_eq_iff_index_eq distinct_conv_nth)
  then have "fresh s'" using c(1) fs by (simp add: fresh_def constructed_def)
  moreover have "pattern_started s'" if "1 < ?n" "\<exists>sc \<in> set ?scs. sc_submitRequestPattern sc \<noteq> 0"
    "cc_clientId (m_config s) = 0 \<or> cc_bPrimary (m_config s)"
  proof -
    note p = pat [OF that(1,2)]
    then obtain r where r: "r < ?n" "sc_streamId (?scs ! r) = reference_stream ?scs"
      "sc_submitRequestPattern (?scs ! r) = 0" using reference_stream_index by blast
    have "pattern_of s' i = sc_submitRequestPattern (?scs ! i)" if "i < ?n" for i
      using that by (simp add: pattern_of_def fs nth_append)
    then have "reference s' r" "\<forall>i < m_streamNum s'. m_submitRequestPattern s' ! i = pattern_of s' i"
      using r p by (auto simp: reference_def fs sid nth_append)
    then show ?thesis using ok that(3) p fs by (auto simp: pattern_started_def requesting_def)
  qed
  ultimately show ?thesis by simp
qed

text \<open>C10: an initialization that succeeds was one of a camera in its initial state with a valid
  configuration, and leaves it ready, with a session of the library, for any camera, mode and library.
  When the camera is a newly constructed one, in request mode, and its streams have different
  identifiers and at most \<open>2 ^ 32\<close> buffers each, the session is one from which the safety of requests
  follows; if then there are several streams, one of them has a request pattern, and the client may
  submit requests, every counter starts at the pattern of its stream and there is a reference stream,
  so that the rates of the streams follow.\<close>

theorem camera_initialize_ready:
  assumes "CameraImpl_Initialize Q os st callback buffers s = Some (QC_STATUS_OK, s')"
  shows "m_state s = QC_OBJECT_STATE_INITIAL \<and> ValidateConfig (m_config s) = QC_STATUS_OK \<and>
    m_state s' = QC_OBJECT_STATE_READY \<and> m_QcarCamHndl s' \<noteq> QCARCAM_HNDL_INVALID Q \<and>
    (constructed s \<and> cc_bRequestMode (m_config s) \<and>
     distinct (map sc_streamId (cc_streamConfigs (m_config s))) \<and>
     (\<forall>sc \<in> set (cc_streamConfigs (m_config s)). length (sc_bufferIds sc) \<le> 2 ^ 32) \<longrightarrow>
     fresh s' \<and>
     (1 < length (cc_streamConfigs (m_config s)) \<and>
      (\<exists>sc \<in> set (cc_streamConfigs (m_config s)). sc_submitRequestPattern sc \<noteq> 0) \<and>
      (cc_clientId (m_config s) = 0 \<or> cc_bPrimary (m_config s)) \<longrightarrow> pattern_started s'))"
proof -
  have "m_state s' = QC_OBJECT_STATE_READY \<and> m_QcarCamHndl s' \<noteq> QCARCAM_HNDL_INVALID Q \<and>
      m_state s = QC_OBJECT_STATE_INITIAL \<and> ValidateConfig (m_config s) = QC_STATUS_OK"
    using assms by (rule Initialize_OK) simp
  then show ?thesis using initialize_fresh [OF assms] by blast
qed

subsection \<open>The life cycle\<close>

datatype camera_op =
    Op_Initialize camera_static bool "any_buffer list"
  | Op_Start
  | Op_Stop
  | Op_DeInitialize
  | Op_Process "any_buffer option"
  | Op_Event qcarcam_event u64

fun camera_do ::
  "'w qcarcam \<Rightarrow> 'w dma_os \<Rightarrow> camera_op \<Rightarrow> ('w, 'a) camera \<Rightarrow> (QCStatus_e \<times> ('w, 'a) camera) option" where
  "camera_do Q os (Op_Initialize st cb buffers) s = CameraImpl_Initialize Q os st cb buffers s"
| "camera_do Q os Op_Start s = Some (CameraImpl_Start Q s)"
| "camera_do Q os Op_Stop s = Some (CameraImpl_Stop Q s)"
| "camera_do Q os Op_DeInitialize s = CameraImpl_DeInitialize Q os s"
| "camera_do Q os (Op_Process b) s = CameraImpl_ProcessFrameDescriptor Q b s"
| "camera_do Q os (Op_Event e p) s = map_option (\<lambda>s. (QC_STATUS_OK, s)) (QcarcamEventCb Q e p s)"

text \<open>The automaton: the state an operation needs, and the state after it.\<close>

fun cam_needs :: "camera_op \<Rightarrow> QCObjectState_e option" where
  "cam_needs (Op_Initialize st cb buffers) = Some QC_OBJECT_STATE_INITIAL"
| "cam_needs Op_Start = Some QC_OBJECT_STATE_READY"
| "cam_needs Op_Stop = Some QC_OBJECT_STATE_RUNNING"
| "cam_needs Op_DeInitialize = Some QC_OBJECT_STATE_READY"
| "cam_needs (Op_Process b) = Some QC_OBJECT_STATE_RUNNING"
| "cam_needs (Op_Event e p) = None"

definition cam_refuses :: "camera_op \<Rightarrow> QCObjectState_e \<Rightarrow> bool" where
  "cam_refuses opn st \<longleftrightarrow> cam_needs opn \<noteq> None \<and> cam_needs opn \<noteq> Some st"

fun cam_next :: "camera_op \<Rightarrow> QCStatus_e \<Rightarrow> QCObjectState_e \<Rightarrow> QCObjectState_e" where
  "cam_next (Op_Initialize _ _ _) ret st =
     (if ret = QC_STATUS_OK then QC_OBJECT_STATE_READY else QC_OBJECT_STATE_INITIAL)"
| "cam_next Op_Start ret st = (if ret = QC_STATUS_OK then QC_OBJECT_STATE_RUNNING else st)"
| "cam_next Op_Stop ret st = (if ret = QC_STATUS_OK then QC_OBJECT_STATE_READY else st)"
| "cam_next Op_DeInitialize ret st = (if ret = QC_STATUS_OK then QC_OBJECT_STATE_INITIAL else st)"
| "cam_next _ ret st = st"

lemma call_state: "cam_call f s = (ret, s') \<Longrightarrow> m_state s' = m_state s"
  by (auto dest!: call_same)

lemma submit_state: "submit Q rq s = (ret, s') \<Longrightarrow> m_state s' = m_state s"
  by (auto simp: submit_def dest!: call_state)

lemma submit_each_state: "submit_each Q bs s = (ret, s') \<Longrightarrow> m_state s' = m_state s"
  by (induction bs arbitrary: s)
    (auto simp: if_ok_def dest!: submit_state split: prod.splits if_splits)

lemma round_state: "m_state (snd (fold request_stream is r)) = m_state (snd r)"
  by (induction "is" arbitrary: r)
    (auto simp: request_stream_def Let_def split: prod.splits list.splits)

lemma hand_back_state: "SubmitRequest_frame Q d s = Some (ret, s') \<Longrightarrow> m_state s' = m_state s"
proof -
  assume run: "SubmitRequest_frame Q d s = Some (ret, s')"
  let ?s = "s\<lparr>m_freeBufIdxQueue := (m_freeBufIdxQueue s)[unat (c_streamId d) :=
    m_freeBufIdxQueue s ! unat (c_streamId d) @ [c_frameIdx d]]\<rparr>"
  obtain rq s2 where f: "fold request_stream [0..<m_streamNum s] (no_request, ?s) = (rq, s2)"
    by fastforce
  then have "m_state s2 = m_state s" using round_state [of "[0..<m_streamNum s]" "(no_request, ?s)"] by simp
  with run f show ?thesis
    by (auto simp: SubmitRequest_frame_def Let_def split: if_splits dest!: submit_state)
qed

lemma process_state:
  "CameraImpl_ProcessFrameDescriptor Q b s = Some (ret, s') \<Longrightarrow> m_state s' = m_state s"
  by (auto simp: CameraImpl_ProcessFrameDescriptor_def ReleaseFrame_def SubmitRequest_metadata_def Let_def
      dest!: hand_back_state call_state split: if_splits option.splits any_buffer.splits)

lemma desc_state: "m_state (set_frame_desc l j d s) = m_state s"
  by (simp add: set_frame_desc_def Let_def)

lemma stamp_state: "stamp_frame l i info s = Some (ret, s') \<Longrightarrow> m_state s' = m_state s"
  by (auto simp: stamp_frame_def desc_state split: option.splits)

lemma frame_ready_state:
  assumes "frame_ready Q info s = Some s'"
  shows "m_state s' = m_state s"
proof -
  from assms obtain ret l i s1 where g: "GetFrame Q info s = Some ((ret, l, i), s1)"
    and n: "s' = s1 \<or> FrameCallback l i s1 = Some s'"
    by (auto simp: frame_ready_def split: option.splits if_splits)
  have "m_state s1 = m_state s"
    using g by (auto simp: GetFrame_def on_world_def Let_def dest!: stamp_state
        split: if_splits prod.splits)
  moreover have "m_state s' = m_state s1" if "FrameCallback l i s1 = Some s'"
    using that by (auto simp: FrameCallback_def Let_def cam_notify_def desc_state
        split: if_splits option.splits)
  ultimately show ?thesis using n by auto
qed

lemma cam_event_state: "QcarcamEventCb Q e p s = Some s' \<Longrightarrow> m_state s' = m_state s"
proof -
  have many: "m_state s' = m_state s" if "frames_ready Q ts ptp frames s = Some s'"
    for ts ptp frames and s s' :: "('a, 'b) camera"
    using that
    by (induction frames arbitrary: s) (auto dest!: frame_ready_state split: option.splits)
  show "QcarcamEventCb Q e p s = Some s' \<Longrightarrow> m_state s' = m_state s"
    by (auto simp: QcarcamEventCb_def EventCallback_def cam_notify_def dest!: frame_ready_state many
        split: qcarcam_event.splits if_splits)
qed

lemma cam_Start_state:
  "CameraImpl_Start Q s = (ret, s') \<Longrightarrow> m_state s = QC_OBJECT_STATE_READY \<Longrightarrow>
   m_state s' = (if ret = QC_STATUS_OK then QC_OBJECT_STATE_RUNNING else QC_OBJECT_STATE_READY)"
  by (auto simp: CameraImpl_Start_def SubmitAllBuffers_def on_world_def Let_def
      dest!: call_same submit_each_state split: prod.splits if_splits)

text \<open>C17: the operations of a session implement its life cycle, for any library: the state after an
  operation is the automaton's; an operation in a state it does not allow returns BAD_STATE. Refused
  \<^verbatim>\<open>Start\<close>, \<^verbatim>\<open>Stop\<close> and \<^verbatim>\<open>ProcessFrameDescriptor\<close> change nothing, but a refused \<^verbatim>\<open>Initialize\<close> closes the
  session and a refused \<^verbatim>\<open>DeInitialize\<close> drops the buffers of a session that goes on.\<close>

theorem camera_lifecycle:
  assumes "camera_do Q os opn s = Some (ret, s')"
  shows "m_state s' = cam_next opn ret (m_state s) \<and>
    (cam_refuses opn (m_state s) \<longrightarrow> ret = QC_STATUS_BAD_STATE \<and>
      (case opn of
         Op_Initialize st cb buffers \<Rightarrow> s' = cam_init_cleanup Q s
       | Op_DeInitialize \<Rightarrow> s' = deinit_clear s
       | _ \<Rightarrow> s' = s))"
proof (cases opn)
  case (Op_Initialize st cb buffers)
  have "m_state (cam_init_cleanup Q t) = QC_OBJECT_STATE_INITIAL" for t :: "('a, 'b) camera"
    by (simp add: cam_init_cleanup_def Let_def on_world_def ClearFrameBuffers_def ClearMetaDataBuffers_def
        split: prod.split)
  with assms Op_Initialize show ?thesis
    by (auto simp: CameraImpl_Initialize_def cam_refuses_def if_ok_def if_ok_opt_def split: if_splits)
next
  case Op_DeInitialize
  have "m_state (deinit_clear s) = m_state s"
    by (simp add: deinit_clear_def ClearFrameBuffers_def ClearMetaDataBuffers_def)
  with assms Op_DeInitialize show ?thesis
    by (auto simp: CameraImpl_DeInitialize_def cam_refuses_def deinit_clear_def ClearFrameBuffers_def
        ClearMetaDataBuffers_def split: if_splits)
next
  case Op_Start
  with assms show ?thesis
    by (cases "m_state s = QC_OBJECT_STATE_READY")
      (auto simp: cam_refuses_def cam_Start_state, simp_all add: CameraImpl_Start_def)
next
  case Op_Stop
  with assms show ?thesis
    by (auto simp: CameraImpl_Stop_def cam_refuses_def Let_def split: prod.splits if_splits)
next
  case (Op_Process b)
  with assms have run: "CameraImpl_ProcessFrameDescriptor Q b s = Some (ret, s')" by simp
  have "ret = QC_STATUS_BAD_STATE \<and> s' = s" if "m_state s \<noteq> QC_OBJECT_STATE_RUNNING"
    using run that by (simp add: CameraImpl_ProcessFrameDescriptor_def)
  then show ?thesis using process_state [OF run] Op_Process by (simp add: cam_refuses_def)
next
  case (Op_Event e p)
  with assms show ?thesis by (auto simp: cam_refuses_def dest!: cam_event_state)
qed

text \<open>C18: stopping a session and starting it again gives the library buffers twice. The start submits every
  buffer of every stream, also those waiting in the queues of the request pattern, which keep them.\<close>

theorem camera_restart_resubmits:
  assumes ok: "streams_ok s" "m_bRequestMode s" "m_clientId s = 0 \<or> m_bIsPrimary s"
    and stop: "CameraImpl_Stop (log_requests Q) s = (QC_STATUS_OK, s1)"
    and start: "CameraImpl_Start (log_requests Q) s1 = (QC_STATUS_OK, s2)"
    and x: "i < m_streamNum s" "x \<in> set (free_of s i)"
    and b: "unat x < length (sc_bufferIds (m_streamConfigs s ! i))"
      "length (sc_bufferIds (m_streamConfigs s ! i)) \<le> m_maxBufCnt s"
  shows "(sid s i, x) \<in> set (new_buffers s1 s2) \<and> x \<in> set (free_of s2 i)"
proof -
  have s1: "\<exists>w. s1 = s\<lparr>cam_world := w, m_state := QC_OBJECT_STATE_READY\<rparr>"
    using stop by (auto simp: CameraImpl_Stop_def Let_def dest!: call_same split: prod.splits if_splits)
      blast
  then have f: "m_bRequestMode s1" "m_streamNum s1 = m_streamNum s" "m_streamConfigs s1 = m_streamConfigs s"
    "m_maxBufCnt s1 = m_maxBufCnt s" "m_clientId s1 = 0 \<or> m_bIsPrimary s1"
    "m_freeBufIdxQueue s1 = m_freeBufIdxQueue s"
    using ok by auto
  obtain w rid new k where
    s2: "s2 = s1\<lparr>cam_world := (w, sent s1 @ new), m_state := QC_OBJECT_STATE_RUNNING, m_requestId := rid\<rparr>"
    and n: "new_buffers s1 s2 = concat (map (\<lambda>b. requested (all_buffers_request
       (take (m_streamNum s1) (m_streamConfigs s1)) b)) (take k [0..<m_maxBufCnt s1]))"
    and k: "m_clientId s1 = 0 \<or> m_bIsPrimary s1 \<longrightarrow> k = m_maxBufCnt s1"
    by (rule Start_OK [OF f(1) start])
  let ?scs = "take (m_streamNum s) (m_streamConfigs s)" and ?sc = "m_streamConfigs s ! i"
  have "?sc \<in> set ?scs" using ok(1) x(1) by (auto simp: streams_ok_def in_set_conv_nth)
  then have "(sc_streamId ?sc, of_nat (unat x)) \<in> set (requested (all_buffers_request ?scs (unat x)))"
    using ok(1) b(1) by (subst all_buffers_requested) (auto simp: streams_ok_def)
  moreover have "unat x \<in> set (take k [0..<m_maxBufCnt s1])" using k f b by simp
  ultimately have "(sid s i, x) \<in> set (new_buffers s1 s2)" using n f by (auto simp: sid_def)
  moreover have "free_of s2 i = free_of s i" by (simp add: s2 free_of_def sid_def f)
  ultimately show ?thesis using x(2) by simp
qed

end
