(* ===== verification/QC_CameraFrames.thy ===== *)
theory QC_CameraFrames
  imports QC_CameraLife
begin

text \<open>
  What the library and the application see of the frames: the planes of a buffer that is given to the
  library lie one after the other in the buffer, and over any traffic of announced frames and buffers
  handed back, the frames reach the application in order, stamped and numbered without gaps.
\<close>

subsection \<open>Planes\<close>

lemma unat_sum: "(\<Sum>j \<in> A. unat (f j)) < 2 ^ 32 \<Longrightarrow> unat (\<Sum>j \<in> A. f j) = (\<Sum>j \<in> A. unat (f j))"
  for f :: "'x \<Rightarrow> u32"
proof (induction A rule: infinite_finite_induct)
  case (insert x A)
  then show ?case by (simp add: unat_word_ariths)
qed simp_all

text \<open>The plane at place \<open>j\<close>, at the end of the planes from \<open>k\<close> on.\<close>

definition plane_of :: "CameraFrameDescriptor \<Rightarrow> nat \<Rightarrow> u32 \<Rightarrow> QCarCamPlane" where
  "plane_of d j ofs =
     \<lparr>pl_memHndl = dmaHandle d, pl_width = i_width d, pl_height = i_height d,
      pl_stride = i_stride d ! j, pl_size = i_planeBufSize d ! j, pl_offset = ofs\<rparr>"

lemma length_lay_planes [simp]: "length (lay_planes d k n ofs pls) = length pls"
  by (induction n arbitrary: k ofs pls) simp_all

lemma lay_planes_before: "j < k \<Longrightarrow> lay_planes d k n ofs pls ! j = pls ! j"
  by (induction n arbitrary: k ofs pls) simp_all

lemma lay_planes_nth:
  "k \<le> j \<Longrightarrow> j < k + n \<Longrightarrow> k + n \<le> length pls \<Longrightarrow>
   lay_planes d k n ofs pls ! j = plane_of d j (ofs + (\<Sum>i \<in> {k..<j}. i_planeBufSize d ! i))"
proof (induction n arbitrary: k ofs pls)
  case (Suc n)
  show ?case
  proof (cases "j = k")
    case True
    with Suc.prems show ?thesis by (simp add: lay_planes_before plane_of_def)
  next
    case False
    with Suc.prems have "(\<Sum>i \<in> {k..<j}. i_planeBufSize d ! i) =
        i_planeBufSize d ! k + (\<Sum>i \<in> {Suc k..<j}. i_planeBufSize d ! i)"
      by (simp add: sum.atLeast_Suc_lessThan)
    with Suc.IH [of "Suc k"] Suc.prems False show ?thesis by (simp add: add.assoc)
  qed
qed simp

definition planes_end_to_end :: "u64 \<Rightarrow> QCarCamPlane list \<Rightarrow> nat \<Rightarrow> nat \<Rightarrow> bool" where
  "planes_end_to_end h pls n extent \<longleftrightarrow>
     (\<forall>k < n. pl_memHndl (pls ! k) = h \<and> unat (pl_offset (pls ! k)) = (\<Sum>j < k. unat (pl_size (pls ! j)))) \<and>
     (\<Sum>j < n. unat (pl_size (pls ! j))) = extent"

text \<open>C20: the planes that describe a frame buffer to the library lie end to end from the start of the
  buffer, and together are as large as the planes of the image: all of them, or for a compressed
  format, whose four planes become two, the four. This holds when the image's planes together stay
  below 4 GiB.\<close>

theorem camera_planes_end_to_end:
  assumes "m = (if is_ubwc fmt then 4 else unat (i_numPlanes d))"
    and "\<not> is_ubwc fmt \<longrightarrow> i_numPlanes d \<le> QCARCAM_MAX_NUM_PLANES Q"
    and "2 \<le> QCARCAM_MAX_NUM_PLANES Q" "length (q_planes b) = unat (QCARCAM_MAX_NUM_PLANES Q)"
    and "(\<Sum>j < m. unat (i_planeBufSize d ! j)) < 2 ^ 32"
  shows "q_numPlanes (camera_buffer Q fmt d b) = (if is_ubwc fmt then 2 else i_numPlanes d) \<and>
    planes_end_to_end (dmaHandle d) (q_planes (camera_buffer Q fmt d b))
      (unat (q_numPlanes (camera_buffer Q fmt d b))) (\<Sum>j < m. unat (i_planeBufSize d ! j))"
proof (cases "is_ubwc fmt")
  case True
  let ?p = "\<lambda>j. i_planeBufSize d ! j"
  from assms True have m: "m = 4" and sum: "(\<Sum>j < 4. unat (?p j)) < 2 ^ 32" by simp_all
  have s4: "(\<Sum>j < 4. unat (?p j)) = unat (?p 0) + unat (?p 1) + unat (?p 2) + unat (?p 3)"
    by (simp add: eval_nat_numeral)
  have a: "unat (?p 0 + ?p 1) = unat (?p 0) + unat (?p 1)" "unat (?p 2 + ?p 3) = unat (?p 2) + unat (?p 3)"
    using sum s4 by (simp_all add: unat_word_ariths)
  have two: "\<not> QCARCAM_MAX_NUM_PLANES Q < 2" using assms(3) by simp
  have len: "2 \<le> length (q_planes b)" using assms(3,4) by (simp add: word_le_nat_alt)
  then have "0 < length (q_planes b)" "Suc 0 < length (q_planes b)" by linarith+
  let ?l = "lay_planes d 0 2 0 (q_planes b)"
  have l: "pl_memHndl (?l ! 0) = dmaHandle d" "pl_memHndl (?l ! 1) = dmaHandle d"
    using len by (simp_all add: lay_planes_nth plane_of_def)
  have n: "q_numPlanes (camera_buffer Q fmt d b) = 2"
    using True two by (simp add: camera_buffer_def Let_def)
  have "q_planes (camera_buffer Q fmt d b) =
      (let l1 = ?l[1 := (?l ! 1)\<lparr>pl_height := pl_height (?l ! 1) div 2\<rparr>]
       in l1[0 := (l1 ! 0)\<lparr>pl_size := ?p 0 + ?p 1, pl_offset := 0\<rparr>,
             1 := (l1 ! 1)\<lparr>pl_size := ?p 2 + ?p 3, pl_offset := ?p 0 + ?p 1\<rparr>])"
    using True two by (simp add: camera_buffer_def Let_def)
  then have q: "pl_memHndl (q_planes (camera_buffer Q fmt d b) ! 0) = dmaHandle d"
    "pl_memHndl (q_planes (camera_buffer Q fmt d b) ! 1) = dmaHandle d"
    "pl_offset (q_planes (camera_buffer Q fmt d b) ! 0) = 0"
    "pl_offset (q_planes (camera_buffer Q fmt d b) ! 1) = ?p 0 + ?p 1"
    "pl_size (q_planes (camera_buffer Q fmt d b) ! 0) = ?p 0 + ?p 1"
    "pl_size (q_planes (camera_buffer Q fmt d b) ! 1) = ?p 2 + ?p 3"
    using l \<open>0 < length (q_planes b)\<close> \<open>Suc 0 < length (q_planes b)\<close> by (simp_all add: Let_def)
  then have "planes_end_to_end (dmaHandle d) (q_planes (camera_buffer Q fmt d b)) (Suc (Suc 0))
      (\<Sum>j < m. unat (?p j))"
    using a s4 m by (simp add: planes_end_to_end_def All_less_Suc)
  moreover have "unat (q_numPlanes (camera_buffer Q fmt d b)) = Suc (Suc 0)" by (simp add: n)
  ultimately show ?thesis using n True by (simp only: if_True simp_thms)
next
  case False
  let ?n = "unat (i_numPlanes d)" and ?p = "\<lambda>j. i_planeBufSize d ! j"
  from assms False have m: "m = ?n" and sum: "(\<Sum>j < ?n. unat (?p j)) < 2 ^ 32"
    and le: "\<not> QCARCAM_MAX_NUM_PLANES Q < i_numPlanes d" by (simp_all add: not_less)
  from le assms(4) have len: "?n \<le> length (q_planes b)" by (simp add: not_less word_le_nat_alt)
  let ?l = "lay_planes d 0 ?n 0 (q_planes b)"
  have n: "q_numPlanes (camera_buffer Q fmt d b) = i_numPlanes d"
    using False le by (simp add: camera_buffer_def Let_def)
  have q: "q_planes (camera_buffer Q fmt d b) =
      (if fmt = QC_IMAGE_FORMAT_NV12 \<or> fmt = QC_IMAGE_FORMAT_P010
       then ?l[1 := (?l ! 1)\<lparr>pl_height := pl_height (?l ! 1) div 2\<rparr>] else ?l)"
    using False le by (simp add: camera_buffer_def Let_def)
  have l: "?l ! k = plane_of d k (\<Sum>j < k. ?p j)" if "k < ?n" for k
    using lay_planes_nth [of 0 k ?n "q_planes b" d 0] that len by (simp add: lessThan_atLeast0)
  have e: "pl_memHndl (q_planes (camera_buffer Q fmt d b) ! k) = dmaHandle d \<and>
      pl_offset (q_planes (camera_buffer Q fmt d b) ! k) = (\<Sum>j < k. ?p j) \<and>
      pl_size (q_planes (camera_buffer Q fmt d b) ! k) = ?p k" if "k < ?n" for k
    using l [OF that] that len by (cases "k = 1") (auto simp: q plane_of_def)
  have "unat (\<Sum>j < k. ?p j) = (\<Sum>j < k. unat (?p j))" if "k < ?n" for k
  proof -
    have "(\<Sum>j < k. unat (?p j)) \<le> (\<Sum>j < ?n. unat (?p j))"
      using that by (intro sum_mono2) auto
    then show ?thesis using sum by (intro unat_sum) linarith
  qed
  then show ?thesis
    using e n m False by (simp add: planes_end_to_end_def)
qed

subsection \<open>Frames for the application\<close>

definition desc_at :: "('w, 'a) camera \<Rightarrow> u32 \<Rightarrow> u32 \<Rightarrow> CameraFrameDescriptor" where
  "desc_at s l i =
     (case fb_descs (m_frameBuffers s ! unat l) of None \<Rightarrow> demo_camera | Some ds \<Rightarrow> ds ! unat i)"

text \<open>The buffer of a frame is set up, and a session that passes frames on.\<close>

definition frame_ok :: "('w, 'a) camera \<Rightarrow> frame_id \<Rightarrow> bool" where
  "frame_ok s b \<longleftrightarrow>
     (case b of (l, i) \<Rightarrow> unat l < length (m_frameBuffers s) \<and> unat l < length (m_frameId s) \<and>
        (case fb_descs (m_frameBuffers s ! unat l) of None \<Rightarrow> False | Some ds \<Rightarrow> unat i < length ds) \<and>
        c_streamId (desc_at s l i) = l)"

definition delivering :: "('w, 'a) camera \<Rightarrow> bool" where
  "delivering s \<longleftrightarrow> m_state s = QC_OBJECT_STATE_RUNNING \<and> m_callback s \<and> m_bRequestMode s"

definition frame_event :: "('w, 'a) camera \<Rightarrow> CameraFrameDescriptor \<Rightarrow> app_event" where
  "frame_event s d = \<lparr>ev_frame = [Some (A_Camera d)], ev_nodeId = cam_nodeId s, ev_status = QC_STATUS_OK,
                      ev_state = QC_OBJECT_STATE_RUNNING\<rparr>"

definition delivered_frame ::
  "('w, 'a) camera \<Rightarrow> QCarCamFrameInfo \<Rightarrow> CameraFrameDescriptor" where
  "delivered_frame s info =
     (desc_at s (fi_id info) (fi_bufferIndex info))
       \<lparr>c_timestamp := fi_timestamp info, c_timestampQGPTP := fi_timestampGPTP info,
        c_flags := fi_flags info, bufId := m_frameId s ! unat (fi_id info)\<rparr>"

lemma set_frame_desc_set [simp]:
  "set_frame_desc l j d (set_frame_desc l j d' s) = set_frame_desc l j d s"
  by (cases "l < length (m_frameBuffers s)")
    (auto simp: set_frame_desc_def Let_def option.map_comp comp_def not_less list_update_beyond)

lemma set_frame_desc_fields [simp]:
  "m_state (set_frame_desc l j d s) = m_state s" "m_callback (set_frame_desc l j d s) = m_callback s"
  "m_bRequestMode (set_frame_desc l j d s) = m_bRequestMode s"
  "m_frameId (set_frame_desc l j d s) = m_frameId s" "cam_nodeId (set_frame_desc l j d s) = cam_nodeId s"
  "app_events (set_frame_desc l j d s) = app_events s"
  "length (m_frameBuffers (set_frame_desc l j d s)) = length (m_frameBuffers s)"
  by (simp_all add: set_frame_desc_def Let_def)

lemma descs_set_frame_desc:
  "l < length (m_frameBuffers s) \<Longrightarrow>
   fb_descs (m_frameBuffers (set_frame_desc l j d s) ! k) =
     (if k = l then map_option (\<lambda>ds. ds[j := d]) (fb_descs (m_frameBuffers s ! l))
      else fb_descs (m_frameBuffers s ! k))"
  by (simp add: set_frame_desc_def Let_def nth_list_update)

lemma frame_ready_delivers:
  assumes s: "delivering s" and ok: "frame_ok s (fi_id info, fi_bufferIndex info)"
  defines "l \<equiv> unat (fi_id info)" and "i \<equiv> unat (fi_bufferIndex info)" and "d \<equiv> delivered_frame s info"
  shows "frame_ready Q info s =
    Some ((set_frame_desc l i d s)\<lparr>m_frameId := (m_frameId s)[l := m_frameId s ! l + 1],
                                   app_events := app_events s @ [frame_event s d]\<rparr>)"
proof -
  from ok obtain ds where len: "l < length (m_frameBuffers s)" "l < length (m_frameId s)"
    and ds: "fb_descs (m_frameBuffers s ! l) = Some ds" "i < length ds"
    and sid: "c_streamId (ds ! i) = fi_id info"
    by (auto simp: frame_ok_def desc_at_def l_def i_def split: option.splits)
  let ?d = "(ds ! i)\<lparr>c_timestamp := fi_timestamp info, c_timestampQGPTP := fi_timestampGPTP info,
                    c_flags := fi_flags info\<rparr>"
  have at: "frame_at (fi_id info) (fi_bufferIndex info) s = Some (Some (ds ! i))"
    using len ds by (simp add: frame_at_def l_def i_def)
  have st: "stamp_frame (fi_id info) (fi_bufferIndex info) info s =
      Some (QC_STATUS_OK, set_frame_desc l i ?d s)"
    by (simp add: stamp_frame_def at l_def i_def)
  have at2: "frame_at (fi_id info) (fi_bufferIndex info) (set_frame_desc l i ?d s) = Some (Some ?d)"
    using len ds by (simp add: frame_at_def descs_set_frame_desc flip: l_def i_def)
  have d: "d = ?d\<lparr>bufId := m_frameId s ! l\<rparr>"
    using ds by (simp add: d_def delivered_frame_def desc_at_def l_def i_def)
  have "FrameCallback (fi_id info) (fi_bufferIndex info) (set_frame_desc l i ?d s) =
    Some ((set_frame_desc l i d s)\<lparr>m_frameId := (m_frameId s)[l := m_frameId s ! l + 1],
                                   app_events := app_events s @ [frame_event s d]\<rparr>)"
    using s len sid
    by (simp add: FrameCallback_def at2 delivering_def Let_def cam_notify_def frame_event_def d flip: l_def i_def)
  then show ?thesis using s st by (simp add: frame_ready_def GetFrame_def delivering_def Let_def)
qed

lemma desc_at_set:
  assumes "frame_ok s (l, i)"
  shows "desc_at ((set_frame_desc (unat l) (unat i) d s)\<lparr>m_frameId := f, app_events := e\<rparr>) l' i' =
    (if l' = l \<and> i' = i then d else desc_at s l' i')"
  using assms
  by (auto simp: desc_at_def frame_ok_def descs_set_frame_desc word_unat_eq_iff nth_list_update
      split: option.splits)

lemma frame_ok_set:
  assumes "frame_ok s (l, i)" "c_streamId d = l" "length f = length (m_frameId s)"
  shows "frame_ok ((set_frame_desc (unat l) (unat i) d s)\<lparr>m_frameId := f, app_events := e\<rparr>) b = frame_ok s b"
  using assms
  by (cases b)
    (auto simp: frame_ok_def desc_at_set [OF assms(1)] descs_set_frame_desc split: option.splits)

subsection \<open>The traffic of a session\<close>

text \<open>The library announces frames and the application hands buffers back, in any order.\<close>

datatype camera_traffic = Announced qcarcam_event u64 | Handed_back "any_buffer option"

fun camera_run :: "'w qcarcam \<Rightarrow> camera_traffic list \<Rightarrow> ('w, 'a) camera \<Rightarrow> ('w, 'a) camera option" where
  "camera_run Q [] s = Some s"
| "camera_run Q (Announced e p # ts) s =
     (case QcarcamEventCb Q e p s of None \<Rightarrow> None | Some s1 \<Rightarrow> camera_run Q ts s1)"
| "camera_run Q (Handed_back b # ts) s =
     (case CameraImpl_ProcessFrameDescriptor Q b s of None \<Rightarrow> None | Some (ret, s1) \<Rightarrow> camera_run Q ts s1)"

text \<open>The frames an event announces.\<close>

fun frame_infos :: "qcarcam_event \<Rightarrow> QCarCamFrameInfo list" where
  "frame_infos (EVENT_FRAME_READY info) = [info]"
| "frame_infos (EVENT_MULTI_STREAM_FRAME_READY ts ptp frames) =
     map (\<lambda>(l, i, flags). \<lparr>fi_id = l, fi_bufferIndex = i, fi_timestamp = ts, fi_timestampGPTP = ptp,
                           fi_flags = flags\<rparr>) frames"
| "frame_infos _ = []"

fun traffic_infos :: "camera_traffic list \<Rightarrow> QCarCamFrameInfo list" where
  "traffic_infos [] = []"
| "traffic_infos (Announced e p # ts) = frame_infos e @ traffic_infos ts"
| "traffic_infos (Handed_back b # ts) = traffic_infos ts"

text \<open>Only frames are announced, each of a buffer that is set up, and a frame that is handed back names a
  stream there can be.\<close>

fun traffic_ok :: "('w, 'a) camera \<Rightarrow> camera_traffic \<Rightarrow> bool" where
  "traffic_ok s (Announced e p) \<longleftrightarrow>
     (case e of
        EVENT_FRAME_READY _ \<Rightarrow> True
      | EVENT_MULTI_STREAM_FRAME_READY _ _ _ \<Rightarrow> True
      | EVENT_INPUT_SIGNAL \<Rightarrow> True
      | _ \<Rightarrow> False) \<and>
     list_all (\<lambda>info. frame_ok s (fi_id info, fi_bufferIndex info)) (frame_infos e)"
| "traffic_ok s (Handed_back (Some (A_Camera d))) \<longleftrightarrow> unat (c_streamId d) < length (m_freeBufIdxQueue s)"
| "traffic_ok s (Handed_back _) \<longleftrightarrow> True"

text \<open>How often a stream is among the frames, and what the application is told of the frame at place
  \<open>k\<close>: the buffer, stamped, with the number of the frame in its stream.\<close>

definition of_stream :: "u32 \<Rightarrow> QCarCamFrameInfo list \<Rightarrow> nat" where
  "of_stream l infos = length (filter (\<lambda>info. fi_id info = l) infos)"

definition delivered :: "('w, 'a) camera \<Rightarrow> QCarCamFrameInfo list \<Rightarrow> nat \<Rightarrow> app_event" where
  "delivered s infos k =
     (let info = infos ! k
      in frame_event s ((desc_at s (fi_id info) (fi_bufferIndex info))
           \<lparr>c_timestamp := fi_timestamp info, c_timestampQGPTP := fi_timestampGPTP info,
            c_flags := fi_flags info,
            bufId := m_frameId s ! unat (fi_id info) + of_nat (of_stream (fi_id info) (take k infos))\<rparr>))"

text \<open>A descriptor but for what an announcement writes into it, and the state after some frames.\<close>

definition unstamped :: "CameraFrameDescriptor \<Rightarrow> CameraFrameDescriptor" where
  "unstamped d = d\<lparr>c_timestamp := 0, c_timestampQGPTP := 0, c_flags := 0, bufId := 0\<rparr>"

definition told :: "('w, 'a) camera \<Rightarrow> QCarCamFrameInfo list \<Rightarrow> ('w, 'a) camera \<Rightarrow> bool" where
  "told s infos s' \<longleftrightarrow> delivering s' \<and> cam_nodeId s' = cam_nodeId s \<and>
     frame_ok s' = frame_ok s \<and> length (m_frameId s') = length (m_frameId s) \<and>
     length (m_freeBufIdxQueue s') = length (m_freeBufIdxQueue s) \<and>
     (\<forall>l i. frame_ok s (l, i) \<longrightarrow> unstamped (desc_at s' l i) = unstamped (desc_at s l i)) \<and>
     app_events s' = app_events s @ map (delivered s infos) [0..<length infos] \<and>
     (\<forall>l. unat l < length (m_frameId s) \<longrightarrow>
        m_frameId s' ! unat l = m_frameId s ! unat l + of_nat (of_stream l infos))"

lemma unstamped_eq:
  "unstamped d = unstamped d' \<Longrightarrow>
   d\<lparr>c_timestamp := t, c_timestampQGPTP := p, c_flags := f, bufId := n\<rparr> =
   d'\<lparr>c_timestamp := t, c_timestampQGPTP := p, c_flags := f, bufId := n\<rparr>"
  by (cases d; cases d') (auto simp: unstamped_def)

lemma told_append:
  assumes a: "told s as s1" and b: "told s1 bs s2"
    and ok: "list_all (\<lambda>info. frame_ok s (fi_id info, fi_bufferIndex info)) (as @ bs)"
  shows "told s (as @ bs) s2"
proof -
  have count: "of_stream l (xs @ ys) = of_stream l xs + of_stream l ys" for l xs ys
    by (simp add: of_stream_def)
  have first: "delivered s (as @ bs) k = delivered s as k" if "k < length as" for k
    using that by (simp add: delivered_def nth_append)
  have later: "delivered s (as @ bs) (k + length as) = delivered s1 bs k" if k: "k < length bs" for k
  proof -
    let ?i = "bs ! k"
    from ok have "list_all (\<lambda>info. frame_ok s (fi_id info, fi_bufferIndex info)) bs" by simp
    with k have f: "frame_ok s (fi_id ?i, fi_bufferIndex ?i)" by (simp add: list_all_length)
    then have "unat (fi_id ?i) < length (m_frameId s)" by (simp add: frame_ok_def)
    then have "m_frameId s1 ! unat (fi_id ?i) = m_frameId s ! unat (fi_id ?i) + of_nat (of_stream (fi_id ?i) as)"
      using a by (simp add: told_def)
    moreover have "unstamped (desc_at s1 (fi_id ?i) (fi_bufferIndex ?i)) =
        unstamped (desc_at s (fi_id ?i) (fi_bufferIndex ?i))"
      using a f by (simp add: told_def)
    note stamped = unstamped_eq [OF this]
    moreover have "frame_event s1 d = frame_event s d" for d
      using a by (simp add: told_def frame_event_def)
    moreover have "(as @ bs) ! (k + length as) = ?i" by (simp add: nth_append)
    ultimately show ?thesis by (simp add: delivered_def Let_def count add.assoc)
  qed
  have "map (delivered s (as @ bs)) [0..<length (as @ bs)] =
      map (delivered s as) [0..<length as] @ map (delivered s1 bs) [0..<length bs]"
    by (rule nth_equalityI) (auto simp: nth_append first later [symmetric])
  then have "app_events s2 = app_events s @ map (delivered s (as @ bs)) [0..<length (as @ bs)]"
    using a b by (simp add: told_def)
  with a b show ?thesis by (simp add: told_def count add.assoc)
qed

text \<open>Handing a buffer back touches the requests and the queues only.\<close>

definition requests_only :: "('w, 'a) camera \<Rightarrow> ('w, 'a) camera \<Rightarrow> bool" where
  "requests_only s s' \<longleftrightarrow> (\<exists>w rid ps qs. s' = s\<lparr>cam_world := w, m_requestId := rid,
      m_submitRequestPattern := ps, m_freeBufIdxQueue := qs\<rparr> \<and> length qs = length (m_freeBufIdxQueue s))"

lemma requests_only_refl [simp]: "requests_only s s"
  unfolding requests_only_def
  by (intro exI [of _ "cam_world s"] exI [of _ "m_requestId s"] exI [of _ "m_submitRequestPattern s"]
      exI [of _ "m_freeBufIdxQueue s"]) simp

lemma requests_only_trans: "requests_only s t \<Longrightarrow> requests_only t u \<Longrightarrow> requests_only s u"
  unfolding requests_only_def by clarsimp blast

lemma requests_only_call: "requests_only s (snd (cam_call f s))"
proof -
  obtain w where "snd (cam_call f s) = s\<lparr>cam_world := w\<rparr>"
    by (metis call_same prod.collapse)
  then show ?thesis unfolding requests_only_def
    by (intro exI [of _ w] exI [of _ "m_requestId s"] exI [of _ "m_submitRequestPattern s"]
        exI [of _ "m_freeBufIdxQueue s"]) simp
qed

lemma requests_only_sets:
  "requests_only s (s\<lparr>m_requestId := n\<rparr>)"
  "requests_only s (s\<lparr>m_submitRequestPattern := ps\<rparr>)"
  "length qs = length (m_freeBufIdxQueue s) \<Longrightarrow> requests_only s (s\<lparr>m_freeBufIdxQueue := qs\<rparr>)"
  unfolding requests_only_def
  by (rule exI [of _ "cam_world s"], rule exI [of _ n], rule exI [of _ "m_submitRequestPattern s"],
      rule exI [of _ "m_freeBufIdxQueue s"], simp)
    (rule exI [of _ "cam_world s"], rule exI [of _ "m_requestId s"], rule exI [of _ ps],
      rule exI [of _ "m_freeBufIdxQueue s"], simp,
     rule exI [of _ "cam_world s"], rule exI [of _ "m_requestId s"],
      rule exI [of _ "m_submitRequestPattern s"], rule exI [of _ qs], simp)

lemma requests_only_submit: "requests_only s (snd (submit Q rq s))"
  unfolding submit_def by (rule requests_only_trans [OF requests_only_sets(1) requests_only_call])

lemma requests_only_round: "requests_only s (snd (fold request_stream is (rq, s)))"
proof (induction "is" arbitrary: rq s)
  case (Cons i "is")
  obtain rq1 s1 where r: "request_stream i (rq, s) = (rq1, s1)" by fastforce
  have "requests_only s s1"
    using r
    by (auto simp: request_stream_def Let_def requests_only_sets
        requests_only_trans [OF requests_only_sets(3) requests_only_sets(2)] split: if_splits list.splits)
  then show ?case using Cons.IH [of s1 rq1] r requests_only_trans by (metis fold_simps(2))
qed simp

lemma hand_back_requests_only:
  assumes "m_bRequestMode s" "traffic_ok s (Handed_back b)"
  shows "\<exists>x. CameraImpl_ProcessFrameDescriptor Q b s = Some x \<and> requests_only s (snd x)"
proof -
  have frame: "\<exists>x. SubmitRequest_frame Q d s = Some x \<and> requests_only s (snd x)"
    if l: "unat (c_streamId d) < length (m_freeBufIdxQueue s)" for d
  proof -
    let ?q = "m_freeBufIdxQueue s"
    let ?s = "s\<lparr>m_freeBufIdxQueue := ?q[unat (c_streamId d) := ?q ! unat (c_streamId d) @ [c_frameIdx d]]\<rparr>"
    obtain rq s2 where r: "(if m_refStreamId s = c_streamId d
        then fold request_stream [0..<m_streamNum s] (no_request, ?s) else (no_request, ?s)) = (rq, s2)"
      by fastforce
    have "requests_only s ?s" by (rule requests_only_sets) simp
    moreover have "requests_only ?s s2"
      using r requests_only_round [of ?s "[0..<m_streamNum s]" no_request] by (auto split: if_splits)
    ultimately have s2: "requests_only s s2" "requests_only s (snd (submit Q rq s2))"
      using requests_only_trans requests_only_submit by blast+
    have "SubmitRequest_frame Q d s =
      (if m_clientId s \<noteq> 0 \<and> \<not> m_bIsPrimary s then Some (QC_STATUS_BAD_ARGUMENTS, s)
       else if m_bRequestPatternMode s
         then Some (if 0 < rq_numStreamRequests rq then submit Q rq s2 else (QC_STATUS_OK, s2))
       else Some (submit Q (add_stream_request (c_streamId d) (c_frameIdx d) no_request) s))"
      using l by (simp add: SubmitRequest_frame_def Let_def r)
    then show ?thesis using s2 requests_only_submit [of s Q] by (simp del: split_paired_Ex)
  qed
  have meta: "requests_only s (snd (SubmitRequest_metadata Q d s))" for d
    by (simp add: SubmitRequest_metadata_def Let_def requests_only_call)
  show ?thesis
  proof (cases b)
    case (Some a)
    then show ?thesis
      using assms frame meta by (cases a) (auto simp: CameraImpl_ProcessFrameDescriptor_def simp del: split_paired_Ex)
  qed (simp add: CameraImpl_ProcessFrameDescriptor_def)
qed

lemma told_nothing:
  assumes "delivering s" "requests_only s s'"
  shows "told s [] s'"
proof -
  from assms(2) obtain w rid ps qs where s': "s' = s\<lparr>cam_world := w, m_requestId := rid,
      m_submitRequestPattern := ps, m_freeBufIdxQueue := qs\<rparr>" "length qs = length (m_freeBufIdxQueue s)"
    unfolding requests_only_def by blast
  have d: "desc_at s' l i = desc_at s l i" for l i by (simp add: desc_at_def s')
  have "frame_ok s' = frame_ok s" by (rule ext) (simp add: frame_ok_def d, simp add: s')
  then show ?thesis
    using assms(1) d s'(2) by (simp add: told_def) (simp add: s' delivering_def of_stream_def)
qed

lemma told_frame:
  assumes s: "delivering s" and ok: "frame_ok s (fi_id info, fi_bufferIndex info)"
  shows "\<exists>s'. frame_ready Q info s = Some s' \<and> told s [info] s'"
proof -
  let ?l = "unat (fi_id info)" and ?d = "delivered_frame s info"
  let ?f = "(m_frameId s)[?l := m_frameId s ! ?l + 1]"
  let ?s = "(set_frame_desc ?l (unat (fi_bufferIndex info)) ?d s)
      \<lparr>m_frameId := ?f, app_events := app_events s @ [frame_event s ?d]\<rparr>"
  from ok have sid: "c_streamId ?d = fi_id info" and l: "?l < length (m_frameId s)"
    by (simp_all add: delivered_frame_def frame_ok_def)
  have "frame_ok ?s = frame_ok s" using frame_ok_set [OF ok sid, of ?f] by (intro ext) simp
  moreover have "unstamped (desc_at ?s l' i') = unstamped (desc_at s l' i')" for l' i'
    by (simp add: desc_at_set [OF ok] delivered_frame_def unstamped_def)
  moreover have "delivered s [info] 0 = frame_event s ?d"
    by (simp add: delivered_def delivered_frame_def of_stream_def)
  moreover have "?f ! unat l' = m_frameId s ! unat l' + of_nat (of_stream l' [info])" for l'
    using l by (cases "fi_id info = l'") (simp_all add: of_stream_def word_unat_eq_iff)
  moreover have "length (m_freeBufIdxQueue ?s) = length (m_freeBufIdxQueue s)"
    by (simp add: set_frame_desc_def Let_def)
  ultimately have "told s [info] ?s"
    using s by (simp add: told_def delivering_def)
  then show ?thesis using frame_ready_delivers [OF s ok, of Q] by blast
qed

lemma told_event:
  assumes "delivering s" "traffic_ok s (Announced e p)"
  shows "\<exists>s'. QcarcamEventCb Q e p s = Some s' \<and> told s (frame_infos e) s'"
proof -
  have many: "\<exists>s'. frames_ready Q ts ptp frames s = Some s' \<and>
      told s (frame_infos (EVENT_MULTI_STREAM_FRAME_READY ts ptp frames)) s'"
    if "delivering s" "list_all (\<lambda>info. frame_ok s (fi_id info, fi_bufferIndex info))
      (frame_infos (EVENT_MULTI_STREAM_FRAME_READY ts ptp frames))" for s :: "('a, 'b) camera" and ts ptp frames
    using that
  proof (induction frames arbitrary: s)
    case Nil
    then show ?case using told_nothing [of s s] by simp
  next
    case (Cons f frames)
    obtain l i fl where f: "f = (l, i, fl)" by (cases f)
    let ?info = "\<lparr>fi_id = l, fi_bufferIndex = i, fi_timestamp = ts, fi_timestampGPTP = ptp, fi_flags = fl\<rparr>"
    from Cons.prems f obtain s1 where s1: "frame_ready Q ?info s = Some s1" "told s [?info] s1"
      using told_frame [of s ?info Q] by auto
    then have "delivering s1" "frame_ok s1 = frame_ok s" by (simp_all add: told_def)
    with Cons.prems obtain s2 where "frames_ready Q ts ptp frames s1 = Some s2"
      "told s1 (frame_infos (EVENT_MULTI_STREAM_FRAME_READY ts ptp frames)) s2"
      using Cons.IH [of s1] by auto
    with s1 told_append [OF s1(2)] Cons.prems show ?case by (simp add: f)
  qed
  show ?thesis
    using assms many told_frame told_nothing [of s s]
    by (auto simp: QcarcamEventCb_def split: qcarcam_event.splits)
qed

lemma traffic_ok_told: "told s infos s1 \<Longrightarrow> traffic_ok s1 t = traffic_ok s t"
  by (cases "(s, t)" rule: traffic_ok.cases) (simp_all add: told_def)

lemma traffic_ok_infos:
  "list_all (traffic_ok s) ts \<Longrightarrow>
   list_all (\<lambda>info. frame_ok s (fi_id info, fi_bufferIndex info)) (traffic_infos ts)"
  by (induction ts rule: traffic_infos.induct) simp_all

lemma told_run:
  "delivering s \<Longrightarrow> list_all (traffic_ok s) ts \<Longrightarrow>
   \<exists>s'. camera_run Q ts s = Some s' \<and> told s (traffic_infos ts) s'"
proof (induction ts arbitrary: s)
  case Nil
  then show ?case using told_nothing [of s s] by simp
next
  case (Cons t ts)
  have step: "\<exists>s1. camera_run Q (t # ts) s = camera_run Q ts s1 \<and> told s (traffic_infos [t]) s1"
  proof (cases t)
    case (Announced e p)
    then show ?thesis using told_event [OF Cons.prems(1), of e p Q] Cons.prems(2) by auto
  next
    case (Handed_back b)
    then obtain ret s1 where "CameraImpl_ProcessFrameDescriptor Q b s = Some (ret, s1)" "requests_only s s1"
      using hand_back_requests_only [of s b Q] Cons.prems by (fastforce simp: delivering_def)
    then show ?thesis using told_nothing [OF Cons.prems(1)] Handed_back by auto
  qed
  then obtain s1 where s1: "camera_run Q (t # ts) s = camera_run Q ts s1" "told s (traffic_infos [t]) s1"
    by blast
  have "list_all (traffic_ok s1) ts"
    using Cons.prems(2) traffic_ok_told [OF s1(2)] by (simp add: list_all_iff)
  moreover have "delivering s1" using s1(2) by (simp add: told_def)
  ultimately obtain s2 where s2: "camera_run Q ts s1 = Some s2" "told s1 (traffic_infos ts) s2"
    using Cons.IH by blast
  have "traffic_infos (t # ts) = traffic_infos [t] @ traffic_infos ts" by (cases t) simp_all
  then show ?case
    using s1 s2 told_append [OF s1(2) s2(2)] traffic_ok_infos [OF Cons.prems(2)] by simp
qed

text \<open>C32: in a running session in request mode, whatever frames the library announces, alone or of
  several streams at once, and whatever buffers the application hands back in between, the application
  is told of exactly the announced frames, in order: each the buffer it names, stamped with the time and
  flags of its announcement, and numbered in its stream from the stream's counter on without gaps; at
  the end every counter has moved by the number of frames of its stream. The buffers that are announced
  have to be set up, and frames handed back to name a stream below the number of queues.\<close>

theorem camera_delivers_frames:
  assumes "delivering s" "list_all (traffic_ok s) ts"
  shows "\<exists>s'. camera_run Q ts s = Some s' \<and> delivering s' \<and>
    app_events s' = app_events s @ map (delivered s (traffic_infos ts)) [0..<length (traffic_infos ts)] \<and>
    (\<forall>l. unat l < length (m_frameId s) \<longrightarrow>
       m_frameId s' ! unat l = m_frameId s ! unat l + of_nat (of_stream l (traffic_infos ts)))"
  using told_run [OF assms, of Q] by (auto simp: told_def)

end
