(* ===== verification/QC_CameraRun.thy ===== *)
theory QC_CameraRun
  imports QC_CameraFrames
begin

text \<open>
  A camera session evaluated step by step, on a library that accepts every call: two streams, stream 1
  for reference and stream 3 with the pattern 2, of two and three buffers.
\<close>

definition demo_qcarcam :: "unit qcarcam" where
  "demo_qcarcam =
     \<lparr>QCarCamInitialize = (\<lambda>w. (True, w)), QCarCamUninitialize = (\<lambda>w. (True, w)),
      QCarCamCountInputs = (\<lambda>w. ((True, Some 1), w)),
      QCarCamQueryInputs = (\<lambda>n w. ((True, [\<lparr>in_inputId = 8, in_numModes = 1\<rparr>], n), w)),
      QCarCamQueryInputModes = (\<lambda>i n w. ((True, n), w)),
      QCarCamOpen = (\<lambda>p w. ((True, Some 7), w)), QCarCamClose = (\<lambda>h w. (True, w)),
      QCarCamRegisterEventCallback = (\<lambda>h w. (True, w)), QCarCamSetParam = (\<lambda>h p w. (True, w)),
      QCarCamReserve = (\<lambda>h w. (True, w)), QCarCamRelease = (\<lambda>h w. (True, w)),
      QCarCamStart = (\<lambda>h w. (True, w)), QCarCamStop = (\<lambda>h w. (True, w)),
      QCarCamSetBuffers = (\<lambda>h b w. (True, w)), QCarCamGetBuffers = (\<lambda>h b w. ((True, b), w)),
      QCarCamSubmitRequest = (\<lambda>h rq w. (True, w)),
      QCarCamGetFrame = (\<lambda>h i w. ((True, \<lparr>fi_id = i, fi_bufferIndex = 0, fi_timestamp = 0,
                                         fi_timestampGPTP = 0, fi_flags = 0\<rparr>), w)),
      QCarCamReleaseFrame = (\<lambda>h i b w. (True, w)), QCARCAM_HNDL_INVALID = 0,
      QCARCAM_MAX_NUM_PLANES = 3, sizeof_event_payload = 64, sleep_100ms = (\<lambda>w. w),
      uninit_buffer = \<lparr>q_numPlanes = 0, q_planes = replicate 3 \<lparr>pl_memHndl = 0, pl_width = 0,
        pl_height = 0, pl_stride = 0, pl_size = 0, pl_offset = 0\<rparr>\<rparr>,
      uninit_frame = demo_camera\<rparr>"

definition demo_dma :: "'w dma_os" where
  "demo_dma =
     \<lparr>dmabufheap_init = (\<lambda>w. (0, w)), dmabufheap_release = (\<lambda>fd w. w),
      dmabufheap_alloc = (\<lambda>d n w. (0, 3, w)), dmabufheap_free = (\<lambda>fd w. (0, w)),
      dmabufheap_import = (\<lambda>pid fd w. (3, w)), os_mmap = (\<lambda>n fd w. (4096, w)),
      os_munmap = (\<lambda>p n w. (0, w)), os_close = (\<lambda>fd w. (0, w)), os_getpid = 1\<rparr>"

definition demo_stream :: "u32 \<Rightarrow> u32 \<Rightarrow> u32 list \<Rightarrow> CameraStreamConfig" where
  "demo_stream l p ids =
     \<lparr>sc_streamId = l, sc_width = 8, sc_height = 8, sc_submitRequestPattern = p,
      sc_format = QC_IMAGE_FORMAT_NV12, sc_bufferIds = ids\<rparr>"

definition demo_camera_config :: CameraImplConfig where
  "demo_camera_config =
     \<lparr>cc_nodeId = \<lparr>n_name = ''CAM'', n_type = QC_NODE_TYPE_QCX, n_id = 0\<rparr>, cc_inputId = 8, cc_srcId = 0,
      cc_clientId = 0, cc_inputMode = 0, cc_ispUseCase = 65, cc_camFrameDropPattern = 0,
      cc_camFrameDropPeriod = 0, cc_opMode = 2, cc_bRequestMode = True, cc_bPrimary = False,
      cc_bRecovery = False, cc_bEnalbleMetaData = False, cc_bMultiStreamFrameReady = False,
      cc_streamConfigs = [demo_stream 1 0 [0, 1], demo_stream 3 2 [2, 3, 4]], cc_metaDataConfigs = []\<rparr>"

text \<open>The storage of the object, and the object its constructor makes of it with this configuration.\<close>

definition demo_session :: "(unit \<times> QCarCamRequest list) CameraImpl" where
  "demo_session =
     \<lparr>cam_world = ((), []), cam_nodeId = \<lparr>n_name = '''', n_type = QC_NODE_TYPE_QCX, n_id = 0\<rparr>,
      m_config = demo_camera_config, m_state = QC_OBJECT_STATE_ERROR, m_bRequestMode = False,
      m_bIsPrimary = False, m_enableMetaData = False, m_bRecovery = False,
      m_bRequestPatternMode = False, m_streamNum = 0, m_metaDataNum = 0, m_maxBufCnt = 0,
      m_inputId = 0, m_requestId = 0, m_clientId = 0, m_refStreamId = 0,
      m_submitRequestPattern = replicate 32 9, m_frameId = [], m_freeBufIdxQueue = [],
      m_streamConfigs = replicate 32 (demo_stream 0 0 []), m_frameBuffers = [], m_metaDataBuffers = [],
      m_frameBufferMap = [], m_metaDataBufferMap = [], m_QcarCamHndl = 0, m_callback = False,
      app_events = []\<rparr>"

definition demo_static :: camera_static where
  "demo_static = \<lparr>g_nCamInitRefCount = 0, s_pCameraInputs = None, s_pCamInputModes = None, s_numInputs = 0\<rparr>"

definition demo_cam_buffer :: "u64 \<Rightarrow> any_buffer" where
  "demo_cam_buffer h = A_Image ((demo_image 2)\<lparr>dmaHandle := h\<rparr>)"

definition demo_start :: "(QCStatus_e \<times> (unit \<times> QCarCamRequest list) CameraImpl) option" where
  "demo_start =
     (case CameraImpl_new (log_requests demo_qcarcam) (cc_nodeId demo_camera_config) demo_static
             demo_session of
        None \<Rightarrow> None
      | Some (s, st) \<Rightarrow>
          CameraImpl_Initialize (log_requests demo_qcarcam) demo_dma st True
            (map demo_cam_buffer [10, 11, 12, 13, 14]) (s\<lparr>m_config := demo_camera_config\<rparr>))"

definition demo_cam_ready :: "(unit \<times> QCarCamRequest list) CameraImpl" where
  "demo_cam_ready = (case demo_start of None \<Rightarrow> demo_session | Some (ret, s) \<Rightarrow> s)"

lemma demo_cam_ready_fields:
  "m_state demo_cam_ready = QC_OBJECT_STATE_READY" "m_streamNum demo_cam_ready = 2" "m_bRequestMode demo_cam_ready"
  "m_streamConfigs demo_cam_ready ! 0 = demo_stream 1 0 [0, 1]"
  "m_streamConfigs demo_cam_ready ! Suc 0 = demo_stream 3 2 [2, 3, 4]"
  "length (m_streamConfigs demo_cam_ready) = 32" "m_maxBufCnt demo_cam_ready = 3"
  "m_submitRequestPattern demo_cam_ready = [0, 2] @ replicate 30 9"
  "m_freeBufIdxQueue demo_cam_ready = replicate 32 []" "m_refStreamId demo_cam_ready = 1"
  "m_bRequestPatternMode demo_cam_ready" "m_clientId demo_cam_ready = 0" "sent demo_cam_ready = []"
  by code_simp+

lemma demo_streams_ok: "streams_ok demo_cam_ready"
proof -
  have "sid demo_cam_ready 0 = 1" "sid demo_cam_ready (Suc 0) = 3"
    by (simp_all add: sid_def demo_cam_ready_fields demo_stream_def)
  then show ?thesis
    by (auto simp: streams_ok_def demo_cam_ready_fields inj_on_def less_2_cases_iff)
qed

lemma demo_fresh: "fresh demo_cam_ready"
  using demo_streams_ok by (simp add: fresh_def demo_cam_ready_fields)

definition demo_frame :: "u32 \<Rightarrow> u32 \<Rightarrow> u64 \<Rightarrow> CameraFrameDescriptor" where
  "demo_frame l i h = demo_camera\<lparr>c_streamId := l, c_frameIdx := i, dmaHandle := h\<rparr>"

definition demo_frames :: "CameraFrameDescriptor list" where
  "demo_frames = [demo_frame 3 0 12, demo_frame 1 0 10, demo_frame 3 1 13, demo_frame 1 1 11]"

lemma demo_pattern_started: "pattern_started demo_cam_ready"
proof -
  have "reference demo_cam_ready 0"
    by (simp add: reference_def sid_def pattern_of_def demo_cam_ready_fields demo_stream_def)
  then show ?thesis using demo_streams_ok
    by (auto simp: pattern_started_def requesting_def pattern_of_def demo_cam_ready_fields demo_stream_def
        less_2_cases_iff)
qed

lemma demo_handed_back: "\<exists>s'. hand_back (log_requests demo_qcarcam) demo_frames demo_cam_ready = Some s'"
proof -
  have "hand_back (log_requests demo_qcarcam) demo_frames demo_cam_ready \<noteq> None" by code_simp
  then show ?thesis by simp
qed

lemma demo_supplied: "supplied (log_requests demo_qcarcam) 1 demo_frames demo_cam_ready"
  by code_simp

theorem camera_request_rate_witness:
  "\<exists>s' new. hand_back (log_requests demo_qcarcam) demo_frames demo_cam_ready = Some s' \<and>
     sent s' = new \<and> length new = 2 \<and>
     (\<forall>k < 2. 3 \<in> fst ` set (requested (new ! k)) \<longleftrightarrow> 2 dvd Suc k)"
proof -
  from demo_handed_back obtain s' where
    "hand_back (log_requests demo_qcarcam) demo_frames demo_cam_ready = Some s'" by blast
  moreover from camera_request_rate [OF demo_pattern_started _ _ this demo_supplied] show ?thesis
    using calculation
    by (auto simp: demo_cam_ready_fields demo_frames_def demo_frame_def sid_def pattern_of_def
        demo_stream_def)
qed

definition demo_running :: "(unit \<times> QCarCamRequest list) CameraImpl" where
  "demo_running = snd (CameraImpl_Start (log_requests demo_qcarcam) demo_cam_ready)"

lemma demo_running_session:
  "camera_session demo_qcarcam demo_running (mset [(1, 0), (3, 0), (1, 1), (3, 1), (3, 2)]) {}"
proof -
  have "fst (CameraImpl_Start (log_requests demo_qcarcam) demo_cam_ready) = QC_STATUS_OK" by code_simp
  then have "CameraImpl_Start (log_requests demo_qcarcam) demo_cam_ready = (QC_STATUS_OK, demo_running)"
    by (simp add: demo_running_def prod_eq_iff)
  moreover have "new_buffers demo_cam_ready demo_running = [(1, 0), (3, 0), (1, 1), (3, 1), (3, 2)]"
    by code_simp
  ultimately show ?thesis using camera_session.started [OF demo_fresh] by metis
qed

definition demo_event :: qcarcam_event where
  "demo_event = EVENT_FRAME_READY \<lparr>fi_id = 1, fi_bufferIndex = 0, fi_timestamp = 5,
                                   fi_timestampGPTP = 6, fi_flags = 0\<rparr>"

definition demo_announced :: "(unit \<times> QCarCamRequest list) CameraImpl" where
  "demo_announced =
     (case QcarcamEventCb (log_requests demo_qcarcam) demo_event 0 demo_running of
        None \<Rightarrow> demo_running | Some s \<Rightarrow> s)"

lemma demo_announced_session:
  "camera_session demo_qcarcam demo_announced (mset [(3, 0), (1, 1), (3, 1), (3, 2)]) {(1, 0)}"
proof -
  have "QcarcamEventCb (log_requests demo_qcarcam) demo_event 0 demo_running \<noteq> None" by code_simp
  then have "QcarcamEventCb (log_requests demo_qcarcam) demo_event 0 demo_running = Some demo_announced"
    by (auto simp: demo_announced_def)
  from camera_session.event [OF demo_running_session this] show ?thesis
    by (simp add: demo_event_def)
qed

definition demo_returned :: "(unit \<times> QCarCamRequest list) CameraImpl" where
  "demo_returned =
     (case CameraImpl_ProcessFrameDescriptor (log_requests demo_qcarcam)
             (Some (A_Camera (demo_frame 1 0 10))) demo_announced of
        None \<Rightarrow> demo_announced | Some (ret, s) \<Rightarrow> s)"

lemma demo_returned_session:
  "camera_session demo_qcarcam demo_returned (mset [(3, 0), (1, 1), (3, 1), (3, 2), (1, 0)]) {}"
proof -
  have "CameraImpl_ProcessFrameDescriptor (log_requests demo_qcarcam)
      (Some (A_Camera (demo_frame 1 0 10))) demo_announced \<noteq> None" by code_simp
  then obtain ret where "CameraImpl_ProcessFrameDescriptor (log_requests demo_qcarcam)
      (Some (A_Camera (demo_frame 1 0 10))) demo_announced = Some (ret, demo_returned)"
    by (auto simp: demo_returned_def)
  moreover have "new_buffers demo_announced demo_returned = [(1, 0)]" by code_simp
  ultimately show ?thesis
    using camera_session.handed_back [OF demo_announced_session, of "demo_frame 1 0 10" ret demo_returned]
    by (simp add: demo_frame_def add_mset_commute)
qed

theorem camera_never_resubmits_witness:
  "camera_session demo_qcarcam demo_returned (mset [(3, 0), (1, 1), (3, 1), (3, 2), (1, 0)]) {} \<and>
   count (mset [(3, 0), (1, 1), (3, 1), (3, 2), (1, 0)]) (1 :: u32, 0 :: u32) \<le> 1"
  using camera_never_resubmits [OF demo_returned_session] demo_returned_session by blast

text \<open>The other properties of the camera on this session.\<close>

definition demo_new :: "((unit \<times> QCarCamRequest list) CameraImpl \<times> camera_static) option" where
  "demo_new = CameraImpl_new (log_requests demo_qcarcam) (cc_nodeId demo_camera_config) demo_static demo_session"

definition demo_object :: "(unit \<times> QCarCamRequest list) CameraImpl" where
  "demo_object = (case demo_new of None \<Rightarrow> demo_session | Some (s, st) \<Rightarrow> s\<lparr>m_config := demo_camera_config\<rparr>)"

definition demo_statics :: camera_static where
  "demo_statics = (case demo_new of None \<Rightarrow> demo_static | Some (s, st) \<Rightarrow> st)"

lemma demo_initialized:
  "CameraImpl_Initialize (log_requests demo_qcarcam) demo_dma demo_statics True
     (map demo_cam_buffer [10, 11, 12, 13, 14]) demo_object = Some (QC_STATUS_OK, demo_cam_ready)"
proof -
  have "demo_new \<noteq> None" by code_simp
  then obtain s st where n: "demo_new = Some (s, st)" by auto
  then have "demo_start = CameraImpl_Initialize (log_requests demo_qcarcam) demo_dma demo_statics True
     (map demo_cam_buffer [10, 11, 12, 13, 14]) demo_object"
    unfolding demo_start_def demo_object_def demo_statics_def demo_new_def [symmetric]
    by (simp only: n option.case prod.case)
  moreover have "map_option fst demo_start = Some QC_STATUS_OK" by code_simp
  then obtain s' where e: "demo_start = Some (QC_STATUS_OK, s')" by auto
  have "demo_cam_ready = s'" unfolding demo_cam_ready_def e by simp
  ultimately show ?thesis using e by simp
qed

theorem camera_initialize_ready_witness:
  "CameraImpl_Initialize (log_requests demo_qcarcam) demo_dma demo_statics True
     (map demo_cam_buffer [10, 11, 12, 13, 14]) demo_object = Some (QC_STATUS_OK, demo_cam_ready) \<and>
   fresh demo_cam_ready \<and> pattern_started demo_cam_ready"
proof -
  have "constructed demo_object" unfolding constructed_def by code_simp
  moreover have c: "m_config demo_object = demo_camera_config" by code_simp
  moreover have "cc_bRequestMode demo_camera_config" by code_simp
  moreover have "distinct (map sc_streamId (cc_streamConfigs demo_camera_config))" by code_simp
  moreover have "\<forall>sc \<in> set (cc_streamConfigs demo_camera_config). length (sc_bufferIds sc) \<le> 2 ^ 32"
    by (simp add: demo_camera_config_def demo_stream_def)
  moreover have "1 < length (cc_streamConfigs demo_camera_config)" by code_simp
  moreover have "\<exists>sc \<in> set (cc_streamConfigs demo_camera_config). sc_submitRequestPattern sc \<noteq> 0"
    by (simp add: demo_camera_config_def demo_stream_def)
  moreover have "cc_clientId demo_camera_config = 0" by code_simp
  ultimately show ?thesis using camera_initialize_ready [OF demo_initialized] demo_initialized by simp
qed

theorem camera_lifecycle_witness:
  "camera_do (log_requests demo_qcarcam) demo_dma Op_DeInitialize demo_running =
     Some (QC_STATUS_BAD_STATE, deinit_clear demo_running)"
proof -
  let ?r = "camera_do (log_requests demo_qcarcam) demo_dma Op_DeInitialize demo_running"
  have "?r \<noteq> None" by code_simp
  then obtain ret s where r: "?r = Some (ret, s)" by auto
  have "cam_refuses Op_DeInitialize (m_state demo_running)" by code_simp
  with camera_lifecycle [OF r] show ?thesis unfolding r by simp
qed

definition demo_cam_waiting :: "(unit \<times> QCarCamRequest list) CameraImpl" where
  "demo_cam_waiting =
     (case CameraImpl_ProcessFrameDescriptor (log_requests demo_qcarcam)
             (Some (A_Camera (demo_frame 3 1 13))) demo_running of
        None \<Rightarrow> demo_running | Some (ret, s) \<Rightarrow> s)"

lemma demo_cam_waiting_fields:
  "m_streamNum demo_cam_waiting = 2" "m_bRequestMode demo_cam_waiting" "m_clientId demo_cam_waiting = 0"
  "m_streamConfigs demo_cam_waiting ! 0 = demo_stream 1 0 [0, 1]"
  "m_streamConfigs demo_cam_waiting ! Suc 0 = demo_stream 3 2 [2, 3, 4]"
  "length (m_streamConfigs demo_cam_waiting) = 32" "m_maxBufCnt demo_cam_waiting = 3"
  "length (m_submitRequestPattern demo_cam_waiting) = 32" "length (m_freeBufIdxQueue demo_cam_waiting) = 32"
  "m_freeBufIdxQueue demo_cam_waiting ! 3 = [1]"
  by code_simp+

lemma demo_cam_waiting_ok: "streams_ok demo_cam_waiting"
proof -
  have "sid demo_cam_waiting 0 = 1" "sid demo_cam_waiting (Suc 0) = 3"
    by (simp_all add: sid_def demo_cam_waiting_fields demo_stream_def)
  then show ?thesis
    by (auto simp: streams_ok_def demo_cam_waiting_fields inj_on_def less_2_cases_iff)
qed

theorem camera_restart_resubmits_witness:
  "\<exists>s1 s2. CameraImpl_Stop (log_requests demo_qcarcam) demo_cam_waiting = (QC_STATUS_OK, s1) \<and>
     CameraImpl_Start (log_requests demo_qcarcam) s1 = (QC_STATUS_OK, s2) \<and>
     (3, 1) \<in> set (new_buffers s1 s2) \<and> 1 \<in> set (free_of s2 1)"
proof -
  let ?s1 = "snd (CameraImpl_Stop (log_requests demo_qcarcam) demo_cam_waiting)"
  let ?s2 = "snd (CameraImpl_Start (log_requests demo_qcarcam) ?s1)"
  have "fst (CameraImpl_Stop (log_requests demo_qcarcam) demo_cam_waiting) = QC_STATUS_OK" by code_simp
  then have stop: "CameraImpl_Stop (log_requests demo_qcarcam) demo_cam_waiting = (QC_STATUS_OK, ?s1)"
    by (simp add: prod_eq_iff)
  have "fst (CameraImpl_Start (log_requests demo_qcarcam) ?s1) = QC_STATUS_OK" by code_simp
  then have start: "CameraImpl_Start (log_requests demo_qcarcam) ?s1 = (QC_STATUS_OK, ?s2)"
    by (simp add: prod_eq_iff)
  have "sid demo_cam_waiting 1 = 3" by (simp add: sid_def demo_cam_waiting_fields demo_stream_def)
  then show ?thesis
    using camera_restart_resubmits [OF demo_cam_waiting_ok _ _ stop start, of 1 1] stop start
    by (auto simp: demo_cam_waiting_fields demo_stream_def free_of_def)
qed

definition demo_planes :: CameraFrameDescriptor where
  "demo_planes = demo_camera\<lparr>dmaHandle := 9, i_width := 8, i_height := 8, i_numPlanes := 2,
                             i_stride := [16, 16, 0, 0], i_planeBufSize := [128, 64, 0, 0]\<rparr>"

theorem camera_planes_end_to_end_witness:
  "planes_end_to_end 9 (q_planes (camera_buffer demo_qcarcam QC_IMAGE_FORMAT_NV12 demo_planes
     (uninit_buffer demo_qcarcam))) 2 192"
proof -
  have s: "{..<2 :: nat} = {0, 1}" by auto
  have "i_numPlanes demo_planes = 2" "dmaHandle demo_planes = 9"
    "i_planeBufSize demo_planes = [128, 64, 0, 0]" by (simp_all add: demo_planes_def)
  then show ?thesis
    using camera_planes_end_to_end [of 2 QC_IMAGE_FORMAT_NV12 demo_planes demo_qcarcam "uninit_buffer demo_qcarcam"]
    by (auto simp: is_ubwc_def demo_qcarcam_def s)
qed

text \<open>Two streams announced at once, a buffer handed back, and one stream alone.\<close>

definition demo_traffic :: "camera_traffic list" where
  "demo_traffic =
     [Announced (EVENT_MULTI_STREAM_FRAME_READY 50 60 [(1, 0, 5), (3, 1, 6)]) 0,
      Handed_back (Some (A_Camera (demo_frame 1 0 10))),
      Announced (EVENT_FRAME_READY \<lparr>fi_id = 1, fi_bufferIndex = 1, fi_timestamp = 70,
                                    fi_timestampGPTP = 80, fi_flags = 7\<rparr>) 0]"

theorem camera_delivers_frames_witness:
  "\<exists>s'. camera_run (log_requests demo_qcarcam) demo_traffic demo_running = Some s' \<and>
     length (app_events s') = length (app_events demo_running) + 3 \<and>
     m_frameId s' ! 1 = m_frameId demo_running ! 1 + 2 \<and> m_frameId s' ! 3 = m_frameId demo_running ! 3 + 1"
proof -
  have d: "delivering demo_running" unfolding delivering_def by code_simp
  have ok: "list_all (traffic_ok demo_running) demo_traffic"
    unfolding demo_traffic_def frame_ok_def by code_simp
  have len: "length (m_frameId demo_running) = 32" by code_simp
  have i: "of_stream 1 (traffic_infos demo_traffic) = 2" "of_stream 3 (traffic_infos demo_traffic) = 1"
    "length (traffic_infos demo_traffic) = 3"
    by (simp_all add: demo_traffic_def of_stream_def)
  from camera_delivers_frames [OF d ok, of "log_requests demo_qcarcam"] obtain s' where
    s': "camera_run (log_requests demo_qcarcam) demo_traffic demo_running = Some s'"
      "length (app_events s') = length (app_events demo_running) + 3"
    and n: "\<And>l. unat l < 32 \<Longrightarrow> m_frameId s' ! unat l =
      m_frameId demo_running ! unat l + of_nat (of_stream l (traffic_infos demo_traffic))"
    unfolding len i(3) by auto
  show ?thesis using s' n [of 1] n [of 3] i by auto
qed

end
