(* ===== verification/QC_NodeConfig.thy ===== *)
theory QC_NodeConfig
  imports QC_NodeBase QC_Dma
begin

text \<open>
  What the configurations of nodes share: the checks that go on after an error, the map from the buffers of a
  frame to the inputs and outputs of the node, and the part of \<^verbatim>\<open>VerifyAndSet\<close> that is the same in the nodes
  with a static configuration only (\<^verbatim>\<open>source/Node/Radar/Radar.cpp\<close>, \<^verbatim>\<open>SimulationNodeConfig.cpp\<close>,
  \<^verbatim>\<open>RemapConfig.cpp\<close>). Reading an enumeration can throw, the result \<open>None\<close>.
\<close>

subsection \<open>Checks\<close>

text \<open>Every check adds to the error text, whatever the ones before it found.\<close>

definition check_all :: "(bool \<times> string) list \<Rightarrow> string \<Rightarrow> QCStatus_e \<times> string" where
  "check_all checks errors = fold (\<lambda>(bad, msg). cfg_check bad msg) checks (QC_STATUS_OK, errors)"

lemma fold_checks:
  "fold (\<lambda>(bad, msg). cfg_check bad msg) checks (st, errors) =
     (if list_ex fst checks then QC_STATUS_BAD_ARGUMENTS else st,
      errors @ concat (map snd (filter fst checks)))"
  by (induction checks arbitrary: st errors) (auto simp: cfg_check_def)

lemma check_all_eq:
  "check_all checks errors =
     (if list_ex fst checks then QC_STATUS_BAD_ARGUMENTS else QC_STATUS_OK,
      errors @ concat (map snd (filter fst checks)))"
  by (simp add: check_all_def fold_checks)

subsection \<open>Conversions and state\<close>

record ('w, 'j) cfg_env =
  cf_json :: "'j json_lib"
  cf_string :: "'j \<Rightarrow> string option"
  cf_u8 :: "'j \<Rightarrow> u8 option"
  cf_u32 :: "'j \<Rightarrow> u32 option"
  cf_u32s :: "'j \<Rightarrow> u32 list option"
  cf_int :: "'j \<Rightarrow> int option"
  cf_bool :: "'j \<Rightarrow> bool option"
  cf_log :: "'w log_backend"
  cf_loggers :: Logger_static

abbreviation cfg_string :: "('w, 'j) cfg_env \<Rightarrow> 'j \<Rightarrow> string \<Rightarrow> string \<Rightarrow> string" where
  "cfg_string env dt \<equiv> DT_Get (cf_json env) (cf_string env) dt"
abbreviation cfg_u8 :: "('w, 'j) cfg_env \<Rightarrow> 'j \<Rightarrow> string \<Rightarrow> u8 \<Rightarrow> u8" where
  "cfg_u8 env dt \<equiv> DT_Get (cf_json env) (cf_u8 env) dt"
abbreviation cfg_u32 :: "('w, 'j) cfg_env \<Rightarrow> 'j \<Rightarrow> string \<Rightarrow> u32 \<Rightarrow> u32" where
  "cfg_u32 env dt \<equiv> DT_Get (cf_json env) (cf_u32 env) dt"
abbreviation cfg_bool :: "('w, 'j) cfg_env \<Rightarrow> 'j \<Rightarrow> string \<Rightarrow> bool \<Rightarrow> bool" where
  "cfg_bool env dt \<equiv> DT_Get (cf_json env) (cf_bool env) dt"
abbreviation cfg_u32s :: "('w, 'j) cfg_env \<Rightarrow> 'j \<Rightarrow> string \<Rightarrow> u32 list" where
  "cfg_u32s env dt key \<equiv> DT_GetVector (cf_json env) (cf_u32s env) dt key []"

record ('w, 'j, 'c) cfg_node =
  cn_world :: 'w
  cn_base :: NodeBase
  cn_configIfs :: "'j NodeConfigBase"
  cn_config :: 'c

subsection \<open>The map of the buffers\<close>

record QCNodeBufferMapEntry =
  bm_name :: string
  bm_globalBufferId :: u32

fun check_entries :: "('w, 'j) cfg_env \<Rightarrow> nat \<Rightarrow> 'j list \<Rightarrow> QCStatus_e \<times> string \<Rightarrow> QCStatus_e \<times> string" where
  "check_entries env idx [] r = r"
| "check_entries env idx (gbm # gbms) r =
     check_entries env (Suc idx) gbms
       (cfg_check (cfg_u32 env gbm ''id'' (- 1) = - 1) (''the globalIdMap '' @ to_string idx @ '' id is empty, '')
         (cfg_check (cfg_string env gbm ''name'' '''' = '''') (''the globalIdMap '' @ to_string idx @ '' name is empty, '') r))"

definition check_buffer_map :: "('w, 'j) cfg_env \<Rightarrow> 'j \<Rightarrow> QCStatus_e \<times> string \<Rightarrow> QCStatus_e \<times> string" where
  "check_buffer_map env dt r =
     (case DT_GetTrees (cf_json env) dt ''globalBufferIdMap'' [] of
        (status2, gbms) \<Rightarrow>
          if status2 = QC_STATUS_OUT_OF_BOUND then r
          else if status2 \<noteq> QC_STATUS_OK then (status2, snd r @ ''the globalBufferIdMap is invalid, '')
          else check_entries env 0 gbms r)"

definition parse_buffer_map :: "('w, 'j) cfg_env \<Rightarrow> 'j \<Rightarrow> QCNodeBufferMapEntry list" where
  "parse_buffer_map env dt =
     map (\<lambda>gbm. \<lparr>bm_name = cfg_string env gbm ''name'' '''', bm_globalBufferId = cfg_u32 env gbm ''id'' (- 1)\<rparr>)
       (snd (DT_GetTrees (cf_json env) dt ''globalBufferIdMap'' []))"

subsection \<open>Set-up\<close>

definition static_VerifyAndSet ::
  "('w, 'j) cfg_env \<Rightarrow> ('j \<Rightarrow> string \<Rightarrow> 'c \<Rightarrow> ((QCStatus_e \<times> string) \<times> 'c) option) \<Rightarrow> string \<Rightarrow>
     ('w, 'j, 'c, 'z) cfg_node_scheme \<Rightarrow> ((QCStatus_e \<times> string) \<times> ('w, 'j, 'c, 'z) cfg_node_scheme) option" where
  "static_VerifyAndSet env parse config s =
     (let ((status, errors), ci, lg, w) =
        NodeConfigBase_VerifyAndSet (cf_json env) (cf_string env) (cf_log env) (cf_loggers env) config
          (cn_configIfs s) (m_logger (cn_base s)) (cn_world s);
        s1 = s\<lparr>cn_configIfs := ci, cn_base := (cn_base s)\<lparr>m_logger := lg\<rparr>, cn_world := w\<rparr>
      in if status \<noteq> QC_STATUS_OK then Some ((status, errors), s1)
         else
           (case DT_GetTree (cf_json env) (m_dataTree ci) ''static'' (j_null (cf_json env)) of
              (status2, dt) \<Rightarrow>
                if status2 = QC_STATUS_OK then
                  map_option (\<lambda>(r, c). (r, s1\<lparr>cn_config := c\<rparr>)) (parse dt errors (cn_config s1))
                else Some ((status2, errors), s1)))"

definition node_base_init ::
  "('w, 'j) cfg_env \<Rightarrow> QCNodeID \<Rightarrow> ('w, 'j, 'c, 'z) cfg_node_scheme \<Rightarrow> QCStatus_e \<times> ('w, 'j, 'c, 'z) cfg_node_scheme" where
  "node_base_init env nodeId s =
     (let (status, nb, w) =
        NodeBase_Init (cf_log env) (cf_loggers env) nodeId LOGGER_LEVEL_ERROR (cn_base s) (cn_world s)
      in (status, s\<lparr>cn_base := nb, cn_world := w\<rparr>))"

definition node_base_deinit ::
  "('w, 'j) cfg_env \<Rightarrow> ('w, 'j, 'c, 'z) cfg_node_scheme \<Rightarrow> QCStatus_e \<times> ('w, 'j, 'c, 'z) cfg_node_scheme" where
  "node_base_deinit env s =
     (let (status, nb, w) = NodeBase_DeInitialize (cf_log env) (cn_base s) (cn_world s)
      in (status, s\<lparr>cn_base := nb, cn_world := w\<rparr>))"

end
