(* ===== verification/QC_Eva.thy ===== *)
theory QC_Eva
  imports QC_NodeConfig
begin

text \<open>
  What the two nodes on the engine for visual analytics share: \<^verbatim>\<open>source/Node/OpticalFlow/OpticalFlow.cpp\<close>
  and \<^verbatim>\<open>source/Node/DepthFromStereo/DepthFromStereo.cpp\<close> differ in their configuration and in the frames
  they take, and are otherwise the same code on two classes of the library. The shared part is written
  once, over the configuration \<open>'c\<close>, the parameters \<open>'p\<close> and the jobs \<open>'i\<close> of the class; the theories
  of the nodes instantiate it.

  The library is a parameter, the record \<open>sv_lib\<close>, with a state \<open>'w\<close>; a call says whether it returned
  \<^verbatim>\<open>SUCCESS\<close>. Its objects are pointers, and \<open>nullptr\<close> when creating them failed. A method called through a
  null pointer, an index outside an array and an exception give \<open>None\<close>. What the code passes by address to a
  configuration map is passed as the value it has.
\<close>

subsection \<open>Single precision numbers\<close>

text \<open>A \<^verbatim>\<open>float32_t\<close> is its bit pattern, and numbers are compared as IEEE 754 says: by sign and magnitude,
  and never when one of them is no number.\<close>

type_synonym float32_t = u32

definition f32_nan :: "float32_t \<Rightarrow> bool" where
  "f32_nan x \<longleftrightarrow> 0x7F800000 < take_bit 31 x"

definition f32_key :: "float32_t \<Rightarrow> int" where
  "f32_key x = (if x < 0x80000000 then uint x else - uint (take_bit 31 x))"

definition f32_less :: "float32_t \<Rightarrow> float32_t \<Rightarrow> bool" where
  "f32_less x y \<longleftrightarrow> \<not> f32_nan x \<and> \<not> f32_nan y \<and> f32_key x < f32_key y"

definition f32_outside :: "float32_t \<Rightarrow> float32_t \<Rightarrow> float32_t \<Rightarrow> bool" where
  "f32_outside lo hi x \<longleftrightarrow> f32_less x lo \<or> f32_less hi x"

abbreviation (input) f32_0 :: float32_t where "f32_0 \<equiv> 0x00000000"
abbreviation (input) f32_1 :: float32_t where "f32_1 \<equiv> 0x3F800000"
abbreviation (input) f32_m1 :: float32_t where "f32_m1 \<equiv> 0xBF800000"
abbreviation (input) f32_half :: float32_t where "f32_half \<equiv> 0x3F000000"
abbreviation (input) f32_2 :: float32_t where "f32_2 \<equiv> 0x40000000"

subsection \<open>The library\<close>

datatype PixelFormat = PF_NV12 | PF_NV12_UBWC | PF_MOTION_MAP_12_LA | PF_P012_LA_Y_ONLY

record ImageInfo =
  nPlanes :: u32
  nWidthStride :: "u32 list"
  nAlignedSize :: "u32 list"

record SvBuffer =
  sb_nSize :: u64
  sb_nOffset :: u64
  sb_pAddress :: u64
  sb_hHandle :: u64

datatype session_param = SESSION_NAME string | SESSION_TYPE_CV | SESSION_PRIORITY_REALTIME_MED

record ('w, 'p, 'i) sv_lib =
  ImageInfoQuery :: "PixelFormat \<Rightarrow> u32 \<Rightarrow> u32 \<Rightarrow> ImageInfo \<Rightarrow> 'w \<Rightarrow> (bool \<times> ImageInfo) \<times> 'w"
  SessionConfig_Set :: "session_param \<Rightarrow> 'w \<Rightarrow> bool \<times> 'w"
  ConfigMap_Set :: "'p \<Rightarrow> 'w \<Rightarrow> bool \<times> 'w"
  Session_Create :: "'w \<Rightarrow> u64 \<times> 'w"
  Session_Start :: "u64 \<Rightarrow> 'w \<Rightarrow> bool \<times> 'w"
  Session_Stop :: "u64 \<Rightarrow> 'w \<Rightarrow> bool \<times> 'w"
  Session_Destroy :: "u64 \<Rightarrow> 'w \<Rightarrow> bool \<times> 'w"
  Engine_Create :: "u64 \<Rightarrow> 'w \<Rightarrow> u64 \<times> 'w"
  Engine_Destroy :: "u64 \<Rightarrow> 'w \<Rightarrow> bool \<times> 'w"
  SubmitSync :: "u64 \<Rightarrow> 'i \<Rightarrow> 'w \<Rightarrow> bool \<times> 'w"
  BufferRegister :: "u64 \<Rightarrow> SvBuffer \<Rightarrow> 'w \<Rightarrow> (bool \<times> SvBuffer) \<times> 'w"
  BufferDeregister :: "u64 \<Rightarrow> SvBuffer \<Rightarrow> 'w \<Rightarrow> bool \<times> 'w"
  uninit_SvBuffer :: SvBuffer

text \<open>The conversions of JSON values, the logger, and the library.\<close>

record ('w, 'j, 'p, 'i) eva_env =
  ee_sv :: "('w, 'p, 'i) sv_lib"
  ee_json :: "'j json_lib"
  ee_string :: "'j \<Rightarrow> string option"
  ee_u8 :: "'j \<Rightarrow> u8 option"
  ee_u32 :: "'j \<Rightarrow> u32 option"
  ee_u64 :: "'j \<Rightarrow> u64 option"
  ee_bool :: "'j \<Rightarrow> bool option"
  ee_f32 :: "'j \<Rightarrow> float32_t option"
  ee_log :: "'w log_backend"
  ee_loggers :: Logger_static

subsection \<open>State\<close>

record ('w, 'j, 'c) EvaNode =
  en_world :: 'w
  en_node :: NodeBase
  en_configIfs :: "'j NodeConfigBase"
  en_config :: 'c
  en_state :: QCObjectState_e
  en_imageInfo :: ImageInfo
  en_session :: u64
  en_engine :: u64
  en_memMap :: "(u64 \<times> SvBuffer) list"

definition eva_world :: "('w \<Rightarrow> 'r \<times> 'w) \<Rightarrow> ('w, 'j, 'c) EvaNode \<Rightarrow> 'r \<times> ('w, 'j, 'c) EvaNode" where
  "eva_world f s = (case f (en_world s) of (r, w) \<Rightarrow> (r, s\<lparr>en_world := w\<rparr>))"

definition eva_call ::
  "('w \<Rightarrow> bool \<times> 'w) \<Rightarrow> ('w, 'j, 'c) EvaNode \<Rightarrow> QCStatus_e \<times> ('w, 'j, 'c) EvaNode" where
  "eva_call f s = (case eva_world f s of (ok, s1) \<Rightarrow> (if ok then QC_STATUS_OK else QC_STATUS_FAIL, s1))"

subsection \<open>Configuration\<close>

text \<open>The common part of \<^verbatim>\<open>VerifyAndSet\<close>: the argument reads the static part into the configuration. There is
  nothing to do for the dynamic part.\<close>

definition eva_VerifyAndSet ::
  "('w, 'j, 'p, 'i) eva_env \<Rightarrow> ('j \<Rightarrow> string \<Rightarrow> 'c \<Rightarrow> ((QCStatus_e \<times> string) \<times> 'c) option) \<Rightarrow> string \<Rightarrow>
     ('w, 'j, 'c) EvaNode \<Rightarrow> ((QCStatus_e \<times> string) \<times> ('w, 'j, 'c) EvaNode) option" where
  "eva_VerifyAndSet env parse config s =
     (let J = ee_json env;
          ((status, errors), ci, lg, w) =
            NodeConfigBase_VerifyAndSet J (ee_string env) (ee_log env) (ee_loggers env) config
              (en_configIfs s) (m_logger (en_node s)) (en_world s);
          s1 = s\<lparr>en_configIfs := ci, en_node := (en_node s)\<lparr>m_logger := lg\<rparr>, en_world := w\<rparr>
      in if status \<noteq> QC_STATUS_OK then Some ((status, errors), s1)
         else
           (case DT_GetTree J (m_dataTree ci) ''static'' (j_null J) of
              (status2, dt) \<Rightarrow>
                if status2 = QC_STATUS_OK then
                  map_option (\<lambda>(r, c). (r, s1\<lparr>en_config := c\<rparr>)) (parse dt errors (en_config s1))
                else
                  Some ((fst (DT_GetTree J (m_dataTree ci) ''dynamic'' dt), errors), s1)))"

definition eva_GetInputImageFormat :: "QCImageFormat_e \<Rightarrow> PixelFormat" where
  "eva_GetInputImageFormat imageFormat =
     (if imageFormat = QC_IMAGE_FORMAT_NV12_UBWC then PF_NV12_UBWC else PF_NV12)"

text \<open>Setting parameters stops at the first that is refused.\<close>

fun set_config :: "('w, 'p, 'i) sv_lib \<Rightarrow> 'p list \<Rightarrow> ('w, 'j, 'c) EvaNode \<Rightarrow> QCStatus_e \<times> ('w, 'j, 'c) EvaNode" where
  "set_config L [] s = (QC_STATUS_OK, s)"
| "set_config L (p # ps) s = if_ok (eva_call (ConfigMap_Set L p) s) (set_config L ps)"

subsection \<open>Buffers\<close>

text \<open>The planes are compared one by one, and a later plane that is right does not undo the failure.\<close>

fun validate_planes :: "ImageInfo \<Rightarrow> ImageDescriptor \<Rightarrow> nat list \<Rightarrow> QCStatus_e \<Rightarrow> QCStatus_e option" where
  "validate_planes info d [] ret = Some ret"
| "validate_planes info d (i # is) ret =
     (if length (nWidthStride info) \<le> i \<or> length (i_stride d) \<le> i then None
      else if nWidthStride info ! i \<noteq> i_stride d ! i then validate_planes info d is QC_STATUS_INVALID_BUF
      else if length (nAlignedSize info) \<le> i \<or> length (i_planeBufSize d) \<le> i then None
      else if nAlignedSize info ! i \<noteq> i_planeBufSize d ! i
        then validate_planes info d is QC_STATUS_INVALID_BUF
      else validate_planes info d is ret)"

definition eva_ValidateImageDesc ::
  "QCImageFormat_e \<Rightarrow> u32 \<Rightarrow> u32 \<Rightarrow> ImageInfo \<Rightarrow> ImageDescriptor \<Rightarrow> QCStatus_e option" where
  "eva_ValidateImageDesc fmt width height info d =
     (if b_type d \<noteq> QC_BUFFER_TYPE_IMAGE \<or> BufferDescriptor_GetDataPtr d = nullptr \<or> fmt \<noteq> i_format d \<or>
         width \<noteq> i_width d \<or> height \<noteq> i_height d \<or> nPlanes info \<noteq> i_numPlanes d
      then Some QC_STATUS_INVALID_BUF
      else validate_planes info d [0..<unat (nPlanes info)] QC_STATUS_OK)"

text \<open>A buffer is registered with the session once, and found again by the address of its data. The result is
  the failure or the buffer.\<close>

definition eva_RegisterMemory ::
  "('w, 'p, 'i) sv_lib \<Rightarrow> 'd BufferDescriptor_scheme \<Rightarrow> ('w, 'j, 'c) EvaNode \<Rightarrow>
     (QCStatus_e + SvBuffer) \<times> ('w, 'j, 'c) EvaNode" where
  "eva_RegisterMemory L bufferDesc s =
     (if pBuf bufferDesc = nullptr then (Inl QC_STATUS_INVALID_BUF, s)
      else
        (case map_of (en_memMap s) (BufferDescriptor_GetDataPtr bufferDesc) of
           Some buff \<Rightarrow> (Inr buff, s)
         | None \<Rightarrow>
             let buff = \<lparr>sb_nSize = BufferDescriptor_GetDataSize bufferDesc, sb_nOffset = offset bufferDesc,
                         sb_pAddress = pBuf bufferDesc, sb_hHandle = dmaHandle bufferDesc\<rparr>;
                 ((ok, buff1), s1) = eva_world (BufferRegister L (en_session s) buff) s
             in if \<not> ok then (Inl QC_STATUS_FAIL, s1)
                else
                  (Inr buff1,
                   s1\<lparr>en_memMap := std_insert (<) fst (BufferDescriptor_GetDataPtr bufferDesc, buff1)
                                     (en_memMap s1)\<rparr>)))"

text \<open>Going on with a buffer, when it could be registered.\<close>

definition with_buffer ::
  "(QCStatus_e + SvBuffer) \<times> 's \<Rightarrow> (SvBuffer \<Rightarrow> 's \<Rightarrow> (QCStatus_e \<times> 's) option) \<Rightarrow> (QCStatus_e \<times> 's) option" where
  "with_buffer r f =
     (case r of (Inl ret, s) \<Rightarrow> Some (ret, s) | (Inr buff, s) \<Rightarrow> f buff s)"

definition frame_get :: "any_buffer option list \<Rightarrow> u32 \<Rightarrow> any_buffer option" where
  "frame_get fd globalBufferId = (if unat globalBufferId < length fd then fd ! unat globalBufferId else None)"

definition frame_image :: "any_buffer option list \<Rightarrow> u32 \<Rightarrow> ImageDescriptor option" where
  "frame_image fd globalBufferId = Option.bind (frame_get fd globalBufferId) any_ImageDescriptor"

definition frame_tensor :: "any_buffer option list \<Rightarrow> u32 \<Rightarrow> TensorDescriptor option" where
  "frame_tensor fd globalBufferId = Option.bind (frame_get fd globalBufferId) any_TensorDescriptor"

text \<open>Both images have to be valid before any buffer is registered.\<close>

definition validate_two ::
  "(ImageDescriptor \<Rightarrow> QCStatus_e option) \<Rightarrow> ImageDescriptor \<Rightarrow> ImageDescriptor \<Rightarrow> QCStatus_e option" where
  "validate_two validate d1 d2 =
     (case validate d1 of
        None \<Rightarrow> None
      | Some ret \<Rightarrow> if ret \<noteq> QC_STATUS_OK then Some ret else validate d2)"

definition eva_submit ::
  "('w, 'p, 'i) sv_lib \<Rightarrow> 'i \<Rightarrow> ('w, 'j, 'c) EvaNode \<Rightarrow> (QCStatus_e \<times> ('w, 'j, 'c) EvaNode) option" where
  "eva_submit L job s =
     (if en_engine s = nullptr then None else Some (eva_call (SubmitSync L (en_engine s) job) s))"

subsection \<open>Life cycle\<close>

definition eva_base_init ::
  "('w, 'j, 'p, 'i) eva_env \<Rightarrow> QCNodeID \<Rightarrow> ('w, 'j, 'c) EvaNode \<Rightarrow> QCStatus_e \<times> ('w, 'j, 'c) EvaNode" where
  "eva_base_init env nodeId s =
     (let (status, nb, w) =
        NodeBase_Init (ee_log env) (ee_loggers env) nodeId LOGGER_LEVEL_ERROR (en_node s) (en_world s)
      in (status, s\<lparr>en_node := nb, en_world := w\<rparr>))"

text \<open>What setting the parameters of the session returns is ignored.\<close>

definition query_image ::
  "('w, 'p, 'i) sv_lib \<Rightarrow> string \<Rightarrow> QCImageFormat_e \<times> u32 \<times> u32 \<Rightarrow> ('w, 'j, 'c) EvaNode \<Rightarrow>
     QCStatus_e \<times> ('w, 'j, 'c) EvaNode" where
  "query_image L sessionName img s =
     (case img of (fmt, width, height) \<Rightarrow>
        let s1 = snd (eva_world (SessionConfig_Set L (SESSION_NAME sessionName)) s);
            s2 = snd (eva_world (SessionConfig_Set L SESSION_TYPE_CV) s1);
            s3 = snd (eva_world (SessionConfig_Set L SESSION_PRIORITY_REALTIME_MED) s2);
            ((ok, info), s4) =
              eva_world (ImageInfoQuery L (eva_GetInputImageFormat fmt) width height (en_imageInfo s3)) s3
        in (if ok then QC_STATUS_OK else QC_STATUS_FAIL, s4\<lparr>en_imageInfo := info\<rparr>))"

definition create_session :: "('w, 'p, 'i) sv_lib \<Rightarrow> ('w, 'j, 'c) EvaNode \<Rightarrow> QCStatus_e \<times> ('w, 'j, 'c) EvaNode" where
  "create_session L s =
     (let (h, s1) = eva_world (Session_Create L) s
      in (if h = nullptr then QC_STATUS_FAIL else QC_STATUS_OK, s1\<lparr>en_session := h\<rparr>))"

definition configure ::
  "('w, 'p, 'i) sv_lib \<Rightarrow> ('c \<Rightarrow> ImageInfo \<Rightarrow> 'p list) \<Rightarrow> ('w, 'j, 'c) EvaNode \<Rightarrow>
     QCStatus_e \<times> ('w, 'j, 'c) EvaNode" where
  "configure L params s =
     (let (ret, s1) = set_config L (params (en_config s) (en_imageInfo s)) s
      in (ret, if ret = QC_STATUS_OK then s1\<lparr>en_state := QC_OBJECT_STATE_READY\<rparr> else s1))"

definition create_engine :: "('w, 'p, 'i) sv_lib \<Rightarrow> ('w, 'j, 'c) EvaNode \<Rightarrow> QCStatus_e \<times> ('w, 'j, 'c) EvaNode" where
  "create_engine L s =
     (let (h, s1) = eva_world (Engine_Create L (en_session s)) s; s2 = s1\<lparr>en_engine := h\<rparr>
      in if h \<noteq> nullptr then (QC_STATUS_OK, s2)
         else
           (QC_STATUS_FAIL,
            (snd (eva_world (Session_Destroy L (en_session s2)) s2))\<lparr>en_session := nullptr\<rparr>))"

definition eva_Initialize ::
  "('w, 'j, 'p, 'i) eva_env \<Rightarrow> (string \<Rightarrow> ('w, 'j, 'c) EvaNode \<Rightarrow> ((QCStatus_e \<times> string) \<times> ('w, 'j, 'c) EvaNode) option) \<Rightarrow>
     ('c \<Rightarrow> QCNodeID) \<Rightarrow> string \<Rightarrow> ('c \<Rightarrow> QCImageFormat_e \<times> u32 \<times> u32) \<Rightarrow> ('c \<Rightarrow> ImageInfo \<Rightarrow> 'p list) \<Rightarrow> string \<Rightarrow>
     ('w, 'j, 'c) EvaNode \<Rightarrow> (QCStatus_e \<times> ('w, 'j, 'c) EvaNode) option" where
  "eva_Initialize env verify nodeId sessionName img params config s =
     (let L = ee_sv env
      in map_option (\<lambda>((ret, errors), s1).
           if_ok (if_ok (if_ok (if_ok (if_ok (ret, s1)
             (\<lambda>s. eva_base_init env (nodeId (en_config s)) s))
             (\<lambda>s. query_image L sessionName (img (en_config s)) s))
             (create_session L))
             (configure L params))
             (create_engine L))
         (verify config s))"

definition eva_Start ::
  "('w, 'p, 'i) sv_lib \<Rightarrow> ('c \<Rightarrow> 'p list) \<Rightarrow> ('w, 'j, 'c) EvaNode \<Rightarrow>
     (QCStatus_e \<times> ('w, 'j, 'c) EvaNode) option" where
  "eva_Start L params s =
     (if en_state s \<noteq> QC_OBJECT_STATE_READY then Some (QC_STATUS_BAD_STATE, s)
      else if en_session s = nullptr then None
      else
        Some (if_ok (eva_call (Session_Start L (en_session s)) s)
          (\<lambda>s. let (ret, s1) = set_config L (params (en_config s)) s
               in (ret, if ret = QC_STATUS_OK then s1\<lparr>en_state := QC_OBJECT_STATE_RUNNING\<rparr> else s1))))"

definition eva_Stop :: "('w, 'p, 'i) sv_lib \<Rightarrow> ('w, 'j, 'c) EvaNode \<Rightarrow> (QCStatus_e \<times> ('w, 'j, 'c) EvaNode) option" where
  "eva_Stop L s =
     (if en_state s \<noteq> QC_OBJECT_STATE_RUNNING then Some (QC_STATUS_BAD_STATE, s)
      else if en_session s = nullptr then None
      else
        Some (if_ok (eva_call (Session_Stop L (en_session s)) s)
          (\<lambda>s. (QC_STATUS_OK, s\<lparr>en_state := QC_OBJECT_STATE_READY\<rparr>))))"

text \<open>Every buffer is deregistered, whatever the library returns; the status only remembers that a call failed.\<close>

definition note_failure :: "QCStatus_e \<Rightarrow> QCStatus_e \<times> 's \<Rightarrow> QCStatus_e \<times> 's" where
  "note_failure ret r = (if fst r \<noteq> QC_STATUS_OK then r else (ret, snd r))"

fun deregister_all ::
  "('w, 'p, 'i) sv_lib \<Rightarrow> (u64 \<times> SvBuffer) list \<Rightarrow> QCStatus_e \<times> ('w, 'j, 'c) EvaNode \<Rightarrow>
     QCStatus_e \<times> ('w, 'j, 'c) EvaNode" where
  "deregister_all L [] r = r"
| "deregister_all L ((p, mem) # rest) r =
     deregister_all L rest
       (note_failure (fst r) (eva_call (BufferDeregister L (en_session (snd r)) mem) (snd r)))"

definition eva_DeInitialize ::
  "('w, 'p, 'i) sv_lib \<Rightarrow> ('w, 'j, 'c) EvaNode \<Rightarrow> (QCStatus_e \<times> ('w, 'j, 'c) EvaNode) option" where
  "eva_DeInitialize L s =
     (if en_state s \<noteq> QC_OBJECT_STATE_READY then Some (QC_STATUS_BAD_STATE, s)
      else if en_engine s = nullptr then None
      else
        let (ret, s1) = deregister_all L (en_memMap s) (eva_call (Engine_Destroy L (en_engine s)) s);
            s2 = s1\<lparr>en_memMap := []\<rparr>
        in if en_session s2 = nullptr then None
           else
             Some (case note_failure ret (eva_call (Session_Destroy L (en_session s2)) s2) of
               (ret, s3) \<Rightarrow> (ret, s3\<lparr>en_session := nullptr\<rparr>)))"

end
