(* ===== verification/QC_OpticalFlow.thy ===== *)
theory QC_OpticalFlow
  imports QC_Eva
begin

text \<open>
  The optical flow node: \<^verbatim>\<open>source/Node/OpticalFlow/OpticalFlow.cpp\<close>, the instance of \<open>QC_Eva\<close> for the class
  \<^verbatim>\<open>LME\<close> of the library. The enumerations of the configuration are the numbers they are read as; those of
  the library are datatypes.
\<close>

subsection \<open>Configuration\<close>

abbreviation (input) MOTION_FORMAT_12_LA :: u8 where "MOTION_FORMAT_12_LA \<equiv> 0"
abbreviation (input) MOTION_FORMAT_MAX :: u8 where "MOTION_FORMAT_MAX \<equiv> 1"
abbreviation (input) MOTION_MAP_UPSCALE_NONE :: u8 where "MOTION_MAP_UPSCALE_NONE \<equiv> 0"
abbreviation (input) MOTION_MAP_UPSCALE_2 :: u8 where "MOTION_MAP_UPSCALE_2 \<equiv> 1"
abbreviation (input) MOTION_MAP_UPSCALE_MAX :: u8 where "MOTION_MAP_UPSCALE_MAX \<equiv> 3"
abbreviation (input) MOTION_DIRECTION_FORWARD :: u8 where "MOTION_DIRECTION_FORWARD \<equiv> 0"
abbreviation (input) MOTION_DIRECTION_BACKWARD :: u8 where "MOTION_DIRECTION_BACKWARD \<equiv> 1"
abbreviation (input) MOTION_DIRECTION_BIDIRECTIONAL :: u8 where "MOTION_DIRECTION_BIDIRECTIONAL \<equiv> 2"
abbreviation (input) MOTION_DIRECTION_MAX :: u8 where "MOTION_DIRECTION_MAX \<equiv> 3"
abbreviation (input) MOTION_MAP_STEP_SIZE_1 :: u8 where "MOTION_MAP_STEP_SIZE_1 \<equiv> 0"
abbreviation (input) MOTION_MAP_STEP_SIZE_2 :: u8 where "MOTION_MAP_STEP_SIZE_2 \<equiv> 1"
abbreviation (input) MOTION_MAP_STEP_SIZE_MAX :: u8 where "MOTION_MAP_STEP_SIZE_MAX \<equiv> 3"
abbreviation (input) REFINEMENT_LEVEL_NONE :: u8 where "REFINEMENT_LEVEL_NONE \<equiv> 0"
abbreviation (input) REFINEMENT_LEVEL_REFINED_L1 :: u8 where "REFINEMENT_LEVEL_REFINED_L1 \<equiv> 1"
abbreviation (input) OFL_REFINEMENT_LEVEL_MAX :: u8 where "OFL_REFINEMENT_LEVEL_MAX \<equiv> 2"
abbreviation (input) COMPUTATION_ACCURACY_LOW :: u8 where "COMPUTATION_ACCURACY_LOW \<equiv> 0"
abbreviation (input) COMPUTATION_ACCURACY_MEDIUM :: u8 where "COMPUTATION_ACCURACY_MEDIUM \<equiv> 1"
abbreviation (input) COMPUTATION_ACCURACY_MAX :: u8 where "COMPUTATION_ACCURACY_MAX \<equiv> 3"
abbreviation (input) LIGHTING_CONDITION_LOW :: u8 where "LIGHTING_CONDITION_LOW \<equiv> 0"
abbreviation (input) LIGHTING_CONDITION_HIGH :: u8 where "LIGHTING_CONDITION_HIGH \<equiv> 1"
abbreviation (input) LIGHTING_CONDITION_MAX :: u8 where "LIGHTING_CONDITION_MAX \<equiv> 2"

record OpticalFlowBufferMapping =
  referenceImageBufferId :: u32
  currentImageBufferId :: u32
  fwdMotionBufferId :: u32
  bwdMotionBufferId :: u32
  fwdConfBufferId :: u32
  bwdConfBufferId :: u32

record OpticalFlow_Config =
  of_nodeId :: QCNodeID
  of_imageFormat :: QCImageFormat_e
  of_motionMapFormat :: u8
  of_width :: u32
  of_height :: u32
  of_frameRate :: u32
  of_motionMapFracEn :: bool
  of_motionMapUpscale :: u8
  of_motionDirection :: u8
  of_motionMapStepSize :: u8
  of_confidenceOutputEn :: bool
  of_refinementLevel :: u8
  of_chromaProcEn :: bool
  of_maskLowTextureEn :: bool
  of_computationAccuracy :: u8
  of_noiseScaleSrc :: float32_t
  of_noiseScaleDst :: float32_t
  of_noiseOffsetSrc :: float32_t
  of_noiseOffsetDst :: float32_t
  of_motionVarianceTolerance :: float32_t
  of_occlusionTolerance :: float32_t
  of_edgePenalty :: float32_t
  of_initialPenalty :: float32_t
  of_neighborPenalty :: float32_t
  of_smoothnessPenalty :: float32_t
  of_textureMetric :: u32
  of_edgeAlignMetric :: u32
  of_motionVarianceMetric :: u32
  of_occlusionMetric :: u32
  of_segmentationThreshold :: float32_t
  of_globalMotionDetailThreshold :: float32_t
  of_imageSharpnessThreshold :: float32_t
  of_mvEdgeThreshold :: float32_t
  of_refinementThreshold :: float32_t
  of_textureThreshold :: float32_t
  of_lightingCondition :: u8
  of_isFirstRequest :: bool
  of_requestId :: u64
  of_bufferMap :: OpticalFlowBufferMapping

text \<open>The node's identity is that of the base class, which the constructor does not set.\<close>

definition OpticalFlow_Config_new :: "QCNodeID \<Rightarrow> OpticalFlow_Config" where
  "OpticalFlow_Config_new nodeId =
     \<lparr>of_nodeId = nodeId, of_imageFormat = QC_IMAGE_FORMAT_NV12, of_motionMapFormat = MOTION_FORMAT_12_LA,
      of_width = 0, of_height = 0, of_frameRate = 30, of_motionMapFracEn = True,
      of_motionMapUpscale = MOTION_MAP_UPSCALE_NONE, of_motionDirection = MOTION_DIRECTION_FORWARD,
      of_motionMapStepSize = MOTION_MAP_STEP_SIZE_1, of_confidenceOutputEn = False,
      of_refinementLevel = REFINEMENT_LEVEL_REFINED_L1, of_chromaProcEn = False,
      of_maskLowTextureEn = False, of_computationAccuracy = COMPUTATION_ACCURACY_MEDIUM,
      of_noiseScaleSrc = f32_0, of_noiseScaleDst = f32_0, of_noiseOffsetSrc = f32_0,
      of_noiseOffsetDst = f32_0, of_motionVarianceTolerance = 0x3EB851EC, of_occlusionTolerance = f32_half,
      of_edgePenalty = 0x3DA3D70A, of_initialPenalty = 0x3E428F5C, of_neighborPenalty = 0x3E6147AE,
      of_smoothnessPenalty = 0x3ED1EB85, of_textureMetric = 100, of_edgeAlignMetric = 100,
      of_motionVarianceMetric = 100, of_occlusionMetric = 100, of_segmentationThreshold = f32_half,
      of_globalMotionDetailThreshold = 0x3F28F5C3, of_imageSharpnessThreshold = 0x3ECCCCCD,
      of_mvEdgeThreshold = 0x3EDC28F6, of_refinementThreshold = 0x3F400000,
      of_textureThreshold = 0x3E2B020C, of_lightingCondition = LIGHTING_CONDITION_HIGH,
      of_isFirstRequest = False, of_requestId = 0,
      of_bufferMap = \<lparr>referenceImageBufferId = 0, currentImageBufferId = 1, fwdMotionBufferId = 2,
                      bwdMotionBufferId = 3, fwdConfBufferId = 4, bwdConfBufferId = 5\<rparr>\<rparr>"

definition OFL_checks ::
  "('w, 'j, 'p, 'i) eva_env \<Rightarrow> 'j \<Rightarrow> QCImageFormat_e \<Rightarrow> (bool \<times> string) list" where
  "OFL_checks env dt fmt =
     (let J = ee_json env; g8 = DT_Get J (ee_u8 env) dt; g32 = DT_Get J (ee_u32 env) dt;
          gf = DT_Get J (ee_f32 env) dt
      in [(fmt \<noteq> QC_IMAGE_FORMAT_NV12 \<and> fmt \<noteq> QC_IMAGE_FORMAT_NV12_UBWC, ''invalid image format, ''),
          (MOTION_FORMAT_MAX \<le> g8 ''motionMapFormat'' MOTION_FORMAT_12_LA, ''invalid motion map format, ''),
          (g32 ''width'' 0 = 0, ''the width is zero, ''),
          (g32 ''height'' 0 = 0, ''the height is zero, ''),
          (g32 ''fps'' 0 = 0, ''the frame rate is zero, ''),
          (MOTION_MAP_UPSCALE_MAX \<le> g8 ''motionMapUpscale'' MOTION_MAP_UPSCALE_NONE,
           ''motion map up scale out of range, ''),
          (MOTION_DIRECTION_MAX \<le> g8 ''motionDirection'' MOTION_DIRECTION_FORWARD,
           ''motion direction out of range, ''),
          (MOTION_MAP_STEP_SIZE_MAX \<le> g8 ''motionMapStepSize'' MOTION_MAP_STEP_SIZE_1,
           ''motion map step size out of range, ''),
          (OFL_REFINEMENT_LEVEL_MAX \<le> g8 ''refinementLevel'' REFINEMENT_LEVEL_REFINED_L1,
           ''refinement level out of range, ''),
          (COMPUTATION_ACCURACY_MAX \<le> g8 ''computationAccuracy'' COMPUTATION_ACCURACY_MEDIUM,
           ''computation accuracy out of range, ''),
          (f32_outside f32_m1 f32_1 (gf ''noiseScaleSrc'' f32_0),
           ''feature noise tolerance for source image mulitplied by luma value, for when '' @
           ''noise increases along with luma out of range, ''),
          (f32_outside f32_m1 f32_1 (gf ''noiseScaleDst'' f32_0),
           ''feature noise tolerance for destination image mulitplied by luma value, for '' @
           ''when noise increases along with luma out of range, ''),
          (f32_outside f32_m1 f32_1 (gf ''noiseOffsetSrc'' f32_0),
           ''feature noise tolerance for source image, for when noise is fixed across image '' @
           ''out of range, ''),
          (f32_outside f32_m1 f32_1 (gf ''noiseOffsetDst'' f32_0),
           ''feature noise tolerance for destination image, for when noise is fixed across '' @
           ''image out of range, ''),
          (f32_outside f32_0 f32_1 (gf ''motionVarianceTolerance'' 0x3EB851EC),
           ''motion variance tolerance out of range, ''),
          (f32_outside f32_0 f32_1 (gf ''occlusionTolerance'' f32_half), ''occlusion tolerance out of range, ''),
          (f32_outside f32_m1 f32_1 (gf ''initialPenalty'' 0x3E428F5C), ''initial penalty value out of range, ''),
          (f32_outside f32_m1 f32_1 (gf ''edgePenalty'' 0x3DA3D70A), ''edge penalty out of range, ''),
          (f32_outside f32_m1 f32_1 (gf ''smoothnessPenalty'' 0x3ED1EB85), ''smoothness penalty out of range, ''),
          (f32_outside f32_m1 f32_1 (gf ''neighborPenalty'' 0x3E6147AE), ''neightbour penalty out of range, ''),
          (100 < g32 ''textureMetric'' 100, ''texture metric out of range, ''),
          (100 < g32 ''edgeAlignMetric'' 100, ''edge align metric out of range, ''),
          (100 < g32 ''motionVarianceMetric'' 100, ''motion variance metric out of range, ''),
          (100 < g32 ''occlusionMetric'' 100, ''occlusion metric out of range, ''),
          (f32_outside f32_0 f32_1 (gf ''segmentationThreshold'' f32_half), ''segmentation threshold out of range, ''),
          (f32_outside f32_0 f32_1 (gf ''imageSharpnessThreshold'' 0x3ECCCCCD),
           ''image sharpness threshold out of range, ''),
          (f32_outside f32_0 f32_1 (gf ''mvEdgeThreshold'' 0x3EDC28F6), ''mv edge threshold out of range, ''),
          (f32_outside f32_0 f32_1 (gf ''refinementThreshold'' 0x3F400000), ''refinement threshold out of range, ''),
          (f32_outside f32_0 f32_1 (gf ''textureThreshold'' 0x3E2B020C), ''texture threshold out of range, ''),
          (LIGHTING_CONDITION_MAX \<le> g8 ''lightingCondition'' LIGHTING_CONDITION_HIGH,
           ''lighting condition out of range, '')])"

definition OFL_VerifyStaticConfig ::
  "('w, 'j, 'p, 'i) eva_env \<Rightarrow> 'j \<Rightarrow> string \<Rightarrow> (QCStatus_e \<times> string) option" where
  "OFL_VerifyStaticConfig env dt errors =
     map_option (\<lambda>fmt. check_all (OFL_checks env dt fmt) errors)
       (DT_GetImageFormat (ee_json env) dt ''format'' QC_IMAGE_FORMAT_NV12)"

definition OFL_read_config ::
  "('w, 'j, 'p, 'i) eva_env \<Rightarrow> 'j \<Rightarrow> QCImageFormat_e \<Rightarrow> OpticalFlow_Config \<Rightarrow> OpticalFlow_Config" where
  "OFL_read_config env dt fmt c =
     (let J = ee_json env; g8 = DT_Get J (ee_u8 env) dt; g32 = DT_Get J (ee_u32 env) dt;
          gf = DT_Get J (ee_f32 env) dt; gb = DT_Get J (ee_bool env) dt
      in \<lparr>of_nodeId = (of_nodeId c)\<lparr>n_name := DT_Get J (ee_string env) dt ''name'' '''', n_id := g8 ''id'' (- 1)\<rparr>,
          of_imageFormat = fmt, of_motionMapFormat = g8 ''motionMapFormat'' MOTION_FORMAT_12_LA,
          of_width = g32 ''width'' 0, of_height = g32 ''height'' 0, of_frameRate = g32 ''fps'' 30,
          of_motionMapFracEn = gb ''motionMapFracEn'' True,
          of_motionMapUpscale = g8 ''motionMapUpscale'' MOTION_MAP_UPSCALE_NONE,
          of_motionDirection = g8 ''motionDirection'' MOTION_DIRECTION_FORWARD,
          of_motionMapStepSize = g8 ''motionMapStepSize'' MOTION_MAP_STEP_SIZE_1,
          of_confidenceOutputEn = gb ''confidenceOutputEn'' False,
          of_refinementLevel = g8 ''refinementLevel'' REFINEMENT_LEVEL_REFINED_L1,
          of_chromaProcEn = gb ''chromaProcEn'' False, of_maskLowTextureEn = gb ''maskLowTextureEn'' False,
          of_computationAccuracy = g8 ''computationAccuracy'' COMPUTATION_ACCURACY_MEDIUM,
          of_noiseScaleSrc = gf ''noiseScaleSrc'' f32_0, of_noiseScaleDst = gf ''noiseScaleDst'' f32_0,
          of_noiseOffsetSrc = gf ''noiseOffsetSrc'' f32_0, of_noiseOffsetDst = gf ''noiseOffsetDst'' f32_0,
          of_motionVarianceTolerance = gf ''motionVarianceTolerance'' 0x3EB851EC,
          of_occlusionTolerance = gf ''occlusionTolerance'' f32_half,
          of_edgePenalty = gf ''edgePenalty'' 0x3DA3D70A, of_initialPenalty = gf ''initialPenalty'' 0x3E428F5C,
          of_neighborPenalty = gf ''neighborPenalty'' 0x3E6147AE,
          of_smoothnessPenalty = gf ''smoothnessPenalty'' 0x3ED1EB85,
          of_textureMetric = g32 ''textureMetric'' 100, of_edgeAlignMetric = g32 ''edgeAlignMetric'' 100,
          of_motionVarianceMetric = g32 ''motionVarianceMetric'' 100,
          of_occlusionMetric = g32 ''occlusionMetric'' 100,
          of_segmentationThreshold = gf ''segmentationThreshold'' f32_half,
          of_globalMotionDetailThreshold = of_globalMotionDetailThreshold c,
          of_imageSharpnessThreshold = gf ''imageSharpnessThreshold'' 0x3ECCCCCD,
          of_mvEdgeThreshold = gf ''mvEdgeThreshold'' 0x3EDC28F6,
          of_refinementThreshold = gf ''refinementThreshold'' 0x3F400000,
          of_textureThreshold = gf ''textureThreshold'' 0x3E2B020C,
          of_lightingCondition = g8 ''lightingCondition'' LIGHTING_CONDITION_HIGH,
          of_isFirstRequest = gb ''isFirstRequest'' False,
          of_requestId = DT_Get J (ee_u64 env) dt ''requestId'' 0, of_bufferMap = of_bufferMap c\<rparr>)"

definition OFL_ParseStaticConfig ::
  "('w, 'j, 'p, 'i) eva_env \<Rightarrow> 'j \<Rightarrow> string \<Rightarrow> OpticalFlow_Config \<Rightarrow>
     ((QCStatus_e \<times> string) \<times> OpticalFlow_Config) option" where
  "OFL_ParseStaticConfig env dt errors c =
     (case OFL_VerifyStaticConfig env dt errors of
        None \<Rightarrow> None
      | Some r \<Rightarrow>
          if fst r = QC_STATUS_OK then
            map_option (\<lambda>fmt. (r, OFL_read_config env dt fmt c))
              (DT_GetImageFormat (ee_json env) dt ''format'' QC_IMAGE_FORMAT_NV12)
          else Some (r, c))"

type_synonym ('w, 'j) OpticalFlow = "('w, 'j, OpticalFlow_Config) EvaNode"

definition OFL_VerifyAndSet ::
  "('w, 'j, 'p, 'i) eva_env \<Rightarrow> string \<Rightarrow> ('w, 'j) OpticalFlow \<Rightarrow>
     ((QCStatus_e \<times> string) \<times> ('w, 'j) OpticalFlow) option" where
  "OFL_VerifyAndSet env = eva_VerifyAndSet env (OFL_ParseStaticConfig env)"

text \<open>The members without an initialiser hold what they held before: \<open>u\<close> is the storage of the node.\<close>

definition OpticalFlow_new :: "('w, 'j) OpticalFlow \<Rightarrow> ('w, 'j) OpticalFlow" where
  "OpticalFlow_new u =
     u\<lparr>en_config := OpticalFlow_Config_new (of_nodeId (en_config u)), en_state := QC_OBJECT_STATE_INITIAL,
       en_memMap := []\<rparr>"

subsection \<open>Parameters of the class\<close>

datatype LmeUpscale = LME_UPSCALE_NONE | LME_UPSCALE_2 | LME_UPSCALE_4
datatype LmeStepSize = LME_STEP_1 | LME_STEP_2 | LME_STEP_4
datatype LmeDirection = LME_FORWARD | LME_BACKWARD | LME_BIDIRECTIONAL
datatype LmeRefinement = LME_REFINEMENT_NONE | LME_REFINED_L1
datatype LmeAccuracy = LME_LOW | LME_MEDIUM | LME_HIGH
datatype LmeLighting = LME_LIGHTING_LOW | LME_LIGHTING_HIGH

datatype lme_param =
    LME_AVERAGE_FPS u32
  | LME_SRC_IMAGE_INFO ImageInfo
  | LME_DST_IMAGE_INFO ImageInfo
  | LME_MOTION_MAP_FORMAT PixelFormat
  | LME_MOTION_MAP_FRAC_EN bool
  | LME_MOTION_MAP_UPSCALE LmeUpscale
  | LME_MOTION_MAP_STEP_SIZE LmeStepSize
  | LME_MOTION_DIRECTION LmeDirection
  | LME_CONFIDENCE_OUTPUT_EN bool
  | LME_REFINEMENT_LEVEL LmeRefinement
  | LME_CHROMA_PROC_EN bool
  | LME_MASK_LOW_TEXTURE_EN bool
  | LME_COMPUTATION_ACCURACY LmeAccuracy
  | LME_NOISE_TOLERANCES float32_t float32_t float32_t float32_t
  | LME_MOTION_VARIANCE_TOLERANCE float32_t
  | LME_OCCLUSION_TOLERANCE float32_t
  | LME_PENALTIES float32_t float32_t float32_t float32_t
  | LME_TEXTURE_METRIC u32
  | LME_EDGE_ALIGN_METRIC u32
  | LME_MOTION_VARIANCE_METRIC u32
  | LME_OCCLUSION_METRIC u32
  | LME_SEGMENTATION_THRESHOLD float32_t
  | LME_IMAGE_SHARPNESS_THRESHOLD float32_t
  | LME_MV_EDGE_THRESHOLD float32_t
  | LME_REFINEMENT_THRESHOLD float32_t
  | LME_TEXTURE_THRESHOLD float32_t
  | LME_LIGHTING_CONDITION LmeLighting
  | LME_IS_FIRST_REQUEST bool
  | LME_REQUEST_ID u64

text \<open>Every format is set as the only one there is.\<close>

definition GetMotionMapFormat :: "u8 \<Rightarrow> PixelFormat" where
  "GetMotionMapFormat motionMapFormat = PF_MOTION_MAP_12_LA"

definition OFL_UpdateIconfig :: "OpticalFlow_Config \<Rightarrow> ImageInfo \<Rightarrow> lme_param list" where
  "OFL_UpdateIconfig c info =
     [LME_AVERAGE_FPS (of_frameRate c), LME_SRC_IMAGE_INFO info, LME_DST_IMAGE_INFO info,
      LME_MOTION_MAP_FORMAT (GetMotionMapFormat (of_motionMapFormat c)),
      LME_MOTION_MAP_FRAC_EN (of_motionMapFracEn c),
      LME_MOTION_MAP_UPSCALE
        (if of_motionMapUpscale c = MOTION_MAP_UPSCALE_NONE then LME_UPSCALE_NONE
         else if of_motionMapUpscale c = MOTION_MAP_UPSCALE_2 then LME_UPSCALE_2 else LME_UPSCALE_4),
      LME_MOTION_MAP_STEP_SIZE
        (if of_motionMapStepSize c = MOTION_MAP_STEP_SIZE_1 then LME_STEP_1
         else if of_motionMapStepSize c = MOTION_MAP_STEP_SIZE_2 then LME_STEP_2 else LME_STEP_4),
      LME_MOTION_DIRECTION
        (if of_motionDirection c = MOTION_DIRECTION_FORWARD then LME_FORWARD
         else if of_motionDirection c = MOTION_DIRECTION_BACKWARD then LME_BACKWARD
         else LME_BIDIRECTIONAL),
      LME_CONFIDENCE_OUTPUT_EN (of_confidenceOutputEn c),
      LME_REFINEMENT_LEVEL
        (if of_refinementLevel c = REFINEMENT_LEVEL_NONE then LME_REFINEMENT_NONE else LME_REFINED_L1),
      LME_CHROMA_PROC_EN (of_chromaProcEn c), LME_MASK_LOW_TEXTURE_EN (of_maskLowTextureEn c),
      LME_COMPUTATION_ACCURACY
        (if of_computationAccuracy c = COMPUTATION_ACCURACY_LOW then LME_LOW
         else if of_computationAccuracy c = COMPUTATION_ACCURACY_MEDIUM then LME_MEDIUM else LME_HIGH)]"

definition OFL_SetInitialFrameConfig :: "OpticalFlow_Config \<Rightarrow> lme_param list" where
  "OFL_SetInitialFrameConfig c =
     [LME_NOISE_TOLERANCES (of_noiseScaleSrc c) (of_noiseScaleDst c) (of_noiseOffsetSrc c) (of_noiseOffsetDst c),
      LME_MOTION_VARIANCE_TOLERANCE (of_motionVarianceTolerance c),
      LME_OCCLUSION_TOLERANCE (of_occlusionTolerance c),
      LME_PENALTIES (of_initialPenalty c) (of_edgePenalty c) (of_neighborPenalty c) (of_smoothnessPenalty c),
      LME_TEXTURE_METRIC (of_textureMetric c), LME_EDGE_ALIGN_METRIC (of_edgeAlignMetric c),
      LME_MOTION_VARIANCE_METRIC (of_motionVarianceMetric c), LME_OCCLUSION_METRIC (of_occlusionMetric c),
      LME_SEGMENTATION_THRESHOLD (of_segmentationThreshold c),
      LME_IMAGE_SHARPNESS_THRESHOLD (of_imageSharpnessThreshold c),
      LME_MV_EDGE_THRESHOLD (of_mvEdgeThreshold c), LME_REFINEMENT_THRESHOLD (of_refinementThreshold c),
      LME_TEXTURE_THRESHOLD (of_textureThreshold c),
      LME_LIGHTING_CONDITION
        (if of_lightingCondition c = LIGHTING_CONDITION_LOW then LME_LIGHTING_LOW else LME_LIGHTING_HIGH),
      LME_IS_FIRST_REQUEST (of_isFirstRequest c), LME_REQUEST_ID (of_requestId c)]"

subsection \<open>Frames\<close>

text \<open>A job of the library. The outputs the code does not set are zero, \<open>None\<close>.\<close>

record lme_job =
  lj_imageInfo :: ImageInfo
  lj_src :: SvBuffer
  lj_dst :: SvBuffer
  lj_fwdMotionMap :: "SvBuffer option"
  lj_fwdConfMap :: "SvBuffer option"
  lj_bwdMotionMap :: "SvBuffer option"
  lj_bwdConfMap :: "SvBuffer option"

type_synonym 'w lme_lib = "('w, lme_param, lme_job) sv_lib"

abbreviation (input) is_forward :: "u8 \<Rightarrow> bool" where
  "is_forward dir \<equiv> dir = MOTION_DIRECTION_FORWARD \<or> dir = MOTION_DIRECTION_BIDIRECTIONAL"
abbreviation (input) is_backward :: "u8 \<Rightarrow> bool" where
  "is_backward dir \<equiv> dir = MOTION_DIRECTION_BACKWARD \<or> dir = MOTION_DIRECTION_BIDIRECTIONAL"

text \<open>A motion map that is not there, or not wanted, is left out.\<close>

definition with_motion_map ::
  "'w lme_lib \<Rightarrow> bool \<Rightarrow> TensorDescriptor option \<Rightarrow> ('w, 'j) OpticalFlow \<Rightarrow>
     (SvBuffer option \<Rightarrow> ('w, 'j) OpticalFlow \<Rightarrow> (QCStatus_e \<times> ('w, 'j) OpticalFlow) option) \<Rightarrow>
     (QCStatus_e \<times> ('w, 'j) OpticalFlow) option" where
  "with_motion_map L wanted desc s f =
     (case desc of
        Some d \<Rightarrow> if wanted then with_buffer (eva_RegisterMemory L d s) (\<lambda>b. f (Some b)) else f None s
      | None \<Rightarrow> f None s)"

text \<open>A confidence map that is wanted must be there. The status \<open>ret\<close> is that of the map before, which the
  code does not look at.\<close>

definition conf_map ::
  "'w lme_lib \<Rightarrow> bool \<Rightarrow> TensorDescriptor option \<Rightarrow> QCStatus_e \<times> ('w, 'j) OpticalFlow \<Rightarrow>
     (QCStatus_e \<times> ('w, 'j) OpticalFlow) \<times> SvBuffer option" where
  "conf_map L wanted desc r =
     (case r of (ret, s) \<Rightarrow>
        if \<not> wanted then ((ret, s), None)
        else
          (case desc of
             None \<Rightarrow> ((QC_STATUS_FAIL, s), None)
           | Some d \<Rightarrow>
               (case eva_RegisterMemory L d s of
                  (Inl e, s1) \<Rightarrow> ((e, s1), None)
                | (Inr b, s1) \<Rightarrow> ((QC_STATUS_OK, s1), Some b))))"

definition conf_maps ::
  "'w lme_lib \<Rightarrow> OpticalFlow_Config \<Rightarrow> any_buffer option list \<Rightarrow> ('w, 'j) OpticalFlow \<Rightarrow>
     (QCStatus_e \<times> ('w, 'j) OpticalFlow) \<times> SvBuffer option \<times> SvBuffer option" where
  "conf_maps L c fd s =
     (if \<not> of_confidenceOutputEn c then ((QC_STATUS_OK, s), None, None)
      else
        let m = of_bufferMap c;
            (r1, fwd) = conf_map L (is_forward (of_motionDirection c))
                          (frame_tensor fd (fwdConfBufferId m)) (QC_STATUS_OK, s);
            (r2, bwd) = conf_map L (is_backward (of_motionDirection c))
                          (frame_tensor fd (bwdConfBufferId m)) r1
        in (r2, fwd, bwd))"

definition OFL_ProcessFrameDescriptor ::
  "'w lme_lib \<Rightarrow> any_buffer option list \<Rightarrow> ('w, 'j) OpticalFlow \<Rightarrow>
     (QCStatus_e \<times> ('w, 'j) OpticalFlow) option" where
  "OFL_ProcessFrameDescriptor L fd s =
     (if en_state s \<noteq> QC_OBJECT_STATE_RUNNING then Some (QC_STATUS_BAD_STATE, s)
      else
        let c = en_config s; m = of_bufferMap c; info = en_imageInfo s; dir = of_motionDirection c
        in (case (frame_image fd (referenceImageBufferId m), frame_image fd (currentImageBufferId m)) of
              (Some refImg, Some curImg) \<Rightarrow>
                (case validate_two
                        (eva_ValidateImageDesc (of_imageFormat c) (of_width c) (of_height c) info)
                        refImg curImg of
                   None \<Rightarrow> None
                 | Some ret \<Rightarrow>
                     if ret \<noteq> QC_STATUS_OK then Some (ret, s)
                     else
                       with_buffer (eva_RegisterMemory L refImg s) (\<lambda>refMem s.
                       with_buffer (eva_RegisterMemory L curImg s) (\<lambda>curMem s.
                       with_motion_map L (is_forward dir) (frame_tensor fd (fwdMotionBufferId m)) s (\<lambda>fwdMv s.
                       with_motion_map L (is_backward dir) (frame_tensor fd (bwdMotionBufferId m)) s (\<lambda>bwdMv s.
                         case conf_maps L c fd s of
                           ((ret, s), fwdConf, bwdConf) \<Rightarrow>
                             if ret \<noteq> QC_STATUS_OK then Some (ret, s)
                             else
                               eva_submit L
                                 \<lparr>lj_imageInfo = info, lj_src = refMem, lj_dst = curMem,
                                  lj_fwdMotionMap = fwdMv, lj_fwdConfMap = fwdConf,
                                  lj_bwdMotionMap = bwdMv, lj_bwdConfMap = bwdConf\<rparr> s)))))
            | _ \<Rightarrow> Some (QC_STATUS_FAIL, s)))"

subsection \<open>Life cycle\<close>

definition OFL_Initialize ::
  "('w, 'j, lme_param, lme_job) eva_env \<Rightarrow> string \<Rightarrow> ('w, 'j) OpticalFlow \<Rightarrow>
     (QCStatus_e \<times> ('w, 'j) OpticalFlow) option" where
  "OFL_Initialize env =
     eva_Initialize env (OFL_VerifyAndSet env) of_nodeId ''OPTICAL_FLOW''
       (\<lambda>c. (of_imageFormat c, of_width c, of_height c)) OFL_UpdateIconfig"

definition OFL_Start :: "'w lme_lib \<Rightarrow> ('w, 'j) OpticalFlow \<Rightarrow> (QCStatus_e \<times> ('w, 'j) OpticalFlow) option" where
  "OFL_Start L = eva_Start L OFL_SetInitialFrameConfig"

definition OFL_Stop :: "'w lme_lib \<Rightarrow> ('w, 'j) OpticalFlow \<Rightarrow> (QCStatus_e \<times> ('w, 'j) OpticalFlow) option" where
  "OFL_Stop L = eva_Stop L"

definition OFL_DeInitialize :: "'w lme_lib \<Rightarrow> ('w, 'j) OpticalFlow \<Rightarrow> (QCStatus_e \<times> ('w, 'j) OpticalFlow) option" where
  "OFL_DeInitialize L = eva_DeInitialize L"

end
