(* ===== verification/QC_DepthFromStereo.thy ===== *)
theory QC_DepthFromStereo
  imports QC_Eva
begin

text \<open>
  The node for depth from stereo: \<^verbatim>\<open>source/Node/DepthFromStereo/DepthFromStereo.cpp\<close>, the instance of
  \<open>QC_Eva\<close> for the class \<^verbatim>\<open>StereoDisparity\<close> of the library.
\<close>

subsection \<open>Configuration\<close>

abbreviation (input) DISP_FORMAT_P012_LA_Y_ONLY :: u8 where "DISP_FORMAT_P012_LA_Y_ONLY \<equiv> 0"
abbreviation (input) DISP_FORMAT_MAX :: u8 where "DISP_FORMAT_MAX \<equiv> 1"
abbreviation (input) PROCESSING_MODE_AUTO :: u8 where "PROCESSING_MODE_AUTO \<equiv> 0"
abbreviation (input) PROCESSING_MODE_DL :: u8 where "PROCESSING_MODE_DL \<equiv> 1"
abbreviation (input) PROCESSING_MODE_MAX :: u8 where "PROCESSING_MODE_MAX \<equiv> 3"
abbreviation (input) DISP_MAP_PRECISION_FRAC_6BIT :: u8 where "DISP_MAP_PRECISION_FRAC_6BIT \<equiv> 0"
abbreviation (input) DISP_MAP_PRECISION_FRAC_4BIT :: u8 where "DISP_MAP_PRECISION_FRAC_4BIT \<equiv> 1"
abbreviation (input) DISP_MAP_PRECISION_MAX :: u8 where "DISP_MAP_PRECISION_MAX \<equiv> 3"
abbreviation (input) DFS_REFINEMENT_LEVEL_NONE :: u8 where "DFS_REFINEMENT_LEVEL_NONE \<equiv> 0"
abbreviation (input) DFS_REFINEMENT_LEVEL_REFINED_L1 :: u8 where "DFS_REFINEMENT_LEVEL_REFINED_L1 \<equiv> 1"
abbreviation (input) DFS_REFINEMENT_LEVEL_MAX :: u8 where "DFS_REFINEMENT_LEVEL_MAX \<equiv> 3"
abbreviation (input) SEARCH_DIRECTION_L2R :: u8 where "SEARCH_DIRECTION_L2R \<equiv> 0"
abbreviation (input) SEARCH_DIRECTION_MAX :: u8 where "SEARCH_DIRECTION_MAX \<equiv> 2"

record DepthFromStereoBufferMapping =
  primaryImageBufferId :: u32
  auxilaryImageBufferId :: u32
  disparityMapBufferId :: u32
  disparityConfidenceMapBufferId :: u32

record DepthFromStereo_Config =
  df_nodeId :: QCNodeID
  df_imageFormat :: QCImageFormat_e
  df_disparityFormat :: u8
  df_width :: u32
  df_height :: u32
  df_frameRate :: u32
  df_confidenceOutputEn :: bool
  df_processingMode :: u8
  df_noiseOffsetPri :: float32_t
  df_noiseOffsetAux :: float32_t
  df_modelType :: u8
  df_modelSwitchFrameCount :: u8
  df_prevDisparityFactor :: float32_t
  df_disparityMapPrecision :: u8
  df_refinementLevel :: u8
  df_occlusionOutputEn :: bool
  df_disparityStatsEn :: bool
  df_rectificationErrorStatsEn :: bool
  df_chromaProcEN :: bool
  df_maskLowTextureEn :: bool
  df_confidenceThreshold :: u32
  df_disparityThreshold :: u32
  df_noiseScalePri :: float32_t
  df_noiseScaleAux :: float32_t
  df_rectificationErrTolerance :: float32_t
  df_segmentationThreshold :: float32_t
  df_textureThreshold :: float32_t
  df_searchDirection :: u8
  df_edgePenalty :: float32_t
  df_initialPenalty :: float32_t
  df_neighborPenalty :: float32_t
  df_smoothnessPenalty :: float32_t
  df_imageSharpnessThreshold :: float32_t
  df_farAwayDisparityLimit :: float32_t
  df_disparityEdgeThreshold :: float32_t
  df_matchingCostMetric :: u32
  df_textureMetric :: u32
  df_edgeAlignMetric :: u32
  df_disparityVarianceMetric :: u32
  df_occlusionMetric :: u32
  df_disparityVarianceTolerance :: float32_t
  df_occlusionTolerance :: float32_t
  df_refinementThreshold :: float32_t
  df_maxDisparityRange :: u32
  df_bufferMap :: DepthFromStereoBufferMapping

definition DepthFromStereo_Config_new :: "QCNodeID \<Rightarrow> DepthFromStereo_Config" where
  "DepthFromStereo_Config_new nodeId =
     \<lparr>df_nodeId = nodeId, df_imageFormat = QC_IMAGE_FORMAT_NV12,
      df_disparityFormat = DISP_FORMAT_P012_LA_Y_ONLY, df_width = 0, df_height = 0, df_frameRate = 30,
      df_confidenceOutputEn = True, df_processingMode = PROCESSING_MODE_AUTO,
      df_noiseOffsetPri = f32_0, df_noiseOffsetAux = f32_0, df_modelType = 1,
      df_modelSwitchFrameCount = 10, df_prevDisparityFactor = f32_1,
      df_disparityMapPrecision = DISP_MAP_PRECISION_FRAC_6BIT,
      df_refinementLevel = DFS_REFINEMENT_LEVEL_REFINED_L1, df_occlusionOutputEn = False,
      df_disparityStatsEn = False, df_rectificationErrorStatsEn = False, df_chromaProcEN = False,
      df_maskLowTextureEn = False, df_confidenceThreshold = 210, df_disparityThreshold = 64,
      df_noiseScalePri = f32_0, df_noiseScaleAux = f32_0, df_rectificationErrTolerance = 0x3E947AE1,
      df_segmentationThreshold = f32_half, df_textureThreshold = 0x3E2B020C,
      df_searchDirection = SEARCH_DIRECTION_L2R, df_edgePenalty = 0x3DA3D70A,
      df_initialPenalty = 0x3E428F5C, df_neighborPenalty = 0x3E6147AE,
      df_smoothnessPenalty = 0x3ED1EB85, df_imageSharpnessThreshold = f32_0,
      df_farAwayDisparityLimit = f32_0, df_disparityEdgeThreshold = 0x3EDC28F6,
      df_matchingCostMetric = 100, df_textureMetric = 100, df_edgeAlignMetric = 100,
      df_disparityVarianceMetric = 100, df_occlusionMetric = 100,
      df_disparityVarianceTolerance = 0x3EB851EC, df_occlusionTolerance = f32_half,
      df_refinementThreshold = 0x3F400000,
      df_maxDisparityRange = 64,
      df_bufferMap = \<lparr>primaryImageBufferId = 0, auxilaryImageBufferId = 1, disparityMapBufferId = 2,
                      disparityConfidenceMapBufferId = 3\<rparr>\<rparr>"

definition DFS_checks ::
  "('w, 'j, 'p, 'i) eva_env \<Rightarrow> 'j \<Rightarrow> QCImageFormat_e \<Rightarrow> (bool \<times> string) list" where
  "DFS_checks env dt fmt =
     (let J = ee_json env; g8 = DT_Get J (ee_u8 env) dt; g32 = DT_Get J (ee_u32 env) dt;
          gf = DT_Get J (ee_f32 env) dt
      in [(fmt \<noteq> QC_IMAGE_FORMAT_NV12 \<and> fmt \<noteq> QC_IMAGE_FORMAT_NV12_UBWC, ''invalid input image format, ''),
          (DISP_FORMAT_MAX \<le> g8 ''disparityFormat'' DISP_FORMAT_P012_LA_Y_ONLY, ''invalid disparity map format, ''),
          (g32 ''width'' 0 = 0, ''the width is zero, ''),
          (g32 ''height'' 0 = 0, ''the height is zero, ''),
          (g32 ''fps'' 0 = 0, ''the frame rate is zero, ''),
          (PROCESSING_MODE_MAX \<le> g8 ''processingMode'' PROCESSING_MODE_AUTO, ''processing mode out of range, ''),
          (f32_outside f32_m1 f32_1 (gf ''offsetPrimary'' f32_0), ''Primary offset out of range, ''),
          (f32_outside f32_m1 f32_1 (gf ''offsetAux'' f32_0), ''Aux offset out of range, ''),
          (4 < g8 ''modelType'' 1, ''model type out of range, ''),
          (f32_outside f32_half f32_2 (gf ''prevDisparityFactor'' f32_1), ''previous disparity factor out of range, ''),
          (DISP_MAP_PRECISION_MAX \<le> g8 ''disparityMapPrecision'' DISP_MAP_PRECISION_FRAC_6BIT,
           ''disparity map precision out of range, ''),
          (DFS_REFINEMENT_LEVEL_MAX \<le> g8 ''refinementLevel'' DFS_REFINEMENT_LEVEL_REFINED_L1,
           ''refinement level out of range, ''),
          (255 < g32 ''confidenceThreshold'' 210, ''confidence threshold out of range, ''),
          (255 < g32 ''disparityThreshold'' 64, ''disparity threshold out of range, ''),
          (f32_outside f32_m1 f32_1 (gf ''scalePrimary'' f32_0), ''Primary scale out of range, ''),
          (f32_outside f32_m1 f32_1 (gf ''scaleAux'' f32_0), ''Aux scale out of range, ''),
          (f32_outside f32_0 f32_1 (gf ''rectificationErrTolerance'' 0x3E947AE1), ''rectification error tolerance out of range, ''),
          (f32_outside f32_0 f32_1 (gf ''segmentationThreshold'' f32_half), ''segmentation threshold out of range, ''),
          (f32_outside f32_0 f32_1 (gf ''textureThreshold'' 0x3E2B020C), ''texture threshold out of range, ''),
          (SEARCH_DIRECTION_MAX \<le> g8 ''searchDirection'' SEARCH_DIRECTION_L2R, ''search direction out of range, ''),
          (f32_outside f32_0 f32_1 (gf ''initialPenalty'' 0x3E428F5C), ''initial penalty out of range, ''),
          (f32_outside f32_0 f32_1 (gf ''edgePenalty'' 0x3DA3D70A), ''edge penalty out of range, ''),
          (f32_outside f32_0 f32_1 (gf ''smoothnessPenalty'' 0x3ED1EB85), ''smoothness penalty out of range, ''),
          (f32_outside f32_0 f32_1 (gf ''neighbourPenalty'' 0x3E6147AE), ''neighbour penalty out of range, ''),
          (f32_outside f32_0 f32_1 (gf ''imageSharpnessThreshold'' f32_0), ''image sharpness threshold out of range, ''),
          (f32_outside f32_0 f32_1 (gf ''farAwayDisparityLimit'' f32_0), ''far away disparity limit out of range, ''),
          (f32_outside f32_0 f32_1 (gf ''disparityEdgeThreshold'' 0x3EDC28F6), ''disparity edge threshold out of range, ''),
          (100 < g32 ''matchingCostMetric'' 100, ''matching cost metric out of range, ''),
          (100 < g32 ''textureMetric'' 100, ''texture metric out of range, ''),
          (100 < g32 ''edgeAlignMetric'' 100, ''edge align metric out of range, ''),
          (100 < g32 ''disparityVarianceMetric'' 100, ''disparity variance metric out of range, ''),
          (100 < g32 ''occlusionMetric'' 100, ''occlusion metric out of range, ''),
          (f32_outside f32_0 f32_1 (gf ''disparityVarianceTolerance'' 0x3EB851EC), ''disparity variance tolerance out of range, ''),
          (f32_outside f32_0 f32_1 (gf ''occlusionTolerance'' f32_half), ''occlusion tolerance out of range, ''),
          (f32_outside f32_0 f32_1 (gf ''refinementThreshold'' 0x3F400000), ''refinement threshold out of range, ''),
          (g32 ''maxDisparityRange'' 64 < 16 \<or> 92 < g32 ''maxDisparityRange'' 64, ''max disparity out of range, '')])"

definition DFS_VerifyStaticConfig ::
  "('w, 'j, 'p, 'i) eva_env \<Rightarrow> 'j \<Rightarrow> string \<Rightarrow> (QCStatus_e \<times> string) option" where
  "DFS_VerifyStaticConfig env dt errors =
     map_option (\<lambda>fmt. check_all (DFS_checks env dt fmt) errors)
       (DT_GetImageFormat (ee_json env) dt ''format'' QC_IMAGE_FORMAT_NV12)"

text \<open>Not every value is read under the name, or with the default, it was checked with.\<close>

definition DFS_read_config ::
  "('w, 'j, 'p, 'i) eva_env \<Rightarrow> 'j \<Rightarrow> QCImageFormat_e \<Rightarrow> DepthFromStereo_Config \<Rightarrow> DepthFromStereo_Config" where
  "DFS_read_config env dt fmt c =
     (let J = ee_json env; g8 = DT_Get J (ee_u8 env) dt; g32 = DT_Get J (ee_u32 env) dt;
          gf = DT_Get J (ee_f32 env) dt; gb = DT_Get J (ee_bool env) dt
      in \<lparr>df_nodeId = (df_nodeId c)\<lparr>n_name := DT_Get J (ee_string env) dt ''name'' '''', n_id := g8 ''id'' (- 1)\<rparr>,
          df_imageFormat = fmt, df_disparityFormat = g8 ''disparityFormat'' DISP_FORMAT_P012_LA_Y_ONLY,
          df_width = g32 ''width'' 0, df_height = g32 ''height'' 0, df_frameRate = g32 ''fps'' 30,
          df_confidenceOutputEn = gb ''confidenceOutputEn'' True,
          df_processingMode = g8 ''processingMode'' PROCESSING_MODE_AUTO,
          df_noiseOffsetPri = gf ''noiseOffsetPrimary'' f32_0,
          df_noiseOffsetAux = gf ''noiseOffsetAux'' f32_0, df_modelType = g8 ''modelType'' 1,
          df_modelSwitchFrameCount = g8 ''modelSwitchFrameCount'' 10,
          df_prevDisparityFactor = gf ''prevDisparityFactor'' f32_1,
          df_disparityMapPrecision = g8 ''disparityMapPrecision'' DISP_MAP_PRECISION_FRAC_6BIT,
          df_refinementLevel = g8 ''refinementLevel'' DFS_REFINEMENT_LEVEL_REFINED_L1,
          df_occlusionOutputEn = gb ''occlusionOutputEn'' False,
          df_disparityStatsEn = gb ''disparityStatsEn'' False,
          df_rectificationErrorStatsEn = gb ''rectificationErrorStatsEn'' False,
          df_chromaProcEN = gb ''chromaProcEN'' False,
          df_maskLowTextureEn = gb ''maskLowTextureEn'' False,
          df_confidenceThreshold = g32 ''confidenceThreshold'' 210,
          df_disparityThreshold = g32 ''disparityThreshold'' 64,
          df_noiseScalePri = gf ''noiseScalePrimary'' f32_0,
          df_noiseScaleAux = gf ''noiseScaleAux'' f32_0,
          df_rectificationErrTolerance = gf ''rectificationErrTolerance'' 0x3E947AE1,
          df_segmentationThreshold = gf ''segmentationThreshold'' f32_half,
          df_textureThreshold = gf ''textureThreshold'' 0x3E2B020C,
          df_searchDirection = g8 ''searchDirection'' SEARCH_DIRECTION_L2R,
          df_edgePenalty = gf ''edgePenalty'' 0x3DA3D70A,
          df_initialPenalty = gf ''initialPenalty'' 0x3E428F5C,
          df_neighborPenalty = gf ''neighbourPenalty'' 0x3E6147AE,
          df_smoothnessPenalty = gf ''smoothnessPenalty'' 0x3ED1EB85,
          df_imageSharpnessThreshold = gf ''imageSharpnessThreshold'' 0x3E947AE1,
          df_farAwayDisparityLimit = gf ''farAwayDisparityLimit'' f32_0,
          df_disparityEdgeThreshold = gf ''disparityEdgeThreshold'' 0x3EDC28F6,
          df_matchingCostMetric = g32 ''matchingCostMetric'' 100,
          df_textureMetric = g32 ''textureMetric'' 100,
          df_edgeAlignMetric = g32 ''edgeAlignMetric'' 100,
          df_disparityVarianceMetric = g32 ''disparityVarianceMetric'' 100,
          df_occlusionMetric = g32 ''occlusionMetric'' 100,
          df_disparityVarianceTolerance = gf ''disparityVarianceTolerance'' 0x3EB851EC,
          df_occlusionTolerance = gf ''occlusionTolerance'' f32_half,
          df_refinementThreshold = gf ''refinementThreshold'' 0x3F400000,
          df_maxDisparityRange = g32 ''maxDisparityRange'' 64,
          df_bufferMap = df_bufferMap c\<rparr>)"

definition DFS_ParseStaticConfig ::
  "('w, 'j, 'p, 'i) eva_env \<Rightarrow> 'j \<Rightarrow> string \<Rightarrow> DepthFromStereo_Config \<Rightarrow>
     ((QCStatus_e \<times> string) \<times> DepthFromStereo_Config) option" where
  "DFS_ParseStaticConfig env dt errors c =
     (case DFS_VerifyStaticConfig env dt errors of
        None \<Rightarrow> None
      | Some r \<Rightarrow>
          if fst r = QC_STATUS_OK then
            map_option (\<lambda>fmt. (r, DFS_read_config env dt fmt c))
              (DT_GetImageFormat (ee_json env) dt ''format'' QC_IMAGE_FORMAT_NV12)
          else Some (r, c))"

type_synonym ('w, 'j) DepthFromStereo = "('w, 'j, DepthFromStereo_Config) EvaNode"

definition DFS_VerifyAndSet ::
  "('w, 'j, 'p, 'i) eva_env \<Rightarrow> string \<Rightarrow> ('w, 'j) DepthFromStereo \<Rightarrow>
     ((QCStatus_e \<times> string) \<times> ('w, 'j) DepthFromStereo) option" where
  "DFS_VerifyAndSet env = eva_VerifyAndSet env (DFS_ParseStaticConfig env)"

text \<open>The description of the image is all zero at first, as the constructor initialises it.\<close>

definition DepthFromStereo_new :: "('w, 'j) DepthFromStereo \<Rightarrow> ('w, 'j) DepthFromStereo" where
  "DepthFromStereo_new u =
     u\<lparr>en_config := DepthFromStereo_Config_new (df_nodeId (en_config u)), en_state := QC_OBJECT_STATE_INITIAL,
       en_imageInfo := \<lparr>nPlanes = 0, nWidthStride = map (\<lambda>_. 0) (nWidthStride (en_imageInfo u)),
                        nAlignedSize = map (\<lambda>_. 0) (nAlignedSize (en_imageInfo u))\<rparr>,
       en_session := nullptr, en_engine := nullptr, en_memMap := []\<rparr>"

subsection \<open>Parameters of the class\<close>

datatype SdMode = SD_AUTO | SD_DL | SD_SGM
datatype SdPrecision = SD_FRAC_6BIT | SD_FRAC_4BIT | SD_INT
datatype SdRefinement = SD_REFINEMENT_NONE | SD_REFINED_L1 | SD_REFINED_L2
datatype SdSearchDir = SD_L2R | SD_R2L

datatype sd_param =
    SD_AVERAGE_FPS u32
  | SD_PRIMARY_IMAGE_INFO ImageInfo
  | SD_AUXILIARY_IMAGE_INFO ImageInfo
  | SD_CONFIDENCE_OUTPUT_EN bool
  | SD_OCCLUSION_OUTPUT_EN bool
  | SD_DISPARITY_STATS_EN bool
  | SD_RECTIFICATION_ERROR_STATS_EN bool
  | SD_DISPARITY_MAP_FORMAT PixelFormat
  | SD_MODE SdMode
  | SD_MAX_DISPARITY_RANGE u32
  | SD_DISPARITY_MAP_PRECISION SdPrecision
  | SD_REFINEMENT_LEVEL SdRefinement
  | SD_CHROMA_PROC_EN bool
  | SD_NOISE_TOLERANCE_SCALE float32_t float32_t
  | SD_NOISE_TOLERANCE_OFFSET float32_t float32_t
  | SD_DISPARITY_VARIANCE_TOLERANCE float32_t
  | SD_OCCLUSION_TOLERANCE float32_t
  | SD_PENALTIES float32_t float32_t float32_t float32_t
  | SD_MATCHING_COST_METRIC u32
  | SD_TEXTURE_METRIC u32
  | SD_EDGE_ALIGN_METRIC u32
  | SD_DISPARITY_VARIANCE_METRIC u32
  | SD_OCCLUSION_METRIC u32
  | SD_SEGMENTATION_THRESHOLD float32_t
  | SD_IMAGE_SHARPNESS_THRESHOLD float32_t
  | SD_DISPARITY_EDGE_THRESHOLD float32_t
  | SD_REFINEMENT_THRESHOLD float32_t
  | SD_TEXTURE_THRESHOLD float32_t
  | SD_MASK_LOW_TEXTURE_EN bool
  | SD_RECTIFICATION_ERR_TOLERANCE float32_t
  | SD_SEARCH_DIRECTION SdSearchDir
  | SD_FAR_AWAY_DISPARITY_LIMIT float32_t

definition GetDisparityMapFormat :: "u8 \<Rightarrow> PixelFormat" where
  "GetDisparityMapFormat disparityFormat = PF_P012_LA_Y_ONLY"

definition DFS_UpdateIconfig :: "DepthFromStereo_Config \<Rightarrow> ImageInfo \<Rightarrow> sd_param list" where
  "DFS_UpdateIconfig c info =
     [SD_AVERAGE_FPS (df_frameRate c), SD_PRIMARY_IMAGE_INFO info, SD_AUXILIARY_IMAGE_INFO info,
      SD_CONFIDENCE_OUTPUT_EN (df_confidenceOutputEn c), SD_OCCLUSION_OUTPUT_EN (df_occlusionOutputEn c),
      SD_DISPARITY_STATS_EN (df_disparityStatsEn c),
      SD_RECTIFICATION_ERROR_STATS_EN (df_rectificationErrorStatsEn c),
      SD_DISPARITY_MAP_FORMAT (GetDisparityMapFormat (df_disparityFormat c)),
      SD_MODE
        (if df_processingMode c = PROCESSING_MODE_AUTO then SD_AUTO
         else if df_processingMode c = PROCESSING_MODE_DL then SD_DL else SD_SGM)]"

definition DFS_SetInitialFrameConfig :: "DepthFromStereo_Config \<Rightarrow> sd_param list" where
  "DFS_SetInitialFrameConfig c =
     [SD_MAX_DISPARITY_RANGE (df_maxDisparityRange c),
      SD_DISPARITY_MAP_PRECISION
        (if df_disparityMapPrecision c = DISP_MAP_PRECISION_FRAC_6BIT then SD_FRAC_6BIT
         else if df_disparityMapPrecision c = DISP_MAP_PRECISION_FRAC_4BIT then SD_FRAC_4BIT else SD_INT),
      SD_REFINEMENT_LEVEL
        (if df_refinementLevel c = DFS_REFINEMENT_LEVEL_NONE then SD_REFINEMENT_NONE
         else if df_refinementLevel c = DFS_REFINEMENT_LEVEL_REFINED_L1 then SD_REFINED_L1
         else SD_REFINED_L2),
      SD_CHROMA_PROC_EN (df_chromaProcEN c),
      SD_NOISE_TOLERANCE_SCALE (df_noiseScalePri c) (df_noiseScaleAux c),
      SD_NOISE_TOLERANCE_OFFSET (df_noiseOffsetPri c) (df_noiseOffsetAux c),
      SD_DISPARITY_VARIANCE_TOLERANCE (df_disparityVarianceTolerance c),
      SD_OCCLUSION_TOLERANCE (df_occlusionTolerance c),
      SD_PENALTIES (df_initialPenalty c) (df_edgePenalty c) (df_smoothnessPenalty c) (df_neighborPenalty c),
      SD_MATCHING_COST_METRIC (df_matchingCostMetric c), SD_TEXTURE_METRIC (df_textureMetric c),
      SD_EDGE_ALIGN_METRIC (df_edgeAlignMetric c),
      SD_DISPARITY_VARIANCE_METRIC (df_disparityVarianceMetric c),
      SD_OCCLUSION_METRIC (df_occlusionMetric c), SD_SEGMENTATION_THRESHOLD (df_segmentationThreshold c),
      SD_IMAGE_SHARPNESS_THRESHOLD (df_imageSharpnessThreshold c),
      SD_DISPARITY_EDGE_THRESHOLD (df_disparityEdgeThreshold c),
      SD_REFINEMENT_THRESHOLD (df_refinementThreshold c), SD_TEXTURE_THRESHOLD (df_textureThreshold c),
      SD_MASK_LOW_TEXTURE_EN (df_maskLowTextureEn c),
      SD_RECTIFICATION_ERR_TOLERANCE (df_rectificationErrTolerance c),
      SD_SEARCH_DIRECTION (if df_searchDirection c = SEARCH_DIRECTION_L2R then SD_L2R else SD_R2L),
      SD_FAR_AWAY_DISPARITY_LIMIT (df_farAwayDisparityLimit c)]"

subsection \<open>Frames\<close>

text \<open>The buffer for the confidence is not initialised, \<open>None\<close>, when there is none.\<close>

record sd_job =
  sj_imageInfo :: ImageInfo
  sj_pri :: SvBuffer
  sj_aux :: SvBuffer
  sj_disparityMap :: SvBuffer
  sj_confMap :: "SvBuffer option"

type_synonym 'w sd_lib = "('w, sd_param, sd_job) sv_lib"

definition with_conf_map ::
  "'w sd_lib \<Rightarrow> bool \<Rightarrow> TensorDescriptor option \<Rightarrow> ('w, 'j) DepthFromStereo \<Rightarrow>
     (SvBuffer option \<Rightarrow> ('w, 'j) DepthFromStereo \<Rightarrow> (QCStatus_e \<times> ('w, 'j) DepthFromStereo) option) \<Rightarrow>
     (QCStatus_e \<times> ('w, 'j) DepthFromStereo) option" where
  "with_conf_map L wanted desc s f =
     (if \<not> wanted then f None s
      else
        (case desc of
           None \<Rightarrow> Some (QC_STATUS_FAIL, s)
         | Some d \<Rightarrow> with_buffer (eva_RegisterMemory L d s) (\<lambda>b. f (Some b))))"

definition DFS_ProcessFrameDescriptor ::
  "'w sd_lib \<Rightarrow> any_buffer option list \<Rightarrow> ('w, 'j) DepthFromStereo \<Rightarrow>
     (QCStatus_e \<times> ('w, 'j) DepthFromStereo) option" where
  "DFS_ProcessFrameDescriptor L fd s =
     (if en_state s \<noteq> QC_OBJECT_STATE_RUNNING then Some (QC_STATUS_BAD_STATE, s)
      else
        let c = en_config s; m = df_bufferMap c; info = en_imageInfo s
        in (case (frame_image fd (primaryImageBufferId m), frame_image fd (auxilaryImageBufferId m),
                  frame_tensor fd (disparityMapBufferId m)) of
              (Some priImg, Some auxImg, Some dispMap) \<Rightarrow>
                (case validate_two
                        (eva_ValidateImageDesc (df_imageFormat c) (df_width c) (df_height c) info)
                        priImg auxImg of
                   None \<Rightarrow> None
                 | Some ret \<Rightarrow>
                     if ret \<noteq> QC_STATUS_OK then Some (ret, s)
                     else
                       with_buffer (eva_RegisterMemory L priImg s) (\<lambda>priMem s.
                       with_buffer (eva_RegisterMemory L auxImg s) (\<lambda>auxMem s.
                       with_buffer (eva_RegisterMemory L dispMap s) (\<lambda>dispMem s.
                       with_conf_map L (df_confidenceOutputEn c)
                         (frame_tensor fd (disparityConfidenceMapBufferId m)) s (\<lambda>confMem s.
                         eva_submit L
                           \<lparr>sj_imageInfo = info, sj_pri = priMem, sj_aux = auxMem,
                            sj_disparityMap = dispMem, sj_confMap = confMem\<rparr> s)))))
            | _ \<Rightarrow> Some (QC_STATUS_FAIL, s)))"

subsection \<open>Life cycle\<close>

definition DFS_Initialize ::
  "('w, 'j, sd_param, sd_job) eva_env \<Rightarrow> string \<Rightarrow> ('w, 'j) DepthFromStereo \<Rightarrow>
     (QCStatus_e \<times> ('w, 'j) DepthFromStereo) option" where
  "DFS_Initialize env =
     eva_Initialize env (DFS_VerifyAndSet env) df_nodeId ''DEPTH_FROM_STEREO''
       (\<lambda>c. (df_imageFormat c, df_width c, df_height c)) DFS_UpdateIconfig"

definition DFS_Start :: "'w sd_lib \<Rightarrow> ('w, 'j) DepthFromStereo \<Rightarrow> (QCStatus_e \<times> ('w, 'j) DepthFromStereo) option" where
  "DFS_Start L = eva_Start L DFS_SetInitialFrameConfig"

definition DFS_Stop :: "'w sd_lib \<Rightarrow> ('w, 'j) DepthFromStereo \<Rightarrow> (QCStatus_e \<times> ('w, 'j) DepthFromStereo) option" where
  "DFS_Stop L = eva_Stop L"

definition DFS_DeInitialize ::
  "'w sd_lib \<Rightarrow> ('w, 'j) DepthFromStereo \<Rightarrow> (QCStatus_e \<times> ('w, 'j) DepthFromStereo) option" where
  "DFS_DeInitialize L = eva_DeInitialize L"

end
