(* ===== verification/QC_EvaProps.thy ===== *)
theory QC_EvaProps
  imports QC_OpticalFlow QC_DepthFromStereo
begin

text \<open>
  What holds of both nodes on the engine for visual analytics. The library is wrapped so that it keeps a
  history of what was registered with it and submitted to it. The locale \<open>eva_invariant\<close> says what a
  property of a node must survive for the operations of a session to keep it; its extensions for the two
  nodes show that their frames do, and are interpreted on the property that every registration is
  accounted for.
\<close>

subsection \<open>The history of the library\<close>

datatype 'i sv_event =
    Sv_Register u64 SvBuffer
  | Sv_Deregister u64 SvBuffer
  | Sv_Submit 'i
  | Sv_Engine_Destroy u64
  | Sv_Session_Destroy u64

definition lift_sv :: "('w \<Rightarrow> 'r \<times> 'w) \<Rightarrow> 'w \<times> 'h \<Rightarrow> 'r \<times> 'w \<times> 'h" where
  "lift_sv f wh = (case f (fst wh) of (r, w) \<Rightarrow> (r, w, snd wh))"

definition note_sv :: "('w \<Rightarrow> 'r \<times> 'w) \<Rightarrow> ('r \<Rightarrow> 'e list) \<Rightarrow> 'w \<times> 'e list \<Rightarrow> 'r \<times> 'w \<times> 'e list" where
  "note_sv f ev wh = (case f (fst wh) of (r, w) \<Rightarrow> (r, w, snd wh @ ev r))"

definition log_sv :: "('w, 'p, 'i) sv_lib \<Rightarrow> ('w \<times> 'i sv_event list, 'p, 'i) sv_lib" where
  "log_sv L =
     \<lparr>ImageInfoQuery = (\<lambda>f x y info. lift_sv (ImageInfoQuery L f x y info)),
      SessionConfig_Set = (\<lambda>p. lift_sv (SessionConfig_Set L p)),
      ConfigMap_Set = (\<lambda>p. lift_sv (ConfigMap_Set L p)), Session_Create = lift_sv (Session_Create L),
      Session_Start = (\<lambda>h. lift_sv (Session_Start L h)), Session_Stop = (\<lambda>h. lift_sv (Session_Stop L h)),
      Session_Destroy = (\<lambda>h. note_sv (Session_Destroy L h) (\<lambda>r. [Sv_Session_Destroy h])),
      Engine_Create = (\<lambda>h. lift_sv (Engine_Create L h)), 
      Engine_Destroy = (\<lambda>e. note_sv (Engine_Destroy L e) (\<lambda>r. [Sv_Engine_Destroy e])),
      SubmitSync = (\<lambda>e job. note_sv (SubmitSync L e job) (\<lambda>r. [Sv_Submit job])),
      BufferRegister = (\<lambda>h b. note_sv (BufferRegister L h b)
                                (\<lambda>(ok, b1). if ok then [Sv_Register h b1] else [])),
      BufferDeregister = (\<lambda>h b. note_sv (BufferDeregister L h b) (\<lambda>r. [Sv_Deregister h b])),
      uninit_SvBuffer = uninit_SvBuffer L\<rparr>"

lemma log_sv_calls [simp]:
  "ConfigMap_Set (log_sv L) p = lift_sv (ConfigMap_Set L p)"
  "Session_Start (log_sv L) h = lift_sv (Session_Start L h)"
  "Session_Stop (log_sv L) h = lift_sv (Session_Stop L h)"
  "Session_Destroy (log_sv L) h = note_sv (Session_Destroy L h) (\<lambda>r. [Sv_Session_Destroy h])"
  "Engine_Destroy (log_sv L) e = note_sv (Engine_Destroy L e) (\<lambda>r. [Sv_Engine_Destroy e])"
  "SubmitSync (log_sv L) e job = note_sv (SubmitSync L e job) (\<lambda>r. [Sv_Submit job])"
  "BufferRegister (log_sv L) h b =
     note_sv (BufferRegister L h b) (\<lambda>(ok, b1). if ok then [Sv_Register h b1] else [])"
  "BufferDeregister (log_sv L) h b = note_sv (BufferDeregister L h b) (\<lambda>r. [Sv_Deregister h b])"
  by (simp_all add: log_sv_def)

abbreviation history :: "('w \<times> 'i sv_event list, 'j, 'c) EvaNode \<Rightarrow> 'i sv_event list" where
  "history s \<equiv> snd (en_world s)"

fun registrations :: "'i sv_event list \<Rightarrow> SvBuffer list" where
  "registrations [] = []"
| "registrations (Sv_Register h b # evs) = b # registrations evs"
| "registrations (e # evs) = registrations evs"

lemma registrations_append [simp]: "registrations (xs @ ys) = registrations xs @ registrations ys"
  by (induction xs rule: registrations.induct) simp_all

text \<open>Every submitted job only has buffers registered before.\<close>

definition submits_registered :: "('i \<Rightarrow> SvBuffer set) \<Rightarrow> 'i sv_event list \<Rightarrow> bool" where
  "submits_registered bufs evs \<longleftrightarrow>
     (\<forall>k < length evs. case evs ! k of Sv_Submit job \<Rightarrow> bufs job \<subseteq> set (registrations (take k evs)) | _ \<Rightarrow> True)"

lemma submits_registered_Nil [simp]: "submits_registered bufs []"
  by (simp add: submits_registered_def)

lemma submits_registered_snoc:
  "submits_registered bufs (evs @ [e]) \<longleftrightarrow> submits_registered bufs evs \<and>
     (case e of Sv_Submit job \<Rightarrow> bufs job \<subseteq> set (registrations evs) | _ \<Rightarrow> True)"
proof -
  have eq: "(case (evs @ [e]) ! k of Sv_Submit job \<Rightarrow> bufs job \<subseteq> set (registrations (take k (evs @ [e]))) | _ \<Rightarrow> True) \<longleftrightarrow>
      (case evs ! k of Sv_Submit job \<Rightarrow> bufs job \<subseteq> set (registrations (take k evs)) | _ \<Rightarrow> True)"
    if "k < length evs" for k using that by (simp add: nth_append cong: sv_event.case_cong)
  then have "(\<forall>k < length evs. case (evs @ [e]) ! k of
        Sv_Submit job \<Rightarrow> bufs job \<subseteq> set (registrations (take k (evs @ [e]))) | _ \<Rightarrow> True) \<longleftrightarrow>
      submits_registered bufs evs" unfolding submits_registered_def by (intro all_cong) (rule eq)
  then show ?thesis unfolding submits_registered_def [of bufs "evs @ [e]"] length_append_singleton All_less_Suc
    by (auto cong: sv_event.case_cong)
qed

subsection \<open>The map of the buffers\<close>

lemma find_None_map_of: "map_of xs k = None \<Longrightarrow> std_find (<) fst (k :: 'k :: linorder) xs = None"
  by (auto simp: std_find_None_iff key_equiv_def map_of_eq_None_iff) (metis fst_conv image_eqI linorder_neqE)

lemma memMap_insert:
  fixes k :: "'k :: linorder"
  assumes "map_of xs k = None" and "distinct (map fst xs)"
  shows "distinct (map fst (std_insert (<) fst (k, b) xs))"
    and "mset (map snd (std_insert (<) fst (k, b) xs)) = add_mset b (mset (map snd xs))"
proof -
  have m: "mset (std_insert (<) fst (k, b) xs) = add_mset (k, b) (mset xs)"
    using find_None_map_of [OF assms(1)] by (simp add: mset_std_insert_fresh)
  then have "mset (map fst (std_insert (<) fst (k, b) xs)) = mset (k # map fst xs)" by simp
  moreover have "distinct (k # map fst xs)" using assms by (simp add: map_of_eq_None_iff)
  ultimately show "distinct (map fst (std_insert (<) fst (k, b) xs))"
    using mset_eq_imp_distinct_iff by blast
  show "mset (map snd (std_insert (<) fst (k, b) xs)) = add_mset b (mset (map snd xs))" using m by simp
qed

subsection \<open>Properties that sessions keep\<close>

locale eva_invariant =
  fixes L :: "('w, 'p, 'i) sv_lib"
    and bufs :: "'i \<Rightarrow> SvBuffer set"
    and P :: "('w, 'j, 'c) EvaNode \<Rightarrow> bool"
  assumes config: "P s \<Longrightarrow> P (snd (eva_call (ConfigMap_Set L p) s))"
    and session_start: "P s \<Longrightarrow> P (snd (eva_call (Session_Start L h) s))"
    and session_stop: "P s \<Longrightarrow> P (snd (eva_call (Session_Stop L h) s))"
    and state: "P s \<Longrightarrow> P (s\<lparr>en_state := st\<rparr>)"
    and register_fails: "P s \<Longrightarrow> eva_world (BufferRegister L (en_session s) b) s = ((False, b1), s1) \<Longrightarrow> P s1"
    and register_ok: "P s \<Longrightarrow> map_of (en_memMap s) k = None \<Longrightarrow>
      eva_world (BufferRegister L (en_session s) b) s = ((True, b1), s1) \<Longrightarrow>
      P (s1\<lparr>en_memMap := std_insert (<) fst (k, b1) (en_memMap s1)\<rparr>)"
    and submit: "P s \<Longrightarrow> bufs job \<subseteq> snd ` set (en_memMap s) \<Longrightarrow>
      P (snd (eva_call (SubmitSync L e job) s))"
begin

text \<open>The property, and buffers that are in the map.\<close>

definition PB :: "SvBuffer set \<Rightarrow> ('w, 'j, 'c) EvaNode \<Rightarrow> bool" where
  "PB B s \<longleftrightarrow> P s \<and> B \<subseteq> snd ` set (en_memMap s)"

abbreviation P_opt :: "(QCStatus_e \<times> ('w, 'j, 'c) EvaNode) option \<Rightarrow> bool" where
  "P_opt x \<equiv> pred_option (\<lambda>r. P (snd r)) x"

lemma register: "PB B s \<Longrightarrow> eva_RegisterMemory L d s = (r, s1) \<Longrightarrow>
    (case r of Inl e \<Rightarrow> PB B s1 \<and> e \<noteq> QC_STATUS_OK | Inr b \<Rightarrow> PB (insert b B) s1)"
proof -
  assume s: "PB B s" and run: "eva_RegisterMemory L d s = (r, s1)"
  let ?k = "BufferDescriptor_GetDataPtr d"
  let ?b = "\<lparr>sb_nSize = BufferDescriptor_GetDataSize d, sb_nOffset = offset d, sb_pAddress = pBuf d,
             sb_hHandle = dmaHandle d\<rparr>"
  obtain ok b1 s2 where w: "eva_world (BufferRegister L (en_session s) ?b) s = ((ok, b1), s2)"
    by (metis prod.exhaust)
  then have m: "en_memMap s2 = en_memMap s" by (auto simp: eva_world_def split: prod.splits)
  consider "pBuf d = nullptr" | b where "pBuf d \<noteq> nullptr" "map_of (en_memMap s) ?k = Some b"
    | "pBuf d \<noteq> nullptr" "map_of (en_memMap s) ?k = None" "\<not> ok"
    | "pBuf d \<noteq> nullptr" "map_of (en_memMap s) ?k = None" "ok" by (cases "map_of (en_memMap s) ?k") auto
  then show ?thesis
  proof cases
    case 1
    with s run show ?thesis by (auto simp: eva_RegisterMemory_def)
  next
    case (2 b)
    then have "b \<in> snd ` set (en_memMap s)" by (intro image_eqI [of _ _ "(?k, b)"]) (simp_all add: map_of_SomeD)
    moreover have "r = Inr b" "s1 = s" using run 2 by (simp_all add: eva_RegisterMemory_def)
    ultimately show ?thesis using s by (simp add: PB_def)
  next
    case 3
    with s run w m show ?thesis
      by (auto simp: eva_RegisterMemory_def PB_def dest: register_fails)
  next
    case 4
    from find_None_map_of [OF 4(2)] have "set (std_insert (<) fst (?k, b1) (en_memMap s)) = insert (?k, b1) (set (en_memMap s))"
      using set_std_insert_fresh [of "(<)" fst "(?k, b1)"] by simp
    moreover have "P (s2\<lparr>en_memMap := std_insert (<) fst (?k, b1) (en_memMap s2)\<rparr>)"
      using register_ok [OF _ 4(2)] w 4(3) s by (simp add: PB_def)
    ultimately show ?thesis using s run w m 4 by (auto simp: eva_RegisterMemory_def PB_def)
  qed
qed

lemma with_buffer:
  "PB B s \<Longrightarrow> (\<And>b s1. PB (insert b B) s1 \<Longrightarrow> P_opt (f b s1)) \<Longrightarrow>
   P_opt (with_buffer (eva_RegisterMemory L d s) f)"
  using register [of B s d]
  by (cases "eva_RegisterMemory L d s") (auto simp: with_buffer_def PB_def split: sum.splits)

lemma submit_job: "PB B s \<Longrightarrow> bufs job \<subseteq> B \<Longrightarrow> P_opt (eva_submit L job s)"
  using submit [of s job "en_engine s"] by (auto simp: eva_submit_def PB_def)

lemma set_config: "P s \<Longrightarrow> P (snd (set_config L ps s))"
proof (induction ps arbitrary: s)
  case (Cons p ps)
  obtain ret s1 where c: "eva_call (ConfigMap_Set L p) s = (ret, s1)" by fastforce
  with config [OF Cons.prems, of p] Cons.IH [of s1] show ?case by (simp add: if_ok_def)
qed simp

lemma Start: "P s \<Longrightarrow> P_opt (eva_Start L ps s)"
proof -
  assume s: "P s"
  obtain ret s1 where c: "eva_call (Session_Start L (en_session s)) s = (ret, s1)" by fastforce
  with session_start [OF s] have s1: "P s1" by (metis snd_conv)
  obtain ret2 s2 where d: "set_config L (ps (en_config s1)) s1 = (ret2, s2)" by fastforce
  with set_config [OF s1] have "P s2" by (metis snd_conv)
  with s s1 show ?thesis by (simp add: eva_Start_def c d if_ok_def state)
qed

lemma Stop: "P s \<Longrightarrow> P_opt (eva_Stop L s)"
proof -
  assume s: "P s"
  obtain ret s1 where c: "eva_call (Session_Stop L (en_session s)) s = (ret, s1)" by fastforce
  with session_stop [OF s] have "P s1" by (metis snd_conv)
  with s show ?thesis by (simp add: eva_Stop_def c if_ok_def state)
qed

end

subsection \<open>Frames of the nodes\<close>

definition lme_buffers :: "lme_job \<Rightarrow> SvBuffer set" where
  "lme_buffers j = {lj_src j, lj_dst j} \<union> set_option (lj_fwdMotionMap j) \<union> set_option (lj_fwdConfMap j) \<union>
     set_option (lj_bwdMotionMap j) \<union> set_option (lj_bwdConfMap j)"

definition sd_buffers :: "sd_job \<Rightarrow> SvBuffer set" where
  "sd_buffers j = {sj_pri j, sj_aux j, sj_disparityMap j} \<union> set_option (sj_confMap j)"

locale ofl_invariant = eva_invariant L lme_buffers P
  for L :: "'w lme_lib" and P :: "('w, 'j) OpticalFlow \<Rightarrow> bool"
begin

lemma with_motion_map:
  "PB B s \<Longrightarrow> (\<And>b s1. PB (set_option b \<union> B) s1 \<Longrightarrow> P_opt (f b s1)) \<Longrightarrow>
   P_opt (with_motion_map L wanted d s f)"
proof -
  assume s: "PB B s" and f: "\<And>b s1. PB (set_option b \<union> B) s1 \<Longrightarrow> P_opt (f b s1)"
  have none: "P_opt (f None s)" using f [of None s] s by simp
  have "P_opt (f (Some b) s1)" if "PB (insert b B) s1" for b s1 using f [of "Some b" s1] that by simp
  then show ?thesis using none with_buffer [OF s, of "\<lambda>b. f (Some b)"]
    by (auto simp: with_motion_map_def split: option.split)
qed

lemma conf_map:
  assumes s: "PB B s" and run: "conf_map L wanted d (ret, s) = ((r, s1), b)"
  shows "PB (set_option b \<union> B) s1"
proof (cases "wanted \<and> d \<noteq> None")
  case True
  then obtain d1 where d: "d = Some d1" by auto
  obtain x s2 where x: "eva_RegisterMemory L d1 s = (x, s2)" by fastforce
  with register [OF s this] True d run show ?thesis by (cases x) (auto simp: conf_map_def)
next
  case False
  with s run show ?thesis by (auto simp: conf_map_def split: if_splits)
qed

lemma conf_maps:
  assumes s: "PB B s" and run: "conf_maps L c fd s = ((r, s1), fwd, bwd)"
  shows "PB (set_option fwd \<union> set_option bwd \<union> B) s1"
proof (cases "of_confidenceOutputEn c")
  case True
  obtain r1 t1 b1 where 1: "conf_map L (is_forward (of_motionDirection c))
      (frame_tensor fd (fwdConfBufferId (of_bufferMap c))) (QC_STATUS_OK, s) = ((r1, t1), b1)"
    by (metis prod.exhaust)
  obtain r2 t2 b2 where 2: "conf_map L (is_backward (of_motionDirection c))
      (frame_tensor fd (bwdConfBufferId (of_bufferMap c))) (r1, t1) = ((r2, t2), b2)"
    by (metis prod.exhaust)
  have "PB (set_option b2 \<union> (set_option b1 \<union> B)) t2" using conf_map [OF conf_map [OF s 1] 2] .
  moreover have "s1 = t2" "fwd = b1" "bwd = b2" using run True 1 2 by (simp_all add: conf_maps_def Let_def)
  ultimately show ?thesis by (simp add: Un_ac)
next
  case False
  with s run show ?thesis by (auto simp: conf_maps_def)
qed

lemma ProcessFrameDescriptor:
  assumes s: "P s"
  shows "P_opt (OFL_ProcessFrameDescriptor L fd s)"
proof -
  have s0: "PB {} s" using s by (simp add: PB_def)
  let ?c = "en_config s"
  let ?m = "of_bufferMap ?c"
  have last: "P_opt (case conf_maps L ?c fd s4 of ((ret, s5), fwdConf, bwdConf) \<Rightarrow>
      if ret \<noteq> QC_STATUS_OK then Some (ret, s5)
      else eva_submit L \<lparr>lj_imageInfo = en_imageInfo s, lj_src = b1, lj_dst = b2, lj_fwdMotionMap = m1,
             lj_fwdConfMap = fwdConf, lj_bwdMotionMap = m2, lj_bwdConfMap = bwdConf\<rparr> s5)"
    if 4: "PB (set_option m2 \<union> (set_option m1 \<union> {b2, b1})) s4" for b1 b2 m1 m2 s4
  proof -
    obtain ret s5 fwdConf bwdConf where run: "conf_maps L ?c fd s4 = ((ret, s5), fwdConf, bwdConf)"
      by (metis prod.exhaust)
    note 5 = conf_maps [OF 4 run]
    show ?thesis
    proof (cases "ret = QC_STATUS_OK")
      case True
      show ?thesis unfolding run using True
        by simp (rule submit_job [OF 5], auto simp: lme_buffers_def)
    next
      case False
      with 5 run show ?thesis by (simp add: PB_def)
    qed
  qed
  have registers: "P_opt (with_buffer (eva_RegisterMemory L refImg s) (\<lambda>b1 s.
      with_buffer (eva_RegisterMemory L curImg s) (\<lambda>b2 s.
      with_motion_map L w1 d1 s (\<lambda>m1 s. with_motion_map L w2 d2 s (\<lambda>m2 s4. g b1 b2 m1 m2 s4)))))"
    if g: "\<And>b1 b2 m1 m2 s4. PB (set_option m2 \<union> (set_option m1 \<union> {b2, b1})) s4 \<Longrightarrow> P_opt (g b1 b2 m1 m2 s4)"
    for refImg curImg w1 w2 d1 d2 g
    by (rule with_buffer [OF s0], rule with_buffer, assumption, rule with_motion_map, assumption,
        rule with_motion_map, assumption, rule g, simp)
  show ?thesis unfolding OFL_ProcessFrameDescriptor_def Let_def
    using s by (auto split: option.split intro!: registers last)
qed

end

locale dfs_invariant = eva_invariant L sd_buffers P
  for L :: "'w sd_lib" and P :: "('w, 'j) DepthFromStereo \<Rightarrow> bool"
begin

lemma with_conf_map:
  "PB B s \<Longrightarrow> (\<And>b s1. PB (set_option b \<union> B) s1 \<Longrightarrow> P_opt (f b s1)) \<Longrightarrow>
   P_opt (with_conf_map L wanted d s f)"
proof -
  assume s: "PB B s" and f: "\<And>b s1. PB (set_option b \<union> B) s1 \<Longrightarrow> P_opt (f b s1)"
  have none: "P_opt (f None s)" using f [of None s] s by simp
  have "P_opt (f (Some b) s1)" if "PB (insert b B) s1" for b s1 using f [of "Some b" s1] that by simp
  then show ?thesis using s none with_buffer [OF s, of "\<lambda>b. f (Some b)"]
    by (auto simp: with_conf_map_def PB_def split: option.split)
qed

lemma ProcessFrameDescriptor:
  assumes s: "P s"
  shows "P_opt (DFS_ProcessFrameDescriptor L fd s)"
proof -
  have s0: "PB {} s" using s by (simp add: PB_def)
  have registers: "P_opt (with_buffer (eva_RegisterMemory L priImg s) (\<lambda>b1 s.
      with_buffer (eva_RegisterMemory L auxImg s) (\<lambda>b2 s.
      with_buffer (eva_RegisterMemory L dispMap s) (\<lambda>b3 s.
      with_conf_map L wanted d s (\<lambda>b4 s4. eva_submit L
        \<lparr>sj_imageInfo = info, sj_pri = b1, sj_aux = b2, sj_disparityMap = b3, sj_confMap = b4\<rparr> s4)))))"
    for priImg auxImg dispMap wanted d info
    by (rule with_buffer [OF s0], rule with_buffer, assumption, rule with_buffer, assumption,
        rule with_conf_map, assumption, rule submit_job, assumption) (auto simp: sd_buffers_def)
  show ?thesis unfolding DFS_ProcessFrameDescriptor_def Let_def
    using s by (auto split: option.split intro!: registers)
qed

end

subsection \<open>Every registration is accounted for\<close>

definition open_session :: "u64 \<Rightarrow> 'i sv_event list \<Rightarrow> bool" where
  "open_session h evs \<longleftrightarrow>
     (\<forall>e \<in> set evs. case e of Sv_Register h1 b \<Rightarrow> h1 = h | Sv_Submit job \<Rightarrow> True | _ \<Rightarrow> False)"

definition accounted :: "('i \<Rightarrow> SvBuffer set) \<Rightarrow> u64 \<Rightarrow> ('w \<times> 'i sv_event list, 'j, 'c) EvaNode \<Rightarrow> bool" where
  "accounted bufs h s \<longleftrightarrow>
     en_session s = h \<and> open_session h (history s) \<and> submits_registered bufs (history s) \<and>
     distinct (map fst (en_memMap s)) \<and> mset (registrations (history s)) = mset (map snd (en_memMap s))"

lemma accounted_history:
  "history s' = history s \<Longrightarrow> en_session s' = en_session s \<Longrightarrow> en_memMap s' = en_memMap s \<Longrightarrow>
   accounted bufs h s \<Longrightarrow> accounted bufs h s'"
  by (simp add: accounted_def)

lemma log_lift:
  "history (snd (eva_call (lift_sv f) s)) = history s"
  "en_session (snd (eva_call (lift_sv f) s)) = en_session s"
  "en_memMap (snd (eva_call (lift_sv f) s)) = en_memMap s"
  by (simp_all add: eva_call_def eva_world_def lift_sv_def split: prod.splits)

lemma accounted_invariant:
  fixes L :: "('w, 'p, 'i) sv_lib"
  shows "eva_invariant (log_sv L) bufs (accounted bufs h :: ('w \<times> 'i sv_event list, 'j, 'c) EvaNode \<Rightarrow> bool)"
proof unfold_locales
  fix s :: "('w \<times> 'i sv_event list, 'j, 'c) EvaNode" and p h' st b b1 s1 job e k
  assume s: "accounted bufs h s"
  show "accounted bufs h (snd (eva_call (ConfigMap_Set (log_sv L) p) s))"
    "accounted bufs h (snd (eva_call (Session_Start (log_sv L) h') s))"
    "accounted bufs h (snd (eva_call (Session_Stop (log_sv L) h') s))"
    using s by (auto simp: log_lift elim!: accounted_history [rotated 3])
  show "accounted bufs h (s\<lparr>en_state := st\<rparr>)" using s by (simp add: accounted_def)
  show "accounted bufs h s1"
    if "eva_world (BufferRegister (log_sv L) (en_session s) b) s = ((False, b1), s1)"
    using that s by (auto simp: eva_world_def note_sv_def accounted_def split: prod.splits)
  show "accounted bufs h (s1\<lparr>en_memMap := std_insert (<) fst (k, b1) (en_memMap s1)\<rparr>)"
    if "map_of (en_memMap s) k = None"
      "eva_world (BufferRegister (log_sv L) (en_session s) b) s = ((True, b1), s1)"
    using that s memMap_insert [of "en_memMap s" k b1]
    by (auto simp: eva_world_def note_sv_def accounted_def open_session_def
        submits_registered_snoc split: prod.splits)
  show "accounted bufs h (snd (eva_call (SubmitSync (log_sv L) e job) s))"
    if "bufs job \<subseteq> snd ` set (en_memMap s)"
  proof -
    have "set (registrations (history s)) = snd ` set (en_memMap s)"
      using s by (metis accounted_def list.set_map mset_eq_setD)
    with that s show ?thesis
      by (auto simp: eva_call_def eva_world_def note_sv_def accounted_def open_session_def
          submits_registered_snoc split: prod.splits)
  qed
qed

end
