(* ===== verification/QC_EvaRun.thy ===== *)
theory QC_EvaRun
  imports QC_EvaProps
begin

text \<open>
  Sessions of the two nodes on the engine for visual analytics: over any library and any sequence of
  operations the registrations are accounted for, and de-initialising takes each of them back once. The
  locales are interpreted here, on the accounting of \<open>QC_EvaProps\<close> for any library and session.
\<close>

interpretation ofl_account: ofl_invariant "log_sv L" "accounted lme_buffers h" for L h
  by (intro ofl_invariant.intro accounted_invariant)

interpretation dfs_account: dfs_invariant "log_sv L" "accounted sd_buffers h" for L h
  by (intro dfs_invariant.intro accounted_invariant)

subsection \<open>Sessions\<close>

datatype eva_op = Op_Start | Op_Stop | Op_Process "any_buffer option list"

fun eva_run :: "(eva_op \<Rightarrow> 's \<Rightarrow> (QCStatus_e \<times> 's) option) \<Rightarrow> eva_op list \<Rightarrow> 's \<Rightarrow> 's option" where
  "eva_run step [] s = Some s"
| "eva_run step (a # as) s = (case step a s of None \<Rightarrow> None | Some (ret, s1) \<Rightarrow> eva_run step as s1)"

fun ofl_op :: "'w lme_lib \<Rightarrow> eva_op \<Rightarrow> ('w, 'j) OpticalFlow \<Rightarrow> (QCStatus_e \<times> ('w, 'j) OpticalFlow) option" where
  "ofl_op L Op_Start s = OFL_Start L s"
| "ofl_op L Op_Stop s = OFL_Stop L s"
| "ofl_op L (Op_Process fd) s = OFL_ProcessFrameDescriptor L fd s"

fun dfs_op ::
  "'w sd_lib \<Rightarrow> eva_op \<Rightarrow> ('w, 'j) DepthFromStereo \<Rightarrow> (QCStatus_e \<times> ('w, 'j) DepthFromStereo) option" where
  "dfs_op L Op_Start s = DFS_Start L s"
| "dfs_op L Op_Stop s = DFS_Stop L s"
| "dfs_op L (Op_Process fd) s = DFS_ProcessFrameDescriptor L fd s"

lemma eva_run_invariant:
  assumes step: "\<And>a s. P s \<Longrightarrow> pred_option (\<lambda>r. P (snd r)) (step a s)"
  shows "P s \<Longrightarrow> eva_run step as s = Some s1 \<Longrightarrow> P s1"
proof (induction as arbitrary: s)
  case (Cons a as)
  from Cons.prems step [of s a] show ?case by (auto split: option.splits intro: Cons.IH)
qed simp

lemma accounted_init: "history s = [] \<Longrightarrow> en_memMap s = [] \<Longrightarrow> accounted bufs (en_session s) s"
  by (simp add: accounted_def open_session_def)

lemma ofl_accounted:
  assumes "accounted lme_buffers h s" "eva_run (ofl_op (log_sv L)) as s = Some s1"
  shows "accounted lme_buffers h s1"
proof (rule eva_run_invariant [where P = "accounted lme_buffers h", OF _ assms])
  fix a :: eva_op and s :: "('a \<times> lme_job sv_event list, 'b) OpticalFlow"
  assume "accounted lme_buffers h s"
  then show "pred_option (\<lambda>r. accounted lme_buffers h (snd r)) (ofl_op (log_sv L) a s)"
    by (cases a) (simp_all add: OFL_Start_def OFL_Stop_def ofl_account.Start ofl_account.Stop
        ofl_account.ProcessFrameDescriptor)
qed

lemma dfs_accounted:
  assumes "accounted sd_buffers h s" "eva_run (dfs_op (log_sv L)) as s = Some s1"
  shows "accounted sd_buffers h s1"
proof (rule eva_run_invariant [where P = "accounted sd_buffers h", OF _ assms])
  fix a :: eva_op and s :: "('a \<times> sd_job sv_event list, 'b) DepthFromStereo"
  assume "accounted sd_buffers h s"
  then show "pred_option (\<lambda>r. accounted sd_buffers h (snd r)) (dfs_op (log_sv L) a s)"
    by (cases a) (simp_all add: DFS_Start_def DFS_Stop_def dfs_account.Start dfs_account.Stop
        dfs_account.ProcessFrameDescriptor)
qed

subsection \<open>De-initialisation\<close>

text \<open>What the end of a session adds to the history.\<close>

definition taken_back :: "('w \<times> 'i sv_event list, 'j, 'c) EvaNode \<Rightarrow> 'i sv_event list" where
  "taken_back s = Sv_Engine_Destroy (en_engine s) #
     map (\<lambda>m. Sv_Deregister (en_session s) (snd m)) (en_memMap s) @ [Sv_Session_Destroy (en_session s)]"

lemma log_note:
  "history (snd (eva_call (note_sv f ev) s)) = history s @ ev (fst (f (fst (en_world s))))"
  "en_session (snd (eva_call (note_sv f ev) s)) = en_session s"
  "en_memMap (snd (eva_call (note_sv f ev) s)) = en_memMap s"
  "en_state (snd (eva_call (note_sv f ev) s)) = en_state s"
  "en_engine (snd (eva_call (note_sv f ev) s)) = en_engine s"
  by (simp_all add: eva_call_def eva_world_def note_sv_def split: prod.splits)

lemma snd_note_failure [simp]: "snd (note_failure ret r) = snd r"
  by (simp add: note_failure_def)

lemma deregister_all_session:
  "en_session (snd (deregister_all L m r)) = en_session (snd r) \<and>
   en_state (snd (deregister_all L m r)) = en_state (snd r)"
  by (induction L m r rule: deregister_all.induct)
    (simp_all add: eva_call_def eva_world_def split: prod.splits)

lemma deregister_all_history:
  "history (snd (deregister_all (log_sv L) m r)) =
     history (snd r) @ map (\<lambda>m. Sv_Deregister (en_session (snd r)) (snd m)) m"
proof (induction m arbitrary: r)
  case (Cons x m)
  then show ?case by (cases x) (simp add: log_note)
qed simp

lemma DeInitialize_history:
  assumes "en_state s = QC_OBJECT_STATE_READY" "en_engine s \<noteq> nullptr" "en_session s \<noteq> nullptr"
  shows "\<exists>ret s1. eva_DeInitialize (log_sv L) s = Some (ret, s1) \<and>
    history s1 = history s @ taken_back s \<and> en_memMap s1 = []"
proof -
  obtain ret s1 where d: "deregister_all (log_sv L) (en_memMap s)
      (eva_call (Engine_Destroy (log_sv L) (en_engine s)) s) = (ret, s1)" by fastforce
  then have "history s1 = history s @ Sv_Engine_Destroy (en_engine s) #
      map (\<lambda>m. Sv_Deregister (en_session s) (snd m)) (en_memMap s)" "en_session s1 = en_session s"
    using deregister_all_history [of L "en_memMap s" "eva_call (Engine_Destroy (log_sv L) (en_engine s)) s"]
      deregister_all_session [of "log_sv L" "en_memMap s" "eva_call (Engine_Destroy (log_sv L) (en_engine s)) s"]
    by (simp_all add: log_note)
  with assms d show ?thesis
    by (simp add: eva_DeInitialize_def taken_back_def case_prod_unfold Let_def log_note)
qed

subsection \<open>A library to evaluate the nodes on\<close>

definition demo_sv :: "(nat, 'p, 'i) sv_lib" where
  "demo_sv =
     \<lparr>ImageInfoQuery = (\<lambda>f x y info w. ((True, \<lparr>nPlanes = 2, nWidthStride = [128, 128, 0, 0],
                                                nAlignedSize = [16384, 8192, 0, 0]\<rparr>), w)),
      SessionConfig_Set = (\<lambda>p w. (True, w)), ConfigMap_Set = (\<lambda>p w. (True, w)),
      Session_Create = (\<lambda>w. (4096, w)), Session_Start = (\<lambda>h w. (True, w)),
      Session_Stop = (\<lambda>h w. (True, w)), Session_Destroy = (\<lambda>h w. (True, w)),
      Engine_Create = (\<lambda>h w. (8192, w)), Engine_Destroy = (\<lambda>e w. (True, w)),
      SubmitSync = (\<lambda>e job w. (True, Suc w)), BufferRegister = (\<lambda>h b w. ((True, b), w)),
      BufferDeregister = (\<lambda>h b w. (True, w)),
      uninit_SvBuffer = \<lparr>sb_nSize = 0, sb_nOffset = 0, sb_pAddress = 0, sb_hHandle = 0\<rparr>\<rparr>"

text \<open>A node over the observed library with a session and an engine.\<close>

definition demo_eva :: "QCObjectState_e \<Rightarrow> 'c \<Rightarrow> (nat \<times> 'i sv_event list, unit, 'c) EvaNode" where
  "demo_eva st c =
     \<lparr>en_world = (0, []),
      en_node = \<lparr>m_nodeId = \<lparr>n_name = '''', n_type = 0, n_id = 0\<rparr>, m_logger = Logger_new 0 0 0\<rparr>,
      en_configIfs = \<lparr>m_bLoggerInit = False, m_dataTree = ()\<rparr>, en_config = c, en_state = st,
      en_imageInfo = \<lparr>nPlanes = 2, nWidthStride = [128, 128, 0, 0], nAlignedSize = [16384, 8192, 0, 0]\<rparr>,
      en_session = 4096, en_engine = 8192, en_memMap = []\<rparr>"

definition demo_ofl_config :: OpticalFlow_Config where
  "demo_ofl_config = (OpticalFlow_Config_new \<lparr>n_name = '''', n_type = 0, n_id = 0\<rparr>)
     \<lparr>of_width := 128, of_height := 128, of_motionDirection := MOTION_DIRECTION_BIDIRECTIONAL,
      of_confidenceOutputEn := True\<rparr>"

definition demo_dfs_config :: DepthFromStereo_Config where
  "demo_dfs_config = (DepthFromStereo_Config_new \<lparr>n_name = '''', n_type = 0, n_id = 0\<rparr>)
     \<lparr>df_width := 128, df_height := 128\<rparr>"

definition demo_image :: "u64 \<Rightarrow> any_buffer option" where
  "demo_image i = Some (A_Image (ImageDescriptor_init
     \<lparr>b_type := QC_BUFFER_TYPE_IMAGE, pBuf := 65536 * (i + 1), b_size := 24576, validSize := 24576,
      dmaHandle := 100 + i, i_format := QC_IMAGE_FORMAT_NV12, i_width := 128, i_height := 128,
      i_stride := [128, 128, 0, 0], i_planeBufSize := [16384, 8192, 0, 0], i_numPlanes := 2\<rparr>))"

definition demo_tensor :: "u64 \<Rightarrow> any_buffer option" where
  "demo_tensor i = Some (A_Tensor (BufferDescriptor.extend
     (BufferDescriptor_init\<lparr>b_type := QC_BUFFER_TYPE_TENSOR, pBuf := 65536 * (i + 1), b_size := 4096,
        validSize := 4096, dmaHandle := 100 + i\<rparr>)
     \<lparr>t_tensorType = QC_TENSOR_TYPE_UINT_8, t_dims = replicate QC_NUM_TENSOR_DIMS 0, t_numDims = 1\<rparr>))"

subsection \<open>Sessions keep account\<close>

text \<open>C16: In any session of an optical flow node, over any library, a frame is only submitted with buffers that are
  registered, the node knows all registrations, and de-initialising takes each of them back once, after the
  engine and before the session.\<close>

theorem ofl_buffers_accounted:
  assumes "history s0 = []" and "en_memMap s0 = []" and "eva_run (ofl_op (log_sv L)) as s0 = Some s"
  shows "submits_registered lme_buffers (history s) \<and> open_session (en_session s0) (history s) \<and>
    mset (registrations (history s)) = mset (map snd (en_memMap s)) \<and>
    (en_state s = QC_OBJECT_STATE_READY \<and> en_engine s \<noteq> nullptr \<and> en_session s0 \<noteq> nullptr \<longrightarrow>
      (\<exists>ret s'. OFL_DeInitialize (log_sv L) s = Some (ret, s') \<and>
         history s' = history s @ Sv_Engine_Destroy (en_engine s) #
           map (\<lambda>m. Sv_Deregister (en_session s0) (snd m)) (en_memMap s) @ [Sv_Session_Destroy (en_session s0)]))"
proof -
  have "accounted lme_buffers (en_session s0) s"
    using ofl_accounted [OF accounted_init assms(3)] assms(1, 2) by blast
  then show ?thesis using DeInitialize_history [of s L]
    by (auto simp: accounted_def OFL_DeInitialize_def taken_back_def)
qed

text \<open>The same for a depth from stereo node.\<close>

theorem dfs_buffers_accounted:
  assumes "history s0 = []" and "en_memMap s0 = []" and "eva_run (dfs_op (log_sv L)) as s0 = Some s"
  shows "submits_registered sd_buffers (history s) \<and> open_session (en_session s0) (history s) \<and>
    mset (registrations (history s)) = mset (map snd (en_memMap s)) \<and>
    (en_state s = QC_OBJECT_STATE_READY \<and> en_engine s \<noteq> nullptr \<and> en_session s0 \<noteq> nullptr \<longrightarrow>
      (\<exists>ret s'. DFS_DeInitialize (log_sv L) s = Some (ret, s') \<and>
         history s' = history s @ Sv_Engine_Destroy (en_engine s) #
           map (\<lambda>m. Sv_Deregister (en_session s0) (snd m)) (en_memMap s) @ [Sv_Session_Destroy (en_session s0)]))"
proof -
  have "accounted sd_buffers (en_session s0) s"
    using dfs_accounted [OF accounted_init assms(3)] assms(1, 2) by blast
  then show ?thesis using DeInitialize_history [of s L]
    by (auto simp: accounted_def DFS_DeInitialize_def taken_back_def)
qed

text \<open>A node that runs takes two frames and stops.\<close>

definition demo_ofl_run :: "(nat \<times> lme_job sv_event list, unit) OpticalFlow option" where
  "demo_ofl_run = eva_run (ofl_op (log_sv demo_sv))
     [Op_Process (map demo_image [0, 1] @ map demo_tensor [2, 3, 4, 5]),
      Op_Process (map demo_image [1, 0] @ map demo_tensor [2, 3, 4, 5]), Op_Stop]
     (demo_eva QC_OBJECT_STATE_RUNNING demo_ofl_config)"

definition demo_dfs_run :: "(nat \<times> sd_job sv_event list, unit) DepthFromStereo option" where
  "demo_dfs_run = eva_run (dfs_op (log_sv demo_sv))
     [Op_Process (map demo_image [0, 1] @ map demo_tensor [2, 3]),
      Op_Process (map demo_image [1, 0] @ map demo_tensor [2, 3]), Op_Stop]
     (demo_eva QC_OBJECT_STATE_RUNNING demo_dfs_config)"

lemma demo_ofl_run_ends:
  "case demo_ofl_run of None \<Rightarrow> False
   | Some s \<Rightarrow> length (history s) = 8 \<and> length (en_memMap s) = 6 \<and> en_state s = QC_OBJECT_STATE_READY \<and>
       en_engine s = 8192"
  by code_simp

lemma demo_dfs_run_ends:
  "case demo_dfs_run of None \<Rightarrow> False
   | Some s \<Rightarrow> length (history s) = 6 \<and> length (en_memMap s) = 4 \<and> en_state s = QC_OBJECT_STATE_READY \<and>
       en_engine s = 8192"
  by code_simp

theorem ofl_buffers_accounted_witness:
  "\<exists>s ret s'. demo_ofl_run = Some s \<and> length (history s) = 8 \<and>
     submits_registered lme_buffers (history s) \<and> mset (registrations (history s)) = mset (map snd (en_memMap s)) \<and>
     OFL_DeInitialize (log_sv demo_sv) s = Some (ret, s') \<and> length (history s') = 16"
proof -
  obtain s where s: "demo_ofl_run = Some s" "length (history s) = 8" "length (en_memMap s) = 6"
      "en_state s = QC_OBJECT_STATE_READY" "en_engine s = 8192"
    using demo_ofl_run_ends by (auto split: option.splits)
  have start: "history (demo_eva QC_OBJECT_STATE_RUNNING demo_ofl_config) = []"
      "en_memMap (demo_eva QC_OBJECT_STATE_RUNNING demo_ofl_config) = []"
      "en_session (demo_eva QC_OBJECT_STATE_RUNNING demo_ofl_config) = 4096" by (simp_all add: demo_eva_def)
  note ofl_buffers_accounted [OF start(1, 2) s(1) [unfolded demo_ofl_run_def], unfolded start(3)]
  with s show ?thesis by fastforce
qed

theorem dfs_buffers_accounted_witness:
  "\<exists>s ret s'. demo_dfs_run = Some s \<and> length (history s) = 6 \<and>
     submits_registered sd_buffers (history s) \<and> mset (registrations (history s)) = mset (map snd (en_memMap s)) \<and>
     DFS_DeInitialize (log_sv demo_sv) s = Some (ret, s') \<and> length (history s') = 12"
proof -
  obtain s where s: "demo_dfs_run = Some s" "length (history s) = 6" "length (en_memMap s) = 4"
      "en_state s = QC_OBJECT_STATE_READY" "en_engine s = 8192"
    using demo_dfs_run_ends by (auto split: option.splits)
  have start: "history (demo_eva QC_OBJECT_STATE_RUNNING demo_dfs_config) = []"
      "en_memMap (demo_eva QC_OBJECT_STATE_RUNNING demo_dfs_config) = []"
      "en_session (demo_eva QC_OBJECT_STATE_RUNNING demo_dfs_config) = 4096" by (simp_all add: demo_eva_def)
  note dfs_buffers_accounted [OF start(1, 2) s(1) [unfolded demo_dfs_run_def], unfolded start(3)]
  with s show ?thesis by fastforce
qed

end
