(* ===== verification/QC_EvaConfig.thy ===== *)
theory QC_EvaConfig
  imports QC_OpticalFlow QC_DepthFromStereo QC_DataTreeProps
begin

text \<open>
  What the configurations of the two nodes on the engine for visual analytics are checked for, and what
  is read without a check.
\<close>

text \<open>A value that differs from the default is there, so another default gives the same.\<close>

lemma DT_Get_default: "DT_Get J get dt key d \<noteq> d \<Longrightarrow> DT_Get J get dt key d' = DT_Get J get dt key d"
  by (auto simp: DT_Get_def split: option.splits)

definition ofl_config_ok :: "OpticalFlow_Config \<Rightarrow> bool" where
  "ofl_config_ok c \<longleftrightarrow>
     of_imageFormat c \<in> {QC_IMAGE_FORMAT_NV12, QC_IMAGE_FORMAT_NV12_UBWC} \<and>
     of_motionMapFormat c < MOTION_FORMAT_MAX \<and> of_width c \<noteq> 0 \<and> of_height c \<noteq> 0 \<and> of_frameRate c \<noteq> 0 \<and>
     of_motionMapUpscale c < MOTION_MAP_UPSCALE_MAX \<and> of_motionDirection c < MOTION_DIRECTION_MAX \<and>
     of_motionMapStepSize c < MOTION_MAP_STEP_SIZE_MAX \<and> of_refinementLevel c < OFL_REFINEMENT_LEVEL_MAX \<and>
     of_computationAccuracy c < COMPUTATION_ACCURACY_MAX \<and> of_lightingCondition c < LIGHTING_CONDITION_MAX \<and>
     list_all (\<lambda>m. m \<le> 100)
       [of_textureMetric c, of_edgeAlignMetric c, of_motionVarianceMetric c, of_occlusionMetric c] \<and>
     list_all (\<lambda>x. \<not> f32_outside f32_m1 f32_1 x)
       [of_noiseScaleSrc c, of_noiseScaleDst c, of_noiseOffsetSrc c, of_noiseOffsetDst c, of_initialPenalty c,
        of_edgePenalty c, of_smoothnessPenalty c, of_neighborPenalty c] \<and>
     list_all (\<lambda>x. \<not> f32_outside f32_0 f32_1 x)
       [of_motionVarianceTolerance c, of_occlusionTolerance c, of_segmentationThreshold c,
        of_imageSharpnessThreshold c, of_mvEdgeThreshold c, of_refinementThreshold c, of_textureThreshold c]"

lemma OFL_checks_ok:
  assumes "\<not> list_ex fst (OFL_checks env dt fmt)"
  shows "ofl_config_ok (OFL_read_config env dt fmt c)"
proof -
  have fps: "DT_Get (ee_json env) (ee_u32 env) dt ''fps'' 30 \<noteq> 0"
    using assms DT_Get_default [of "ee_json env" "ee_u32 env" dt "''fps''" 0 30]
    by (simp add: OFL_checks_def Let_def)
  with assms show ?thesis
    by (simp add: OFL_checks_def OFL_read_config_def ofl_config_ok_def Let_def not_le not_less)
qed

text \<open>C39: A configuration of the optical flow node is accepted only when every value is in the range that is
  documented for it, and a refused one leaves the configuration as it was and says why.\<close>

theorem ofl_config_accepted:
  "pred_option (\<lambda>((ret, errs), c').
       if ret = QC_STATUS_OK then ofl_config_ok c' \<and> errs = errors
       else ret = QC_STATUS_BAD_ARGUMENTS \<and> c' = c \<and> length errors < length errs)
     (OFL_ParseStaticConfig env dt errors c)"
proof (cases "DT_GetImageFormat (ee_json env) dt ''format'' QC_IMAGE_FORMAT_NV12")
  case None
  then show ?thesis by (simp add: OFL_ParseStaticConfig_def OFL_VerifyStaticConfig_def)
next
  case (Some fmt)
  let ?checks = "OFL_checks env dt fmt"
  have "m \<noteq> []" if "(b, m) \<in> set ?checks" for b m using that by (auto simp: OFL_checks_def Let_def)
  then have reasons: "concat (map snd (filter fst ?checks)) \<noteq> []" if "list_ex fst ?checks"
    using that by (fastforce simp: list_ex_iff)
  have none: "filter fst ?checks = []" if "\<not> list_ex fst ?checks"
    using that by (simp add: list_ex_iff filter_empty_conv)
  show ?thesis using Some reasons none OFL_checks_ok [of env dt fmt c]
    by (cases "list_ex fst ?checks") (simp_all add: OFL_ParseStaticConfig_def OFL_VerifyStaticConfig_def check_all_eq)
qed

subsection \<open>Depth from stereo\<close>

text \<open>The noise values are missing here.\<close>

definition dfs_config_ok :: "DepthFromStereo_Config \<Rightarrow> bool" where
  "dfs_config_ok c \<longleftrightarrow>
     df_imageFormat c \<in> {QC_IMAGE_FORMAT_NV12, QC_IMAGE_FORMAT_NV12_UBWC} \<and>
     df_disparityFormat c < DISP_FORMAT_MAX \<and> df_width c \<noteq> 0 \<and> df_height c \<noteq> 0 \<and> df_frameRate c \<noteq> 0 \<and>
     df_processingMode c < PROCESSING_MODE_MAX \<and> df_modelType c \<le> 4 \<and>
     df_disparityMapPrecision c < DISP_MAP_PRECISION_MAX \<and> df_refinementLevel c < DFS_REFINEMENT_LEVEL_MAX \<and>
     df_confidenceThreshold c \<le> 255 \<and> df_disparityThreshold c \<le> 255 \<and>
     df_searchDirection c < SEARCH_DIRECTION_MAX \<and> 16 \<le> df_maxDisparityRange c \<and> df_maxDisparityRange c \<le> 92 \<and>
     list_all (\<lambda>m. m \<le> 100)
       [df_matchingCostMetric c, df_textureMetric c, df_edgeAlignMetric c, df_disparityVarianceMetric c,
        df_occlusionMetric c] \<and>
     \<not> f32_outside f32_half f32_2 (df_prevDisparityFactor c) \<and>
     list_all (\<lambda>x. \<not> f32_outside f32_0 f32_1 x)
       [df_rectificationErrTolerance c, df_segmentationThreshold c, df_textureThreshold c, df_initialPenalty c,
        df_edgePenalty c, df_smoothnessPenalty c, df_neighborPenalty c, df_imageSharpnessThreshold c,
        df_farAwayDisparityLimit c, df_disparityEdgeThreshold c, df_disparityVarianceTolerance c,
        df_occlusionTolerance c, df_refinementThreshold c]"

lemma DFS_checks_ok:
  assumes "\<not> list_ex fst (DFS_checks env dt fmt)"
  shows "dfs_config_ok (DFS_read_config env dt fmt c)"
proof -
  let ?J = "ee_json env"
  have fps: "DT_Get ?J (ee_u32 env) dt ''fps'' 30 \<noteq> 0"
    using assms DT_Get_default [of ?J "ee_u32 env" dt "''fps''" 0 30] by (simp add: DFS_checks_def Let_def)
  let ?sharp = "DT_Get ?J (ee_f32 env) dt ''imageSharpnessThreshold''"
  have "\<not> f32_outside f32_0 f32_1 (?sharp f32_0)" using assms by (simp add: DFS_checks_def Let_def)
  moreover have "\<not> f32_outside f32_0 f32_1 0x3E947AE1"
    by (simp add: f32_outside_def f32_less_def f32_nan_def f32_key_def)
  ultimately have sharp: "\<not> f32_outside f32_0 f32_1 (?sharp 0x3E947AE1)"
    using DT_Get_default [of ?J "ee_f32 env" dt "''imageSharpnessThreshold''" "0x3E947AE1" f32_0] by metis
  from assms fps sharp show ?thesis
    by (simp add: DFS_checks_def DFS_read_config_def dfs_config_ok_def Let_def not_le not_less)
qed

text \<open>A key of one level.\<close>

definition flat_key :: "string \<Rightarrow> bool" where
  "flat_key key \<longleftrightarrow> key \<noteq> '''' \<and> CHR ''.'' \<notin> set key"

lemma find_key_flat:
  assumes "flat_key key"
  shows "find_key J dt key = (if j_contains J dt key then Some (j_at J dt key) else None)"
proof -
  from assms have "\<forall>c \<in> set key. c \<noteq> CHR ''.''" by (auto simp: flat_key_def)
  with assms have "getline key = Some (key, '''')"
    by (simp add: getline_def flat_key_def takeWhile_eq_all_conv [THEN iffD2] dropWhile_eq_Nil_conv [THEN iffD2])
  then show ?thesis by (simp add: find_key.simps [of J dt key])
qed

definition noise_keys :: "string set" where
  "noise_keys = {''noiseOffsetPrimary'', ''noiseOffsetAux'', ''noiseScalePrimary'', ''noiseScaleAux''}"

lemma DT_Get_agree: "find_key J dt' key = find_key J dt key \<Longrightarrow> DT_Get J get dt' key d = DT_Get J get dt key d"
  by (simp add: DT_Get_def)

lemma DFS_checks_agree:
  assumes "\<And>key. flat_key key \<Longrightarrow> key \<notin> noise_keys \<Longrightarrow> find_key (ee_json env) dt' key = find_key (ee_json env) dt key"
  shows "DFS_checks env dt' fmt = DFS_checks env dt fmt"
  unfolding DFS_checks_def Let_def
  by (simp add: DT_Get_agree [OF assms, of _ "ee_u8 env"] DT_Get_agree [OF assms, of _ "ee_u32 env"]
      DT_Get_agree [OF assms, of _ "ee_f32 env"] noise_keys_def flat_key_def)

text \<open>C40: An accepted configuration of the depth from stereo node is in its documented ranges except for the noise
  offsets and scales: they are read under other names than they are checked under, so that a configuration that
  differs from an accepted one in them only is accepted with any values.\<close>

theorem dfs_noise_unchecked:
  assumes "DFS_ParseStaticConfig env dt errors c = Some ((QC_STATUS_OK, errs), c')"
    and "\<And>key. flat_key key \<Longrightarrow> key \<notin> noise_keys \<Longrightarrow> find_key (ee_json env) dt' key = find_key (ee_json env) dt key"
  shows "dfs_config_ok c' \<and>
    (\<exists>c''. DFS_ParseStaticConfig env dt' errors c = Some ((QC_STATUS_OK, errs), c'') \<and>
       df_noiseOffsetPri c'' = DT_Get (ee_json env) (ee_f32 env) dt' ''noiseOffsetPrimary'' f32_0 \<and>
       df_noiseOffsetAux c'' = DT_Get (ee_json env) (ee_f32 env) dt' ''noiseOffsetAux'' f32_0 \<and>
       df_noiseScalePri c'' = DT_Get (ee_json env) (ee_f32 env) dt' ''noiseScalePrimary'' f32_0 \<and>
       df_noiseScaleAux c'' = DT_Get (ee_json env) (ee_f32 env) dt' ''noiseScaleAux'' f32_0)"
proof -
  obtain fmt where fmt: "DT_GetImageFormat (ee_json env) dt ''format'' QC_IMAGE_FORMAT_NV12 = Some fmt"
    using assms(1) by (auto simp: DFS_ParseStaticConfig_def DFS_VerifyStaticConfig_def split: option.splits)
  moreover have "DT_GetImageFormat (ee_json env) dt' ''format'' QC_IMAGE_FORMAT_NV12 =
      DT_GetImageFormat (ee_json env) dt ''format'' QC_IMAGE_FORMAT_NV12"
    using assms(2) [of "''format''"] by (simp add: DT_GetImageFormat_def noise_keys_def flat_key_def)
  ultimately show ?thesis
    using assms(1) DFS_checks_ok [of env dt fmt c] DFS_checks_agree [OF assms(2), of fmt]
    by (auto simp: DFS_ParseStaticConfig_def DFS_VerifyStaticConfig_def check_all_eq DFS_read_config_def Let_def
        split: if_splits)
qed

text \<open>A library in which all keys but the format are there, with values the conversions give by their type; the
  configuration \<open>True\<close> has an offset of 2.\<close>

definition noise_json :: "bool json_lib" where
  "noise_json =
     \<lparr>j_null = False, j_contains = (\<lambda>js t. t \<noteq> ''format''), j_at = (\<lambda>js t. js \<and> t = ''noiseOffsetPrimary''),
      j_put = (\<lambda>js t v. None), j_is_array = (\<lambda>js. False), j_elems = (\<lambda>js. []), j_array = (\<lambda>js. False),
      j_string = (\<lambda>s. False), j_get_string = (\<lambda>js. None), j_parse = (\<lambda>s. Inr True), j_dump = (\<lambda>js. '''')\<rparr>"

definition noise_env :: "'w log_backend \<Rightarrow> Logger_static \<Rightarrow> ('w, 'p, 'i) sv_lib \<Rightarrow> ('w, bool, 'p, 'i) eva_env" where
  "noise_env B st L =
     \<lparr>ee_sv = L, ee_json = noise_json, ee_string = (\<lambda>js. None), ee_u8 = (\<lambda>js. None),
      ee_u32 = (\<lambda>js. Some 64), ee_u64 = (\<lambda>js. None), ee_bool = (\<lambda>js. None),
      ee_f32 = (\<lambda>js. Some (if js then f32_2 else f32_half)), ee_log = B, ee_loggers = st\<rparr>"

lemma noise_accepted:
  "\<exists>c'. DFS_ParseStaticConfig (noise_env B st L) False '''' c = Some ((QC_STATUS_OK, ''''), c')"
proof -
  have "\<not> list_ex fst (DFS_checks (noise_env B st L) False QC_IMAGE_FORMAT_NV12)"
    by (simp add: DFS_checks_def Let_def DT_Get_def find_key_flat flat_key_def noise_env_def noise_json_def
        f32_outside_def f32_less_def f32_nan_def f32_key_def word_le_nat_alt)
  moreover have "DT_GetImageFormat noise_json False ''format'' QC_IMAGE_FORMAT_NV12 = Some QC_IMAGE_FORMAT_NV12"
    by (simp add: DT_GetImageFormat_def find_key_flat flat_key_def noise_json_def)
  moreover have "ee_json (noise_env B st L) = noise_json" by (simp add: noise_env_def)
  ultimately show ?thesis
    by (simp add: DFS_ParseStaticConfig_def DFS_VerifyStaticConfig_def check_all_eq list_ex_iff filter_empty_conv)
qed

theorem dfs_noise_unchecked_witness:
  "\<forall>B st L. \<exists>c'. DFS_ParseStaticConfig (noise_env B st L) True ''''
     (DepthFromStereo_Config_new \<lparr>n_name = '''', n_type = 0, n_id = 0\<rparr>) = Some ((QC_STATUS_OK, ''''), c') \<and>
     f32_less f32_1 (df_noiseOffsetPri c')"
proof (intro allI)
  fix B :: "'w log_backend" and st and L :: "('w, 'p, 'i) sv_lib"
  let ?env = "noise_env B st L"
  obtain c1 where accepted: "DFS_ParseStaticConfig ?env False ''''
      (DepthFromStereo_Config_new \<lparr>n_name = '''', n_type = 0, n_id = 0\<rparr>) = Some ((QC_STATUS_OK, ''''), c1)"
    using noise_accepted by blast
  have agree: "find_key (ee_json ?env) True key = find_key (ee_json ?env) False key"
    if "flat_key key" "key \<notin> noise_keys" for key
    using that by (simp add: find_key_flat noise_env_def noise_json_def noise_keys_def)
  from dfs_noise_unchecked [OF accepted agree] have "\<exists>c'. DFS_ParseStaticConfig ?env True ''''
      (DepthFromStereo_Config_new \<lparr>n_name = '''', n_type = 0, n_id = 0\<rparr>) = Some ((QC_STATUS_OK, ''''), c') \<and>
      df_noiseOffsetPri c' = DT_Get (ee_json ?env) (ee_f32 ?env) True ''noiseOffsetPrimary'' f32_0"
    by blast
  then show "\<exists>c'. DFS_ParseStaticConfig ?env True ''''
      (DepthFromStereo_Config_new \<lparr>n_name = '''', n_type = 0, n_id = 0\<rparr>) = Some ((QC_STATUS_OK, ''''), c') \<and>
      f32_less f32_1 (df_noiseOffsetPri c')"
    by (auto simp: DT_Get_def find_key_flat flat_key_def noise_env_def noise_json_def f32_less_def f32_nan_def
        f32_key_def)
qed

end
