(* ===== verification/QC_EvaLife.thy ===== *)
theory QC_EvaLife
  imports QC_EvaRun QC_EvaConfig QC_VidcDemo
begin

text \<open>
  How the two nodes on the engine for visual analytics start and end, and what becomes of a frame whose
  confidence maps are incomplete.
\<close>

subsection \<open>Initialization\<close>

text \<open>What the objects of a node are, next to those of another.\<close>

definition same_objects :: "('w, 'j, 'c) EvaNode \<Rightarrow> ('w, 'j, 'c) EvaNode \<Rightarrow> bool" where
  "same_objects s s' \<longleftrightarrow>
     en_state s' = en_state s \<and> en_session s' = en_session s \<and> en_engine s' = en_engine s"

lemma same_objects_refl [simp]: "same_objects s s"
  by (simp add: same_objects_def)

lemma same_objects_world: "eva_world f s = (r, s1) \<Longrightarrow> same_objects s s1"
  by (auto simp: eva_world_def same_objects_def split: prod.splits)

lemma same_objects_set_config: "same_objects s (snd (set_config L ps s))"
proof (induction ps arbitrary: s)
  case (Cons p ps)
  obtain ret s1 where c: "eva_call (ConfigMap_Set L p) s = (ret, s1)" by fastforce
  then have "same_objects s s1" by (auto simp: eva_call_def eva_world_def same_objects_def split: prod.splits)
  with Cons [of s1] c show ?case by (simp add: if_ok_def same_objects_def)
qed simp

lemma same_objects_VerifyAndSet: "eva_VerifyAndSet env parse config s = Some (r, s1) \<Longrightarrow> same_objects s s1"
  by (auto simp: eva_VerifyAndSet_def same_objects_def Let_def split: prod.splits if_splits)

lemma same_objects_base_init: "same_objects s (snd (eva_base_init env nodeId s))"
  by (simp add: eva_base_init_def same_objects_def case_prod_unfold Let_def)

lemma same_objects_query_image: "same_objects s (snd (query_image L n img s))"
  by (simp add: query_image_def eva_world_def same_objects_def case_prod_unfold Let_def)

text \<open>An initialization that succeeds has made everything. One that fails before the engine is asked for
  leaves the state of the node as it was; when the engine cannot be created, the node is left in the state
  \<^verbatim>\<open>READY\<close> with no session.\<close>

definition initialized :: "('w, 'j, 'c) EvaNode \<Rightarrow> bool" where
  "initialized s \<longleftrightarrow> en_state s = QC_OBJECT_STATE_READY \<and> en_session s \<noteq> nullptr \<and> en_engine s \<noteq> nullptr"

definition stranded :: "('w, 'j, 'c) EvaNode \<Rightarrow> bool" where
  "stranded s \<longleftrightarrow> en_state s = QC_OBJECT_STATE_READY \<and> en_session s = nullptr"

text \<open>The last calls of an initialization that got as far as the engine: the engine was made on the session
  the node has, or could not be made, and the session was destroyed.\<close>

definition engine_made :: "('w, 'p, 'i) sv_lib \<Rightarrow> ('w, 'j, 'c) EvaNode \<Rightarrow> bool" where
  "engine_made L s \<longleftrightarrow> (\<exists>w0. Engine_Create L (en_session s) w0 = (en_engine s, en_world s))"

definition engine_refused :: "('w, 'p, 'i) sv_lib \<Rightarrow> ('w, 'j, 'c) EvaNode \<Rightarrow> bool" where
  "engine_refused L s \<longleftrightarrow> en_engine s = nullptr \<and>
     (\<exists>h w0 w. h \<noteq> nullptr \<and> Engine_Create L h w0 = (nullptr, w) \<and> en_world s = snd (Session_Destroy L h w))"

lemma create_engine_outcome:
  assumes "create_engine L s = (ret, s1)" "en_state s = QC_OBJECT_STATE_READY" "en_session s \<noteq> nullptr"
  shows "if ret = QC_STATUS_OK then initialized s1 \<and> engine_made L s1
    else ret = QC_STATUS_FAIL \<and> stranded s1 \<and> engine_refused L s1"
proof -
  obtain h w where e: "Engine_Create L (en_session s) (en_world s) = (h, w)" by fastforce
  show ?thesis
  proof (cases "h = nullptr")
    case True
    with e assms have "ret = QC_STATUS_FAIL" "stranded s1" "en_engine s1 = nullptr"
      "en_world s1 = snd (Session_Destroy L (en_session s) w)"
      by (auto simp: create_engine_def eva_world_def stranded_def case_prod_unfold Let_def)
    with True e assms(3) show ?thesis by (auto simp: engine_refused_def)
  next
    case False
    with e assms show ?thesis
      by (auto simp: create_engine_def eva_world_def initialized_def engine_made_def Let_def)
  qed
qed

lemma configure_outcome:
  assumes "configure L params s = (ret, s1)"
  shows "en_session s1 = en_session s \<and> en_engine s1 = en_engine s \<and>
    (if ret = QC_STATUS_OK then en_state s1 = QC_OBJECT_STATE_READY else en_state s1 = en_state s)"
  using assms same_objects_set_config [of s L "params (en_config s) (en_imageInfo s)"]
  by (auto simp: configure_def same_objects_def case_prod_unfold Let_def)

lemma create_session_outcome:
  assumes "create_session L s = (ret, s1)"
  shows "en_state s1 = en_state s \<and> en_engine s1 = en_engine s \<and>
    (ret = QC_STATUS_OK \<longrightarrow> en_session s1 \<noteq> nullptr)"
  using assms by (auto simp: create_session_def eva_world_def case_prod_unfold Let_def)

lemma eva_Initialize_outcome:
  assumes run: "eva_Initialize env verify nodeId n img params config s = Some (ret, s1)"
    and verify: "\<And>r s1. verify config s = Some (r, s1) \<Longrightarrow> same_objects s s1"
  shows "if ret = QC_STATUS_OK then initialized s1 \<and> engine_made (ee_sv env) s1
    else en_state s1 = en_state s \<and> en_engine s1 = en_engine s \<or>
      ret = QC_STATUS_FAIL \<and> stranded s1 \<and> engine_refused (ee_sv env) s1"
proof -
  let ?L = "ee_sv env"
  obtain ret0 errors t0 where 0: "verify config s = Some ((ret0, errors), t0)"
    using run by (auto simp: eva_Initialize_def Let_def)
  define r1 where "r1 = if_ok (ret0, t0) (\<lambda>s. eva_base_init env (nodeId (en_config s)) s)"
  define r2 where "r2 = if_ok r1 (\<lambda>s. query_image ?L n (img (en_config s)) s)"
  define r3 where "r3 = if_ok r2 (create_session ?L)"
  define r4 where "r4 = if_ok r3 (configure ?L params)"
  have r: "(ret, s1) = if_ok r4 (create_engine ?L)"
    using run 0 by (simp add: eva_Initialize_def r1_def r2_def r3_def r4_def Let_def)
  have "same_objects s (snd r1)"
    using verify [OF 0] same_objects_base_init [of t0 env "nodeId (en_config t0)"]
    by (simp add: r1_def if_ok_def same_objects_def)
  then have 2: "en_state (snd r2) = en_state s \<and> en_engine (snd r2) = en_engine s"
    using same_objects_query_image [of "snd r1" ?L n "img (en_config (snd r1))"]
    by (simp add: r2_def if_ok_def same_objects_def case_prod_unfold)
  then have 3: "en_state (snd r3) = en_state s \<and> en_engine (snd r3) = en_engine s \<and> (fst r3 = QC_STATUS_OK \<longrightarrow> en_session (snd r3) \<noteq> nullptr)"
    using create_session_outcome [OF prod.collapse [symmetric], of ?L "snd r2"]
    by (simp add: r3_def if_ok_def case_prod_unfold)
  then have 4: "if fst r4 = QC_STATUS_OK then en_state (snd r4) = QC_OBJECT_STATE_READY \<and> en_session (snd r4) \<noteq> nullptr
      else en_state (snd r4) = en_state s \<and> en_engine (snd r4) = en_engine s"
    using configure_outcome [OF prod.collapse [symmetric], of ?L params "snd r3"]
    by (auto simp: r4_def if_ok_def case_prod_unfold split: if_splits)
  then show ?thesis using r create_engine_outcome [of ?L "snd r4" ret s1]
    by (cases r4) (auto simp: if_ok_def split: if_splits)
qed

text \<open>With no session, every way on is undefined.\<close>

lemma stranded_stuck:
  assumes "stranded s"
  shows "eva_Start L ps s = None" "eva_DeInitialize L s = None" "eva_Stop L s = Some (QC_STATUS_BAD_STATE, s)"
proof -
  show "eva_Start L ps s = None" "eva_Stop L s = Some (QC_STATUS_BAD_STATE, s)"
    using assms by (simp_all add: stranded_def eva_Start_def eva_Stop_def)
  have "en_session (snd (deregister_all L (en_memMap s) (eva_call (Engine_Destroy L (en_engine s)) s))) = nullptr"
    using assms deregister_all_session [of L "en_memMap s" "eva_call (Engine_Destroy L (en_engine s)) s"]
    by (simp add: stranded_def eva_call_def eva_world_def split: prod.splits)
  with assms show "eva_DeInitialize L s = None"
    by (simp add: eva_DeInitialize_def stranded_def case_prod_unfold Let_def)
qed

lemma DeInitialize_stranded:
  assumes "eva_DeInitialize L s = Some (ret, s1)" "en_state s = QC_OBJECT_STATE_READY"
  shows "stranded s1 \<and> en_memMap s1 = []"
proof -
  have "en_state (snd (deregister_all L (en_memMap s) (eva_call (Engine_Destroy L (en_engine s)) s))) =
      QC_OBJECT_STATE_READY"
    using assms(2) deregister_all_session [of L "en_memMap s" "eva_call (Engine_Destroy L (en_engine s)) s"]
    by (simp add: eva_call_def eva_world_def split: prod.splits)
  with assms show ?thesis
    by (auto simp: eva_DeInitialize_def stranded_def note_failure_def eva_call_def eva_world_def
        case_prod_unfold Let_def split: if_splits)
qed

text \<open>C36: Initializing an optical flow node that succeeds leaves it ready with a session and the engine
  that was created on it. When it fails before the engine is asked for, the state and the engine of the node are what
  they were. Otherwise the engine could not be created on a session that had been: the session was destroyed and
  the node is left in the state \<^verbatim>\<open>READY\<close> without one, where
  starting and de-initialising call a method of a null pointer.\<close>

theorem ofl_initialize_outcome:
  assumes "OFL_Initialize env config s = Some (ret, s1)"
  shows "if ret = QC_STATUS_OK then initialized s1 \<and> engine_made (ee_sv env) s1
    else en_state s1 = en_state s \<and> en_engine s1 = en_engine s \<or>
      ret = QC_STATUS_FAIL \<and> engine_refused (ee_sv env) s1 \<and> stranded s1 \<and>
      OFL_Start L s1 = None \<and> OFL_DeInitialize L s1 = None"
  using eva_Initialize_outcome [OF assms [unfolded OFL_Initialize_def]]
  by (auto simp: OFL_VerifyAndSet_def same_objects_VerifyAndSet stranded_stuck OFL_Start_def OFL_DeInitialize_def
      split: if_splits)

text \<open>C37: De-initialising a depth from stereo node leaves it in the state \<^verbatim>\<open>READY\<close> without a session, so that starting
  it or de-initialising it again calls a method of a null pointer instead of being refused.\<close>

theorem dfs_deinitialize_stuck:
  assumes "DFS_DeInitialize L s = Some (ret, s1)" and "en_state s = QC_OBJECT_STATE_READY"
  shows "en_state s1 = QC_OBJECT_STATE_READY \<and> en_session s1 = nullptr \<and> en_memMap s1 = [] \<and>
    DFS_Start L s1 = None \<and> DFS_DeInitialize L s1 = None \<and> DFS_Stop L s1 = Some (QC_STATUS_BAD_STATE, s1) \<and>
    DFS_ProcessFrameDescriptor L fd s1 = Some (QC_STATUS_BAD_STATE, s1)"
proof -
  have "stranded s1" "en_memMap s1 = []"
    using DeInitialize_stranded [OF assms(1) [unfolded DFS_DeInitialize_def] assms(2)] by simp_all
  then show ?thesis
    by (simp add: stranded_stuck DFS_Start_def DFS_DeInitialize_def DFS_Stop_def DFS_ProcessFrameDescriptor_def)
      (simp add: stranded_def)
qed

subsection \<open>Incomplete confidence maps\<close>

text \<open>A buffer the node knows.\<close>

definition known :: "('w, 'j, 'c) EvaNode \<Rightarrow> 'd BufferDescriptor_scheme \<Rightarrow> SvBuffer \<Rightarrow> bool" where
  "known s d b \<longleftrightarrow> pBuf d \<noteq> nullptr \<and> map_of (en_memMap s) (BufferDescriptor_GetDataPtr d) = Some b"

lemma RegisterMemory_known [simp]: "known s d b \<Longrightarrow> eva_RegisterMemory L d s = (Inr b, s)"
  by (simp add: known_def eva_RegisterMemory_def)

text \<open>What a bidirectional frame with confidence that is ready to be processed has.\<close>

definition two_way_frame ::
  "any_buffer option list \<Rightarrow> ('w, 'j) OpticalFlow \<Rightarrow> SvBuffer \<Rightarrow> SvBuffer \<Rightarrow> SvBuffer \<Rightarrow> SvBuffer \<Rightarrow> bool" where
  "two_way_frame fd s b1 b2 b3 b4 \<longleftrightarrow>
     (let c = en_config s; m = of_bufferMap c;
          valid = eva_ValidateImageDesc (of_imageFormat c) (of_width c) (of_height c) (en_imageInfo s)
      in en_state s = QC_OBJECT_STATE_RUNNING \<and> en_engine s \<noteq> nullptr \<and> of_confidenceOutputEn c \<and>
         of_motionDirection c = MOTION_DIRECTION_BIDIRECTIONAL \<and>
         (\<exists>d1 d2 d3 d4. frame_image fd (referenceImageBufferId m) = Some d1 \<and> valid d1 = Some QC_STATUS_OK \<and>
            frame_image fd (currentImageBufferId m) = Some d2 \<and> valid d2 = Some QC_STATUS_OK \<and>
            frame_tensor fd (fwdMotionBufferId m) = Some d3 \<and> frame_tensor fd (bwdMotionBufferId m) = Some d4 \<and>
            known s d1 b1 \<and> known s d2 b2 \<and> known s d3 b3 \<and> known s d4 b4))"

lemma two_way_frame_submits:
  assumes f: "two_way_frame fd s b1 b2 b3 b4"
  shows "OFL_ProcessFrameDescriptor L fd s =
    (case conf_maps L (en_config s) fd s of
       ((ret, s1), fwdConf, bwdConf) \<Rightarrow>
         if ret \<noteq> QC_STATUS_OK then Some (ret, s1)
         else eva_submit L \<lparr>lj_imageInfo = en_imageInfo s, lj_src = b1, lj_dst = b2,
                lj_fwdMotionMap = Some b3, lj_fwdConfMap = fwdConf, lj_bwdMotionMap = Some b4,
                lj_bwdConfMap = bwdConf\<rparr> s1)"
  using f
  by (auto simp: two_way_frame_def OFL_ProcessFrameDescriptor_def validate_two_def with_buffer_def
      with_motion_map_def Let_def)

text \<open>C38: A bidirectional frame of an optical flow node that lacks one of the two confidence maps the configuration asks
  for is refused when the backward map is missing. When the forward map is missing the failure is overwritten,
  and the frame is submitted with the address of that map left zero.\<close>

theorem ofl_missing_confidence_submitted:
  assumes "two_way_frame fd s b1 b2 b3 b4" and "known s d b"
  shows "(frame_tensor fd (fwdConfBufferId (of_bufferMap (en_config s))) = Some d \<and>
      frame_tensor fd (bwdConfBufferId (of_bufferMap (en_config s))) = None \<longrightarrow>
        OFL_ProcessFrameDescriptor L fd s = Some (QC_STATUS_FAIL, s)) \<and>
    (frame_tensor fd (fwdConfBufferId (of_bufferMap (en_config s))) = None \<and>
      frame_tensor fd (bwdConfBufferId (of_bufferMap (en_config s))) = Some d \<longrightarrow>
        OFL_ProcessFrameDescriptor L fd s =
          Some (eva_call (SubmitSync L (en_engine s)
            \<lparr>lj_imageInfo = en_imageInfo s, lj_src = b1, lj_dst = b2, lj_fwdMotionMap = Some b3,
             lj_fwdConfMap = None, lj_bwdMotionMap = Some b4, lj_bwdConfMap = Some b\<rparr>) s))"
proof -
  have "of_confidenceOutputEn (en_config s)" "en_engine s \<noteq> nullptr"
      "of_motionDirection (en_config s) = MOTION_DIRECTION_BIDIRECTIONAL"
    using assms(1) by (simp_all add: two_way_frame_def Let_def)
  then show ?thesis unfolding two_way_frame_submits [OF assms(1)] using assms(2)
    by (simp add: conf_maps_def conf_map_def eva_submit_def Let_def)
qed

definition one_conf_node :: "(nat \<times> lme_job sv_event list, unit) OpticalFlow" where
  "one_conf_node = (demo_eva QC_OBJECT_STATE_RUNNING demo_ofl_config)\<lparr>en_memMap := map (\<lambda>k.
     (65536 * k, \<lparr>sb_nSize = 4096, sb_nOffset = 0, sb_pAddress = 65536 * k, sb_hHandle = 99 + k\<rparr>)) [1, 2, 3, 4, 6]\<rparr>"

definition one_conf_frame :: "any_buffer option list" where
  "one_conf_frame = map demo_image [0, 1] @ map demo_tensor [2, 3] @ [None, demo_tensor 5]"

subsection \<open>Witnesses\<close>

text \<open>A node whose logger is set up, over a library that cannot create the engine. The configuration is that of
  \<open>noise_json\<close>.\<close>

definition no_engine :: "(nat, lme_param, lme_job) sv_lib" where
  "no_engine = demo_sv\<lparr>Engine_Create := \<lambda>h w. (nullptr, w)\<rparr>"

definition stranded_env :: "(nat, bool, lme_param, lme_job) eva_env" where
  "stranded_env = noise_env demo_log
     \<lparr>s_logFnc = 1, s_createFnc = 2, s_destroyFnc = 3, s_defaultLogger = Logger_new 0 0 0\<rparr> no_engine"

definition stranded_node :: "(nat, bool) OpticalFlow" where
  "stranded_node = OpticalFlow_new
     \<lparr>en_world = 0, en_node = \<lparr>m_nodeId = \<lparr>n_name = '''', n_type = 0, n_id = 0\<rparr>, m_logger = (Logger_new 0 0 0)\<lparr>m_hHandle := 16\<rparr>\<rparr>,
      en_configIfs = \<lparr>m_bLoggerInit = True, m_dataTree = False\<rparr>, en_config = demo_ofl_config,
      en_state = QC_OBJECT_STATE_INITIAL,
      en_imageInfo = \<lparr>nPlanes = 0, nWidthStride = [0, 0, 0, 0], nAlignedSize = [0, 0, 0, 0]\<rparr>,
      en_session = nullptr, en_engine = nullptr, en_memMap = []\<rparr>"

lemma OFL_noise_accepted:
  "OFL_ParseStaticConfig (noise_env B st L) False '''' c =
     Some ((QC_STATUS_OK, ''''), OFL_read_config (noise_env B st L) False QC_IMAGE_FORMAT_NV12 c)"
proof -
  have "\<not> list_ex fst (OFL_checks (noise_env B st L) False QC_IMAGE_FORMAT_NV12)"
    by (simp add: OFL_checks_def Let_def DT_Get_def find_key_flat flat_key_def noise_env_def noise_json_def
        f32_outside_def f32_less_def f32_nan_def f32_key_def word_le_nat_alt)
  moreover have "DT_GetImageFormat noise_json False ''format'' QC_IMAGE_FORMAT_NV12 = Some QC_IMAGE_FORMAT_NV12"
    by (simp add: DT_GetImageFormat_def find_key_flat flat_key_def noise_json_def)
  moreover have "ee_json (noise_env B st L) = noise_json" by (simp add: noise_env_def)
  ultimately show ?thesis
    by (simp add: OFL_ParseStaticConfig_def OFL_VerifyStaticConfig_def check_all_eq list_ex_iff filter_empty_conv)
qed

lemma stranded_VerifyAndSet:
  "\<exists>s1. OFL_VerifyAndSet stranded_env '''' stranded_node = Some ((QC_STATUS_OK, ''''), s1) \<and>
     m_hHandle (m_logger (en_node s1)) \<noteq> nullptr"
proof -
  have env: "ee_json stranded_env = noise_json" by (simp add: stranded_env_def noise_env_def)
  have tree: "DT_GetTree noise_json True ''static'' dt = (QC_STATUS_OK, False)" for dt
    by (simp add: DT_GetTree_def find_key_flat flat_key_def noise_json_def)
  have "NodeConfigBase_VerifyAndSet noise_json g B st '''' (en_configIfs stranded_node) lg w =
      ((QC_STATUS_OK, ''''), \<lparr>m_bLoggerInit = True, m_dataTree = True\<rparr>, lg, w)" for g B st lg and w :: nat
    by (simp add: NodeConfigBase_VerifyAndSet_def DT_Load_def noise_json_def stranded_node_def OpticalFlow_new_def)
  with tree show ?thesis
    by (simp add: OFL_VerifyAndSet_def eva_VerifyAndSet_def env Let_def)
      (simp add: stranded_env_def OFL_noise_accepted stranded_node_def OpticalFlow_new_def Logger_new_def)
qed

lemma no_engine_config: "set_config no_engine ps s = (QC_STATUS_OK, s)"
  by (induction ps) (simp_all add: no_engine_def demo_sv_def eva_call_def eva_world_def if_ok_def)

lemma stranded_Initialize:
  "\<exists>s1. OFL_Initialize stranded_env '''' stranded_node = Some (QC_STATUS_FAIL, s1) \<and>
     en_state s1 = QC_OBJECT_STATE_READY"
proof -
  obtain s1 where v: "OFL_VerifyAndSet stranded_env '''' stranded_node = Some ((QC_STATUS_OK, ''''), s1)"
      "m_hHandle (m_logger (en_node s1)) \<noteq> nullptr" using stranded_VerifyAndSet by blast
  have sv: "ee_sv stranded_env = no_engine" by (simp add: stranded_env_def noise_env_def)
  have base: "fst (eva_base_init stranded_env nodeId s1) = QC_STATUS_OK" for nodeId
    using v(2) by (simp add: eva_base_init_def NodeBase_Init_def Logger_Init_def)
  have query: "fst (query_image no_engine n img s) = QC_STATUS_OK" for n img and s :: "(nat, bool) OpticalFlow"
    by (simp add: query_image_def eva_world_def no_engine_def demo_sv_def case_prod_unfold)
  have session: "fst (create_session no_engine s) = QC_STATUS_OK" for s :: "(nat, bool) OpticalFlow"
    by (simp add: create_session_def eva_world_def no_engine_def demo_sv_def)
  have engine: "fst (create_engine no_engine s) = QC_STATUS_FAIL \<and>
      en_state (snd (create_engine no_engine s)) = en_state s" for s :: "(nat, bool) OpticalFlow"
    by (simp add: create_engine_def eva_world_def no_engine_def demo_sv_def)
  show ?thesis
    by (simp add: OFL_Initialize_def eva_Initialize_def v(1) sv Let_def if_ok_def case_prod_unfold base query session
        engine configure_def no_engine_config prod_eq_iff)
qed

theorem ofl_initialize_outcome_witness:
  "\<exists>s1. OFL_Initialize stranded_env '''' stranded_node = Some (QC_STATUS_FAIL, s1) \<and> stranded s1 \<and>
     engine_refused no_engine s1 \<and> OFL_Start no_engine s1 = None"
proof -
  obtain s1 where "OFL_Initialize stranded_env '''' stranded_node = Some (QC_STATUS_FAIL, s1)"
      "en_state s1 = QC_OBJECT_STATE_READY" using stranded_Initialize by blast
  moreover have "en_state stranded_node = QC_OBJECT_STATE_INITIAL"
    by (simp add: stranded_node_def OpticalFlow_new_def)
  moreover have "ee_sv stranded_env = no_engine" by (simp add: stranded_env_def noise_env_def)
  ultimately show ?thesis using ofl_initialize_outcome [of stranded_env "''''" stranded_node _ s1 no_engine] by auto
qed

theorem dfs_deinitialize_stuck_witness:
  "\<exists>ret s1. DFS_DeInitialize (log_sv demo_sv) (demo_eva QC_OBJECT_STATE_READY demo_dfs_config) = Some (ret, s1) \<and>
     DFS_Start (log_sv demo_sv) s1 = None \<and> DFS_DeInitialize (log_sv demo_sv) s1 = None"
proof -
  let ?s = "demo_eva QC_OBJECT_STATE_READY demo_dfs_config :: (nat \<times> sd_job sv_event list, unit) DepthFromStereo"
  have "en_state ?s = QC_OBJECT_STATE_READY" "en_engine ?s \<noteq> nullptr" "en_session ?s \<noteq> nullptr"
    by (simp_all add: demo_eva_def)
  with DeInitialize_history [of ?s demo_sv] dfs_deinitialize_stuck [of "log_sv demo_sv" ?s] show ?thesis
    by (metis DFS_DeInitialize_def)
qed

lemma one_conf_ready:
  "\<exists>b. two_way_frame one_conf_frame one_conf_node
     \<lparr>sb_nSize = 4096, sb_nOffset = 0, sb_pAddress = 65536, sb_hHandle = 100\<rparr>
     \<lparr>sb_nSize = 4096, sb_nOffset = 0, sb_pAddress = 131072, sb_hHandle = 101\<rparr>
     \<lparr>sb_nSize = 4096, sb_nOffset = 0, sb_pAddress = 196608, sb_hHandle = 102\<rparr>
     \<lparr>sb_nSize = 4096, sb_nOffset = 0, sb_pAddress = 262144, sb_hHandle = 103\<rparr> \<and>
   known one_conf_node (the (frame_tensor one_conf_frame 5)) b"
proof -
  have frame: "frame_image one_conf_frame 0 = any_ImageDescriptor (the (demo_image 0))"
      "frame_image one_conf_frame 1 = any_ImageDescriptor (the (demo_image 1))"
      "frame_tensor one_conf_frame 2 = any_TensorDescriptor (the (demo_tensor 2))"
      "frame_tensor one_conf_frame 3 = any_TensorDescriptor (the (demo_tensor 3))"
      "frame_tensor one_conf_frame 5 = any_TensorDescriptor (the (demo_tensor 5))"
    by (simp_all add: frame_image_def frame_tensor_def frame_get_def one_conf_frame_def demo_image_def demo_tensor_def)
  show ?thesis
    by (simp add: two_way_frame_def frame one_conf_node_def demo_eva_def demo_ofl_config_def
        OpticalFlow_Config_new_def known_def BufferDescriptor_GetDataPtr_def demo_image_def demo_tensor_def
        eva_ValidateImageDesc_def ImageDescriptor_init_def BufferDescriptor_init_def QCBufferDescriptorBase_init_def
        BufferDescriptor.defs QCBufferDescriptorBase.defs upt_rec Let_def)
qed

theorem ofl_missing_confidence_submitted_witness:
  "\<exists>job. OFL_ProcessFrameDescriptor (log_sv demo_sv) one_conf_frame one_conf_node =
     Some (eva_call (SubmitSync (log_sv demo_sv :: (nat \<times> lme_job sv_event list) lme_lib)
       (en_engine one_conf_node) job) one_conf_node) \<and>
     lj_fwdConfMap job = None \<and> lj_bwdConfMap job \<noteq> None"
proof -
  obtain b where ready: "two_way_frame one_conf_frame one_conf_node
     \<lparr>sb_nSize = 4096, sb_nOffset = 0, sb_pAddress = 65536, sb_hHandle = 100\<rparr>
     \<lparr>sb_nSize = 4096, sb_nOffset = 0, sb_pAddress = 131072, sb_hHandle = 101\<rparr>
     \<lparr>sb_nSize = 4096, sb_nOffset = 0, sb_pAddress = 196608, sb_hHandle = 102\<rparr>
     \<lparr>sb_nSize = 4096, sb_nOffset = 0, sb_pAddress = 262144, sb_hHandle = 103\<rparr>"
    "known one_conf_node (the (frame_tensor one_conf_frame 5)) b" using one_conf_ready by blast
  obtain d where d: "frame_tensor one_conf_frame 5 = Some d"
    by (simp add: frame_tensor_def frame_get_def one_conf_frame_def demo_tensor_def)
  have none: "frame_tensor one_conf_frame 4 = None"
    by (simp add: frame_tensor_def frame_get_def one_conf_frame_def)
  have "of_bufferMap (en_config one_conf_node) = of_bufferMap demo_ofl_config"
    by (simp add: one_conf_node_def demo_eva_def)
  then have ids: "fwdConfBufferId (of_bufferMap (en_config one_conf_node)) = 4"
      "bwdConfBufferId (of_bufferMap (en_config one_conf_node)) = 5"
    by (simp_all add: demo_ofl_config_def OpticalFlow_Config_new_def)
  have "known one_conf_node d b" using ready(2) d by simp
  note submitted = ofl_missing_confidence_submitted [OF ready(1) this, of "log_sv demo_sv", unfolded ids,
      THEN conjunct2, THEN mp, OF conjI, OF none d]
  show ?thesis by (intro exI conjI, rule submitted) simp_all
qed

end
