(* ===== verification/Spec2Isabelle.thy ===== *)
theory Spec2Isabelle
  imports QC_PoolProps QC_Pmem QC_DescriptorProps QC_ImageProps QC_DataTreeProps QC_NodeTraceProps
    QC_Frame QC_Factory QC_VidcRun QC_CameraRun QC_EvaLife
begin

text \<open>
  QCNode is a C++ library of processing nodes for vision pipelines, and the infrastructure they share:
  a memory manager with pools and allocators, buffer descriptors, image layouts, configuration trees,
  logging, tracing, frame descriptors, factories, and nodes that drive the camera, the video codec and the engine
  for visual analytics. This development
  models that code, component by component, and proves what makes each component correct. The sources are
  named relative to the root of the repository.

  \<^bold>\<open>How the code is modelled.\<close> A class is a record of its members and an operation a function from the state
  and the arguments to the status, the results and the new state. An operation that can run into undefined
  behaviour, an index past the end of a vector for instance, or throw, returns an option and is then
  \<open>None\<close>. Unsigned integers are words of their width; where the code mixes widths the casts are written out.
  An enumeration is a datatype, or a number where the code compares or indexes with it. What the code calls
  outside the repository (the kernel, the camera library, the codec driver, the JSON library, the logging backend) is a record of
  functions with a state of its own, and a theorem that relies on documented behaviour of it states that as a
  named hypothesis (\<open>heap_ok\<close>, \<open>dma_os_laws\<close>, \<open>pmem_os_laws\<close>, \<open>json_laws\<close>), which holds of a concrete instance in
  the theorem's witness. Mutexes are not modelled: an operation is one atomic step, except where it sleeps and
  the driver's messages are handled.

  \<^bold>\<open>Shared theories.\<close> \<open>QC_Prelude\<close>: integer types, ordered containers as sorted lists, lemmas on lists, maps and
  words. \<open>QC_Types\<close>: enumerations, buffer requests and descriptors, handles and their orders
  (\<^verbatim>\<open>include/QC/Common/QCDefs.hpp\<close>, \<^verbatim>\<open>Types.hpp\<close>, \<^verbatim>\<open>include/QC/Infras/Memory/Ifs\<close>).

  \<^bold>\<open>Memory manager\<close> (\<^verbatim>\<open>source/Infras/Memory/ManagerLocal.cpp\<close>). \<open>QC_Allocator\<close> has the allocator interface with
  its contract, the locale \<open>allocator_contract\<close>, and the heap allocator; \<open>QC_Pool\<close> the pool
  (\<^verbatim>\<open>include/QC/Infras/Memory/Pool.hpp\<close>); \<open>QC_ManagerLocal\<close> one definition \<open>ML_\<close>\<^emph>\<open>operation\<close> per operation of the manager.
  \<open>QC_ManagerSession\<close> is the step relation of a client, over any number of sessions from the constructor on,
  \<open>QC_ManagerInv\<close> the invariant of the tables and when an operation is defined, \<open>QC_ManagerOwn\<close> the
  accounting of blocks, and \<open>QC_ManagerProps\<close> and \<open>QC_PoolProps\<close> the properties. De-initialising keeps the
  handle registry, so a handle of an earlier session can be stale: its node id is outside the present one.
  Memory safety holds over any run; an operation is undefined exactly when its handle is stale, never
  before the first de-initialisation; de-initialisation and un-registering release exactly what they should
  when they are defined; the pool refines a queue and never loses a buffer; and some error paths leak.

  \<^bold>\<open>DMA memory\<close>. \<open>QC_Dma\<close> (\<^verbatim>\<open>DMABUFFAllocator.cpp\<close>, \<^verbatim>\<open>DMABUFFUtils.cpp\<close>) and \<open>QC_Pmem\<close> (\<^verbatim>\<open>PMEMAllocator.cpp\<close>,
  \<^verbatim>\<open>PMEMUtils.cpp\<close>): allocation and mapping are all or nothing and are undone by their counterparts, with the
  exceptions the code has (a leaked file descriptor, a size cut to 32 bits).

  \<^bold>\<open>Descriptors and layouts\<close>. \<open>QC_Descriptors\<close> has the descriptors of buffers, tensors, images, camera and video
  frames and their assignments, with what they copy and the camera's that is not limited to its arrays,
  \<open>QC_DescriptorProps\<close> what a copy means to the manager. \<open>QC_Image\<close> and
  \<open>QC_ImageProps\<close> (\<^verbatim>\<open>UtilsBase.cpp\<close>, \<^verbatim>\<open>ImageDescriptor.cpp\<close>): sizes of tensors and images, what the layout check
  admits, compressed formats included, when the platform's layout passes as an explicit one, and that tensor
  views, luma and chroma views and batch views lie within the image.

  \<^bold>\<open>Configuration and tracing\<close>. \<open>QC_DataTree\<close> and \<open>QC_DataTreeProps\<close> (\<^verbatim>\<open>DataTree.cpp\<close>): reading back what was
  written, and the enumerations. \<open>QC_NodeTrace\<close> and \<open>QC_NodeTraceProps\<close> (\<^verbatim>\<open>NodeTrace.cpp\<close> and
  \<^verbatim>\<open>scripts/utils/systrace/systrace.py\<close>): the writer stays in its buffer, and the reader, up to the strings and
  the dict of arguments of an event, recovers every event or raises because a string is not UTF-8; the table
  of \<^verbatim>\<open>str.upper\<close> beyond ASCII is a parameter.

  \<^bold>\<open>Frames and factories\<close>. \<open>QC_Frame\<close> (\<^verbatim>\<open>NodeFrameDescriptor.hpp\<close>, \<^verbatim>\<open>NodeFrameDescriptorPool.hpp\<close>): clients of the
  pool never share a frame, and a frame given back comes again, cleared. \<open>QC_Factory\<close> (\<^verbatim>\<open>QCMemoryFactory.cpp\<close>, \<^verbatim>\<open>QCNodeFactory.cpp\<close>): what the factories create
  is what they list.

  \<^bold>\<open>Node base\<close>. \<open>QC_NodeBase\<close> (\<^verbatim>\<open>source/Common/Logger.cpp\<close>, \<^verbatim>\<open>source/Node/Base/NodeBase.cpp\<close>): the logger, the common
  part of a configuration and of a node.

  \<^bold>\<open>Video codec\<close>. \<open>QC_VidcDrv\<close> (\<^verbatim>\<open>source/Library/VideoCodec/VidcDrvClient.cpp\<close>) is the client of the driver:
  requests, messages, the polling loop and the maps of buffers. \<open>QC_VidcNode\<close> (\<^verbatim>\<open>VidcNodeBase.cpp\<close>) is what both
  nodes share, \<open>QC_VideoEncoder\<close> and \<open>QC_VideoDecoder\<close> are the nodes. A node's record extends the client's. The
  driver, \<open>vidc_os\<close>, delivers messages during the sleeps of an operation and, as steps of their own, between
  operations. \<open>QC_VidcLevel\<close>: the polling loop ends, by a measure, and which level the encoder chooses.
  \<open>QC_VidcSafety\<close>: the driver is wrapped so that it keeps a history, and the locales \<open>codec_invariant\<close>,
  \<open>codec_close_invariant\<close>, \<open>codec_map_invariant\<close> and \<open>codec_idle_invariant\<close> say what a property of a node must
  survive for the operations to keep it. \<open>QC_VidcReach\<close> interprets them, for the invariant that buffers the driver
  holds are in use, for the idle driver and for the open session, and has the life cycle and the safety of
  every run. \<open>QC_VidcDemo\<close> and \<open>QC_VidcRun\<close> are a driver and a run from construction to a running encoder whose
  output buffers are with the driver.

  \<^bold>\<open>Camera\<close>. \<open>QC_CameraImpl\<close> (\<^verbatim>\<open>source/Node/Camera/CameraImpl.cpp\<close>) is the session: the record \<open>CameraImpl\<close>, the library
  \<open>qcarcam\<close> as a parameter, the setting and importing of buffers, requests with and without a pattern, the life
  cycle and the events. \<open>QC_Camera\<close> (\<^verbatim>\<open>CameraConfig.cpp\<close>, \<^verbatim>\<open>Camera.cpp\<close>) is the node around it. \<open>QC_CameraRequests\<close> wraps
  the library so that it keeps the requests it got, and shows which streams a request contains;
  \<open>QC_CameraSafety\<close> has the sessions, from a first start to the next, as an inductive relation between the state and
  who has which buffer: no buffer is in two places. \<open>QC_CameraLife\<close> has the locale \<open>buffers_invariant\<close>, what operations on buffers leave
  alone, with its interpretation on the rest of the session, what initialization establishes, the automaton of the
  life cycle, and the restart that submits buffers twice. \<open>QC_CameraFrames\<close>: the planes given to the library and, over
  any traffic of frames and buffers handed back, the frames given to the application. \<open>QC_CameraRun\<close>: a session of two streams, evaluated.

  \<^bold>\<open>Engine for visual analytics.\<close> The optical flow node (\<^verbatim>\<open>source/Node/OpticalFlow/OpticalFlow.cpp\<close>) and the node for
  depth from stereo (\<^verbatim>\<open>source/Node/DepthFromStereo/DepthFromStereo.cpp\<close>) are the same code on two classes of a library:
  \<open>QC_Eva\<close> has the shared part, over the configuration, the parameters and the jobs, with the library as the
  parameter \<open>sv_lib\<close>; \<open>QC_OpticalFlow\<close> and \<open>QC_DepthFromStereo\<close> instantiate it with their configurations, checks and
  frames. \<open>QC_EvaProps\<close> wraps the library so that it keeps a history and has the locale \<open>eva_invariant\<close>, what a
  property must survive for a session to keep it, extended by \<open>ofl_invariant\<close> and \<open>dfs_invariant\<close> for the frames of the
  two nodes. \<open>QC_EvaRun\<close> interprets both on the accounting of registrations and has the sessions.
  \<open>QC_EvaConfig\<close>: what accepted configurations satisfy. \<open>QC_EvaLife\<close>: what initializing and de-initialising leave, and frames
  without a confidence map.

  \<^bold>\<open>Loops and bounds.\<close> No definition uses fuel: loops over containers are structural recursions, the polling loop
  and the scan of a path have a measure. Bounds of the code (pools per node, planes, dimensions, buffer
  sizes) are constants of the model with the values of the code.

  \<^bold>\<open>Not modelled.\<close> Locks and data races, beyond the atomicity said above. Printing. The other nodes
  (\<^verbatim>\<open>source/Node\<close>: QNN, CL2DFlex, Remap, Voxelization, Radar, SimulationNode)
  and their libraries (\<^verbatim>\<open>FadasIface\<close>, \<^verbatim>\<open>OpenclIface\<close>, \<^verbatim>\<open>RadarIface\<close>). The
  backends of the logger (\<^verbatim>\<open>Logger_Linux.cpp\<close>, \<^verbatim>\<open>Logger_QNX.cpp\<close>), which only print. \<^verbatim>\<open>source/Common/Tensor.cpp\<close>,
  which no build file names and whose header is not in the repository. Samples, tests and scripts, except the trace reader.
\<close>

end
